(* ===== verification/Prelude.thy ===== *)
theory Prelude
  imports Complex_Main "HOL-Library.Multiset" "HOL-Library.AList" "HOL-Library.Sublist"
begin

text \<open>
  The part of the JavaScript language the frontend relies on, shared by every component:
  strings as sequences of UTF-16 code units, the array operations the sources call
  (\<open>find\<close>, \<open>findIndex\<close>, \<open>slice\<close>, \<open>sort\<close>), \<open>Set\<close> and \<open>Map\<close> with their insertion order, and
  the exceptions the sources throw.  The generic lemmas the component theories use are
  collected here, those that drive automation in \<open>js_string\<close>, \<open>js_collection\<close> and
  \<open>js_sorting\<close>.
\<close>

named_theorems js_string \<open>facts about string literals and string operations\<close>
named_theorems js_collection \<open>facts about JavaScript sets and maps\<close>
named_theorems js_sorting \<open>facts about the stable sort\<close>

section \<open>Strings\<close>

text \<open>
  A JavaScript string is a sequence of 16-bit code units.  A unit is a natural number, so
  that \<open>length\<close> is the source's \<open>length\<close> and \<open>take\<close> its \<open>slice\<close>; \<open>js\<close> reads an ASCII
  literal of the sources.
\<close>

type_synonym jsstring = "nat list"

definition js :: "string \<Rightarrow> jsstring" where
  "js s = map of_char s"

lemma js_Nil [simp, js_string]: "js [] = []"
  by (simp add: js_def)

lemma js_eq_iff [simp, js_string]: "js s = js t \<longleftrightarrow> s = t"
proof -
  have "inj (of_char :: char \<Rightarrow> nat)"
    by (rule injI) simp
  then show ?thesis
    by (simp add: js_def inj_map_eq_map)
qed

lemma js_eq_Nil [simp, js_string]: "js s = [] \<longleftrightarrow> s = []" "[] = js s \<longleftrightarrow> s = []"
  by (auto simp: js_def)

lemma length_js [simp, js_string]: "length (js s) = length s"
  by (simp add: js_def)

lemma js_append [js_string]: "js (s @ t) = js s @ js t"
  by (simp add: js_def)

text \<open>
  The characters \<open>String.prototype.trim\<close> strips: WhiteSpace and LineTerminator of the
  language's lexical grammar.
\<close>

definition is_white_space :: "nat \<Rightarrow> bool" where
  "is_white_space c \<longleftrightarrow>
     (9 \<le> c \<and> c \<le> 13) \<or> c = 32 \<or> c = 160 \<or> c = 5760 \<or> (8192 \<le> c \<and> c \<le> 8202) \<or>
     c = 8232 \<or> c = 8233 \<or> c = 8239 \<or> c = 8287 \<or> c = 12288 \<or> c = 65279"

definition trim :: "jsstring \<Rightarrow> jsstring" where
  "trim s = rev (dropWhile is_white_space (rev (dropWhile is_white_space s)))"

definition trimmed :: "jsstring \<Rightarrow> bool" where
  "trimmed s \<longleftrightarrow> s = [] \<or> (\<not> is_white_space (hd s) \<and> \<not> is_white_space (last s))"

lemma dropWhile_id_hd: "s = [] \<or> \<not> P (hd s) \<Longrightarrow> dropWhile P s = s"
  by (cases s) auto

lemma trim_trimmed_id: "trimmed s \<Longrightarrow> trim s = s"
  by (cases "s = []") (auto simp: trim_def trimmed_def dropWhile_id_hd hd_rev)

lemma hd_dropWhile_rev:
  assumes "s = [] \<or> \<not> P (hd s)" and "t = rev (dropWhile P (rev s))" and "t \<noteq> []"
  shows "hd t = hd s"
proof -
  have "rev s = takeWhile P (rev s) @ dropWhile P (rev s)"
    by simp
  then have "s = rev (dropWhile P (rev s)) @ rev (takeWhile P (rev s))"
    by (metis rev_append rev_rev_ident)
  then have "s = t @ rev (takeWhile P (rev s))"
    using assms(2) by simp
  then show ?thesis
    using assms(3) by (metis hd_append2)
qed

lemma trimmed_trim: "trimmed (trim s)"
proof (cases "trim s = []")
  case True
  then show ?thesis by (simp add: trimmed_def)
next
  case False
  let ?d = "dropWhile is_white_space s"
  have d: "?d = [] \<or> \<not> is_white_space (hd ?d)"
    using hd_dropWhile by blast
  have "hd (trim s) = hd ?d"
    using hd_dropWhile_rev [of ?d is_white_space "trim s"] d False by (simp add: trim_def)
  moreover have "?d \<noteq> []"
    using False by (metis dropWhile.simps(1) rev.simps(1) trim_def)
  moreover have "\<not> is_white_space (last (trim s))"
    using False by (simp add: trim_def last_rev hd_dropWhile)
  ultimately show ?thesis
    using d by (auto simp: trimmed_def simp del: dropWhile_eq_Nil_conv)
qed

lemma trim_idem [simp]: "trim (trim s) = trim s"
  by (rule trim_trimmed_id [OF trimmed_trim])

lemma length_trim_le: "length (trim s) \<le> length s"
  using length_dropWhile_le [of is_white_space "rev (dropWhile is_white_space s)"]
    length_dropWhile_le [of is_white_space s]
  by (simp add: trim_def)

text \<open>\<open>startsWith\<close> and the prefix test of the sources.\<close>

definition startsWith :: "jsstring \<Rightarrow> jsstring \<Rightarrow> bool" where
  "startsWith s p = prefix p s"

lemma startsWith_append [simp]: "startsWith (p @ s) p"
  by (simp add: startsWith_def)

section \<open>Exceptions\<close>

text \<open>The exceptions the modelled sources throw or let escape.\<close>

datatype js_error =
    Error jsstring         \<comment> \<open>\<open>throw new Error(message)\<close>\<close>
  | RangeError jsstring    \<comment> \<open>e.g. \<open>toISOString\<close> of an invalid date\<close>
  | TypeError              \<comment> \<open>a member of \<open>undefined\<close>\<close>
  | URIError               \<comment> \<open>\<open>encodeURIComponent\<close> of a lone surrogate\<close>
  | SyntaxError            \<comment> \<open>\<open>JSON.parse\<close> of a malformed text\<close>
  | DOMException jsstring  \<comment> \<open>by its name: \<open>AbortError\<close>, \<open>QuotaExceededError\<close>, ...\<close>

section \<open>Sets and maps in insertion order\<close>

text \<open>
  A JavaScript \<open>Set\<close> iterates in insertion order: it is the list of its elements.
  \<open>set_from xs\<close> is \<open>[...new Set(xs)]\<close>.
\<close>

definition set_add :: "'a list \<Rightarrow> 'a \<Rightarrow> 'a list" where
  "set_add s x = (if x \<in> set s then s else s @ [x])"

definition set_from :: "'a list \<Rightarrow> 'a list" where
  "set_from xs = foldl set_add [] xs"

lemma set_set_add [simp, js_collection]: "set (set_add s x) = insert x (set s)"
  by (auto simp: set_add_def)

lemma distinct_set_add [simp, js_collection]: "distinct (set_add s x) = distinct s"
  by (auto simp: set_add_def)

lemma set_foldl_set_add: "set (foldl set_add s xs) = set s \<union> set xs"
  by (induction xs arbitrary: s) auto

lemma distinct_foldl_set_add: "distinct s \<Longrightarrow> distinct (foldl set_add s xs)"
  by (induction xs arbitrary: s) auto

lemma set_set_from [simp, js_collection]: "set (set_from xs) = set xs"
  by (simp add: set_from_def set_foldl_set_add)

lemma distinct_set_from [simp, js_collection]: "distinct (set_from xs)"
  by (simp add: set_from_def distinct_foldl_set_add)

lemma foldl_set_add_distinct:
  "distinct (s @ xs) \<Longrightarrow> foldl set_add s xs = s @ xs"
proof (induction xs arbitrary: s)
  case (Cons x xs)
  then have "set_add s x = s @ [x]" by (auto simp: set_add_def)
  then show ?case using Cons.IH [of "s @ [x]"] Cons.prems by simp
qed simp

lemma set_from_distinct: "distinct xs \<Longrightarrow> set_from xs = xs"
  by (simp add: set_from_def foldl_set_add_distinct)

lemma foldl_set_add_subseq: "subseq xs ys \<Longrightarrow> subseq (foldl set_add xs zs) (ys @ zs)"
proof (induction zs arbitrary: xs ys)
  case (Cons z zs)
  have "subseq (set_add xs z) (ys @ [z])"
    using Cons.prems by (auto simp: set_add_def intro: subseq_append_iff [THEN iffD2] list_emb_append2)
  from Cons.IH [OF this] show ?case by simp
qed simp

lemma set_from_subseq: "subseq (set_from xs) xs"
  using foldl_set_add_subseq [of "[]" "[]" xs] by (simp add: set_from_def)

text \<open>
  A JavaScript \<open>Map\<close> keeps one entry per key, in the order the keys were first set:
  an association list with \<open>map_of\<close> as \<open>get\<close>, \<open>AList.update\<close> as \<open>set\<close> and
  \<open>AList.delete\<close> as \<open>delete\<close>.
\<close>

type_synonym ('k, 'v) jsmap = "('k \<times> 'v) list"

abbreviation map_set :: "('k, 'v) jsmap \<Rightarrow> 'k \<Rightarrow> 'v \<Rightarrow> ('k, 'v) jsmap" where
  "map_set m k v \<equiv> AList.update k v m"

abbreviation map_get :: "('k, 'v) jsmap \<Rightarrow> 'k \<Rightarrow> 'v option" where
  "map_get m k \<equiv> map_of m k"

abbreviation map_keys :: "('k, 'v) jsmap \<Rightarrow> 'k list" where
  "map_keys m \<equiv> map fst m"

abbreviation map_values :: "('k, 'v) jsmap \<Rightarrow> 'v list" where
  "map_values m \<equiv> map snd m"

definition map_from :: "('k \<times> 'v) list \<Rightarrow> ('k, 'v) jsmap" where
  "map_from es = foldl (\<lambda>m (k, v). map_set m k v) [] es"

lemma map_get_set [simp, js_collection]: "map_get (map_set m k v) k' = (if k' = k then Some v else map_get m k')"
  by (simp add: update_conv')

lemma distinct_map_set [simp, js_collection]: "distinct (map_keys m) \<Longrightarrow> distinct (map_keys (map_set m k v))"
  by (rule distinct_update)

lemma keys_map_set: "map_keys (map_set m k v) = set_add (map_keys m) k"
  by (induction m) (auto simp: set_add_def)

lemma fst_set_map_set [simp, js_collection]: "fst ` set (map_set m k v) = insert k (fst ` set m)"
  by (induction m) auto

lemma set_map_set: "set (map_set m k v) \<subseteq> insert (k, v) (set m)"
  by (induction m) auto

lemma map_get_keys: "map_get m k = Some v \<Longrightarrow> k \<in> set (map_keys m)"
  by (force dest: map_of_SomeD)

lemma foldl_map_set_distinct:
  "distinct (map_keys (m @ es)) \<Longrightarrow> foldl (\<lambda>m (k, v). map_set m k v) m es = m @ es"
proof (induction es arbitrary: m)
  case (Cons e es)
  obtain k v where e: "e = (k, v)" by fastforce
  with Cons.prems have "k \<notin> fst ` set m" by auto
  then have "map_set m k v = m @ [(k, v)]"
    by (induction m) auto
  with Cons.IH [of "m @ [e]"] Cons.prems e show ?case by simp
qed simp

lemma map_from_distinct: "distinct (map_keys es) \<Longrightarrow> map_from es = es"
  by (simp add: map_from_def foldl_map_set_distinct)

text \<open>
  What a client may rely on when it keeps its data in such a map; a locale, so that the
  clients' facts are proved from the laws only.
\<close>

locale insertion_map =
  fixes empty :: 'm
    and get :: "'m \<Rightarrow> 'k \<Rightarrow> 'v option"
    and put :: "'m \<Rightarrow> 'k \<Rightarrow> 'v \<Rightarrow> 'm"
    and keys :: "'m \<Rightarrow> 'k list"
    and invar :: "'m \<Rightarrow> bool"
  assumes get_empty: "get empty k = None"
    and invar_empty: "invar empty"
    and get_put: "invar m \<Longrightarrow> get (put m k v) k' = (if k' = k then Some v else get m k')"
    and invar_put: "invar m \<Longrightarrow> invar (put m k v)"
    and keys_put: "invar m \<Longrightarrow> keys (put m k v) = (if k \<in> set (keys m) then keys m else keys m @ [k])"
    and keys_get: "invar m \<Longrightarrow> set (keys m) = {k. get m k \<noteq> None}"
    and keys_distinct: "invar m \<Longrightarrow> distinct (keys m)"
begin

definition put_all :: "'m \<Rightarrow> ('a \<Rightarrow> 'k) \<Rightarrow> ('a \<Rightarrow> 'v option \<Rightarrow> 'v) \<Rightarrow> 'a list \<Rightarrow> 'm" where
  "put_all m key upd xs = foldl (\<lambda>m x. put m (key x) (upd x (get m (key x)))) m xs"

lemma put_all_simps [simp]:
  "put_all m key upd [] = m"
  "put_all m key upd (x # xs) = put_all (put m (key x) (upd x (get m (key x)))) key upd xs"
  by (simp_all add: put_all_def)

lemma invar_put_all: "invar m \<Longrightarrow> invar (put_all m key upd xs)"
  by (induction xs arbitrary: m) (auto intro: invar_put)

lemma get_put_all:
  "invar m \<Longrightarrow>
   get (put_all m key upd xs) k =
     foldl (\<lambda>v x. Some (upd x v)) (get m k) (filter (\<lambda>x. key x = k) xs)"
  by (induction xs arbitrary: m) (auto simp: get_put invar_put)

lemma keys_put_all:
  "invar m \<Longrightarrow> set (keys (put_all m key upd xs)) = set (keys m) \<union> key ` set xs"
  by (induction xs arbitrary: m) (auto simp: keys_put invar_put)

end

interpretation amap: insertion_map "[] :: ('k, 'v) jsmap" map_of "\<lambda>m k v. map_set m k v"
  "\<lambda>m. map_keys m" "\<lambda>m. distinct (map_keys m)"
proof unfold_locales
  fix m :: "('k, 'v) jsmap" and k v
  show "set (map_keys m) = {k. map_get m k \<noteq> None}"
    by (metis (mono_tags) Collect_cong dom_def dom_map_of_conv_image_fst set_map)
  show "map_keys (map_set m k v) = (if k \<in> set (map_keys m) then map_keys m else map_keys m @ [k])"
    by (simp add: keys_map_set set_add_def)
qed (auto simp: distinct_update)

section \<open>The stable sort\<close>

text \<open>
  \<open>Array.prototype.sort\<close> with a comparison function is a stable sort; with a consistent
  comparison its result is unique, so an insertion sort computes it.  Only the sign of the
  comparison matters, and a comparison that yields \<open>NaN\<close> counts as 0.
\<close>

fun js_insort :: "('a \<Rightarrow> 'a \<Rightarrow> 'b::linordered_idom) \<Rightarrow> 'a \<Rightarrow> 'a list \<Rightarrow> 'a list" where
  "js_insort cmp x [] = [x]"
| "js_insort cmp x (y # ys) = (if cmp x y \<le> 0 then x # y # ys else y # js_insort cmp x ys)"

definition js_sort :: "('a \<Rightarrow> 'a \<Rightarrow> 'b::linordered_idom) \<Rightarrow> 'a list \<Rightarrow> 'a list" where
  "js_sort cmp xs = foldr (js_insort cmp) xs []"

lemma js_sort_simps [simp]:
  "js_sort cmp [] = []"
  "js_sort cmp (x # xs) = js_insort cmp x (js_sort cmp xs)"
  by (simp_all add: js_sort_def)

lemma mset_js_insort [simp]: "mset (js_insort cmp x xs) = add_mset x (mset xs)"
  by (induction xs) auto

lemma mset_js_sort [simp, js_sorting]: "mset (js_sort cmp xs) = mset xs"
  by (induction xs) auto

lemma set_js_sort [simp, js_sorting]: "set (js_sort cmp xs) = set xs"
  by (metis mset_js_sort set_mset_mset)

lemma length_js_sort [simp, js_sorting]: "length (js_sort cmp xs) = length xs"
  by (metis mset_js_sort size_mset)

lemma distinct_js_sort [simp, js_sorting]: "distinct (js_sort cmp xs) = distinct xs"
  by (metis mset_eq_imp_distinct_iff mset_js_sort)

lemma js_sort_eq_Nil [simp]: "js_sort cmp xs = [] \<longleftrightarrow> xs = []"
  by (metis length_0_conv length_js_sort)

text \<open>What the language asks of a comparison function: a total preorder.\<close>

locale comparator =
  fixes cmp :: "'a \<Rightarrow> 'a \<Rightarrow> 'b::linordered_idom"
  assumes total: "cmp x y \<le> 0 \<or> cmp y x \<le> 0"
    and trans: "cmp x y \<le> 0 \<Longrightarrow> cmp y z \<le> 0 \<Longrightarrow> cmp x z \<le> 0"
begin

lemma refl [simp]: "cmp x x \<le> 0"
  using total by blast

lemma sorted_js_insort:
  "sorted_wrt (\<lambda>x y. cmp x y \<le> 0) xs \<Longrightarrow> sorted_wrt (\<lambda>x y. cmp x y \<le> 0) (js_insort cmp x xs)"
proof (induction xs)
  case (Cons y ys)
  show ?case
  proof (cases "cmp x y \<le> 0")
    case True
    then show ?thesis using Cons.prems trans by fastforce
  next
    case False
    have "set (js_insort cmp x ys) = insert x (set ys)"
      by (metis mset_js_insort set_mset_add_mset_insert set_mset_mset)
    with False Cons total show ?thesis by auto
  qed
qed simp

lemma sorted_js_sort: "sorted_wrt (\<lambda>x y. cmp x y \<le> 0) (js_sort cmp xs)"
  by (induction xs) (auto intro: sorted_js_insort)

text \<open>Stability: elements that compare equal keep their order.\<close>

lemma filter_js_insort:
  assumes "sorted_wrt (\<lambda>x y. cmp x y \<le> 0) xs"
  shows "filter (\<lambda>y. cmp a y \<le> 0 \<and> cmp y a \<le> 0) (js_insort cmp x xs) =
         filter (\<lambda>y. cmp a y \<le> 0 \<and> cmp y a \<le> 0) (x # xs)"
  using assms
proof (induction xs)
  case (Cons y ys)
  show ?case
  proof (cases "cmp x y \<le> 0")
    case False
    then have "\<not> (cmp a x \<le> 0 \<and> cmp x a \<le> 0 \<and> cmp a y \<le> 0 \<and> cmp y a \<le> 0)"
      using trans by blast
    with False Cons show ?thesis by auto
  qed simp
qed simp

lemma stable_js_sort:
  "filter (\<lambda>y. cmp a y \<le> 0 \<and> cmp y a \<le> 0) (js_sort cmp xs) =
   filter (\<lambda>y. cmp a y \<le> 0 \<and> cmp y a \<le> 0) xs"
  by (induction xs) (simp_all add: filter_js_insort sorted_js_sort)

text \<open>The first element of the result is least.\<close>

lemma js_sort_hd_least: "js_sort cmp xs = y # ys \<Longrightarrow> x \<in> set xs \<Longrightarrow> cmp y x \<le> 0"
proof -
  assume ys: "js_sort cmp xs = y # ys" and x: "x \<in> set xs"
  from x have "x \<in> set (js_sort cmp xs)" by simp
  with ys sorted_js_sort [of xs] show ?thesis by auto
qed

end

text \<open>
  Comparisons by a numeric key, \<open>(a, b) => f(a) - f(b)\<close>, are consistent.
\<close>

definition by_key :: "('a \<Rightarrow> 'b::linordered_idom) \<Rightarrow> 'a \<Rightarrow> 'a \<Rightarrow> 'b" where
  "by_key f x y = f x - f y"

interpretation key_order: comparator "by_key f"
  by unfold_locales (auto simp: by_key_def)

lemma sorted_by_key: "sorted (map f (js_sort (by_key f) xs))"
  using key_order.sorted_js_sort [of f xs]
  by (simp add: by_key_def sorted_wrt_map)

text \<open>
  A comparison that also answers consistently when its arguments are exchanged.  Such comparisons
  can be chained: \<open>first(a, b) || second(a, b)\<close>.
\<close>

locale signed_comparator = comparator cmp for cmp :: "'a \<Rightarrow> 'a \<Rightarrow> 'b::linordered_idom" +
  assumes opposite: "0 < cmp x y \<longleftrightarrow> cmp y x < 0"
begin

lemma equal_sym: "cmp x y = 0 \<longleftrightarrow> cmp y x = 0"
  using opposite [of x y] opposite [of y x]
  by (cases "cmp x y" "0 :: 'b" rule: linorder_cases; cases "cmp y x" "0 :: 'b" rule: linorder_cases) auto

lemma equal_trans: "cmp x y = 0 \<Longrightarrow> cmp y z = 0 \<Longrightarrow> cmp x z = 0"
proof -
  assume "cmp x y = 0" "cmp y z = 0"
  then have "cmp x z \<le> 0" "cmp z x \<le> 0"
    using trans [of x y z] trans [of z y x] equal_sym [of x y] equal_sym [of y z] by simp_all
  then show "cmp x z = 0" using opposite [of z x] by force
qed

end

interpretation signed_key_order: signed_comparator "by_key f"
  by unfold_locales (auto simp: by_key_def)

definition then_by :: "('a \<Rightarrow> 'a \<Rightarrow> 'b::linordered_idom) \<Rightarrow> ('a \<Rightarrow> 'a \<Rightarrow> 'b) \<Rightarrow> 'a \<Rightarrow> 'a \<Rightarrow> 'b" where
  "then_by c d x y = (if c x y \<noteq> 0 then c x y else d x y)"

lemma signed_then_by:
  assumes "signed_comparator c" "signed_comparator d"
  shows "signed_comparator (then_by c d)"
proof -
  note c = signed_comparator.opposite [OF assms(1)] signed_comparator.equal_sym [OF assms(1)]
    signed_comparator.equal_trans [OF assms(1)]
  note d = signed_comparator.opposite [OF assms(2)]
  note ct = comparator.trans [OF signed_comparator.axioms(1) [OF assms(1)]]
  note dt = comparator.trans [OF signed_comparator.axioms(1) [OF assms(2)]]
  show ?thesis
  proof unfold_locales
    fix x y z
    show o: "0 < then_by c d x y \<longleftrightarrow> then_by c d y x < 0"
      using c(1,2) d by (auto simp: then_by_def)
    show "then_by c d x y \<le> 0 \<or> then_by c d y x \<le> 0"
      using o by (metis less_imp_le not_le_imp_less)
    assume xy: "then_by c d x y \<le> 0" and yz: "then_by c d y z \<le> 0"
    have le: "c x y \<le> 0" "c y z \<le> 0" using xy yz by (auto simp: then_by_def split: if_splits)
    then have xz: "c x z \<le> 0" by (rule ct)
    show "then_by c d x z \<le> 0"
    proof (cases "c x z = 0")
      case True
      have "c z x \<le> 0" using True c(2) by (metis order_refl)
      then have "c y x \<le> 0" "c z y \<le> 0" using le ct by blast+
      then have "c x y = 0" "c y z = 0" using le c(1) by (metis leD order.order_iff_strict)+
      then show ?thesis using xy yz True dt by (auto simp: then_by_def)
    qed (use xz in \<open>simp add: then_by_def\<close>)
  qed
qed

section \<open>Lists\<close>

definition find_index :: "('a \<Rightarrow> bool) \<Rightarrow> 'a list \<Rightarrow> nat option" where
  "find_index P xs = (let i = length (takeWhile (Not \<circ> P) xs) in if i < length xs then Some i else None)"

lemma find_index_Some:
  assumes "find_index P xs = Some i"
  shows "i < length xs" "P (xs ! i)" "\<forall>j<i. \<not> P (xs ! j)"
proof -
  from assms have i: "i = length (takeWhile (Not \<circ> P) xs)" "i < length xs"
    by (auto simp: find_index_def Let_def split: if_splits)
  then show "i < length xs" by simp
  from i nth_length_takeWhile [of "Not \<circ> P" xs] show "P (xs ! i)" by simp
  show "\<forall>j<i. \<not> P (xs ! j)"
    using i by (metis comp_apply nth_mem set_takeWhileD takeWhile_nth)
qed

lemma find_index_None: "find_index P xs = None \<longleftrightarrow> (\<forall>x\<in>set xs. \<not> P x)"
proof (cases "\<forall>x\<in>set xs. \<not> P x")
  case True
  then have "\<not> length (takeWhile (Not \<circ> P) xs) < length xs"
    by (metis comp_apply nat_neq_iff takeWhile_eq_all_conv)
  with True show ?thesis by (auto simp: find_index_def Let_def)
next
  case False
  then have "length (takeWhile (Not \<circ> P) xs) < length xs"
    by (metis comp_apply length_takeWhile_le nat_less_le takeWhile_eq_all_conv takeWhile_eq_take take_all
        order_refl)
  with False show ?thesis by (simp add: find_index_def Let_def)
qed

lemma find_SomeD: "List.find P xs = Some x \<Longrightarrow> x \<in> set xs \<and> P x"
  by (auto simp: find_Some_iff)

lemma subseq_subset: "subseq xs ys \<Longrightarrow> set xs \<subseteq> set ys"
  by (induction rule: list_emb.induct) auto

lemma subseq_distinct: "subseq xs ys \<Longrightarrow> distinct ys \<Longrightarrow> distinct xs"
  by (induction rule: list_emb.induct) (auto dest: subseq_subset)

end
