(* ===== verification/JsNumber.thy ===== *)
theory JsNumber
  imports Prelude
begin

text \<open>
  JavaScript numbers.  A number is \<open>NaN\<close>, an infinity or a finite value, kept as the exact
  rational an IEEE 754 double denotes; the two zeros are one value, which none of the
  modelled sources tells apart.  \<open>to_double\<close> is the rounding of a real to a double,
  \<open>js_Number\<close> the conversion \<open>Number(text)\<close> of a string and \<open>js_String\<close> the conversion
  \<open>String(number)\<close>.  The facts the components use: integers up to \<open>2 ^ 53\<close> are exact
  (\<open>to_double_int\<close>), and printing and reading such an integer gives it back
  (\<open>js_Number_js_String\<close>).
\<close>

section \<open>Doubles\<close>

datatype jsnum = NaN | PosInf | NegInf | Num rat

definition is_finite :: "jsnum \<Rightarrow> bool" where
  "is_finite n = (case n of Num _ \<Rightarrow> True | _ \<Rightarrow> False)"

definition is_integer :: "jsnum \<Rightarrow> bool" where
  "is_integer n = (case n of Num r \<Rightarrow> of_int \<lfloor>r\<rfloor> = r | _ \<Rightarrow> False)"

definition round_half_even :: "rat \<Rightarrow> int" where
  "round_half_even r =
     (let f = \<lfloor>r\<rfloor>; d = r - of_int f
      in if d < 1 / 2 then f else if 1 / 2 < d then f + 1 else if even f then f else f + 1)"

text \<open>
  Scale a positive value by powers of two until its integral part has 53 bits; the exponent
  range of doubles bounds both loops (\<open>1074\<close> doublings reach the subnormals, after \<open>1000\<close>
  halvings a value that is still too large is beyond the largest double anyway).
\<close>

fun scale_up :: "nat \<Rightarrow> rat \<Rightarrow> rat \<times> nat" where
  "scale_up 0 r = (r, 0)"
| "scale_up (Suc n) r =
     (if 2 ^ 52 \<le> r then (r, 0) else let (s, k) = scale_up n (2 * r) in (s, Suc k))"

fun scale_down :: "nat \<Rightarrow> rat \<Rightarrow> rat \<times> nat" where
  "scale_down 0 r = (r, 0)"
| "scale_down (Suc n) r =
     (if r < 2 ^ 53 then (r, 0) else let (s, k) = scale_down n (r / 2) in (s, Suc k))"

definition round_magnitude :: "rat \<Rightarrow> rat" where
  "round_magnitude a =
     (if 2 ^ 53 \<le> a
      then let (s, k) = scale_down 1000 a in of_int (round_half_even s) * 2 ^ k
      else let (s, k) = scale_up 1074 a in of_int (round_half_even s) / 2 ^ k)"

definition to_double :: "rat \<Rightarrow> jsnum" where
  "to_double r =
     (if r = 0 then Num 0
      else let v = round_magnitude \<bar>r\<bar>
           in if 2 ^ 1024 \<le> v then (if 0 < r then PosInf else NegInf) else Num (sgn r * v))"

lemma round_half_even_int [simp]: "round_half_even (of_int i) = i"
  by (simp add: round_half_even_def)

lemma scale_up_spec: "scale_up n r = (s, k) \<Longrightarrow> s = r * 2 ^ k"
proof (induction n arbitrary: r s k)
  case (Suc n)
  show ?case
  proof (cases "2 ^ 52 \<le> r")
    case False
    obtain s' k' where sk: "scale_up n (2 * r) = (s', k')" by fastforce
    with Suc.IH [OF sk] False Suc.prems show ?thesis by auto
  qed (use Suc.prems in simp)
qed simp

lemma round_magnitude_int:
  assumes "0 \<le> i" "i < 2 ^ 53"
  shows "round_magnitude (of_int i) = of_int i"
proof -
  obtain s k where sk: "scale_up 1074 (of_int i) = (s, k)" by fastforce
  have "\<not> (2 ^ 53 \<le> (of_int i :: rat))"
    using assms by (metis of_int_le_iff of_int_numeral of_int_power linorder_not_le)
  moreover have "s = of_int (i * 2 ^ k)"
    using scale_up_spec [OF sk] by simp
  moreover have "of_int (i * 2 ^ k) / 2 ^ k = (of_int i :: rat)"
    by simp
  ultimately show ?thesis
    using sk by (simp only: round_magnitude_def if_False Let_def prod.case round_half_even_int)
qed

text \<open>Safe integers are exact.\<close>

lemma to_double_int:
  assumes "\<bar>i\<bar> < 2 ^ 53"
  shows "to_double (of_int i) = Num (of_int i)"
proof (cases "i = 0")
  case False
  have m: "round_magnitude \<bar>of_int i\<bar> = of_int \<bar>i\<bar>"
    using round_magnitude_int [of "\<bar>i\<bar>"] assms by simp
  have "of_int \<bar>i\<bar> < (2 :: rat) ^ 53"
    using assms by (metis of_int_less_iff of_int_numeral of_int_power)
  also have "\<dots> \<le> 2 ^ 1024" by (rule power_increasing) simp_all
  finally have "\<not> 2 ^ 1024 \<le> (of_int \<bar>i\<bar> :: rat)" by simp
  moreover have "sgn (of_int i) * (of_int \<bar>i\<bar> :: rat) = of_int i"
    by (metis mult_sgn_abs of_int_abs mult.commute)
  ultimately show ?thesis
    using False m unfolding to_double_def Let_def by (simp del: of_int_abs)
qed (simp add: to_double_def)

section \<open>Decimal digits\<close>

definition is_digit :: "nat \<Rightarrow> bool" where
  "is_digit c \<longleftrightarrow> 48 \<le> c \<and> c \<le> 57"

definition digits_value :: "nat \<Rightarrow> jsstring \<Rightarrow> nat" where
  "digits_value b ds = foldl (\<lambda>v d. b * v + d) 0 ds"

definition decimal_value :: "jsstring \<Rightarrow> nat" where
  "decimal_value ds = digits_value 10 (map (\<lambda>c. c - 48) ds)"

fun show_nat :: "nat \<Rightarrow> jsstring" where
  "show_nat n = (if n < 10 then [48 + n] else show_nat (n div 10) @ [48 + n mod 10])"

declare show_nat.simps [simp del]

lemma decimal_value_snoc [simp]: "decimal_value (ds @ [c]) = 10 * decimal_value ds + (c - 48)"
  by (simp add: decimal_value_def digits_value_def)

lemma decimal_value_show_nat [simp]: "decimal_value (show_nat n) = n"
proof (induction n rule: show_nat.induct)
  case (1 n)
  then show ?case
    by (cases "n < 10")
      (simp_all add: show_nat.simps [of n], simp add: decimal_value_def digits_value_def)
qed

lemma show_nat_inj [simp]: "show_nat m = show_nat n \<longleftrightarrow> m = n"
  by (metis decimal_value_show_nat)

lemma show_nat_digits: "c \<in> set (show_nat n) \<Longrightarrow> is_digit c"
proof (induction n rule: show_nat.induct)
  case (1 n)
  have "n mod 10 < 10" by simp
  with 1 show ?case
    by (cases "n < 10") (auto simp: show_nat.simps [of n] is_digit_def)
qed

lemma show_nat_nonempty [simp]: "show_nat n \<noteq> []"
  by (simp add: show_nat.simps [of n])

lemma show_nat_hd: "0 < n \<Longrightarrow> hd (show_nat n) \<noteq> 48"
proof (induction n rule: show_nat.induct)
  case (1 n)
  then show ?case
    by (cases "n < 10") (auto simp: show_nat.simps [of n])
qed

lemma show_nat_0: "show_nat 0 = [48]"
  by (simp add: show_nat.simps)

section \<open>Number(text)\<close>

text \<open>
  The grammar of numeric strings: white space around, the empty string is 0, an optional
  sign with \<open>Infinity\<close> or a decimal literal (digits, a fraction, an exponent), or an unsigned
  hexadecimal, octal or binary literal; everything else is \<open>NaN\<close>.
\<close>

definition exponent_value :: "jsstring \<Rightarrow> rat option" where
  "exponent_value s =
     (let (neg, ds) = (case s of [] \<Rightarrow> (False, [])
                       | c # t \<Rightarrow> if c = 43 then (False, t) else if c = 45 then (True, t) else (False, c # t))
      in if ds = [] \<or> \<not> list_all is_digit ds then None
         else if neg then Some (1 / 10 ^ decimal_value ds) else Some (10 ^ decimal_value ds))"

definition unsigned_decimal :: "jsstring \<Rightarrow> rat option" where
  "unsigned_decimal s =
     (let ip = takeWhile is_digit s; s1 = dropWhile is_digit s;
          (fp, s2) = (case s1 of [] \<Rightarrow> ([], [])
                      | c # t \<Rightarrow> if c = 46 then (takeWhile is_digit t, dropWhile is_digit t) else ([], c # t));
          m = of_nat (decimal_value (ip @ fp)) / 10 ^ length fp
      in if ip = [] \<and> fp = [] then None
         else case s2 of [] \<Rightarrow> Some m
              | c # t \<Rightarrow> if c = 101 \<or> c = 69 then map_option (\<lambda>e. m * e) (exponent_value t) else None)"

definition radix_digit :: "nat \<Rightarrow> nat \<Rightarrow> nat option" where
  "radix_digit b c =
     (let d = (if is_digit c then c - 48 else if 97 \<le> c \<and> c \<le> 102 then c - 87
               else if 65 \<le> c \<and> c \<le> 70 then c - 55 else 99)
      in if d < b then Some d else None)"

definition radix_literal :: "nat \<Rightarrow> jsstring \<Rightarrow> jsnum" where
  "radix_literal b ds =
     (if ds = [] \<or> list_ex (\<lambda>c. radix_digit b c = None) ds then NaN
      else to_double (of_nat (digits_value b (map (\<lambda>c. the (radix_digit b c)) ds))))"

definition decimal_literal :: "jsstring \<Rightarrow> jsnum" where
  "decimal_literal s =
     (let (neg, t) = (case s of [] \<Rightarrow> (False, [])
                      | c # t \<Rightarrow> if c = 43 then (False, t) else if c = 45 then (True, t) else (False, c # t))
      in if t = js ''Infinity'' then (if neg then NegInf else PosInf)
         else case unsigned_decimal t of None \<Rightarrow> NaN
              | Some r \<Rightarrow> to_double (if neg then - r else r))"

definition js_Number :: "jsstring \<Rightarrow> jsnum" where
  "js_Number text =
     (let s = trim text
      in if s = [] then Num 0
         else if take 2 s = js ''0x'' \<or> take 2 s = js ''0X'' then radix_literal 16 (drop 2 s)
         else if take 2 s = js ''0o'' \<or> take 2 s = js ''0O'' then radix_literal 8 (drop 2 s)
         else if take 2 s = js ''0b'' \<or> take 2 s = js ''0B'' then radix_literal 2 (drop 2 s)
         else decimal_literal s)"

text \<open>\<open>Number(null)\<close> is 0, and \<open>Number(value)\<close> of a string-or-null is this.\<close>

definition js_Number_nullable :: "jsstring option \<Rightarrow> jsnum" where
  "js_Number_nullable v = (case v of None \<Rightarrow> Num 0 | Some s \<Rightarrow> js_Number s)"

lemma is_digit_not_white: "is_digit c \<Longrightarrow> \<not> is_white_space c"
  by (auto simp: is_digit_def is_white_space_def)

lemma digits_trimmed: "list_all is_digit ds \<Longrightarrow> trimmed ds"
  by (auto simp: trimmed_def list_all_iff is_digit_not_white)

lemma unsigned_decimal_digits:
  assumes "list_all is_digit ds" "ds \<noteq> []"
  shows "unsigned_decimal ds = Some (of_nat (decimal_value ds))"
proof -
  have span: "takeWhile is_digit ds = ds" "dropWhile is_digit ds = []"
    using assms(1) by (simp_all add: list_all_iff takeWhile_eq_all_conv dropWhile_eq_Nil_conv)
  show ?thesis using assms(2) by (simp add: unsigned_decimal_def span)
qed

lemma js_Number_digits:
  assumes ds: "list_all is_digit ds" "ds \<noteq> []" and small: "decimal_value ds < 2 ^ 53"
  shows "js_Number ds = Num (of_nat (decimal_value ds))"
proof -
  have tr: "trim ds = ds"
    by (rule trim_trimmed_id [OF digits_trimmed [OF ds(1)]])
  obtain c t where ct: "ds = c # t" and c: "is_digit c" using ds by (cases ds) auto
  have radix: "take 2 ds \<noteq> js [CHR ''0'', x]" if "\<not> is_digit (of_char x)" for x
    using that ds(1) ct by (cases t) (auto simp: js_def)
  have "decimal_literal ds = to_double (of_nat (decimal_value ds))"
    using ct c ds unsigned_decimal_digits [OF ds]
    by (auto simp: decimal_literal_def js_def is_digit_def)
  also have "\<dots> = Num (of_nat (decimal_value ds))"
    using to_double_int [of "int (decimal_value ds)"] small by simp
  finally show ?thesis
    using ds(2) tr radix [of "CHR ''x''"] radix [of "CHR ''X''"] radix [of "CHR ''o''"]
      radix [of "CHR ''O''"] radix [of "CHR ''b''"] radix [of "CHR ''B''"]
    by (simp add: js_Number_def is_digit_def)
qed

lemma js_Number_show_nat: "n < 2 ^ 53 \<Longrightarrow> js_Number (show_nat n) = Num (of_nat n)"
  using js_Number_digits [of "show_nat n"] show_nat_digits by (simp add: list_all_iff)

section \<open>String(number)\<close>

text \<open>
  Integers of magnitude up to \<open>2 ^ 53\<close> print as their decimal digits.  Every other finite
  number prints with the fewest significant digits \<open>s\<close> (17 at most) that read back as the
  number, the nearest such \<open>s\<close> first, laid out by the position \<open>n\<close> of the decimal point.
\<close>

fun point_position :: "nat \<Rightarrow> int \<Rightarrow> rat \<Rightarrow> int" where
  "point_position 0 n a = n"
| "point_position (Suc f) n a =
     (if 1 \<le> a then point_position f (n + 1) (a / 10)
      else if a < 1 / 10 then point_position f (n - 1) (a * 10) else n)"

definition pow10 :: "int \<Rightarrow> rat" where
  "pow10 e = (if 0 \<le> e then 10 ^ nat e else 1 / 10 ^ nat (- e))"

definition digit_candidate :: "rat \<Rightarrow> int \<Rightarrow> nat \<Rightarrow> int option" where
  "digit_candidate a n k =
     (let e = n - int k; f = \<lfloor>a * pow10 (- e)\<rfloor>;
          ok = (\<lambda>s. to_double (of_int s * pow10 e) = Num a);
          near = (\<lambda>s. \<bar>of_int s * pow10 e - a\<bar>)
      in if ok f \<and> ok (f + 1) then Some (if near f \<le> near (f + 1) then f else f + 1)
         else if ok f then Some f else if ok (f + 1) then Some (f + 1) else None)"

fun first_candidate :: "rat \<Rightarrow> int \<Rightarrow> nat list \<Rightarrow> int \<times> nat" where
  "first_candidate a n [] = (0, 1)"
| "first_candidate a n (k # ks) =
     (case digit_candidate a n k of Some s \<Rightarrow> (s, k) | None \<Rightarrow> first_candidate a n ks)"

definition strip_zeros :: "jsstring \<Rightarrow> jsstring" where
  "strip_zeros ds = rev (dropWhile (\<lambda>c. c = 48) (rev ds))"

definition show_positive :: "rat \<Rightarrow> jsstring" where
  "show_positive a =
     (let n0 = point_position 1100 0 a;
          (s, k0) = first_candidate a n0 [1..<18];
          full = show_nat (nat s);
          n = n0 + int (length full) - int k0;
          ds = strip_zeros full; k = int (length ds)
      in if k \<le> n \<and> n \<le> 21 then ds @ replicate (nat (n - k)) 48
         else if 0 < n \<and> n \<le> 21 then take (nat n) ds @ [46] @ drop (nat n) ds
         else if - 6 < n \<and> n \<le> 0 then js ''0.'' @ replicate (nat (- n)) 48 @ ds
         else let e = n - 1;
                  et = [101] @ (if 0 \<le> e then [43] else [45]) @ show_nat (nat \<bar>e\<bar>)
              in (if k = 1 then ds else take 1 ds @ [46] @ drop 1 ds) @ et)"

definition show_int :: "int \<Rightarrow> jsstring" where
  "show_int i = (if i < 0 then 45 # show_nat (nat (- i)) else show_nat (nat i))"

definition js_String :: "jsnum \<Rightarrow> jsstring" where
  "js_String v =
     (case v of NaN \<Rightarrow> js ''NaN'' | PosInf \<Rightarrow> js ''Infinity'' | NegInf \<Rightarrow> js ''-Infinity''
      | Num r \<Rightarrow> if of_int \<lfloor>r\<rfloor> = r \<and> \<bar>r\<bar> \<le> 2 ^ 53 then show_int \<lfloor>r\<rfloor>
                else if r < 0 then 45 # show_positive (- r) else show_positive r)"

lemma js_String_int:
  assumes "\<bar>i\<bar> \<le> 2 ^ 53"
  shows "js_String (Num (of_int i)) = show_int i"
proof -
  have "\<bar>of_int i :: rat\<bar> \<le> 2 ^ 53"
    using assms by (metis of_int_abs of_int_le_iff of_int_numeral of_int_power)
  then show ?thesis by (simp add: js_String_def)
qed

lemma show_int_nonempty [simp]: "show_int i \<noteq> []"
  by (simp add: show_int_def)

lemma show_int_inj [simp]: "show_int i = show_int j \<longleftrightarrow> i = j"
proof -
  have "show_nat n \<noteq> 45 # t" "45 # t \<noteq> show_nat n" for n t
    using show_nat_digits [of 45 n] by (auto simp: is_digit_def) (metis list.set_intros(1))
  then show ?thesis by (auto simp: show_int_def)
qed

lemma js_Number_neg_digits:
  assumes ds: "list_all is_digit ds" "ds \<noteq> []" and small: "decimal_value ds < 2 ^ 53"
  shows "js_Number (45 # ds) = Num (- of_nat (decimal_value ds))"
proof -
  have "trimmed (45 # ds)"
    using ds is_digit_not_white [of "last ds"]
    by (simp add: trimmed_def list_all_iff) (simp add: is_white_space_def)
  then have tr: "trim (45 # ds) = 45 # ds" by (rule trim_trimmed_id)
  obtain c t where ct: "ds = c # t" and c: "is_digit c" using ds by (cases ds) auto
  have "decimal_literal (45 # ds) = to_double (- of_nat (decimal_value ds))"
    using ct c ds unsigned_decimal_digits [OF ds]
    by (auto simp: decimal_literal_def js_def is_digit_def)
  also have "\<dots> = Num (- of_nat (decimal_value ds))"
    using to_double_int [of "- int (decimal_value ds)"] small by simp
  finally show ?thesis
    using tr ct by (simp add: js_Number_def js_def)
qed

lemma js_Number_show_int:
  assumes "\<bar>i\<bar> < 2 ^ 53"
  shows "js_Number (show_int i) = Num (of_int i)"
proof (cases "i < 0")
  case True
  then show ?thesis
    using js_Number_neg_digits [of "show_nat (nat (- i))"] show_nat_digits assms
    by (simp add: show_int_def list_all_iff)
next
  case False
  then show ?thesis
    using js_Number_show_nat [of "nat i"] assms by (simp add: show_int_def)
qed

end
