(* ===== verification/Json.thy ===== *)
theory Json
  imports JsNumber
begin

text \<open>
  JSON values with the language's \<open>JSON.stringify\<close> and \<open>JSON.parse\<close>, which the browser
  storage of the sessions and of the dashboards goes through.  \<open>parse_stringify\<close> is the round
  trip both storages rest on.  A property access on an unknown value, \<open>value.key\<close>, is
  \<open>get_prop\<close>; absent properties and properties of values that are no objects are \<open>undefined\<close>,
  here \<open>None\<close>.
\<close>

datatype json =
    JNull
  | JBool bool
  | JNum jsnum
  | JStr jsstring
  | JArr "json list"
  | JObj "(jsstring \<times> json) list"

text \<open>\<open>typeof value === "object" && value !== null\<close>, which holds of arrays too.\<close>

definition is_record :: "json \<Rightarrow> bool" where
  "is_record v = (case v of JArr _ \<Rightarrow> True | JObj _ \<Rightarrow> True | _ \<Rightarrow> False)"

definition get_prop :: "json \<Rightarrow> string \<Rightarrow> json option" where
  "get_prop v k = (case v of JObj ms \<Rightarrow> map_of ms (js k) | _ \<Rightarrow> None)"

section \<open>JSON.stringify\<close>

definition hex_digit :: "nat \<Rightarrow> nat" where
  "hex_digit d = (if d < 10 then 48 + d else 87 + d)"

definition hex4 :: "nat \<Rightarrow> jsstring" where
  "hex4 c = [hex_digit (c div 4096 mod 16), hex_digit (c div 256 mod 16),
             hex_digit (c div 16 mod 16), hex_digit (c mod 16)]"

definition is_high :: "nat \<Rightarrow> bool" where
  "is_high c \<longleftrightarrow> 55296 \<le> c \<and> c \<le> 56319"

definition is_low :: "nat \<Rightarrow> bool" where
  "is_low c \<longleftrightarrow> 56320 \<le> c \<and> c \<le> 57343"

definition quote_unit :: "nat \<Rightarrow> jsstring" where
  "quote_unit c =
     (if c = 34 then [92, 34] else if c = 92 then [92, 92]
      else if c = 8 then [92, 98] else if c = 12 then [92, 102] else if c = 10 then [92, 110]
      else if c = 13 then [92, 114] else if c = 9 then [92, 116]
      else if c < 32 \<or> is_high c \<or> is_low c then [92, 117] @ hex4 c else [c])"

fun quote_units :: "jsstring \<Rightarrow> jsstring" where
  "quote_units [] = []"
| "quote_units [c] = quote_unit c"
| "quote_units (c # d # t) =
     (if is_high c \<and> is_low d then c # d # quote_units t else quote_unit c @ quote_units (d # t))"

definition quote :: "jsstring \<Rightarrow> jsstring" where
  "quote s = [34] @ quote_units s @ [34]"

fun stringify :: "json \<Rightarrow> jsstring"
  and stringify_elements :: "json list \<Rightarrow> jsstring"
  and stringify_members :: "(jsstring \<times> json) list \<Rightarrow> jsstring" where
  "stringify JNull = js ''null''"
| "stringify (JBool b) = (if b then js ''true'' else js ''false'')"
| "stringify (JNum n) = (if is_finite n then js_String n else js ''null'')"
| "stringify (JStr s) = quote s"
| "stringify (JArr vs) = [91] @ stringify_elements vs @ [93]"
| "stringify (JObj ms) = [123] @ stringify_members ms @ [125]"
| "stringify_elements [] = []"
| "stringify_elements [v] = stringify v"
| "stringify_elements (v # w # vs) = stringify v @ [44] @ stringify_elements (w # vs)"
| "stringify_members [] = []"
| "stringify_members [(k, v)] = quote k @ [58] @ stringify v"
| "stringify_members ((k, v) # m # ms) = quote k @ [58] @ stringify v @ [44] @ stringify_members (m # ms)"

section \<open>JSON.parse\<close>

definition is_json_space :: "nat \<Rightarrow> bool" where
  "is_json_space c \<longleftrightarrow> c = 9 \<or> c = 10 \<or> c = 13 \<or> c = 32"

abbreviation skip_ws :: "jsstring \<Rightarrow> jsstring" where
  "skip_ws \<equiv> dropWhile is_json_space"

definition is_number_char :: "nat \<Rightarrow> bool" where
  "is_number_char c \<longleftrightarrow> is_digit c \<or> c = 43 \<or> c = 45 \<or> c = 46 \<or> c = 101 \<or> c = 69"

definition json_exponent_ok :: "jsstring \<Rightarrow> bool" where
  "json_exponent_ok s =
     (case s of [] \<Rightarrow> True | c # t \<Rightarrow> (c = 101 \<or> c = 69) \<and> exponent_value t \<noteq> None)"

definition json_number_ok :: "jsstring \<Rightarrow> bool" where
  "json_number_ok t =
     (let ip = takeWhile is_digit t; r = dropWhile is_digit t
      in ip \<noteq> [] \<and> (hd ip = 48 \<longrightarrow> length ip = 1) \<and>
         (case r of [] \<Rightarrow> True
          | c # u \<Rightarrow> if c = 46 then takeWhile is_digit u \<noteq> [] \<and> json_exponent_ok (dropWhile is_digit u)
                     else json_exponent_ok r))"

definition parse_number :: "jsstring \<Rightarrow> (json \<times> jsstring) option" where
  "parse_number s =
     (let tok = takeWhile is_number_char s; rest = dropWhile is_number_char s;
          (neg, t) = (case tok of [] \<Rightarrow> (False, []) | c # u \<Rightarrow> if c = 45 then (True, u) else (False, c # u))
      in if json_number_ok t
         then (case unsigned_decimal t of None \<Rightarrow> None
               | Some r \<Rightarrow> Some (JNum (to_double (if neg then - r else r)), rest))
         else None)"

definition hex4_value :: "nat \<Rightarrow> nat \<Rightarrow> nat \<Rightarrow> nat \<Rightarrow> nat option" where
  "hex4_value a b c d =
     (case (radix_digit 16 a, radix_digit 16 b, radix_digit 16 c, radix_digit 16 d) of
        (Some w, Some x, Some y, Some z) \<Rightarrow> Some (4096 * w + 256 * x + 16 * y + z)
      | _ \<Rightarrow> None)"

definition escape_value :: "nat \<Rightarrow> nat option" where
  "escape_value e =
     (if e = 34 \<or> e = 92 \<or> e = 47 then Some e else if e = 98 then Some 8
      else if e = 102 then Some 12 else if e = 110 then Some 10 else if e = 114 then Some 13
      else if e = 116 then Some 9 else None)"

fun parse_units :: "jsstring \<Rightarrow> (jsstring \<times> jsstring) option" where
  "parse_units [] = None"
| "parse_units (c # t) =
     (if c = 34 then Some ([], t)
      else if c = 92 then
        (case t of [] \<Rightarrow> None
         | e # u \<Rightarrow>
             if e = 117 then
               (case u of a # b # x # y # v \<Rightarrow>
                  (case hex4_value a b x y of None \<Rightarrow> None
                   | Some h \<Rightarrow> map_option (\<lambda>(s, r). (h # s, r)) (parse_units v))
                | _ \<Rightarrow> None)
             else (case escape_value e of None \<Rightarrow> None
                   | Some h \<Rightarrow> map_option (\<lambda>(s, r). (h # s, r)) (parse_units u)))
      else if c < 32 then None
      else map_option (\<lambda>(s, r). (c # s, r)) (parse_units t))"

definition parse_literal :: "string \<Rightarrow> json \<Rightarrow> jsstring \<Rightarrow> (json \<times> jsstring) option" where
  "parse_literal w v s = (if startsWith s (js w) then Some (v, drop (length w) s) else None)"

text \<open>
  The recursive descent, with fuel: every call consumes at least one character before it calls
  itself, so the length of the text is enough (\<open>parse_value_stringify\<close>).
\<close>

fun parse_value :: "nat \<Rightarrow> jsstring \<Rightarrow> (json \<times> jsstring) option"
  and parse_elements :: "nat \<Rightarrow> jsstring \<Rightarrow> (json list \<times> jsstring) option"
  and parse_members :: "nat \<Rightarrow> jsstring \<Rightarrow> ((jsstring \<times> json) list \<times> jsstring) option" where
  "parse_value 0 s = None"
| "parse_value (Suc n) s =
     (case skip_ws s of [] \<Rightarrow> None
      | c # t \<Rightarrow>
          if c = 34 then map_option (\<lambda>(u, r). (JStr u, r)) (parse_units t)
          else if c = 91 then
            (if skip_ws t \<noteq> [] \<and> hd (skip_ws t) = 93 then Some (JArr [], tl (skip_ws t))
             else map_option (\<lambda>(vs, r). (JArr vs, r)) (parse_elements n t))
          else if c = 123 then
            (if skip_ws t \<noteq> [] \<and> hd (skip_ws t) = 125 then Some (JObj [], tl (skip_ws t))
             else map_option (\<lambda>(ms, r). (JObj (map_from ms), r)) (parse_members n t))
          else if c = 110 then parse_literal ''null'' JNull (c # t)
          else if c = 116 then parse_literal ''true'' (JBool True) (c # t)
          else if c = 102 then parse_literal ''false'' (JBool False) (c # t)
          else parse_number (c # t))"
| "parse_elements 0 s = None"
| "parse_elements (Suc n) s =
     (case parse_value n s of None \<Rightarrow> None
      | Some (v, r) \<Rightarrow>
          (case skip_ws r of [] \<Rightarrow> None
           | c # t \<Rightarrow> if c = 93 then Some ([v], t)
                      else if c = 44 then map_option (\<lambda>(vs, u). (v # vs, u)) (parse_elements n t)
                      else None))"
| "parse_members 0 s = None"
| "parse_members (Suc n) s =
     (case skip_ws s of [] \<Rightarrow> None
      | q # s1 \<Rightarrow>
          if q \<noteq> 34 then None
          else (case parse_units s1 of None \<Rightarrow> None
                | Some (k, s2) \<Rightarrow>
                    (case skip_ws s2 of [] \<Rightarrow> None
                     | d # s3 \<Rightarrow>
                         if d \<noteq> 58 then None
                         else (case parse_value n s3 of None \<Rightarrow> None
                               | Some (v, r) \<Rightarrow>
                                   (case skip_ws r of [] \<Rightarrow> None
                                    | c # t \<Rightarrow>
                                        if c = 125 then Some ([(k, v)], t)
                                        else if c = 44
                                        then map_option (\<lambda>(ms, u). ((k, v) # ms, u)) (parse_members n t)
                                        else None)))))"

definition json_parse :: "jsstring \<Rightarrow> js_error + json" where
  "json_parse s =
     (case parse_value (Suc (length s)) s of
        Some (v, r) \<Rightarrow> if skip_ws r = [] then Inr v else Inl SyntaxError
      | None \<Rightarrow> Inl SyntaxError)"

section \<open>The round trip\<close>

text \<open>
  The values whose text determines them: numbers are safe integers, and an object has each
  key once.  \<open>JSON.parse\<close> of a text with a repeated key keeps the last value.
\<close>

fun json_ok :: "json \<Rightarrow> bool" where
  "json_ok (JNum n) = (case n of Num r \<Rightarrow> of_int \<lfloor>r\<rfloor> = r \<and> \<bar>r\<bar> < 2 ^ 53 | _ \<Rightarrow> False)"
| "json_ok (JArr vs) = list_all json_ok vs"
| "json_ok (JObj ms) = (distinct (map fst ms) \<and> list_all (\<lambda>m. json_ok (snd m)) ms)"
| "json_ok v = True"

lemma radix_digit_hex_digit: "d < 16 \<Longrightarrow> radix_digit 16 (hex_digit d) = Some d"
  by (simp add: radix_digit_def hex_digit_def is_digit_def)

lemma hex4_value_hex4:
  assumes "c < 65536" "hex4 c = [x, y, z, w]"
  shows "hex4_value x y z w = Some c"
proof -
  have rd: "radix_digit 16 (hex_digit (n mod 16)) = Some (n mod 16)" for n :: nat
    by (rule radix_digit_hex_digit) simp
  have v: "4096 * (c div 4096 mod 16) + 256 * (c div 256 mod 16) + 16 * (c div 16 mod 16) + c mod 16 = c"
  proof -
    have d: "c div 256 = c div 16 div 16" "c div 4096 = c div 16 div 16 div 16"
      by (simp_all add: div_mult2_eq [symmetric])
    have "c div 16 div 16 div 16 < 16"
      using assms(1) by (simp add: div_mult2_eq [symmetric] less_mult_imp_div_less)
    then have "c div 16 div 16 div 16 mod 16 = c div 16 div 16 div 16" by (rule mod_less)
    then show ?thesis
      unfolding d using mult_div_mod_eq [of 16 c] mult_div_mod_eq [of 16 "c div 16"]
        mult_div_mod_eq [of 16 "c div 16 div 16"] by linarith
  qed
  have "x = hex_digit (c div 4096 mod 16)" "y = hex_digit (c div 256 mod 16)"
      "z = hex_digit (c div 16 mod 16)" "w = hex_digit (c mod 16)"
    using assms(2) by (simp_all only: hex4_def list.inject)
  then show ?thesis by (simp only: hex4_value_def rd prod.case option.case v)
qed

lemma parse_units_quote_unit:
  "parse_units (quote_unit c @ r) = map_option (\<lambda>(s, r). (c # s, r)) (parse_units r)"
proof (cases "c \<in> {34, 92, 8, 12, 10, 13, 9}")
  case True
  then show ?thesis by (auto simp: quote_unit_def escape_value_def)
next
  case False
  show ?thesis
  proof (cases "c < 32 \<or> is_high c \<or> is_low c")
    case True
    obtain x y z w where h: "hex4 c = [x, y, z, w]" by (simp add: hex4_def)
    from True have "c < 65536" by (auto simp: is_high_def is_low_def)
    from hex4_value_hex4 [OF this h] show ?thesis
      using True False h by (auto simp: quote_unit_def)
  next
    case False': False
    then have "quote_unit c = [c]"
      using False by (auto simp: quote_unit_def)
    with False False' show ?thesis by simp
  qed
qed

lemma parse_units_quote_units: "parse_units (quote_units s @ 34 # r) = Some (s, r)"
proof (induction s rule: quote_units.induct)
  case (3 c d t)
  show ?case
  proof (cases "is_high c \<and> is_low d")
    case True
    then have "c \<noteq> 34" "c \<noteq> 92" "\<not> c < 32" "d \<noteq> 34" "d \<noteq> 92" "\<not> d < 32"
      by (auto simp: is_high_def is_low_def)
    with True 3 show ?thesis by simp
  next
    case False
    then have "quote_units (c # d # t) = quote_unit c @ quote_units (d # t)" by auto
    with 3(2) [OF False] show ?thesis
      by (simp add: parse_units_quote_unit del: quote_units.simps parse_units.simps)
  qed
qed (simp_all add: parse_units_quote_unit)

definition follows :: "jsstring \<Rightarrow> bool" where
  "follows r \<longleftrightarrow> r = [] \<or> hd r \<in> {44, 93, 125}"

lemma follows_not_number: "follows r \<Longrightarrow> takeWhile is_number_char r = [] \<and> dropWhile is_number_char r = r"
  by (cases r) (auto simp: follows_def is_number_char_def is_digit_def)

lemma follows_skip_ws: "follows r \<Longrightarrow> skip_ws r = r"
  by (cases r) (auto simp: follows_def is_json_space_def)

lemma json_number_ok_show_nat: "json_number_ok (show_nat n)"
proof -
  have d: "takeWhile is_digit (show_nat n) = show_nat n" "dropWhile is_digit (show_nat n) = []"
    using show_nat_digits by (auto simp: takeWhile_eq_all_conv dropWhile_eq_Nil_conv)
  show ?thesis
    by (cases "n = 0") (auto simp: json_number_ok_def d show_nat_0 show_nat_hd is_digit_def)
qed

lemma unsigned_decimal_show_nat: "unsigned_decimal (show_nat n) = Some (of_nat n)"
  using unsigned_decimal_digits [of "show_nat n"] show_nat_digits by (simp add: list_all_iff)

lemma show_nat_cases: obtains c t where "show_nat n = c # t" "is_digit c"
  using show_nat_digits [of _ n] show_nat_nonempty [of n] by (cases "show_nat n") auto

lemma parse_number_show_int:
  assumes "\<bar>i\<bar> < 2 ^ 53" "follows r"
  shows "parse_number (show_int i @ r) = Some (JNum (Num (of_int i)), r)"
proof -
  have nc: "\<forall>c\<in>set (show_int i). is_number_char c"
    using show_nat_digits by (auto simp: show_int_def is_number_char_def)
  then have tok: "takeWhile is_number_char (show_int i @ r) = show_int i"
      "dropWhile is_number_char (show_int i @ r) = r"
    using follows_not_number [OF assms(2)] by (simp_all add: takeWhile_append2 dropWhile_append2)
  show ?thesis
  proof (cases "i < 0")
    case True
    then show ?thesis
      using tok to_double_int [of i] assms(1)
      by (simp add: parse_number_def show_int_def json_number_ok_show_nat unsigned_decimal_show_nat)
  next
    case False
    obtain c t where ct: "show_nat (nat i) = c # t" "is_digit c" by (rule show_nat_cases)
    have "c \<noteq> 45" using ct by (auto simp: is_digit_def)
    then show ?thesis
      using False tok to_double_int [of i] assms(1) ct(1) json_number_ok_show_nat [of "nat i"]
        unsigned_decimal_show_nat [of "nat i"]
      by (simp add: parse_number_def show_int_def)
  qed
qed

definition value_round_trip :: "json \<Rightarrow> bool" where
  "value_round_trip v \<longleftrightarrow>
     (\<forall>n r. length (stringify v) \<le> n \<longrightarrow> follows r \<longrightarrow> parse_value n (stringify v @ r) = Some (v, r))"

lemma value_round_tripD:
  "value_round_trip v \<Longrightarrow> length (stringify v) \<le> n \<Longrightarrow> follows r \<Longrightarrow>
   parse_value n (stringify v @ r) = Some (v, r)"
  by (simp add: value_round_trip_def)

lemma stringify_num_ok:
  assumes "json_ok (JNum n)"
  obtains i where "n = Num (of_int i)" "\<bar>i\<bar> < 2 ^ 53" "stringify (JNum n) = show_int i"
proof -
  from assms obtain r where r: "n = Num r" "of_int \<lfloor>r\<rfloor> = r" "\<bar>r\<bar> < 2 ^ 53"
    by (auto split: jsnum.splits)
  let ?i = "\<lfloor>r\<rfloor>"
  have "(of_int \<bar>?i\<bar> :: rat) < of_int (2 ^ 53)"
    using r(2,3) by (metis of_int_abs of_int_numeral of_int_power)
  then have "\<bar>?i\<bar> < 2 ^ 53" by (simp only: of_int_less_iff)
  moreover have "n = Num (of_int ?i)" using r(1) r(2) [symmetric] by metis
  ultimately show thesis
    using that [of ?i] js_String_int [of ?i] r by (simp add: is_finite_def)
qed

text \<open>A value's text starts with none of white space, a comma or a closing bracket.\<close>

lemma stringify_hd:
  assumes "json_ok v"
  obtains c t where "stringify v = c # t" "c \<notin> {9, 10, 13, 32, 44, 93, 125}"
proof (cases v)
  case (JNum n)
  with assms obtain i where i: "stringify v = show_int i" using stringify_num_ok by metis
  show ?thesis
  proof (cases "i < 0")
    case True
    with i that show ?thesis by (simp add: show_int_def)
  next
    case False
    obtain c t where "show_nat (nat i) = c # t" "is_digit c" by (rule show_nat_cases)
    with False i that [of c t] show ?thesis by (auto simp: show_int_def is_digit_def)
  qed
next
  case (JBool b)
  with that show ?thesis by (cases b) (auto simp: js_def)
qed (use that in \<open>auto simp: js_def quote_def\<close>)

lemma stringify_nonempty: "json_ok v \<Longrightarrow> 0 < length (stringify v)"
  using stringify_hd [of v] by fastforce

lemma parse_elements_stringify:
  assumes "vs \<noteq> []" "\<forall>v\<in>set vs. json_ok v \<and> value_round_trip v" "length (stringify_elements vs) < n"
  shows "parse_elements n (stringify_elements vs @ 93 # r) = Some (vs, r)"
  using assms
proof (induction vs arbitrary: n rule: induct_list012)
  case (2 v)
  then obtain m where m: "n = Suc m" "length (stringify v) \<le> m" by (cases n) auto
  have "parse_value m (stringify v @ 93 # r) = Some (v, 93 # r)"
    using 2 m by (intro value_round_tripD) (auto simp: follows_def)
  then show ?case using m by (simp add: is_json_space_def)
next
  case (3 v w vs)
  from 3(5) obtain m where m: "n = Suc m" "length (stringify v) \<le> m"
      "length (stringify_elements (w # vs)) < m" by (cases n) auto
  have "parse_value m (stringify v @ 44 # stringify_elements (w # vs) @ 93 # r)
        = Some (v, 44 # stringify_elements (w # vs) @ 93 # r)"
    using 3 m by (intro value_round_tripD) (auto simp: follows_def)
  moreover have "parse_elements m (stringify_elements (w # vs) @ 93 # r) = Some (w # vs, r)"
    using 3 m by (intro "3.IH") auto
  ultimately show ?case using m by (simp add: is_json_space_def)
qed simp

lemma parse_members_stringify:
  assumes "ms \<noteq> []" "\<forall>m\<in>set ms. json_ok (snd m) \<and> value_round_trip (snd m)"
    "length (stringify_members ms) < n"
  shows "parse_members n (stringify_members ms @ 125 # r) = Some (ms, r)"
  using assms
proof (induction ms arbitrary: n rule: induct_list012)
  case (2 kv)
  obtain k v where kv: "kv = (k, v)" by fastforce
  with 2 obtain m where m: "n = Suc m" "length (stringify v) \<le> m" by (cases n) auto
  have "parse_value m (stringify v @ 125 # r) = Some (v, 125 # r)"
    using 2 m kv by (intro value_round_tripD) (auto simp: follows_def)
  then show ?case
    using m kv by (simp add: is_json_space_def quote_def parse_units_quote_units)
next
  case (3 kv kw ms)
  obtain k v where kv: "kv = (k, v)" by fastforce
  let ?rest = "stringify_members (kw # ms)"
  from 3(5) kv obtain m where m: "n = Suc m" "length (stringify v) \<le> m" "length ?rest < m"
    by (cases n) auto
  have "parse_value m (stringify v @ 44 # ?rest @ 125 # r) = Some (v, 44 # ?rest @ 125 # r)"
    using 3 m kv by (intro value_round_tripD) (auto simp: follows_def)
  moreover have "parse_members m (?rest @ 125 # r) = Some (kw # ms, r)"
    using 3 m by (intro "3.IH") auto
  ultimately show ?case
    using m kv by (simp add: is_json_space_def quote_def parse_units_quote_units)
qed simp

lemma stringify_elements_hd:
  assumes "vs \<noteq> []" "list_all json_ok vs"
  obtains c t where "stringify_elements vs = c # t" "c \<notin> {9, 10, 13, 32, 44, 93, 125}"
proof (cases vs rule: remdups_adj.cases)
  case (2 v)
  with assms that show ?thesis using stringify_hd [of v] by auto
next
  case (3 v w ws)
  with assms have "json_ok v" by simp
  then obtain c t where "stringify v = c # t" "c \<notin> {9, 10, 13, 32, 44, 93, 125}"
    by (rule stringify_hd)
  with 3 that show ?thesis by simp
qed (use assms in simp)

lemma stringify_members_hd:
  assumes "ms \<noteq> []"
  obtains t where "stringify_members ms = 34 # t"
  by (cases ms rule: stringify_members.cases) (use assms that in \<open>auto simp: quote_def\<close>)

lemma parse_literal_stringify [simp]: "parse_literal w v (js w @ r) = Some (v, r)"
  by (simp add: parse_literal_def)

text \<open>The heart of the round trip: the parser reads exactly the text of the value.\<close>

lemma parse_value_stringify: "json_ok v \<Longrightarrow> value_round_trip v"
proof (induction v)
  case (JNum n)
  then obtain i where i: "n = Num (of_int i)" "\<bar>i\<bar> < 2 ^ 53" "stringify (JNum n) = show_int i"
    by (rule stringify_num_ok)
  from stringify_hd [OF JNum] obtain c t where ct: "show_int i = c # t"
      and c: "c \<notin> {9, 10, 13, 32, 44, 93, 125}" using i(3) by metis
  have c2: "is_digit c \<or> c = 45"
    using ct show_nat_digits by (auto simp: show_int_def split: if_splits) (metis list.set_intros(1))
  show ?case
    unfolding value_round_trip_def
  proof (intro allI impI)
    fix m r assume m: "length (stringify (JNum n)) \<le> m" and r: "follows r"
    with i(3) ct obtain m' where m': "m = Suc m'" by (cases m) auto
    have "parse_number (c # t @ r) = Some (JNum n, r)"
      using parse_number_show_int [OF i(2) r] i(1) ct by simp
    then show "parse_value m (stringify (JNum n) @ r) = Some (JNum n, r)"
      using m' c c2 ct i(3) by (auto simp: is_json_space_def is_digit_def)
  qed
next
  case (JStr s)
  show ?case
    unfolding value_round_trip_def
  proof (intro allI impI)
    fix m r assume "length (stringify (JStr s)) \<le> m"
    then obtain m' where "m = Suc m'" by (cases m) (auto simp: quote_def)
    then show "parse_value m (stringify (JStr s) @ r) = Some (JStr s, r)"
      by (simp add: quote_def is_json_space_def parse_units_quote_units)
  qed
next
  case (JArr vs)
  show ?case
    unfolding value_round_trip_def
  proof (intro allI impI)
    fix m r assume m: "length (stringify (JArr vs)) \<le> m"
    then obtain m' where m': "m = Suc m'" by (cases m) auto
    show "parse_value m (stringify (JArr vs) @ r) = Some (JArr vs, r)"
    proof (cases "vs = []")
      case False
      have ok: "list_all json_ok vs" using JArr.prems by simp
      from stringify_elements_hd [OF False ok] obtain c t
        where ct: "stringify_elements vs = c # t" "c \<notin> {9, 10, 13, 32, 44, 93, 125}" by metis
      have "parse_elements m' (stringify_elements vs @ 93 # r) = Some (vs, r)"
        using JArr m m' ok False by (intro parse_elements_stringify) (auto simp: list_all_iff)
      with ct m' show ?thesis by (simp add: is_json_space_def)
    qed (simp add: m' is_json_space_def)
  qed
next
  case (JObj ms)
  show ?case
    unfolding value_round_trip_def
  proof (intro allI impI)
    fix m r assume m: "length (stringify (JObj ms)) \<le> m"
    then obtain m' where m': "m = Suc m'" by (cases m) auto
    show "parse_value m (stringify (JObj ms) @ r) = Some (JObj ms, r)"
    proof (cases "ms = []")
      case False
      obtain t where t: "stringify_members ms = 34 # t" using stringify_members_hd [OF False] .
      have "parse_members m' (stringify_members ms @ 125 # r) = Some (ms, r)"
        using JObj m m' False
        by (intro parse_members_stringify) (fastforce simp: list_all_iff)+
      with t m' JObj.prems show ?thesis by (simp add: is_json_space_def map_from_distinct)
    qed (simp add: m' is_json_space_def)
  qed
qed (auto simp: value_round_trip_def js_def is_json_space_def parse_literal_def startsWith_def
       gr0_conv_Suc Suc_le_eq dest!: less_imp_Suc_add)

theorem parse_stringify:
  assumes "json_ok v"
  shows "json_parse (stringify v) = Inr v"
proof -
  have "parse_value (Suc (length (stringify v))) (stringify v @ []) = Some (v, [])"
    using assms by (intro value_round_tripD [OF parse_value_stringify]) (auto simp: follows_def)
  then show ?thesis by (simp add: json_parse_def)
qed

end
