(* ===== verification/OverviewLayoutModel.thy ===== *)
theory OverviewLayoutModel
  imports Json
begin

text \<open>
  The grid of the custom overview dashboards (\<open>features/overviewLayout/overviewLayoutModel.ts\<close>):
  the widget catalog, the occupancy bitmap of the 12 by 256 grid and the search for a free
  position.  Coordinates are numbers in the source; they are rationals here, so that the
  rounding the source does (\<open>floor\<close>, \<open>ceil\<close>) is visible, and the invariants say when they are
  integers.  The lemmas show that the bitmap represents the union of the placed regions, that
  the search is sound, complete and returns a nearest free position, and that it keeps a
  requested position that is free.
\<close>

section \<open>Widgets\<close>

datatype OverviewWidgetType =
    EdrState | KpiAlerts | KpiCriticalAlerts | KpiHighRiskEndpoints | KpiOpenIncidents
  | DetectionActivity | AlertSeverity | HighestRiskEndpoints | IncidentQueue

definition OVERVIEW_WIDGET_TYPES :: "OverviewWidgetType list" where
  "OVERVIEW_WIDGET_TYPES =
     [EdrState, KpiAlerts, KpiCriticalAlerts, KpiHighRiskEndpoints, KpiOpenIncidents,
      DetectionActivity, AlertSeverity, HighestRiskEndpoints, IncidentQueue]"

fun widget_type_name :: "OverviewWidgetType \<Rightarrow> jsstring" where
  "widget_type_name EdrState = js ''edr-state''"
| "widget_type_name KpiAlerts = js ''kpi-alerts''"
| "widget_type_name KpiCriticalAlerts = js ''kpi-critical-alerts''"
| "widget_type_name KpiHighRiskEndpoints = js ''kpi-high-risk-endpoints''"
| "widget_type_name KpiOpenIncidents = js ''kpi-open-incidents''"
| "widget_type_name DetectionActivity = js ''detection-activity''"
| "widget_type_name AlertSeverity = js ''alert-severity''"
| "widget_type_name HighestRiskEndpoints = js ''highest-risk-endpoints''"
| "widget_type_name IncidentQueue = js ''incident-queue''"

record OverviewWidgetDefinition =
  def_type :: OverviewWidgetType
  titleKey :: jsstring
  defaultW :: rat
  defaultH :: rat
  minW :: rat
  minH :: rat
  maxW :: rat
  maxH :: rat

text \<open>
  \<open>Pick<CustomDashboardWidget, "x" | "y" | "w" | "h">\<close> is the base record, so that the grid
  functions take a bare rectangle as well as a widget.
\<close>

record grid_item =
  gx :: rat
  gy :: rat
  gw :: rat
  gh :: rat

record CustomDashboardWidget = grid_item +
  uid :: jsstring
  wtype :: OverviewWidgetType

record CustomOverviewDashboard =
  dash_id :: jsstring
  dash_name :: jsstring
  widgets :: "CustomDashboardWidget list"
  createdAt :: jsstring
  updatedAt :: jsstring

text \<open>The store's \<open>version\<close> is the constant 1 of its type, so the store is its dashboards.\<close>

record OverviewDashboardStoreV1 =
  dashboards :: "CustomOverviewDashboard list"

definition OVERVIEW_GRID_COLUMNS :: int where
  "OVERVIEW_GRID_COLUMNS = 12"

definition OVERVIEW_GRID_MAX_ROWS :: int where
  "OVERVIEW_GRID_MAX_ROWS = 256"

definition DEFAULT_DASHBOARD_ID :: jsstring where
  "DEFAULT_DASHBOARD_ID = js ''default''"

definition OVERVIEW_GRID_CELL_COUNT :: int where
  "OVERVIEW_GRID_CELL_COUNT = OVERVIEW_GRID_COLUMNS * OVERVIEW_GRID_MAX_ROWS"

lemmas grid_size_defs = OVERVIEW_GRID_COLUMNS_def OVERVIEW_GRID_MAX_ROWS_def OVERVIEW_GRID_CELL_COUNT_def

definition widget_definition_row ::
  "OverviewWidgetType \<Rightarrow> string \<Rightarrow> rat \<Rightarrow> rat \<Rightarrow> rat \<Rightarrow> rat \<Rightarrow> rat \<Rightarrow> rat \<Rightarrow> OverviewWidgetDefinition" where
  "widget_definition_row t k dw dh mw mh xw xh =
     \<lparr>def_type = t, titleKey = js k, defaultW = dw, defaultH = dh, minW = mw, minH = mh, maxW = xw, maxH = xh\<rparr>"

definition OVERVIEW_WIDGET_DEFINITIONS :: "OverviewWidgetDefinition list" where
  "OVERVIEW_WIDGET_DEFINITIONS =
     [widget_definition_row EdrState ''edrState.current'' 12 4 12 4 12 8,
      widget_definition_row KpiAlerts ''overview.totalAlerts'' 3 2 3 2 6 5,
      widget_definition_row KpiCriticalAlerts ''overview.criticalAlerts'' 3 2 3 2 6 5,
      widget_definition_row KpiHighRiskEndpoints ''overview.highRiskEndpoints'' 3 2 3 2 6 5,
      widget_definition_row KpiOpenIncidents ''overview.openIncidents'' 3 2 3 2 6 5,
      widget_definition_row DetectionActivity ''overview.detectionActivity'' 8 10 6 10 12 12,
      widget_definition_row AlertSeverity ''overview.alertSeverity'' 4 7 4 7 8 12,
      widget_definition_row HighestRiskEndpoints ''overview.highestRiskEndpoints'' 6 7 6 7 12 12,
      widget_definition_row IncidentQueue ''overview.incidentQueueWidget'' 6 7 6 7 12 12]"

text \<open>
  \<open>isOverviewWidgetType\<close> is a type guard: on a string that names a type it yields the type.
\<close>

definition isOverviewWidgetType :: "json option \<Rightarrow> OverviewWidgetType option" where
  "isOverviewWidgetType v =
     (case v of Some (JStr s) \<Rightarrow> List.find (\<lambda>t. widget_type_name t = s) OVERVIEW_WIDGET_TYPES
      | _ \<Rightarrow> None)"

definition widgetDefinition :: "OverviewWidgetType \<Rightarrow> js_error + OverviewWidgetDefinition" where
  "widgetDefinition t =
     (case List.find (\<lambda>d. def_type d = t) OVERVIEW_WIDGET_DEFINITIONS of
        None \<Rightarrow> Inl (Error (js ''Unknown Overview widget type: '' @ widget_type_name t))
      | Some d \<Rightarrow> Inr d)"

text \<open>
  The callers use the definition itself: the lookup never throws (\<open>widgetDefinition_total\<close>).
\<close>

abbreviation definitionOf :: "OverviewWidgetType \<Rightarrow> OverviewWidgetDefinition" where
  "definitionOf t \<equiv> projr (widgetDefinition t)"

text \<open>
  \<open>createOverviewId\<close> concatenates the prefix and a fresh value of the runtime
  (\<open>crypto.randomUUID\<close>), which is an argument here.
\<close>

definition createOverviewId :: "string \<Rightarrow> jsstring \<Rightarrow> jsstring" where
  "createOverviewId kind fresh = js kind @ js ''-'' @ fresh"

definition createOverviewWidget :: "jsstring \<Rightarrow> OverviewWidgetType \<Rightarrow> CustomDashboardWidget" where
  "createOverviewWidget fresh t =
     \<lparr>gx = 0, gy = 0, gw = defaultW (definitionOf t), gh = defaultH (definitionOf t),
      uid = createOverviewId ''widget'' fresh, wtype = t\<rparr>"

fun dedup_types_loop ::
  "OverviewWidgetType list \<Rightarrow> CustomDashboardWidget list \<Rightarrow> CustomDashboardWidget list \<Rightarrow> CustomDashboardWidget list" where
  "dedup_types_loop seen out [] = out"
| "dedup_types_loop seen out (v # vs) =
     (if wtype v \<in> set seen then dedup_types_loop seen out vs
      else dedup_types_loop (seen @ [wtype v]) (out @ [v]) vs)"

definition deduplicateOverviewWidgetTypes :: "CustomDashboardWidget list \<Rightarrow> CustomDashboardWidget list" where
  "deduplicateOverviewWidgetTypes vs = dedup_types_loop [] [] vs"

section \<open>The occupancy bitmap\<close>

text \<open>
  A \<open>Uint8Array\<close> of the grid's cells, as a function of the index: a write out of range is
  ignored, a read out of range is \<open>undefined\<close>, hence falsy.
\<close>

type_synonym occupancy = "int \<Rightarrow> nat"

definition in_array :: "int \<Rightarrow> bool" where
  "in_array i \<longleftrightarrow> 0 \<le> i \<and> i < OVERVIEW_GRID_CELL_COUNT"

definition array_write :: "occupancy \<Rightarrow> int \<Rightarrow> nat \<Rightarrow> occupancy" where
  "array_write a i v = (if in_array i then a(i := v) else a)"

definition array_read :: "occupancy \<Rightarrow> int \<Rightarrow> nat" where
  "array_read a i = (if in_array i then a i else 0)"

definition occupyOverviewGridRegion :: "occupancy \<Rightarrow> 'a grid_item_scheme \<Rightarrow> occupancy" where
  "occupyOverviewGridRegion occ v =
     (let left = max 0 \<lfloor>gx v\<rfloor>;
          top = max 0 \<lfloor>gy v\<rfloor>;
          right = min OVERVIEW_GRID_COLUMNS \<lceil>gx v + gw v\<rceil>;
          bottom = min OVERVIEW_GRID_MAX_ROWS \<lceil>gy v + gh v\<rceil>
      in foldl (\<lambda>occ y. foldl (\<lambda>occ x. array_write occ (y * OVERVIEW_GRID_COLUMNS + x) 1) occ [left..right - 1])
           occ [top..bottom - 1])"

definition createOverviewGridOccupancy :: "'a grid_item_scheme list \<Rightarrow> occupancy" where
  "createOverviewGridOccupancy vs = foldl occupyOverviewGridRegion (\<lambda>_. 0) vs"

definition overviewGridRegionAvailable :: "occupancy \<Rightarrow> int \<Rightarrow> int \<Rightarrow> int \<Rightarrow> int \<Rightarrow> bool" where
  "overviewGridRegionAvailable occ x y w h =
     list_all (\<lambda>row. list_all (\<lambda>column. array_read occ (row * OVERVIEW_GRID_COLUMNS + column) = 0)
                       [x..x + w - 1])
       [y..y + h - 1]"

section \<open>The search for a position\<close>

definition is_int :: "rat \<Rightarrow> bool" where
  "is_int r \<longleftrightarrow> of_int \<lfloor>r\<rfloor> = r"

text \<open>The two nested loops over the candidate rows and columns, with the early return.\<close>

fun first_free_column :: "occupancy \<Rightarrow> int \<Rightarrow> int \<Rightarrow> int \<Rightarrow> int list \<Rightarrow> (int \<times> int) option" where
  "first_free_column occ w h y [] = None"
| "first_free_column occ w h y (x # xs) =
     (if overviewGridRegionAvailable occ x y w h then Some (x, y) else first_free_column occ w h y xs)"

fun first_free_position :: "occupancy \<Rightarrow> int \<Rightarrow> int \<Rightarrow> int list \<Rightarrow> int list \<Rightarrow> (int \<times> int) option" where
  "first_free_position occ w h xs [] = None"
| "first_free_position occ w h xs (y # ys) =
     (case first_free_column occ w h y xs of Some p \<Rightarrow> Some p
      | None \<Rightarrow> first_free_position occ w h xs ys)"

definition candidates_near :: "int \<Rightarrow> rat \<Rightarrow> int list" where
  "candidates_near n requested = js_sort (by_key (\<lambda>a. \<bar>of_int a - requested\<bar>)) [0..n]"

definition findAvailableOverviewWidgetPosition ::
  "'a grid_item_scheme \<Rightarrow> 'b grid_item_scheme list \<Rightarrow> occupancy option \<Rightarrow> (int \<times> int) option" where
  "findAvailableOverviewWidgetPosition v vs occupancy =
     (let occ = (case occupancy of Some a \<Rightarrow> a | None \<Rightarrow> createOverviewGridOccupancy vs)
      in if \<not> is_int (gw v) \<or> \<not> is_int (gh v) \<or> gw v < 1 \<or> gh v < 1
            \<or> gw v > of_int OVERVIEW_GRID_COLUMNS \<or> gh v > of_int OVERVIEW_GRID_MAX_ROWS
         then None
         else let w = \<lfloor>gw v\<rfloor>; h = \<lfloor>gh v\<rfloor>;
                  requestedX = min (max (gx v) 0) (of_int (OVERVIEW_GRID_COLUMNS - w));
                  requestedY = min (max (gy v) 0) (of_int (OVERVIEW_GRID_MAX_ROWS - h))
              in first_free_position occ w h
                   (candidates_near (OVERVIEW_GRID_COLUMNS - w) requestedX)
                   (candidates_near (OVERVIEW_GRID_MAX_ROWS - h) requestedY))"

definition overviewWidgetsOverlap :: "'a grid_item_scheme \<Rightarrow> 'b grid_item_scheme \<Rightarrow> bool" where
  "overviewWidgetsOverlap left right \<longleftrightarrow>
     gx left < gx right + gw right \<and> gx left + gw left > gx right \<and>
     gy left < gy right + gh right \<and> gy left + gh left > gy right"

text \<open>\<open>{ ...widget, ...position }\<close>\<close>

definition place_at :: "'a grid_item_scheme \<Rightarrow> int \<times> int \<Rightarrow> 'a grid_item_scheme" where
  "place_at v p = v\<lparr>gx := of_int (fst p), gy := of_int (snd p)\<rparr>"

section \<open>The catalog\<close>

lemma widgetDefinition_total: "\<exists>d. widgetDefinition t = Inr d \<and> def_type d = t"
  by (cases t) (simp_all add: widgetDefinition_def OVERVIEW_WIDGET_DEFINITIONS_def widget_definition_row_def)

lemma widget_type_name_inj [simp]: "widget_type_name s = widget_type_name t \<longleftrightarrow> s = t"
  by (cases s; cases t) simp_all

lemma isOverviewWidgetType_name [simp]: "isOverviewWidgetType (Some (JStr (widget_type_name t))) = Some t"
  by (cases t) (simp_all add: isOverviewWidgetType_def OVERVIEW_WIDGET_TYPES_def)

text \<open>The size limits of every type are integers within the grid and leave a range.\<close>

definition definition_ok :: "OverviewWidgetDefinition \<Rightarrow> bool" where
  "definition_ok d \<longleftrightarrow>
     is_int (minW d) \<and> is_int (maxW d) \<and> is_int (minH d) \<and> is_int (maxH d) \<and>
     is_int (defaultW d) \<and> is_int (defaultH d) \<and>
     1 \<le> minW d \<and> minW d \<le> defaultW d \<and> defaultW d \<le> maxW d \<and> maxW d \<le> of_int OVERVIEW_GRID_COLUMNS \<and>
     1 \<le> minH d \<and> minH d \<le> defaultH d \<and> defaultH d \<le> maxH d \<and> maxH d \<le> of_int OVERVIEW_GRID_MAX_ROWS"

lemma definitionOf_ok: "definition_ok (definitionOf t)"
  by (cases t)
    (simp_all add: widgetDefinition_def OVERVIEW_WIDGET_DEFINITIONS_def widget_definition_row_def
      definition_ok_def is_int_def grid_size_defs)

section \<open>What the bitmap represents\<close>

definition board :: "(int \<times> int) set" where
  "board = {0..<OVERVIEW_GRID_COLUMNS} \<times> {0..<OVERVIEW_GRID_MAX_ROWS}"

definition region :: "int \<Rightarrow> int \<Rightarrow> int \<Rightarrow> int \<Rightarrow> (int \<times> int) set" where
  "region x y w h = {x..<x + w} \<times> {y..<y + h}"

definition cells :: "'a grid_item_scheme \<Rightarrow> (int \<times> int) set" where
  "cells v = {\<lfloor>gx v\<rfloor>..<\<lceil>gx v + gw v\<rceil>} \<times> {\<lfloor>gy v\<rfloor>..<\<lceil>gy v + gh v\<rceil>}"

definition marked :: "occupancy \<Rightarrow> (int \<times> int) set" where
  "marked occ = {(x, y) \<in> board. occ (y * OVERVIEW_GRID_COLUMNS + x) \<noteq> 0}"

text \<open>
  The interface of the bitmap: what the search and the storage rely on.
\<close>

locale grid_occupancy =
  fixes blank :: 'o
    and occupy :: "'o \<Rightarrow> 'v \<Rightarrow> 'o"
    and available :: "'o \<Rightarrow> int \<Rightarrow> int \<Rightarrow> int \<Rightarrow> int \<Rightarrow> bool"
    and occupied :: "'o \<Rightarrow> (int \<times> int) set"
    and extent :: "'v \<Rightarrow> (int \<times> int) set"
  assumes occupied_blank: "occupied blank = {}"
    and occupied_occupy: "occupied (occupy a v) = occupied a \<union> (extent v \<inter> board)"
    and available_iff: "region x y w h \<subseteq> board \<Longrightarrow> available a x y w h \<longleftrightarrow> occupied a \<inter> region x y w h = {}"
begin

definition occupy_all :: "'o \<Rightarrow> 'v list \<Rightarrow> 'o" where
  "occupy_all a vs = foldl occupy a vs"

lemma occupied_occupy_all: "occupied (occupy_all a vs) = occupied a \<union> (\<Union>v\<in>set vs. extent v \<inter> board)"
  unfolding occupy_all_def by (induction vs arbitrary: a) (auto simp: occupied_occupy)

lemma available_occupy_all:
  assumes "region x y w h \<subseteq> board"
  shows "available (occupy_all blank vs) x y w h \<longleftrightarrow> (\<forall>v\<in>set vs. extent v \<inter> region x y w h = {})"
  using assms by (auto simp: available_iff occupied_occupy_all occupied_blank)

end

lemma foldl_array_write:
  "foldl (\<lambda>occ x. array_write occ (f x) b) occ xs i = (if in_array i \<and> i \<in> f ` set xs then b else occ i)"
  by (induction xs arbitrary: occ) (auto simp: array_write_def)

lemma foldl2_array_write:
  "foldl (\<lambda>occ y. foldl (\<lambda>occ x. array_write occ (f y x) b) occ xs) occ ys i =
     (if in_array i \<and> (\<exists>y\<in>set ys. \<exists>x\<in>set xs. i = f y x) then b else occ i)"
  by (induction ys arbitrary: occ) (auto simp: foldl_array_write)

lemma index_inj:
  assumes "(y :: int) * 12 + x = y' * 12 + x'" "0 \<le> x" "x < 12" "0 \<le> x'" "x' < 12"
  shows "x = x' \<and> y = y'"
  using assms by presburger

lemma index_in_array: "(x, y) \<in> board \<Longrightarrow> in_array (y * OVERVIEW_GRID_COLUMNS + x)"
  by (auto simp: board_def in_array_def grid_size_defs)

lemma occupy_at:
  assumes "(x, y) \<in> board"
  shows "occupyOverviewGridRegion occ v (y * OVERVIEW_GRID_COLUMNS + x) =
    (if (x, y) \<in> cells v then 1 else occ (y * OVERVIEW_GRID_COLUMNS + x))"
proof -
  have xy: "0 \<le> x" "x < 12" "0 \<le> y" "y < 256" using assms by (auto simp: board_def grid_size_defs)
  have "(\<exists>y'\<in>{max 0 \<lfloor>gy v\<rfloor>..min 256 \<lceil>gy v + gh v\<rceil> - 1}. \<exists>x'\<in>{max 0 \<lfloor>gx v\<rfloor>..min 12 \<lceil>gx v + gw v\<rceil> - 1}.
           y * 12 + x = y' * 12 + x') \<longleftrightarrow> (x, y) \<in> cells v"
  proof
    assume "\<exists>y'\<in>{max 0 \<lfloor>gy v\<rfloor>..min 256 \<lceil>gy v + gh v\<rceil> - 1}. \<exists>x'\<in>{max 0 \<lfloor>gx v\<rfloor>..min 12 \<lceil>gx v + gw v\<rceil> - 1}.
           y * 12 + x = y' * 12 + x'"
    then obtain x' y' where i: "y * 12 + x = y' * 12 + x'" "0 \<le> x'" "x' < 12" "(x', y') \<in> cells v"
      by (auto simp: cells_def)
    with index_inj [OF i(1) xy(1,2) i(2,3)] show "(x, y) \<in> cells v" by simp
  next
    assume "(x, y) \<in> cells v"
    then have "x \<in> {max 0 \<lfloor>gx v\<rfloor>..min 12 \<lceil>gx v + gw v\<rceil> - 1}" "y \<in> {max 0 \<lfloor>gy v\<rfloor>..min 256 \<lceil>gy v + gh v\<rceil> - 1}"
      using xy by (auto simp: cells_def)
    then show "\<exists>y'\<in>{max 0 \<lfloor>gy v\<rfloor>..min 256 \<lceil>gy v + gh v\<rceil> - 1}. \<exists>x'\<in>{max 0 \<lfloor>gx v\<rfloor>..min 12 \<lceil>gx v + gw v\<rceil> - 1}.
           y * 12 + x = y' * 12 + x'" by blast
  qed
  then show ?thesis
    using index_in_array [OF assms]
    by (simp add: occupyOverviewGridRegion_def Let_def foldl2_array_write grid_size_defs)
qed

lemma available_list:
  assumes "region x y w h \<subseteq> board"
  shows "overviewGridRegionAvailable occ x y w h \<longleftrightarrow> marked occ \<inter> region x y w h = {}"
proof -
  have "array_read occ (j * OVERVIEW_GRID_COLUMNS + i) = 0 \<longleftrightarrow> (i, j) \<notin> marked occ"
    if "(i, j) \<in> region x y w h" for i j
    using that assms index_in_array [of i j] by (auto simp: array_read_def marked_def)
  then show ?thesis
    by (auto simp: overviewGridRegionAvailable_def list_all_iff region_def)
qed

interpretation bitmap: grid_occupancy "\<lambda>_. 0 :: nat" occupyOverviewGridRegion overviewGridRegionAvailable
  marked cells
proof unfold_locales
  fix a :: occupancy and v :: "'a grid_item_scheme"
  show "marked (occupyOverviewGridRegion a v) = marked a \<union> (cells v \<inter> board)"
    by (auto simp: marked_def occupy_at split: if_splits)
qed (auto simp: marked_def available_list)

lemma createOverviewGridOccupancy_all: "createOverviewGridOccupancy vs = bitmap.occupy_all (\<lambda>_. 0) vs"
  by (simp add: createOverviewGridOccupancy_def bitmap.occupy_all_def)

lemma marked_create: "marked (createOverviewGridOccupancy vs) = (\<Union>v\<in>set vs. cells v \<inter> board)"
  by (simp add: createOverviewGridOccupancy_all bitmap.occupied_occupy_all bitmap.occupied_blank)

section \<open>Correctness of the search\<close>

definition size_ok :: "'a grid_item_scheme \<Rightarrow> bool" where
  "size_ok v \<longleftrightarrow> is_int (gw v) \<and> is_int (gh v) \<and> 1 \<le> gw v \<and> 1 \<le> gh v \<and>
     gw v \<le> of_int OVERVIEW_GRID_COLUMNS \<and> gh v \<le> of_int OVERVIEW_GRID_MAX_ROWS"

definition free_positions :: "occupancy \<Rightarrow> int \<Rightarrow> int \<Rightarrow> (int \<times> int) set" where
  "free_positions occ w h =
     {(x, y). 0 \<le> x \<and> x \<le> OVERVIEW_GRID_COLUMNS - w \<and> 0 \<le> y \<and> y \<le> OVERVIEW_GRID_MAX_ROWS - h \<and>
              overviewGridRegionAvailable occ x y w h}"

definition requested_x :: "'a grid_item_scheme \<Rightarrow> rat" where
  "requested_x v = min (max (gx v) 0) (of_int (OVERVIEW_GRID_COLUMNS - \<lfloor>gw v\<rfloor>))"

definition requested_y :: "'a grid_item_scheme \<Rightarrow> rat" where
  "requested_y v = min (max (gy v) 0) (of_int (OVERVIEW_GRID_MAX_ROWS - \<lfloor>gh v\<rfloor>))"

lemma is_int_of_int [simp]: "is_int (of_int i)"
  by (simp add: is_int_def)

lemma is_intE: "is_int r \<Longrightarrow> (\<And>i. r = of_int i \<Longrightarrow> P) \<Longrightarrow> P"
  by (metis is_int_def)

lemma set_candidates_near [simp]: "set (candidates_near n r) = {0..n}"
  by (simp add: candidates_near_def)

lemma candidates_near_sorted:
  "sorted_wrt (\<lambda>a b. \<bar>of_int a - r\<bar> \<le> \<bar>of_int b - r\<bar>) (candidates_near n r)"
  using key_order.sorted_js_sort [of "\<lambda>a :: int. \<bar>of_int a - r\<bar>" "[0..n]"]
  by (simp add: candidates_near_def by_key_def)

lemma first_free_column_Some:
  assumes "first_free_column occ w h y xs = Some p"
  shows "snd p = y \<and> fst p \<in> set xs \<and> overviewGridRegionAvailable occ (fst p) y w h"
  using assms by (induction xs) (auto split: if_splits)

lemma first_free_column_None:
  "first_free_column occ w h y xs = None \<longleftrightarrow> (\<forall>x\<in>set xs. \<not> overviewGridRegionAvailable occ x y w h)"
  by (induction xs) auto

lemma first_free_position_None:
  "first_free_position occ w h xs ys = None \<longleftrightarrow>
     (\<forall>y\<in>set ys. \<forall>x\<in>set xs. \<not> overviewGridRegionAvailable occ x y w h)"
  by (induction ys) (auto simp: first_free_column_None split: option.splits dest: first_free_column_Some)

lemma first_free_position_Some:
  assumes "first_free_position occ w h xs ys = Some (x, y)"
  shows "x \<in> set xs" "y \<in> set ys" "overviewGridRegionAvailable occ x y w h"
  using assms by (induction ys) (auto split: option.splits dest: first_free_column_Some)

lemma first_free_column_least:
  assumes "first_free_column occ w h y xs = Some (x, y)" "sorted_wrt (\<lambda>a b. f a \<le> f b) xs"
    "x' \<in> set xs" "overviewGridRegionAvailable occ x' y w h"
  shows "f x \<le> (f x' :: rat)"
  using assms by (induction xs) (auto split: if_splits)

lemma first_free_position_least:
  assumes "first_free_position occ w h xs ys = Some (x, y)"
    "sorted_wrt (\<lambda>a b. f a \<le> f b) xs" "sorted_wrt (\<lambda>a b. g a \<le> g b) ys"
    "x' \<in> set xs" "y' \<in> set ys" "overviewGridRegionAvailable occ x' y' w h"
  shows "g y \<le> (g y' :: rat) \<and> (y' = y \<longrightarrow> f x \<le> (f x' :: rat))"
  using assms
proof (induction ys)
  case (Cons z zs)
  show ?case
  proof (cases "first_free_column occ w h z xs")
    case None
    then have "y' \<noteq> z" using Cons.prems by (auto simp: first_free_column_None)
    with None Cons show ?thesis by simp
  next
    case (Some p)
    with Cons.prems(1) have p: "p = (x, y)" by simp
    with first_free_column_Some [OF Some] have "z = y" by simp
    with Some p Cons.prems first_free_column_least [of occ w h y xs x f x'] show ?thesis by auto
  qed
qed simp

lemma find_unfold:
  "findAvailableOverviewWidgetPosition v vs occupancy =
     (if size_ok v
      then first_free_position (case occupancy of Some a \<Rightarrow> a | None \<Rightarrow> createOverviewGridOccupancy vs)
             \<lfloor>gw v\<rfloor> \<lfloor>gh v\<rfloor>
             (candidates_near (OVERVIEW_GRID_COLUMNS - \<lfloor>gw v\<rfloor>) (requested_x v))
             (candidates_near (OVERVIEW_GRID_MAX_ROWS - \<lfloor>gh v\<rfloor>) (requested_y v))
      else None)"
  by (auto simp: findAvailableOverviewWidgetPosition_def Let_def size_ok_def requested_x_def requested_y_def)

lemma find_Some_free:
  assumes "findAvailableOverviewWidgetPosition v vs (Some occ) = Some p"
  shows "size_ok v" "p \<in> free_positions occ \<lfloor>gw v\<rfloor> \<lfloor>gh v\<rfloor>"
  using assms by (cases p; auto simp: find_unfold free_positions_def dest: first_free_position_Some split: if_splits)+

lemma find_None_iff:
  "findAvailableOverviewWidgetPosition v vs (Some occ) = None \<longleftrightarrow>
     \<not> size_ok v \<or> free_positions occ \<lfloor>gw v\<rfloor> \<lfloor>gh v\<rfloor> = {}"
  by (auto simp: find_unfold free_positions_def first_free_position_None)

lemma find_nearest:
  assumes "findAvailableOverviewWidgetPosition v vs (Some occ) = Some (x, y)"
    "(x', y') \<in> free_positions occ \<lfloor>gw v\<rfloor> \<lfloor>gh v\<rfloor>"
  shows "\<bar>of_int y - requested_y v\<bar> \<le> \<bar>of_int y' - requested_y v\<bar> \<and>
         (y' = y \<longrightarrow> \<bar>of_int x - requested_x v\<bar> \<le> \<bar>of_int x' - requested_x v\<bar>)"
proof -
  from assms(1) have f: "first_free_position occ \<lfloor>gw v\<rfloor> \<lfloor>gh v\<rfloor>
        (candidates_near (OVERVIEW_GRID_COLUMNS - \<lfloor>gw v\<rfloor>) (requested_x v))
        (candidates_near (OVERVIEW_GRID_MAX_ROWS - \<lfloor>gh v\<rfloor>) (requested_y v)) = Some (x, y)"
    by (simp add: find_unfold split: if_splits)
  show ?thesis
    using first_free_position_least [OF f candidates_near_sorted candidates_near_sorted] assms(2)
    by (auto simp: free_positions_def)
qed

text \<open>A requested position that is free is kept.\<close>

lemma find_keeps_free:
  assumes "size_ok v" "gx v = of_int x" "gy v = of_int y" "(x, y) \<in> free_positions occ \<lfloor>gw v\<rfloor> \<lfloor>gh v\<rfloor>"
  shows "findAvailableOverviewWidgetPosition v vs (Some occ) = Some (x, y)"
proof -
  have "findAvailableOverviewWidgetPosition v vs (Some occ) \<noteq> None"
    using assms by (auto simp: find_None_iff)
  then obtain x' y' where f: "findAvailableOverviewWidgetPosition v vs (Some occ) = Some (x', y')"
    by auto
  have req: "requested_x v = of_int x" "requested_y v = of_int y"
    using assms(2-4)
    by (auto simp: requested_x_def requested_y_def free_positions_def of_int_diff [symmetric] simp del: of_int_diff)
  from find_nearest [OF f assms(4)] req have "y' = y" by simp
  with find_nearest [OF f assms(4)] req have "x' = x" by simp
  with f \<open>y' = y\<close> show ?thesis by simp
qed

section \<open>Placed widgets\<close>

text \<open>
  A placed item has integral coordinates, a positive size, and lies within the grid; a layout
  is well formed when its items are placed and no two of them overlap.
\<close>

definition placed :: "'a grid_item_scheme \<Rightarrow> bool" where
  "placed v \<longleftrightarrow> is_int (gx v) \<and> is_int (gy v) \<and> size_ok v \<and>
     0 \<le> gx v \<and> gx v + gw v \<le> of_int OVERVIEW_GRID_COLUMNS \<and>
     0 \<le> gy v \<and> gy v + gh v \<le> of_int OVERVIEW_GRID_MAX_ROWS"

definition layout_ok :: "'a grid_item_scheme list \<Rightarrow> bool" where
  "layout_ok vs \<longleftrightarrow> (\<forall>v\<in>set vs. placed v) \<and> sorted_wrt (\<lambda>a b. \<not> overviewWidgetsOverlap a b) vs"

lemma overlap_sym: "overviewWidgetsOverlap a b \<longleftrightarrow> overviewWidgetsOverlap b a"
  by (auto simp: overviewWidgetsOverlap_def)

lemma layout_ok_Nil [simp]: "layout_ok []"
  by (simp add: layout_ok_def)

lemma layout_ok_snoc:
  "layout_ok (vs @ [v]) \<longleftrightarrow> layout_ok vs \<and> placed v \<and> (\<forall>u\<in>set vs. \<not> overviewWidgetsOverlap u v)"
  by (auto simp: layout_ok_def sorted_wrt_append)

lemma layout_ok_append: "layout_ok (us @ vs) \<Longrightarrow> layout_ok us"
  by (auto simp: layout_ok_def sorted_wrt_append)

lemma layout_ok_iff_nth:
  "layout_ok vs \<longleftrightarrow> (\<forall>v\<in>set vs. placed v) \<and>
     (\<forall>i<length vs. \<forall>j<length vs. i \<noteq> j \<longrightarrow> \<not> overviewWidgetsOverlap (vs ! i) (vs ! j))"
proof -
  have "sorted_wrt (\<lambda>a b. \<not> overviewWidgetsOverlap a b) vs \<longleftrightarrow>
    (\<forall>i<length vs. \<forall>j<length vs. i < j \<longrightarrow> \<not> overviewWidgetsOverlap (vs ! i) (vs ! j))"
    by (auto simp: sorted_wrt_iff_nth_less)
  also have "\<dots> \<longleftrightarrow> (\<forall>i<length vs. \<forall>j<length vs. i \<noteq> j \<longrightarrow> \<not> overviewWidgetsOverlap (vs ! i) (vs ! j))"
    using overlap_sym by (metis linorder_neqE_nat nat_neq_iff)
  finally show ?thesis by (simp add: layout_ok_def)
qed

text \<open>The integers behind a placed item.\<close>

lemma placedE:
  assumes "placed v"
  obtains x y w h where "gx v = of_int x" "gy v = of_int y" "gw v = of_int w" "gh v = of_int h"
    "0 \<le> x" "0 \<le> y" "1 \<le> w" "1 \<le> h" "x + w \<le> OVERVIEW_GRID_COLUMNS" "y + h \<le> OVERVIEW_GRID_MAX_ROWS"
proof -
  from assms obtain x y w h where v: "gx v = of_int x" "gy v = of_int y" "gw v = of_int w" "gh v = of_int h"
    by (metis is_intE placed_def size_ok_def)
  moreover have "of_int (x + w) \<le> (of_int OVERVIEW_GRID_COLUMNS :: rat)"
    "of_int (y + h) \<le> (of_int OVERVIEW_GRID_MAX_ROWS :: rat)"
    using assms v by (simp_all add: placed_def)
  moreover have "0 \<le> x" "0 \<le> y" "1 \<le> w" "1 \<le> h"
    using assms v by (simp_all add: placed_def size_ok_def)
  ultimately show thesis using that by (simp only: of_int_le_iff)
qed

lemma placed_cells_board: "placed v \<Longrightarrow> cells v \<subseteq> board"
  by (erule placedE) (auto simp: cells_def board_def of_int_add [symmetric] simp del: of_int_add)

lemma cells_region:
  assumes "gx v = of_int x" "gy v = of_int y" "gw v = of_int w" "gh v = of_int h"
  shows "cells v = region x y w h"
  using assms by (simp add: cells_def region_def of_int_add [symmetric] del: of_int_add)

text \<open>The overlap test is the test for a common cell.\<close>

lemma overlap_iff_cells:
  assumes "placed a" "placed b"
  shows "overviewWidgetsOverlap a b \<longleftrightarrow> cells a \<inter> cells b \<noteq> {}"
proof -
  obtain ax ay aw ah where a: "gx a = of_int ax" "gy a = of_int ay" "gw a = of_int aw" "gh a = of_int ah"
      "1 \<le> aw" "1 \<le> ah" using assms(1) by (rule placedE)
  obtain bx b_y bw bh where b: "gx b = of_int bx" "gy b = of_int b_y" "gw b = of_int bw" "gh b = of_int bh"
      "1 \<le> bw" "1 \<le> bh" using assms(2) by (rule placedE)
  have o: "overviewWidgetsOverlap a b \<longleftrightarrow> ax < bx + bw \<and> bx < ax + aw \<and> ay < b_y + bh \<and> b_y < ay + ah"
    unfolding overviewWidgetsOverlap_def a b
    by (simp only: of_int_add [symmetric] of_int_less_iff)
  have "(max ax bx, max ay b_y) \<in> cells a \<inter> cells b" if "overviewWidgetsOverlap a b"
    using that a b unfolding o by (auto simp: cells_region region_def)
  moreover have "overviewWidgetsOverlap a b" if "cells a \<inter> cells b \<noteq> {}"
    using that a b unfolding o by (auto simp: cells_region region_def)
  ultimately show ?thesis by blast
qed

lemma placed_place_at:
  assumes "size_ok v" "(x, y) \<in> free_positions occ \<lfloor>gw v\<rfloor> \<lfloor>gh v\<rfloor>"
  shows "placed (place_at v (x, y))" and "cells (place_at v (x, y)) = region x y \<lfloor>gw v\<rfloor> \<lfloor>gh v\<rfloor>"
    and "region x y \<lfloor>gw v\<rfloor> \<lfloor>gh v\<rfloor> \<subseteq> board"
proof -
  obtain w h where wh: "gw v = of_int w" "gh v = of_int h"
    using assms(1) by (metis is_intE size_ok_def)
  have xy: "0 \<le> x" "x + w \<le> OVERVIEW_GRID_COLUMNS" "0 \<le> y" "y + h \<le> OVERVIEW_GRID_MAX_ROWS"
    using assms(2) wh by (auto simp: free_positions_def)
  then have "of_int x + of_int w \<le> (of_int OVERVIEW_GRID_COLUMNS :: rat)"
      "of_int y + of_int h \<le> (of_int OVERVIEW_GRID_MAX_ROWS :: rat)"
    by (simp_all only: of_int_add [symmetric] of_int_le_iff)
  with xy wh assms(1) show "placed (place_at v (x, y))"
    by (simp add: placed_def place_at_def size_ok_def)
  show "cells (place_at v (x, y)) = region x y \<lfloor>gw v\<rfloor> \<lfloor>gh v\<rfloor>"
    using wh by (simp add: place_at_def cells_region [of _ x y w h])
  show "region x y \<lfloor>gw v\<rfloor> \<lfloor>gh v\<rfloor> \<subseteq> board"
    using xy wh by (auto simp: region_def board_def)
qed

text \<open>
  The contract the storage, the builder and the repair loop rely on: appending a widget at the
  found position keeps the layout well formed, whether the bitmap is computed or carried along.
\<close>

definition represents :: "occupancy \<Rightarrow> 'a grid_item_scheme list \<Rightarrow> bool" where
  "represents occ vs \<longleftrightarrow> marked occ = (\<Union>v\<in>set vs. cells v \<inter> board)"

lemma represents_create [simp]: "represents (createOverviewGridOccupancy vs) vs"
  by (simp add: represents_def marked_create)

lemma represents_occupy: "represents occ vs \<Longrightarrow> represents (occupyOverviewGridRegion occ v) (vs @ [v])"
  by (auto simp: represents_def bitmap.occupied_occupy)

lemma free_iff_no_overlap:
  assumes "represents occ vs" "\<forall>u\<in>set vs. placed u" "placed v" "gx v = of_int x" "gy v = of_int y"
  shows "(x, y) \<in> free_positions occ \<lfloor>gw v\<rfloor> \<lfloor>gh v\<rfloor> \<longleftrightarrow> (\<forall>u\<in>set vs. \<not> overviewWidgetsOverlap u v)"
proof -
  obtain x' y' w h where v: "gx v = of_int x'" "gy v = of_int y'" "gw v = of_int w" "gh v = of_int h"
      "0 \<le> x'" "0 \<le> y'" "1 \<le> w" "1 \<le> h" "x' + w \<le> OVERVIEW_GRID_COLUMNS" "y' + h \<le> OVERVIEW_GRID_MAX_ROWS"
    using assms(3) by (rule placedE)
  with assms(4,5) have [simp]: "x' = x" "y' = y" by simp_all
  have c: "cells v = region x y w h" using v by (simp add: cells_region)
  have sub: "region x y w h \<subseteq> board" using v by (auto simp: region_def board_def)
  have "(x, y) \<in> free_positions occ w h \<longleftrightarrow> marked occ \<inter> region x y w h = {}"
    using v bitmap.available_iff [OF sub, of occ] by (auto simp: free_positions_def)
  also have "\<dots> \<longleftrightarrow> (\<forall>u\<in>set vs. cells u \<inter> cells v = {})"
    using assms(1) sub by (auto simp: represents_def c)
  also have "\<dots> \<longleftrightarrow> (\<forall>u\<in>set vs. \<not> overviewWidgetsOverlap u v)"
    using assms(2,3) by (simp add: overlap_iff_cells)
  finally show ?thesis using v by simp
qed

lemma place_keeps_layout:
  assumes "layout_ok vs" "represents occ vs"
    and "findAvailableOverviewWidgetPosition v us (Some occ) = Some p"
  shows "layout_ok (vs @ [place_at v p])" and "represents (occupyOverviewGridRegion occ (place_at v p)) (vs @ [place_at v p])"
proof -
  obtain x y where p: "p = (x, y)" by fastforce
  from find_Some_free [OF assms(3)] p have f: "size_ok v" "(x, y) \<in> free_positions occ \<lfloor>gw v\<rfloor> \<lfloor>gh v\<rfloor>" by simp_all
  note pl = placed_place_at [OF f]
  have "\<forall>u\<in>set vs. \<not> overviewWidgetsOverlap u (place_at v (x, y))"
    using free_iff_no_overlap [OF assms(2) _ pl(1), of x y] assms(1) f(2)
    by (auto simp: layout_ok_def place_at_def)
  with assms(1) pl(1) p show "layout_ok (vs @ [place_at v p])" by (simp add: layout_ok_snoc)
  from represents_occupy [OF assms(2)] show "represents (occupyOverviewGridRegion occ (place_at v p)) (vs @ [place_at v p])" .
qed

lemma find_keeps_placed:
  assumes "represents occ vs" "\<forall>u\<in>set vs. placed u" "placed v" "\<forall>u\<in>set vs. \<not> overviewWidgetsOverlap u v"
  shows "\<exists>p. findAvailableOverviewWidgetPosition v us (Some occ) = Some p \<and> place_at v p = v"
proof -
  obtain x y where xy: "gx v = of_int x" "gy v = of_int y" using assms(3) by (rule placedE)
  have "(x, y) \<in> free_positions occ \<lfloor>gw v\<rfloor> \<lfloor>gh v\<rfloor>"
    using free_iff_no_overlap [OF assms(1-3) xy] assms(4) by blast
  then have "findAvailableOverviewWidgetPosition v us (Some occ) = Some (x, y)"
    using assms(3) xy by (intro find_keeps_free) (auto simp: placed_def)
  moreover have "place_at v (x, y) = v" using xy by (simp add: place_at_def)
  ultimately show ?thesis by blast
qed

lemma find_default_occupancy:
  "findAvailableOverviewWidgetPosition v vs None =
   findAvailableOverviewWidgetPosition v vs (Some (createOverviewGridOccupancy vs))"
  by (simp add: find_unfold)

end
