(* ===== verification/JsDate.thy ===== *)
theory JsDate
  imports JsNumber
begin

text \<open>
  Dates.  A time value is a number of milliseconds, an integer, or \<open>NaN\<close>, here \<open>None\<close>.
  \<open>toISOString\<close> is computed with the proleptic Gregorian calendar as the language defines it.
  \<open>Date.parse\<close> accepts formats beyond the ISO one that depend on the engine, so it is an
  argument \<open>date_parse :: jsstring \<Rightarrow> int option\<close> of the definitions that call it.
\<close>

type_synonym date_parser = "jsstring \<Rightarrow> int option"

definition pad :: "nat \<Rightarrow> nat \<Rightarrow> jsstring" where
  "pad n k = (let ds = show_nat k in replicate (n - length ds) 48 @ ds)"

text \<open>Year, month and day of a day number counted from 1970-01-01.\<close>

definition civil_from_days :: "int \<Rightarrow> int \<times> int \<times> int" where
  "civil_from_days days =
     (let z = days + 719468;
          era = z div 146097;
          doe = z mod 146097;
          yoe = (doe - doe div 1460 + doe div 36524 - doe div 146096) div 365;
          doy = doe - (365 * yoe + yoe div 4 - yoe div 100);
          mp = (5 * doy + 2) div 153;
          d = doy - (153 * mp + 2) div 5 + 1;
          m = (if mp < 10 then mp + 3 else mp - 9)
      in (yoe + era * 400 + (if m \<le> 2 then 1 else 0), m, d))"

definition iso_string :: "int \<Rightarrow> jsstring" where
  "iso_string t =
     (let (y, m, d) = civil_from_days (t div 86400000);
          ms = t mod 86400000;
          year = (if 0 \<le> y \<and> y \<le> 9999 then pad 4 (nat y)
                  else (if y < 0 then [45] else [43]) @ pad 6 (nat \<bar>y\<bar>))
      in year @ [45] @ pad 2 (nat m) @ [45] @ pad 2 (nat d) @ [84]
         @ pad 2 (nat (ms div 3600000)) @ [58] @ pad 2 (nat (ms div 60000 mod 60)) @ [58]
         @ pad 2 (nat (ms div 1000 mod 60)) @ [46] @ pad 3 (nat (ms mod 1000)) @ [90])"

text \<open>\<open>new Date(value)\<close> of a number clips it to the range of time values.\<close>

definition time_clip :: "int \<Rightarrow> int option" where
  "time_clip t = (if \<bar>t\<bar> \<le> 8640000000000000 then Some t else None)"

definition toISOString :: "int option \<Rightarrow> js_error + jsstring" where
  "toISOString t = (case t of None \<Rightarrow> Inl (RangeError (js ''Invalid time value'')) | Some t \<Rightarrow> Inr (iso_string t))"

text \<open>\<open>Date.parse(a) - Date.parse(b)\<close> in a comparison, where \<open>NaN\<close> counts as 0.\<close>

definition parsed_difference :: "date_parser \<Rightarrow> jsstring \<Rightarrow> jsstring \<Rightarrow> int" where
  "parsed_difference date_parse a b =
     (case (date_parse a, date_parse b) of (Some s, Some t) \<Rightarrow> s - t | _ \<Rightarrow> 0)"

text \<open>\<open>Date.parse(a) > Date.parse(b)\<close> and \<open>>=\<close>, false when either is \<open>NaN\<close>.\<close>

definition parsed_after :: "date_parser \<Rightarrow> jsstring \<Rightarrow> jsstring \<Rightarrow> bool" where
  "parsed_after date_parse a b =
     (case (date_parse a, date_parse b) of (Some s, Some t) \<Rightarrow> t < s | _ \<Rightarrow> False)"

definition parsed_not_before :: "date_parser \<Rightarrow> jsstring \<Rightarrow> jsstring \<Rightarrow> bool" where
  "parsed_not_before date_parse a b =
     (case (date_parse a, date_parse b) of (Some s, Some t) \<Rightarrow> t \<le> s | _ \<Rightarrow> False)"

end
