(* ===== verification/BrowserStorage.thy ===== *)
theory BrowserStorage
  imports Prelude
begin

text \<open>
  Web storage (\<open>localStorage\<close>, \<open>sessionStorage\<close>) as the sources use it: every access may
  throw, reading when the storage is blocked and writing also when the quota is exceeded.
  The locale \<open>string_storage\<close> is what the clients rely on; the model's storage is its instance.
\<close>

record browser_storage =
  items :: "jsstring \<rightharpoonup> jsstring"
  blocked :: bool
  refuses :: "jsstring \<Rightarrow> jsstring \<Rightarrow> bool"

definition getItem :: "browser_storage \<Rightarrow> jsstring \<Rightarrow> js_error + jsstring option" where
  "getItem st k =
     (if blocked st then Inl (DOMException (js ''SecurityError'')) else Inr (items st k))"

definition setItem :: "browser_storage \<Rightarrow> jsstring \<Rightarrow> jsstring \<Rightarrow> js_error + browser_storage" where
  "setItem st k v =
     (if blocked st then Inl (DOMException (js ''SecurityError''))
      else if refuses st k v then Inl (DOMException (js ''QuotaExceededError''))
      else Inr (st\<lparr>items := (items st)(k \<mapsto> v)\<rparr>))"

definition removeItem :: "browser_storage \<Rightarrow> jsstring \<Rightarrow> js_error + browser_storage" where
  "removeItem st k =
     (if blocked st then Inl (DOMException (js ''SecurityError''))
      else Inr (st\<lparr>items := (items st)(k := None)\<rparr>))"

locale string_storage =
  fixes get :: "'s \<Rightarrow> 'k \<Rightarrow> 'e + 'v option"
    and put :: "'s \<Rightarrow> 'k \<Rightarrow> 'v \<Rightarrow> 'e + 's"
    and remove :: "'s \<Rightarrow> 'k \<Rightarrow> 'e + 's"
  assumes get_put: "put s k v = Inr s' \<Longrightarrow> get s' k = Inr (Some v)"
    and get_put_other: "put s k v = Inr s' \<Longrightarrow> k' \<noteq> k \<Longrightarrow> get s' k' = get s k'"
    and get_remove: "remove s k = Inr s' \<Longrightarrow> get s' k = Inr None"
    and get_remove_other: "remove s k = Inr s' \<Longrightarrow> k' \<noteq> k \<Longrightarrow> get s' k' = get s k'"
begin

text \<open>Two writes to different keys are both readable afterwards.\<close>

lemma get_put_put:
  assumes "put s k v = Inr s'" "put s' k' v' = Inr s''" "k \<noteq> k'"
  shows "get s'' k = Inr (Some v)" "get s'' k' = Inr (Some v')"
  using assms get_put get_put_other by metis+

end

interpretation web_storage: string_storage getItem setItem removeItem
  by unfold_locales (auto simp: getItem_def setItem_def removeItem_def split: if_splits)

text \<open>A storage that accepts every access.\<close>

definition storage_writable :: "browser_storage \<Rightarrow> bool" where
  "storage_writable st \<longleftrightarrow> \<not> blocked st \<and> (\<forall>k v. \<not> refuses st k v)"

lemma setItem_writable:
  assumes "storage_writable st"
  obtains st' where "setItem st k v = Inr st'" "storage_writable st'"
  using assms by (auto simp: storage_writable_def setItem_def)

text \<open>The storage of a new browser.\<close>

definition empty_storage :: browser_storage where
  "empty_storage = \<lparr>items = Map.empty, blocked = False, refuses = \<lambda>_ _. False\<rparr>"

lemma empty_storage_writable [simp]: "storage_writable empty_storage"
  by (simp add: storage_writable_def empty_storage_def)

end
