(* ===== verification/OverviewLayoutStorage.thy ===== *)
theory OverviewLayoutStorage
  imports OverviewLayoutModel JsDate BrowserStorage
begin

text \<open>
  Reading and writing the custom dashboards of a user
  (\<open>features/overviewLayout/overviewLayoutStorage.ts\<close>).  What is read back is untrusted: the
  normalisation accepts any JSON value.  Shown here: whatever the text in the storage is, the
  dashboards read from it satisfy the layout invariant, and a state in canonical form that was
  written is read back unchanged.
\<close>

section \<open>Normalisation of untrusted values\<close>

definition clampInteger :: "json option \<Rightarrow> rat \<Rightarrow> rat \<Rightarrow> rat \<Rightarrow> rat" where
  "clampInteger v lo hi fallback =
     (case v of Some (JNum (Num r)) \<Rightarrow> min (max (of_int \<lfloor>r + 1 / 2\<rfloor>) lo) hi | _ \<Rightarrow> fallback)"

definition normalizeText :: "json option \<Rightarrow> nat \<Rightarrow> jsstring option" where
  "normalizeText v maxLength =
     (case v of Some (JStr s) \<Rightarrow>
        (let normalized = take maxLength (trim s) in if normalized = [] then None else Some normalized)
      | _ \<Rightarrow> None)"

definition normalizeDate :: "date_parser \<Rightarrow> json option \<Rightarrow> jsstring option" where
  "normalizeDate date_parse v =
     (case v of Some (JStr s) \<Rightarrow> map_option iso_string (date_parse s) | _ \<Rightarrow> None)"

text \<open>The second component is the set of widget ids after the call.\<close>

definition normalizeWidget :: "json \<Rightarrow> jsstring list \<Rightarrow> CustomDashboardWidget option \<times> jsstring list" where
  "normalizeWidget v widgetIds =
     (case isOverviewWidgetType (if is_record v then get_prop v ''type'' else None) of
        None \<Rightarrow> (None, widgetIds)
      | Some t \<Rightarrow>
          (case normalizeText (get_prop v ''uid'') 160 of
             None \<Rightarrow> (None, widgetIds)
           | Some u \<Rightarrow>
               if u \<in> set widgetIds then (None, widgetIds)
               else let d = definitionOf t;
                        w = clampInteger (get_prop v ''w'') (minW d) (min (maxW d) (of_int OVERVIEW_GRID_COLUMNS)) (defaultW d);
                        h = clampInteger (get_prop v ''h'') (minH d) (maxH d) (defaultH d);
                        x = clampInteger (get_prop v ''x'') 0 (of_int OVERVIEW_GRID_COLUMNS - w) 0;
                        y = clampInteger (get_prop v ''y'') 0 (of_int OVERVIEW_GRID_MAX_ROWS - h) 0
                    in (Some \<lparr>gx = x, gy = y, gw = w, gh = h, uid = u, wtype = t\<rparr>, set_add widgetIds u)))"

record normalize_state =
  ns_widgetIds :: "jsstring list"
  ns_widgetTypes :: "OverviewWidgetType list"
  ns_widgets :: "CustomDashboardWidget list"
  ns_occupancy :: occupancy
  ns_unplaceableSizes :: "jsstring list"

definition normalize_init :: normalize_state where
  "normalize_init =
     \<lparr>ns_widgetIds = [], ns_widgetTypes = [], ns_widgets = [],
      ns_occupancy = createOverviewGridOccupancy ([] :: grid_item list), ns_unplaceableSizes = []\<rparr>"

definition size_key :: "'a grid_item_scheme \<Rightarrow> jsstring" where
  "size_key v = js_String (Num (gw v)) @ js ''x'' @ js_String (Num (gh v))"

text \<open>One iteration of the loop over the candidate widgets.\<close>

definition normalize_step :: "normalize_state \<Rightarrow> json \<Rightarrow> normalize_state" where
  "normalize_step st candidate =
     (if (case isOverviewWidgetType (if is_record candidate then get_prop candidate ''type'' else None) of
            Some t \<Rightarrow> t \<in> set (ns_widgetTypes st) | None \<Rightarrow> False)
      then st
      else let (widget, ids) = normalizeWidget candidate (ns_widgetIds st); st = st\<lparr>ns_widgetIds := ids\<rparr>
           in case widget of None \<Rightarrow> st
              | Some v \<Rightarrow>
                  if size_key v \<in> set (ns_unplaceableSizes st) then st
                  else (case findAvailableOverviewWidgetPosition v (ns_widgets st) (Some (ns_occupancy st)) of
                          None \<Rightarrow> st\<lparr>ns_unplaceableSizes := set_add (ns_unplaceableSizes st) (size_key v)\<rparr>
                        | Some p \<Rightarrow>
                            let placedWidget = place_at v p
                            in st\<lparr>ns_widgets := ns_widgets st @ [placedWidget],
                                  ns_widgetTypes := set_add (ns_widgetTypes st) (wtype placedWidget),
                                  ns_occupancy := occupyOverviewGridRegion (ns_occupancy st) placedWidget\<rparr>))"

definition normalizeDashboard ::
  "date_parser \<Rightarrow> json \<Rightarrow> jsstring list \<Rightarrow> CustomOverviewDashboard option \<times> jsstring list" where
  "normalizeDashboard date_parse v dashboardIds =
     (if \<not> is_record v then (None, dashboardIds)
      else case (normalizeText (get_prop v ''id'') 120, normalizeText (get_prop v ''name'') 80, get_prop v ''widgets'') of
             (Some i, Some n, Some (JArr candidates)) \<Rightarrow>
               if i \<in> set dashboardIds then (None, dashboardIds)
               else let ws = ns_widgets (foldl normalize_step normalize_init candidates);
                        fallbackDate = iso_string 0
                    in if ws = [] then (None, dashboardIds)
                       else (Some \<lparr>dash_id = i, dash_name = n, widgets = ws,
                               createdAt = (case normalizeDate date_parse (get_prop v ''createdAt'') of Some d \<Rightarrow> d | None \<Rightarrow> fallbackDate),
                               updatedAt = (case normalizeDate date_parse (get_prop v ''updatedAt'') of Some d \<Rightarrow> d | None \<Rightarrow> fallbackDate)\<rparr>,
                             set_add dashboardIds i)
           | _ \<Rightarrow> (None, dashboardIds))"

definition collect_dashboard ::
  "date_parser \<Rightarrow> jsstring list \<times> CustomOverviewDashboard list \<Rightarrow> json \<Rightarrow> jsstring list \<times> CustomOverviewDashboard list" where
  "collect_dashboard date_parse acc candidate =
     (let (dashboard, ids) = normalizeDashboard date_parse candidate (fst acc)
      in (ids, case dashboard of Some d \<Rightarrow> snd acc @ [d] | None \<Rightarrow> snd acc))"

definition normalizeOverviewDashboardStore :: "date_parser \<Rightarrow> json \<Rightarrow> OverviewDashboardStoreV1" where
  "normalizeOverviewDashboardStore date_parse v =
     (case (if is_record v \<and> get_prop v ''version'' = Some (JNum (Num 1)) then get_prop v ''dashboards'' else None) of
        Some (JArr candidates) \<Rightarrow> \<lparr>dashboards = snd (foldl (collect_dashboard date_parse) ([], []) candidates)\<rparr>
      | _ \<Rightarrow> \<lparr>dashboards = []\<rparr>)"

definition parseOverviewDashboardStore :: "date_parser \<Rightarrow> jsstring option \<Rightarrow> OverviewDashboardStoreV1" where
  "parseOverviewDashboardStore date_parse raw =
     (case raw of None \<Rightarrow> \<lparr>dashboards = []\<rparr>
      | Some text \<Rightarrow>
          if text = [] then \<lparr>dashboards = []\<rparr>
          else (case json_parse text of Inl _ \<Rightarrow> \<lparr>dashboards = []\<rparr>
                | Inr v \<Rightarrow> normalizeOverviewDashboardStore date_parse v))"

section \<open>Reading and writing\<close>

definition dashboardsStorageKey :: "int \<Rightarrow> jsstring" where
  "dashboardsStorageKey userId = js ''edr.overviewDashboards.v1.user.'' @ js_String (Num (of_int userId))"

definition activeDashboardStorageKey :: "int \<Rightarrow> jsstring" where
  "activeDashboardStorageKey userId = js ''edr.overviewActiveDashboard.v1.user.'' @ js_String (Num (of_int userId))"

record StoredOverviewLayoutState =
  state_dashboards :: "CustomOverviewDashboard list"
  activeDashboardId :: jsstring

definition empty_layout_state :: StoredOverviewLayoutState where
  "empty_layout_state = \<lparr>state_dashboards = [], activeDashboardId = DEFAULT_DASHBOARD_ID\<rparr>"

definition readOverviewLayoutState :: "date_parser \<Rightarrow> int \<Rightarrow> browser_storage \<Rightarrow> StoredOverviewLayoutState" where
  "readOverviewLayoutState date_parse userId st =
     (case getItem st (dashboardsStorageKey userId) of Inl _ \<Rightarrow> empty_layout_state
      | Inr raw \<Rightarrow>
          (let ds = dashboards (parseOverviewDashboardStore date_parse raw)
           in case getItem st (activeDashboardStorageKey userId) of Inl _ \<Rightarrow> empty_layout_state
              | Inr storedActive \<Rightarrow>
                  \<lparr>state_dashboards = ds,
                   activeDashboardId =
                     (case storedActive of Some a \<Rightarrow>
                        if a \<noteq> [] \<and> (\<exists>d\<in>set ds. dash_id d = a) then a else DEFAULT_DASHBOARD_ID
                      | None \<Rightarrow> DEFAULT_DASHBOARD_ID)\<rparr>))"

text \<open>The object literals the store is made of, in the order of their properties.\<close>

definition widget_json :: "CustomDashboardWidget \<Rightarrow> json" where
  "widget_json v =
     JObj [(js ''uid'', JStr (uid v)), (js ''type'', JStr (widget_type_name (wtype v))),
           (js ''x'', JNum (Num (gx v))), (js ''y'', JNum (Num (gy v))),
           (js ''w'', JNum (Num (gw v))), (js ''h'', JNum (Num (gh v)))]"

definition dashboard_json :: "CustomOverviewDashboard \<Rightarrow> json" where
  "dashboard_json d =
     JObj [(js ''id'', JStr (dash_id d)), (js ''name'', JStr (dash_name d)),
           (js ''widgets'', JArr (map widget_json (widgets d))),
           (js ''createdAt'', JStr (createdAt d)), (js ''updatedAt'', JStr (updatedAt d))]"

definition store_json :: "CustomOverviewDashboard list \<Rightarrow> json" where
  "store_json ds = JObj [(js ''version'', JNum (Num 1)), (js ''dashboards'', JArr (map dashboard_json ds))]"

text \<open>The storage after the call: a failing write leaves what was written before it.\<close>

definition writeOverviewLayoutState :: "int \<Rightarrow> StoredOverviewLayoutState \<Rightarrow> browser_storage \<Rightarrow> browser_storage" where
  "writeOverviewLayoutState userId s st =
     (case setItem st (dashboardsStorageKey userId) (stringify (store_json (state_dashboards s))) of
        Inl _ \<Rightarrow> st
      | Inr st1 \<Rightarrow>
          (case setItem st1 (activeDashboardStorageKey userId) (activeDashboardId s) of
             Inl _ \<Rightarrow> st1 | Inr st2 \<Rightarrow> st2))"

section \<open>The invariant of a store\<close>

definition widget_inv :: "CustomDashboardWidget \<Rightarrow> bool" where
  "widget_inv v \<longleftrightarrow> placed v \<and>
     minW (definitionOf (wtype v)) \<le> gw v \<and> gw v \<le> maxW (definitionOf (wtype v)) \<and>
     minH (definitionOf (wtype v)) \<le> gh v \<and> gh v \<le> maxH (definitionOf (wtype v))"

definition widgets_inv :: "CustomDashboardWidget list \<Rightarrow> bool" where
  "widgets_inv vs \<longleftrightarrow> (\<forall>v\<in>set vs. widget_inv v) \<and> layout_ok vs \<and>
     distinct (map uid vs) \<and> distinct (map wtype vs)"

definition text_ok :: "nat \<Rightarrow> jsstring \<Rightarrow> bool" where
  "text_ok n s \<longleftrightarrow> s \<noteq> [] \<and> length s \<le> n"

definition dashboard_inv :: "CustomOverviewDashboard \<Rightarrow> bool" where
  "dashboard_inv d \<longleftrightarrow> text_ok 120 (dash_id d) \<and> text_ok 80 (dash_name d) \<and> widgets d \<noteq> [] \<and>
     widgets_inv (widgets d) \<and> (\<forall>v\<in>set (widgets d). text_ok 160 (uid v))"

definition store_inv :: "CustomOverviewDashboard list \<Rightarrow> bool" where
  "store_inv ds \<longleftrightarrow> (\<forall>d\<in>set ds. dashboard_inv d) \<and> distinct (map dash_id ds)"

lemma normalizeText_ok: "normalizeText v n = Some s \<Longrightarrow> text_ok n s"
  by (auto simp: normalizeText_def text_ok_def Let_def split: option.splits json.splits if_splits)

lemma clampInteger_range:
  assumes "is_int lo" "is_int hi" "is_int fallback" "lo \<le> hi" "lo \<le> fallback" "fallback \<le> hi"
  shows "is_int (clampInteger v lo hi fallback)"
    and "lo \<le> clampInteger v lo hi fallback" and "clampInteger v lo hi fallback \<le> hi"
proof -
  show "is_int (clampInteger v lo hi fallback)"
    using assms by (auto simp: clampInteger_def max_def min_def split: option.splits json.splits jsnum.splits)
  show "lo \<le> clampInteger v lo hi fallback" "clampInteger v lo hi fallback \<le> hi"
    using assms by (auto simp: clampInteger_def split: option.splits json.splits jsnum.splits)
qed

lemma is_int_diff: "is_int a \<Longrightarrow> is_int b \<Longrightarrow> is_int (a - b)"
  by (elim is_intE) (metis is_int_of_int of_int_diff)

lemma is_int_01 [simp]: "is_int 0" "is_int 1"
  using is_int_of_int [of 0] is_int_of_int [of 1] by simp_all

text \<open>A normalised widget has a legal size and lies within the grid.\<close>

lemma normalizeWidget_Some:
  assumes "normalizeWidget v ids = (Some u, ids')"
  shows "widget_inv u" "text_ok 160 (uid u)" "uid u \<notin> set ids" "set ids' = insert (uid u) (set ids)"
    and "isOverviewWidgetType (if is_record v then get_prop v ''type'' else None) = Some (wtype u)"
proof -
  from assms obtain t n where t: "isOverviewWidgetType (if is_record v then get_prop v ''type'' else None) = Some t"
      and n: "normalizeText (get_prop v ''uid'') 160 = Some n" "n \<notin> set ids"
    by (auto simp: normalizeWidget_def split: option.splits if_splits)
  let ?d = "definitionOf t"
  have d: "definition_ok ?d" by (rule definitionOf_ok)
  let ?w = "clampInteger (get_prop v ''w'') (minW ?d) (min (maxW ?d) (of_int OVERVIEW_GRID_COLUMNS)) (defaultW ?d)"
  let ?h = "clampInteger (get_prop v ''h'') (minH ?d) (maxH ?d) (defaultH ?d)"
  have w: "is_int ?w" "minW ?d \<le> ?w" "?w \<le> min (maxW ?d) (of_int OVERVIEW_GRID_COLUMNS)"
    using d by (auto intro!: clampInteger_range simp: definition_ok_def min_def)
  have h: "is_int ?h" "minH ?d \<le> ?h" "?h \<le> maxH ?d"
    using d by (auto intro!: clampInteger_range simp: definition_ok_def)
  let ?x = "clampInteger (get_prop v ''x'') 0 (of_int OVERVIEW_GRID_COLUMNS - ?w) 0"
  let ?y = "clampInteger (get_prop v ''y'') 0 (of_int OVERVIEW_GRID_MAX_ROWS - ?h) 0"
  have x: "is_int ?x" "0 \<le> ?x" "?x \<le> of_int OVERVIEW_GRID_COLUMNS - ?w"
    using w by (auto intro!: clampInteger_range is_int_diff)
  have y: "is_int ?y" "0 \<le> ?y" "?y \<le> of_int OVERVIEW_GRID_MAX_ROWS - ?h"
    using h d by (auto intro!: clampInteger_range is_int_diff simp: definition_ok_def)
  have u: "u = \<lparr>gx = ?x, gy = ?y, gw = ?w, gh = ?h, uid = n, wtype = t\<rparr>" "ids' = set_add ids n"
    using assms t n by (simp_all add: normalizeWidget_def Let_def)
  show "widget_inv u"
    using w h x y d by (simp add: u widget_inv_def placed_def size_ok_def definition_ok_def)
  show "text_ok 160 (uid u)" "uid u \<notin> set ids" "set ids' = insert (uid u) (set ids)"
      "isOverviewWidgetType (if is_record v then get_prop v ''type'' else None) = Some (wtype u)"
    using n t by (simp_all add: u normalizeText_ok)
qed

definition ns_inv :: "normalize_state \<Rightarrow> bool" where
  "ns_inv st \<longleftrightarrow> widgets_inv (ns_widgets st) \<and> represents (ns_occupancy st) (ns_widgets st) \<and>
     set (ns_widgetTypes st) = wtype ` set (ns_widgets st) \<and>
     uid ` set (ns_widgets st) \<subseteq> set (ns_widgetIds st) \<and>
     (\<forall>v\<in>set (ns_widgets st). text_ok 160 (uid v))"

lemma widgets_inv_Nil [simp]: "widgets_inv []"
  by (simp add: widgets_inv_def)

lemma ns_inv_init: "ns_inv normalize_init"
  by (simp add: ns_inv_def normalize_init_def represents_def createOverviewGridOccupancy_def marked_def)

lemma place_at_sel [simp]:
  "gw (place_at v p) = gw v" "gh (place_at v p) = gh v"
  "gx (place_at v p) = of_int (fst p)" "gy (place_at v p) = of_int (snd p)"
  "uid (place_at (u :: CustomDashboardWidget) p) = uid u" "wtype (place_at u p) = wtype u"
  by (simp_all add: place_at_def)

lemma widgets_inv_place:
  assumes "widgets_inv vs" "represents occ vs" "widget_inv v"
    and "findAvailableOverviewWidgetPosition v us (Some occ) = Some p"
    and "uid v \<notin> uid ` set vs" "wtype v \<notin> wtype ` set vs"
  shows "widgets_inv (vs @ [place_at v p])"
proof -
  have l: "layout_ok (vs @ [place_at v p])"
    using assms by (intro place_keeps_layout) (auto simp: widgets_inv_def)
  then have "placed (place_at v p)" by (simp add: layout_ok_snoc)
  with assms l show ?thesis by (auto simp: widgets_inv_def widget_inv_def)
qed

lemma ns_inv_step: "ns_inv st \<Longrightarrow> ns_inv (normalize_step st c)"
proof (cases "normalizeWidget c (ns_widgetIds st)")
  case (Pair widget ids)
  assume inv: "ns_inv st"
  show ?thesis
  proof (cases widget)
    case None
    then have "set ids = set (ns_widgetIds st)"
      using Pair by (auto simp: normalizeWidget_def Let_def split: option.splits if_splits)
    with inv None Pair show ?thesis by (auto simp: normalize_step_def ns_inv_def split: option.splits)
  next
    case (Some u)
    note nw = normalizeWidget_Some [OF Pair [unfolded Some]]
    show ?thesis
    proof (cases "wtype u \<in> set (ns_widgetTypes st) \<or> size_key u \<in> set (ns_unplaceableSizes st)")
      case True
      with inv nw Pair Some show ?thesis by (auto simp: normalize_step_def ns_inv_def image_subset_iff)
    next
      case False
      show ?thesis
      proof (cases "findAvailableOverviewWidgetPosition u (ns_widgets st) (Some (ns_occupancy st))")
        case None
        with False inv nw Pair Some show ?thesis by (auto simp: normalize_step_def ns_inv_def)
      next
        case (Some p)
        have "widgets_inv (ns_widgets st @ [place_at u p])"
          using inv nw False Some by (intro widgets_inv_place) (auto simp: ns_inv_def)
        moreover have "represents (occupyOverviewGridRegion (ns_occupancy st) (place_at u p)) (ns_widgets st @ [place_at u p])"
          using inv by (intro represents_occupy) (simp add: ns_inv_def)
        ultimately show ?thesis
          using False inv nw Pair \<open>widget = Some u\<close> Some
          by (auto simp: normalize_step_def ns_inv_def Let_def)
      qed
    qed
  qed
qed

lemma ns_inv_foldl: "ns_inv st \<Longrightarrow> ns_inv (foldl normalize_step st cs)"
  by (induction cs arbitrary: st) (auto intro: ns_inv_step)

lemma normalizeDashboard_Some:
  assumes "normalizeDashboard date_parse v ids = (Some d, ids')"
  shows "dashboard_inv d" "dash_id d \<notin> set ids" "set ids' = insert (dash_id d) (set ids)"
proof -
  from assms obtain i n cs where v: "normalizeText (get_prop v ''id'') 120 = Some i"
      "normalizeText (get_prop v ''name'') 80 = Some n" "i \<notin> set ids" "ids' = set_add ids i"
      and d: "dash_id d = i" "dash_name d = n" "widgets d = ns_widgets (foldl normalize_step normalize_init cs)"
        "widgets d \<noteq> []"
    by (auto simp: normalizeDashboard_def Let_def split: if_splits option.splits json.splits)
  from ns_inv_foldl [OF ns_inv_init, of cs] d v show "dashboard_inv d"
    by (auto simp: dashboard_inv_def ns_inv_def normalizeText_ok)
  from d v show "dash_id d \<notin> set ids" "set ids' = insert (dash_id d) (set ids)" by simp_all
qed

lemma normalizeDashboard_None:
  assumes "normalizeDashboard date_parse v ids = (None, ids')"
  shows "ids' = ids"
  using assms by (auto simp: normalizeDashboard_def Let_def split: if_splits option.splits json.splits)

lemma collect_dashboard_inv:
  assumes "store_inv (snd acc)" "set (fst acc) = dash_id ` set (snd acc)"
  shows "store_inv (snd (collect_dashboard date_parse acc c)) \<and>
         set (fst (collect_dashboard date_parse acc c)) = dash_id ` set (snd (collect_dashboard date_parse acc c))"
proof (cases "normalizeDashboard date_parse c (fst acc)")
  case (Pair dashboard ids)
  show ?thesis
  proof (cases dashboard)
    case None
    with assms Pair normalizeDashboard_None [of date_parse c "fst acc" ids] show ?thesis
      by (simp add: collect_dashboard_def)
  next
    case (Some d)
    with assms Pair normalizeDashboard_Some [of date_parse c "fst acc" d ids] show ?thesis
      by (auto simp: collect_dashboard_def store_inv_def)
  qed
qed

lemma collect_dashboards_inv:
  assumes "store_inv (snd acc)" "set (fst acc) = dash_id ` set (snd acc)"
  shows "store_inv (snd (foldl (collect_dashboard date_parse) acc cs))"
  using assms by (induction cs arbitrary: acc) (auto simp: collect_dashboard_inv)

lemma normalize_store_inv: "store_inv (dashboards (normalizeOverviewDashboardStore date_parse v))"
  using collect_dashboards_inv [of "([], [])" date_parse]
  by (auto simp: normalizeOverviewDashboardStore_def store_inv_def split: option.splits json.splits)

lemma parse_store_inv: "store_inv (dashboards (parseOverviewDashboardStore date_parse raw))"
  using normalize_store_inv
  by (auto simp: parseOverviewDashboardStore_def store_inv_def split: option.splits sum.splits)

text \<open>
  The layout state's invariant: the store's, and the active dashboard is the default one or one
  of the stored.
\<close>

definition layout_state_inv :: "StoredOverviewLayoutState \<Rightarrow> bool" where
  "layout_state_inv s \<longleftrightarrow> store_inv (state_dashboards s) \<and>
     (activeDashboardId s = DEFAULT_DASHBOARD_ID \<or> activeDashboardId s \<in> dash_id ` set (state_dashboards s))"

lemma read_layout_state_inv: "layout_state_inv (readOverviewLayoutState date_parse userId st)"
  using parse_store_inv
  by (auto simp: readOverviewLayoutState_def layout_state_inv_def empty_layout_state_def store_inv_def Let_def
      split: sum.splits option.splits)

section \<open>The round trip through the storage\<close>

text \<open>
  Canonical dashboards: the texts have no surrounding white space and the dates are in the form
  \<open>toISOString\<close> gives.  On them the normalisation is the identity.
\<close>

definition canonical_date :: "date_parser \<Rightarrow> jsstring \<Rightarrow> bool" where
  "canonical_date date_parse s \<longleftrightarrow> map_option iso_string (date_parse s) = Some s"

definition canonical_dashboard :: "date_parser \<Rightarrow> CustomOverviewDashboard \<Rightarrow> bool" where
  "canonical_dashboard date_parse d \<longleftrightarrow> dashboard_inv d \<and> trimmed (dash_id d) \<and> trimmed (dash_name d) \<and>
     (\<forall>v\<in>set (widgets d). trimmed (uid v)) \<and>
     canonical_date date_parse (createdAt d) \<and> canonical_date date_parse (updatedAt d)"

definition canonical_state :: "date_parser \<Rightarrow> StoredOverviewLayoutState \<Rightarrow> bool" where
  "canonical_state date_parse s \<longleftrightarrow> layout_state_inv s \<and>
     (\<forall>d\<in>set (state_dashboards s). canonical_dashboard date_parse d)"

lemma normalizeText_id: "text_ok n s \<Longrightarrow> trimmed s \<Longrightarrow> normalizeText (Some (JStr s)) n = Some s"
  by (simp add: normalizeText_def text_ok_def trim_trimmed_id Let_def)

lemma clampInteger_id:
  assumes "is_int r" "lo \<le> r" "r \<le> hi"
  shows "clampInteger (Some (JNum (Num r))) lo hi fallback = r"
proof -
  obtain i where r: "r = of_int i" using assms(1) by (rule is_intE)
  have "\<lfloor>of_int i + 1 / 2 :: rat\<rfloor> = i" by linarith
  with r assms(2,3) show ?thesis by (simp add: clampInteger_def)
qed

lemmas json_access = get_prop_def is_record_def widget_json_def dashboard_json_def store_json_def

lemma normalizeWidget_json:
  assumes "widget_inv v" "text_ok 160 (uid v)" "trimmed (uid v)" "uid v \<notin> set ids"
  shows "normalizeWidget (widget_json v) ids = (Some v, set_add ids (uid v))"
proof -
  let ?d = "definitionOf (wtype v)"
  have b: "is_int (gx v)" "is_int (gy v)" "is_int (gw v)" "is_int (gh v)" "0 \<le> gx v" "0 \<le> gy v"
      "gx v \<le> of_int OVERVIEW_GRID_COLUMNS - gw v" "gy v \<le> of_int OVERVIEW_GRID_MAX_ROWS - gh v"
      "minW ?d \<le> gw v" "gw v \<le> min (maxW ?d) (of_int OVERVIEW_GRID_COLUMNS)"
      "minH ?d \<le> gh v" "gh v \<le> maxH ?d"
    using assms(1) by (auto simp: widget_inv_def placed_def size_ok_def)
  have "normalizeWidget (widget_json v) ids =
    (Some \<lparr>gx = gx v, gy = gy v, gw = gw v, gh = gh v, uid = uid v, wtype = wtype v\<rparr>, set_add ids (uid v))"
    using assms(4)
    by (simp add: normalizeWidget_def json_access normalizeText_id [OF assms(2,3)] Let_def
        clampInteger_id [OF b(3) b(9,10)] clampInteger_id [OF b(4) b(11,12)]
        clampInteger_id [OF b(1) b(5,7)] clampInteger_id [OF b(2) b(6,8)])
  then show ?thesis by simp
qed

lemma normalize_widgets_json:
  assumes "ns_inv st" "ns_unplaceableSizes st = []" "set (ns_widgetIds st) = uid ` set (ns_widgets st)"
    and "widgets_inv (ns_widgets st @ vs)" "\<forall>v\<in>set vs. text_ok 160 (uid v) \<and> trimmed (uid v)"
  shows "ns_widgets (foldl normalize_step st (map widget_json vs)) = ns_widgets st @ vs"
  using assms
proof (induction vs arbitrary: st)
  case (Cons v vs)
  have v: "widget_inv v" "uid v \<notin> set (ns_widgetIds st)" "wtype v \<notin> set (ns_widgetTypes st)"
    using Cons.prems by (auto simp: widgets_inv_def ns_inv_def)
  have "\<forall>u\<in>set (ns_widgets st). placed u" "\<forall>u\<in>set (ns_widgets st). \<not> overviewWidgetsOverlap u v"
    using Cons.prems(4) by (auto simp: widgets_inv_def layout_ok_def sorted_wrt_append)
  then obtain p where p: "findAvailableOverviewWidgetPosition v (ns_widgets st) (Some (ns_occupancy st)) = Some p"
      "place_at v p = v"
    using find_keeps_placed [of "ns_occupancy st" "ns_widgets st" v "ns_widgets st"] Cons.prems(1) v(1)
    by (auto simp: ns_inv_def widget_inv_def simp del: split_paired_Ex)
  have t: "isOverviewWidgetType (if is_record (widget_json v) then get_prop (widget_json v) ''type'' else None) = Some (wtype v)"
    by (simp add: json_access)
  have "normalize_step st (widget_json v) = st\<lparr>ns_widgetIds := set_add (ns_widgetIds st) (uid v),
      ns_widgets := ns_widgets st @ [v], ns_widgetTypes := set_add (ns_widgetTypes st) (wtype v),
      ns_occupancy := occupyOverviewGridRegion (ns_occupancy st) v\<rparr>"
    using v p Cons.prems normalizeWidget_json [of v "ns_widgetIds st"]
    by (simp add: normalize_step_def t Let_def)
  moreover have "ns_inv (normalize_step st (widget_json v))"
    using Cons.prems(1) by (rule ns_inv_step)
  ultimately show ?case
    using Cons.IH [of "normalize_step st (widget_json v)"] Cons.prems by simp
qed simp

lemma normalizeDashboard_json:
  assumes "canonical_dashboard date_parse d" "dash_id d \<notin> set ids"
  shows "normalizeDashboard date_parse (dashboard_json d) ids = (Some d, set_add ids (dash_id d))"
proof -
  have d: "dashboard_inv d" using assms by (simp add: canonical_dashboard_def)
  have "ns_widgets (foldl normalize_step normalize_init (map widget_json (widgets d))) = widgets d"
    using normalize_widgets_json [OF ns_inv_init, of "widgets d"] assms d
    by (simp add: normalize_init_def canonical_dashboard_def dashboard_inv_def)
  moreover have "normalizeDate date_parse (Some (JStr (createdAt d))) = Some (createdAt d)"
      "normalizeDate date_parse (Some (JStr (updatedAt d))) = Some (updatedAt d)"
    using assms by (simp_all add: normalizeDate_def canonical_dashboard_def canonical_date_def)
  ultimately show ?thesis
    using assms d
    by (simp add: normalizeDashboard_def json_access Let_def dashboard_inv_def canonical_dashboard_def normalizeText_id)
qed

lemma collect_dashboards_json:
  assumes "\<forall>d\<in>set ds. canonical_dashboard date_parse d" "distinct (map dash_id ds)"
    "set ids \<inter> dash_id ` set ds = {}"
  shows "snd (foldl (collect_dashboard date_parse) (ids, out) (map dashboard_json ds)) = out @ ds"
  using assms
proof (induction ds arbitrary: ids out)
  case (Cons d ds)
  have "collect_dashboard date_parse (ids, out) (dashboard_json d) = (set_add ids (dash_id d), out @ [d])"
    using Cons.prems normalizeDashboard_json [of date_parse d ids] by (simp add: collect_dashboard_def)
  with Cons.IH [of "set_add ids (dash_id d)" "out @ [d]"] Cons.prems show ?case by auto
qed simp

lemma normalize_store_json:
  assumes "\<forall>d\<in>set ds. canonical_dashboard date_parse d" "distinct (map dash_id ds)"
  shows "dashboards (normalizeOverviewDashboardStore date_parse (store_json ds)) = ds"
  using collect_dashboards_json [OF assms, of "[]" "[]"]
  by (simp add: normalizeOverviewDashboardStore_def json_access)

lemma json_ok_int: "is_int r \<Longrightarrow> 0 \<le> r \<Longrightarrow> r \<le> 256 \<Longrightarrow> json_ok (JNum (Num r))"
  by (simp add: is_int_def)

lemma json_ok_widget: "widget_inv v \<Longrightarrow> json_ok (widget_json v)"
proof -
  assume v: "widget_inv v"
  then have "json_ok (JNum (Num (gx v)))" "json_ok (JNum (Num (gy v)))"
      "json_ok (JNum (Num (gw v)))" "json_ok (JNum (Num (gh v)))"
    by (auto intro!: json_ok_int simp: widget_inv_def placed_def size_ok_def grid_size_defs simp del: json_ok.simps)
  then show ?thesis by (simp add: widget_json_def del: json_ok.simps(1))
qed

lemma json_ok_store: "store_inv ds \<Longrightarrow> json_ok (store_json ds)"
  by (auto simp: store_json_def dashboard_json_def list_all_iff store_inv_def dashboard_inv_def widgets_inv_def json_ok_widget)

lemma storage_keys_distinct: "dashboardsStorageKey u \<noteq> activeDashboardStorageKey u'"
  by (simp add: dashboardsStorageKey_def activeDashboardStorageKey_def js_def)

lemma parse_store_json:
  assumes "store_inv ds" "\<forall>d\<in>set ds. canonical_dashboard date_parse d"
  shows "dashboards (parseOverviewDashboardStore date_parse (Some (stringify (store_json ds)))) = ds"
proof -
  have "stringify (store_json ds) \<noteq> []" by (simp add: store_json_def)
  with assms show ?thesis
    by (simp add: parseOverviewDashboardStore_def parse_stringify json_ok_store normalize_store_json store_inv_def)
qed

lemma write_read_layout_state:
  assumes "canonical_state date_parse s" "storage_writable st"
  shows "readOverviewLayoutState date_parse u (writeOverviewLayoutState u s st) = s"
proof -
  obtain st1 where st1: "setItem st (dashboardsStorageKey u) (stringify (store_json (state_dashboards s))) = Inr st1"
      "storage_writable st1" using assms(2) by (rule setItem_writable)
  obtain st2 where st2: "setItem st1 (activeDashboardStorageKey u) (activeDashboardId s) = Inr st2"
    using st1(2) by (rule setItem_writable)
  note reads = web_storage.get_put_put [OF st1(1) st2 storage_keys_distinct]
  have p: "dashboards (parseOverviewDashboardStore date_parse (Some (stringify (store_json (state_dashboards s)))))
      = state_dashboards s"
    using assms(1) by (intro parse_store_json) (auto simp: canonical_state_def layout_state_inv_def)
  have active: "activeDashboardId s = DEFAULT_DASHBOARD_ID \<or>
      (activeDashboardId s \<noteq> [] \<and> (\<exists>d\<in>set (state_dashboards s). dash_id d = activeDashboardId s))"
    using assms(1)
    by (auto simp: canonical_state_def layout_state_inv_def store_inv_def dashboard_inv_def text_ok_def)
  show ?thesis
    using reads p active
    by (auto simp: readOverviewLayoutState_def writeOverviewLayoutState_def st1 st2 Let_def)
qed

end
