(* ===== verification/OverviewLayoutContext.thy ===== *)
theory OverviewLayoutContext
  imports OverviewLayoutStorage
begin

text \<open>
  The provider that holds the user's dashboards in memory and writes every change through to
  the storage (\<open>features/overviewLayout/OverviewLayoutContext.tsx\<close>).  Its state is the layout
  state and the storage; \<open>commit\<close> is the state update every operation goes through.  Ids and
  the current time come from the runtime and are arguments.  The lemmas show that every
  operation keeps the invariant and that memory and storage agree after it.
\<close>

section \<open>State and operations\<close>

record layout_provider =
  layout :: StoredOverviewLayoutState
  local_storage :: browser_storage

definition mount_provider :: "date_parser \<Rightarrow> int \<Rightarrow> browser_storage \<Rightarrow> layout_provider" where
  "mount_provider date_parse userId st =
     \<lparr>layout = readOverviewLayoutState date_parse userId st, local_storage = st\<rparr>"

definition commit ::
  "int \<Rightarrow> (StoredOverviewLayoutState \<Rightarrow> StoredOverviewLayoutState) \<Rightarrow> layout_provider \<Rightarrow> layout_provider" where
  "commit userId update p =
     (let next_state = update (layout p)
      in \<lparr>layout = next_state, local_storage = writeOverviewLayoutState userId next_state (local_storage p)\<rparr>)"

definition select_update :: "jsstring \<Rightarrow> StoredOverviewLayoutState \<Rightarrow> StoredOverviewLayoutState" where
  "select_update dashboardId current =
     current\<lparr>activeDashboardId :=
       (if dashboardId = DEFAULT_DASHBOARD_ID \<or> (\<exists>d\<in>set (state_dashboards current). dash_id d = dashboardId)
        then dashboardId else DEFAULT_DASHBOARD_ID)\<rparr>"

definition selectDashboard :: "int \<Rightarrow> jsstring \<Rightarrow> layout_provider \<Rightarrow> layout_provider" where
  "selectDashboard userId dashboardId = commit userId (select_update dashboardId)"

definition create_update ::
  "jsstring \<Rightarrow> jsstring \<Rightarrow> jsstring \<Rightarrow> CustomDashboardWidget list \<Rightarrow> StoredOverviewLayoutState \<Rightarrow> StoredOverviewLayoutState" where
  "create_update i now name vs current =
     \<lparr>state_dashboards = state_dashboards current @
        [\<lparr>dash_id = i, dash_name = trim name, widgets = deduplicateOverviewWidgetTypes vs,
          createdAt = now, updatedAt = now\<rparr>],
      activeDashboardId = i\<rparr>"

definition createDashboard ::
  "int \<Rightarrow> jsstring \<Rightarrow> jsstring \<Rightarrow> jsstring \<Rightarrow> CustomDashboardWidget list \<Rightarrow> layout_provider \<Rightarrow> layout_provider \<times> jsstring" where
  "createDashboard userId fresh now name vs p =
     (let i = createOverviewId ''dashboard'' fresh
      in (commit userId (create_update i now name vs) p, i))"

definition update_update ::
  "jsstring \<Rightarrow> jsstring \<Rightarrow> jsstring \<Rightarrow> CustomDashboardWidget list \<Rightarrow> StoredOverviewLayoutState \<Rightarrow> StoredOverviewLayoutState" where
  "update_update now dashboardId name vs current =
     current\<lparr>state_dashboards :=
       map (\<lambda>d. if dash_id d = dashboardId
                then d\<lparr>dash_name := trim name, widgets := deduplicateOverviewWidgetTypes vs, updatedAt := now\<rparr>
                else d) (state_dashboards current)\<rparr>"

definition updateDashboard ::
  "int \<Rightarrow> jsstring \<Rightarrow> jsstring \<Rightarrow> jsstring \<Rightarrow> CustomDashboardWidget list \<Rightarrow> layout_provider \<Rightarrow> layout_provider" where
  "updateDashboard userId now dashboardId name vs = commit userId (update_update now dashboardId name vs)"

definition delete_update :: "jsstring \<Rightarrow> StoredOverviewLayoutState \<Rightarrow> StoredOverviewLayoutState" where
  "delete_update dashboardId current =
     \<lparr>state_dashboards = filter (\<lambda>d. dash_id d \<noteq> dashboardId) (state_dashboards current),
      activeDashboardId = (if activeDashboardId current = dashboardId then DEFAULT_DASHBOARD_ID
                           else activeDashboardId current)\<rparr>"

definition deleteDashboard :: "int \<Rightarrow> jsstring \<Rightarrow> layout_provider \<Rightarrow> layout_provider" where
  "deleteDashboard userId dashboardId = commit userId (delete_update dashboardId)"

definition activeDashboard :: "StoredOverviewLayoutState \<Rightarrow> CustomOverviewDashboard option" where
  "activeDashboard s = List.find (\<lambda>d. dash_id d = activeDashboardId s) (state_dashboards s)"

section \<open>Deduplication of widget types\<close>

lemma dedup_types_loop_spec:
  assumes "set seen = wtype ` set out" "distinct (map wtype out)"
  shows "distinct (map wtype (dedup_types_loop seen out vs))"
    and "\<exists>us. dedup_types_loop seen out vs = out @ us \<and> subseq us vs"
    and "wtype ` set (dedup_types_loop seen out vs) = wtype ` set out \<union> wtype ` set vs"
  using assms
proof (induction vs arbitrary: seen out)
  case (Cons v vs)
  case 1
  then show ?case using Cons.IH(1) by auto
next
  case (Cons v vs)
  case 2
  show ?case
  proof (cases "wtype v \<in> set seen")
    case True
    with Cons.IH(2) [OF 2] show ?thesis by (auto intro: list_emb_Cons)
  next
    case False
    obtain us where "dedup_types_loop (seen @ [wtype v]) (out @ [v]) vs = (out @ [v]) @ us" "subseq us vs"
      using Cons.IH(2) [of "seen @ [wtype v]" "out @ [v]"] 2 False by auto
    with False show ?thesis by auto
  qed
next
  case (Cons v vs)
  case 3
  then show ?case using Cons.IH(3) by auto
qed auto

lemma dedup_types_loop_id:
  assumes "distinct (map wtype (out @ vs))" "set seen = wtype ` set out"
  shows "dedup_types_loop seen out vs = out @ vs"
  using assms by (induction vs arbitrary: seen out) auto

lemma deduplicate_id: "distinct (map wtype vs) \<Longrightarrow> deduplicateOverviewWidgetTypes vs = vs"
  by (simp add: deduplicateOverviewWidgetTypes_def dedup_types_loop_id)

lemma deduplicate_types:
  "distinct (map wtype (deduplicateOverviewWidgetTypes vs))"
  "wtype ` set (deduplicateOverviewWidgetTypes vs) = wtype ` set vs"
  "subseq (deduplicateOverviewWidgetTypes vs) vs"
  using dedup_types_loop_spec [of "[]" "[]" vs] by (auto simp: deduplicateOverviewWidgetTypes_def)

lemma deduplicate_widgets_inv [simp]: "widgets_inv vs \<Longrightarrow> deduplicateOverviewWidgetTypes vs = vs"
  by (rule deduplicate_id) (simp add: widgets_inv_def)

section \<open>The invariant is kept\<close>

text \<open>
  What the dashboard builder hands over when it saves, and what the runtime supplies: a usable
  name, a well-formed set of widgets, an id no dashboard has, a date in ISO form.
\<close>

definition savable :: "jsstring \<Rightarrow> CustomDashboardWidget list \<Rightarrow> bool" where
  "savable name vs \<longleftrightarrow> text_ok 80 (trim name) \<and> vs \<noteq> [] \<and> widgets_inv vs \<and>
     (\<forall>v\<in>set vs. text_ok 160 (uid v) \<and> trimmed (uid v))"

definition fresh_id :: "jsstring \<Rightarrow> StoredOverviewLayoutState \<Rightarrow> bool" where
  "fresh_id i s \<longleftrightarrow> text_ok 120 i \<and> trimmed i \<and> i \<notin> dash_id ` set (state_dashboards s)"

lemma canonical_state_iff:
  "canonical_state dp s \<longleftrightarrow> (\<forall>d\<in>set (state_dashboards s). canonical_dashboard dp d) \<and>
     distinct (map dash_id (state_dashboards s)) \<and>
     (activeDashboardId s = DEFAULT_DASHBOARD_ID \<or> activeDashboardId s \<in> dash_id ` set (state_dashboards s))"
  by (auto simp: canonical_state_def layout_state_inv_def store_inv_def canonical_dashboard_def)

lemma select_update_canonical: "canonical_state dp s \<Longrightarrow> canonical_state dp (select_update i s)"
  by (auto simp: canonical_state_iff select_update_def)

lemma delete_update_canonical: "canonical_state dp s \<Longrightarrow> canonical_state dp (delete_update i s)"
  by (auto simp: canonical_state_iff delete_update_def distinct_map_filter)

lemma canonical_saved:
  assumes "savable name vs" "text_ok 120 (dash_id d)" "trimmed (dash_id d)"
    "canonical_date dp (createdAt d)" "canonical_date dp now"
  shows "canonical_dashboard dp (d\<lparr>dash_name := trim name, widgets := deduplicateOverviewWidgetTypes vs, updatedAt := now\<rparr>)"
  using assms by (simp add: canonical_dashboard_def dashboard_inv_def savable_def trimmed_trim)

lemma create_update_canonical:
  assumes "canonical_state dp s" "savable name vs" "fresh_id i s" "canonical_date dp now"
  shows "canonical_state dp (create_update i now name vs s)"
  using assms canonical_saved [OF assms(2), of "\<lparr>dash_id = i, dash_name = [], widgets = [], createdAt = now, updatedAt = now\<rparr>" dp now]
  by (auto simp: canonical_state_iff create_update_def fresh_id_def)

lemma update_update_canonical:
  assumes "canonical_state dp s" "savable name vs" "canonical_date dp now"
  shows "canonical_state dp (update_update now i name vs s)"
proof -
  have ids: "map dash_id (state_dashboards (update_update now i name vs s)) = map dash_id (state_dashboards s)"
    by (simp add: update_update_def)
  then have set_ids: "dash_id ` set (state_dashboards (update_update now i name vs s)) = dash_id ` set (state_dashboards s)"
    by (metis list.set_map)
  have "canonical_dashboard dp d" if "d \<in> set (state_dashboards (update_update now i name vs s))" for d
    using that assms canonical_saved [OF assms(2) _ _ _ assms(3)]
    by (auto simp: update_update_def canonical_state_iff canonical_dashboard_def dashboard_inv_def split: if_splits)
  moreover have "activeDashboardId (update_update now i name vs s) = activeDashboardId s"
    by (simp add: update_update_def)
  ultimately show ?thesis
    using assms(1) unfolding canonical_state_iff ids set_ids by simp
qed

lemma writable_write: "storage_writable st \<Longrightarrow> storage_writable (writeOverviewLayoutState u s st)"
  by (auto simp: writeOverviewLayoutState_def setItem_def storage_writable_def split: sum.splits if_splits)

text \<open>
  An operation of the provider: a canonical state stays canonical.  Every client fact below
  needs only this, so it is proved once for any such operation.
\<close>

locale layout_operation =
  fixes dp :: date_parser and upd :: "StoredOverviewLayoutState \<Rightarrow> StoredOverviewLayoutState"
    and allowed :: "StoredOverviewLayoutState \<Rightarrow> bool"
  assumes keeps: "canonical_state dp s \<Longrightarrow> allowed s \<Longrightarrow> canonical_state dp (upd s)"
begin

definition in_step :: "int \<Rightarrow> layout_provider \<Rightarrow> bool" where
  "in_step u p \<longleftrightarrow> canonical_state dp (layout p) \<and> storage_writable (local_storage p) \<and>
     readOverviewLayoutState dp u (local_storage p) = layout p"

lemma commit_in_step:
  assumes "canonical_state dp (layout p)" "storage_writable (local_storage p)" "allowed (layout p)"
  shows "in_step u (commit u upd p)"
  using assms keeps [of "layout p"]
  by (simp add: in_step_def commit_def Let_def writable_write write_read_layout_state)

end

interpretation select_op: layout_operation dp "select_update i" "\<lambda>_. True"
  by unfold_locales (rule select_update_canonical)

interpretation delete_op: layout_operation dp "delete_update i" "\<lambda>_. True"
  by unfold_locales (rule delete_update_canonical)

interpretation create_op: layout_operation dp "create_update i now name vs"
    "\<lambda>s. savable name vs \<and> fresh_id i s \<and> canonical_date dp now"
  by unfold_locales (auto intro: create_update_canonical)

interpretation update_op: layout_operation dp "update_update now i name vs"
    "\<lambda>_. savable name vs \<and> canonical_date dp now"
  by unfold_locales (auto intro: update_update_canonical)

end
