(* ===== verification/DashboardBuilder.thy ===== *)
theory DashboardBuilder
  imports OverviewLayoutContext
begin

text \<open>
  The workspace in which dashboards are built
  (\<open>features/overviewLayout/OverviewDashboardWorkspace.tsx\<close>): the pure layout functions it
  exports, and the handlers of the workspace and of the builder as operations on their state.
  Where the source returns its \<open>widgets\<close> argument itself to say that nothing changed (the callers
  compare references), the model returns \<open>None\<close>.  The values the grid library reports are plain
  numbers, finite or not.
\<close>

section \<open>Layout functions\<close>

definition clampGridInteger :: "jsnum \<Rightarrow> rat \<Rightarrow> rat \<Rightarrow> rat \<Rightarrow> rat" where
  "clampGridInteger v lo hi fallback =
     (case v of Num r \<Rightarrow> min (max (of_int \<lfloor>r + 1 / 2\<rfloor>) lo) hi | _ \<Rightarrow> min (max fallback lo) hi)"

text \<open>\<open>Pick<LayoutItem, "x" | "y" | "w" | "h">\<close> and the whole item with its key.\<close>

record grid_position =
  px :: jsnum
  py :: jsnum
  pw :: jsnum
  ph :: jsnum

record LayoutItem = grid_position +
  li_i :: jsstring
  li_minW :: rat
  li_minH :: rat
  li_maxW :: rat
  li_maxH :: rat

definition toLayoutItem :: "CustomDashboardWidget \<Rightarrow> LayoutItem" where
  "toLayoutItem v =
     (let d = definitionOf (wtype v)
      in \<lparr>px = Num (gx v), py = Num (gy v), pw = Num (gw v), ph = Num (gh v), li_i = uid v,
          li_minW = minW d, li_minH = minH d, li_maxW = maxW d, li_maxH = maxH d\<rparr>)"

definition normalizeGridWidget :: "CustomDashboardWidget \<Rightarrow> 'a grid_position_scheme \<Rightarrow> CustomDashboardWidget" where
  "normalizeGridWidget v item =
     (let d = definitionOf (wtype v);
          w = clampGridInteger (pw item) (minW d) (min (maxW d) (of_int OVERVIEW_GRID_COLUMNS)) (gw v);
          h = clampGridInteger (ph item) (minH d) (min (maxH d) (of_int OVERVIEW_GRID_MAX_ROWS)) (gh v);
          x = clampGridInteger (px item) 0 (of_int OVERVIEW_GRID_COLUMNS - w) (gx v);
          y = clampGridInteger (py item) 0 (of_int OVERVIEW_GRID_MAX_ROWS - h) (gy v)
      in v\<lparr>gx := x, gy := y, gw := w, gh := h\<rparr>)"

fun widgetsDoNotOverlap :: "CustomDashboardWidget list \<Rightarrow> bool" where
  "widgetsDoNotOverlap [] = True"
| "widgetsDoNotOverlap (v # vs) =
     (list_all (\<lambda>candidate. \<not> overviewWidgetsOverlap v candidate) vs \<and> widgetsDoNotOverlap vs)"

text \<open>The loop that places the widgets one after the other; \<open>None\<close> when one does not fit.\<close>

fun repair_layout :: "CustomDashboardWidget list \<Rightarrow> CustomDashboardWidget list \<Rightarrow> CustomDashboardWidget list option" where
  "repair_layout repaired [] = Some repaired"
| "repair_layout repaired (v # vs) =
     (case findAvailableOverviewWidgetPosition v repaired None of
        None \<Rightarrow> None
      | Some p \<Rightarrow> repair_layout (repaired @ [place_at v p]) vs)"

definition applyGridLayout :: "CustomDashboardWidget list \<Rightarrow> LayoutItem list \<Rightarrow> CustomDashboardWidget list" where
  "applyGridLayout vs its =
     (let positions = map_from (map (\<lambda>item. (li_i item, item)) its);
          normalized = map (\<lambda>v. case map_get positions (uid v) of
                                   Some item \<Rightarrow> normalizeGridWidget v item | None \<Rightarrow> v) vs
      in if widgetsDoNotOverlap normalized then normalized
         else (case repair_layout [] normalized of Some repaired \<Rightarrow> repaired | None \<Rightarrow> vs))"

definition applyDroppedWidget ::
  "jsstring \<Rightarrow> CustomDashboardWidget list \<Rightarrow> OverviewWidgetType \<Rightarrow> 'a grid_position_scheme \<Rightarrow> CustomDashboardWidget list option" where
  "applyDroppedWidget fresh vs t position =
     (if \<exists>v\<in>set vs. wtype v = t then None
      else let v = normalizeGridWidget (createOverviewWidget fresh t) position
           in case findAvailableOverviewWidgetPosition v vs None of
                Some p \<Rightarrow> Some (vs @ [place_at v p]) | None \<Rightarrow> None)"

definition tryAddOverviewWidget ::
  "jsstring \<Rightarrow> CustomDashboardWidget list \<Rightarrow> OverviewWidgetType \<Rightarrow> CustomDashboardWidget list option" where
  "tryAddOverviewWidget fresh vs t =
     (if \<exists>v\<in>set vs. wtype v = t then None
      else let v = createOverviewWidget fresh t
           in case findAvailableOverviewWidgetPosition v vs None of
                Some p \<Rightarrow> Some (vs @ [place_at v p]) | None \<Rightarrow> None)"

definition isKeyboardAdjustmentKey :: "jsstring \<Rightarrow> bool" where
  "isKeyboardAdjustmentKey key \<longleftrightarrow>
     key = js ''ArrowLeft'' \<or> key = js ''ArrowRight'' \<or> key = js ''ArrowUp'' \<or> key = js ''ArrowDown''"

definition adjust_widget :: "jsstring \<Rightarrow> bool \<Rightarrow> CustomDashboardWidget \<Rightarrow> CustomDashboardWidget" where
  "adjust_widget key resize v =
     (let d = definitionOf (wtype v)
      in if resize then
           (if key = js ''ArrowLeft'' then v\<lparr>gw := max (minW d) (gw v - 1)\<rparr>
            else if key = js ''ArrowRight'' then v\<lparr>gw := min (maxW d) (min (of_int OVERVIEW_GRID_COLUMNS - gx v) (gw v + 1))\<rparr>
            else if key = js ''ArrowUp'' then v\<lparr>gh := max (minH d) (gh v - 1)\<rparr>
            else if key = js ''ArrowDown'' then v\<lparr>gh := min (maxH d) (min (of_int OVERVIEW_GRID_MAX_ROWS - gy v) (gh v + 1))\<rparr>
            else v)
         else
           (if key = js ''ArrowLeft'' then v\<lparr>gx := max 0 (gx v - 1)\<rparr>
            else if key = js ''ArrowRight'' then v\<lparr>gx := min (of_int OVERVIEW_GRID_COLUMNS - gw v) (gx v + 1)\<rparr>
            else if key = js ''ArrowUp'' then v\<lparr>gy := max 0 (gy v - 1)\<rparr>
            else if key = js ''ArrowDown'' then v\<lparr>gy := min (of_int OVERVIEW_GRID_MAX_ROWS - gh v) (gy v + 1)\<rparr>
            else v))"

definition applyKeyboardWidgetAdjustment ::
  "CustomDashboardWidget list \<Rightarrow> jsstring \<Rightarrow> jsstring \<Rightarrow> bool \<Rightarrow> CustomDashboardWidget list option" where
  "applyKeyboardWidgetAdjustment vs u key resize =
     (case List.find (\<lambda>v. uid v = u) vs of None \<Rightarrow> None
      | Some v \<Rightarrow>
          if \<not> isKeyboardAdjustmentKey key then None
          else let adjusted = adjust_widget key resize v
               in if gx adjusted = gx v \<and> gy adjusted = gy v \<and> gw adjusted = gw v \<and> gh adjusted = gh v then None
                  else if \<exists>c\<in>set vs. uid c \<noteq> u \<and> overviewWidgetsOverlap adjusted c then None
                  else Some (map (\<lambda>c. if uid c = u then adjusted else c) vs))"

section \<open>The builder\<close>

record BuilderState =
  b_dashboardId :: "jsstring option"
  b_name :: jsstring
  b_widgets :: "CustomDashboardWidget list"

datatype PlacementIssue = Duplicate | Space

datatype BuilderFocusTarget = FocusPalette OverviewWidgetType | FocusWidget jsstring

text \<open>The component state of \<open>DashboardBuilder\<close> beside the builder it edits.\<close>

record builder_view =
  edited :: BuilderState
  draggedType :: "OverviewWidgetType option"
  placementIssue :: "PlacementIssue option"
  pendingFocus :: "BuilderFocusTarget option"

definition open_builder_view :: "BuilderState \<Rightarrow> builder_view" where
  "open_builder_view b = \<lparr>edited = b, draggedType = None, placementIssue = None, pendingFocus = None\<rparr>"

definition addWidget ::
  "bool \<Rightarrow> jsstring \<Rightarrow> OverviewWidgetType \<Rightarrow> grid_position option \<Rightarrow> builder_view \<Rightarrow> builder_view" where
  "addWidget editingAvailable fresh t position bv =
     (if \<not> editingAvailable then bv
      else let bv = bv\<lparr>draggedType := None\<rparr>; vs = b_widgets (edited bv)
           in if \<exists>v\<in>set vs. wtype v = t then bv\<lparr>placementIssue := Some Duplicate\<rparr>
              else (case (case position of Some p \<Rightarrow> applyDroppedWidget fresh vs t p
                          | None \<Rightarrow> tryAddOverviewWidget fresh vs t) of
                      None \<Rightarrow> bv\<lparr>placementIssue := Some Space\<rparr>
                    | Some vs' \<Rightarrow>
                        bv\<lparr>placementIssue := None,
                           pendingFocus := (if vs' = [] then pendingFocus bv else Some (FocusWidget (uid (last vs')))),
                           edited := (edited bv)\<lparr>b_widgets := vs'\<rparr>\<rparr>))"

definition removeWidget :: "jsstring \<Rightarrow> builder_view \<Rightarrow> builder_view" where
  "removeWidget u bv =
     (let vs = b_widgets (edited bv)
      in bv\<lparr>pendingFocus := (case List.find (\<lambda>v. uid v = u) vs of
                               Some v \<Rightarrow> Some (FocusPalette (wtype v)) | None \<Rightarrow> pendingFocus bv),
            placementIssue := None,
            edited := (edited bv)\<lparr>b_widgets := filter (\<lambda>v. uid v \<noteq> u) vs\<rparr>\<rparr>)"

definition changeWidgets :: "CustomDashboardWidget list \<Rightarrow> builder_view \<Rightarrow> builder_view" where
  "changeWidgets vs bv = bv\<lparr>placementIssue := None, edited := (edited bv)\<lparr>b_widgets := vs\<rparr>\<rparr>"

text \<open>The grid reports a new layout after a drag or a resize (\<open>commitLayout\<close>).\<close>

definition commitLayout :: "bool \<Rightarrow> LayoutItem list \<Rightarrow> builder_view \<Rightarrow> builder_view" where
  "commitLayout editable its bv =
     (if editable then changeWidgets (applyGridLayout (b_widgets (edited bv)) its) bv else bv)"

definition handleWidgetKeyboardAdjustment :: "bool \<Rightarrow> jsstring \<Rightarrow> jsstring \<Rightarrow> bool \<Rightarrow> builder_view \<Rightarrow> builder_view" where
  "handleWidgetKeyboardAdjustment editable u key shift bv =
     (if \<not> editable \<or> \<not> isKeyboardAdjustmentKey key then bv
      else case applyKeyboardWidgetAdjustment (b_widgets (edited bv)) u key shift of
             None \<Rightarrow> bv | Some vs \<Rightarrow> changeWidgets vs bv)"

definition renameDashboard :: "jsstring \<Rightarrow> builder_view \<Rightarrow> builder_view" where
  "renameDashboard name bv = bv\<lparr>edited := (edited bv)\<lparr>b_name := name\<rparr>\<rparr>"

text \<open>Dragging from the palette: start, end, and the drop the grid reports (\<open>onDrop\<close>).\<close>

definition startPaletteDrag :: "OverviewWidgetType \<Rightarrow> builder_view \<Rightarrow> builder_view" where
  "startPaletteDrag t bv = bv\<lparr>draggedType := Some t\<rparr>"

definition endPaletteDrag :: "builder_view \<Rightarrow> builder_view" where
  "endPaletteDrag bv = bv\<lparr>draggedType := None\<rparr>"

definition dropWidget :: "bool \<Rightarrow> jsstring \<Rightarrow> 'a grid_position_scheme option \<Rightarrow> builder_view \<Rightarrow> builder_view" where
  "dropWidget editingAvailable fresh item bv =
     (case (draggedType bv, item) of
        (Some t, Some p) \<Rightarrow>
          addWidget editingAvailable fresh t (Some \<lparr>px = px p, py = py p, pw = pw p, ph = ph p\<rparr>) bv
      | _ \<Rightarrow> bv)"

text \<open>A palette button or a widget handle that is mounted takes the focus waiting for it.\<close>

definition registerPaletteButton :: "OverviewWidgetType \<Rightarrow> bool \<Rightarrow> builder_view \<Rightarrow> builder_view \<times> bool" where
  "registerPaletteButton t element bv =
     (if element \<and> pendingFocus bv = Some (FocusPalette t) then (bv\<lparr>pendingFocus := None\<rparr>, True) else (bv, False))"

definition registerWidgetHandle :: "jsstring \<Rightarrow> bool \<Rightarrow> builder_view \<Rightarrow> builder_view \<times> bool" where
  "registerWidgetHandle u element bv =
     (if element \<and> pendingFocus bv = Some (FocusWidget u) then (bv\<lparr>pendingFocus := None\<rparr>, True) else (bv, False))"

definition availableDefinitions :: "BuilderState \<Rightarrow> OverviewWidgetDefinition list" where
  "availableDefinitions b = filter (\<lambda>d. def_type d \<notin> wtype ` set (b_widgets b)) OVERVIEW_WIDGET_DEFINITIONS"

section \<open>The workspace\<close>

record workspace =
  provider :: layout_provider
  builder :: "builder_view option"
  deleteTarget :: "CustomOverviewDashboard option"

definition openNewDashboard :: "bool \<Rightarrow> workspace \<Rightarrow> workspace" where
  "openNewDashboard editingAvailable ws =
     (if \<not> editingAvailable then ws
      else ws\<lparr>builder := Some (open_builder_view \<lparr>b_dashboardId = None, b_name = [], b_widgets = []\<rparr>)\<rparr>)"

definition openExistingDashboard :: "bool \<Rightarrow> workspace \<Rightarrow> workspace" where
  "openExistingDashboard editingAvailable ws =
     (case activeDashboard (layout (provider ws)) of
        None \<Rightarrow> ws
      | Some d \<Rightarrow>
          if \<not> editingAvailable then ws
          else ws\<lparr>builder := Some (open_builder_view
                   \<lparr>b_dashboardId = Some (dash_id d), b_name = dash_name d, b_widgets = widgets d\<rparr>)\<rparr>)"

definition onCancel :: "workspace \<Rightarrow> workspace" where
  "onCancel ws = ws\<lparr>builder := None\<rparr>"

definition onSave :: "int \<Rightarrow> bool \<Rightarrow> jsstring \<Rightarrow> jsstring \<Rightarrow> workspace \<Rightarrow> workspace" where
  "onSave userId editingAvailable fresh now ws =
     (case builder ws of None \<Rightarrow> ws
      | Some bv \<Rightarrow>
          (let b = edited bv; name = trim (b_name b)
           in if \<not> editingAvailable \<or> name = [] \<or> b_widgets b = [] then ws
              else ws\<lparr>provider := (case b_dashboardId b of
                                     Some (c # i) \<Rightarrow> updateDashboard userId now (c # i) name (b_widgets b) (provider ws)
                                   | _ \<Rightarrow> fst (createDashboard userId fresh now name (b_widgets b) (provider ws))),
                      builder := None\<rparr>))"

text \<open>The selector of the settings dialog also leaves the builder.\<close>

definition onSelectDashboard :: "int \<Rightarrow> jsstring \<Rightarrow> workspace \<Rightarrow> workspace" where
  "onSelectDashboard userId i ws = ws\<lparr>provider := selectDashboard userId i (provider ws), builder := None\<rparr>"

definition onHomeSelect :: "int \<Rightarrow> jsstring \<Rightarrow> workspace \<Rightarrow> workspace" where
  "onHomeSelect userId i ws = ws\<lparr>provider := selectDashboard userId i (provider ws)\<rparr>"

definition requestDelete :: "workspace \<Rightarrow> workspace" where
  "requestDelete ws = ws\<lparr>deleteTarget := activeDashboard (layout (provider ws))\<rparr>"

definition cancelDelete :: "workspace \<Rightarrow> workspace" where
  "cancelDelete ws = ws\<lparr>deleteTarget := None\<rparr>"

definition confirmDelete :: "int \<Rightarrow> bool \<Rightarrow> workspace \<Rightarrow> workspace" where
  "confirmDelete userId editingAvailable ws =
     (let ws1 = (case deleteTarget ws of
                   Some d \<Rightarrow>
                     if editingAvailable
                     then ws\<lparr>provider := deleteDashboard userId (dash_id d) (provider ws),
                             builder := (case builder ws of
                                           Some bv \<Rightarrow> if b_dashboardId (edited bv) = Some (dash_id d) then None else Some bv
                                         | None \<Rightarrow> None)\<rparr>
                     else ws
                 | None \<Rightarrow> ws)
      in ws1\<lparr>deleteTarget := None\<rparr>)"

section \<open>The layout functions keep the invariant\<close>

lemma clampGridInteger_range:
  assumes "is_int lo" "is_int hi" "is_int fallback" "lo \<le> hi"
  shows "is_int (clampGridInteger v lo hi fallback)"
    and "lo \<le> clampGridInteger v lo hi fallback" and "clampGridInteger v lo hi fallback \<le> hi"
  using assms by (auto simp: clampGridInteger_def max_def min_def split: jsnum.splits)

lemma normalizeGridWidget_sel [simp]:
  "uid (normalizeGridWidget v item) = uid v" "wtype (normalizeGridWidget v item) = wtype v"
  by (simp_all add: normalizeGridWidget_def Let_def)

lemma widget_inv_ints:
  "widget_inv v \<Longrightarrow> is_int (gx v)" "widget_inv v \<Longrightarrow> is_int (gy v)"
  "widget_inv v \<Longrightarrow> is_int (gw v)" "widget_inv v \<Longrightarrow> is_int (gh v)"
  by (simp_all add: widget_inv_def placed_def size_ok_def)

lemma normalizeGridWidget_inv:
  assumes "widget_inv v"
  shows "widget_inv (normalizeGridWidget v item)"
proof -
  let ?d = "definitionOf (wtype v)"
  have d: "definition_ok ?d" by (rule definitionOf_ok)
  note ints = widget_inv_ints [OF assms]
  define w where "w = clampGridInteger (pw item) (minW ?d) (min (maxW ?d) (of_int OVERVIEW_GRID_COLUMNS)) (gw v)"
  define h where "h = clampGridInteger (ph item) (minH ?d) (min (maxH ?d) (of_int OVERVIEW_GRID_MAX_ROWS)) (gh v)"
  have w: "is_int w" "minW ?d \<le> w" "w \<le> min (maxW ?d) (of_int OVERVIEW_GRID_COLUMNS)"
    unfolding w_def using d ints by (intro clampGridInteger_range; auto simp: definition_ok_def min_def)+
  have h: "is_int h" "minH ?d \<le> h" "h \<le> min (maxH ?d) (of_int OVERVIEW_GRID_MAX_ROWS)"
    unfolding h_def using d ints by (intro clampGridInteger_range; auto simp: definition_ok_def min_def)+
  define x where "x = clampGridInteger (px item) 0 (of_int OVERVIEW_GRID_COLUMNS - w) (gx v)"
  define y where "y = clampGridInteger (py item) 0 (of_int OVERVIEW_GRID_MAX_ROWS - h) (gy v)"
  have x: "is_int x" "0 \<le> x" "x \<le> of_int OVERVIEW_GRID_COLUMNS - w"
    unfolding x_def using w ints by (intro clampGridInteger_range; auto intro: is_int_diff)+
  have y: "is_int y" "0 \<le> y" "y \<le> of_int OVERVIEW_GRID_MAX_ROWS - h"
    unfolding y_def using h ints by (intro clampGridInteger_range; auto intro: is_int_diff)+
  have "normalizeGridWidget v item = v\<lparr>gx := x, gy := y, gw := w, gh := h\<rparr>"
    by (simp add: normalizeGridWidget_def Let_def w_def h_def x_def y_def)
  then show ?thesis
    using w h x y d by (simp add: widget_inv_def placed_def size_ok_def definition_ok_def)
qed

lemma createOverviewWidget_inv: "widget_inv (createOverviewWidget fresh t)"
  using definitionOf_ok [of t]
  by (simp add: createOverviewWidget_def widget_inv_def placed_def size_ok_def definition_ok_def)

lemma widgetsDoNotOverlap_iff: "widgetsDoNotOverlap vs \<longleftrightarrow> sorted_wrt (\<lambda>a b. \<not> overviewWidgetsOverlap a b) vs"
  by (induction vs) (simp_all add: list_all_iff)

lemma widgets_inv_iff:
  "widgets_inv vs \<longleftrightarrow> (\<forall>v\<in>set vs. widget_inv v) \<and> widgetsDoNotOverlap vs \<and>
     distinct (map uid vs) \<and> distinct (map wtype vs)"
  by (auto simp: widgets_inv_def layout_ok_def widgetsDoNotOverlap_iff widget_inv_def)

lemma widgets_inv_find:
  assumes "widgets_inv vs" "widget_inv v" "findAvailableOverviewWidgetPosition v vs None = Some p"
    and "uid v \<notin> uid ` set vs" "wtype v \<notin> wtype ` set vs"
  shows "widgets_inv (vs @ [place_at v p])"
  using assms widgets_inv_place [OF _ represents_create, of vs v vs] by (simp add: find_default_occupancy)

lemma repair_layout_inv:
  assumes "repair_layout us vs = Some rs" "widgets_inv us" "\<forall>v\<in>set vs. widget_inv v"
    and "distinct (map uid (us @ vs))" "distinct (map wtype (us @ vs))"
  shows "widgets_inv rs \<and> map uid rs = map uid (us @ vs) \<and> map wtype rs = map wtype (us @ vs)"
  using assms
proof (induction us vs rule: repair_layout.induct)
  case (2 us v vs)
  from "2.prems"(1) obtain p where p: "findAvailableOverviewWidgetPosition v us None = Some p"
      "repair_layout (us @ [place_at v p]) vs = Some rs" by (auto split: option.splits)
  have "widgets_inv (us @ [place_at v p])"
    using "2.prems" p by (intro widgets_inv_find) auto
  with "2.IH" [OF p] "2.prems" show ?case by auto
qed simp

lemma map_grid_inv:
  assumes "\<forall>v\<in>set vs. widget_inv v"
  shows "\<forall>v\<in>set (map (\<lambda>v. case f v of Some item \<Rightarrow> normalizeGridWidget v item | None \<Rightarrow> v) vs). widget_inv v"
  using assms by (auto simp: normalizeGridWidget_inv split: option.splits)

lemma applyGridLayout_inv:
  assumes "widgets_inv vs"
  shows "widgets_inv (applyGridLayout vs its)" "map uid (applyGridLayout vs its) = map uid vs"
    "map wtype (applyGridLayout vs its) = map wtype vs"
proof -
  define f where "f v = map_get (map_from (map (\<lambda>item. (li_i item, item)) its)) (uid v)" for v :: CustomDashboardWidget
  define ns where "ns = map (\<lambda>v. case f v of Some item \<Rightarrow> normalizeGridWidget v item | None \<Rightarrow> v) vs"
  have ids: "map uid ns = map uid vs" "map wtype ns = map wtype vs"
    by (auto simp: ns_def split: option.splits)
  have ns: "\<forall>v\<in>set ns. widget_inv v"
    unfolding ns_def using assms by (intro map_grid_inv) (simp add: widgets_inv_def)
  have e: "applyGridLayout vs its = (if widgetsDoNotOverlap ns then ns
      else case repair_layout [] ns of Some repaired \<Rightarrow> repaired | None \<Rightarrow> vs)"
    by (simp add: applyGridLayout_def Let_def ns_def f_def)
  have "widgets_inv (applyGridLayout vs its) \<and> map uid (applyGridLayout vs its) = map uid vs \<and>
     map wtype (applyGridLayout vs its) = map wtype vs"
    using repair_layout_inv [of "[]" ns] ns ids assms
    by (auto simp: e widgets_inv_iff split: option.splits)
  then show "widgets_inv (applyGridLayout vs its)" "map uid (applyGridLayout vs its) = map uid vs"
    "map wtype (applyGridLayout vs its) = map wtype vs" by simp_all
qed

text \<open>What adding a widget, by a click or by a drop, does to the list.\<close>

lemma added_widget:
  assumes "applyDroppedWidget fresh vs t pos = Some vs' \<or> tryAddOverviewWidget fresh vs t = Some vs'"
    and "widgets_inv vs" "createOverviewId ''widget'' fresh \<notin> uid ` set vs"
  shows "widgets_inv vs' \<and> (\<exists>v. vs' = vs @ [v] \<and> wtype v = t \<and> uid v = createOverviewId ''widget'' fresh)"
proof -
  from assms(1) obtain v p where v: "widget_inv v" "wtype v = t" "uid v = createOverviewId ''widget'' fresh"
      and p: "findAvailableOverviewWidgetPosition v vs None = Some p" "vs' = vs @ [place_at v p]"
      and t: "t \<notin> wtype ` set vs"
  proof (cases "t \<in> wtype ` set vs")
    case True
    then have "\<exists>v\<in>set vs. wtype v = t" by auto
    then show ?thesis using assms(1) by (simp add: applyDroppedWidget_def tryAddOverviewWidget_def)
  next
    case False
    let ?c = "createOverviewWidget fresh t"
    have "widget_inv ?c" "wtype ?c = t" "uid ?c = createOverviewId ''widget'' fresh"
      by (simp_all add: createOverviewWidget_inv) (simp_all add: createOverviewWidget_def)
    with assms(1) False that [of ?c] that [of "normalizeGridWidget ?c pos"] show ?thesis
      by (auto simp: applyDroppedWidget_def tryAddOverviewWidget_def Let_def normalizeGridWidget_inv
          split: option.splits if_splits)
  qed
  have "widgets_inv vs'"
    unfolding p(2) using assms v p(1) t by (intro widgets_inv_find) auto
  with v p show ?thesis by auto
qed

text \<open>A key press moves one widget by at most one cell and stays within the limits of its type.\<close>

lemma adjust_widget_sel [simp]: "uid (adjust_widget key r v) = uid v" "wtype (adjust_widget key r v) = wtype v"
  by (simp_all add: adjust_widget_def Let_def)

lemma is_int_add: "is_int a \<Longrightarrow> is_int b \<Longrightarrow> is_int (a + b)"
  by (elim is_intE) (metis is_int_of_int of_int_add)

lemma is_int_minmax: "is_int a \<Longrightarrow> is_int b \<Longrightarrow> is_int (min a b)" "is_int a \<Longrightarrow> is_int b \<Longrightarrow> is_int (max a b)"
  by (simp_all add: min_def max_def)

lemma adjust_widget_inv:
  assumes "widget_inv v"
  shows "widget_inv (adjust_widget key r v)"
proof -
  have d: "definition_ok (definitionOf (wtype v))" by (rule definitionOf_ok)
  show ?thesis
    using assms d
    by (auto simp: adjust_widget_def Let_def widget_inv_def placed_def size_ok_def definition_ok_def
        intro!: is_int_minmax is_int_diff is_int_add)
qed

lemma distinct_uid_other:
  assumes "distinct (map uid vs)" "v \<in> set vs" "c \<in> set vs" "c \<noteq> v"
  shows "uid c \<noteq> uid v"
  using assms by (metis distinct_map inj_on_def)

lemma no_overlap_pairs:
  assumes "distinct (map uid vs)"
  shows "widgetsDoNotOverlap vs \<longleftrightarrow>
    (\<forall>a\<in>set vs. \<forall>b\<in>set vs. uid a \<noteq> uid b \<longrightarrow> \<not> overviewWidgetsOverlap a b)"
  using assms
proof (induction vs)
  case (Cons v vs)
  have "\<forall>c\<in>set vs. uid v \<noteq> uid c" using Cons.prems by auto
  with Cons show ?case using overlap_sym [of _ v] by (simp add: list_all_iff) blast
qed simp

lemma keyboard_inv:
  assumes "applyKeyboardWidgetAdjustment vs u key r = Some vs'" "widgets_inv vs"
  shows "widgets_inv vs'" "map uid vs' = map uid vs" "map wtype vs' = map wtype vs"
proof -
  obtain v where v: "v \<in> set vs" "uid v = u"
      and vs': "vs' = map (\<lambda>c. if uid c = u then adjust_widget key r v else c) vs"
      and free: "\<forall>c\<in>set vs. uid c \<noteq> u \<longrightarrow> \<not> overviewWidgetsOverlap (adjust_widget key r v) c"
    using assms(1)
    by (auto simp: applyKeyboardWidgetAdjustment_def Let_def split: option.splits if_splits dest!: find_SomeD)
  have only: "c = v" if "c \<in> set vs" "uid c = u" for c
    using distinct_uid_other [of vs v c] that v assms(2) by (auto simp: widgets_inv_def)
  show ids: "map uid vs' = map uid vs" "map wtype vs' = map wtype vs"
    using only v by (auto simp: vs')
  have "distinct (map uid vs')" using ids(1) assms(2) by (simp add: widgets_inv_def)
  moreover have "\<not> overviewWidgetsOverlap a b" if "a \<in> set vs'" "b \<in> set vs'" "uid a \<noteq> uid b" for a b
    using that free v assms(2) no_overlap_pairs [of vs] overlap_sym [of a "adjust_widget key r v"]
    by (auto simp: vs' widgets_inv_iff split: if_splits)
  ultimately have "widgetsDoNotOverlap vs'" using no_overlap_pairs by blast
  moreover have "widget_inv c" if "c \<in> set vs'" for c
    using that v(1) assms(2) by (auto simp: vs' widgets_inv_def adjust_widget_inv split: if_splits)
  ultimately show "widgets_inv vs'" using ids assms(2) by (simp add: widgets_inv_iff)
qed

section \<open>The workspace as a state machine\<close>

text \<open>
  Edits of the open builder, with the guards of the controls that trigger them: the name field
  is at most 80 characters long (\<open>maxLength\<close>), and the value the runtime supplies for a new id
  is not empty, not surrounded by white space and not in use.
\<close>

definition usable_uuid :: "jsstring \<Rightarrow> bool" where
  "usable_uuid fresh \<longleftrightarrow> fresh \<noteq> [] \<and> length fresh \<le> 100 \<and> \<not> is_white_space (last fresh)"

inductive builder_step :: "builder_view \<Rightarrow> builder_view \<Rightarrow> bool" where
  click: "usable_uuid fresh \<Longrightarrow> createOverviewId ''widget'' fresh \<notin> uid ` set (b_widgets (edited bv)) \<Longrightarrow>
    builder_step bv (addWidget available fresh t None bv)"
| drop: "usable_uuid fresh \<Longrightarrow> createOverviewId ''widget'' fresh \<notin> uid ` set (b_widgets (edited bv)) \<Longrightarrow>
    builder_step bv (dropWidget available fresh (item :: LayoutItem option) bv)"
| drag_start: "builder_step bv (startPaletteDrag t bv)"
| drag_end: "builder_step bv (endPaletteDrag bv)"
| remove: "builder_step bv (removeWidget u bv)"
| grid: "builder_step bv (commitLayout editable its bv)"
| key: "builder_step bv (handleWidgetKeyboardAdjustment editable u pressed shift bv)"
| rename: "length name \<le> 80 \<Longrightarrow> builder_step bv (renameDashboard name bv)"
| focus_palette: "builder_step bv (fst (registerPaletteButton t mounted bv))"
| focus_widget: "builder_step bv (fst (registerWidgetHandle u mounted bv))"

inductive workspace_step :: "date_parser \<Rightarrow> int \<Rightarrow> workspace \<Rightarrow> workspace \<Rightarrow> bool" for dp user where
  new: "workspace_step dp user ws (openNewDashboard available ws)"
| existing: "workspace_step dp user ws (openExistingDashboard available ws)"
| build: "builder ws = Some bv \<Longrightarrow> builder_step bv bv' \<Longrightarrow> workspace_step dp user ws (ws\<lparr>builder := Some bv'\<rparr>)"
| cancel: "workspace_step dp user ws (onCancel ws)"
| save: "usable_uuid fresh \<Longrightarrow>
    createOverviewId ''dashboard'' fresh \<notin> dash_id ` set (state_dashboards (layout (provider ws))) \<Longrightarrow>
    canonical_date dp now \<Longrightarrow> workspace_step dp user ws (onSave user available fresh now ws)"
| select: "workspace_step dp user ws (onSelectDashboard user i ws)"
| select_home: "workspace_step dp user ws (onHomeSelect user i ws)"
| request_delete: "workspace_step dp user ws (requestDelete ws)"
| cancel_delete: "workspace_step dp user ws (cancelDelete ws)"
| confirm_delete: "workspace_step dp user ws (confirmDelete user available ws)"

inductive_cases builder_stepE: "builder_step bv bv'"
inductive_cases workspace_stepE: "workspace_step dp user ws ws'"

definition builder_inv :: "builder_view \<Rightarrow> bool" where
  "builder_inv bv \<longleftrightarrow> widgets_inv (b_widgets (edited bv)) \<and> length (b_name (edited bv)) \<le> 80 \<and>
     (\<forall>v\<in>set (b_widgets (edited bv)). text_ok 160 (uid v) \<and> trimmed (uid v))"

definition workspace_inv :: "date_parser \<Rightarrow> int \<Rightarrow> workspace \<Rightarrow> bool" where
  "workspace_inv dp user ws \<longleftrightarrow> canonical_state dp (layout (provider ws)) \<and>
     storage_writable (local_storage (provider ws)) \<and>
     readOverviewLayoutState dp user (local_storage (provider ws)) = layout (provider ws) \<and>
     (\<forall>bv. builder ws = Some bv \<longrightarrow> builder_inv bv)"

lemma usable_id:
  assumes "usable_uuid fresh" "length kind \<le> 10" "kind \<noteq> []" "\<not> is_white_space (hd (js kind))"
  shows "text_ok 120 (createOverviewId kind fresh)" "text_ok 160 (createOverviewId kind fresh)"
    and "trimmed (createOverviewId kind fresh)"
  using assms by (cases kind; auto simp: usable_uuid_def createOverviewId_def text_ok_def trimmed_def js_def)+

lemmas usable_widget_id = usable_id [of _ "''widget''", simplified]
lemmas usable_dashboard_id = usable_id [of _ "''dashboard''", simplified]

lemma builder_inv_cong:
  "edited bv' = edited bv \<Longrightarrow> builder_inv bv' = builder_inv bv"
  by (simp add: builder_inv_def)

lemma set_uids_eq: "map uid us = map uid vs \<Longrightarrow> uid ` set us = uid ` set vs"
  by (metis list.set_map)

lemma builder_widgets_inv: "builder_inv bv \<Longrightarrow> widgets_inv (b_widgets (edited bv))"
  by (simp add: builder_inv_def)

lemma builder_inv_changeWidgets:
  assumes "builder_inv bv" "widgets_inv vs" "map uid vs = map uid (b_widgets (edited bv))"
  shows "builder_inv (changeWidgets vs bv)"
proof -
  have "\<forall>i\<in>uid ` set vs. text_ok 160 i \<and> trimmed i"
    using assms(1) set_uids_eq [OF assms(3)] by (auto simp: builder_inv_def)
  with assms show ?thesis by (simp add: builder_inv_def changeWidgets_def)
qed

lemma builder_inv_addWidget:
  assumes "builder_inv bv" "usable_uuid fresh" "createOverviewId ''widget'' fresh \<notin> uid ` set (b_widgets (edited bv))"
  shows "builder_inv (addWidget available fresh t position bv)"
proof -
  let ?vs = "b_widgets (edited bv)"
  let ?r = "case position of Some p \<Rightarrow> applyDroppedWidget fresh ?vs t p | None \<Rightarrow> tryAddOverviewWidget fresh ?vs t"
  have "widgets_inv vs' \<and> (\<exists>v. vs' = ?vs @ [v] \<and> uid v = createOverviewId ''widget'' fresh)"
    if "?r = Some vs'" for vs'
    using that added_widget [of fresh ?vs t _ vs'] assms by (auto simp: builder_inv_def split: option.splits)
  then show ?thesis
    using assms usable_widget_id [OF assms(2)]
    by (auto simp: addWidget_def Let_def builder_inv_def js_def is_white_space_def split: option.split)
qed

lemma widgets_inv_filter: "widgets_inv vs \<Longrightarrow> widgets_inv (filter P vs)"
  by (auto simp: widgets_inv_def layout_ok_def sorted_wrt_filter distinct_map_filter)

lemma builder_step_inv:
  assumes "builder_step bv bv'" "builder_inv bv"
  shows "builder_inv bv'"
  using assms
proof (cases rule: builder_step.cases)
  case (click fresh available t)
  then show ?thesis using assms(2) builder_inv_addWidget by simp
next
  case (drop fresh available item)
  then show ?thesis
    using assms(2) builder_inv_addWidget by (auto simp: dropWidget_def split: option.splits)
next
  case (remove u)
  then show ?thesis using assms(2) by (auto simp: removeWidget_def Let_def builder_inv_def widgets_inv_filter)
next
  case (grid editable its)
  then show ?thesis
    using assms(2) applyGridLayout_inv [of "b_widgets (edited bv)" its] builder_inv_changeWidgets
    by (simp add: commitLayout_def builder_widgets_inv)
next
  case (key editable u pressed shift)
  then show ?thesis
    using assms(2) keyboard_inv [of "b_widgets (edited bv)" u pressed shift] builder_inv_changeWidgets
    by (auto simp: handleWidgetKeyboardAdjustment_def builder_widgets_inv split: option.split)
qed (auto simp: startPaletteDrag_def endPaletteDrag_def renameDashboard_def
    registerPaletteButton_def registerWidgetHandle_def builder_inv_def)

text \<open>The builder opens on an empty draft or on a copy of a saved dashboard.\<close>

lemma builder_inv_open:
  "builder_inv (open_builder_view \<lparr>b_dashboardId = None, b_name = [], b_widgets = []\<rparr>)"
  "canonical_dashboard dp d \<Longrightarrow>
   builder_inv (open_builder_view \<lparr>b_dashboardId = i, b_name = dash_name d, b_widgets = widgets d\<rparr>)"
  by (auto simp: builder_inv_def open_builder_view_def canonical_dashboard_def dashboard_inv_def text_ok_def)

lemma activeDashboard_mem: "activeDashboard s = Some d \<Longrightarrow> d \<in> set (state_dashboards s) \<and> dash_id d = activeDashboardId s"
  by (auto simp: activeDashboard_def dest: find_SomeD)

lemma builder_savable:
  "builder_inv bv \<Longrightarrow> trim (b_name (edited bv)) \<noteq> [] \<Longrightarrow> b_widgets (edited bv) \<noteq> [] \<Longrightarrow>
   savable (trim (b_name (edited bv))) (b_widgets (edited bv))"
  using length_trim_le [of "b_name (edited bv)"] by (simp add: savable_def builder_inv_def text_ok_def)

text \<open>Replacing the provider by one that has just committed keeps the invariant.\<close>

lemma workspace_inv_commit:
  assumes "workspace_inv dp user ws" "canonical_state dp (upd (layout (provider ws)))"
    and "\<forall>bv. b = Some bv \<longrightarrow> builder_inv bv"
  shows "workspace_inv dp user (ws\<lparr>provider := commit user upd (provider ws), builder := b\<rparr>)"
  using assms
  by (simp add: workspace_inv_def commit_def Let_def writable_write write_read_layout_state)

lemma workspace_inv_deleteTarget [simp]: "workspace_inv dp user (ws\<lparr>deleteTarget := x\<rparr>) = workspace_inv dp user ws"
  by (simp add: workspace_inv_def)

lemma workspace_inv_onSave:
  assumes "workspace_inv dp user ws" "usable_uuid fresh" "canonical_date dp now"
    and "createOverviewId ''dashboard'' fresh \<notin> dash_id ` set (state_dashboards (layout (provider ws)))"
  shows "workspace_inv dp user (onSave user available fresh now ws)"
proof (cases "builder ws")
  case (Some bv)
  let ?s = "layout (provider ws)" and ?i = "createOverviewId ''dashboard'' fresh"
  let ?name = "trim (b_name (edited bv))" and ?vs = "b_widgets (edited bv)"
  have inv: "canonical_state dp ?s" "builder_inv bv" using assms(1) Some by (simp_all add: workspace_inv_def)
  have new: "fresh_id ?i ?s"
    using usable_dashboard_id [OF assms(2)] assms(4)
    by (simp add: fresh_id_def js_def is_white_space_def)
  have "workspace_inv dp user (ws\<lparr>provider := commit user (update_update now i ?name ?vs) (provider ws), builder := None\<rparr>)"
      "workspace_inv dp user (ws\<lparr>provider := commit user (create_update ?i now ?name ?vs) (provider ws), builder := None\<rparr>)"
    if "?name \<noteq> []" "?vs \<noteq> []" for i
    using builder_savable [OF inv(2) that] inv(1) new assms(1,3)
    by (auto intro!: workspace_inv_commit update_update_canonical create_update_canonical)
  then show ?thesis
    using assms(1) Some
    by (auto simp: onSave_def Let_def updateDashboard_def createDashboard_def split: option.split list.split)
qed (use assms(1) in \<open>simp add: onSave_def\<close>)

lemma workspace_step_inv:
  assumes "workspace_step dp user ws ws'" "workspace_inv dp user ws"
  shows "workspace_inv dp user ws'"
  using assms
proof (cases rule: workspace_step.cases)
  case (existing available)
  then show ?thesis
    using assms(2) builder_inv_open(2)
    by (auto simp: openExistingDashboard_def workspace_inv_def canonical_state_iff
        dest!: activeDashboard_mem split: option.split)
next
  case (build bv bv')
  then show ?thesis using assms(2) builder_step_inv by (auto simp: workspace_inv_def)
next
  case (select i)
  then show ?thesis
    using assms(2) workspace_inv_commit [of dp user ws "select_update i" None] select_update_canonical
    by (simp add: onSelectDashboard_def selectDashboard_def workspace_inv_def)
next
  case (select_home i)
  then show ?thesis
    using assms(2) workspace_inv_commit [of dp user ws "select_update i" "builder ws"] select_update_canonical
    by (simp add: onHomeSelect_def selectDashboard_def workspace_inv_def)
next
  case (confirm_delete available)
  have "workspace_inv dp user (ws\<lparr>provider := deleteDashboard user i (provider ws), builder := b\<rparr>)"
    if "b = builder ws \<or> b = None" for i b
    using that assms(2) workspace_inv_commit [of dp user ws "delete_update i" b] delete_update_canonical
    by (auto simp: deleteDashboard_def workspace_inv_def)
  then show ?thesis
    using confirm_delete assms(2)
    by (cases "deleteTarget ws"; cases "builder ws") (simp_all add: confirmDelete_def Let_def)
next
  case (save fresh now available)
  then show ?thesis using assms(2) workspace_inv_onSave by simp
qed (auto simp: openNewDashboard_def onCancel_def requestDelete_def cancelDelete_def
    builder_inv_open workspace_inv_def)

text \<open>
  The states reached from a page load whose stored state is canonical: a state this program wrote,
  or nothing at all.
\<close>

inductive reachable_workspace :: "date_parser \<Rightarrow> int \<Rightarrow> workspace \<Rightarrow> bool" for dp user where
  load: "storage_writable st \<Longrightarrow> canonical_state dp (readOverviewLayoutState dp user st) \<Longrightarrow>
    reachable_workspace dp user \<lparr>provider = mount_provider dp user st, builder = None, deleteTarget = None\<rparr>"
| step: "reachable_workspace dp user ws \<Longrightarrow> workspace_step dp user ws ws' \<Longrightarrow> reachable_workspace dp user ws'"

lemma reachable_workspace_inv: "reachable_workspace dp user ws \<Longrightarrow> workspace_inv dp user ws"
proof (induction rule: reachable_workspace.induct)
  case (load st)
  then show ?case by (simp add: workspace_inv_def mount_provider_def)
qed (rule workspace_step_inv)

end
