(* ===== verification/LayoutProperties.thy ===== *)
theory LayoutProperties
  imports DashboardBuilder
begin

text \<open>
  The properties of the custom dashboards, stated over the model of the grid, of the storage and of
  the workspace, each with an instance at a concrete dashboard.
\<close>

section \<open>A concrete dashboard\<close>

definition sample_alerts :: CustomDashboardWidget where
  "sample_alerts = \<lparr>gx = 0, gy = 0, gw = 3, gh = 2, uid = js ''widget-a'', wtype = KpiAlerts\<rparr>"

definition sample_incidents :: CustomDashboardWidget where
  "sample_incidents = \<lparr>gx = 3, gy = 0, gw = 3, gh = 2, uid = js ''widget-b'', wtype = KpiOpenIncidents\<rparr>"

definition sample_clock :: date_parser where
  "sample_clock s = (if s = iso_string 0 then Some 0 else None)"

definition sample_dashboard :: CustomOverviewDashboard where
  "sample_dashboard =
     \<lparr>dash_id = js ''dashboard-a'', dash_name = js ''Night shift'', widgets = [sample_alerts, sample_incidents],
      createdAt = iso_string 0, updatedAt = iso_string 0\<rparr>"

definition sample_state :: StoredOverviewLayoutState where
  "sample_state = \<lparr>state_dashboards = [sample_dashboard], activeDashboardId = js ''dashboard-a''\<rparr>"

lemmas sample_defs = sample_alerts_def sample_incidents_def sample_dashboard_def sample_state_def



lemma is_int_numeral [simp]: "is_int (numeral n)"
  using is_int_of_int [of "numeral n"] by simp

lemma sample_widget_inv [simp]: "widget_inv sample_alerts" "widget_inv sample_incidents"
  by (simp_all add: sample_defs widget_inv_def placed_def size_ok_def widgetDefinition_def OVERVIEW_WIDGET_DEFINITIONS_def
      widget_definition_row_def grid_size_defs)

lemma sample_widgets_inv [simp]: "widgets_inv [sample_alerts, sample_incidents]"
  by (simp add: widgets_inv_iff) (simp add: sample_defs overviewWidgetsOverlap_def)

lemma sample_state_canonical: "canonical_state sample_clock sample_state"
proof -
  have "dashboard_inv sample_dashboard"
    unfolding dashboard_inv_def sample_dashboard_def by (simp add: text_ok_def) (simp add: sample_defs)
  then have "canonical_dashboard sample_clock sample_dashboard"
    by (simp add: canonical_dashboard_def canonical_date_def sample_clock_def)
      (simp add: sample_defs trimmed_def js_def is_white_space_def)
  then show ?thesis by (simp add: canonical_state_iff sample_state_def) (simp add: sample_dashboard_def)
qed


section \<open>Storage\<close>

text \<open>
  C1. Whatever text the browser's storage holds, malformed or not, reading the dashboards of a user
  gives a well-formed state: every dashboard has a usable id and name and at least one widget; the
  widgets of a dashboard are placed on integral cells within the grid, have a size their type allows,
  do not overlap and are of different types; ids are unique; and the active dashboard is the default
  one or one of those read.
\<close>

theorem read_layout_well_formed:
  "layout_state_inv (readOverviewLayoutState date_parse user st)"
  by (rule read_layout_state_inv)

text \<open>
  C2. Saving a canonical state and reading it back is the identity: no dashboard, widget, name, date or
  position is lost or changed by the JSON text and the checks of the reader.
\<close>

theorem layout_storage_round_trip:
  assumes "canonical_state dp s" "storage_writable st"
  shows "readOverviewLayoutState dp user (writeOverviewLayoutState user s st) = s"
  using assms by (rule write_read_layout_state)

theorem layout_storage_round_trip_witness:
  "readOverviewLayoutState sample_clock 1 (writeOverviewLayoutState 1 sample_state empty_storage) = sample_state"
  by (rule layout_storage_round_trip [OF sample_state_canonical empty_storage_writable])

section \<open>Workspace\<close>



section \<open>Grid\<close>


text \<open>
  A widget added at the found position keeps the layout well formed: it lies within the grid on
  integral cells and overlaps no other widget.
\<close>

lemma find_position_safe:
  assumes "layout_ok vs" "findAvailableOverviewWidgetPosition v vs None = Some p"
  shows "layout_ok (vs @ [place_at v p])"
  using assms place_keeps_layout(1) [OF assms(1) represents_create] unfolding find_default_occupancy by blast

text \<open>
  C6. A layout reported by the grid, whatever numbers it holds (fractions, infinities, not-a-number,
  overlapping or out of range), leaves a well-formed set of widgets well formed and keeps every widget,
  its id and its type, in order.
\<close>

theorem grid_layout_repaired:
  assumes "widgets_inv vs"
  shows "widgets_inv (applyGridLayout vs its) \<and> map uid (applyGridLayout vs its) = map uid vs \<and>
    map wtype (applyGridLayout vs its) = map wtype vs"
  using applyGridLayout_inv [OF assms] by blast

theorem grid_layout_repaired_witness:
  "widgets_inv (applyGridLayout [sample_alerts, sample_incidents]
     [\<lparr>px = NaN, py = PosInf, pw = Num (1 / 2), ph = NegInf, li_i = js ''widget-a'', li_minW = 3, li_minH = 2, li_maxW = 6, li_maxH = 5\<rparr>])"
  by (rule grid_layout_repaired [OF sample_widgets_inv, THEN conjunct1])



text \<open>
  An arrow key, alone or with shift, leaves the widgets as they are or moves or resizes one of them
  within the limits of its type and of the grid without an overlap, keeping the ids, types and order.
\<close>

lemma keyboard_adjustment_well_formed:
  assumes "widgets_inv vs" "applyKeyboardWidgetAdjustment vs u key resize = Some vs'"
  shows "widgets_inv vs' \<and> map uid vs' = map uid vs \<and> map wtype vs' = map wtype vs"
  using keyboard_inv [OF assms(2,1)] by blast

end
