(* ===== verification/LayoutRefinement.thy ===== *)
theory LayoutRefinement
  imports LayoutProperties
begin

text \<open>
  What the provider of \<open>features/overviewLayout/OverviewLayoutContext.tsx\<close> promises its clients: a book of
  dashboards by id and the one that is shown, if it is not the built-in one.  The operations of the provider,
  with reloads of the page between them, refine those of the book.
\<close>

section \<open>The specification\<close>






section \<open>Operations in sequence\<close>






section \<open>Simulation\<close>

















section \<open>Refinement\<close>






end
