(* ===== verification/UrlSearchParams.thy ===== *)
theory UrlSearchParams
  imports JsNumber Json
begin

text \<open>
  \<open>URLSearchParams\<close> and \<open>encodeURIComponent\<close> of the platform, which the URL helpers and the
  API client build on: the ordered list of name-value pairs with its operations, the
  \<open>application/x-www-form-urlencoded\<close> serializer and parser, and the conversions between
  UTF-16 and UTF-8 they go through.  The main fact is that parsing a serialized list gives the
  list back (\<open>params_of_string_to_string\<close>).
\<close>

section \<open>UTF-16 and UTF-8\<close>

text \<open>The code points of a string; a lone surrogate becomes U+FFFD (\<open>USVString\<close>).\<close>

fun code_points :: "jsstring \<Rightarrow> nat list" where
  "code_points [] = []"
| "code_points [c] = [if is_high c \<or> is_low c then 65533 else c]"
| "code_points (c # d # s) =
     (if is_high c \<and> is_low d then (65536 + (c - 55296) * 1024 + (d - 56320)) # code_points s
      else (if is_high c \<or> is_low c then 65533 else c) # code_points (d # s))"

definition units_of :: "nat \<Rightarrow> jsstring" where
  "units_of p = (if p < 65536 then [p] else [55296 + (p - 65536) div 1024, 56320 + (p - 65536) mod 1024])"

definition utf8_bytes :: "nat \<Rightarrow> nat list" where
  "utf8_bytes p =
     (if p < 128 then [p]
      else if p < 2048 then [192 + p div 64, 128 + p mod 64]
      else if p < 65536 then [224 + p div 4096, 128 + p div 64 mod 64, 128 + p mod 64]
      else [240 + p div 262144, 128 + p div 4096 mod 64, 128 + p div 64 mod 64, 128 + p mod 64])"

definition utf8_encode :: "jsstring \<Rightarrow> nat list" where
  "utf8_encode s = concat (map utf8_bytes (code_points s))"

text \<open>
  The decoder of the encoding standard: outside a sequence, and inside one with the code point
  read so far, the number of bytes missing and the range the next byte must lie in.  A byte that
  does not fit ends the sequence with U+FFFD and is read again.
\<close>

function (sequential) utf8_decode :: "nat list \<Rightarrow> nat list"
  and utf8_continue :: "nat \<Rightarrow> nat \<Rightarrow> nat \<Rightarrow> nat \<Rightarrow> nat list \<Rightarrow> nat list" where
  "utf8_decode [] = []"
| "utf8_decode (b # bs) =
     (if b < 128 then b # utf8_decode bs
      else if 194 \<le> b \<and> b \<le> 223 then utf8_continue (b - 192) 1 128 191 bs
      else if 224 \<le> b \<and> b \<le> 239 then
        utf8_continue (b - 224) 2 (if b = 224 then 160 else 128) (if b = 237 then 159 else 191) bs
      else if 240 \<le> b \<and> b \<le> 244 then
        utf8_continue (b - 240) 3 (if b = 240 then 144 else 128) (if b = 244 then 143 else 191) bs
      else 65533 # utf8_decode bs)"
| "utf8_continue p n lower upper [] = [65533]"
| "utf8_continue p n lower upper (b # bs) =
     (if lower \<le> b \<and> b \<le> upper then
        (if n \<le> 1 then (p * 64 + (b - 128)) # utf8_decode bs
         else utf8_continue (p * 64 + (b - 128)) (n - 1) 128 191 bs)
      else 65533 # utf8_decode (b # bs))"
  by pat_completeness auto
termination
  by (relation "measure (\<lambda>x. case x of Inl bs \<Rightarrow> 2 * length bs | Inr (p, n, l, u, bs) \<Rightarrow> 2 * length bs + 1)") auto

section \<open>Percent encoding\<close>

definition is_alphanumeric :: "nat \<Rightarrow> bool" where
  "is_alphanumeric b \<longleftrightarrow> is_digit b \<or> (65 \<le> b \<and> b \<le> 90) \<or> (97 \<le> b \<and> b \<le> 122)"

definition upper_hex :: "nat \<Rightarrow> nat" where
  "upper_hex d = (if d < 10 then 48 + d else 55 + d)"

definition percent_byte :: "nat \<Rightarrow> jsstring" where
  "percent_byte b = [37, upper_hex (b div 16), upper_hex (b mod 16)]"

text \<open>The urlencoded byte serializer keeps letters, digits, \<open>*-._\<close> and writes a space as a plus.\<close>

definition form_byte :: "nat \<Rightarrow> jsstring" where
  "form_byte b =
     (if b = 32 then [43]
      else if is_alphanumeric b \<or> b = 42 \<or> b = 45 \<or> b = 46 \<or> b = 95 then [b]
      else percent_byte b)"

definition form_encode :: "jsstring \<Rightarrow> jsstring" where
  "form_encode s = concat (map form_byte (utf8_encode s))"

fun percent_decode :: "nat list \<Rightarrow> nat list" where
  "percent_decode (b # c # d # bs) =
     (if b = 37 then
        (case (radix_digit 16 c, radix_digit 16 d) of
           (Some h, Some l) \<Rightarrow> (16 * h + l) # percent_decode bs
         | _ \<Rightarrow> b # percent_decode (c # d # bs))
      else b # percent_decode (c # d # bs))"
| "percent_decode (b # bs) = b # percent_decode bs"
| "percent_decode [] = []"

definition form_decode :: "nat list \<Rightarrow> jsstring" where
  "form_decode bs =
     concat (map units_of (utf8_decode (percent_decode (map (\<lambda>b. if b = 43 then 32 else b) bs))))"

text \<open>\<open>encodeURIComponent\<close> throws on a lone surrogate and keeps \<open>-_.!~*'()\<close> besides letters and digits.\<close>

fun well_formed :: "jsstring \<Rightarrow> bool" where
  "well_formed [] = True"
| "well_formed [c] = (\<not> is_high c \<and> \<not> is_low c)"
| "well_formed (c # d # s) =
     (if is_high c then is_low d \<and> well_formed s else \<not> is_low c \<and> well_formed (d # s))"

definition uri_unreserved :: "nat \<Rightarrow> bool" where
  "uri_unreserved b \<longleftrightarrow> is_alphanumeric b \<or> b \<in> set (js ''-_.!~*'' @ [39] @ js ''()'')"

definition encodeURIComponent :: "jsstring \<Rightarrow> js_error + jsstring" where
  "encodeURIComponent s =
     (if well_formed s
      then Inr (concat (map (\<lambda>b. if uri_unreserved b then [b] else percent_byte b) (utf8_encode s)))
      else Inl URIError)"

section \<open>Search parameters\<close>

type_synonym search_params = "(jsstring \<times> jsstring) list"

definition params_get :: "search_params \<Rightarrow> jsstring \<Rightarrow> jsstring option" where
  "params_get ps k = map_option snd (List.find (\<lambda>(n, v). n = k) ps)"

definition params_delete :: "search_params \<Rightarrow> jsstring \<Rightarrow> search_params" where
  "params_delete ps k = filter (\<lambda>(n, v). n \<noteq> k) ps"

definition params_append :: "search_params \<Rightarrow> jsstring \<Rightarrow> jsstring \<Rightarrow> search_params" where
  "params_append ps k v = ps @ [(k, v)]"

text \<open>\<open>set\<close> overwrites the first pair with the name, drops the others, or appends.\<close>

fun params_set :: "search_params \<Rightarrow> jsstring \<Rightarrow> jsstring \<Rightarrow> search_params" where
  "params_set [] k v = [(k, v)]"
| "params_set ((n, w) # ps) k v = (if n = k then (k, v) # params_delete ps k else (n, w) # params_set ps k v)"

fun join :: "nat \<Rightarrow> jsstring list \<Rightarrow> jsstring" where
  "join sep [] = []"
| "join sep [s] = s"
| "join sep (s # t # ss) = s @ sep # join sep (t # ss)"

definition params_to_string :: "search_params \<Rightarrow> jsstring" where
  "params_to_string ps = join 38 (map (\<lambda>(n, v). form_encode n @ 61 # form_encode v) ps)"

fun split_at :: "nat \<Rightarrow> nat list \<Rightarrow> nat list list" where
  "split_at sep [] = [[]]"
| "split_at sep (b # bs) =
     (if b = sep then [] # split_at sep bs
      else (case split_at sep bs of [] \<Rightarrow> [[b]] | s # ss \<Rightarrow> (b # s) # ss))"

definition parse_pair :: "nat list \<Rightarrow> jsstring \<times> jsstring" where
  "parse_pair bs =
     (form_decode (takeWhile (\<lambda>b. b \<noteq> 61) bs), form_decode (drop 1 (dropWhile (\<lambda>b. b \<noteq> 61) bs)))"

definition params_of_string :: "jsstring \<Rightarrow> search_params" where
  "params_of_string s =
     (let input = (if startsWith s [63] then drop 1 s else s)
      in map parse_pair (filter (\<lambda>bs. bs \<noteq> []) (split_at 38 (utf8_encode input))))"

section \<open>Laws of the operations\<close>

text \<open>
  What the clients rely on: \<open>get\<close> after \<open>set\<close>, \<open>delete\<close> and \<open>append\<close>.
\<close>

locale parameter_list =
  fixes get :: "'p \<Rightarrow> 'k \<Rightarrow> 'v option"
    and put :: "'p \<Rightarrow> 'k \<Rightarrow> 'v \<Rightarrow> 'p"
    and del :: "'p \<Rightarrow> 'k \<Rightarrow> 'p"
  assumes get_put: "get (put p k v) j = (if j = k then Some v else get p j)"
    and get_del: "get (del p k) j = (if j = k then None else get p j)"
begin

text \<open>A sequence of updates, each a removal or a write: the last one for a key decides.\<close>

definition apply_updates :: "'p \<Rightarrow> ('k \<times> 'v option) list \<Rightarrow> 'p" where
  "apply_updates = foldl (\<lambda>p (k, v). case v of None \<Rightarrow> del p k | Some w \<Rightarrow> put p k w)"

lemma get_apply_updates:
  assumes "distinct (map fst us)"
  shows "get (apply_updates p us) j = (case map_of us j of Some v \<Rightarrow> v | None \<Rightarrow> get p j)"
  using assms
proof (induction us arbitrary: p)
  case (Cons u us)
  obtain k v where u: "u = (k, v)" by (cases u)
  have "map_of us k = None" using Cons.prems u by (simp add: map_of_eq_None_iff)
  then show ?case
    using Cons u by (auto simp: apply_updates_def get_put get_del split: option.splits)
qed (simp add: apply_updates_def)

end

lemma get_delete: "params_get (params_delete ps k) j = (if j = k then None else params_get ps j)"
  by (induction ps) (auto simp: params_get_def params_delete_def)

lemma get_set: "params_get (params_set ps k v) j = (if j = k then Some v else params_get ps j)"
proof (induction ps k v rule: params_set.induct)
  case (2 n w ps k v)
  then show ?case using get_delete [of ps k j] by (auto simp: params_get_def)
qed (simp add: params_get_def)

interpretation url_params: parameter_list params_get params_set params_delete
  by unfold_locales (simp_all add: get_set get_delete)

lemma params_set_not_Nil [simp]: "params_set ps k v \<noteq> []"
  by (cases "(ps, k, v)" rule: params_set.cases) auto

lemma params_set_new: "k \<notin> fst ` set ps \<Longrightarrow> params_set ps k v = ps @ [(k, v)]"
  by (induction ps k v rule: params_set.induct) auto

section \<open>Parsing a serialized list\<close>

definition text_units :: "jsstring \<Rightarrow> bool" where
  "text_units s \<longleftrightarrow> well_formed s \<and> (\<forall>c\<in>set s. c < 65536)"

definition scalar :: "nat \<Rightarrow> bool" where
  "scalar p \<longleftrightarrow> p < 1114112 \<and> \<not> (55296 \<le> p \<and> p \<le> 57343)"

lemma surrogate_pair:
  assumes "is_high c" "is_low d"
  defines "p \<equiv> 65536 + (c - 55296) * 1024 + (d - 56320)"
  shows "units_of p = [c, d]" "scalar p"
proof -
  obtain a b where ab: "c = 55296 + a" "a < 1024" "d = 56320 + b" "b < 1024"
    using assms(1,2) by (auto simp: is_high_def is_low_def nat_le_iff_add)
  have p: "p = 65536 + (a * 1024 + b)" by (simp add: p_def ab)
  show "units_of p = [c, d]" using ab by (simp add: p units_of_def)
  show "scalar p" using ab by (simp add: p scalar_def)
qed

lemma units_of_small: "p < 65536 \<Longrightarrow> units_of p = [p]"
  by (simp add: units_of_def)

lemma text_units_Cons2:
  "text_units (c # d # s) \<longleftrightarrow>
     (if is_high c then c < 65536 \<and> d < 65536 \<and> is_low d \<and> text_units s
      else c < 65536 \<and> \<not> is_low c \<and> text_units (d # s))"
  by (auto simp: text_units_def)

lemma text_units_single: "text_units [c] \<longleftrightarrow> c < 65536 \<and> \<not> is_high c \<and> \<not> is_low c"
  by (auto simp: text_units_def)

lemma units_code_points: "text_units s \<Longrightarrow> concat (map units_of (code_points s)) = s"
  by (induction s rule: code_points.induct)
    (simp_all add: text_units_Cons2 text_units_single units_of_small surrogate_pair split: if_splits)

lemma scalar_unit: "c < 65536 \<Longrightarrow> \<not> is_high c \<Longrightarrow> \<not> is_low c \<Longrightarrow> scalar c"
  by (auto simp: scalar_def is_high_def is_low_def)

lemma code_points_scalar: "text_units s \<Longrightarrow> list_all scalar (code_points s)"
  by (induction s rule: code_points.induct)
    (simp_all add: text_units_Cons2 text_units_single scalar_unit surrogate_pair split: if_splits)

lemma base64_digits:
  "(n :: nat) div 4096 * 4096 + n div 64 mod 64 * 64 + n mod 64 = n"
  "n div 262144 * 262144 + n div 4096 mod 64 * 4096 + n div 64 mod 64 * 64 + n mod 64 = n"
proof -
  have d: "n div 4096 = n div 64 div 64" "n div 262144 = n div 4096 div 64"
    by (simp_all add: div_mult2_eq [symmetric])
  note e = mult_div_mod_eq [of 64 n] mult_div_mod_eq [of 64 "n div 64"] mult_div_mod_eq [of 64 "n div 4096"]
  show one: "n div 4096 * 4096 + n div 64 mod 64 * 64 + n mod 64 = n"
    using d e by linarith
  show "n div 262144 * 262144 + n div 4096 mod 64 * 4096 + n div 64 mod 64 * 64 + n mod 64 = n"
    using d e one by linarith
qed

lemma utf8_bytes_range: "scalar p \<Longrightarrow> b \<in> set (utf8_bytes p) \<Longrightarrow> b < 256"
  by (auto simp: utf8_bytes_def scalar_def split: if_splits)

lemma utf8_decode_bytes:
  assumes "scalar p"
  shows "utf8_decode (utf8_bytes p @ bs) = p # utf8_decode bs"
proof -
  consider "p < 128" | "128 \<le> p" "p < 2048" | "2048 \<le> p" "p < 65536" | "65536 \<le> p" by linarith
  then show ?thesis
  proof cases
    case 1
    then show ?thesis by (simp add: utf8_bytes_def)
  next
    case 2
    then have "2 \<le> p div 64" "p div 64 < 32" by auto
    with 2 show ?thesis by (simp add: utf8_bytes_def)
  next
    case 3
    define a b c where "a = p div 4096" and "b = p div 64 mod 64" and "c = p mod 64"
    have p: "a * 4096 + b * 64 + c = p" and bc: "b < 64" "c < 64"
      by (simp_all add: a_def b_def c_def base64_digits)
    then have lim: "a < 16" "a = 0 \<Longrightarrow> 32 \<le> b" "a = 13 \<Longrightarrow> b < 32"
      using 3 assms by (auto simp: scalar_def)
    have "utf8_bytes p = [224 + a, 128 + b, 128 + c]" using 3 by (simp add: utf8_bytes_def a_def b_def c_def)
    with bc lim show ?thesis by (auto simp: p [symmetric])
  next
    case 4
    define a b c d where "a = p div 262144" and "b = p div 4096 mod 64" and "c = p div 64 mod 64" and "d = p mod 64"
    have p: "a * 262144 + b * 4096 + c * 64 + d = p" and bc: "b < 64" "c < 64" "d < 64"
      by (simp_all add: a_def b_def c_def d_def base64_digits)
    then have lim: "a < 5" "a = 0 \<Longrightarrow> 16 \<le> b" "a = 4 \<Longrightarrow> b < 16"
      using 4 assms by (auto simp: scalar_def)
    have "utf8_bytes p = [240 + a, 128 + b, 128 + c, 128 + d]"
      using 4 by (simp add: utf8_bytes_def a_def b_def c_def d_def)
    with bc lim show ?thesis by (auto simp: p [symmetric])
  qed
qed

lemma utf8_round_trip:
  assumes "text_units s"
  shows "concat (map units_of (utf8_decode (utf8_encode s))) = s"
proof -
  have "utf8_decode (concat (map utf8_bytes ps)) = ps" if "\<forall>p\<in>set ps. scalar p" for ps
    using that by (induction ps) (simp_all add: utf8_decode_bytes)
  then show ?thesis
    using units_code_points [OF assms] code_points_scalar [OF assms] by (simp add: utf8_encode_def list_all_iff)
qed

text \<open>The bytes of the serializer are ASCII, contain no separator and decode to what was encoded.\<close>

lemma upper_hex_value: "d < 16 \<Longrightarrow> radix_digit 16 (upper_hex d) = Some d"
  by (auto simp: radix_digit_def upper_hex_def is_digit_def)

lemma upper_hex_range: "d < 16 \<Longrightarrow> is_alphanumeric (upper_hex d)"
  by (auto simp: is_alphanumeric_def upper_hex_def is_digit_def)

lemma alphanumeric_range: "is_alphanumeric c \<Longrightarrow> c < 128 \<and> c \<notin> {37, 38, 43, 61, 32}"
  by (auto simp: is_alphanumeric_def is_digit_def)

lemma form_byte_range: "b < 256 \<Longrightarrow> c \<in> set (form_byte b) \<Longrightarrow> c < 128 \<and> c \<noteq> 38 \<and> c \<noteq> 61 \<and> c \<noteq> 63"
proof -
  assume b: "b < 256" and c: "c \<in> set (form_byte b)"
  have h: "is_alphanumeric (upper_hex (b div 16))" "is_alphanumeric (upper_hex (b mod 16))"
    using b by (auto intro: upper_hex_range)
  have "is_alphanumeric c \<or> c \<in> {37, 42, 43, 45, 46, 95}"
    using c h by (auto simp: form_byte_def percent_byte_def split: if_splits)
  then show ?thesis by (auto simp: is_alphanumeric_def is_digit_def)
qed

lemma percent_decode_plain: "b \<noteq> 37 \<Longrightarrow> percent_decode (b # bs) = b # percent_decode bs"
  by (cases bs; cases "tl bs") auto

lemma percent_decode_form_byte:
  assumes "b < 256"
  shows "percent_decode (map (\<lambda>b. if b = 43 then 32 else b) (form_byte b) @ bs) = b # percent_decode bs"
proof -
  have h: "b div 16 < 16" "b mod 16 < 16" using assms by auto
  note v = upper_hex_value [OF h(1)] upper_hex_value [OF h(2)]
  note n = upper_hex_range [OF h(1), THEN alphanumeric_range] upper_hex_range [OF h(2), THEN alphanumeric_range]
  show ?thesis
    using v n by (auto simp: form_byte_def percent_byte_def percent_decode_plain dest: alphanumeric_range)
qed

lemma utf8_encode_bytes: "text_units s \<Longrightarrow> b \<in> set (utf8_encode s) \<Longrightarrow> b < 256"
  using code_points_scalar [of s] utf8_bytes_range by (auto simp: utf8_encode_def list_all_iff)

lemma form_round_trip:
  assumes "text_units s"
  shows "form_decode (form_encode s) = s"
proof -
  have "percent_decode (map (\<lambda>b. if b = 43 then 32 else b) (concat (map form_byte bs))) = bs"
    if "\<forall>b\<in>set bs. b < 256" for bs
    using that by (induction bs) (simp_all add: percent_decode_form_byte)
  then show ?thesis
    using utf8_round_trip [OF assms] utf8_encode_bytes [OF assms] by (simp add: form_decode_def form_encode_def)
qed

lemma form_encode_range:
  "text_units s \<Longrightarrow> c \<in> set (form_encode s) \<Longrightarrow> c < 128 \<and> c \<noteq> 38 \<and> c \<noteq> 61 \<and> c \<noteq> 63"
  using utf8_encode_bytes form_byte_range by (fastforce simp: form_encode_def)

lemma utf8_encode_ascii: "\<forall>c\<in>set s. c < 128 \<Longrightarrow> utf8_encode s = s"
proof -
  assume "\<forall>c\<in>set s. c < 128"
  then have "code_points s = s"
    by (induction s rule: code_points.induct) (auto simp: is_high_def is_low_def)
  moreover have "concat (map utf8_bytes s) = s"
    using \<open>\<forall>c\<in>set s. c < 128\<close> by (induction s) (simp_all add: utf8_bytes_def)
  ultimately show ?thesis by (simp add: utf8_encode_def)
qed

lemma split_at_none: "sep \<notin> set s \<Longrightarrow> split_at sep s = [s]"
  by (induction s) auto

lemma split_at_append: "sep \<notin> set s \<Longrightarrow> split_at sep (s @ sep # t) = s # split_at sep t"
  by (induction s) auto

lemma split_join: "ss \<noteq> [] \<Longrightarrow> \<forall>s\<in>set ss. sep \<notin> set s \<Longrightarrow> split_at sep (join sep ss) = ss"
  by (induction sep ss rule: join.induct) (simp_all add: split_at_none split_at_append)

lemma set_join: "set (join sep ss) \<subseteq> insert sep (\<Union>s\<in>set ss. set s)"
  by (induction sep ss rule: join.induct) auto

definition params_ok :: "search_params \<Rightarrow> bool" where
  "params_ok ps \<longleftrightarrow> (\<forall>(n, v)\<in>set ps. text_units n \<and> text_units v)"

lemma parse_pair_form:
  assumes "text_units n" "text_units v"
  shows "parse_pair (form_encode n @ 61 # form_encode v) = (n, v)"
proof -
  have "\<forall>c\<in>set (form_encode n). c \<noteq> 61" using form_encode_range [OF assms(1)] by auto
  then have "takeWhile (\<lambda>b. b \<noteq> 61) (form_encode n @ 61 # form_encode v) = form_encode n"
      "dropWhile (\<lambda>b. b \<noteq> 61) (form_encode n @ 61 # form_encode v) = 61 # form_encode v"
    by (simp_all add: takeWhile_append2 dropWhile_append2)
  then show ?thesis using assms by (simp add: parse_pair_def form_round_trip)
qed

theorem params_of_string_to_string:
  assumes "params_ok ps"
  shows "params_of_string (params_to_string ps) = ps" "params_of_string (63 # params_to_string ps) = ps"
proof -
  let ?ss = "map (\<lambda>(n, v). form_encode n @ 61 # form_encode v) ps"
  have r: "c < 128 \<and> c \<noteq> 38 \<and> c \<noteq> 63" if "s \<in> set ?ss" "c \<in> set s" for s c
    using that assms by (auto simp: params_ok_def dest!: form_encode_range)
  have c: "c < 128 \<and> c \<noteq> 63" if "c \<in> set (params_to_string ps)" for c
  proof -
    from that set_join [of 38 ?ss] have "c = 38 \<or> (\<exists>s\<in>set ?ss. c \<in> set s)"
      unfolding params_to_string_def by blast
    then show ?thesis
    proof
      assume "\<exists>s\<in>set ?ss. c \<in> set s"
      then show ?thesis using r by blast
    qed simp
  qed
  have enc: "utf8_encode (params_to_string ps) = params_to_string ps"
    using c by (simp add: utf8_encode_ascii)
  have n: "\<not> startsWith (params_to_string ps) [63]"
    using c [of "hd (params_to_string ps)"] by (cases "params_to_string ps") (auto simp: startsWith_def)
  have main: "map parse_pair (filter (\<lambda>bs. bs \<noteq> []) (split_at 38 (params_to_string ps))) = ps"
  proof (cases "ps = []")
    case False
    have e: "filter (\<lambda>bs. bs \<noteq> []) ?ss = ?ss" by (auto simp: filter_id_conv)
    have "split_at 38 (params_to_string ps) = ?ss"
      unfolding params_to_string_def using False r by (intro split_join) blast+
    moreover have "map parse_pair ?ss = ps"
      using assms by (intro nth_equalityI) (auto simp: params_ok_def parse_pair_form dest!: nth_mem split: prod.splits)
    ultimately show ?thesis using e by simp
  qed (simp add: params_to_string_def)
  show "params_of_string (params_to_string ps) = ps" "params_of_string (63 # params_to_string ps) = ps"
    using n main enc by (simp_all add: params_of_string_def startsWith_def)
qed

end
