(* ===== verification/Contracts.thy ===== *)
theory Contracts
  imports JsNumber
begin

text \<open>
  The data the backend exchanges with the frontend, as the sources name it in
  \<open>contracts.ts\<close> from the schema in \<open>api/generated/schema.ts\<close>: the enumerations as data types
  with their wire names, and the objects the modelled components read as records.  Identifiers
  and counts are integers, timestamps strings, a nullable field is an option.
\<close>

section \<open>Enumerations\<close>

datatype TimePreset = LATEST_15M | LATEST_1H | LATEST_24H | LATEST_7D | CUSTOM

fun preset_name :: "TimePreset \<Rightarrow> jsstring" where
  "preset_name LATEST_15M = js ''LATEST_15M''"
| "preset_name LATEST_1H = js ''LATEST_1H''"
| "preset_name LATEST_24H = js ''LATEST_24H''"
| "preset_name LATEST_7D = js ''LATEST_7D''"
| "preset_name CUSTOM = js ''CUSTOM''"

definition TIME_PRESETS :: "TimePreset list" where
  "TIME_PRESETS = [LATEST_15M, LATEST_1H, LATEST_24H, LATEST_7D, CUSTOM]"

datatype DashboardInterval = MIN1 | MIN5 | HOUR1 | DAY1

fun interval_name :: "DashboardInterval \<Rightarrow> jsstring" where
  "interval_name MIN1 = js ''1m''"
| "interval_name MIN5 = js ''5m''"
| "interval_name HOUR1 = js ''1h''"
| "interval_name DAY1 = js ''1d''"

datatype Severity = LOW | MEDIUM | HIGH | CRITICAL

fun severity_name :: "Severity \<Rightarrow> jsstring" where
  "severity_name LOW = js ''LOW''"
| "severity_name MEDIUM = js ''MEDIUM''"
| "severity_name HIGH = js ''HIGH''"
| "severity_name CRITICAL = js ''CRITICAL''"

text \<open>The risk levels are the same literals.\<close>

type_synonym RiskLevel = Severity

datatype AlertStatus = OPEN | IN_PROGRESS | RESOLVED

fun alert_status_name :: "AlertStatus \<Rightarrow> jsstring" where
  "alert_status_name OPEN = js ''OPEN''"
| "alert_status_name IN_PROGRESS = js ''IN_PROGRESS''"
| "alert_status_name RESOLVED = js ''RESOLVED''"

datatype IncidentStatus = INCIDENT_OPEN | INCIDENT_CLOSED

datatype EndpointStatus = ONLINE | OFFLINE | RETIRED

datatype EventType = PROCESS_EXECUTION | NETWORK_CONNECTION | FILE_EVENT | DNS_QUERY | L7_EVENT

datatype OsType = WINDOWS | MACOS

datatype UserRole = ADMIN | ANALYST | VIEWER

fun role_name :: "UserRole \<Rightarrow> jsstring" where
  "role_name ADMIN = js ''ADMIN''"
| "role_name ANALYST = js ''ANALYST''"
| "role_name VIEWER = js ''VIEWER''"

datatype UserStatus = ACTIVE | DISABLED

fun user_status_name :: "UserStatus \<Rightarrow> jsstring" where
  "user_status_name ACTIVE = js ''ACTIVE''"
| "user_status_name DISABLED = js ''DISABLED''"

datatype UserLocale = EN | KO

fun locale_name :: "UserLocale \<Rightarrow> jsstring" where
  "locale_name EN = js ''EN''"
| "locale_name KO = js ''KO''"

lemma enum_names_inj [simp]:
  "preset_name a = preset_name b \<longleftrightarrow> a = b"
  "severity_name s = severity_name t \<longleftrightarrow> s = t"
  "alert_status_name x = alert_status_name y \<longleftrightarrow> x = y"
  "role_name r = role_name q \<longleftrightarrow> r = q"
  "user_status_name u = user_status_name v \<longleftrightarrow> u = v"
  "locale_name k = locale_name l \<longleftrightarrow> k = l"
  subgoal by (cases a; cases b) simp_all
  subgoal by (cases s; cases t) simp_all
  subgoal by (cases x; cases y) simp_all
  subgoal by (cases r; cases q) simp_all
  subgoal by (cases u; cases v) simp_all
  subgoal by (cases k; cases l) simp_all
  done

lemma preset_name_nonempty [simp]: "preset_name p \<noteq> []" "[] \<noteq> preset_name p"
  by (cases p; simp)+

section \<open>Roles\<close>

text \<open>\<open>canMutate\<close> of \<open>query/policy.ts\<close>.\<close>

definition canMutate :: "UserRole \<Rightarrow> bool" where
  "canMutate role \<longleftrightarrow> role = ADMIN \<or> role = ANALYST"

section \<open>Objects\<close>

record EventDto =
  ev_agentId :: jsstring
  ev_batchId :: jsstring
  ev_commandLine :: "jsstring option"
  ev_dnsAnswers :: "jsstring list"
  ev_dnsQuery :: "jsstring option"
  ev_dnsRecordType :: "jsstring option"
  ev_dnsResponseCode :: "jsstring option"
  ev_endpointId :: int
  ev_eventId :: jsstring
  ev_eventType :: EventType
  ev_fileAction :: "jsstring option"
  ev_fileHashSha256 :: "jsstring option"
  ev_filePath :: "jsstring option"
  ev_hostname :: jsstring
  ev_httpHost :: "jsstring option"
  ev_httpMethod :: "jsstring option"
  ev_httpStatusCode :: "int option"
  ev_httpUserAgent :: "jsstring option"
  ev_ingestedAt :: jsstring
  ev_ipAddress :: "jsstring option"
  ev_l7Protocol :: "jsstring option"
  ev_occurredAt :: jsstring
  ev_osType :: OsType
  ev_pid :: "int option"
  ev_ppid :: "int option"
  ev_processName :: "jsstring option"
  ev_processPath :: "jsstring option"
  ev_protocol :: "jsstring option"
  ev_remoteDomain :: "jsstring option"
  ev_remoteIp :: "jsstring option"
  ev_remotePort :: "int option"
  ev_tlsCertificateIssuer :: "jsstring option"
  ev_tlsCertificateSha256 :: "jsstring option"
  ev_tlsCertificateSubject :: "jsstring option"
  ev_tlsSni :: "jsstring option"
  ev_tlsVersion :: "jsstring option"
  ev_url :: "jsstring option"
  ev_userName :: "jsstring option"

record ProcessTreeNodeDto =
  node_pid :: int
  node_ppid :: "int option"
  node_processName :: jsstring
  node_processPath :: "jsstring option"
  node_commandLine :: "jsstring option"
  node_userName :: "jsstring option"
  node_firstSeenAt :: jsstring
  node_lastSeenAt :: jsstring
  node_eventCount :: int
  node_parentCaptured :: bool
  node_selected :: bool

record AlertDto =
  alert_agentId :: jsstring
  alert_alertId :: int
  alert_batchId :: "jsstring option"
  alert_createdAt :: jsstring
  alert_detectedAt :: jsstring
  alert_endpointId :: int
  alert_eventId :: jsstring
  alert_eventOccurredAt :: jsstring
  alert_mitreTacticCode :: jsstring
  alert_mitreTacticName :: jsstring
  alert_mitreTechniqueCode :: jsstring
  alert_mitreTechniqueName :: jsstring
  alert_riskScore :: rat
  alert_ruleCode :: jsstring
  alert_ruleName :: jsstring
  alert_ruleVersion :: int
  alert_severity :: Severity
  alert_status :: AlertStatus
  alert_summary :: jsstring
  alert_title :: jsstring
  alert_updatedAt :: jsstring

datatype InvestigationNodeType = INCIDENT_NODE | ALERT_NODE | EVENT_NODE | PROCESS_NODE | DESTINATION_NODE

datatype InvestigationRelation = CONTAINS | TRIGGERED_BY | PARENT_OF | CONNECTED_TO

datatype TimelineItemType = INCIDENT_ITEM | EVENT_ITEM | ALERT_ITEM

record InvestigationNodeDto =
  inode_nodeId :: jsstring
  inode_nodeType :: InvestigationNodeType
  inode_label :: jsstring
  inode_incidentId :: "int option"
  inode_alertId :: "int option"
  inode_eventId :: "jsstring option"
  inode_eventType :: "EventType option"
  inode_endpointId :: "int option"
  inode_occurredAt :: "jsstring option"
  inode_pid :: "int option"
  inode_processName :: "jsstring option"
  inode_destination :: "jsstring option"
  inode_protocol :: "jsstring option"
  inode_riskScore :: "rat option"
  inode_severity :: "Severity option"

record InvestigationEdgeDto =
  iedge_edgeId :: jsstring
  iedge_sourceNodeId :: jsstring
  iedge_targetNodeId :: jsstring
  iedge_relation :: InvestigationRelation
  iedge_incidentId :: "int option"
  iedge_alertId :: "int option"
  iedge_eventId :: "jsstring option"
  iedge_observedAt :: "jsstring option"

record IncidentInvestigationDto =
  inv_incidentId :: int
  inv_nodes :: "InvestigationNodeDto list"
  inv_edges :: "InvestigationEdgeDto list"
  inv_nodeCount :: int
  inv_edgeCount :: int
  inv_partial :: bool
  inv_truncated :: bool

record AttackTimelineItemDto =
  item_itemType :: TimelineItemType
  item_incidentId :: "int option"
  item_alertId :: "int option"
  item_eventId :: "jsstring option"
  item_eventType :: "EventType option"
  item_endpointId :: int
  item_occurredAt :: jsstring
  item_severity :: "Severity option"
  item_title :: jsstring
  item_summary :: jsstring

end
