(* ===== verification/NavigationUrl.thy ===== *)
theory NavigationUrl
  imports UrlSearchParams JsDate Contracts
begin

text \<open>
  The state the console keeps in the URL: \<open>lib/url.ts\<close>, \<open>lib/params.ts\<close>, \<open>lib/endpointIds.ts\<close>,
  the list helpers of \<open>features/listInteractions.ts\<close> and the time filter of
  \<open>components/filters.tsx\<close>.  \<open>Date.parse\<close> and the offset of the local time zone are arguments.
  The theorems say what a parameter reads after an update, that every link the helpers build is
  read back as what was put into it, and that what reaches a request has been checked.
\<close>

section \<open>Reading and updating parameters\<close>

definition stringParam :: "search_params \<Rightarrow> jsstring \<Rightarrow> jsstring \<Rightarrow> jsstring" where
  "stringParam ps key fallback = (case params_get ps key of Some v \<Rightarrow> v | None \<Rightarrow> fallback)"

text \<open>\<open>Number(value)\<close> when it is an integer above zero.\<close>

definition positiveInteger :: "jsstring option \<Rightarrow> int option" where
  "positiveInteger v =
     (case js_Number_nullable v of
        Num r \<Rightarrow> if is_integer (Num r) \<and> 0 < r then Some \<lfloor>r\<rfloor> else None
      | _ \<Rightarrow> None)"

definition numberParam :: "search_params \<Rightarrow> jsstring \<Rightarrow> int \<Rightarrow> int" where
  "numberParam ps key fallback =
     (case js_Number_nullable (params_get ps key) of
        Num r \<Rightarrow> if is_integer (Num r) \<and> 0 < r then \<lfloor>r\<rfloor> else fallback
      | _ \<Rightarrow> fallback)"

definition allowedValue :: "jsstring option \<Rightarrow> jsstring list \<Rightarrow> jsstring option" where
  "allowedValue v allowed = (case v of Some s \<Rightarrow> if s \<in> set allowed then Some s else None | None \<Rightarrow> None)"

text \<open>A value of the record passed to \<open>updateParams\<close>; \<open>null\<close> and \<open>undefined\<close> act alike.\<close>

datatype param_value = PText jsstring | PInt int | PNull

definition update_param :: "search_params \<Rightarrow> jsstring \<times> param_value \<Rightarrow> search_params" where
  "update_param ps u =
     (case u of (key, v) \<Rightarrow>
        (case v of
           PNull \<Rightarrow> params_delete ps key
         | PText s \<Rightarrow> if s = [] then params_delete ps key else params_set ps key s
         | PInt i \<Rightarrow> params_set ps key (js_String (Num (of_int i)))))"

definition updateParams :: "search_params \<Rightarrow> (jsstring \<times> param_value) list \<Rightarrow> bool \<Rightarrow> search_params" where
  "updateParams current values resetPage =
     (let next_params = foldl update_param current values
      in if resetPage then params_delete next_params (js ''page'') else next_params)"

definition parseEndpointIds :: "jsstring option \<Rightarrow> int list" where
  "parseEndpointIds v =
     (case v of None \<Rightarrow> []
      | Some s \<Rightarrow>
          if trim s = [] then []
          else take 100 (set_from (List.map_filter (\<lambda>part. positiveInteger (Some (trim part))) (split_at 44 s))))"

section \<open>The time filter\<close>

definition timePreset :: "search_params \<Rightarrow> TimePreset" where
  "timePreset ps =
     (case params_get ps (js ''timePreset'') of
        None \<Rightarrow> LATEST_24H
      | Some v \<Rightarrow>
          if v = js ''LATEST_15M'' then LATEST_15M else if v = js ''LATEST_1H'' then LATEST_1H
          else if v = js ''LATEST_7D'' then LATEST_7D else if v = js ''CUSTOM'' then CUSTOM
          else LATEST_24H)"

definition TIME_SCOPED_ROUTES :: "jsstring list" where
  "TIME_SCOPED_ROUTES = [js ''/'', js ''/alerts'', js ''/incidents'', js ''/events'', js ''/intelligence'']"

definition preset_names :: "jsstring list" where
  "preset_names = map preset_name TIME_PRESETS"

text \<open>Truthiness of an optional string: present and not empty.\<close>

definition truthy :: "jsstring option \<Rightarrow> bool" where
  "truthy v \<longleftrightarrow> v \<noteq> None \<and> v \<noteq> Some []"

definition navigationTimeScope :: "date_parser \<Rightarrow> search_params \<Rightarrow> jsstring option" where
  "navigationTimeScope date_parse ps =
     (case params_get ps (js ''timePreset'') of
        None \<Rightarrow> None
      | Some raw \<Rightarrow>
          if raw = [] \<or> raw \<notin> set preset_names then None
          else let scope = [(js ''timePreset'', raw)]
               in if raw = js ''CUSTOM'' then
                    (case (params_get ps (js ''from''), params_get ps (js ''to'')) of
                       (Some f, Some t) \<Rightarrow>
                         if f = [] \<or> t = [] \<or> date_parse f = None \<or> date_parse t = None
                            \<or> the (date_parse t) \<le> the (date_parse f) then None
                         else Some (params_to_string (params_set (params_set scope (js ''from'') f) (js ''to'') t))
                     | _ \<Rightarrow> None)
                  else Some (params_to_string scope))"

definition navigationDestination :: "jsstring \<Rightarrow> jsstring \<Rightarrow> jsstring" where
  "navigationDestination path timeScope =
     (if path \<in> set TIME_SCOPED_ROUTES then path @ js ''?'' @ timeScope else path)"

text \<open>A comparison with \<open>NaN\<close> hours is false, so an unreadable range is cut by days.\<close>

definition intervalFor :: "date_parser \<Rightarrow> TimePreset \<Rightarrow> jsstring option \<Rightarrow> jsstring option \<Rightarrow> DashboardInterval" where
  "intervalFor date_parse preset from to =
     (case preset of LATEST_15M \<Rightarrow> MIN1 | LATEST_1H \<Rightarrow> MIN5 | LATEST_24H \<Rightarrow> HOUR1 | LATEST_7D \<Rightarrow> DAY1
      | CUSTOM \<Rightarrow>
          (case (from, to) of
             (Some f, Some t) \<Rightarrow>
               if f = [] \<or> t = [] then HOUR1
               else (case (date_parse f, date_parse t) of
                       (Some a, Some b) \<Rightarrow>
                         (let hours = (of_int (b - a) :: rat) / 3600000
                          in if hours \<le> 6 then MIN5 else if hours \<le> 48 then HOUR1 else DAY1)
                     | _ \<Rightarrow> DAY1)
           | _ \<Rightarrow> HOUR1))"

record TimeFilterState =
  tf_preset :: TimePreset
  tf_from :: "jsstring option"
  tf_to :: "jsstring option"
  tf_valid :: bool
  tf_query :: "TimePreset \<times> (jsstring \<times> jsstring) option"
  tf_interval :: DashboardInterval

definition readTimeFilter :: "date_parser \<Rightarrow> search_params \<Rightarrow> TimeFilterState" where
  "readTimeFilter date_parse ps =
     (let rawPreset = params_get ps (js ''timePreset'');
          preset = timePreset ps;
          from = params_get ps (js ''from'');
          to = params_get ps (js ''to'');
          presetValid = (case rawPreset of None \<Rightarrow> True | Some v \<Rightarrow> v \<in> set preset_names);
          valid = (presetValid \<and>
                   (preset \<noteq> CUSTOM \<or> (truthy from \<and> truthy to \<and> parsed_after date_parse (the to) (the from))))
      in \<lparr>tf_preset = preset, tf_from = from, tf_to = to, tf_valid = valid,
          tf_query = (preset, if preset = CUSTOM \<and> truthy from \<and> truthy to then Some (the from, the to) else None),
          tf_interval = intervalFor date_parse preset from to\<rparr>)"

text \<open>What the preset buttons, the selector and the two range fields do to the parameters.\<close>

definition choose_preset :: "search_params \<Rightarrow> TimePreset \<Rightarrow> search_params" where
  "choose_preset ps preset =
     updateParams ps ((js ''timePreset'', PText (preset_name preset)) #
       (if preset = CUSTOM then [] else [(js ''from'', PNull), (js ''to'', PNull)])) True"

definition select_preset :: "search_params \<Rightarrow> jsstring \<Rightarrow> search_params" where
  "select_preset ps v = updateParams ps [(js ''timePreset'', PText v)] True"

definition validEventDetailQuery :: "date_parser \<Rightarrow> search_params \<Rightarrow> bool" where
  "validEventDetailQuery date_parse ps \<longleftrightarrow>
     positiveInteger (params_get ps (js ''endpointId'')) \<noteq> None \<and>
     (case params_get ps (js ''occurredAt'') of None \<Rightarrow> False | Some v \<Rightarrow> date_parse v \<noteq> None)"

text \<open>\<open>offset t\<close> is the time zone offset, in minutes, of the local clock at time \<open>t\<close>.\<close>

definition localDateTimeValue :: "date_parser \<Rightarrow> (int \<Rightarrow> int) \<Rightarrow> jsstring \<Rightarrow> js_error + jsstring" where
  "localDateTimeValue date_parse offset timestamp =
     map_sum id (take 16)
       (toISOString (case date_parse timestamp of None \<Rightarrow> None | Some t \<Rightarrow> time_clip (t - offset t * 60000)))"

definition utcFromLocal :: "date_parser \<Rightarrow> jsstring \<Rightarrow> js_error + jsstring" where
  "utcFromLocal date_parse v = toISOString (date_parse v)"

definition set_range_field :: "date_parser \<Rightarrow> string \<Rightarrow> search_params \<Rightarrow> jsstring \<Rightarrow> js_error + search_params" where
  "set_range_field date_parse field ps v =
     (if v = [] then Inr (updateParams ps [(js field, PNull)] True)
      else map_sum id (\<lambda>s. updateParams ps [(js field, PText s)] True) (utcFromLocal date_parse v))"

section \<open>List pages\<close>

record FilterDefinition =
  fd_key :: jsstring
  fd_label :: jsstring
  fd_format :: "(jsstring \<Rightarrow> jsstring) option"

record AppliedFilterDescriptor =
  af_key :: jsstring
  af_label :: jsstring
  af_value :: jsstring

definition appliedFilterDescriptors :: "search_params \<Rightarrow> FilterDefinition list \<Rightarrow> AppliedFilterDescriptor list" where
  "appliedFilterDescriptors ps defs =
     concat (map (\<lambda>d. case params_get ps (fd_key d) of
                        None \<Rightarrow> []
                      | Some v \<Rightarrow>
                          if v = [] then []
                          else [\<lparr>af_key = fd_key d, af_label = fd_label d,
                                 af_value = (case fd_format d of Some f \<Rightarrow> f v | None \<Rightarrow> v)\<rparr>]) defs)"

definition removeListFilter :: "search_params \<Rightarrow> jsstring \<Rightarrow> search_params" where
  "removeListFilter ps key =
     (let next_params = params_delete ps key;
          next_params = (if key = js ''timePreset''
                         then params_delete (params_delete next_params (js ''from'')) (js ''to'') else next_params)
      in params_delete next_params (js ''page''))"

definition hasInvalidEnum :: "search_params \<Rightarrow> jsstring \<Rightarrow> jsstring list \<Rightarrow> bool" where
  "hasInvalidEnum ps key allowed \<longleftrightarrow>
     (case params_get ps key of None \<Rightarrow> False | Some v \<Rightarrow> v \<notin> set allowed)"

definition number_in :: "(rat \<Rightarrow> bool) \<Rightarrow> jsnum \<Rightarrow> bool" where
  "number_in P n \<longleftrightarrow> is_integer n \<and> (case n of Num r \<Rightarrow> P r | _ \<Rightarrow> False)"

definition hasInvalidPositiveInteger :: "search_params \<Rightarrow> jsstring \<Rightarrow> bool" where
  "hasInvalidPositiveInteger ps key \<longleftrightarrow>
     (case params_get ps key of None \<Rightarrow> False | Some v \<Rightarrow> \<not> number_in (\<lambda>r. 0 < r) (js_Number v))"

definition hasInvalidPagination :: "search_params \<Rightarrow> bool" where
  "hasInvalidPagination ps \<longleftrightarrow> hasInvalidPositiveInteger ps (js ''page'') \<or>
     (case params_get ps (js ''size'') of None \<Rightarrow> False
      | Some v \<Rightarrow> \<not> number_in (\<lambda>r. 1 \<le> r \<and> r \<le> 200) (js_Number v))"

definition hasInvalidText :: "search_params \<Rightarrow> jsstring \<Rightarrow> nat \<Rightarrow> bool" where
  "hasInvalidText ps key maximum \<longleftrightarrow>
     (case params_get ps key of None \<Rightarrow> False
      | Some v \<Rightarrow> length (trim v) < 1 \<or> maximum < length (trim v))"

text \<open>The template \<open>?${params}\<close>; the value is a string or a number, here its \<open>String(value)\<close>.\<close>

definition selectedSearch :: "search_params \<Rightarrow> jsstring \<Rightarrow> jsstring" where
  "selectedSearch ps v =
     (let next_params = params_set ps (js ''selected'') v
      in if next_params \<noteq> [] then js ''?'' @ params_to_string next_params else [])"

definition isSelected :: "search_params \<Rightarrow> jsstring \<Rightarrow> bool" where
  "isSelected ps v \<longleftrightarrow> params_get ps (js ''selected'') = Some v"

definition eventDetailSearch :: "search_params \<Rightarrow> jsstring \<Rightarrow> int \<Rightarrow> jsstring \<Rightarrow> jsstring" where
  "eventDetailSearch ps eventId endpointId occurredAt =
     (let returnParams = params_set ps (js ''selected'') eventId;
          returnTo = js ''/events'' @ (if returnParams \<noteq> [] then js ''?'' @ params_to_string returnParams else [])
      in js ''?'' @ params_to_string [(js ''endpointId'', js_String (Num (of_int endpointId))),
           (js ''occurredAt'', occurredAt), (js ''returnTo'', returnTo)])"

definition safeReturnPath :: "search_params \<Rightarrow> jsstring \<Rightarrow> jsstring" where
  "safeReturnPath ps fallback =
     (case params_get ps (js ''returnTo'') of None \<Rightarrow> fallback
      | Some v \<Rightarrow> if v \<noteq> [] \<and> startsWith v (js ''/events'') \<and> \<not> startsWith v (js ''//'') then v else fallback)"

section \<open>Reading after an update\<close>

definition written :: "param_value \<Rightarrow> jsstring option" where
  "written v = (case v of PNull \<Rightarrow> None | PText s \<Rightarrow> if s = [] then None else Some s
                | PInt i \<Rightarrow> Some (js_String (Num (of_int i))))"

lemma updateParams_fold:
  "foldl update_param ps us = url_params.apply_updates ps (map (\<lambda>(k, v). (k, written v)) us)"
  by (induction us arbitrary: ps)
    (auto simp: url_params.apply_updates_def update_param_def written_def split: param_value.splits)

lemma map_of_written: "map_of (map (\<lambda>(k, v). (k, written v)) us) j = map_option written (map_of us j)"
  by (induction us) auto

lemma updateParams_get:
  assumes "distinct (map fst us)"
  shows "params_get (updateParams ps us reset) j =
    (if reset \<and> j = js ''page'' then None
     else case map_of us j of Some v \<Rightarrow> written v | None \<Rightarrow> params_get ps j)"
proof -
  have d: "distinct (map fst (map (\<lambda>(k, v). (k, written v)) us))"
    using assms by (simp add: case_prod_beta comp_def)
  show ?thesis
    by (auto simp: updateParams_def Let_def get_delete updateParams_fold
        url_params.get_apply_updates [OF d] map_of_written split: option.splits)
qed

text \<open>What the checks of a list page admit is what its readers return.\<close>

lemma js_Number_None [simp]: "js_Number_nullable (Some v) = js_Number v" "js_Number_nullable None = Num 0"
  by (simp_all add: js_Number_nullable_def)

lemma numberParam_alt: "numberParam ps key fallback = (case positiveInteger (params_get ps key) of Some i \<Rightarrow> i | None \<Rightarrow> fallback)"
  by (simp add: numberParam_def positiveInteger_def split: jsnum.splits)

lemma positiveInteger_pos: "positiveInteger v = Some i \<Longrightarrow> 0 < i \<and> js_Number_nullable v = Num (of_int i)"
  by (auto simp: positiveInteger_def is_integer_def split: jsnum.splits if_splits)

lemma positiveInteger_show:
  assumes "0 < i" "i < 2 ^ 53"
  shows "positiveInteger (Some (show_int i)) = Some i"
  using assms js_Number_show_int [of i] by (simp add: positiveInteger_def is_integer_def)

lemma valid_integer_read:
  "\<not> hasInvalidPositiveInteger ps key \<Longrightarrow>
   params_get ps key = None \<or> (\<exists>i. positiveInteger (params_get ps key) = Some i)"
  by (auto simp: hasInvalidPositiveInteger_def number_in_def positiveInteger_def split: option.splits jsnum.splits)

lemma removeListFilter_get:
  "params_get (removeListFilter ps key) j =
    (if j = key \<or> j = js ''page'' \<or> (key = js ''timePreset'' \<and> (j = js ''from'' \<or> j = js ''to'')) then None
     else params_get ps j)"
  by (simp add: removeListFilter_def Let_def get_delete)

section \<open>Links are read back\<close>

lemma text_units_below: "\<forall>c\<in>set s. c < 55296 \<Longrightarrow> text_units s"
proof -
  assume "\<forall>c\<in>set s. c < 55296"
  then have "well_formed s" by (induction s rule: well_formed.induct) (auto simp: is_high_def is_low_def)
  with \<open>\<forall>c\<in>set s. c < 55296\<close> show ?thesis by (fastforce simp: text_units_def)
qed

lemma text_units_ascii: "\<forall>c\<in>set s. c < 128 \<Longrightarrow> text_units s"
  by (rule text_units_below) fastforce

lemma js_units: "c \<in> set (js s) \<Longrightarrow> c < 256"
proof -
  assume "c \<in> set (js s)"
  then obtain ch :: char where "c = of_char ch" by (auto simp: js_def)
  then show ?thesis using nat_of_char_less_256 [of ch] by simp
qed

lemma text_units_js [simp]: "text_units (js s)"
  by (rule text_units_below) (auto dest: js_units)

lemma text_units_show_int [simp]: "text_units (show_int i)"
proof (rule text_units_ascii)
  show "\<forall>c\<in>set (show_int i). c < 128"
    using show_nat_digits by (auto simp: show_int_def is_digit_def dest!: show_nat_digits)
qed

lemma params_ok_delete: "params_ok ps \<Longrightarrow> params_ok (params_delete ps k)"
  by (auto simp: params_ok_def params_delete_def)

lemma params_ok_set: "params_ok ps \<Longrightarrow> text_units k \<Longrightarrow> text_units v \<Longrightarrow> params_ok (params_set ps k v)"
proof (induction ps k v rule: params_set.induct)
  case (2 n w ps k v)
  then show ?case using params_ok_delete [of ps k] by (auto simp: params_ok_def)
qed (simp add: params_ok_def)

lemma params_ok_get: "params_ok ps \<Longrightarrow> params_get ps k = Some v \<Longrightarrow> text_units v"
  by (auto simp: params_ok_def params_get_def dest!: find_SomeD)

lemma params_to_string_ascii: "params_ok ps \<Longrightarrow> \<forall>c\<in>set (params_to_string ps). c < 128"
proof -
  assume ok: "params_ok ps"
  let ?ss = "map (\<lambda>(n, v). form_encode n @ 61 # form_encode v) ps"
  have "\<forall>s\<in>set ?ss. \<forall>c\<in>set s. c < 128"
    using ok by (auto simp: params_ok_def dest!: form_encode_range)
  then show ?thesis
    using set_join [of 38 ?ss] by (auto simp: params_to_string_def)
qed

text \<open>The time scope carried to another page is the time filter of this page.\<close>

lemma timePreset_cases:
  "params_get ps (js ''timePreset'') = Some (preset_name p) \<Longrightarrow> timePreset ps = p"
  by (cases p) (simp_all add: timePreset_def)

lemma preset_names_iff: "v \<in> set preset_names \<longleftrightarrow> (\<exists>p. v = preset_name p)"
proof
  assume "v \<in> set preset_names"
  then show "\<exists>p. v = preset_name p" by (auto simp: preset_names_def)
next
  assume "\<exists>p. v = preset_name p"
  then obtain p where "v = preset_name p" by blast
  then show "v \<in> set preset_names" by (cases p) (simp_all add: preset_names_def TIME_PRESETS_def)
qed

lemma preset_name_CUSTOM: "preset_name p = js ''CUSTOM'' \<longleftrightarrow> p = CUSTOM"
  by (cases p) simp_all

lemma navigationTimeScope_Some:
  assumes "navigationTimeScope date_parse ps = Some s"
  obtains p where "p \<noteq> CUSTOM" "params_get ps (js ''timePreset'') = Some (preset_name p)"
      "s = params_to_string [(js ''timePreset'', preset_name p)]"
  | f t a b where "params_get ps (js ''timePreset'') = Some (preset_name CUSTOM)"
      "params_get ps (js ''from'') = Some f" "params_get ps (js ''to'') = Some t" "f \<noteq> []" "t \<noteq> []"
      "date_parse f = Some a" "date_parse t = Some b" "a < b"
      "s = params_to_string [(js ''timePreset'', preset_name CUSTOM), (js ''from'', f), (js ''to'', t)]"
proof -
  from assms obtain p where p: "params_get ps (js ''timePreset'') = Some (preset_name p)"
    by (auto simp: navigationTimeScope_def preset_names_iff split: option.splits if_splits)
  show thesis
  proof (cases "p = CUSTOM")
    case True
    then show thesis using assms p that(2)
      by (auto simp: navigationTimeScope_def Let_def preset_names_iff split: option.splits if_splits)
  next
    case False
    then show thesis using assms p that(1)
      by (auto simp: navigationTimeScope_def Let_def preset_names_iff preset_name_CUSTOM split: option.splits if_splits)
  qed
qed

lemma navigationTimeScope_defined:
  "(\<exists>s. navigationTimeScope date_parse ps = Some s) \<longleftrightarrow>
   params_get ps (js ''timePreset'') \<noteq> None \<and> tf_valid (readTimeFilter date_parse ps)"
  by (auto simp: navigationTimeScope_def readTimeFilter_def Let_def preset_names_iff preset_name_CUSTOM timePreset_cases
      truthy_def parsed_after_def split: option.splits)

lemma text_units_preset [simp]: "text_units (preset_name p)"
  by (cases p) simp_all

lemma navigationTimeScope_read:
  assumes "navigationTimeScope date_parse ps = Some s" "params_ok ps"
  defines "there \<equiv> readTimeFilter date_parse (params_of_string s)" and "here \<equiv> readTimeFilter date_parse ps"
  shows "tf_valid there \<and> tf_preset there = tf_preset here \<and> tf_query there = tf_query here \<and>
    tf_interval there = tf_interval here"
  using assms(1)
proof (cases rule: navigationTimeScope_Some)
  case (1 p)
  have "params_of_string s = [(js ''timePreset'', preset_name p)]"
    unfolding 1 by (rule params_of_string_to_string) (simp add: params_ok_def)
  then have "params_get (params_of_string s) (js ''timePreset'') = Some (preset_name p)"
    by (simp add: params_get_def)
  with 1 show ?thesis
    by (simp add: there_def here_def readTimeFilter_def Let_def timePreset_cases preset_names_iff intervalFor_def split: TimePreset.split)
next
  case (2 f t a b)
  have "text_units f" "text_units t" using params_ok_get [OF assms(2)] 2 by blast+
  then have "params_of_string s = [(js ''timePreset'', preset_name CUSTOM), (js ''from'', f), (js ''to'', t)]"
    unfolding 2 by (intro params_of_string_to_string) (simp add: params_ok_def)
  then have "params_get (params_of_string s) (js ''timePreset'') = Some (preset_name CUSTOM)"
      "params_get (params_of_string s) (js ''from'') = Some f" "params_get (params_of_string s) (js ''to'') = Some t"
    by (simp_all add: params_get_def)
  with 2 show ?thesis
    by (simp add: there_def here_def readTimeFilter_def Let_def timePreset_cases preset_names_iff truthy_def parsed_after_def
        del: preset_name.simps)
qed

text \<open>The link to an event leads back to the list it was opened from, with the event selected.\<close>

lemma eventDetailSearch_read:
  assumes "params_ok ps" "text_units eventId" "text_units occurredAt" "0 < endpointId" "endpointId < 2 ^ 53"
  defines "there \<equiv> params_of_string (eventDetailSearch ps eventId endpointId occurredAt)"
  shows "positiveInteger (params_get there (js ''endpointId'')) = Some endpointId"
    and "params_get there (js ''occurredAt'') = Some occurredAt"
    and "safeReturnPath there fallback = js ''/events?'' @ params_to_string (params_set ps (js ''selected'') eventId)"
proof -
  let ?list = "params_set ps (js ''selected'') eventId"
  let ?to = "js ''/events?'' @ params_to_string ?list"
  have ret: "params_ok ?list" using assms by (simp add: params_ok_set)
  have lit: "js ''/events?'' = js ''/events'' @ js ''?''" by (simp add: js_def)
  have "text_units ?to"
    using params_to_string_ascii [OF ret] by (intro text_units_ascii) (auto simp: js_def)
  moreover have id: "js_String (Num (of_int endpointId)) = show_int endpointId"
    using assms(4,5) by (intro js_String_int) simp
  moreover have q: "js ''?'' = [63]" by (simp add: js_def)
  ultimately have there: "there = [(js ''endpointId'', show_int endpointId), (js ''occurredAt'', occurredAt), (js ''returnTo'', ?to)]"
    unfolding there_def eventDetailSearch_def Let_def lit
    using assms params_of_string_to_string(2) by (simp add: params_ok_def)
  show "positiveInteger (params_get there (js ''endpointId'')) = Some endpointId"
    using positiveInteger_show [OF assms(4,5)] by (simp add: there params_get_def)
  show "params_get there (js ''occurredAt'') = Some occurredAt" by (simp add: there params_get_def)
  show "safeReturnPath there fallback = ?to"
    by (simp add: there safeReturnPath_def params_get_def startsWith_def js_def)
qed

lemma safeReturnPath_safe: "safeReturnPath ps fallback = fallback \<or> startsWith (safeReturnPath ps fallback) (js ''/events'')"
  by (auto simp: safeReturnPath_def split: option.splits)

section \<open>Endpoint ids\<close>

lemma parseEndpointIds_ok:
  "distinct (parseEndpointIds v)" "\<forall>i\<in>set (parseEndpointIds v). 0 < i" "length (parseEndpointIds v) \<le> 100"
  by (auto simp: parseEndpointIds_def List.map_filter_def split: option.splits dest!: in_set_takeD)
    (use positiveInteger_pos in fastforce)

lemma show_int_no_comma: "44 \<notin> set (show_int i)"
  using show_nat_digits by (auto simp: show_int_def is_digit_def dest!: show_nat_digits)

lemma parseEndpointIds_join:
  assumes "distinct ids" "\<forall>i\<in>set ids. 0 < i \<and> i < 2 ^ 53" "length ids \<le> 100"
  shows "parseEndpointIds (Some (join 44 (map show_int ids))) = ids"
proof (cases "ids = []")
  case False
  have trim: "trim (show_int i) = show_int i" if "0 < i" for i
    using that digits_trimmed [of "show_nat (nat i)"] show_nat_digits
    by (intro trim_trimmed_id) (simp add: show_int_def list_all_iff)
  have e: "List.map_filter (\<lambda>part. positiveInteger (Some (trim part))) (map show_int ids) = ids"
    using assms(2) by (induction ids) (simp_all add: List.map_filter_def trim positiveInteger_show)
  have split: "split_at 44 (join 44 (map show_int ids)) = map show_int ids"
    using False by (intro split_join) (auto simp: show_int_no_comma)
  have nonempty: "trim (join 44 (map show_int ids)) \<noteq> []"
  proof
    assume *: "trim (join 44 (map show_int ids)) = []"
    obtain i js where i: "ids = i # js" "0 < i" using False assms(2) by (cases ids) auto
    obtain c r where c: "show_int i = c # r" "is_digit c"
      using i(2) show_nat_cases [of "nat i"] by (metis show_int_def not_less_iff_gr_or_eq)
    have "\<exists>r. join 44 (map show_int ids) = c # r" using c by (cases js) (simp_all add: i)
    then obtain r' where "join 44 (map show_int ids) = c # r'" ..
    with * is_digit_not_white [OF c(2)] show False
      by (auto simp: trim_def dropWhile_eq_Nil_conv)
  qed
  show ?thesis
    using e split nonempty assms(1,3) by (simp add: parseEndpointIds_def set_from_distinct)
qed (simp add: parseEndpointIds_def trim_def)

end
