(* ===== verification/ApiClient.thy ===== *)
theory ApiClient
  imports NavigationUrl
begin

text \<open>
  The HTTP client (\<open>api/client.ts\<close>) and the catalogue of requests (\<open>api/endpoints.ts\<close>).
  \<open>fetch\<close> is an argument: it answers a request with a response or rejects.  The state of the
  module is the access token and whether a handler for 401 responses is configured; a request
  returns its result together with whether it called that handler.
\<close>

section \<open>Requests and responses\<close>

definition API_ROOT :: jsstring where
  "API_ROOT = js ''/api/v1''"

text \<open>Headers are kept by their lower-case name, as the platform compares them.\<close>

type_synonym headers = "(jsstring, jsstring) jsmap"

record RequestInit =
  init_method :: "jsstring option"
  init_body :: "jsstring option"
  init_headers :: headers

record http_request =
  req_url :: jsstring
  req_method :: "jsstring option"
  req_body :: "jsstring option"
  req_headers :: headers

record http_response =
  resp_status :: int
  resp_headers :: headers
  resp_body :: jsstring

datatype fetch_outcome = Responded http_response | Rejected js_error

record ErrorDetails =
  err_status :: int
  err_code :: jsstring
  err_message :: jsstring
  err_retryable :: bool
  err_details :: "json list"
  err_requestId :: "jsstring option"
  err_retryAfterSeconds :: "jsnum option"

text \<open>What a request throws: the abort of its signal, or an \<open>ApiError\<close>.\<close>

datatype request_error = Aborted | ApiError ErrorDetails

definition isUnavailableTimeRangeError :: "request_error \<Rightarrow> bool" where
  "isUnavailableTimeRangeError e = (case e of ApiError d \<Rightarrow> err_code d = js ''ARCHIVE_NOT_READY'' | Aborted \<Rightarrow> False)"

definition isRollupNotReadyError :: "request_error \<Rightarrow> bool" where
  "isRollupNotReadyError e = (case e of ApiError d \<Rightarrow> err_code d = js ''ROLLUP_NOT_READY'' | Aborted \<Rightarrow> False)"

record api_client =
  client_token :: "jsstring option"
  client_handler :: bool

definition configureApiAuth :: "jsstring option \<Rightarrow> bool \<Rightarrow> api_client" where
  "configureApiAuth token onUnauthorized = \<lparr>client_token = token, client_handler = onUnauthorized\<rparr>"

section \<open>Envelopes\<close>

definition has_prop :: "json \<Rightarrow> string \<Rightarrow> bool" where
  "has_prop v k = (case v of JObj ms \<Rightarrow> js k \<in> fst ` set ms | _ \<Rightarrow> False)"

definition record_at :: "json \<Rightarrow> string \<Rightarrow> bool" where
  "record_at v k = (case get_prop v k of Some w \<Rightarrow> is_record w | None \<Rightarrow> False)"

definition prop_at :: "json \<Rightarrow> string \<Rightarrow> string \<Rightarrow> json option" where
  "prop_at v k l = (case get_prop v k of Some w \<Rightarrow> get_prop w l | None \<Rightarrow> None)"

definition string_value :: "json option \<Rightarrow> jsstring option" where
  "string_value v = (case v of Some (JStr s) \<Rightarrow> Some s | _ \<Rightarrow> None)"

definition bool_value :: "json option \<Rightarrow> bool option" where
  "bool_value v = (case v of Some (JBool b) \<Rightarrow> Some b | _ \<Rightarrow> None)"

definition array_value :: "json option \<Rightarrow> json list option" where
  "array_value v = (case v of Some (JArr vs) \<Rightarrow> Some vs | _ \<Rightarrow> None)"

definition isSuccessEnvelope :: "json \<Rightarrow> bool" where
  "isSuccessEnvelope payload \<longleftrightarrow> is_record payload \<and> has_prop payload ''data'' \<and> record_at payload ''meta'' \<and>
     string_value (prop_at payload ''meta'' ''requestId'') \<noteq> None"

definition isErrorEnvelope :: "json \<Rightarrow> bool" where
  "isErrorEnvelope payload \<longleftrightarrow> is_record payload \<and> record_at payload ''error'' \<and> record_at payload ''meta'' \<and>
     string_value (prop_at payload ''error'' ''code'') \<noteq> None \<and>
     string_value (prop_at payload ''error'' ''message'') \<noteq> None \<and>
     bool_value (prop_at payload ''error'' ''retryable'') \<noteq> None \<and>
     array_value (prop_at payload ''error'' ''details'') \<noteq> None \<and>
     string_value (prop_at payload ''meta'' ''requestId'') \<noteq> None"

section \<open>The request\<close>

definition build_request :: "api_client \<Rightarrow> jsstring \<Rightarrow> RequestInit \<Rightarrow> http_request" where
  "build_request c path init =
     (let hs = map_set (init_headers init) (js ''accept'') (js ''application/json'');
          hs = (if init_body init \<noteq> None \<and> map_get hs (js ''content-type'') = None
                then map_set hs (js ''content-type'') (js ''application/json'') else hs);
          hs = (case client_token c of
                  Some t \<Rightarrow> if t = [] then hs else map_set hs (js ''authorization'') (js ''Bearer '' @ t)
                | None \<Rightarrow> hs)
      in \<lparr>req_url = API_ROOT @ path, req_method = init_method init, req_body = init_body init, req_headers = hs\<rparr>)"

definition network_error :: ErrorDetails where
  "network_error =
     \<lparr>err_status = 0, err_code = js ''NETWORK_ERROR'',
      err_message = js ''The Backend could not be reached. Check the connection and retry.'',
      err_retryable = True, err_details = [], err_requestId = None, err_retryAfterSeconds = None\<rparr>"

definition response_payload :: "http_response \<Rightarrow> json" where
  "response_payload r = (case json_parse (resp_body r) of Inr v \<Rightarrow> v | Inl _ \<Rightarrow> JNull)"

definition response_ok :: "http_response \<Rightarrow> bool" where
  "response_ok r \<longleftrightarrow> 200 \<le> resp_status r \<and> resp_status r \<le> 299"

definition failure_error :: "http_response \<Rightarrow> ErrorDetails" where
  "failure_error r =
     (let payload = response_payload r;
          parsedRetryAfter =
            (case map_get (resp_headers r) (js ''retry-after'') of
               Some v \<Rightarrow> if v = [] then None else Some (js_Number v) | None \<Rightarrow> None);
          retryAfter = (case parsedRetryAfter of Some n \<Rightarrow> if is_finite n then Some n else None | None \<Rightarrow> None)
      in if isErrorEnvelope payload
         then \<lparr>err_status = resp_status r,
               err_code = the (string_value (prop_at payload ''error'' ''code'')),
               err_message = the (string_value (prop_at payload ''error'' ''message'')),
               err_retryable = the (bool_value (prop_at payload ''error'' ''retryable'')),
               err_details = the (array_value (prop_at payload ''error'' ''details'')),
               err_requestId = string_value (prop_at payload ''meta'' ''requestId''),
               err_retryAfterSeconds = retryAfter\<rparr>
         else \<lparr>err_status = resp_status r,
               err_code = js ''HTTP_'' @ js_String (Num (of_int (resp_status r))),
               err_message = js ''The request failed without a valid error envelope.'',
               err_retryable = False, err_details = [],
               err_requestId = map_get (resp_headers r) (js ''x-request-id''),
               err_retryAfterSeconds = retryAfter\<rparr>)"

definition invalid_envelope_error :: "http_response \<Rightarrow> ErrorDetails" where
  "invalid_envelope_error r =
     \<lparr>err_status = resp_status r, err_code = js ''INVALID_ENVELOPE'',
      err_message = js ''The Backend returned an invalid success envelope.'',
      err_retryable = False, err_details = [],
      err_requestId = map_get (resp_headers r) (js ''x-request-id''), err_retryAfterSeconds = None\<rparr>"

text \<open>The result, and whether the 401 handler was called.\<close>

definition apiRequest ::
  "(http_request \<Rightarrow> fetch_outcome) \<Rightarrow> api_client \<Rightarrow> jsstring \<Rightarrow> RequestInit \<Rightarrow> (request_error + json) \<times> bool" where
  "apiRequest fetch c path init =
     (case fetch (build_request c path init) of
        Rejected e \<Rightarrow>
          (if e = DOMException (js ''AbortError'') then (Inl Aborted, False)
           else (Inl (ApiError network_error), False))
      | Responded r \<Rightarrow>
          if \<not> response_ok r then (Inl (ApiError (failure_error r)), resp_status r = 401 \<and> client_handler c)
          else if \<not> isSuccessEnvelope (response_payload r) then (Inl (ApiError (invalid_envelope_error r)), False)
          else (Inr (response_payload r), False))"

section \<open>Query strings\<close>

datatype query_value = QText jsstring | QNumber jsnum | QNumbers "jsnum list" | QNone

definition add_query :: "search_params \<Rightarrow> jsstring \<times> query_value \<Rightarrow> search_params" where
  "add_query q kv =
     (case kv of (key, v) \<Rightarrow>
        (case v of
           QNone \<Rightarrow> q
         | QText s \<Rightarrow> if s = [] then q else params_set q key s
         | QNumber n \<Rightarrow> params_set q key (js_String n)
         | QNumbers ns \<Rightarrow> foldl (\<lambda>q n. params_append q key (js_String n)) q ns))"

definition query_params :: "(jsstring \<times> query_value) list \<Rightarrow> search_params" where
  "query_params kvs = foldl add_query [] kvs"

definition buildQuery :: "(jsstring \<times> query_value) list \<Rightarrow> jsstring" where
  "buildQuery kvs =
     (let rendered = params_to_string (query_params kvs)
      in if rendered = [] then [] else js ''?'' @ rendered)"

section \<open>The catalogue\<close>

type_synonym query_record = "(jsstring \<times> query_value) list"

definition plain_init :: RequestInit where
  "plain_init = \<lparr>init_method = None, init_body = None, init_headers = []\<rparr>"

definition json_init :: "string \<Rightarrow> json \<Rightarrow> RequestInit" where
  "json_init m body = \<lparr>init_method = Some (js m), init_body = Some (stringify body), init_headers = []\<rparr>"

definition id_segment :: "int \<Rightarrow> jsstring" where
  "id_segment i = js_String (Num (of_int i))"

text \<open>One constructor per method of \<open>api\<close>; \<open>api_call\<close> is what the method passes to \<open>apiRequest\<close>.\<close>

datatype api_method =
    Login jsstring jsstring
  | CurrentUser
  | UpdateLocale UserLocale
  | Endpoints query_record
  | Endpoint int
  | ProcessTree int query_record
  | Events query_record
  | Event jsstring query_record
  | Failures query_record
  | Alerts query_record
  | Alert int
  | UpdateAlert int json
  | Incidents query_record
  | Incident int
  | UpdateIncident int json
  | IncidentTimeline int
  | IncidentInvestigation int
  | Dashboard query_record
  | DashboardAvailability query_record
  | EndpointSummary query_record
  | IngestSummary query_record
  | Topology query_record
  | Correlation query_record
  | OperationsHealth
  | Archives query_record
  | StartRestore json

fun api_call :: "api_method \<Rightarrow> js_error + jsstring \<times> RequestInit" where
  "api_call (Login loginId password) =
     Inr (js ''/auth/login'', json_init ''POST'' (JObj [(js ''loginId'', JStr loginId), (js ''password'', JStr password)]))"
| "api_call CurrentUser = Inr (js ''/users/me'', plain_init)"
| "api_call (UpdateLocale l) =
     Inr (js ''/users/me/locale'', json_init ''PATCH'' (JObj [(js ''locale'', JStr (locale_name l))]))"
| "api_call (Endpoints q) = Inr (js ''/endpoints'' @ buildQuery q, plain_init)"
| "api_call (Endpoint i) = Inr (js ''/endpoints/'' @ id_segment i, plain_init)"
| "api_call (ProcessTree i q) =
     Inr (js ''/endpoints/'' @ id_segment i @ js ''/process-tree'' @ buildQuery q, plain_init)"
| "api_call (Events q) = Inr (js ''/events'' @ buildQuery q, plain_init)"
| "api_call (Event eventId q) =
     map_sum id (\<lambda>e. (js ''/events/'' @ e @ buildQuery q, plain_init)) (encodeURIComponent eventId)"
| "api_call (Failures q) = Inr (js ''/failures'' @ buildQuery q, plain_init)"
| "api_call (Alerts q) = Inr (js ''/alerts'' @ buildQuery q, plain_init)"
| "api_call (Alert i) = Inr (js ''/alerts/'' @ id_segment i, plain_init)"
| "api_call (UpdateAlert i body) =
     Inr (js ''/alerts/'' @ id_segment i @ js ''/status'', json_init ''PATCH'' body)"
| "api_call (Incidents q) = Inr (js ''/incidents'' @ buildQuery q, plain_init)"
| "api_call (Incident i) = Inr (js ''/incidents/'' @ id_segment i, plain_init)"
| "api_call (UpdateIncident i body) =
     Inr (js ''/incidents/'' @ id_segment i @ js ''/status'', json_init ''PATCH'' body)"
| "api_call (IncidentTimeline i) = Inr (js ''/incidents/'' @ id_segment i @ js ''/timeline'', plain_init)"
| "api_call (IncidentInvestigation i) = Inr (js ''/incidents/'' @ id_segment i @ js ''/investigation'', plain_init)"
| "api_call (Dashboard q) = Inr (js ''/dashboard/summary'' @ buildQuery q, plain_init)"
| "api_call (DashboardAvailability q) = Inr (js ''/dashboard/availability'' @ buildQuery q, plain_init)"
| "api_call (EndpointSummary q) = Inr (js ''/dashboard/endpoints/summary'' @ buildQuery q, plain_init)"
| "api_call (IngestSummary q) = Inr (js ''/dashboard/ingest/summary'' @ buildQuery q, plain_init)"
| "api_call (Topology q) = Inr (js ''/dashboard/topology'' @ buildQuery q, plain_init)"
| "api_call (Correlation q) = Inr (js ''/intelligence/correlate'' @ buildQuery q, plain_init)"
| "api_call OperationsHealth = Inr (js ''/operations/health'', plain_init)"
| "api_call (Archives q) = Inr (js ''/archives/restores'' @ buildQuery q, plain_init)"
| "api_call (StartRestore body) = Inr (js ''/archives/restores'', json_init ''POST'' body)"

section \<open>Facts\<close>

lemma build_request_authorization:
  "map_get (req_headers (build_request c path init)) (js ''authorization'') =
     (case client_token c of
        Some t \<Rightarrow> if t = [] then map_get (init_headers init) (js ''authorization'') else Some (js ''Bearer '' @ t)
      | None \<Rightarrow> map_get (init_headers init) (js ''authorization''))"
  by (simp add: build_request_def Let_def split: option.split)

lemma apiRequest_result:
  "apiRequest fetch c path init = (Inr v, h) \<longleftrightarrow>
   (\<exists>r. fetch (build_request c path init) = Responded r \<and> response_ok r \<and> isSuccessEnvelope (response_payload r)
        \<and> v = response_payload r) \<and> \<not> h"
  by (auto simp: apiRequest_def split: fetch_outcome.splits if_splits)

lemma apiRequest_handler:
  "snd (apiRequest fetch c path init) \<longleftrightarrow>
   client_handler c \<and> (\<exists>r. fetch (build_request c path init) = Responded r \<and> resp_status r = 401)"
  by (auto simp: apiRequest_def response_ok_def split: fetch_outcome.splits)

lemma failure_status: "err_status (failure_error r) = resp_status r"
  by (simp add: failure_error_def Let_def)

text \<open>The rendered query is read back as the defined values, arrays as repeated names.\<close>

definition expand_query :: "jsstring \<times> query_value \<Rightarrow> search_params" where
  "expand_query kv =
     (case kv of (key, v) \<Rightarrow>
        (case v of QNone \<Rightarrow> [] | QText s \<Rightarrow> if s = [] then [] else [(key, s)]
         | QNumber n \<Rightarrow> [(key, js_String n)] | QNumbers ns \<Rightarrow> map (\<lambda>n. (key, js_String n)) ns))"

lemma foldl_append: "foldl (\<lambda>q n. params_append q key (f n)) q ns = q @ map (\<lambda>n. (key, f n)) ns"
  by (induction ns arbitrary: q) (simp_all add: params_append_def)

lemma add_query_new: "key \<notin> fst ` set q \<Longrightarrow> add_query q (key, v) = q @ expand_query (key, v)"
  by (simp add: add_query_def expand_query_def params_set_new foldl_append split: query_value.split)

lemma expand_query_keys: "fst ` set (expand_query (key, v)) \<subseteq> {key}"
  by (auto simp: expand_query_def split: query_value.splits if_splits)

lemma query_params_expand: "distinct (map fst kvs) \<Longrightarrow> query_params kvs = concat (map expand_query kvs)"
proof -
  have "foldl add_query q kvs = q @ concat (map expand_query kvs)"
    if "distinct (map fst kvs)" "fst ` set q \<inter> fst ` set kvs = {}" for q
    using that
  proof (induction kvs arbitrary: q)
    case (Cons kv kvs)
    obtain key v where kv: "kv = (key, v)" by (cases kv)
    have "fst ` set (q @ expand_query kv) \<inter> fst ` set kvs = {}"
      using Cons.prems expand_query_keys [of key v] by (auto simp: kv)
    moreover have "add_query q kv = q @ expand_query kv"
      using Cons.prems by (auto simp: kv add_query_new)
    ultimately show ?case using Cons by simp
  qed simp
  from this [of "[]"] show "distinct (map fst kvs) \<Longrightarrow> query_params kvs = concat (map expand_query kvs)"
    by (simp add: query_params_def)
qed

lemma params_to_string_Nil: "params_to_string ps = [] \<longleftrightarrow> ps = []"
  by (cases ps rule: remdups_adj.cases) (auto simp: params_to_string_def)

lemma buildQuery_read:
  assumes "distinct (map fst kvs)" "params_ok (concat (map expand_query kvs))"
  shows "params_of_string (buildQuery kvs) = concat (map expand_query kvs)"
proof -
  have q: "js ''?'' = [63]" by (simp add: js_def)
  show ?thesis
  proof (cases "concat (map expand_query kvs) = []")
    case True
    then have "query_params kvs = []" using query_params_expand [OF assms(1)] by simp
    then have "buildQuery kvs = []" by (simp add: buildQuery_def params_to_string_def)
    with True show ?thesis by (simp add: params_of_string_def utf8_encode_def startsWith_def)
  next
    case False
    then show ?thesis
      using params_of_string_to_string(2) [OF assms(2)] query_params_expand [OF assms(1)]
      by (simp add: buildQuery_def Let_def params_to_string_Nil q del: concat_eq_Nil_conv)
  qed
qed

text \<open>An event id cannot change the path: its encoding has no separator.\<close>

lemma encodeURIComponent_segment:
  assumes "encodeURIComponent s = Inr e" "text_units s" "c \<in> set e"
  shows "c < 128 \<and> c \<notin> {47, 63, 35, 38, 32}"
proof -
  from assms obtain b where b: "b \<in> set (utf8_encode s)" "c \<in> set (if uri_unreserved b then [b] else percent_byte b)"
    by (auto simp: encodeURIComponent_def split: if_splits)
  have "b < 256" using utf8_encode_bytes [OF assms(2) b(1)] .
  then have "is_alphanumeric (upper_hex (b div 16))" "is_alphanumeric (upper_hex (b mod 16))"
    by (auto intro: upper_hex_range)
  then have "is_alphanumeric c \<or> c = 37 \<or> uri_unreserved c"
    using b(2) by (auto simp: percent_byte_def split: if_splits)
  then show ?thesis by (auto simp: uri_unreserved_def is_alphanumeric_def is_digit_def js_def)
qed

text \<open>Which requests change state on the backend.\<close>

definition mutates :: "api_method \<Rightarrow> bool" where
  "mutates m \<longleftrightarrow> (case m of Login _ _ \<Rightarrow> True | UpdateLocale _ \<Rightarrow> True | UpdateAlert _ _ \<Rightarrow> True
     | UpdateIncident _ _ \<Rightarrow> True | StartRestore _ \<Rightarrow> True | _ \<Rightarrow> False)"

lemma api_call_method:
  assumes "api_call m = Inr (path, init)"
  shows "init_method init \<noteq> None \<longleftrightarrow> mutates m" "init_body init \<noteq> None \<longleftrightarrow> mutates m" "init_headers init = []"
    and "startsWith path (js ''/'')"
  using assms
  by (cases m; auto simp: plain_init_def json_init_def mutates_def startsWith_def js_def map_sum_def split: sum.splits)+

end
