(* ===== verification/AuthSession.thy ===== *)
theory AuthSession
  imports ApiClient BrowserStorage
begin

text \<open>
  The signed-in session (\<open>auth/AuthContext.tsx\<close>): how it is kept in the tab's storage and
  checked when it is read back, and the provider as a state machine whose steps are the
  handlers, the effects and the answers of the requests in flight, in any order.  Numbers the
  storage may hold are arbitrary, so the expiry and the user id are JavaScript numbers; role and
  status are kept as the values they are, since the check only looks at their string form.
\<close>

section \<open>Sessions in storage\<close>

record UserDto =
  user_id :: jsnum
  login_id :: jsstring
  user_name :: jsstring
  user_role :: json
  user_status :: json
  user_locale :: UserLocale

record AuthSession =
  ss_token :: jsstring
  ss_user :: UserDto
  ss_expiresAt :: jsnum

definition AUTH_SESSION_KEY :: jsstring where
  "AUTH_SESSION_KEY = js ''edr.authSession''"

text \<open>\<open>String(value)\<close> of a JSON value or of \<open>undefined\<close>; an array joins its elements, where
  \<open>null\<close> is empty.\<close>

fun json_string :: "json \<Rightarrow> jsstring" where
  "json_string JNull = js ''null''"
| "json_string (JBool b) = (if b then js ''true'' else js ''false'')"
| "json_string (JNum n) = js_String n"
| "json_string (JStr s) = s"
| "json_string (JArr vs) = join 44 (map (\<lambda>v. if v = JNull then [] else json_string v) vs)"
| "json_string (JObj ms) = js ''[object Object]''"

definition optional_string :: "json option \<Rightarrow> jsstring" where
  "optional_string v = (case v of None \<Rightarrow> js ''undefined'' | Some w \<Rightarrow> json_string w)"

definition number_value :: "json option \<Rightarrow> jsnum option" where
  "number_value v = (case v of Some (JNum n) \<Rightarrow> Some n | _ \<Rightarrow> None)"

definition isUserLocale :: "json option \<Rightarrow> UserLocale option" where
  "isUserLocale v =
     (if v = Some (JStr (js ''EN'')) then Some EN else if v = Some (JStr (js ''KO'')) then Some KO else None)"

definition hasUserDtoFields :: "json option \<Rightarrow> bool" where
  "hasUserDtoFields v =
     (case v of None \<Rightarrow> False
      | Some w \<Rightarrow>
          is_record w \<and> number_value (get_prop w ''userId'') \<noteq> None \<and>
          string_value (get_prop w ''loginId'') \<noteq> None \<and> string_value (get_prop w ''name'') \<noteq> None \<and>
          optional_string (get_prop w ''role'') \<in> set (map role_name [ADMIN, ANALYST, VIEWER]) \<and>
          optional_string (get_prop w ''status'') \<in> set (map user_status_name [ACTIVE, DISABLED]))"

definition isUserDto :: "json option \<Rightarrow> bool" where
  "isUserDto v \<longleftrightarrow> hasUserDtoFields v \<and> isUserLocale (get_prop (the v) ''locale'') \<noteq> None"

definition normalizeUserDto :: "json option \<Rightarrow> UserDto option" where
  "normalizeUserDto v =
     (if \<not> hasUserDtoFields v then None
      else let w = the v
           in Some \<lparr>user_id = the (number_value (get_prop w ''userId'')),
                    login_id = the (string_value (get_prop w ''loginId'')),
                    user_name = the (string_value (get_prop w ''name'')),
                    user_role = the (get_prop w ''role''), user_status = the (get_prop w ''status''),
                    user_locale = (case isUserLocale (get_prop w ''locale'') of Some l \<Rightarrow> l | None \<Rightarrow> EN)\<rparr>)"

definition isAuthSession :: "json \<Rightarrow> bool" where
  "isAuthSession v \<longleftrightarrow> is_record v \<and> string_value (get_prop v ''token'') \<noteq> None \<and>
     number_value (get_prop v ''expiresAt'') \<noteq> None \<and> isUserDto (get_prop v ''user'')"

definition normalizeAuthSession :: "json \<Rightarrow> AuthSession option" where
  "normalizeAuthSession v =
     (if \<not> is_record v then None
      else case (string_value (get_prop v ''token''), number_value (get_prop v ''expiresAt''),
                 normalizeUserDto (get_prop v ''user'')) of
             (Some t, Some e, Some u) \<Rightarrow> Some \<lparr>ss_token = t, ss_user = u, ss_expiresAt = e\<rparr>
           | _ \<Rightarrow> None)"

text \<open>
  The stored object.  The order of the members in the text follows how the object was built
  (by a login, by the normalisation, or received); reading does not depend on it, and the model
  writes the order of a login.
\<close>

definition user_json :: "UserDto \<Rightarrow> json" where
  "user_json u =
     JObj [(js ''userId'', JNum (user_id u)), (js ''loginId'', JStr (login_id u)), (js ''name'', JStr (user_name u)),
           (js ''role'', user_role u), (js ''status'', user_status u), (js ''locale'', JStr (locale_name (user_locale u)))]"

definition session_json :: "AuthSession \<Rightarrow> json" where
  "session_json s =
     JObj [(js ''token'', JStr (ss_token s)), (js ''user'', user_json (ss_user s)), (js ''expiresAt'', JNum (ss_expiresAt s))]"

definition saveAuthSession :: "AuthSession \<Rightarrow> browser_storage \<Rightarrow> browser_storage" where
  "saveAuthSession s st =
     (case setItem st AUTH_SESSION_KEY (stringify (session_json s)) of Inr st' \<Rightarrow> st' | Inl _ \<Rightarrow> st)"

definition clearAuthSession :: "browser_storage \<Rightarrow> browser_storage" where
  "clearAuthSession st = (case removeItem st AUTH_SESSION_KEY of Inr st' \<Rightarrow> st' | Inl _ \<Rightarrow> st)"

text \<open>\<open>expiresAt <= Date.now()\<close>.\<close>

definition expired :: "int \<Rightarrow> AuthSession \<Rightarrow> bool" where
  "expired now s = (case ss_expiresAt s of Num r \<Rightarrow> r \<le> of_int now | NegInf \<Rightarrow> True | _ \<Rightarrow> False)"

definition loadAuthSession :: "int \<Rightarrow> browser_storage \<Rightarrow> AuthSession option \<times> browser_storage" where
  "loadAuthSession now st =
     (case getItem st AUTH_SESSION_KEY of
        Inl _ \<Rightarrow> (None, clearAuthSession st)
      | Inr None \<Rightarrow> (None, st)
      | Inr (Some raw) \<Rightarrow>
          if raw = [] then (None, st)
          else (case json_parse raw of
                  Inl _ \<Rightarrow> (None, clearAuthSession st)
                | Inr v \<Rightarrow>
                    (case normalizeAuthSession v of
                       None \<Rightarrow> (None, clearAuthSession st)
                     | Some s \<Rightarrow>
                         if expired now s then (None, clearAuthSession st)
                         else (Some s, if isAuthSession v then st else saveAuthSession s st))))"

section \<open>The provider\<close>

text \<open>
  A request for the current user in flight, with the variables its callback captured, and a
  pending change of the locale.
\<close>

record sync_request =
  sync_token :: jsstring
  sync_version :: nat
  sync_active :: bool

record locale_request =
  lr_token :: jsstring
  lr_version :: nat

text \<open>
  \<open>fx_token\<close> and \<open>fx_session\<close> are the dependencies the effects last ran with (\<open>None\<close> before
  the first run), \<open>timer\<close> the time at which the running timeout fires, \<open>query_cache\<close> the number of
  cached queries.
\<close>

record auth_provider =
  session :: "AuthSession option"
  preserveIntended :: bool
  localeUpdateVersion :: nat
  api_state :: api_client
  tab_storage :: browser_storage
  query_cache :: nat
  fx_token :: "jsstring option option"
  fx_session :: "AuthSession option option"
  syncs :: "sync_request list"
  locale_requests :: "locale_request list"
  timer :: "int option"

definition provider_token :: "auth_provider \<Rightarrow> jsstring option" where
  "provider_token p = map_option ss_token (session p)"

definition mount_auth :: "int \<Rightarrow> nat \<Rightarrow> browser_storage \<Rightarrow> auth_provider" where
  "mount_auth now cache st =
     (let (s, st') = loadAuthSession now st
      in \<lparr>session = s, preserveIntended = (s = None), localeUpdateVersion = 0,
          api_state = configureApiAuth (map_option ss_token s) False, tab_storage = st', query_cache = cache,
          fx_token = None, fx_session = None, syncs = [], locale_requests = [], timer = None\<rparr>)"

definition logout :: "bool \<Rightarrow> auth_provider \<Rightarrow> auth_provider" where
  "logout keepIntended p =
     p\<lparr>localeUpdateVersion := localeUpdateVersion p + 1, preserveIntended := keepIntended,
       api_state := configureApiAuth None False, tab_storage := clearAuthSession (tab_storage p),
       session := None, query_cache := 0\<rparr>"

text \<open>
  The delay of \<open>setTimeout\<close> is converted to a 32-bit signed integer; a negative one fires at once.
\<close>

definition to_long :: "jsnum \<Rightarrow> int" where
  "to_long n =
     (case n of Num r \<Rightarrow> (let i = (if 0 \<le> r then \<lfloor>r\<rfloor> else - \<lfloor>- r\<rfloor>) mod 2 ^ 32
                           in if 2 ^ 31 \<le> i then i - 2 ^ 32 else i)
      | _ \<Rightarrow> 0)"

definition remaining :: "int \<Rightarrow> AuthSession \<Rightarrow> jsnum" where
  "remaining now s =
     (case ss_expiresAt s of Num r \<Rightarrow> Num (max 0 (r - of_int now)) | NegInf \<Rightarrow> Num 0 | n \<Rightarrow> n)"

definition timeout_at :: "int \<Rightarrow> AuthSession \<Rightarrow> int" where
  "timeout_at now s = now + max 0 (to_long (remaining now s))"

text \<open>The effects that depend on the token: the client's token and handler, and the current user.\<close>

definition token_effects :: "auth_provider \<Rightarrow> auth_provider" where
  "token_effects p =
     (if fx_token p = Some (provider_token p) then p
      else p\<lparr>fx_token := Some (provider_token p),
             api_state := configureApiAuth (provider_token p) True,
             syncs := map (sync_active_update (\<lambda>_. False)) (syncs p) @
               (case provider_token p of
                  Some t \<Rightarrow> if t = [] then []
                           else [\<lparr>sync_token = t, sync_version = localeUpdateVersion p, sync_active = True\<rparr>]
                | None \<Rightarrow> [])\<rparr>)"

definition session_effects :: "int \<Rightarrow> auth_provider \<Rightarrow> auth_provider" where
  "session_effects now p =
     (if fx_session p = Some (session p) then p
      else p\<lparr>fx_session := Some (session p), timer := map_option (timeout_at now) (session p)\<rparr>)"

definition flush_effects :: "int \<Rightarrow> auth_provider \<Rightarrow> auth_provider" where
  "flush_effects now p = session_effects now (token_effects p)"

text \<open>The answer to a login.\<close>

record LoginData =
  accessToken :: jsstring
  expiresIn :: rat
  login_user :: UserDto

definition login_session :: "int \<Rightarrow> LoginData \<Rightarrow> AuthSession" where
  "login_session now d =
     \<lparr>ss_token = accessToken d, ss_user = login_user d, ss_expiresAt = Num (of_int now + expiresIn d * 1000)\<rparr>"

definition login_response :: "int \<Rightarrow> LoginData \<Rightarrow> auth_provider \<Rightarrow> auth_provider" where
  "login_response now d p =
     (let s = login_session now d
      in p\<lparr>localeUpdateVersion := localeUpdateVersion p + 1, preserveIntended := False,
           api_state := configureApiAuth (Some (ss_token s)) True,
           tab_storage := saveAuthSession s (tab_storage p), session := Some s\<rparr>)"

definition sync_response :: "nat \<Rightarrow> UserDto \<Rightarrow> auth_provider \<Rightarrow> auth_provider" where
  "sync_response i u p =
     (if length (syncs p) \<le> i then p
      else let r = syncs p ! i; p = p\<lparr>syncs := take i (syncs p) @ drop (Suc i) (syncs p)\<rparr>
           in if \<not> sync_active r \<or> localeUpdateVersion p \<noteq> sync_version r then p
              else (case session p of
                      None \<Rightarrow> p
                    | Some s \<Rightarrow>
                        if ss_token s \<noteq> sync_token r then p
                        else let s' = s\<lparr>ss_user := u\<rparr>
                             in p\<lparr>tab_storage := saveAuthSession s' (tab_storage p), session := Some s'\<rparr>))"

text \<open>\<open>updateLocale\<close> up to its request: an error, the current user, or a request sent.\<close>

definition update_locale_request :: "UserLocale \<Rightarrow> auth_provider \<Rightarrow> (js_error + UserDto option) \<times> auth_provider" where
  "update_locale_request l p =
     (case session p of
        None \<Rightarrow> (Inl (Error (js ''An authenticated session is required.'')), p)
      | Some s \<Rightarrow>
          if user_locale (ss_user s) = l then (Inr (Some (ss_user s)), p)
          else let v = localeUpdateVersion p + 1
               in (Inr None, p\<lparr>localeUpdateVersion := v,
                              locale_requests := locale_requests p @ [\<lparr>lr_token = ss_token s, lr_version = v\<rparr>]\<rparr>))"

definition update_locale_response :: "nat \<Rightarrow> UserDto \<Rightarrow> auth_provider \<Rightarrow> auth_provider" where
  "update_locale_response i u p =
     (if length (locale_requests p) \<le> i then p
      else let r = locale_requests p ! i;
               p = p\<lparr>locale_requests := take i (locale_requests p) @ drop (Suc i) (locale_requests p)\<rparr>
           in (case session p of
                 None \<Rightarrow> p
               | Some s \<Rightarrow>
                   if ss_token s \<noteq> lr_token r \<or> localeUpdateVersion p \<noteq> lr_version r then p
                   else let s' = s\<lparr>ss_user := u\<rparr>
                        in p\<lparr>tab_storage := saveAuthSession s' (tab_storage p), session := Some s'\<rparr>))"

text \<open>A request answered with 401 runs the handler the client has at that moment.\<close>

definition unauthorized_response :: "auth_provider \<Rightarrow> auth_provider" where
  "unauthorized_response p = (if client_handler (api_state p) then logout True p else p)"

definition timer_fires :: "int \<Rightarrow> auth_provider \<Rightarrow> auth_provider" where
  "timer_fires now p =
     (case timer p of Some t \<Rightarrow> if t \<le> now then logout True (p\<lparr>timer := None\<rparr>) else p | None \<Rightarrow> p)"

datatype route_guard = RedirectToLogin "jsstring option" | Children

definition RequireAuth :: "jsstring \<Rightarrow> jsstring \<Rightarrow> auth_provider \<Rightarrow> route_guard" where
  "RequireAuth pathname search p =
     (if \<not> truthy (provider_token p) \<or> session p = None
      then RedirectToLogin (if preserveIntended p then Some (pathname @ search) else None)
      else Children)"

section \<open>Reading back what was saved\<close>

definition user_ok :: "UserDto \<Rightarrow> bool" where
  "user_ok u \<longleftrightarrow> json_ok (JNum (user_id u)) \<and> (\<exists>r. user_role u = JStr (role_name r)) \<and>
     (\<exists>st. user_status u = JStr (user_status_name st))"

definition session_ok :: "AuthSession \<Rightarrow> bool" where
  "session_ok s \<longleftrightarrow> json_ok (JNum (ss_expiresAt s)) \<and> user_ok (ss_user s)"

lemma locale_name_cases: "isUserLocale (Some (JStr (locale_name l))) = Some l"
  by (cases l) (simp_all add: isUserLocale_def)

lemma role_name_mem: "role_name r \<in> set (map role_name [ADMIN, ANALYST, VIEWER])"
  by (cases r) simp_all

lemma user_status_name_mem: "user_status_name r \<in> set (map user_status_name [ACTIVE, DISABLED])"
  by (cases r) simp_all

lemma normalize_user_json:
  assumes "user_ok u"
  shows "hasUserDtoFields (Some (user_json u))" "normalizeUserDto (Some (user_json u)) = Some u"
proof -
  obtain r st where r: "user_role u = JStr (role_name r)" "user_status u = JStr (user_status_name st)"
    using assms by (auto simp: user_ok_def)
  show h: "hasUserDtoFields (Some (user_json u))"
    using r role_name_mem [of r] user_status_name_mem [of st]
    by (simp add: hasUserDtoFields_def user_json_def is_record_def get_prop_def number_value_def string_value_def
        optional_string_def del: list.map role_name.simps user_status_name.simps)
  show "normalizeUserDto (Some (user_json u)) = Some u"
    using h by (simp add: normalizeUserDto_def user_json_def get_prop_def number_value_def string_value_def locale_name_cases)
qed

lemma normalize_session_json: "session_ok s \<Longrightarrow> normalizeAuthSession (session_json s) = Some s"
  by (simp add: normalizeAuthSession_def session_json_def is_record_def get_prop_def string_value_def number_value_def
      normalize_user_json session_ok_def)

lemma json_ok_session: "session_ok s \<Longrightarrow> json_ok (session_json s)"
  by (auto simp: session_ok_def user_ok_def session_json_def user_json_def)

text \<open>The session a stored text stands for.\<close>

definition stored_session :: "browser_storage \<Rightarrow> AuthSession option" where
  "stored_session st =
     (case getItem st AUTH_SESSION_KEY of
        Inr (Some raw) \<Rightarrow> (case json_parse raw of Inr v \<Rightarrow> normalizeAuthSession v | Inl _ \<Rightarrow> None)
      | _ \<Rightarrow> None)"

lemma auth_storage_writable [simp]:
  "storage_writable st \<Longrightarrow> storage_writable (saveAuthSession s st)"
  "storage_writable st \<Longrightarrow> storage_writable (clearAuthSession st)"
  by (simp_all add: storage_writable_def saveAuthSession_def clearAuthSession_def setItem_def removeItem_def)

lemma stored_after_save: "storage_writable st \<Longrightarrow> session_ok s \<Longrightarrow> stored_session (saveAuthSession s st) = Some s"
  by (simp add: stored_session_def saveAuthSession_def storage_writable_def setItem_def getItem_def parse_stringify
      json_ok_session normalize_session_json)

lemma stored_after_clear: "storage_writable st \<Longrightarrow> stored_session (clearAuthSession st) = None"
  by (simp add: stored_session_def clearAuthSession_def storage_writable_def removeItem_def getItem_def)

lemma json_parse_Nil: "json_parse [] = Inl SyntaxError"
  by (simp add: json_parse_def)

text \<open>Loading gives the stored session when it has not expired, and leaves the storage standing for it.\<close>

lemma loadAuthSession_spec:
  assumes "loadAuthSession now st = (r, st')" "storage_writable st"
  shows "r = (case stored_session st of Some s \<Rightarrow> if expired now s then None else Some s | None \<Rightarrow> None)"
    and "storage_writable st'"
  using assms
  by (auto simp: loadAuthSession_def stored_session_def getItem_def storage_writable_def json_parse_Nil
      saveAuthSession_def clearAuthSession_def setItem_def removeItem_def
      split: option.splits sum.splits if_splits)

lemma loadAuthSession_stored:
  assumes "loadAuthSession now st = (r, st')" "storage_writable st" "\<forall>s. r = Some s \<longrightarrow> session_ok s"
  shows "stored_session st' = r"
proof (cases r)
  case None
  then show ?thesis using assms
    by (auto simp: loadAuthSession_def getItem_def storage_writable_def stored_session_def json_parse_Nil
        clearAuthSession_def removeItem_def split: option.splits sum.splits if_splits)
next
  case (Some s)
  with assms have "st' = st \<and> stored_session st = Some s \<or> st' = saveAuthSession s st"
    by (auto simp: loadAuthSession_def stored_session_def getItem_def storage_writable_def
        split: option.splits sum.splits if_splits)
  with Some assms show ?thesis using stored_after_save by auto
qed

section \<open>The provider as a state machine\<close>

text \<open>Everything that can happen to the provider; answers name the request they answer.\<close>

datatype auth_event =
    FlushEffects int
  | LoginAnswer int LoginData
  | SyncAnswer nat UserDto
  | LocaleRequest UserLocale
  | LocaleAnswer nat UserDto
  | Unauthorized
  | TimerFires int
  | Logout bool
  | QueryCached

fun apply_event :: "auth_event \<Rightarrow> auth_provider \<Rightarrow> auth_provider" where
  "apply_event (FlushEffects now) p = flush_effects now p"
| "apply_event (LoginAnswer now d) p = login_response now d p"
| "apply_event (SyncAnswer i u) p = sync_response i u p"
| "apply_event (LocaleRequest l) p = snd (update_locale_request l p)"
| "apply_event (LocaleAnswer i u) p = update_locale_response i u p"
| "apply_event Unauthorized p = unauthorized_response p"
| "apply_event (TimerFires now) p = timer_fires now p"
| "apply_event (Logout keep) p = logout keep p"
| "apply_event QueryCached p = p\<lparr>query_cache := query_cache p + 1\<rparr>"

definition run_events :: "auth_event list \<Rightarrow> auth_provider \<Rightarrow> auth_provider" where
  "run_events es p = foldl (\<lambda>p e. apply_event e p) p es"

text \<open>What the backend's contract promises of an answer.\<close>

fun event_ok :: "auth_event \<Rightarrow> bool" where
  "event_ok (LoginAnswer now d) = session_ok (login_session now d)"
| "event_ok (SyncAnswer i u) = user_ok u"
| "event_ok (LocaleAnswer i u) = user_ok u"
| "event_ok e = True"

inductive reachable_auth :: "auth_provider \<Rightarrow> bool" where
  mount: "storage_writable st \<Longrightarrow> \<forall>s. stored_session st = Some s \<longrightarrow> session_ok s \<Longrightarrow>
    reachable_auth (mount_auth now cache st)"
| event: "reachable_auth p \<Longrightarrow> event_ok e \<Longrightarrow> reachable_auth (apply_event e p)"

definition auth_inv :: "auth_provider \<Rightarrow> bool" where
  "auth_inv p \<longleftrightarrow> storage_writable (tab_storage p) \<and> (\<forall>s. session p = Some s \<longrightarrow> session_ok s) \<and>
     stored_session (tab_storage p) = session p \<and> client_token (api_state p) = provider_token p \<and>
     (session p \<noteq> None \<longrightarrow> fx_token p \<noteq> None \<longrightarrow> client_handler (api_state p)) \<and>
     (\<forall>r\<in>set (syncs p). sync_version r \<le> localeUpdateVersion p) \<and>
     (\<forall>r\<in>set (locale_requests p). lr_version r \<le> localeUpdateVersion p)"

lemma set_take_drop: "set (take i xs @ drop (Suc i) xs) \<subseteq> set xs"
  by (auto dest: in_set_takeD in_set_dropD)

lemmas client_defs = configureApiAuth_def provider_token_def

lemma logout_inv: "auth_inv p \<Longrightarrow> auth_inv (logout keep p)"
  by (auto simp: auth_inv_def logout_def client_defs stored_after_clear le_SucI)

lemma login_inv: "auth_inv p \<Longrightarrow> session_ok (login_session now d) \<Longrightarrow> auth_inv (login_response now d p)"
  by (auto simp: auth_inv_def login_response_def Let_def client_defs stored_after_save le_SucI)

text \<open>A new user for the running session, the one way an answer changes it.\<close>

definition replace_user :: "UserDto \<Rightarrow> AuthSession \<Rightarrow> auth_provider \<Rightarrow> auth_provider" where
  "replace_user u s p =
     p\<lparr>tab_storage := saveAuthSession (s\<lparr>ss_user := u\<rparr>) (tab_storage p), session := Some (s\<lparr>ss_user := u\<rparr>)\<rparr>"

lemma replace_user_inv: "auth_inv p \<Longrightarrow> session p = Some s \<Longrightarrow> user_ok u \<Longrightarrow> auth_inv (replace_user u s p)"
  by (auto simp: auth_inv_def replace_user_def client_defs stored_after_save session_ok_def)

lemma sync_response_cases:
  obtains (ignored) xs where "sync_response i u p = p\<lparr>syncs := xs\<rparr>" "set xs \<subseteq> set (syncs p)"
  | (applied) xs s where "sync_response i u p = replace_user u s (p\<lparr>syncs := xs\<rparr>)" "session p = Some s"
      "set xs \<subseteq> set (syncs p)" "i < length (syncs p)" "sync_active (syncs p ! i)"
      "sync_version (syncs p ! i) = localeUpdateVersion p" "sync_token (syncs p ! i) = ss_token s"
proof -
  let ?xs = "take i (syncs p) @ drop (Suc i) (syncs p)" and ?r = "syncs p ! i"
  note sub = set_take_drop [of i "syncs p"]
  show thesis
  proof (cases "i < length (syncs p) \<and> sync_active ?r \<and> localeUpdateVersion p = sync_version ?r \<and>
      (\<exists>s. session p = Some s \<and> ss_token s = sync_token ?r)")
    case True
    then obtain s where s: "session p = Some s" "ss_token s = sync_token ?r" by blast
    have "sync_response i u p = replace_user u s (p\<lparr>syncs := ?xs\<rparr>)"
      using True s by (simp add: sync_response_def Let_def replace_user_def)
    with True s sub applied [of s ?xs] show thesis by simp
  next
    case False
    show thesis
    proof (cases "i < length (syncs p)")
      case True
      with False have "sync_response i u p = p\<lparr>syncs := ?xs\<rparr>"
        by (cases "session p") (simp_all add: sync_response_def Let_def)
      with sub ignored [of ?xs] show thesis by blast
    next
      case False
      then have "sync_response i u p = p\<lparr>syncs := syncs p\<rparr>" by (simp add: sync_response_def)
      with ignored [of "syncs p"] show thesis by blast
    qed
  qed
qed

lemma locale_response_cases:
  obtains (ignored) xs where "update_locale_response i u p = p\<lparr>locale_requests := xs\<rparr>" "set xs \<subseteq> set (locale_requests p)"
  | (applied) xs s where "update_locale_response i u p = replace_user u s (p\<lparr>locale_requests := xs\<rparr>)" "session p = Some s"
      "set xs \<subseteq> set (locale_requests p)" "i < length (locale_requests p)"
      "lr_version (locale_requests p ! i) = localeUpdateVersion p" "lr_token (locale_requests p ! i) = ss_token s"
proof -
  let ?xs = "take i (locale_requests p) @ drop (Suc i) (locale_requests p)" and ?r = "locale_requests p ! i"
  note sub = set_take_drop [of i "locale_requests p"]
  show thesis
  proof (cases "i < length (locale_requests p) \<and> localeUpdateVersion p = lr_version ?r \<and>
      (\<exists>s. session p = Some s \<and> ss_token s = lr_token ?r)")
    case True
    then obtain s where s: "session p = Some s" "ss_token s = lr_token ?r" by blast
    have "update_locale_response i u p = replace_user u s (p\<lparr>locale_requests := ?xs\<rparr>)"
      using True s by (simp add: update_locale_response_def Let_def replace_user_def)
    with True s sub applied [of s ?xs] show thesis by simp
  next
    case False
    show thesis
    proof (cases "i < length (locale_requests p)")
      case True
      with False have "update_locale_response i u p = p\<lparr>locale_requests := ?xs\<rparr>"
        by (cases "session p") (auto simp: update_locale_response_def Let_def)
      with sub ignored [of ?xs] show thesis by blast
    next
      case False
      then have "update_locale_response i u p = p\<lparr>locale_requests := locale_requests p\<rparr>"
        by (simp add: update_locale_response_def)
      with ignored [of "locale_requests p"] show thesis by blast
    qed
  qed
qed

lemma auth_inv_fewer_requests:
  "auth_inv p \<Longrightarrow> set xs \<subseteq> set (syncs p) \<Longrightarrow> auth_inv (p\<lparr>syncs := xs\<rparr>)"
  "auth_inv p \<Longrightarrow> set ys \<subseteq> set (locale_requests p) \<Longrightarrow> auth_inv (p\<lparr>locale_requests := ys\<rparr>)"
  by (auto simp: auth_inv_def provider_token_def)

lemma sync_response_inv: "auth_inv p \<Longrightarrow> user_ok u \<Longrightarrow> auth_inv (sync_response i u p)"
  by (cases rule: sync_response_cases [of i u p]) (simp_all add: auth_inv_fewer_requests replace_user_inv)

lemma locale_response_inv: "auth_inv p \<Longrightarrow> user_ok u \<Longrightarrow> auth_inv (update_locale_response i u p)"
  by (cases rule: locale_response_cases [of i u p]) (simp_all add: auth_inv_fewer_requests replace_user_inv)

lemma flush_inv: "auth_inv p \<Longrightarrow> auth_inv (flush_effects now p)"
proof -
  assume "auth_inv p"
  then have "auth_inv (token_effects p)"
    by (auto simp: auth_inv_def token_effects_def client_defs split: option.split)
  then show ?thesis
    by (auto simp: flush_effects_def session_effects_def auth_inv_def provider_token_def)
qed

lemma locale_request_inv: "auth_inv p \<Longrightarrow> auth_inv (snd (update_locale_request l p))"
  by (auto simp: update_locale_request_def Let_def auth_inv_def provider_token_def le_SucI split: option.split)

lemma timer_inv: "auth_inv p \<Longrightarrow> auth_inv (timer_fires now p)"
proof -
  assume "auth_inv p"
  moreover from this have "auth_inv (p\<lparr>timer := None\<rparr>)" by (simp add: auth_inv_def provider_token_def)
  ultimately show ?thesis using logout_inv by (simp add: timer_fires_def split: option.split)
qed

lemma apply_event_inv: "auth_inv p \<Longrightarrow> event_ok e \<Longrightarrow> auth_inv (apply_event e p)"
  by (cases e)
    (simp_all add: flush_inv login_inv sync_response_inv locale_request_inv locale_response_inv timer_inv logout_inv
      unauthorized_response_def, simp add: auth_inv_def provider_token_def)

lemma mount_auth_inv:
  assumes "storage_writable st" "\<forall>s. stored_session st = Some s \<longrightarrow> session_ok s"
  shows "auth_inv (mount_auth now cache st)"
proof -
  obtain r st' where l: "loadAuthSession now st = (r, st')" by fastforce
  note spec = loadAuthSession_spec [OF l assms(1)]
  have ok: "\<forall>s. r = Some s \<longrightarrow> session_ok s" using spec(1) assms(2) by (auto split: option.splits if_splits)
  with spec(2) loadAuthSession_stored [OF l assms(1) ok] show ?thesis
    by (simp add: mount_auth_def l auth_inv_def client_defs)
qed

lemma reachable_auth_inv: "reachable_auth p \<Longrightarrow> auth_inv p"
  by (induction rule: reachable_auth.induct) (simp_all add: mount_auth_inv apply_event_inv)

text \<open>How one event changes the session.\<close>

definition is_login :: "auth_event \<Rightarrow> bool" where
  "is_login e = (case e of LoginAnswer _ _ \<Rightarrow> True | _ \<Rightarrow> False)"

lemma session_simps [simp]:
  "session (token_effects p) = session p" "session (session_effects now p) = session p"
  "session (flush_effects now p) = session p" "session (logout keep p) = None"
  "session (replace_user u s p) = Some (s\<lparr>ss_user := u\<rparr>)"
  "session (snd (update_locale_request l p)) = session p"
  by (simp_all add: token_effects_def session_effects_def flush_effects_def logout_def replace_user_def
      update_locale_request_def Let_def split: option.split)

lemma apply_event_session:
  assumes "\<not> is_login e"
  shows "session (apply_event e p) = None \<or> session (apply_event e p) = session p \<or>
    (\<exists>s u. session p = Some s \<and> session (apply_event e p) = Some (s\<lparr>ss_user := u\<rparr>))"
proof (cases e)
  case (SyncAnswer i u)
  then show ?thesis by (cases rule: sync_response_cases [of i u p]) auto
next
  case (LocaleAnswer i u)
  then show ?thesis by (cases rule: locale_response_cases [of i u p]) auto
qed (use assms in \<open>auto simp: is_login_def unauthorized_response_def timer_fires_def split: option.split\<close>)

lemma signed_out_stays:
  assumes "\<forall>e\<in>set es. \<not> is_login e" "session p = None"
  shows "session (run_events es p) = None"
  using assms
proof (induction es arbitrary: p)
  case (Cons e es)
  have "session (apply_event e p) = None" using apply_event_session [of e p] Cons.prems by auto
  then show ?case using Cons by (simp add: run_events_def)
qed (simp add: run_events_def)

lemma run_events_inv: "auth_inv p \<Longrightarrow> \<forall>e\<in>set es. event_ok e \<Longrightarrow> auth_inv (run_events es p)"
  by (induction es arbitrary: p) (simp_all add: run_events_def apply_event_inv)

text \<open>An answer to an older request, or to a request of another session, changes nothing.\<close>

lemma stale_locale_answer:
  assumes "i < length (locale_requests p)"
    and "lr_version (locale_requests p ! i) \<noteq> localeUpdateVersion p \<or>
      provider_token p \<noteq> Some (lr_token (locale_requests p ! i))"
  shows "session (update_locale_response i u p) = session p"
    and "tab_storage (update_locale_response i u p) = tab_storage p"
  by (cases rule: locale_response_cases [of i u p], use assms in \<open>auto simp: provider_token_def\<close>)+

lemma current_locale_answer:
  assumes "i < length (locale_requests p)" "lr_version (locale_requests p ! i) = localeUpdateVersion p"
    and "session p = Some s" "lr_token (locale_requests p ! i) = ss_token s"
  shows "session (update_locale_response i u p) = Some (s\<lparr>ss_user := u\<rparr>)"
  using assms by (simp add: update_locale_response_def Let_def)

section \<open>Expiry\<close>

lemma timeout_exact:
  assumes "ss_expiresAt s = Num (of_int e)" "now \<le> e" "e - now < 2 ^ 31"
  shows "timeout_at now s = e"
proof -
  have r: "remaining now s = Num (of_int (e - now))"
    using assms by (simp add: remaining_def of_int_diff [symmetric] del: of_int_diff)
  have "(e - now) mod 2 ^ 32 = e - now" using assms by (intro mod_pos_pos_trivial) auto
  with assms(2,3) show ?thesis by (simp add: timeout_at_def r to_long_def Let_def)
qed

end
