(* ===== verification/SessionProperties.thy ===== *)
theory SessionProperties
  imports AuthSession
begin

text \<open>
  The properties of the session, of the HTTP client and of the parameters in the address, with
  concrete instances.
\<close>

section \<open>Concrete data\<close>

definition sample_user :: UserDto where
  "sample_user =
     \<lparr>user_id = Num 7, login_id = js ''kim'', user_name = js ''Kim'', user_role = JStr (js ''ANALYST''),
      user_status = JStr (js ''ACTIVE''), user_locale = EN\<rparr>"

definition sample_login :: LoginData where
  "sample_login = \<lparr>accessToken = js ''token-1'', expiresIn = 3600, login_user = sample_user\<rparr>"

definition blank_storage :: browser_storage where
  "blank_storage = \<lparr>items = Map.empty, blocked = False, refuses = \<lambda>_ _. False\<rparr>"

lemma blank_storage_writable [simp]: "storage_writable blank_storage"
  by (simp add: storage_writable_def blank_storage_def)

lemma blank_storage_session [simp]: "stored_session blank_storage = None"
  by (simp add: stored_session_def blank_storage_def getItem_def)

lemma sample_user_ok [simp]: "user_ok sample_user"
  by (auto simp: user_ok_def sample_user_def intro: exI [of _ ANALYST] exI [of _ ACTIVE])

lemma sample_login_ok [simp]: "session_ok (login_session 0 sample_login)"
  by (simp add: session_ok_def login_session_def sample_login_def)



section \<open>The session\<close>



text \<open>
  C9. Signed out stays signed out: without the answer to a login, no late answer to an earlier request
  (of the current user, of a locale change), no timer and no effect brings a session back.
\<close>

theorem no_session_without_login:
  assumes "\<forall>e\<in>set es. \<not> is_login e" "session p = None"
  shows "session (run_events es p) = None"
  using assms by (rule signed_out_stays)

theorem no_session_without_login_witness:
  "session (run_events [SyncAnswer 0 sample_user, LocaleAnswer 0 sample_user, FlushEffects 5]
     (logout False (login_response 0 sample_login (mount_auth 0 0 blank_storage)))) = None"
  by (rule no_session_without_login) (simp_all add: is_login_def logout_def)



text \<open>
  Loading the stored session never restores an expired one: it is the session the stored text
  stands for, unless that has expired or the text stands for none.
\<close>

lemma load_restores_live_session:
  assumes "storage_writable st"
  shows "fst (loadAuthSession now st) =
    (case stored_session st of Some s \<Rightarrow> if expired now s then None else Some s | None \<Rightarrow> None)"
  using loadAuthSession_spec(1) [OF _ assms] by (metis prod.collapse)

section \<open>The HTTP client\<close>


text \<open>
  Every request of the catalogue goes below the root of the API, carries the session's token and no
  other credentials, and has a method and a body exactly when it changes something.
\<close>

lemma catalogue_requests:
  assumes "api_call m = Inr (path, init)"
  shows "req_url (build_request c path init) = API_ROOT @ path \<and> startsWith path (js ''/'') \<and>
    (req_method (build_request c path init) \<noteq> None \<longleftrightarrow> mutates m) \<and> (req_body (build_request c path init) \<noteq> None \<longleftrightarrow> mutates m) \<and>
    map_get (req_headers (build_request c path init)) (js ''authorization'') =
      (case client_token c of Some t \<Rightarrow> if t = [] then None else Some (js ''Bearer '' @ t) | None \<Rightarrow> None)"
proof -
  have fields: "req_url (build_request c path init) = API_ROOT @ path"
    "req_method (build_request c path init) = init_method init" "req_body (build_request c path init) = init_body init"
    by (simp_all add: build_request_def Let_def)
  have "init_headers init = []" using api_call_method(3) [OF assms] .
  then have "map_get (req_headers (build_request c path init)) (js ''authorization'') =
      (case client_token c of Some t \<Rightarrow> if t = [] then None else Some (js ''Bearer '' @ t) | None \<Rightarrow> None)"
    using build_request_authorization [of c path init] by (simp split: option.splits)
  with fields api_call_method [OF assms] show ?thesis by simp
qed

text \<open>
  C12. The query string of a request reads back as the values it was built from: empty and absent ones
  are left out, a list gives one parameter per element, and no character of a name or a value is lost.
\<close>

theorem query_string_round_trip:
  assumes "distinct (map fst kvs)" "params_ok (concat (map expand_query kvs))"
  shows "params_of_string (buildQuery kvs) = concat (map expand_query kvs)"
  using assms by (rule buildQuery_read)

theorem query_string_round_trip_witness:
  "params_of_string (buildQuery [(js ''domain'', QText (js ''a&b=c d'')), (js ''ruleCode'', QNone)]) = [(js ''domain'', js ''a&b=c d'')]"
  by (subst query_string_round_trip) (simp_all add: expand_query_def params_ok_def)

text \<open>
  An event id in a path is one segment: whatever its characters, its encoded form has none that ends
  a segment, a path or a query.
\<close>

lemma event_id_is_one_segment:
  assumes "encodeURIComponent eventId = Inr e" "text_units eventId"
  shows "set e \<inter> {47, 63, 35, 38, 32} = {} \<and> set e \<subseteq> {0..<128}"
  using encodeURIComponent_segment [OF assms] by auto

section \<open>Parameters in the address\<close>

text \<open>
  The time range carried to another page is the one of this page: the link exists exactly for a
  valid filter that was chosen, and the filter read from it has the same preset, query and interval.
\<close>

lemma time_scope_carried:
  assumes "params_ok ps" "params_get ps (js ''timePreset'') \<noteq> None" "tf_valid (readTimeFilter date_parse ps)"
  shows "\<exists>s. navigationTimeScope date_parse ps = Some s \<and>
    tf_valid (readTimeFilter date_parse (params_of_string s)) \<and>
    tf_preset (readTimeFilter date_parse (params_of_string s)) = tf_preset (readTimeFilter date_parse ps) \<and>
    tf_query (readTimeFilter date_parse (params_of_string s)) = tf_query (readTimeFilter date_parse ps) \<and>
    tf_interval (readTimeFilter date_parse (params_of_string s)) = tf_interval (readTimeFilter date_parse ps)"
proof -
  obtain s where "navigationTimeScope date_parse ps = Some s" using assms(2,3) navigationTimeScope_defined by blast
  with navigationTimeScope_read [OF this assms(1)] show ?thesis by blast
qed

text \<open>
  The link to an event reads back as the event it was made for, and its way back is the list with
  that event selected.
\<close>

lemma event_link_round_trip:
  assumes "params_ok ps" "text_units eventId" "text_units occurredAt" "0 < endpointId" "endpointId < 2 ^ 53"
  shows "positiveInteger (params_get (params_of_string (eventDetailSearch ps eventId endpointId occurredAt)) (js ''endpointId'')) = Some endpointId \<and>
    params_get (params_of_string (eventDetailSearch ps eventId endpointId occurredAt)) (js ''occurredAt'') = Some occurredAt \<and>
    safeReturnPath (params_of_string (eventDetailSearch ps eventId endpointId occurredAt)) fallback =
      js ''/events?'' @ params_to_string (params_set ps (js ''selected'') eventId)"
  using eventDetailSearch_read [OF assms] by blast

text \<open>
  Writing parameters changes those named and, when asked, drops the page; every other parameter
  keeps its value.
\<close>

lemma parameters_written:
  assumes "distinct (map fst us)"
  shows "params_get (updateParams ps us reset) j =
    (if reset \<and> j = js ''page'' then None else case map_of us j of Some v \<Rightarrow> written v | None \<Rightarrow> params_get ps j)"
  using assms by (rule updateParams_get)

text \<open>
  A list of endpoint ids survives the address: at most 100 distinct positive ids, printed with
  commas, are read back in order; and whatever text is there, what is read is such a list.
\<close>

lemma endpoint_ids_round_trip:
  assumes "distinct ids" "\<forall>i\<in>set ids. 0 < i \<and> i < 2 ^ 53" "length ids \<le> 100"
  shows "parseEndpointIds (Some (join 44 (map show_int ids))) = ids \<and>
    distinct (parseEndpointIds raw) \<and> set (parseEndpointIds raw) \<subseteq> {0<..} \<and> length (parseEndpointIds raw) \<le> 100"
  using parseEndpointIds_join [OF assms] parseEndpointIds_ok [of raw] by auto

end
