(* ===== verification/ProcessTree.thy ===== *)
theory ProcessTree
  imports Contracts JsDate
begin

text \<open>
  The process tree of an event (\<open>features/processTree.ts\<close>): one process per pid, children under
  their parents in the order of time, every process exactly once even when the parent pids form a
  cycle.  The recursive \<open>visit\<close> is run over its stack of calls: the children of a visited process go
  in front of what is left to visit.
\<close>

record ProcessTreeNode =
  pt_event :: EventDto
  pt_depth :: nat
  pt_orphaned :: bool
  pt_selected :: bool

definition processTreeWindow :: "date_parser \<Rightarrow> jsstring \<Rightarrow> js_error + jsstring \<times> jsstring" where
  "processTreeWindow date_parse occurredAt =
     (let pivot = date_parse occurredAt;
          shift = (\<lambda>ms. toISOString (case pivot of None \<Rightarrow> None | Some t \<Rightarrow> time_clip (t + ms)))
      in case shift (- (30 * 60000)) of
           Inl e \<Rightarrow> Inl e
         | Inr f \<Rightarrow> (case shift (5 * 60000) of Inl e \<Rightarrow> Inl e | Inr t \<Rightarrow> Inr (f, t)))"

definition is_process :: "EventDto \<Rightarrow> bool" where
  "is_process e \<longleftrightarrow> ev_eventType e = PROCESS_EXECUTION \<and> ev_pid e \<noteq> None"

abbreviation pid_of :: "EventDto \<Rightarrow> int" where
  "pid_of e \<equiv> the (ev_pid e)"

definition record_process :: "date_parser \<Rightarrow> (int, EventDto) jsmap \<Rightarrow> EventDto \<Rightarrow> (int, EventDto) jsmap" where
  "record_process date_parse byPid e =
     (if \<not> is_process e then byPid
      else case map_get byPid (pid_of e) of
             None \<Rightarrow> map_set byPid (pid_of e) e
           | Some existing \<Rightarrow>
               if parsed_not_before date_parse (ev_occurredAt e) (ev_occurredAt existing)
               then map_set byPid (pid_of e) e else byPid)"

definition processes_by_pid :: "date_parser \<Rightarrow> EventDto list \<Rightarrow> (int, EventDto) jsmap" where
  "processes_by_pid date_parse events = foldl (record_process date_parse) [] events"

definition is_root :: "(int, EventDto) jsmap \<Rightarrow> EventDto \<Rightarrow> bool" where
  "is_root byPid e \<longleftrightarrow>
     (case ev_ppid e of None \<Rightarrow> True | Some pp \<Rightarrow> pp = pid_of e \<or> map_get byPid pp = None)"

definition attach_process ::
  "(int, EventDto) jsmap \<Rightarrow> EventDto list \<times> (int, EventDto list) jsmap \<Rightarrow> EventDto \<Rightarrow> EventDto list \<times> (int, EventDto list) jsmap" where
  "attach_process byPid acc e =
     (case acc of (roots, children) \<Rightarrow>
        if is_root byPid e then (roots @ [e], children)
        else let pp = the (ev_ppid e);
                 siblings = (case map_get children pp of Some ss \<Rightarrow> ss | None \<Rightarrow> [])
             in (roots, map_set children pp (siblings @ [e])))"

definition chronological :: "date_parser \<Rightarrow> EventDto \<Rightarrow> EventDto \<Rightarrow> int" where
  "chronological date_parse l r =
     (let d = parsed_difference date_parse (ev_occurredAt l) (ev_occurredAt r)
      in if d \<noteq> 0 then d
         else (case ev_pid l of Some p \<Rightarrow> p | None \<Rightarrow> 0) - (case ev_pid r of Some p \<Rightarrow> p | None \<Rightarrow> 0))"

text \<open>One node, and the walk over the events still to visit with their depths.\<close>

definition tree_node :: "(int, EventDto) jsmap \<Rightarrow> int option \<Rightarrow> EventDto \<Rightarrow> nat \<Rightarrow> ProcessTreeNode" where
  "tree_node byPid selectedPid e depth =
     \<lparr>pt_event = e, pt_depth = depth,
      pt_orphaned = (case ev_ppid e of None \<Rightarrow> False | Some pp \<Rightarrow> pp \<noteq> pid_of e \<and> map_get byPid pp = None),
      pt_selected = (selectedPid \<noteq> None \<and> ev_pid e = selectedPid)\<rparr>"

definition children_of :: "(int, EventDto list) jsmap \<Rightarrow> int \<Rightarrow> EventDto list" where
  "children_of children p = (case map_get children p of Some ss \<Rightarrow> ss | None \<Rightarrow> [])"

definition pids_below :: "(int, EventDto list) jsmap \<Rightarrow> (EventDto \<times> nat) list \<Rightarrow> int set" where
  "pids_below children todo = (\<Union>(k, ss)\<in>set children. pid_of ` set ss) \<union> pid_of ` fst ` set todo"

lemma finite_pids_below: "finite (pids_below children todo)"
  by (auto simp: pids_below_def)

lemma children_of_below: "pid_of ` set (children_of children p) \<subseteq> (\<Union>(k, ss)\<in>set children. pid_of ` set ss)"
proof (cases "map_get children p")
  case (Some ss)
  then have "(p, ss) \<in> set children" by (rule map_of_SomeD)
  with Some show ?thesis by (force simp: children_of_def)
qed (simp add: children_of_def)

text \<open>What is left to visit gets less with every call: the measure of the walk.\<close>

lemma pids_below_skip:
  "card (pids_below children todo - set visited) \<le> card (pids_below children ((e, depth) # todo) - set visited)"
  by (intro card_mono) (auto simp: finite_pids_below, auto simp: pids_below_def)

lemma pids_below_visit:
  assumes "pid_of e \<notin> set visited"
  shows "card (pids_below children (map (\<lambda>c. (c, d)) (children_of children (pid_of e)) @ todo) - set (visited @ [pid_of e]))
    < card (pids_below children ((e, depth) # todo) - set visited)"
proof -
  let ?todo = "map (\<lambda>c. (c, d)) (children_of children (pid_of e)) @ todo"
  have "pids_below children ?todo \<subseteq> pids_below children ((e, depth) # todo)"
    using children_of_below [of children "pid_of e"] by (auto simp: pids_below_def)
  moreover have "pid_of e \<in> pids_below children ((e, depth) # todo) - set visited"
    using assms by (simp add: pids_below_def)
  ultimately have "pids_below children ?todo - set (visited @ [pid_of e]) \<subset> pids_below children ((e, depth) # todo) - set visited"
    by auto
  then show ?thesis by (intro psubset_card_mono) (simp_all add: finite_pids_below)
qed

function visit_all ::
  "(EventDto \<Rightarrow> nat \<Rightarrow> ProcessTreeNode) \<Rightarrow> (int, EventDto list) jsmap \<Rightarrow> int list \<Rightarrow> ProcessTreeNode list
   \<Rightarrow> (EventDto \<times> nat) list \<Rightarrow> int list \<times> ProcessTreeNode list" where
  "visit_all mk children visited nodes [] = (visited, nodes)"
| "visit_all mk children visited nodes ((e, depth) # todo) =
     (if ev_pid e = None \<or> pid_of e \<in> set visited then visit_all mk children visited nodes todo
      else visit_all mk children (visited @ [pid_of e]) (nodes @ [mk e depth])
             (map (\<lambda>c. (c, min (depth + 1) 12)) (children_of children (pid_of e)) @ todo))"
  by pat_completeness auto
termination
proof (relation "measures [\<lambda>(mk, children, visited, nodes, todo). card (pids_below children todo - set visited),
      \<lambda>(mk, children, visited, nodes, todo). length todo]", goal_cases)
  case (2 mk children visited nodes e depth todo)
  show ?case using pids_below_skip [of children todo visited e depth] by (auto simp: le_less)
next
  case (3 mk children visited nodes e depth todo)
  then show ?case using pids_below_visit [of e visited children "min (depth + 1) 12" todo depth] by simp
qed simp

definition buildProcessTree :: "date_parser \<Rightarrow> EventDto list \<Rightarrow> int option \<Rightarrow> ProcessTreeNode list" where
  "buildProcessTree date_parse events selectedPid =
     (let byPid = processes_by_pid date_parse events;
          (roots, children) = foldl (attach_process byPid) ([], []) (map_values byPid);
          roots = js_sort (chronological date_parse) roots;
          children = map (\<lambda>(k, ss). (k, js_sort (chronological date_parse) ss)) children;
          mk = tree_node byPid selectedPid;
          (visited, nodes) = visit_all mk children [] [] (map (\<lambda>e. (e, 0)) roots);
          (visited, nodes) = visit_all mk children visited nodes
            (map (\<lambda>e. (e, 0)) (js_sort (chronological date_parse) (map_values byPid)))
      in nodes)"

section \<open>What the walk produces\<close>

abbreviation node_pids :: "ProcessTreeNode list \<Rightarrow> int list" where
  "node_pids ns \<equiv> map (\<lambda>n. pid_of (pt_event n)) ns"

definition links :: "ProcessTreeNode list \<Rightarrow> EventDto \<Rightarrow> nat \<Rightarrow> bool" where
  "links ns e depth \<longleftrightarrow> 0 < depth \<longrightarrow>
     (\<exists>n\<in>set ns. ev_ppid e = ev_pid (pt_event n) \<and> depth = min (pt_depth n + 1) 12)"

text \<open>Every node below a root comes after its parent and one level deeper, up to level 12.\<close>

fun linked :: "ProcessTreeNode list \<Rightarrow> ProcessTreeNode list \<Rightarrow> bool" where
  "linked before [] = True"
| "linked before (n # ns) = (links before (pt_event n) (pt_depth n) \<and> linked (before @ [n]) ns)"

lemma linked_snoc: "linked before (ns @ [n]) \<longleftrightarrow> linked before ns \<and> links (before @ ns) (pt_event n) (pt_depth n)"
  by (induction ns arbitrary: before) auto

lemma links_mono: "links ns e d \<Longrightarrow> links (ns @ ms) e d"
  by (auto simp: links_def)

definition walk_ok :: "int list \<Rightarrow> ProcessTreeNode list \<Rightarrow> (EventDto \<times> nat) list \<Rightarrow> bool" where
  "walk_ok visited nodes todo \<longleftrightarrow>
     visited = node_pids nodes \<and> distinct visited \<and> linked [] nodes \<and> (\<forall>n\<in>set nodes. pt_depth n \<le> 12) \<and>
     (\<forall>(e, d)\<in>set todo. d \<le> 12 \<and> links nodes e d)"

definition children_ok :: "(int, EventDto list) jsmap \<Rightarrow> bool" where
  "children_ok children \<longleftrightarrow> (\<forall>p. \<forall>c\<in>set (children_of children p). ev_ppid c = Some p)"

lemma walk_ok_step:
  assumes "walk_ok visited nodes ((e, depth) # todo)" "ev_pid e \<noteq> None" "pid_of e \<notin> set visited"
    and "children_ok children" "pt_event (mk e depth) = e" "pt_depth (mk e depth) = depth"
  shows "walk_ok (visited @ [pid_of e]) (nodes @ [mk e depth])
    (map (\<lambda>c. (c, min (depth + 1) 12)) (children_of children (pid_of e)) @ todo)"
proof -
  have "links (nodes @ [mk e depth]) c (min (depth + 1) 12)" if "c \<in> set (children_of children (pid_of e))" for c
    using that assms(2,4-6) by (auto simp: links_def children_ok_def)
  with assms show ?thesis
    by (auto simp: walk_ok_def linked_snoc intro: links_mono)
qed

lemma visit_all_ok:
  assumes "visit_all mk children visited nodes todo = (visited', nodes')"
    and "walk_ok visited nodes todo" "children_ok children"
    and "\<And>e d. pt_event (mk e d) = e" "\<And>e d. pt_depth (mk e d) = d"
  shows "walk_ok visited' nodes' []"
  using assms
proof (induction mk children visited nodes todo rule: visit_all.induct)
  case (2 mk children visited nodes e depth todo)
  show ?case
  proof (cases "ev_pid e = None \<or> pid_of e \<in> set visited")
    case True
    moreover have "walk_ok visited nodes todo" using "2.prems"(2) by (auto simp: walk_ok_def)
    ultimately show ?thesis using "2.IH"(1) "2.prems" by simp
  next
    case False
    let ?todo = "map (\<lambda>c. (c, min (depth + 1) 12)) (children_of children (pid_of e)) @ todo"
    have r: "visit_all mk children (visited @ [pid_of e]) (nodes @ [mk e depth]) ?todo = (visited', nodes')"
      using "2.prems"(1) False by simp
    have "walk_ok (visited @ [pid_of e]) (nodes @ [mk e depth]) ?todo"
      using False "2.prems" by (intro walk_ok_step) auto
    from "2.IH"(2) [OF False r this "2.prems"(3-5)] show ?thesis .
  qed
qed simp

lemma visit_all_visited_mono: "visit_all mk children visited nodes todo = (visited', nodes') \<Longrightarrow> set visited \<subseteq> set visited'"
  by (induction mk children visited nodes todo rule: visit_all.induct) (auto split: if_splits)

lemma visit_all_visits:
  "visit_all mk children visited nodes todo = (visited', nodes') \<Longrightarrow> (e, d) \<in> set todo \<Longrightarrow> ev_pid e \<noteq> None \<Longrightarrow>
   pid_of e \<in> set visited'"
proof (induction mk children visited nodes todo arbitrary: e d rule: visit_all.induct)
  case (2 mk children visited nodes e' depth todo)
  show ?case
  proof (cases "ev_pid e' = None \<or> pid_of e' \<in> set visited")
    case True
    then have r: "visit_all mk children visited nodes todo = (visited', nodes')" using "2.prems"(1) by simp
    show ?thesis
    proof (cases "e = e'")
      case True
      with \<open>ev_pid e' = None \<or> pid_of e' \<in> set visited\<close> "2.prems"(3) visit_all_visited_mono [OF r] show ?thesis by auto
    next
      case False
      then have "(e, d) \<in> set todo" using "2.prems"(2) by auto
      with "2.IH"(1) [OF \<open>ev_pid e' = None \<or> pid_of e' \<in> set visited\<close> r] "2.prems"(3) show ?thesis by simp
    qed
  next
    case False
    let ?todo = "map (\<lambda>c. (c, min (depth + 1) 12)) (children_of children (pid_of e')) @ todo"
    have r: "visit_all mk children (visited @ [pid_of e']) (nodes @ [mk e' depth]) ?todo = (visited', nodes')"
      using "2.prems"(1) False by simp
    show ?thesis
    proof (cases "(e, d) \<in> set todo")
      case True
      then have "(e, d) \<in> set ?todo" by simp
      from "2.IH"(2) [OF False r this "2.prems"(3)] show ?thesis .
    next
      case False
      then show ?thesis using visit_all_visited_mono [OF r] "2.prems"(2) by auto
    qed
  qed
qed simp

lemma visit_all_events:
  assumes "visit_all mk children visited nodes todo = (visited', nodes')"
    and "\<forall>n\<in>set nodes. \<exists>e d. n = mk e d \<and> P e" "\<forall>(e, d)\<in>set todo. P e"
    and "\<forall>p. \<forall>c\<in>set (children_of children p). P c"
  shows "\<forall>n\<in>set nodes'. \<exists>e d. n = mk e d \<and> P e"
  using assms
proof (induction mk children visited nodes todo rule: visit_all.induct)
  case (2 mk children visited nodes e depth todo)
  show ?case
  proof (cases "ev_pid e = None \<or> pid_of e \<in> set visited")
    case True
    then show ?thesis using "2.IH"(1) "2.prems" by simp
  next
    case False
    have "\<forall>n\<in>set (nodes @ [mk e depth]). \<exists>e d. n = mk e d \<and> P e" using "2.prems"(2,3) by auto
    moreover have "\<forall>(e, d)\<in>set (map (\<lambda>c. (c, min (depth + 1) 12)) (children_of children (pid_of e)) @ todo). P e"
      using "2.prems"(3,4) by auto
    ultimately show ?thesis using "2.IH"(2) [OF False] "2.prems"(1,4) False by simp
  qed
qed simp

section \<open>The processes, their children and roots\<close>

text \<open>The map holds, for every pid of a process event, a process event with that pid.\<close>

definition by_pid_ok :: "EventDto list \<Rightarrow> (int, EventDto) jsmap \<Rightarrow> bool" where
  "by_pid_ok events byPid \<longleftrightarrow> distinct (map_keys byPid) \<and>
     (\<forall>(p, e)\<in>set byPid. e \<in> set events \<and> is_process e \<and> pid_of e = p) \<and>
     set (map_keys byPid) = pid_of ` {e \<in> set events. is_process e}"

lemma record_process_cases:
  "record_process date_parse byPid e \<in> {byPid, map_set byPid (pid_of e) e}"
  "\<not> is_process e \<Longrightarrow> record_process date_parse byPid e = byPid"
  by (auto simp: record_process_def split: option.splits)

lemma record_process_key:
  assumes "is_process e"
  shows "pid_of e \<in> set (map_keys (record_process date_parse byPid e))"
proof (cases "map_get byPid (pid_of e)")
  case None
  then have "record_process date_parse byPid e = map_set byPid (pid_of e) e" using assms by (simp add: record_process_def)
  then show ?thesis by simp
next
  case (Some x)
  then have "pid_of e \<in> set (map_keys byPid)" by (rule map_get_keys)
  then show ?thesis
    using record_process_cases(1) [of date_parse byPid e] by auto
qed

lemma by_pid_ok_step:
  assumes "by_pid_ok es byPid"
  shows "by_pid_ok (es @ [e]) (record_process date_parse byPid e)"
proof (cases "is_process e")
  case True
  from record_process_cases(1) [of date_parse byPid e] consider
      (same) "record_process date_parse byPid e = byPid"
    | (put) "record_process date_parse byPid e = map_set byPid (pid_of e) e" by auto
  then show ?thesis
  proof cases
    case same
    then have "pid_of e \<in> set (map_keys byPid)" using record_process_key [OF True, of date_parse byPid] by simp
    with same assms True show ?thesis by (auto simp: by_pid_ok_def)
  next
    case put
    have "distinct (map_keys (map_set byPid (pid_of e) e))" using assms by (simp add: by_pid_ok_def)
    moreover have "\<forall>(p, x)\<in>set (map_set byPid (pid_of e) e). x \<in> set (es @ [e]) \<and> is_process x \<and> pid_of x = p"
      using assms True set_map_set [of "pid_of e" e byPid] by (fastforce simp: by_pid_ok_def)
    moreover have "fst ` set (map_set byPid (pid_of e) e) = pid_of ` {x \<in> set (es @ [e]). is_process x}"
      using assms True by (auto simp: by_pid_ok_def)
    ultimately show ?thesis by (simp add: by_pid_ok_def put)
  qed
next
  case False
  then have "{x \<in> set (es @ [e]). is_process x} = {x \<in> set es. is_process x}" by auto
  with False assms show ?thesis by (auto simp: by_pid_ok_def record_process_cases(2))
qed

lemma processes_by_pid_ok: "by_pid_ok events (processes_by_pid date_parse events)"
proof (induction events rule: rev_induct)
  case (snoc e events)
  then show ?case using by_pid_ok_step by (simp add: processes_by_pid_def)
qed (simp add: processes_by_pid_def by_pid_ok_def)

lemma attach_all: "fst (foldl (attach_process byPid) (roots, children) es) = roots @ filter (is_root byPid) es"
  by (induction es arbitrary: roots children) (auto simp: attach_process_def Let_def)

text \<open>Every attached event has its parent's pid as key.\<close>

definition attached :: "(int, EventDto list) jsmap \<Rightarrow> EventDto set \<Rightarrow> bool" where
  "attached children es \<longleftrightarrow> (\<forall>(p, ss)\<in>set children. \<forall>c\<in>set ss. ev_ppid c = Some p \<and> c \<in> es)"

lemma attached_step:
  assumes "attached children es" "\<not> is_root byPid e"
  shows "attached (snd (attach_process byPid (roots, children) e)) (insert e es)"
proof -
  obtain pp where pp: "ev_ppid e = Some pp" using assms(2) by (auto simp: is_root_def split: option.splits)
  define ss where "ss = (case map_get children pp of Some ss \<Rightarrow> ss | None \<Rightarrow> [])"
  have ss: "\<forall>c\<in>set ss. ev_ppid c = Some pp \<and> c \<in> es"
  proof (cases "map_get children pp")
    case (Some xs)
    then have "(pp, xs) \<in> set children" by (rule map_of_SomeD)
    with Some assms(1) show ?thesis by (auto simp: ss_def attached_def)
  qed (simp add: ss_def)
  have "snd (attach_process byPid (roots, children) e) = map_set children pp (ss @ [e])"
    using assms(2) by (simp add: attach_process_def Let_def ss_def pp)
  moreover have "\<forall>(p, xs)\<in>set (map_set children pp (ss @ [e])). \<forall>c\<in>set xs. ev_ppid c = Some p \<and> c \<in> insert e es"
    using set_map_set [of pp "ss @ [e]" children] ss pp assms(1) unfolding attached_def by fastforce
  ultimately show ?thesis by (simp add: attached_def)
qed

lemma attached_all:
  "attached children A \<Longrightarrow> attached (snd (foldl (attach_process byPid) (roots, children) es)) (A \<union> set es)"
proof (induction es arbitrary: roots children A)
  case (Cons e es)
  show ?case
  proof (cases "is_root byPid e")
    case True
    then have "attach_process byPid (roots, children) e = (roots @ [e], children)" by (simp add: attach_process_def)
    moreover have "attached children (insert e A)" using Cons.prems by (fastforce simp: attached_def)
    ultimately show ?thesis using Cons.IH [of children "insert e A" "roots @ [e]"] by simp
  next
    case False
    obtain r c where rc: "attach_process byPid (roots, children) e = (r, c)" by fastforce
    then have "attached c (insert e A)" using attached_step [OF Cons.prems False, of roots] by simp
    then show ?thesis using Cons.IH [of c "insert e A" r] rc by simp
  qed
qed simp

lemma attached_children_of:
  assumes "attached children A" "c \<in> set (children_of (map (\<lambda>(k, ss). (k, js_sort cmp ss)) children) p)"
  shows "ev_ppid c = Some p \<and> c \<in> A"
proof -
  have "map_get (map (\<lambda>(k, ss). (k, js_sort cmp ss)) children) p = map_option (js_sort cmp) (map_get children p)"
    by (induction children) auto
  with assms(2) obtain ss where "map_get children p = Some ss" "c \<in> set ss"
    by (cases "map_get children p") (auto simp: children_of_def)
  with assms(1) show ?thesis by (auto simp: attached_def dest!: map_of_SomeD)
qed

lemma walk_ok_start: "walk_ok [] [] (map (\<lambda>e. (e, 0)) es)"
  by (auto simp: walk_ok_def links_def)

lemma walk_ok_restart: "walk_ok visited nodes [] \<Longrightarrow> walk_ok visited nodes (map (\<lambda>e. (e, 0)) es)"
  by (auto simp: walk_ok_def links_def)

text \<open>The tree: its nodes are exactly the processes, once each, below their parents.\<close>

theorem buildProcessTree_spec:
  fixes date_parse events selectedPid
  defines "byPid \<equiv> processes_by_pid date_parse events" and "ns \<equiv> buildProcessTree date_parse events selectedPid"
  shows "distinct (node_pids ns)" "set (node_pids ns) = pid_of ` {e \<in> set events. is_process e}"
    and "linked [] ns" "\<forall>n\<in>set ns. pt_depth n \<le> 12"
    and "\<forall>n\<in>set ns. n = tree_node byPid selectedPid (pt_event n) (pt_depth n) \<and>
           map_get byPid (pid_of (pt_event n)) = Some (pt_event n)"
proof -
  define ch where "ch = map (\<lambda>(k, ss). (k, js_sort (chronological date_parse) ss))
    (snd (foldl (attach_process byPid) ([], []) (map_values byPid)))"
  define roots where "roots = js_sort (chronological date_parse) (filter (is_root byPid) (map_values byPid))"
  define rest where "rest = js_sort (chronological date_parse) (map_values byPid)"
  let ?mk = "tree_node byPid selectedPid"
  obtain v1 n1 where r1: "visit_all ?mk ch [] [] (map (\<lambda>e. (e, 0)) roots) = (v1, n1)" by fastforce
  obtain v2 n2 where r2: "visit_all ?mk ch v1 n1 (map (\<lambda>e. (e, 0)) rest) = (v2, n2)" by fastforce
  have ns: "ns = n2"
  proof -
    obtain rts c where f: "foldl (attach_process byPid) ([], []) (map_values byPid) = (rts, c)" by fastforce
    then have "rts = filter (is_root byPid) (map_values byPid)"
      using attach_all [of byPid "[]" "[]" "map_values byPid"] by simp
    then show ?thesis
      using r1 r2 f by (simp add: ns_def buildProcessTree_def Let_def byPid_def [symmetric] ch_def roots_def rest_def)
  qed
  have mk: "pt_event (?mk e d) = e" "pt_depth (?mk e d) = d" for e d by (simp_all add: tree_node_def)
  have ok: "by_pid_ok events byPid" unfolding byPid_def by (rule processes_by_pid_ok)
  have att: "attached (snd (foldl (attach_process byPid) ([], []) (map_values byPid))) (set (map_values byPid))"
    using attached_all [of "[]" "{}" byPid "[]" "map_values byPid"] by (simp add: attached_def)
  have ch: "ev_ppid c = Some p \<and> c \<in> set (map_values byPid)" if "c \<in> set (children_of ch p)" for c p
    using attached_children_of [OF att] that unfolding ch_def by blast
  then have "children_ok ch" by (simp add: children_ok_def)
  then have w: "walk_ok v2 n2 []"
    using visit_all_ok [OF r2 walk_ok_restart [OF visit_all_ok [OF r1 walk_ok_start]]] mk by simp
  then show "distinct (node_pids ns)" "linked [] ns" "\<forall>n\<in>set ns. pt_depth n \<le> 12"
    by (auto simp: walk_ok_def ns)
  have vals: "e \<in> set (map_values byPid) \<Longrightarrow> map_get byPid (pid_of e) = Some e \<and> is_process e" for e
    using ok by (auto simp: by_pid_ok_def intro!: map_of_is_SomeI)
  have ev: "\<forall>n\<in>set n2. \<exists>e d. n = ?mk e d \<and> e \<in> set (map_values byPid)"
    using visit_all_events [OF r2 visit_all_events [OF r1], of "\<lambda>e. e \<in> set (map_values byPid)"] ch
    by (simp add: roots_def rest_def ball_Un)
  then show shown: "\<forall>n\<in>set ns. n = ?mk (pt_event n) (pt_depth n) \<and> map_get byPid (pid_of (pt_event n)) = Some (pt_event n)"
    using vals mk unfolding ns by metis
  have "pid_of (pt_event n) \<in> set (map_keys byPid)" if "n \<in> set n2" for n
    using shown that map_get_keys [of byPid "pid_of (pt_event n)"] unfolding ns by blast
  then have sub: "set (node_pids n2) \<subseteq> set (map_keys byPid)" unfolding set_map by blast
  have visits: "pid_of e \<in> set v2" if "e \<in> set (map_values byPid)" for e
    using visit_all_visits [OF r2, of e 0] that vals by (auto simp: rest_def is_process_def)
  have keys: "p \<in> set v2" if "p \<in> set (map_keys byPid)" for p
  proof -
    from that obtain e where e: "(p, e) \<in> set byPid" by auto
    then have "pid_of e = p" using ok by (auto simp: by_pid_ok_def)
    with visits [of e] e show ?thesis by force
  qed
  have "set (node_pids n2) = set v2" using w by (simp add: walk_ok_def)
  with keys sub have "set (node_pids ns) = set (map_keys byPid)" unfolding ns by blast
  with ok show "set (node_pids ns) = pid_of ` {e \<in> set events. is_process e}" by (simp add: by_pid_ok_def)
qed

text \<open>The event shown for a pid is the latest execution of that process.\<close>

lemma processes_by_pid_latest:
  assumes "\<forall>e\<in>set events. is_process e \<longrightarrow> date_parse (ev_occurredAt e) \<noteq> None"
    and "map_get (processes_by_pid date_parse events) p = Some e" "e' \<in> set events" "is_process e'" "pid_of e' = p"
  shows "the (date_parse (ev_occurredAt e')) \<le> the (date_parse (ev_occurredAt e))"
  using assms
proof (induction events arbitrary: e e' rule: rev_induct)
  case (snoc x events)
  let ?m = "processes_by_pid date_parse events"
  let ?t = "\<lambda>e. the (date_parse (ev_occurredAt e))"
  have m: "processes_by_pid date_parse (events @ [x]) = record_process date_parse ?m x"
    by (simp add: processes_by_pid_def)
  have hyp: "\<forall>e\<in>set events. is_process e \<longrightarrow> date_parse (ev_occurredAt e) \<noteq> None" using snoc.prems(1) by simp
  note IH = snoc.IH [OF hyp]
  have mem: "a \<in> set events \<and> is_process a" if "map_get ?m q = Some a" for q a
    using processes_by_pid_ok [of events date_parse] map_of_SomeD [OF that] by (auto simp: by_pid_ok_def)
  show ?case
  proof (cases "is_process x \<and> pid_of x = p")
    case False
    then have "map_get (record_process date_parse ?m x) p = map_get ?m p"
      by (auto simp: record_process_def split: option.split)
    moreover have "e' \<in> set events" using snoc.prems False by auto
    ultimately show ?thesis using IH snoc.prems m by simp
  next
    case x: True
    have dx: "date_parse (ev_occurredAt x) \<noteq> None" using snoc.prems(1) x by simp
    show ?thesis
    proof (cases "map_get ?m p")
      case None
      have "pid_of e'' \<noteq> p" if "e'' \<in> set events" "is_process e''" for e''
        using processes_by_pid_ok [of events date_parse] None that
        by (auto simp: by_pid_ok_def map_of_eq_None_iff image_iff)
      then have "e' = x" using snoc.prems by auto
      moreover have "e = x" using snoc.prems(2) m x None by (simp add: record_process_def)
      ultimately show ?thesis by simp
    next
      case (Some a)
      obtain s where s: "date_parse (ev_occurredAt a) = Some s" using mem [OF Some] hyp by auto
      obtain t where t: "date_parse (ev_occurredAt x) = Some t" using dx by auto
      have e: "e = (if s \<le> t then x else a)"
        using snoc.prems(2) m x Some s t by (auto simp: record_process_def parsed_not_before_def)
      have "?t e'' \<le> s" if "e'' \<in> set events" "is_process e''" "pid_of e'' = p" for e''
        using IH [OF Some that] s by simp
      then show ?thesis using snoc.prems(3-5) e s t by force
    qed
  qed
qed simp

end
