(* ===== verification/Investigation.thy ===== *)
theory Investigation
  imports ApiClient
begin

text \<open>
  The queues of alerts and incidents and the investigation of an incident
  (\<open>features/alertTriage.ts\<close>, \<open>features/incidentInvestigation.ts\<close>) and the presentation of events
  (\<open>features/eventPresentation.ts\<close>).  A query is the list of its defined members in the order the
  source writes them, ready for \<open>buildQuery\<close>.
\<close>

section \<open>The alert queue\<close>

definition nextActionableAlert :: "AlertDto list \<Rightarrow> int \<Rightarrow> AlertDto option" where
  "nextActionableAlert xs currentAlertId =
     (let actionable = filter (\<lambda>a. alert_status a \<noteq> RESOLVED \<and> alert_alertId a \<noteq> currentAlertId) xs
      in if actionable = [] then None
         else (case find_index (\<lambda>a. alert_alertId a = currentAlertId) xs of
                 None \<Rightarrow> Some (hd actionable)
               | Some i \<Rightarrow>
                   (case List.find (\<lambda>a. alert_status a \<noteq> RESOLVED) (drop (i + 1) xs) of
                      Some a \<Rightarrow> Some a | None \<Rightarrow> Some (hd actionable))))"

definition alertDetailUrl :: "int \<Rightarrow> search_params \<Rightarrow> jsstring" where
  "alertDetailUrl alertId ps =
     js ''/alerts/'' @ id_segment alertId @ js ''?'' @
       params_to_string (params_set ps (js ''selected'') (id_segment alertId))"

definition time_query :: "TimeFilterState \<Rightarrow> query_record" where
  "time_query s =
     (js ''timePreset'', QText (preset_name (fst (tf_query s)))) #
     (case snd (tf_query s) of
        Some (f, t) \<Rightarrow> [(js ''from'', QText f), (js ''to'', QText t)] | None \<Rightarrow> [])"

definition or_default :: "jsstring option \<Rightarrow> jsstring \<Rightarrow> jsstring" where
  "or_default v d = (case v of Some s \<Rightarrow> s | None \<Rightarrow> d)"

definition optional_member :: "string \<Rightarrow> jsstring option \<Rightarrow> query_record" where
  "optional_member key v = (case v of Some s \<Rightarrow> if s = [] then [] else [(js key, QText s)] | None \<Rightarrow> [])"

definition optional_id :: "string \<Rightarrow> int option \<Rightarrow> query_record" where
  "optional_id key v = (case v of Some i \<Rightarrow> if i = 0 then [] else [(js key, QNumber (Num (of_int i)))] | None \<Rightarrow> [])"

definition ALERT_SORTS :: "jsstring list" where
  "ALERT_SORTS = map js [''priority'', ''detectedAt'', ''severity'', ''riskScore'', ''status'']"

definition SORT_ORDERS :: "jsstring list" where
  "SORT_ORDERS = map js [''asc'', ''desc'']"

definition ALERT_STATUSES :: "jsstring list" where
  "ALERT_STATUSES = map js [''OPEN'', ''IN_PROGRESS'', ''RESOLVED'']"

definition SEVERITIES :: "jsstring list" where
  "SEVERITIES = map js [''LOW'', ''MEDIUM'', ''HIGH'', ''CRITICAL'']"

definition INCIDENT_STATUSES :: "jsstring list" where
  "INCIDENT_STATUSES = map js [''OPEN'', ''CLOSED'']"

lemmas enum_lists = ALERT_SORTS_def SORT_ORDERS_def ALERT_STATUSES_def SEVERITIES_def INCIDENT_STATUSES_def

definition alertTriageQueueQuery :: "date_parser \<Rightarrow> search_params \<Rightarrow> query_record" where
  "alertTriageQueueQuery date_parse ps =
     time_query (readTimeFilter date_parse ps) @
     [(js ''page'', QNumber (Num 1)), (js ''size'', QNumber (Num 500)),
      (js ''sortBy'', QText (or_default (allowedValue (params_get ps (js ''sortBy'')) ALERT_SORTS) (js ''priority''))),
      (js ''sortOrder'', QText (or_default (allowedValue (params_get ps (js ''sortOrder'')) SORT_ORDERS) (js ''desc'')))] @
     optional_member ''status'' (allowedValue (params_get ps (js ''status'')) ALERT_STATUSES) @
     optional_member ''severity'' (allowedValue (params_get ps (js ''severity'')) SEVERITIES) @
     optional_id ''endpointId'' (positiveInteger (params_get ps (js ''endpointId''))) @
     optional_member ''ruleCode'' (Some (trim (stringParam ps (js ''ruleCode'') [])))"

section \<open>Incidents\<close>

datatype InvestigationSelection = SelectedNode jsstring | SelectedEdge jsstring

definition incidentGraphEnabled :: "jsstring option \<Rightarrow> bool" where
  "incidentGraphEnabled v \<longleftrightarrow> v \<noteq> Some (js ''false'') \<and> v \<noteq> Some (js ''0'')"

definition incidentDetailUrl :: "int \<Rightarrow> search_params \<Rightarrow> jsstring" where
  "incidentDetailUrl incidentId ps =
     (let search = params_to_string (params_set ps (js ''selected'') (id_segment incidentId))
      in js ''/incidents/'' @ id_segment incidentId @ (if search = [] then [] else js ''?'' @ search))"

definition incidentQueueQuery :: "date_parser \<Rightarrow> search_params \<Rightarrow> query_record" where
  "incidentQueueQuery date_parse ps =
     time_query (readTimeFilter date_parse ps) @
     [(js ''page'', QNumber (Num 1)), (js ''size'', QNumber (Num 500)),
      (js ''sortOrder'', QText (or_default (allowedValue (params_get ps (js ''sortOrder'')) SORT_ORDERS) (js ''desc''))),
      (js ''status'', QText (or_default (allowedValue (params_get ps (js ''status'')) INCIDENT_STATUSES) (js ''OPEN'')))] @
     optional_member ''severity'' (allowedValue (params_get ps (js ''severity'')) SEVERITIES) @
     optional_id ''endpointId'' (positiveInteger (params_get ps (js ''endpointId'')))"

definition graphRequiresFallback :: "IncidentInvestigationDto \<Rightarrow> bool" where
  "graphRequiresFallback d \<longleftrightarrow> inv_partial d \<or> inv_truncated d \<or> inv_nodes d = []"

definition selectedNode :: "InvestigationSelection option \<Rightarrow> IncidentInvestigationDto \<Rightarrow> InvestigationNodeDto option" where
  "selectedNode selection d =
     (case selection of Some (SelectedNode i) \<Rightarrow> List.find (\<lambda>n. inode_nodeId n = i) (inv_nodes d) | _ \<Rightarrow> None)"

definition selectedEdge :: "InvestigationSelection option \<Rightarrow> IncidentInvestigationDto \<Rightarrow> InvestigationEdgeDto option" where
  "selectedEdge selection d =
     (case selection of Some (SelectedEdge i) \<Rightarrow> List.find (\<lambda>e. iedge_edgeId e = i) (inv_edges d) | _ \<Rightarrow> None)"

definition selectionNodeIds :: "InvestigationSelection option \<Rightarrow> IncidentInvestigationDto \<Rightarrow> jsstring list" where
  "selectionNodeIds selection d =
     (case selection of
        None \<Rightarrow> []
      | Some (SelectedNode i) \<Rightarrow> [i]
      | Some (SelectedEdge i) \<Rightarrow>
          (case selectedEdge selection d of
             Some e \<Rightarrow> set_from [iedge_sourceNodeId e, iedge_targetNodeId e] | None \<Rightarrow> []))"

text \<open>An id counts when it is present and, as JavaScript reads it, neither empty nor zero.\<close>

definition same_text :: "jsstring option \<Rightarrow> jsstring option \<Rightarrow> bool" where
  "same_text wanted actual \<longleftrightarrow> truthy wanted \<and> actual = wanted"

definition same_id :: "int option \<Rightarrow> int option \<Rightarrow> bool" where
  "same_id wanted actual \<longleftrightarrow> wanted \<noteq> None \<and> wanted \<noteq> Some 0 \<and> actual = wanted"

fun node_type_of :: "TimelineItemType \<Rightarrow> InvestigationNodeType" where
  "node_type_of INCIDENT_ITEM = INCIDENT_NODE"
| "node_type_of EVENT_ITEM = EVENT_NODE"
| "node_type_of ALERT_ITEM = ALERT_NODE"

definition nodeMatchesTimeline :: "InvestigationNodeDto \<Rightarrow> AttackTimelineItemDto \<Rightarrow> bool" where
  "nodeMatchesTimeline n t \<longleftrightarrow>
     (if inode_nodeType n \<noteq> node_type_of (item_itemType t) then False
      else if item_itemType t = EVENT_ITEM then same_text (item_eventId t) (inode_eventId n)
      else if item_itemType t = ALERT_ITEM then same_id (item_alertId t) (inode_alertId n)
      else same_id (item_incidentId t) (inode_incidentId n))"

definition edgeMatchesTimeline :: "InvestigationEdgeDto \<Rightarrow> AttackTimelineItemDto \<Rightarrow> bool" where
  "edgeMatchesTimeline e t \<longleftrightarrow>
     (if item_itemType t = EVENT_ITEM then same_text (item_eventId t) (iedge_eventId e)
      else if item_itemType t = ALERT_ITEM then same_id (item_alertId t) (iedge_alertId e)
      else same_id (item_incidentId t) (iedge_incidentId e))"

definition selectionMatchesTimelineItem ::
  "InvestigationSelection option \<Rightarrow> IncidentInvestigationDto \<Rightarrow> AttackTimelineItemDto \<Rightarrow> bool" where
  "selectionMatchesTimelineItem selection d t =
     (if selection = None then False
      else let ns = filter (\<lambda>n. inode_nodeId n \<in> set (selectionNodeIds selection d)) (inv_nodes d)
           in (\<exists>n\<in>set ns. nodeMatchesTimeline n t) \<or>
              (case selectedEdge selection d of Some e \<Rightarrow> edgeMatchesTimeline e t | None \<Rightarrow> False))"

definition selectionForTimelineItem ::
  "IncidentInvestigationDto \<Rightarrow> AttackTimelineItemDto \<Rightarrow> InvestigationSelection option" where
  "selectionForTimelineItem d t =
     map_option (\<lambda>n. SelectedNode (inode_nodeId n)) (List.find (\<lambda>n. nodeMatchesTimeline n t) (inv_nodes d))"

fun first_process_pid :: "InvestigationNodeDto list \<Rightarrow> jsstring list \<Rightarrow> int option" where
  "first_process_pid ns [] = None"
| "first_process_pid ns (i # is) =
     (case List.find (\<lambda>n. inode_nodeId n = i) ns of
        Some n \<Rightarrow>
          if inode_nodeType n = PROCESS_NODE \<and> inode_pid n \<noteq> None then inode_pid n else first_process_pid ns is
      | None \<Rightarrow> first_process_pid ns is)"

definition selectedProcessPid ::
  "InvestigationSelection option \<Rightarrow> IncidentInvestigationDto option \<Rightarrow> int option" where
  "selectedProcessPid selection investigation =
     (case investigation of
        None \<Rightarrow> None
      | Some d \<Rightarrow>
          (case selectedNode selection d of
             Some n \<Rightarrow>
               if inode_nodeType n = PROCESS_NODE then inode_pid n
               else first_process_pid (inv_nodes d) (selectionNodeIds selection d)
           | None \<Rightarrow> first_process_pid (inv_nodes d) (selectionNodeIds selection d)))"

section \<open>Events\<close>

datatype EventDetailGroup = IDENTITY | PROCESS | FILE | NETWORK | DNS | HTTP_TLS

definition some_text :: "jsstring option list \<Rightarrow> bool" where
  "some_text vs \<longleftrightarrow> list_ex truthy vs"

definition some_number :: "int option list \<Rightarrow> bool" where
  "some_number vs \<longleftrightarrow> list_ex (\<lambda>v. v \<noteq> None) vs"

definition eventDetailGroups :: "EventDto \<Rightarrow> EventDetailGroup list" where
  "eventDetailGroups e =
     [IDENTITY] @
     (if some_text [ev_processName e, ev_processPath e, ev_commandLine e, ev_userName e] \<or> some_number [ev_pid e, ev_ppid e]
      then [PROCESS] else []) @
     (if ev_eventType e = FILE_EVENT \<or> some_text [ev_filePath e, ev_fileAction e, ev_fileHashSha256 e] then [FILE] else []) @
     (if ev_eventType e = NETWORK_CONNECTION \<or> some_text [ev_remoteIp e, ev_remoteDomain e, ev_protocol e]
         \<or> some_number [ev_remotePort e] then [NETWORK] else []) @
     (if ev_eventType e = DNS_QUERY \<or> some_text [ev_dnsQuery e, ev_dnsRecordType e, ev_dnsResponseCode e]
         \<or> 0 < length (ev_dnsAnswers e) then [DNS] else []) @
     (if ev_eventType e = L7_EVENT
         \<or> some_text [ev_l7Protocol e, ev_httpMethod e, ev_httpHost e, ev_url e, ev_httpUserAgent e, ev_tlsSni e,
              ev_tlsVersion e, ev_tlsCertificateSubject e, ev_tlsCertificateIssuer e, ev_tlsCertificateSha256 e]
         \<or> some_number [ev_httpStatusCode e] then [HTTP_TLS] else [])"

text \<open>The separator is a middle dot between spaces.\<close>

fun join_text :: "jsstring \<Rightarrow> jsstring list \<Rightarrow> jsstring" where
  "join_text sep [] = []"
| "join_text sep [s] = s"
| "join_text sep (s # t # ss) = s @ sep @ join_text sep (t # ss)"

definition MIDDLE_DOT :: jsstring where
  "MIDDLE_DOT = [32, 183, 32]"

definition present :: "jsstring option list \<Rightarrow> jsstring list" where
  "present vs = map the (filter truthy vs)"

definition or_else :: "'a option \<Rightarrow> 'a option \<Rightarrow> 'a option" where
  "or_else a b = (case a of Some x \<Rightarrow> Some x | None \<Rightarrow> b)"

abbreviation number_text :: "int option \<Rightarrow> jsstring option" where
  "number_text v \<equiv> map_option id_segment v"

definition eventListSummary :: "EventDto \<Rightarrow> jsstring" where
  "eventListSummary e =
     join_text MIDDLE_DOT (present (case ev_eventType e of
        PROCESS_EXECUTION \<Rightarrow> [ev_processName e, ev_commandLine e]
      | FILE_EVENT \<Rightarrow> [ev_fileAction e, ev_filePath e]
      | NETWORK_CONNECTION \<Rightarrow> [ev_protocol e, or_else (ev_remoteDomain e) (ev_remoteIp e), number_text (ev_remotePort e)]
      | DNS_QUERY \<Rightarrow> [ev_dnsQuery e, ev_dnsResponseCode e]
      | L7_EVENT \<Rightarrow> [ev_httpMethod e, or_else (ev_httpHost e) (ev_remoteDomain e),
                    or_else (number_text (ev_httpStatusCode e)) (ev_l7Protocol e)]))"

section \<open>Facts\<close>

lemma nextActionableAlert_spec:
  assumes "distinct (map alert_alertId xs)"
  shows "nextActionableAlert xs c = None \<longleftrightarrow> (\<forall>a\<in>set xs. alert_status a \<noteq> RESOLVED \<longrightarrow> alert_alertId a = c)"
    and "nextActionableAlert xs c = Some a \<Longrightarrow> a \<in> set xs \<and> alert_status a \<noteq> RESOLVED \<and> alert_alertId a \<noteq> c"
proof -
  let ?act = "filter (\<lambda>a. alert_status a \<noteq> RESOLVED \<and> alert_alertId a \<noteq> c) xs"
  show "nextActionableAlert xs c = None \<longleftrightarrow> (\<forall>a\<in>set xs. alert_status a \<noteq> RESOLVED \<longrightarrow> alert_alertId a = c)"
    by (auto simp: nextActionableAlert_def Let_def filter_empty_conv split: option.split)
  have later: "alert_alertId b \<noteq> c" if i: "find_index (\<lambda>a. alert_alertId a = c) xs = Some i" and b: "b \<in> set (drop (Suc i) xs)" for b i
  proof -
    have i': "i < length xs" "alert_alertId (xs ! i) = c" using find_index_Some [OF i] by auto
    obtain j where j: "b = xs ! j" "i < j" "j < length xs"
      using b by (auto simp: in_set_conv_nth)
    then show ?thesis
      using assms i' nth_eq_iff_index_eq [of "map alert_alertId xs" i j] by auto
  qed
  assume n: "nextActionableAlert xs c = Some a"
  then have ne: "?act \<noteq> []" by (auto simp: nextActionableAlert_def Let_def)
  then have hd: "hd ?act \<in> set xs \<and> alert_status (hd ?act) \<noteq> RESOLVED \<and> alert_alertId (hd ?act) \<noteq> c"
    using hd_in_set [OF ne] by auto
  from n ne consider "a = hd ?act"
    | i where "find_index (\<lambda>a. alert_alertId a = c) xs = Some i" "a \<in> set (drop (Suc i) xs)" "alert_status a \<noteq> RESOLVED"
    by (auto simp: nextActionableAlert_def Let_def dest!: find_SomeD split: option.splits)
  then show "a \<in> set xs \<and> alert_status a \<noteq> RESOLVED \<and> alert_alertId a \<noteq> c"
    by cases (use hd later in_set_dropD in fast)+
qed

text \<open>The time line and the graph agree on what an item selects.\<close>

lemma timeline_selection_matches:
  assumes "selectionForTimelineItem d t = Some s"
  shows "selectionMatchesTimelineItem (Some s) d t"
proof -
  from assms obtain n where n: "n \<in> set (inv_nodes d)" "nodeMatchesTimeline n t" "s = SelectedNode (inode_nodeId n)"
    by (auto simp: selectionForTimelineItem_def dest!: find_SomeD)
  then show ?thesis by (auto simp: selectionMatchesTimelineItem_def selectionNodeIds_def Let_def)
qed

lemma timeline_selection_defined:
  "selectionForTimelineItem d t = None \<longleftrightarrow> (\<forall>n\<in>set (inv_nodes d). \<not> nodeMatchesTimeline n t)"
  by (auto simp: selectionForTimelineItem_def find_None_iff)

lemma first_process_pid_Some:
  "first_process_pid ns is = Some p \<Longrightarrow> \<exists>n\<in>set ns. inode_nodeType n = PROCESS_NODE \<and> inode_pid n = Some p \<and> inode_nodeId n \<in> set is"
  by (induction ns "is" rule: first_process_pid.induct) (auto dest!: find_SomeD split: option.splits if_splits)

lemma selectedProcessPid_Some:
  assumes "selectedProcessPid s (Some d) = Some p"
  shows "\<exists>n\<in>set (inv_nodes d). inode_nodeType n = PROCESS_NODE \<and> inode_pid n = Some p \<and> inode_nodeId n \<in> set (selectionNodeIds s d)"
proof (cases "selectedNode s d")
  case None
  then show ?thesis using assms first_process_pid_Some by (simp add: selectedProcessPid_def)
next
  case (Some n)
  then obtain i where "s = Some (SelectedNode i)" "n \<in> set (inv_nodes d)" "inode_nodeId n = i"
    by (auto simp: selectedNode_def dest!: find_SomeD split: option.splits InvestigationSelection.splits)
  then show ?thesis
    using assms Some first_process_pid_Some [of "inv_nodes d" "selectionNodeIds s d" p]
    by (cases "inode_nodeType n = PROCESS_NODE") (auto simp: selectedProcessPid_def selectionNodeIds_def
        simp del: first_process_pid.simps)
qed

lemma eventDetailGroups_order: "subseq (eventDetailGroups e) [IDENTITY, PROCESS, FILE, NETWORK, DNS, HTTP_TLS]"
  by (simp add: eventDetailGroups_def)

text \<open>The members of a queue query: keys once each, enumerated values only.\<close>

lemma allowedValue_mem: "allowedValue v xs = Some s \<Longrightarrow> s \<in> set xs"
  by (auto simp: allowedValue_def split: option.splits if_splits)

definition member_ok :: "(string \<times> jsstring list) list \<Rightarrow> jsstring \<times> query_value \<Rightarrow> bool" where
  "member_ok enums kv \<longleftrightarrow>
     (\<forall>(k, vs)\<in>set enums. fst kv = js k \<longrightarrow> (\<exists>v\<in>set vs. snd kv = QText v)) \<and>
     (fst kv = js ''endpointId'' \<longrightarrow> (\<exists>i>0. snd kv = QNumber (Num (of_int i)))) \<and>
     (fst kv = js ''timePreset'' \<longrightarrow> (\<exists>p. snd kv = QText (preset_name p)))"

definition ALERT_ENUMS :: "(string \<times> jsstring list) list" where
  "ALERT_ENUMS = [(''sortBy'', ALERT_SORTS), (''sortOrder'', SORT_ORDERS), (''status'', ALERT_STATUSES), (''severity'', SEVERITIES)]"

definition INCIDENT_ENUMS :: "(string \<times> jsstring list) list" where
  "INCIDENT_ENUMS = [(''sortOrder'', SORT_ORDERS), (''status'', INCIDENT_STATUSES), (''severity'', SEVERITIES)]"

lemma or_default_mem: "d \<in> set xs \<Longrightarrow> or_default (allowedValue v xs) d \<in> set xs"
  by (auto simp: or_default_def dest: allowedValue_mem split: option.splits)

lemma time_query_keys: "map fst (time_query s) = js ''timePreset'' # (if snd (tf_query s) = None then [] else [js ''from'', js ''to''])"
  by (auto simp: time_query_def split: option.splits)

lemma optional_keys:
  "map fst (optional_member k v) \<in> {[], [js k]}" "map fst (optional_id k w) \<in> {[], [js k]}"
  by (auto simp: optional_member_def optional_id_def split: option.splits)

lemma optional_member_mem:
  "kv \<in> set (optional_member k (allowedValue v xs)) \<Longrightarrow> fst kv = js k \<and> (\<exists>s\<in>set xs. snd kv = QText s)"
  by (cases "allowedValue v xs") (auto simp: optional_member_def dest: allowedValue_mem split: if_splits)

lemma optional_id_mem:
  "kv \<in> set (optional_id k (positiveInteger v)) \<Longrightarrow> fst kv = js k \<and> (\<exists>i>0. snd kv = QNumber (Num (of_int i)))"
  by (cases "positiveInteger v") (auto simp: optional_id_def dest!: positiveInteger_pos split: if_splits)

lemma time_query_mem:
  "kv \<in> set (time_query s) \<Longrightarrow> (fst kv = js ''timePreset'' \<and> (\<exists>p. snd kv = QText (preset_name p))) \<or>
     fst kv = js ''from'' \<or> fst kv = js ''to''"
  by (auto simp: time_query_def split: option.splits)

lemma enum_defaults:
  "js ''priority'' \<in> set ALERT_SORTS" "js ''desc'' \<in> set SORT_ORDERS" "js ''OPEN'' \<in> set INCIDENT_STATUSES"
  by (simp_all add: enum_lists)

lemma alert_query_members:
  assumes "kv \<in> set (alertTriageQueueQuery date_parse ps)"
  shows "member_ok ALERT_ENUMS kv"
  using assms or_default_mem [OF enum_defaults(1)] or_default_mem [OF enum_defaults(2)]
  by (auto simp: alertTriageQueueQuery_def member_ok_def ALERT_ENUMS_def
      dest!: time_query_mem optional_member_mem optional_id_mem)
    (auto simp: optional_member_def split: if_splits)

lemma incident_query_members:
  assumes "kv \<in> set (incidentQueueQuery date_parse ps)"
  shows "member_ok INCIDENT_ENUMS kv"
  using assms or_default_mem [OF enum_defaults(2)] or_default_mem [OF enum_defaults(3)]
  by (auto simp: incidentQueueQuery_def member_ok_def INCIDENT_ENUMS_def
      dest!: time_query_mem optional_member_mem optional_id_mem)

text \<open>The keys of a query are a selection of the keys of its type, in their order.\<close>

lemma optional_keys_subseq:
  "subseq (map fst (optional_member k v)) [js k]" "subseq (map fst (optional_id k w)) [js k]"
  using optional_keys(1) [of k v] optional_keys(2) [of k w] by auto

lemma time_query_keys_subseq: "subseq (map fst (time_query s)) (map js [''timePreset'', ''from'', ''to''])"
  by (simp add: time_query_keys)

lemmas keys_append = list_emb_append_mono [of "(=)"]

lemma alert_query_keys:
  "subseq (map fst (alertTriageQueueQuery date_parse ps))
     (map js [''timePreset'', ''from'', ''to''] @ map js [''page'', ''size'', ''sortBy'', ''sortOrder''] @
      [js ''status''] @ [js ''severity''] @ [js ''endpointId''] @ [js ''ruleCode''])"
  unfolding alertTriageQueueQuery_def map_append
  by (intro keys_append optional_keys_subseq time_query_keys_subseq) simp

lemma incident_query_keys:
  "subseq (map fst (incidentQueueQuery date_parse ps))
     (map js [''timePreset'', ''from'', ''to''] @ map js [''page'', ''size'', ''sortOrder'', ''status''] @
      [js ''severity''] @ [js ''endpointId''])"
  unfolding incidentQueueQuery_def map_append
  by (intro keys_append optional_keys_subseq time_query_keys_subseq) simp

lemma queue_query_keys_distinct:
  "distinct (map fst (alertTriageQueueQuery date_parse ps))" "distinct (map fst (incidentQueueQuery date_parse ps))"
  using subseq_distinct [OF alert_query_keys] subseq_distinct [OF incident_query_keys] by simp_all

end
