(* ===== verification/Intelligence.thy ===== *)
theory Intelligence
  imports Contracts JsDate UrlSearchParams "HOL-Library.List_Lexorder"
begin

text \<open>
  The data behind the intelligence and operations pages (\<open>features/intelligenceOperations.ts\<close>): the
  egress topology grouped by target and by registrable domain, its filter, the correlation graph, the
  health of the pipeline and the life cycle of the archive.  \<open>getDomain\<close> of the package \<open>tldts\<close>,
  \<open>localeCompare\<close> and \<open>toLocaleLowerCase\<close>, which depend on a database or on the locale, are arguments.
\<close>

section \<open>Data\<close>

record TopologyNodeDto =
  tn_endpointId :: int
  tn_hostname :: jsstring
  tn_riskLevel :: RiskLevel
  tn_riskScore :: int
  tn_status :: EndpointStatus
  tn_alertCount :: int

record TopologyEdgeDto =
  te_endpointId :: int
  te_sourceLabel :: jsstring
  te_target :: jsstring
  te_protocol :: jsstring
  te_eventCount :: int
  te_alertCount :: int
  te_lastSeenAt :: jsstring

record EgressTopologyDto =
  topo_from :: jsstring
  topo_to :: jsstring
  topo_nodes :: "TopologyNodeDto list"
  topo_edges :: "TopologyEdgeDto list"

datatype TopologySelection = TopologyNode jsstring | TopologyEdge jsstring | TopologyEdgeGroupOf jsstring

record TopologyEdgeGroup =
  tg_id :: jsstring
  tg_endpointId :: int
  tg_sourceLabel :: jsstring
  tg_target :: jsstring
  tg_protocols :: "jsstring list"
  tg_eventCount :: int
  tg_alertCount :: int
  tg_lastSeenAt :: jsstring
  tg_edges :: "TopologyEdgeDto list"

record TopologyDomainGroup =
  td_domain :: jsstring
  td_targets :: "jsstring list"

datatype CorrelationValueType = IP | DOMAIN

fun value_type_name :: "CorrelationValueType \<Rightarrow> jsstring" where
  "value_type_name IP = js ''IP''"
| "value_type_name DOMAIN = js ''DOMAIN''"

datatype CorrelationRelation = RESOLVES_TO | PTR_CANDIDATE | SUBDOMAIN_OF

fun relation_name :: "CorrelationRelation \<Rightarrow> jsstring" where
  "relation_name RESOLVES_TO = js ''RESOLVES_TO''"
| "relation_name PTR_CANDIDATE = js ''PTR_CANDIDATE''"
| "relation_name SUBDOMAIN_OF = js ''SUBDOMAIN_OF''"

datatype CorrelationSource = LIVE_DNS | OBSERVED_EVENTS

record CorrelationRelationshipDto =
  cr_relation :: CorrelationRelation
  cr_sourceType :: CorrelationValueType
  cr_sourceValue :: jsstring
  cr_targetType :: CorrelationValueType
  cr_targetValue :: jsstring
  cr_sources :: "CorrelationSource list"

record CorrelationDto =
  co_inputType :: CorrelationValueType
  co_inputValue :: jsstring
  co_relationships :: "CorrelationRelationshipDto list"

datatype CorrelationSelection = CorrelationNode jsstring | CorrelationEdge jsstring

datatype SensorHealth = HEALTHY | DEGRADED | UNAVAILABLE

datatype WorkerStatus = RUNNING | IDLE | WORKER_OFFLINE | UNKNOWN

datatype StorageStatus = HOT | ARCHIVED | RESTORE_REQUESTED | RESTORED | RESTORE_FAILED | EXPIRED

record ServiceHealthDto =
  sh_service :: jsstring
  sh_status :: SensorHealth
  sh_latencyMs :: int
  sh_detail :: jsstring

record PipelineWorkerDto =
  pw_worker :: jsstring
  pw_topic :: jsstring
  pw_groupId :: jsstring
  pw_status :: WorkerStatus
  pw_lag :: "int option"
  pw_memberCount :: "int option"
  pw_detail :: jsstring

record OperationsHealthDto =
  oh_services :: "ServiceHealthDto list"
  oh_workers :: "PipelineWorkerDto list"

text \<open>The counters of the ingest summary the snapshot reads.\<close>

record ingest_counters =
  ic_failedCount :: int
  ic_reprocessFailedCount :: int
  ic_failedBucketCount :: int

datatype PipelineStageId = COLLECTION | DETECTION | STORAGE

section \<open>Topology\<close>

definition topologyGraphEnabled :: "jsstring option \<Rightarrow> bool" where
  "topologyGraphEnabled v \<longleftrightarrow> v \<noteq> Some (js ''false'') \<and> v \<noteq> Some (js ''0'')"

abbreviation id_text :: "int \<Rightarrow> jsstring" where
  "id_text i \<equiv> js_String (Num (of_int i))"

definition topologyEdgeId :: "int \<Rightarrow> jsstring \<Rightarrow> jsstring \<Rightarrow> jsstring" where
  "topologyEdgeId endpointId target protocol = id_text endpointId @ js ''|'' @ target @ js ''|'' @ protocol"

definition topologyEdgeGroupId :: "int \<Rightarrow> jsstring \<Rightarrow> js_error + jsstring" where
  "topologyEdgeGroupId endpointId target =
     map_sum id (\<lambda>e. js ''topology-group:'' @ id_text endpointId @ js '':'' @ e) (encodeURIComponent target)"

text \<open>\<open>Array.prototype.sort\<close> without a comparison orders strings by their code units.\<close>

definition by_code_units :: "jsstring \<Rightarrow> jsstring \<Rightarrow> int" where
  "by_code_units a b = (if a < b then - 1 else if a = b then 0 else 1)"

definition later_date :: "date_parser \<Rightarrow> jsstring \<Rightarrow> jsstring \<Rightarrow> jsstring" where
  "later_date date_parse candidate current =
     (if parsed_after date_parse candidate current then candidate else current)"

definition new_group :: "jsstring \<Rightarrow> TopologyEdgeDto \<Rightarrow> TopologyEdgeGroup" where
  "new_group i e =
     \<lparr>tg_id = i, tg_endpointId = te_endpointId e, tg_sourceLabel = te_sourceLabel e, tg_target = te_target e,
      tg_protocols = [te_protocol e], tg_eventCount = te_eventCount e, tg_alertCount = te_alertCount e,
      tg_lastSeenAt = te_lastSeenAt e, tg_edges = [e]\<rparr>"

definition extend_group :: "date_parser \<Rightarrow> TopologyEdgeDto \<Rightarrow> TopologyEdgeGroup \<Rightarrow> TopologyEdgeGroup" where
  "extend_group date_parse e g =
     g\<lparr>tg_edges := tg_edges g @ [e],
       tg_protocols := (if te_protocol e \<in> set (tg_protocols g) then tg_protocols g else tg_protocols g @ [te_protocol e]),
       tg_eventCount := tg_eventCount g + te_eventCount e, tg_alertCount := tg_alertCount g + te_alertCount e,
       tg_lastSeenAt := later_date date_parse (te_lastSeenAt e) (tg_lastSeenAt g)\<rparr>"

fun group_edges ::
  "date_parser \<Rightarrow> (jsstring, TopologyEdgeGroup) jsmap \<Rightarrow> TopologyEdgeDto list \<Rightarrow> js_error + (jsstring, TopologyEdgeGroup) jsmap" where
  "group_edges date_parse groups [] = Inr groups"
| "group_edges date_parse groups (e # es) =
     (case topologyEdgeGroupId (te_endpointId e) (te_target e) of
        Inl err \<Rightarrow> Inl err
      | Inr i \<Rightarrow>
          group_edges date_parse
            (map_set groups i (case map_get groups i of
                                 None \<Rightarrow> new_group i e | Some g \<Rightarrow> extend_group date_parse e g)) es)"

definition groupTopologyEdges :: "date_parser \<Rightarrow> TopologyEdgeDto list \<Rightarrow> js_error + TopologyEdgeGroup list" where
  "groupTopologyEdges date_parse es =
     map_sum id (\<lambda>groups. map (\<lambda>g. g\<lparr>tg_protocols := js_sort by_code_units (tg_protocols g)\<rparr>) (map_values groups))
       (group_edges date_parse [] es)"

definition strip_final_dot :: "jsstring \<Rightarrow> jsstring" where
  "strip_final_dot s = (if s \<noteq> [] \<and> last s = 46 then butlast s else s)"

definition registrableDomainForTarget :: "(jsstring \<Rightarrow> jsstring option) \<Rightarrow> jsstring \<Rightarrow> jsstring option" where
  "registrableDomainForTarget get_domain target = get_domain (strip_final_dot (trim target))"

definition collect_target ::
  "(jsstring \<Rightarrow> jsstring option) \<Rightarrow> (jsstring, jsstring list) jsmap \<Rightarrow> TopologyEdgeDto \<Rightarrow> (jsstring, jsstring list) jsmap" where
  "collect_target get_domain m e =
     (case registrableDomainForTarget get_domain (te_target e) of
        None \<Rightarrow> m
      | Some d \<Rightarrow>
          if d = [] then m
          else map_set m d (set_add (case map_get m d of Some ts \<Rightarrow> ts | None \<Rightarrow> []) (te_target e)))"

definition domain_groups ::
  "(jsstring \<Rightarrow> jsstring option) \<Rightarrow> (jsstring \<Rightarrow> jsstring \<Rightarrow> int) \<Rightarrow> TopologyEdgeDto list \<Rightarrow> TopologyDomainGroup list" where
  "domain_groups get_domain locale_compare es =
     js_sort (\<lambda>l r. locale_compare (td_domain l) (td_domain r))
       (map (\<lambda>(d, ts). \<lparr>td_domain = d, td_targets = js_sort by_code_units ts\<rparr>)
          (filter (\<lambda>(d, ts). 1 < length ts) (foldl (collect_target get_domain) [] es)))"

definition group_by_target :: "TopologyDomainGroup list \<Rightarrow> (jsstring, jsstring) jsmap" where
  "group_by_target gs = map_from (concat (map (\<lambda>g. map (\<lambda>t. (t, td_domain g)) (td_targets g)) gs))"

definition shown_target :: "(jsstring, jsstring) jsmap \<Rightarrow> jsstring list \<Rightarrow> jsstring \<Rightarrow> jsstring" where
  "shown_target byTarget expandedDomains target =
     (case map_get byTarget target of
        Some d \<Rightarrow> if d \<noteq> [] \<and> d \<notin> set expandedDomains then d else target
      | None \<Rightarrow> target)"

definition merge_edge ::
  "date_parser \<Rightarrow> (jsstring \<Rightarrow> jsstring) \<Rightarrow> (jsstring, TopologyEdgeDto) jsmap \<Rightarrow> TopologyEdgeDto \<Rightarrow> (jsstring, TopologyEdgeDto) jsmap" where
  "merge_edge date_parse shown m e =
     (let target = shown (te_target e);
          i = topologyEdgeId (te_endpointId e) target (te_protocol e)
      in map_set m i (case map_get m i of
                        None \<Rightarrow> e\<lparr>te_target := target\<rparr>
                      | Some c \<Rightarrow> c\<lparr>te_eventCount := te_eventCount c + te_eventCount e,
                                    te_alertCount := te_alertCount c + te_alertCount e,
                                    te_lastSeenAt := later_date date_parse (te_lastSeenAt e) (te_lastSeenAt c)\<rparr>))"

text \<open>The chain of comparisons by priority; a difference that is \<open>NaN\<close> counts as equal.\<close>

definition by_last_seen :: "date_parser \<Rightarrow> TopologyEdgeDto \<Rightarrow> TopologyEdgeDto \<Rightarrow> int" where
  "by_last_seen date_parse l r = parsed_difference date_parse (te_lastSeenAt r) (te_lastSeenAt l)"

definition compareTopologyEdges ::
  "date_parser \<Rightarrow> (jsstring \<Rightarrow> jsstring \<Rightarrow> int) \<Rightarrow> TopologyEdgeDto \<Rightarrow> TopologyEdgeDto \<Rightarrow> int" where
  "compareTopologyEdges date_parse locale_compare =
     then_by (by_key (\<lambda>e. - te_alertCount e))
       (then_by (by_key (\<lambda>e. - te_eventCount e))
         (then_by (by_last_seen date_parse)
           (then_by (by_key te_endpointId)
             (then_by (\<lambda>l r. locale_compare (te_target l) (te_target r))
               (\<lambda>l r. locale_compare (te_protocol l) (te_protocol r))))))"

definition buildTopologyDomainView ::
  "date_parser \<Rightarrow> (jsstring \<Rightarrow> jsstring option) \<Rightarrow> (jsstring \<Rightarrow> jsstring \<Rightarrow> int) \<Rightarrow> EgressTopologyDto \<Rightarrow> jsstring list
   \<Rightarrow> EgressTopologyDto \<times> TopologyDomainGroup list" where
  "buildTopologyDomainView date_parse get_domain locale_compare t expandedDomains =
     (let groups = domain_groups get_domain locale_compare (topo_edges t);
          shown = shown_target (group_by_target groups) expandedDomains;
          edges = foldl (merge_edge date_parse shown) [] (topo_edges t)
      in (t\<lparr>topo_edges := js_sort (compareTopologyEdges date_parse locale_compare) (map_values edges)\<rparr>, groups))"

definition endpointNodeId :: "int \<Rightarrow> jsstring" where
  "endpointNodeId endpointId = js ''endpoint:'' @ id_text endpointId"

definition targetNodeId :: "jsstring \<Rightarrow> jsstring" where
  "targetNodeId target = js ''target:'' @ target"

definition js_includes :: "jsstring \<Rightarrow> jsstring \<Rightarrow> bool" where
  "js_includes s t \<longleftrightarrow> list_ex (\<lambda>u. startsWith u t) (suffixes s)"

definition edge_matches ::
  "(jsstring \<Rightarrow> jsstring) \<Rightarrow> (int, TopologyNodeDto) jsmap \<Rightarrow> jsstring \<Rightarrow> TopologyEdgeDto \<Rightarrow> bool" where
  "edge_matches lower nodeByEndpoint normalized e \<longleftrightarrow>
     normalized = [] \<or>
     list_ex (\<lambda>v. case v of Some s \<Rightarrow> js_includes (lower s) normalized | None \<Rightarrow> False)
       [Some (te_sourceLabel e), map_option tn_hostname (map_get nodeByEndpoint (te_endpointId e)),
        Some (id_text (te_endpointId e)), Some (te_target e), Some (te_protocol e)]"

definition filterTopology ::
  "date_parser \<Rightarrow> (jsstring \<Rightarrow> jsstring) \<Rightarrow> (jsstring \<Rightarrow> jsstring \<Rightarrow> int) \<Rightarrow> EgressTopologyDto \<Rightarrow> jsstring \<Rightarrow> int \<Rightarrow> EgressTopologyDto" where
  "filterTopology date_parse lower locale_compare t search limit =
     (let normalized = lower (trim search);
          nodeByEndpoint = map_from (map (\<lambda>n. (tn_endpointId n, n)) (topo_nodes t));
          matching = filter (edge_matches lower nodeByEndpoint normalized) (topo_edges t);
          edges = take (nat (max 1 limit)) (js_sort (compareTopologyEdges date_parse locale_compare) matching);
          endpointIds = set_from (map te_endpointId edges);
          nodes = filter (\<lambda>n. tn_endpointId n \<in> set endpointIds) (topo_nodes t)
      in t\<lparr>topo_nodes := nodes, topo_edges := edges\<rparr>)"

definition selectedTopologyEdge :: "EgressTopologyDto \<Rightarrow> TopologySelection option \<Rightarrow> TopologyEdgeDto option" where
  "selectedTopologyEdge t selection =
     (case selection of
        Some (TopologyEdge i) \<Rightarrow>
          List.find (\<lambda>e. topologyEdgeId (te_endpointId e) (te_target e) (te_protocol e) = i) (topo_edges t)
      | _ \<Rightarrow> None)"

definition selectedTopologyEdgeGroup ::
  "date_parser \<Rightarrow> EgressTopologyDto \<Rightarrow> TopologySelection option \<Rightarrow> js_error + TopologyEdgeGroup option" where
  "selectedTopologyEdgeGroup date_parse t selection =
     (case selection of
        Some (TopologyEdgeGroupOf i) \<Rightarrow>
          map_sum id (List.find (\<lambda>g. tg_id g = i)) (groupTopologyEdges date_parse (topo_edges t))
      | _ \<Rightarrow> Inr None)"

section \<open>Correlation\<close>

definition CORRELATION_GRAPH_RELATIONSHIP_LIMIT :: int where
  "CORRELATION_GRAPH_RELATIONSHIP_LIMIT = 20"

definition correlationNodeId :: "CorrelationValueType \<Rightarrow> jsstring \<Rightarrow> jsstring" where
  "correlationNodeId t v = js ''correlation:'' @ value_type_name t @ js '':'' @ v"

definition correlationEdgeId :: "CorrelationRelationshipDto \<Rightarrow> jsstring" where
  "correlationEdgeId e =
     js ''correlation-edge:'' @ relation_name (cr_relation e) @ js '':'' @ value_type_name (cr_sourceType e) @ js '':''
       @ cr_sourceValue e @ js '':'' @ value_type_name (cr_targetType e) @ js '':'' @ cr_targetValue e"

definition input_connected :: "CorrelationDto \<Rightarrow> CorrelationRelationshipDto \<Rightarrow> bool" where
  "input_connected c e \<longleftrightarrow>
     correlationNodeId (co_inputType c) (co_inputValue c) \<in>
       {correlationNodeId (cr_sourceType e) (cr_sourceValue e), correlationNodeId (cr_targetType e) (cr_targetValue e)}"

definition correlationGraphRelationships :: "CorrelationDto \<Rightarrow> int \<Rightarrow> CorrelationRelationshipDto list" where
  "correlationGraphRelationships c limit =
     (let rows = map (\<lambda>(i, e). (e, int i, input_connected c e)) (enumerate 0 (co_relationships c));
          cmp = then_by (by_key (\<lambda>(e, i, connected). - (if connected then 1 else 0))) (by_key (\<lambda>(e, i, connected). i))
      in map fst (take (nat (max 1 limit)) (js_sort cmp rows)))"

definition selectedCorrelationRelationship ::
  "CorrelationDto \<Rightarrow> CorrelationSelection option \<Rightarrow> CorrelationRelationshipDto option" where
  "selectedCorrelationRelationship c selection =
     (case selection of
        Some (CorrelationEdge i) \<Rightarrow> List.find (\<lambda>e. correlationEdgeId e = i) (co_relationships c) | _ \<Rightarrow> None)"

section \<open>Operations\<close>

fun HEALTH_PRIORITY :: "SensorHealth \<Rightarrow> int" where
  "HEALTH_PRIORITY UNAVAILABLE = 0"
| "HEALTH_PRIORITY DEGRADED = 1"
| "HEALTH_PRIORITY HEALTHY = 2"

definition worstHealth :: "SensorHealth list \<Rightarrow> SensorHealth" where
  "worstHealth statuses =
     (if statuses = [] then UNAVAILABLE
      else foldl (\<lambda>worst s. if HEALTH_PRIORITY s < HEALTH_PRIORITY worst then s else worst) HEALTHY statuses)"

definition worker_health :: "PipelineWorkerDto \<Rightarrow> SensorHealth" where
  "worker_health w =
     (if pw_status w = WORKER_OFFLINE then UNAVAILABLE
      else if pw_status w = IDLE \<or> pw_status w = UNKNOWN \<or> 0 < (case pw_lag w of Some l \<Rightarrow> l | None \<Rightarrow> 0) then DEGRADED
      else HEALTHY)"

definition services_health :: "string list \<Rightarrow> OperationsHealthDto \<Rightarrow> SensorHealth list" where
  "services_health names h = map sh_status (filter (\<lambda>s. sh_service s \<in> set (map js names)) (oh_services h))"

definition buildPipelineSnapshot :: "OperationsHealthDto \<Rightarrow> ingest_counters \<Rightarrow> (PipelineStageId \<times> SensorHealth) list" where
  "buildPipelineSnapshot h ingest =
     (let collection = worstHealth (services_health [''Backend API'', ''Kafka''] h);
          workerStatuses = map worker_health (oh_workers h) @
            (if 0 < ic_failedCount ingest \<or> 0 < ic_reprocessFailedCount ingest then [DEGRADED] else []);
          detection = worstHealth workerStatuses;
          storageStatuses = services_health [''PostgreSQL'', ''ClickHouse'', ''S3''] h @
            (if 0 < ic_failedBucketCount ingest then [DEGRADED] else []);
          storage = worstHealth storageStatuses
      in js_sort (by_key (\<lambda>(stage, s). HEALTH_PRIORITY s))
           [(COLLECTION, collection), (DETECTION, detection), (STORAGE, storage)])"

definition STORAGE_LIFECYCLE :: "StorageStatus list" where
  "STORAGE_LIFECYCLE = [HOT, ARCHIVED, RESTORE_REQUESTED, RESTORED, RESTORE_FAILED, EXPIRED]"

text \<open>An archive bucket counts by its storage status.\<close>

definition archiveLifecycleCounts :: "StorageStatus list \<Rightarrow> (StorageStatus \<times> nat) list" where
  "archiveLifecycleCounts statuses =
     map (\<lambda>s. (s, length (filter (\<lambda>x. x = s) statuses))) STORAGE_LIFECYCLE"

section \<open>Totals are kept\<close>

text \<open>Writing an entry of a map changes a total over its values by what the entry gains.\<close>

lemma sum_map_set:
  fixes f :: "'v \<Rightarrow> 'a::comm_monoid_add"
  shows "sum_list (map f (map_values (map_set m k v))) + (case map_get m k of Some w \<Rightarrow> f w | None \<Rightarrow> 0) =
    sum_list (map f (map_values m)) + f v"
  by (induction m) (auto simp: ac_simps split: option.splits)

lemma sum_upsert:
  fixes f :: "'v \<Rightarrow> 'a::cancel_comm_monoid_add"
  assumes "f v = (case map_get m k of Some w \<Rightarrow> f w | None \<Rightarrow> 0) + a"
  shows "sum_list (map f (map_values (map_set m k v))) = sum_list (map f (map_values m)) + a"
proof -
  let ?o = "case map_get m k of Some w \<Rightarrow> f w | None \<Rightarrow> 0"
  have "sum_list (map f (map_values (map_set m k v))) + ?o = (sum_list (map f (map_values m)) + a) + ?o"
    using sum_map_set [where f = f and m = m and k = k and v = v] assms by (simp add: ac_simps)
  then show ?thesis by (rule add_right_imp_eq)
qed

lemma extend_group_sel [simp]:
  "tg_id (extend_group dp e g) = tg_id g" "tg_edges (extend_group dp e g) = tg_edges g @ [e]"
  "tg_eventCount (extend_group dp e g) = tg_eventCount g + te_eventCount e"
  "tg_alertCount (extend_group dp e g) = tg_alertCount g + te_alertCount e"
  "tg_id (new_group i e) = i" "tg_edges (new_group i e) = [e]"
  "tg_eventCount (new_group i e) = te_eventCount e" "tg_alertCount (new_group i e) = te_alertCount e"
  "set (tg_protocols (extend_group dp e g)) = insert (te_protocol e) (set (tg_protocols g))"
  "tg_protocols (new_group i e) = [te_protocol e]"
  "distinct (tg_protocols (extend_group dp e g)) = distinct (tg_protocols g)"
  by (auto simp: extend_group_def new_group_def)

text \<open>A group stands for its edges.\<close>

definition group_ok :: "jsstring \<times> TopologyEdgeGroup \<Rightarrow> bool" where
  "group_ok ig \<longleftrightarrow>
     (case ig of (i, g) \<Rightarrow>
        tg_id g = i \<and> tg_edges g \<noteq> [] \<and>
        (\<forall>e\<in>set (tg_edges g). topologyEdgeGroupId (te_endpointId e) (te_target e) = Inr i) \<and>
        tg_eventCount g = sum_list (map te_eventCount (tg_edges g)) \<and>
        tg_alertCount g = sum_list (map te_alertCount (tg_edges g)) \<and>
        distinct (tg_protocols g) \<and> set (tg_protocols g) = te_protocol ` set (tg_edges g))"

lemma group_ok_step:
  assumes "\<forall>ig\<in>set groups. group_ok ig" "topologyEdgeGroupId (te_endpointId e) (te_target e) = Inr i"
  shows "\<forall>ig\<in>set (map_set groups i (case map_get groups i of None \<Rightarrow> new_group i e | Some g \<Rightarrow> extend_group dp e g)). group_ok ig"
proof (cases "map_get groups i")
  case None
  have "group_ok (i, new_group i e)" using assms(2) by (simp add: group_ok_def)
  then show ?thesis using None assms(1) set_map_set [of i "new_group i e" groups] by auto
next
  case (Some g)
  then have "group_ok (i, g)" using assms(1) map_of_SomeD by fast
  then have "group_ok (i, extend_group dp e g)" using assms(2) by (auto simp: group_ok_def)
  then show ?thesis using Some assms(1) set_map_set [of i "extend_group dp e g" groups] by auto
qed

lemma group_edges_ok:
  assumes "group_edges dp groups es = Inr m" "\<forall>ig\<in>set groups. group_ok ig" "distinct (map_keys groups)"
  shows "(\<forall>ig\<in>set m. group_ok ig) \<and> distinct (map_keys m) \<and>
    sum_list (map (\<lambda>g. mset (tg_edges g)) (map_values m)) =
      sum_list (map (\<lambda>g. mset (tg_edges g)) (map_values groups)) + mset es"
  using assms
proof (induction es arbitrary: groups)
  case (Cons e es)
  from Cons.prems(1) obtain i where i: "topologyEdgeGroupId (te_endpointId e) (te_target e) = Inr i"
    by (auto split: sum.splits)
  let ?v = "case map_get groups i of None \<Rightarrow> new_group i e | Some g \<Rightarrow> extend_group dp e g"
  have next_map: "group_edges dp (map_set groups i ?v) es = Inr m" using Cons.prems(1) i by simp
  have "sum_list (map (\<lambda>g. mset (tg_edges g)) (map_values (map_set groups i ?v))) =
      sum_list (map (\<lambda>g. mset (tg_edges g)) (map_values groups)) + {#e#}"
    by (rule sum_upsert) (auto split: option.split)
  with Cons.IH [OF next_map group_ok_step [OF Cons.prems(2) i]] Cons.prems(3) show ?case by (simp add: distinct_map_set)
qed simp

lemma group_edges_total:
  "(\<exists>m. group_edges dp groups es = Inr m) \<longleftrightarrow> (\<forall>e\<in>set es. well_formed (te_target e))"
  by (induction es arbitrary: groups) (auto simp: topologyEdgeGroupId_def encodeURIComponent_def)

lemma mset_concat_edges: "mset (concat (map f gs)) = sum_list (map (\<lambda>g. mset (f g)) gs)"
  by (induction gs) simp_all

lemma sum_list_concat: "sum_list (map h (concat xss)) = sum_list (map (\<lambda>xs. sum_list (map h xs)) xss)"
  for h :: "'a \<Rightarrow> int"
  by (induction xss) simp_all

lemma sum_list_mset: "mset xs = mset ys \<Longrightarrow> sum_list (map h xs) = sum_list (map h ys)" for h :: "'a \<Rightarrow> int"
  by (metis mset_map sum_mset_sum_list)

theorem groupTopologyEdges_spec:
  assumes "groupTopologyEdges dp es = Inr gs"
  shows "mset (concat (map tg_edges gs)) = mset es" "distinct (map tg_id gs)"
    and "g \<in> set gs \<Longrightarrow> group_ok (tg_id g, g)"
    and "sum_list (map tg_eventCount gs) = sum_list (map te_eventCount es)"
    and "sum_list (map tg_alertCount gs) = sum_list (map te_alertCount es)"
proof -
  obtain m where m: "group_edges dp [] es = Inr m"
      and gs: "gs = map (\<lambda>g. g\<lparr>tg_protocols := js_sort by_code_units (tg_protocols g)\<rparr>) (map_values m)"
    using assms by (cases "group_edges dp [] es") (auto simp: groupTopologyEdges_def)
  note ok = group_edges_ok [OF m, simplified]
  have edges: "map tg_edges gs = map tg_edges (map_values m)" by (simp add: gs)
  show perm: "mset (concat (map tg_edges gs)) = mset es"
    unfolding edges mset_concat_edges using ok by (simp add: comp_def)
  have ids: "map tg_id gs = map_keys m" using ok by (auto simp: gs group_ok_def)
  then show "distinct (map tg_id gs)" using ok by simp
  have each: "group_ok (tg_id g, g)" if "g \<in> set gs" for g
    using that ok by (fastforce simp: gs group_ok_def)
  then show "g \<in> set gs \<Longrightarrow> group_ok (tg_id g, g)" .
  have "sum_list (map tg_eventCount gs) = sum_list (map (\<lambda>g. sum_list (map te_eventCount (tg_edges g))) gs)"
      "sum_list (map tg_alertCount gs) = sum_list (map (\<lambda>g. sum_list (map te_alertCount (tg_edges g))) gs)"
    using each by (auto simp: group_ok_def intro!: arg_cong [of _ _ sum_list])
  then have "sum_list (map tg_eventCount gs) = sum_list (map te_eventCount (concat (map tg_edges gs)))"
      "sum_list (map tg_alertCount gs) = sum_list (map te_alertCount (concat (map tg_edges gs)))"
    by (simp_all only: sum_list_concat map_map comp_def)
  then show "sum_list (map tg_eventCount gs) = sum_list (map te_eventCount es)"
      "sum_list (map tg_alertCount gs) = sum_list (map te_alertCount es)"
    using sum_list_mset [OF perm] by simp_all
qed

text \<open>The view by domain.\<close>

lemma merge_edge_sum:
  "sum_list (map te_eventCount (map_values (merge_edge dp shown m e))) = sum_list (map te_eventCount (map_values m)) + te_eventCount e"
  "sum_list (map te_alertCount (map_values (merge_edge dp shown m e))) = sum_list (map te_alertCount (map_values m)) + te_alertCount e"
  unfolding merge_edge_def Let_def by (rule sum_upsert, simp split: option.split)+

lemma merge_edges_sum:
  "sum_list (map te_eventCount (map_values (foldl (merge_edge dp shown) m es))) =
     sum_list (map te_eventCount (map_values m)) + sum_list (map te_eventCount es)"
  "sum_list (map te_alertCount (map_values (foldl (merge_edge dp shown) m es))) =
     sum_list (map te_alertCount (map_values m)) + sum_list (map te_alertCount es)"
  by (induction es arbitrary: m) (simp_all add: merge_edge_sum del: map_map)

abbreviation edge_id :: "TopologyEdgeDto \<Rightarrow> jsstring" where
  "edge_id e \<equiv> topologyEdgeId (te_endpointId e) (te_target e) (te_protocol e)"

lemma merge_edges_ids:
  assumes "distinct (map_keys m)" "\<forall>(i, e)\<in>set m. edge_id e = i"
  shows "distinct (map_keys (foldl (merge_edge dp shown) m es)) \<and> (\<forall>(i, e)\<in>set (foldl (merge_edge dp shown) m es). edge_id e = i)"
  using assms
proof (induction es arbitrary: m)
  case (Cons x es)
  have "distinct (map_keys (merge_edge dp shown m x))" using Cons.prems(1) by (simp add: merge_edge_def Let_def)
  moreover have "\<forall>(i, e)\<in>set (merge_edge dp shown m x). edge_id e = i"
  proof -
    let ?i = "topologyEdgeId (te_endpointId x) (shown (te_target x)) (te_protocol x)"
    let ?v = "case map_get m ?i of None \<Rightarrow> x\<lparr>te_target := shown (te_target x)\<rparr>
      | Some c \<Rightarrow> c\<lparr>te_eventCount := te_eventCount c + te_eventCount x, te_alertCount := te_alertCount c + te_alertCount x,
                   te_lastSeenAt := later_date dp (te_lastSeenAt x) (te_lastSeenAt c)\<rparr>"
    have "edge_id ?v = ?i"
      using Cons.prems(2) by (cases "map_get m ?i") (auto dest!: map_of_SomeD)
    then show ?thesis
      using Cons.prems(2) set_map_set [of ?i ?v m] by (auto simp: merge_edge_def Let_def)
  qed
  ultimately show ?case using Cons.IH by simp
qed simp

lemma distinct_map_js_sort: "distinct (map f (js_sort cmp xs)) = distinct (map f xs)"
proof (rule mset_eq_imp_distinct_iff)
  show "mset (map f (js_sort cmp xs)) = mset (map f xs)" by (simp only: mset_map mset_js_sort)
qed

lemma sum_js_sort: "sum_list (map h (js_sort cmp xs)) = sum_list (map h xs)" for h :: "'a \<Rightarrow> int"
  by (rule sum_list_mset) simp

theorem buildTopologyDomainView_spec:
  assumes "buildTopologyDomainView dp get_domain lc t expandedDomains = (view, groups)"
  shows "sum_list (map te_eventCount (topo_edges view)) = sum_list (map te_eventCount (topo_edges t))"
    and "sum_list (map te_alertCount (topo_edges view)) = sum_list (map te_alertCount (topo_edges t))"
    and "distinct (map edge_id (topo_edges view))"
proof -
  let ?m = "foldl (merge_edge dp (shown_target (group_by_target groups) expandedDomains)) [] (topo_edges t)"
  have v: "topo_edges view = js_sort (compareTopologyEdges dp lc) (map_values ?m)"
    using assms by (auto simp: buildTopologyDomainView_def Let_def)
  show "sum_list (map te_eventCount (topo_edges view)) = sum_list (map te_eventCount (topo_edges t))"
      "sum_list (map te_alertCount (topo_edges view)) = sum_list (map te_alertCount (topo_edges t))"
    using merge_edges_sum [of dp "shown_target (group_by_target groups) expandedDomains" "[]" "topo_edges t"]
    unfolding v sum_js_sort by simp_all
  have ids: "distinct (map_keys ?m) \<and> (\<forall>(i, e)\<in>set ?m. edge_id e = i)" by (rule merge_edges_ids) simp_all
  then have eq: "map edge_id (map_values ?m) = map_keys ?m" by auto
  have "distinct (map edge_id (map_values ?m))" unfolding eq using ids by blast
  then show "distinct (map edge_id (topo_edges view))"
    unfolding v by (simp only: distinct_map_js_sort)
qed

section \<open>The filter shows the most important edges\<close>

lemma signed_by_last_seen:
  assumes "\<And>s. dp s \<noteq> None"
  shows "signed_comparator (by_last_seen dp)"
proof -
  have "by_last_seen dp = by_key (\<lambda>e. - the (dp (te_lastSeenAt e)))"
  proof (intro ext)
    fix l r
    show "by_last_seen dp l r = by_key (\<lambda>e. - the (dp (te_lastSeenAt e))) l r"
      using assms [of "te_lastSeenAt l"] assms [of "te_lastSeenAt r"]
      by (auto simp: by_last_seen_def parsed_difference_def by_key_def)
  qed
  then show ?thesis using signed_key_order.signed_comparator_axioms by metis
qed

lemma signed_comparator_map: "signed_comparator c \<Longrightarrow> signed_comparator (\<lambda>l r. c (f l) (f r))"
  unfolding signed_comparator_def comparator_def signed_comparator_axioms_def by blast

lemma signed_compareTopologyEdges:
  assumes "signed_comparator lc" "\<And>s. dp s \<noteq> None"
  shows "signed_comparator (compareTopologyEdges dp lc)"
proof -
  note key = signed_key_order.signed_comparator_axioms
  note names = signed_comparator_map [OF assms(1), of te_target] signed_comparator_map [OF assms(1), of te_protocol]
  show ?thesis
    unfolding compareTopologyEdges_def
    by (intro signed_then_by names key signed_by_last_seen assms(2))
qed

lemma js_sort_cong:
  "(\<And>x y. x \<in> set xs \<Longrightarrow> y \<in> set xs \<Longrightarrow> c x y = d x y) \<Longrightarrow> js_sort c xs = js_sort d xs"
proof (induction xs)
  case (Cons x xs)
  have "js_insort c x ys = js_insort d x ys" if "\<forall>y\<in>set ys. c x y = d x y" for ys
    using that by (induction ys) auto
  moreover have "\<forall>y\<in>set (js_sort d xs). c x y = d x y" using Cons.prems by simp
  ultimately show ?case using Cons by simp
qed simp

lemma filterTopology_edges:
  assumes "signed_comparator lc" "\<forall>e\<in>set (topo_edges t). dp (te_lastSeenAt e) \<noteq> None"
    and "view = filterTopology dp lower lc t search limit"
    and "m = map_from (map (\<lambda>n. (tn_endpointId n, n)) (topo_nodes t))"
    and "e \<in> set (topo_edges t)" "edge_matches lower m (lower (trim search)) e" "e \<notin> set (topo_edges view)"
    and "shown \<in> set (topo_edges view)"
  shows "compareTopologyEdges dp lc shown e \<le> 0"
proof -
  define total where "total s = Some (case dp s of Some v \<Rightarrow> v | None \<Rightarrow> 0)" for s
  let ?xs = "filter (edge_matches lower m (lower (trim search))) (topo_edges t)"
  have agree: "compareTopologyEdges dp lc x y = compareTopologyEdges total lc x y"
    if xy: "x \<in> set (topo_edges t)" "y \<in> set (topo_edges t)" for x y
  proof -
    have "by_last_seen dp x y = by_last_seen total x y"
    proof -
      obtain a b where "dp (te_lastSeenAt x) = Some a" "dp (te_lastSeenAt y) = Some b"
        using xy assms(2) by blast
      then show ?thesis by (simp add: by_last_seen_def parsed_difference_def total_def)
    qed
    then show ?thesis by (simp add: compareTopologyEdges_def then_by_def)
  qed
  have sort: "js_sort (compareTopologyEdges dp lc) ?xs = js_sort (compareTopologyEdges total lc) ?xs"
    by (rule js_sort_cong) (auto simp: agree)
  let ?L = "js_sort (compareTopologyEdges total lc) ?xs" and ?n = "nat (max 1 limit)"
  have "signed_comparator (compareTopologyEdges total lc)"
    using assms(1) by (rule signed_compareTopologyEdges) (simp add: total_def)
  then have "sorted_wrt (\<lambda>x y. compareTopologyEdges total lc x y \<le> 0) ?L"
    by (intro comparator.sorted_js_sort signed_comparator.axioms(1))
  then have "sorted_wrt (\<lambda>x y. compareTopologyEdges total lc x y \<le> 0) (take ?n ?L @ drop ?n ?L)" by simp
  then have before: "compareTopologyEdges total lc x y \<le> 0" if "x \<in> set (take ?n ?L)" "y \<in> set (drop ?n ?L)" for x y
    using that by (auto simp only: sorted_wrt_append)
  have view: "topo_edges view = take ?n ?L"
    by (simp add: assms(3,4) filterTopology_def Let_def sort [unfolded assms(4)])
  have "e \<in> set ?L" using assms(5,6) by simp
  then have "e \<in> set (take ?n ?L) \<or> e \<in> set (drop ?n ?L)" by (metis UnE append_take_drop_id set_append)
  then have e: "e \<in> set (drop ?n ?L)" using assms(7) view by simp
  have "shown \<in> set (topo_edges t)" using assms(8) view by (auto dest!: in_set_takeD)
  then show ?thesis using before e assms(5,8) view agree by simp
qed

lemma filterTopology_shape:
  assumes "view = filterTopology dp lower lc t search limit"
  shows "int (length (topo_edges view)) \<le> max 1 limit" "set (topo_edges view) \<subseteq> set (topo_edges t)"
    and "set (topo_nodes view) = {n \<in> set (topo_nodes t). \<exists>e\<in>set (topo_edges view). te_endpointId e = tn_endpointId n}"
proof -
  let ?L = "js_sort (compareTopologyEdges dp lc) (filter (edge_matches lower
      (map_from (map (\<lambda>n. (tn_endpointId n, n)) (topo_nodes t))) (lower (trim search))) (topo_edges t))"
  have e: "topo_edges view = take (nat (max 1 limit)) ?L"
    by (simp add: assms filterTopology_def Let_def)
  have "topo_nodes view = filter (\<lambda>n. tn_endpointId n \<in> te_endpointId ` set (topo_edges view)) (topo_nodes t)"
    by (simp add: assms filterTopology_def Let_def)
  then show "set (topo_nodes view) = {n \<in> set (topo_nodes t). \<exists>e\<in>set (topo_edges view). te_endpointId e = tn_endpointId n}"
    by force
  show "int (length (topo_edges view)) \<le> max 1 limit" "set (topo_edges view) \<subseteq> set (topo_edges t)"
    by (auto simp: e dest!: in_set_takeD)
qed

section \<open>Correlation and operations\<close>

text \<open>The relationships of the looked-up value come first, each part in the order received.\<close>

lemma js_insort_front: "\<forall>y\<in>set ys. cmp x y \<le> 0 \<Longrightarrow> js_insort cmp x ys = x # ys"
  by (cases ys) auto

lemma js_insort_skip: "\<forall>y\<in>set ys. 0 < cmp x y \<Longrightarrow> js_insort cmp x (ys @ zs) = ys @ js_insort cmp x zs"
  by (induction ys) (auto simp: not_le)

lemma sort_partition:
  fixes n :: nat
  defines "cmp \<equiv> then_by (by_key (\<lambda>(e, i, connected). - (if connected then 1 else 0))) (by_key (\<lambda>(e :: 'e, i :: int, connected). i))"
  shows "js_sort cmp (map (\<lambda>(i, e). (e, int i, P e)) (enumerate n xs)) =
    filter (\<lambda>(e, i, connected). connected) (map (\<lambda>(i, e). (e, int i, P e)) (enumerate n xs)) @
    filter (\<lambda>(e, i, connected). \<not> connected) (map (\<lambda>(i, e). (e, int i, P e)) (enumerate n xs))"
proof (induction xs arbitrary: n)
  case (Cons x xs)
  let ?rows = "map (\<lambda>(i, e). (e, int i, P e)) (enumerate (Suc n) xs)"
  let ?c = "filter (\<lambda>(e, i, connected). connected) ?rows" and ?d = "filter (\<lambda>(e, i, connected). \<not> connected) ?rows"
  have later: "int n < i" if "(e, i, b) \<in> set ?rows" for e i b
    using that by (auto simp: in_set_enumerate_eq)
  show ?case
  proof (cases "P x")
    case True
    have "\<forall>y\<in>set (?c @ ?d). cmp (x, int n, True) y \<le> 0"
      using later by (fastforce simp: cmp_def then_by_def by_key_def split: if_splits)
    then show ?thesis using Cons True by (simp add: js_insort_front)
  next
    case False
    have "\<forall>y\<in>set ?c. 0 < cmp (x, int n, False) y" "\<forall>y\<in>set ?d. cmp (x, int n, False) y \<le> 0"
      using later by (fastforce simp: cmp_def then_by_def by_key_def split: if_splits)+
    then show ?thesis using Cons False by (simp add: js_insort_skip js_insort_front)
  qed
qed simp

lemma correlationGraphRelationships_eq:
  "correlationGraphRelationships c limit =
     take (nat (max 1 limit)) (filter (input_connected c) (co_relationships c) @
                               filter (\<lambda>e. \<not> input_connected c e) (co_relationships c))"
proof -
  let ?rows = "map (\<lambda>(i, e). (e, int i, input_connected c e)) (enumerate 0 (co_relationships c))"
  have proj: "map fst (filter (\<lambda>(e, i, b). b) (map (\<lambda>(i, e). (e, int i, P e)) (enumerate n xs))) = filter P xs"
      "map fst (filter (\<lambda>(e, i, b). \<not> b) (map (\<lambda>(i, e). (e, int i, P e)) (enumerate n xs))) = filter (\<lambda>e. \<not> P e) xs"
    for P :: "CorrelationRelationshipDto \<Rightarrow> bool" and n xs
    by (induction xs arbitrary: n) simp_all
  show ?thesis
    unfolding correlationGraphRelationships_def Let_def sort_partition
    by (simp only: take_map [symmetric] map_append proj)
qed

text \<open>The health of a stage is the worst of what it depends on.\<close>

lemma worst_foldl:
  "foldl (\<lambda>worst s. if HEALTH_PRIORITY s < HEALTH_PRIORITY worst then s else worst) w ss \<in> insert w (set ss) \<and>
   (\<forall>s\<in>insert w (set ss). HEALTH_PRIORITY (foldl (\<lambda>worst s. if HEALTH_PRIORITY s < HEALTH_PRIORITY worst then s else worst) w ss)
      \<le> HEALTH_PRIORITY s)"
proof (induction ss arbitrary: w)
  case (Cons s ss)
  show ?case using Cons.IH [of w] Cons.IH [of s] by (auto simp: not_less)
qed simp

lemma HEALTH_PRIORITY_HEALTHY: "HEALTH_PRIORITY s \<le> HEALTH_PRIORITY HEALTHY" "HEALTH_PRIORITY s = HEALTH_PRIORITY r \<longleftrightarrow> s = r"
  by (cases s; simp) (cases s; cases r; simp)

lemma worstHealth_spec:
  assumes "ss \<noteq> []"
  shows "worstHealth ss \<in> set ss" "s \<in> set ss \<Longrightarrow> HEALTH_PRIORITY (worstHealth ss) \<le> HEALTH_PRIORITY s"
proof -
  let ?w = "foldl (\<lambda>worst s. if HEALTH_PRIORITY s < HEALTH_PRIORITY worst then s else worst) HEALTHY ss"
  have w: "worstHealth ss = ?w" using assms by (simp add: worstHealth_def)
  note f = worst_foldl [of HEALTHY ss]
  show "s \<in> set ss \<Longrightarrow> HEALTH_PRIORITY (worstHealth ss) \<le> HEALTH_PRIORITY s" using f by (simp add: w)
  show "worstHealth ss \<in> set ss"
  proof (cases "?w \<in> set ss")
    case False
    then have h: "?w = HEALTHY" using f by simp
    obtain s where s: "s \<in> set ss" using assms by (cases ss) auto
    then have "HEALTH_PRIORITY HEALTHY \<le> HEALTH_PRIORITY s" using f h by auto
    then have "s = HEALTHY" by (metis HEALTH_PRIORITY_HEALTHY order_antisym)
    with s h w show ?thesis by simp
  qed (simp add: w)
qed

lemma worstHealth_HEALTHY: "worstHealth ss = HEALTHY \<longleftrightarrow> ss \<noteq> [] \<and> (\<forall>s\<in>set ss. s = HEALTHY)"
proof (cases "ss = []")
  case False
  then show ?thesis
    using worstHealth_spec [of ss] HEALTH_PRIORITY_HEALTHY by (metis order_antisym)
qed (simp add: worstHealth_def)

lemma pipeline_stages: "mset (map fst (buildPipelineSnapshot h ingest)) = {#COLLECTION, DETECTION, STORAGE#}"
  unfolding buildPipelineSnapshot_def Let_def by (simp only: mset_map mset_js_sort) simp

lemma pipeline_sorted: "sorted (map (\<lambda>(stage, s). HEALTH_PRIORITY s) (buildPipelineSnapshot h ingest))"
  unfolding buildPipelineSnapshot_def Let_def by (rule sorted_by_key)

lemma pipeline_status:
  "(DETECTION, s) \<in> set (buildPipelineSnapshot h ingest) \<longleftrightarrow>
     s = worstHealth (map worker_health (oh_workers h) @
       (if 0 < ic_failedCount ingest \<or> 0 < ic_reprocessFailedCount ingest then [DEGRADED] else []))"
  "(COLLECTION, s) \<in> set (buildPipelineSnapshot h ingest) \<longleftrightarrow> s = worstHealth (services_health [''Backend API'', ''Kafka''] h)"
  "(STORAGE, s) \<in> set (buildPipelineSnapshot h ingest) \<longleftrightarrow>
     s = worstHealth (services_health [''PostgreSQL'', ''ClickHouse'', ''S3''] h @
       (if 0 < ic_failedBucketCount ingest then [DEGRADED] else []))"
  unfolding buildPipelineSnapshot_def Let_def set_js_sort by auto

lemma archive_counts_total: "sum_list (map snd (archiveLifecycleCounts ss)) = length ss"
proof (induction ss)
  case (Cons s ss)
  then show ?case by (cases s) (simp_all add: archiveLifecycleCounts_def STORAGE_LIFECYCLE_def)
qed (simp add: archiveLifecycleCounts_def STORAGE_LIFECYCLE_def)

end
