(* ===== verification/ChartModel.thy ===== *)
theory ChartModel
  imports JsDate Contracts
begin

text \<open>
  The data of the detection activity chart (\<open>features/overview/overviewChartModel.ts\<close>): three series
  over the common set of time stamps.  A time stamp is the parsed start of a bucket; rows whose start
  cannot be read are dropped.
\<close>

record TimeSeriesPointDto =
  tsp_bucketStartAt :: jsstring
  tsp_count :: int

record IncidentTimeSeriesPointDto =
  itp_bucketStartAt :: jsstring
  itp_openCount :: int
  itp_closedCount :: int

datatype series_key = EVENTS_SERIES | ALERTS_SERIES | INCIDENTS_SERIES

record DetectionSeriesModel =
  ds_key :: series_key
  ds_points :: "(int \<times> int option) list"

record DetectionActivityModel =
  da_domain :: "(int \<times> int) option"
  da_timestamps :: "int list"
  da_series :: "DetectionSeriesModel list"

definition sortPoints :: "(int option \<times> int) list \<Rightarrow> (int \<times> int option) list" where
  "sortPoints points =
     js_sort (by_key fst) (map (\<lambda>(t, v). (the t, Some v)) (filter (\<lambda>(t, v). t \<noteq> None) points))"

text \<open>\<open>undefined\<close> when there is no such point, here \<open>None\<close>, and otherwise the value, which may be null.\<close>

definition valueAt :: "DetectionSeriesModel \<Rightarrow> int \<Rightarrow> int option option" where
  "valueAt series timestamp = map_option snd (List.find (\<lambda>(t, v). t = timestamp) (ds_points series))"

definition source_series ::
  "date_parser \<Rightarrow> TimeSeriesPointDto list \<Rightarrow> TimeSeriesPointDto list \<Rightarrow> IncidentTimeSeriesPointDto list \<Rightarrow> DetectionSeriesModel list" where
  "source_series date_parse events alerts incidents =
     [\<lparr>ds_key = EVENTS_SERIES, ds_points = sortPoints (map (\<lambda>r. (date_parse (tsp_bucketStartAt r), tsp_count r)) events)\<rparr>,
      \<lparr>ds_key = ALERTS_SERIES, ds_points = sortPoints (map (\<lambda>r. (date_parse (tsp_bucketStartAt r), tsp_count r)) alerts)\<rparr>,
      \<lparr>ds_key = INCIDENTS_SERIES, ds_points = sortPoints (map (\<lambda>r. (date_parse (itp_bucketStartAt r), itp_openCount r)) incidents)\<rparr>]"

definition align_series :: "int list \<Rightarrow> DetectionSeriesModel \<Rightarrow> DetectionSeriesModel" where
  "align_series timestamps s =
     s\<lparr>ds_points := map (\<lambda>t. (t, case valueAt s t of Some v \<Rightarrow> v | None \<Rightarrow> None)) timestamps\<rparr>"

definition buildDetectionActivityModel ::
  "date_parser \<Rightarrow> TimeSeriesPointDto list \<Rightarrow> TimeSeriesPointDto list \<Rightarrow> IncidentTimeSeriesPointDto list \<Rightarrow> DetectionActivityModel" where
  "buildDetectionActivityModel date_parse events alerts incidents =
     (let sourceSeries = source_series date_parse events alerts incidents;
          timestamps = js_sort (by_key id) (set_from (concat (map (\<lambda>s. map fst (ds_points s)) sourceSeries)))
      in \<lparr>da_domain = (if timestamps = [] then None else Some (hd timestamps, last timestamps)),
          da_timestamps = timestamps,
          da_series = map (align_series timestamps) sourceSeries\<rparr>)"

section \<open>Facts\<close>

lemma sortPoints_set: "set (sortPoints ps) = {(t, Some v) |t v. (Some t, v) \<in> set ps}"
  by (force simp: sortPoints_def)

text \<open>The time axis: increasing, without repetition, made of the readable time stamps.\<close>

lemma timestamps_spec:
  fixes date_parse events alerts incidents
  defines "m \<equiv> buildDetectionActivityModel date_parse events alerts incidents"
  shows "sorted_wrt (<) (da_timestamps m)"
    and "set (da_timestamps m) =
      {t. (\<exists>r\<in>set events. date_parse (tsp_bucketStartAt r) = Some t) \<or> (\<exists>r\<in>set alerts. date_parse (tsp_bucketStartAt r) = Some t) \<or>
          (\<exists>r\<in>set incidents. date_parse (itp_bucketStartAt r) = Some t)}"
    and "\<forall>s\<in>set (da_series m). map fst (ds_points s) = da_timestamps m"
proof -
  let ?ts = "js_sort (by_key id) (set_from (concat (map (\<lambda>s. map fst (ds_points s)) (source_series date_parse events alerts incidents))))"
  have ts: "da_timestamps m = ?ts" by (simp add: m_def buildDetectionActivityModel_def Let_def)
  have "sorted ?ts" using sorted_by_key [of id] by simp
  moreover have "distinct ?ts" by simp
  ultimately show "sorted_wrt (<) (da_timestamps m)" unfolding ts by (simp add: strict_sorted_iff)
  have pts: "fst ` set (sortPoints (map (\<lambda>r. (f r, g r)) xs)) = {t. \<exists>r\<in>set xs. f r = Some t}" for f :: "'r \<Rightarrow> int option" and g :: "'r \<Rightarrow> int" and xs
    unfolding sortPoints_set by (auto simp: image_iff) metis
  show "set (da_timestamps m) =
      {t. (\<exists>r\<in>set events. date_parse (tsp_bucketStartAt r) = Some t) \<or> (\<exists>r\<in>set alerts. date_parse (tsp_bucketStartAt r) = Some t) \<or>
          (\<exists>r\<in>set incidents. date_parse (itp_bucketStartAt r) = Some t)}"
    unfolding ts by (auto simp: source_series_def pts)
  show "\<forall>s\<in>set (da_series m). map fst (ds_points s) = da_timestamps m"
    unfolding ts by (simp add: m_def buildDetectionActivityModel_def Let_def source_series_def align_series_def comp_def)
qed

lemma domain_spec:
  fixes date_parse events alerts incidents
  defines "m \<equiv> buildDetectionActivityModel date_parse events alerts incidents"
  shows "da_domain m = (if da_timestamps m = [] then None else Some (Min (set (da_timestamps m)), Max (set (da_timestamps m))))"
proof (cases "da_timestamps m = []")
  case False
  have s: "sorted (da_timestamps m)" using timestamps_spec(1) [of date_parse events alerts incidents]
    unfolding m_def by (rule strict_sorted_imp_sorted)
  have "hd (da_timestamps m) = Min (set (da_timestamps m))"
    using False s by (metis Min_eqI hd_in_set List.finite_set in_set_conv_nth hd_conv_nth sorted_nth_mono le0)
  moreover have "last (da_timestamps m) = Max (set (da_timestamps m))"
  proof (rule Max_eqI [symmetric])
    show "y \<le> last (da_timestamps m)" if "y \<in> set (da_timestamps m)" for y
      using that s False by (auto simp: last_conv_nth in_set_conv_nth intro!: sorted_nth_mono)
  qed (simp_all add: False)
  moreover have "da_domain m = Some (hd (da_timestamps m), last (da_timestamps m))"
    using False by (auto simp: m_def buildDetectionActivityModel_def Let_def)
  ultimately show ?thesis using False by simp
qed (simp add: m_def buildDetectionActivityModel_def Let_def)

text \<open>A series shows a value where it has a row, and null elsewhere.\<close>

lemma valueAt_None: "valueAt s t = None \<longleftrightarrow> t \<notin> fst ` set (ds_points s)"
  by (auto simp: valueAt_def find_None_iff image_iff)

lemma align_value:
  assumes "(t, v) \<in> set (ds_points (align_series ts s))" "\<forall>p\<in>set (ds_points s). snd p \<noteq> None"
  shows "v = None \<longleftrightarrow> t \<notin> fst ` set (ds_points s)" "v \<noteq> None \<Longrightarrow> (t, v) \<in> set (ds_points s)"
proof -
  from assms(1) have v: "v = (case valueAt s t of Some w \<Rightarrow> w | None \<Rightarrow> None)" by (auto simp: align_series_def)
  have val: "(t, w) \<in> set (ds_points s)" if "valueAt s t = Some w" for w
    using that by (auto simp: valueAt_def dest!: find_SomeD)
  show "v = None \<longleftrightarrow> t \<notin> fst ` set (ds_points s)"
    using v val assms(2) valueAt_None [of s t] by (cases "valueAt s t") force+
  show "v \<noteq> None \<Longrightarrow> (t, v) \<in> set (ds_points s)"
    using v val by (auto split: option.splits)
qed

end
