(* ===== verification/GraphLayout.thy ===== *)
theory GraphLayout
  imports Intelligence Investigation
begin

text \<open>
  The graphs of the topology, of a correlation and of an incident (\<open>components/TopologyGraph.tsx\<close>,
  \<open>components/CorrelationGraph.tsx\<close>, \<open>components/IncidentGraph.tsx\<close>): the positions of the nodes,
  the positions of the labels of the edges, the height the canvas needs, the nodes and edges handed to
  the renderer, and the animation frames the components ask for.

  The package \<open>@dagrejs/dagre\<close> is the argument \<open>dagre\<close>: given the options and the calls of \<open>setNode\<close>
  and \<open>setEdge\<close>, the nodes of the graph with the point the layout gives each.  The function
  \<open>getBezierPath\<close> of \<open>@xyflow/react\<close> is the argument \<open>bezier\<close>: given the two ends, the point of the
  label.  Coordinates are rationals.
\<close>

section \<open>Constants and parameters\<close>

definition NODE_WIDTH :: rat where "NODE_WIDTH = 160"
definition NODE_HEIGHT :: rat where "NODE_HEIGHT = 64"
definition EDGE_LABEL_GAP :: rat where "EDGE_LABEL_GAP = 40"
definition EDGE_LABEL_LANE_OFFSET :: rat where "EDGE_LABEL_LANE_OFFSET = 50"
definition EDGE_LABEL_TARGET_HEIGHT :: rat where "EDGE_LABEL_TARGET_HEIGHT = 36"
definition GRAPH_VERTICAL_MARGIN :: rat where "GRAPH_VERTICAL_MARGIN = 64"
definition TOPOLOGY_FIT_VIEW_PADDING :: rat where "TOPOLOGY_FIT_VIEW_PADDING = 1 / 10"
definition CORRELATION_FIT_VIEW_PADDING :: rat where "CORRELATION_FIT_VIEW_PADDING = 5 / 100"

record point =
  pt_x :: rat
  pt_y :: rat

definition origin :: point where
  "origin = \<lparr>pt_x = 0, pt_y = 0\<rparr>"

type_synonym positions = "(jsstring, point) jsmap"

record graph_options =
  go_nodesep :: int
  go_ranksep :: int
  go_edgesep :: "int option"
  go_margin :: int

datatype graph_call = setNode jsstring rat rat | setEdge jsstring jsstring

type_synonym dagre_layout = "graph_options \<Rightarrow> graph_call list \<Rightarrow> (jsstring \<times> point option) list"

text \<open>The two ends of a curve; it leaves at the bottom of the source and enters at the top of the target.\<close>

record curve_ends =
  ce_sourceX :: rat
  ce_sourceY :: rat
  ce_targetX :: rat
  ce_targetY :: rat

type_synonym bezier_label = "curve_ends \<Rightarrow> rat \<times> rat"

fun call_nodes :: "graph_call \<Rightarrow> jsstring list" where
  "call_nodes (setNode i w h) = [i]"
| "call_nodes (setEdge a b) = [a, b]"

text \<open>
  What the callers rely on of \<open>dagre\<close>: the graph has every node that was set once, and those only.
\<close>

definition dagre_nodes_ok :: "dagre_layout \<Rightarrow> bool" where
  "dagre_nodes_ok dagre \<longleftrightarrow>
     (\<forall>options calls. distinct (map fst (dagre options calls)) \<and>
        set (map fst (dagre options calls)) = (\<Union>c\<in>set calls. set (call_nodes c)))"

section \<open>Positions of the nodes\<close>

text \<open>The centre that \<open>dagre\<close> gives, moved to the top left corner of the node.\<close>

definition corner_of :: "point option \<Rightarrow> point" where
  "corner_of p =
     \<lparr>pt_x = (case p of Some q \<Rightarrow> pt_x q | None \<Rightarrow> NODE_WIDTH / 2) - NODE_WIDTH / 2,
      pt_y = (case p of Some q \<Rightarrow> pt_y q | None \<Rightarrow> NODE_HEIGHT / 2) - NODE_HEIGHT / 2\<rparr>"

definition topology_calls :: "TopologyNodeDto list \<Rightarrow> TopologyEdgeGroup list \<Rightarrow> graph_call list" where
  "topology_calls nodes groups =
     map (\<lambda>n. setNode (endpointNodeId (tn_endpointId n)) NODE_WIDTH NODE_HEIGHT) nodes @
     concat (map (\<lambda>g. [setNode (targetNodeId (tg_target g)) NODE_WIDTH NODE_HEIGHT,
                       setEdge (endpointNodeId (tg_endpointId g)) (targetNodeId (tg_target g))]) groups)"

definition layoutTopologyNodes :: "date_parser \<Rightarrow> dagre_layout \<Rightarrow> EgressTopologyDto \<Rightarrow> js_error + positions" where
  "layoutTopologyNodes date_parse dagre t =
     map_sum id (\<lambda>groups.
       map_from (map (\<lambda>(i, p). (i, corner_of p))
         (dagre \<lparr>go_nodesep = 24, go_ranksep = 210, go_edgesep = Some 32, go_margin = 24\<rparr>
            (topology_calls (topo_nodes t) groups))))
       (groupTopologyEdges date_parse (topo_edges t))"

definition layoutCorrelationNodes ::
  "dagre_layout \<Rightarrow> jsstring list \<Rightarrow> CorrelationRelationshipDto list \<Rightarrow> positions" where
  "layoutCorrelationNodes dagre nodeIds relationships =
     map_from (map (\<lambda>(i, p). (i, corner_of p))
       (dagre \<lparr>go_nodesep = 24, go_ranksep = 180, go_edgesep = Some 32, go_margin = 24\<rparr>
         (map (\<lambda>i. setNode i NODE_WIDTH NODE_HEIGHT) nodeIds @
          map (\<lambda>e. setEdge (correlationNodeId (cr_sourceType e) (cr_sourceValue e))
                           (correlationNodeId (cr_targetType e) (cr_targetValue e))) relationships)))"

definition layoutInvestigationNodes :: "dagre_layout \<Rightarrow> IncidentInvestigationDto \<Rightarrow> positions" where
  "layoutInvestigationNodes dagre i =
     (let graph = dagre \<lparr>go_nodesep = 28, go_ranksep = 56, go_edgesep = None, go_margin = 20\<rparr>
            (map (\<lambda>n. setNode (inode_nodeId n) NODE_WIDTH NODE_HEIGHT) (inv_nodes i) @
             map (\<lambda>e. setEdge (iedge_sourceNodeId e) (iedge_targetNodeId e)) (inv_edges i))
      in map_from (map (\<lambda>n. (inode_nodeId n, corner_of (Option.bind (map_of graph (inode_nodeId n)) id))) (inv_nodes i)))"

section \<open>Positions of the labels\<close>

definition position_or_origin :: "positions \<Rightarrow> jsstring \<Rightarrow> point" where
  "position_or_origin positions i = (case map_get positions i of Some p \<Rightarrow> p | None \<Rightarrow> origin)"

definition label_y :: "bezier_label \<Rightarrow> point \<Rightarrow> point \<Rightarrow> rat" where
  "label_y bezier source target =
     snd (bezier \<lparr>ce_sourceX = pt_x source + NODE_WIDTH / 2, ce_sourceY = pt_y source + NODE_HEIGHT,
                  ce_targetX = pt_x target + NODE_WIDTH / 2, ce_targetY = pt_y target\<rparr>)"

definition by_label :: "(jsstring \<Rightarrow> jsstring \<Rightarrow> rat) \<Rightarrow> jsstring \<times> rat \<Rightarrow> jsstring \<times> rat \<Rightarrow> rat" where
  "by_label locale_compare = then_by (by_key snd) (\<lambda>l r. locale_compare (fst l) (fst r))"

text \<open>\<open>None\<close> is the initial \<open>NEGATIVE_INFINITY\<close>.\<close>

definition adjusted_y :: "rat option \<Rightarrow> rat \<Rightarrow> rat" where
  "adjusted_y previousY labelY = (case previousY of None \<Rightarrow> labelY | Some p \<Rightarrow> max labelY (p + EDGE_LABEL_GAP))"

record label_position =
  lp_xOffset :: rat
  lp_y :: rat

fun place_in_lanes :: "rat option \<Rightarrow> rat option \<Rightarrow> (jsstring \<times> rat) list \<Rightarrow> (jsstring \<times> label_position) list" where
  "place_in_lanes previous0 previous1 [] = []"
| "place_in_lanes previous0 previous1 ((i, labelY) # candidates) =
     (let adjusted0 = adjusted_y previous0 labelY;
          adjusted1 = adjusted_y previous1 labelY
      in if adjusted0 \<le> adjusted1
         then (i, \<lparr>lp_xOffset = - EDGE_LABEL_LANE_OFFSET, lp_y = adjusted0\<rparr>) # place_in_lanes (Some adjusted0) previous1 candidates
         else (i, \<lparr>lp_xOffset = EDGE_LABEL_LANE_OFFSET, lp_y = adjusted1\<rparr>) # place_in_lanes previous0 (Some adjusted1) candidates)"

definition topology_candidates :: "bezier_label \<Rightarrow> TopologyEdgeGroup list \<Rightarrow> positions \<Rightarrow> (jsstring \<times> rat) list" where
  "topology_candidates bezier groups positions =
     map (\<lambda>g. (tg_id g, label_y bezier (position_or_origin positions (endpointNodeId (tg_endpointId g)))
                                        (position_or_origin positions (targetNodeId (tg_target g))))) groups"

definition layoutTopologyEdgeLabels ::
  "bezier_label \<Rightarrow> (jsstring \<Rightarrow> jsstring \<Rightarrow> rat) \<Rightarrow> TopologyEdgeGroup list \<Rightarrow> positions \<Rightarrow> (jsstring, label_position) jsmap" where
  "layoutTopologyEdgeLabels bezier locale_compare groups positions =
     (let candidates = js_sort (by_label locale_compare) (topology_candidates bezier groups positions)
      in case candidates of
           [(i, labelY)] \<Rightarrow> [(i, \<lparr>lp_xOffset = 0, lp_y = labelY\<rparr>)]
         | _ \<Rightarrow> map_from (place_in_lanes None None candidates))"

fun place_in_column :: "rat option \<Rightarrow> (jsstring \<times> rat) list \<Rightarrow> (jsstring \<times> rat) list" where
  "place_in_column previous [] = []"
| "place_in_column previous ((i, labelY) # candidates) =
     (i, adjusted_y previous labelY) # place_in_column (Some (adjusted_y previous labelY)) candidates"

definition correlation_candidates :: "bezier_label \<Rightarrow> CorrelationRelationshipDto list \<Rightarrow> positions \<Rightarrow> (jsstring \<times> rat) list" where
  "correlation_candidates bezier relationships positions =
     map (\<lambda>e. (correlationEdgeId e,
               label_y bezier (position_or_origin positions (correlationNodeId (cr_sourceType e) (cr_sourceValue e)))
                              (position_or_origin positions (correlationNodeId (cr_targetType e) (cr_targetValue e))))) relationships"

definition layoutCorrelationEdgeLabelYs ::
  "bezier_label \<Rightarrow> (jsstring \<Rightarrow> jsstring \<Rightarrow> rat) \<Rightarrow> CorrelationRelationshipDto list \<Rightarrow> positions \<Rightarrow> (jsstring, rat) jsmap" where
  "layoutCorrelationEdgeLabelYs bezier locale_compare relationships positions =
     map_from (place_in_column None (js_sort (by_label locale_compare) (correlation_candidates bezier relationships positions)))"

section \<open>Height of the canvas\<close>

text \<open>The two functions differ in the least height and in the padding only.\<close>

definition node_center :: "rat list \<Rightarrow> rat" where
  "node_center yValues = (Min (set yValues) + (Max (set yValues) + NODE_HEIGHT)) / 2"

definition visual_top :: "rat list \<Rightarrow> rat list \<Rightarrow> rat" where
  "visual_top yValues labelCenters =
     (if labelCenters \<noteq> [] then min (Min (set yValues)) (Min (set labelCenters) - EDGE_LABEL_TARGET_HEIGHT / 2)
      else Min (set yValues))"

definition visual_bottom :: "rat list \<Rightarrow> rat list \<Rightarrow> rat" where
  "visual_bottom yValues labelCenters =
     (if labelCenters \<noteq> [] then max (Max (set yValues) + NODE_HEIGHT) (Max (set labelCenters) + EDGE_LABEL_TARGET_HEIGHT / 2)
      else Max (set yValues) + NODE_HEIGHT)"

definition graph_min_height :: "rat \<Rightarrow> rat \<Rightarrow> rat list \<Rightarrow> rat list \<Rightarrow> rat" where
  "graph_min_height least padding yValues labelCenters =
     (if yValues = [] then least
      else let centeredContentHeight =
                 max (node_center yValues - visual_top yValues labelCenters)
                     (visual_bottom yValues labelCenters - node_center yValues) * 2
           in max least (of_int \<lceil>centeredContentHeight * (1 + padding * 2) + GRAPH_VERTICAL_MARGIN\<rceil>))"

definition topologyGraphMinHeight :: "positions \<Rightarrow> (jsstring, label_position) jsmap \<Rightarrow> rat" where
  "topologyGraphMinHeight positions labelPositions =
     graph_min_height 420 TOPOLOGY_FIT_VIEW_PADDING (map pt_y (map_values positions)) (map lp_y (map_values labelPositions))"

definition correlationGraphMinHeight :: "positions \<Rightarrow> (jsstring, rat) jsmap \<Rightarrow> rat" where
  "correlationGraphMinHeight positions labelYs =
     graph_min_height 520 CORRELATION_FIT_VIEW_PADDING (map pt_y (map_values positions)) (map_values labelYs)"

section \<open>What is drawn\<close>

record graph_node =
  gn_id :: jsstring
  gn_position :: point
  gn_type :: jsstring
  gn_text :: jsstring
  gn_ariaLabel :: jsstring
  gn_className :: jsstring
  gn_selected :: bool

record graph_edge =
  ge_id :: jsstring
  ge_source :: jsstring
  ge_target :: jsstring
  ge_label :: jsstring
  ge_ariaLabel :: jsstring
  ge_className :: jsstring
  ge_selected :: bool
  ge_labelXOffset :: rat
  ge_labelY :: rat

record drawn_graph =
  dg_nodes :: "graph_node list"
  dg_edges :: "graph_edge list"
  dg_minHeight :: rat

definition topologyEdgeVisualState :: "int \<Rightarrow> jsstring" where
  "topologyEdgeVisualState alertCount = (if 0 < alertCount then js ''has-alerts'' else js ''observed-only'')"

text \<open>
  An element of the page, as far as the handlers look at it: the closest node or edge of the graph
  around it, with its \<open>data-id\<close> and whether it is a node.
\<close>

type_synonym graph_element = "(jsstring option \<times> bool) option"

definition topologySelectionFromElement :: "graph_element \<Rightarrow> TopologySelection option" where
  "topologySelectionFromElement element =
     (case element of
        Some (Some i, is_node) \<Rightarrow> if i = [] then None else Some (if is_node then TopologyNode i else TopologyEdgeGroupOf i)
      | _ \<Rightarrow> None)"

definition correlationSelectionFromElement :: "graph_element \<Rightarrow> CorrelationSelection option" where
  "correlationSelectionFromElement element =
     (case element of
        Some (Some i, is_node) \<Rightarrow> if i = [] then None else Some (if is_node then CorrelationNode i else CorrelationEdge i)
      | _ \<Rightarrow> None)"

record topology_labels =
  tl_destination :: jsstring
  tl_domainGroup :: jsstring
  tl_hosts :: jsstring

definition topology_node_ids :: "EgressTopologyDto \<Rightarrow> TopologyEdgeGroup list \<Rightarrow> jsstring list" where
  "topology_node_ids t groups =
     set_from (map (\<lambda>n. endpointNodeId (tn_endpointId n)) (topo_nodes t) @ map (\<lambda>g. targetNodeId (tg_target g)) groups)"

definition topology_node ::
  "(jsstring \<Rightarrow> jsstring) \<Rightarrow> topology_labels \<Rightarrow> EgressTopologyDto \<Rightarrow> TopologyDomainGroup list \<Rightarrow> positions
   \<Rightarrow> TopologySelection option \<Rightarrow> jsstring \<Rightarrow> graph_node" where
  "topology_node upper labels t domainGroups positions selection i =
     (let endpoint = (if startsWith i (js ''endpoint:'')
                      then List.find (\<lambda>n. endpointNodeId (tn_endpointId n) = i) (topo_nodes t) else None);
          target = drop 7 i;
          domainGroup = (if endpoint = None \<and> target \<noteq> []
                         then map_get (map_from (map (\<lambda>g. (td_domain g, g)) domainGroups)) target else None)
      in \<lparr>gn_id = i, gn_position = position_or_origin positions i,
          gn_type = (case endpoint of
                       Some e \<Rightarrow> js ''ENDPOINT''
                     | None \<Rightarrow> (case domainGroup of
                                  Some g \<Rightarrow> upper (tl_domainGroup labels) @ MIDDLE_DOT @ id_text (int (length (td_targets g)))
                                              @ js '' '' @ upper (tl_hosts labels)
                                | None \<Rightarrow> upper (tl_destination labels))),
          gn_text = (case endpoint of
                       Some e \<Rightarrow> tn_hostname e @ MIDDLE_DOT @ js ''Risk '' @ id_text (tn_riskScore e)
                     | None \<Rightarrow> target),
          gn_ariaLabel = (case endpoint of
                            Some e \<Rightarrow> js ''Endpoint '' @ tn_hostname e @ js '', risk '' @ id_text (tn_riskScore e)
                          | None \<Rightarrow> (if domainGroup = None then tl_destination labels else tl_domainGroup labels) @ js '' '' @ target),
          gn_className = (if endpoint \<noteq> None then js ''topology-flow-node endpoint''
                          else js ''topology-flow-node target'' @ (if domainGroup \<noteq> None then js '' domain-group'' else [])),
          gn_selected = (selection = Some (TopologyNode i))\<rparr>)"

definition protocol_label :: "jsstring list \<Rightarrow> jsstring" where
  "protocol_label protocols =
     (case protocols of
        [p] \<Rightarrow> p
      | [] \<Rightarrow> js ''undefined +-1''
      | p # ps \<Rightarrow> p @ js '' +'' @ id_text (int (length ps)))"

definition topology_edge ::
  "(jsstring, label_position) jsmap \<Rightarrow> TopologySelection option \<Rightarrow> TopologyEdgeGroup \<Rightarrow> graph_edge" where
  "topology_edge labelPositions selection g =
     \<lparr>ge_id = tg_id g, ge_source = endpointNodeId (tg_endpointId g), ge_target = targetNodeId (tg_target g),
      ge_label = protocol_label (tg_protocols g) @ MIDDLE_DOT @ js ''E'' @ id_text (tg_eventCount g) @ js '' A'' @ id_text (tg_alertCount g),
      ge_ariaLabel = join_text (js '', '') (tg_protocols g) @ js '', '' @ id_text (tg_eventCount g) @ js '' Events, ''
                       @ id_text (tg_alertCount g) @ js '' Alerts'',
      ge_className = js ''topology-edge '' @ topologyEdgeVisualState (tg_alertCount g),
      ge_selected = (selection = Some (TopologyEdgeGroupOf (tg_id g))),
      ge_labelXOffset = (case map_get labelPositions (tg_id g) of Some p \<Rightarrow> lp_xOffset p | None \<Rightarrow> 0),
      ge_labelY = (case map_get labelPositions (tg_id g) of Some p \<Rightarrow> lp_y p | None \<Rightarrow> 0)\<rparr>"

definition TopologyGraph ::
  "date_parser \<Rightarrow> dagre_layout \<Rightarrow> bezier_label \<Rightarrow> (jsstring \<Rightarrow> jsstring \<Rightarrow> rat) \<Rightarrow> (jsstring \<Rightarrow> jsstring)
   \<Rightarrow> topology_labels \<Rightarrow> EgressTopologyDto \<Rightarrow> TopologyDomainGroup list \<Rightarrow> TopologySelection option \<Rightarrow> js_error + drawn_graph" where
  "TopologyGraph date_parse dagre bezier locale_compare upper labels t domainGroups selection =
     (case groupTopologyEdges date_parse (topo_edges t) of
        Inl err \<Rightarrow> Inl err
      | Inr groups \<Rightarrow>
          (case layoutTopologyNodes date_parse dagre t of
             Inl err \<Rightarrow> Inl err
           | Inr positions \<Rightarrow>
               let labelPositions = layoutTopologyEdgeLabels bezier locale_compare groups positions
               in Inr \<lparr>dg_nodes = map (topology_node upper labels t domainGroups positions selection) (topology_node_ids t groups),
                       dg_edges = map (topology_edge labelPositions selection) groups,
                       dg_minHeight = topologyGraphMinHeight positions labelPositions\<rparr>))"

record correlation_value =
  cv_value :: jsstring
  cv_valueType :: CorrelationValueType
  cv_input :: bool

definition addValue ::
  "CorrelationValueType \<Rightarrow> jsstring \<Rightarrow> bool \<Rightarrow> (jsstring, correlation_value) jsmap \<Rightarrow> (jsstring, correlation_value) jsmap" where
  "addValue valueType v input m =
     (let i = correlationNodeId valueType v
      in map_set m i \<lparr>cv_value = v, cv_valueType = valueType,
                      cv_input = (input \<or> (case map_get m i of Some c \<Rightarrow> cv_input c | None \<Rightarrow> False))\<rparr>)"

definition correlation_values ::
  "CorrelationDto \<Rightarrow> CorrelationRelationshipDto list \<Rightarrow> (jsstring, correlation_value) jsmap" where
  "correlation_values c relationships =
     foldl (\<lambda>m e. addValue (cr_targetType e) (cr_targetValue e) False (addValue (cr_sourceType e) (cr_sourceValue e) False m))
       (addValue (co_inputType c) (co_inputValue c) True []) relationships"

fun value_type_class :: "CorrelationValueType \<Rightarrow> jsstring" where
  "value_type_class IP = js ''ip''"
| "value_type_class DOMAIN = js ''domain''"

definition correlation_node :: "positions \<Rightarrow> CorrelationSelection option \<Rightarrow> jsstring \<times> correlation_value \<Rightarrow> graph_node" where
  "correlation_node positions selection = (\<lambda>(i, c).
     \<lparr>gn_id = i, gn_position = position_or_origin positions i,
      gn_type = (if cv_input c then js ''INPUT'' @ MIDDLE_DOT else []) @ value_type_name (cv_valueType c),
      gn_text = cv_value c,
      gn_ariaLabel = (if cv_input c then js ''Input '' else []) @ value_type_name (cv_valueType c) @ js '' '' @ cv_value c,
      gn_className = js ''topology-flow-node correlation '' @ value_type_class (cv_valueType c) @ (if cv_input c then js '' input'' else []),
      gn_selected = (selection = Some (CorrelationNode i))\<rparr>)"

text \<open>\<open>replaceAll("_", " ")\<close>.\<close>

definition underscores_to_spaces :: "jsstring \<Rightarrow> jsstring" where
  "underscores_to_spaces = map (\<lambda>c. if c = 95 then 32 else c)"

definition evidence_text :: "CorrelationRelationshipDto \<Rightarrow> jsstring" where
  "evidence_text e = join_text (js '' + '') (map (\<lambda>s. if s = LIVE_DNS then js ''LIVE'' else js ''OBS'') (cr_sources e))"

definition correlation_edge :: "(jsstring, rat) jsmap \<Rightarrow> CorrelationSelection option \<Rightarrow> CorrelationRelationshipDto \<Rightarrow> graph_edge" where
  "correlation_edge labelYs selection e =
     (let i = correlationEdgeId e
      in \<lparr>ge_id = i, ge_source = correlationNodeId (cr_sourceType e) (cr_sourceValue e),
          ge_target = correlationNodeId (cr_targetType e) (cr_targetValue e),
          ge_label = underscores_to_spaces (relation_name (cr_relation e)) @ MIDDLE_DOT @ evidence_text e,
          ge_ariaLabel = cr_sourceValue e @ js '' '' @ relation_name (cr_relation e) @ js '' '' @ cr_targetValue e @ js '', '' @ evidence_text e,
          ge_className = js ''correlation-edge '' @ (if LIVE_DNS \<in> set (cr_sources e) then js ''live'' else js ''observed-only''),
          ge_selected = (selection = Some (CorrelationEdge i)),
          ge_labelXOffset = 0,
          ge_labelY = (case map_get labelYs i of Some y \<Rightarrow> y | None \<Rightarrow> 0)\<rparr>)"

definition CorrelationGraph ::
  "dagre_layout \<Rightarrow> bezier_label \<Rightarrow> (jsstring \<Rightarrow> jsstring \<Rightarrow> rat) \<Rightarrow> CorrelationDto \<Rightarrow> int \<Rightarrow> CorrelationSelection option \<Rightarrow> drawn_graph" where
  "CorrelationGraph dagre bezier locale_compare c relationshipLimit selection =
     (let visibleRelationships = correlationGraphRelationships c relationshipLimit;
          nodeValues = correlation_values c visibleRelationships;
          positions = layoutCorrelationNodes dagre (map_keys nodeValues) visibleRelationships;
          labelYs = layoutCorrelationEdgeLabelYs bezier locale_compare visibleRelationships positions
      in \<lparr>dg_nodes = map (correlation_node positions selection) nodeValues,
          dg_edges = map (correlation_edge labelYs selection) visibleRelationships,
          dg_minHeight = correlationGraphMinHeight positions labelYs\<rparr>)"

section \<open>Animation frames\<close>

text \<open>
  Both graphs fit the view and move the focus in animation frames and keep the handle of the frame they
  asked for last in a reference, to cancel it when they ask again and when they are unmounted.  The
  frames of the page are the pending calls in the order they were requested; the browser runs the first.
\<close>

datatype frame_call = FitView | FocusSoon jsstring | FocusNow jsstring | FocusNode jsstring

record graph_frames =
  gf_next :: nat
  gf_pending :: "(nat \<times> frame_call) list"
  gf_instance :: bool
  gf_fitFrame :: "nat option"
  gf_focusFrame :: "nat option"
  gf_fits :: nat
  gf_focused :: "jsstring list"

definition mount_frames :: "nat \<Rightarrow> graph_frames" where
  "mount_frames n = \<lparr>gf_next = n, gf_pending = [], gf_instance = False, gf_fitFrame = None, gf_focusFrame = None, gf_fits = 0, gf_focused = []\<rparr>"

definition cancel_frame :: "nat option \<Rightarrow> graph_frames \<Rightarrow> graph_frames" where
  "cancel_frame h f = (case h of None \<Rightarrow> f | Some n \<Rightarrow> f\<lparr>gf_pending := filter (\<lambda>(k, c). k \<noteq> n) (gf_pending f)\<rparr>)"

definition request_frame :: "frame_call \<Rightarrow> graph_frames \<Rightarrow> graph_frames" where
  "request_frame c f = f\<lparr>gf_pending := gf_pending f @ [(gf_next f, c)], gf_next := gf_next f + 1\<rparr>"

definition scheduleFitView :: "graph_frames \<Rightarrow> graph_frames" where
  "scheduleFitView f =
     (if gf_instance f
      then (request_frame FitView (cancel_frame (gf_fitFrame f) f))\<lparr>gf_fitFrame := Some (gf_next f)\<rparr>
      else f)"

definition graph_onInit :: "graph_frames \<Rightarrow> graph_frames" where
  "graph_onInit f = scheduleFitView (f\<lparr>gf_instance := True\<rparr>)"

definition scheduleEdgeFocus :: "jsstring \<Rightarrow> graph_frames \<Rightarrow> graph_frames" where
  "scheduleEdgeFocus i f =
     (request_frame (FocusSoon i) (cancel_frame (gf_focusFrame f) f))\<lparr>gf_focusFrame := Some (gf_next f)\<rparr>"

fun run_frame_call :: "frame_call \<Rightarrow> graph_frames \<Rightarrow> graph_frames" where
  "run_frame_call FitView f = f\<lparr>gf_fitFrame := None, gf_fits := gf_fits f + 1\<rparr>"
| "run_frame_call (FocusSoon i) f = (request_frame (FocusNow i) f)\<lparr>gf_focusFrame := Some (gf_next f)\<rparr>"
| "run_frame_call (FocusNow i) f = f\<lparr>gf_focusFrame := None, gf_focused := gf_focused f @ [i]\<rparr>"
| "run_frame_call (FocusNode i) f = f\<lparr>gf_focused := gf_focused f @ [i]\<rparr>"

text \<open>
  Enter and space on a node select it; the result is the selection passed to \<open>onSelect\<close>, if any.  The
  topology graph requests the frame that restores the focus without keeping its handle.
\<close>

definition topology_onKeyDown :: "jsstring \<Rightarrow> graph_element \<Rightarrow> graph_frames \<Rightarrow> TopologySelection option \<times> graph_frames" where
  "topology_onKeyDown key element f =
     (if key = js ''Enter'' \<or> key = js '' ''
      then case topologySelectionFromElement element of
             Some (TopologyNode i) \<Rightarrow> (Some (TopologyNode i), request_frame (FocusNode i) f)
           | _ \<Rightarrow> (None, f)
      else (None, f))"

definition correlation_onKeyDown :: "jsstring \<Rightarrow> graph_element \<Rightarrow> graph_frames \<Rightarrow> CorrelationSelection option \<times> graph_frames" where
  "correlation_onKeyDown key element f =
     (if key = js ''Enter'' \<or> key = js '' ''
      then case correlationSelectionFromElement element of
             Some (CorrelationNode i) \<Rightarrow> (Some (CorrelationNode i), scheduleEdgeFocus i f)
           | _ \<Rightarrow> (None, f)
      else (None, f))"

definition run_frame :: "graph_frames \<Rightarrow> graph_frames" where
  "run_frame f =
     (case gf_pending f of
        [] \<Rightarrow> f | (h, c) # rest \<Rightarrow> run_frame_call c (f\<lparr>gf_pending := rest\<rparr>))"

definition unmount_graph :: "graph_frames \<Rightarrow> graph_frames" where
  "unmount_graph f = cancel_frame (gf_focusFrame f) (cancel_frame (gf_fitFrame f) f)"

inductive frames_step :: "graph_frames \<Rightarrow> graph_frames \<Rightarrow> bool" where
  fit: "frames_step f (scheduleFitView f)"
| init: "frames_step f (graph_onInit f)"
| focus: "frames_step f (scheduleEdgeFocus i f)"
| topology_key: "frames_step f (snd (topology_onKeyDown key element f))"
| correlation_key: "frames_step f (snd (correlation_onKeyDown key element f))"
| frame: "frames_step f (run_frame f)"

inductive reachable_frames :: "graph_frames \<Rightarrow> bool" where
  mount: "reachable_frames (mount_frames n)"
| step: "reachable_frames f \<Longrightarrow> frames_step f f' \<Longrightarrow> reachable_frames f'"

section \<open>Facts\<close>

subsection \<open>Labels do not collide\<close>

lemma adjusted_y_ge: "labelY \<le> adjusted_y previous labelY"
  by (simp add: adjusted_y_def split: option.splits)

lemma adjusted_y_gap: "adjusted_y (Some p) labelY \<ge> p + EDGE_LABEL_GAP"
  by (simp add: adjusted_y_def)

lemma fst_place_in_lanes [simp]: "map fst (place_in_lanes p q cs) = map fst cs"
  by (induction p q cs rule: place_in_lanes.induct) (auto simp: Let_def)

lemma fst_place_in_column [simp]: "map fst (place_in_column p cs) = map fst cs"
  by (induction p cs rule: place_in_column.induct) auto

lemma offsets_differ: "EDGE_LABEL_LANE_OFFSET \<noteq> 0"
  by (simp add: EDGE_LABEL_LANE_OFFSET_def)

text \<open>Within a lane every label lies below the one before it by the gap at least.\<close>

definition spaced :: "rat list \<Rightarrow> bool" where
  "spaced = sorted_wrt (\<lambda>a b. a + EDGE_LABEL_GAP \<le> b)"

definition lane_ys :: "rat \<Rightarrow> (jsstring \<times> label_position) list \<Rightarrow> rat list" where
  "lane_ys x ps = map (lp_y \<circ> snd) (filter (\<lambda>p. lp_xOffset (snd p) = x) ps)"

definition after :: "rat option \<Rightarrow> rat list \<Rightarrow> bool" where
  "after previous ys \<longleftrightarrow> (case previous of None \<Rightarrow> True | Some p \<Rightarrow> \<forall>y\<in>set ys. p + EDGE_LABEL_GAP \<le> y)"

lemma spaced_simps [simp]:
  "spaced []" "spaced (y # ys) \<longleftrightarrow> after (Some y) ys \<and> spaced ys"
  by (simp_all add: spaced_def after_def)

lemma after_adjusted: "after (Some (adjusted_y previous labelY)) ys \<Longrightarrow> after previous (adjusted_y previous labelY # ys)"
proof (cases previous)
  case (Some p)
  assume *: "after (Some (adjusted_y previous labelY)) ys"
  have g: "p + EDGE_LABEL_GAP \<le> adjusted_y previous labelY" using adjusted_y_gap Some by simp
  have "0 \<le> EDGE_LABEL_GAP" by (simp add: EDGE_LABEL_GAP_def)
  with * g show ?thesis unfolding Some by (auto simp: after_def)
qed (simp add: after_def)

lemma lanes_spaced:
  "spaced (lane_ys (- EDGE_LABEL_LANE_OFFSET) (place_in_lanes p q cs)) \<and> after p (lane_ys (- EDGE_LABEL_LANE_OFFSET) (place_in_lanes p q cs)) \<and>
   spaced (lane_ys EDGE_LABEL_LANE_OFFSET (place_in_lanes p q cs)) \<and> after q (lane_ys EDGE_LABEL_LANE_OFFSET (place_in_lanes p q cs))"
proof (induction p q cs rule: place_in_lanes.induct)
  case (1 p q)
  show ?case by (simp add: lane_ys_def after_def split: option.splits)
next
  case (2 p q i y cs)
  show ?case
  proof (cases "adjusted_y p y \<le> adjusted_y q y")
    case True
    with 2(1) [OF refl refl True] show ?thesis
      by (auto simp: Let_def lane_ys_def offsets_differ intro: after_adjusted)
  next
    case False
    with 2(2) [OF refl refl False] show ?thesis
      by (auto simp: Let_def lane_ys_def offsets_differ intro: after_adjusted)
  qed
qed

lemma lanes_offset:
  "(i, l) \<in> set (place_in_lanes p q cs) \<Longrightarrow> lp_xOffset l = - EDGE_LABEL_LANE_OFFSET \<or> lp_xOffset l = EDGE_LABEL_LANE_OFFSET"
  by (induction p q cs rule: place_in_lanes.induct) (auto simp: Let_def split: if_splits)

lemma lanes_below: "(i, l) \<in> set (place_in_lanes p q cs) \<Longrightarrow> \<exists>y. (i, y) \<in> set cs \<and> y \<le> lp_y l"
  by (induction p q cs rule: place_in_lanes.induct) (auto simp: Let_def adjusted_y_ge split: if_splits)

lemma spaced_apart:
  assumes "spaced ys" "j < length ys" "k < length ys" "j \<noteq> k"
  shows "EDGE_LABEL_GAP \<le> \<bar>ys ! j - ys ! k\<bar>"
  using assms sorted_wrt_nth_less [of "\<lambda>a b. a + EDGE_LABEL_GAP \<le> b" ys j k] sorted_wrt_nth_less [of "\<lambda>a b. a + EDGE_LABEL_GAP \<le> b" ys k j]
  unfolding spaced_def by (cases j k rule: linorder_cases) auto

text \<open>Two entries of a list with different keys, projected.\<close>

lemma two_entries:
  assumes "(i, a) \<in> set xs" "(j, b) \<in> set xs" "i \<noteq> j" "P (i, a)" "P (j, b)" "spaced (map (f \<circ> snd) (filter P xs))"
  shows "EDGE_LABEL_GAP \<le> \<bar>f a - f b\<bar>"
proof -
  let ?ys = "filter P xs"
  have "(i, a) \<in> set ?ys" "(j, b) \<in> set ?ys" using assms by auto
  then obtain m n where m: "m < length ?ys" "?ys ! m = (i, a)" and n: "n < length ?ys" "?ys ! n = (j, b)"
    by (metis in_set_conv_nth)
  then have "m \<noteq> n" using assms(3) by auto
  with spaced_apart [OF assms(6)] m n show ?thesis by force
qed

lemma layoutTopologyEdgeLabels_alt:
  "layoutTopologyEdgeLabels bezier lc groups positions =
     (let cs = js_sort (by_label lc) (topology_candidates bezier groups positions)
      in if length cs = 1 then [(fst (hd cs), \<lparr>lp_xOffset = 0, lp_y = snd (hd cs)\<rparr>)] else map_from (place_in_lanes None None cs))"
  unfolding layoutTopologyEdgeLabels_def Let_def
  by (cases "js_sort (by_label lc) (topology_candidates bezier groups positions)")
    (auto split: list.splits simp del: place_in_lanes.simps)

lemma topology_label_entries:
  assumes "distinct (map tg_id groups)"
  shows "layoutTopologyEdgeLabels bezier lc groups positions =
     (let cs = js_sort (by_label lc) (topology_candidates bezier groups positions)
      in if length groups = 1 then [(fst (hd cs), \<lparr>lp_xOffset = 0, lp_y = snd (hd cs)\<rparr>)] else place_in_lanes None None cs)"
proof -
  let ?cs = "js_sort (by_label lc) (topology_candidates bezier groups positions)"
  have "mset (map fst ?cs) = mset (map fst (topology_candidates bezier groups positions))"
    by (metis mset_js_sort mset_map)
  also have "map fst (topology_candidates bezier groups positions) = map tg_id groups"
    by (simp add: topology_candidates_def)
  finally have "distinct (map fst ?cs)" using assms mset_eq_imp_distinct_iff by blast
  then have "map_from (place_in_lanes None None ?cs) = place_in_lanes None None ?cs"
    by (intro map_from_distinct) simp
  moreover have "length ?cs = length groups" by (simp add: topology_candidates_def)
  ultimately show ?thesis by (simp add: layoutTopologyEdgeLabels_alt Let_def)
qed

text \<open>
  Every group gets a label, not above the point of its curve, and two labels in the same column are at
  least the gap apart.
\<close>

lemma topology_label_keys:
  assumes "distinct (map tg_id groups)"
  shows "set (map_keys (layoutTopologyEdgeLabels bezier lc groups positions)) = tg_id ` set groups"
proof -
  let ?cs = "js_sort (by_label lc) (topology_candidates bezier groups positions)"
  have s: "set (map fst ?cs) = tg_id ` set groups" by (force simp: topology_candidates_def)
  show ?thesis
  proof (cases "length groups = 1")
    case True
    then have "length ?cs = 1" by (simp add: topology_candidates_def)
    then obtain c where "?cs = [c]" by (metis One_nat_def length_0_conv length_Suc_conv)
    with s True show ?thesis unfolding topology_label_entries [OF assms] by (simp add: Let_def)
  next
    case False
    then have "map_keys (layoutTopologyEdgeLabels bezier lc groups positions) = map fst ?cs"
      unfolding topology_label_entries [OF assms] by (simp add: Let_def)
    with s show ?thesis by simp
  qed
qed

lemma topology_label_below:
  assumes "distinct (map tg_id groups)" "(i, l) \<in> set (layoutTopologyEdgeLabels bezier lc groups positions)"
  shows "\<exists>y. (i, y) \<in> set (topology_candidates bezier groups positions) \<and> y \<le> lp_y l"
proof -
  let ?cs = "js_sort (by_label lc) (topology_candidates bezier groups positions)"
  have "\<exists>y. (i, y) \<in> set ?cs \<and> y \<le> lp_y l"
  proof (cases "length groups = 1")
    case True
    then have "length ?cs = 1" by (simp add: topology_candidates_def)
    then obtain c where "?cs = [c]" by (metis One_nat_def length_0_conv length_Suc_conv)
    with assms True show ?thesis unfolding topology_label_entries [OF assms(1)] by (cases c) (simp add: Let_def)
  next
    case False
    with assms(2) have "(i, l) \<in> set (place_in_lanes None None ?cs)"
      unfolding topology_label_entries [OF assms(1)] by (simp add: Let_def)
    then show ?thesis by (rule lanes_below)
  qed
  then show ?thesis by simp
qed

lemma topology_labels_apart:
  assumes "distinct (map tg_id groups)" "i \<noteq> j"
    and "(i, a) \<in> set (layoutTopologyEdgeLabels bezier lc groups positions)"
    and "(j, b) \<in> set (layoutTopologyEdgeLabels bezier lc groups positions)" "lp_xOffset a = lp_xOffset b"
  shows "EDGE_LABEL_GAP \<le> \<bar>lp_y a - lp_y b\<bar>"
proof (cases "length groups = 1")
  case True
  with assms(2-4) show ?thesis unfolding topology_label_entries [OF assms(1)] by (simp add: Let_def)
next
  case False
  let ?ps = "place_in_lanes None None (js_sort (by_label lc) (topology_candidates bezier groups positions))"
  have in_ps: "(i, a) \<in> set ?ps" "(j, b) \<in> set ?ps"
    using assms(3,4) False unfolding topology_label_entries [OF assms(1)] by (simp_all add: Let_def)
  have "spaced (lane_ys (lp_xOffset a) ?ps)"
    using lanes_offset [OF in_ps(1)] lanes_spaced by metis
  then show ?thesis
    using two_entries [OF in_ps assms(2), of "\<lambda>p. lp_xOffset (snd p) = lp_xOffset a" lp_y] assms(5)
    by (simp add: lane_ys_def)
qed

text \<open>
  In a single column the placement is the least one: any other that keeps the order and the gap and
  moves no label up is nowhere above it.
\<close>

lemma column_spaced: "spaced (map snd (place_in_column p cs)) \<and> after p (map snd (place_in_column p cs))"
proof (induction p cs rule: place_in_column.induct)
  case (1 p)
  show ?case by (simp add: after_def split: option.splits)
next
  case (2 p i y cs)
  then show ?case by (auto intro: after_adjusted)
qed

lemma column_least:
  assumes "length ys = length cs" "spaced ys" "after p ys" "\<forall>k<length cs. snd (cs ! k) \<le> ys ! k"
  shows "\<forall>k<length cs. snd (place_in_column p cs ! k) \<le> ys ! k"
  using assms
proof (induction p cs arbitrary: ys rule: place_in_column.induct)
  case (2 p i y cs)
  then obtain z zs where ys: "ys = z # zs" by (cases ys) auto
  have z: "adjusted_y p y \<le> z"
    using 2(4,5) ys by (force simp: adjusted_y_def after_def split: option.splits)
  have "after (Some (adjusted_y p y)) zs" using 2(3) z ys by (force simp: after_def)
  with 2 ys have "\<forall>k<length cs. snd (place_in_column (Some (adjusted_y p y)) cs ! k) \<le> zs ! k"
    by (intro 2(1)) (auto dest: spec [of _ "Suc k" for k])
  with z ys show ?case by (auto simp: less_Suc_eq_0_disj)
qed simp

subsection \<open>The canvas is high enough\<close>

text \<open>
  With the nodes centred, everything drawn fits within the canvas with the padding of the view and the
  margin to spare, whatever the distance from the centre.
\<close>

lemma graph_min_height_least: "least \<le> graph_min_height least padding yValues labelCenters"
  by (simp add: graph_min_height_def Let_def)

lemma graph_min_height_extent:
  assumes "yValues \<noteq> []" "0 \<le> padding" "visual_top yValues labelCenters \<le> p" "p \<le> visual_bottom yValues labelCenters"
  shows "2 * \<bar>p - node_center yValues\<bar> * (1 + padding * 2) + GRAPH_VERTICAL_MARGIN \<le> graph_min_height least padding yValues labelCenters"
proof -
  let ?m = "max (node_center yValues - visual_top yValues labelCenters) (visual_bottom yValues labelCenters - node_center yValues)"
  let ?h = "?m * 2 * (1 + padding * 2) + GRAPH_VERTICAL_MARGIN"
  have h: "graph_min_height least padding yValues labelCenters = max least (of_int \<lceil>?h\<rceil>)"
    using assms(1) by (simp add: graph_min_height_def Let_def)
  have "\<bar>p - node_center yValues\<bar> \<le> ?m" using assms(3,4) by linarith
  then have "2 * \<bar>p - node_center yValues\<bar> * (1 + padding * 2) \<le> ?m * 2 * (1 + padding * 2)"
    using assms(2) by (intro mult_right_mono) auto
  moreover have "?h \<le> of_int \<lceil>?h\<rceil>" by (rule le_of_int_ceiling)
  moreover have "of_int \<lceil>?h\<rceil> \<le> graph_min_height least padding yValues labelCenters" unfolding h by simp
  ultimately show ?thesis by linarith
qed

lemma graph_min_height_nodes:
  assumes "y \<in> set yValues" "0 \<le> padding" "y \<le> p" "p \<le> y + NODE_HEIGHT"
  shows "2 * \<bar>p - node_center yValues\<bar> * (1 + padding * 2) + GRAPH_VERTICAL_MARGIN \<le> graph_min_height least padding yValues labelCenters"
proof (rule graph_min_height_extent)
  have "Min (set yValues) \<le> y" "y \<le> Max (set yValues)" using assms(1) by auto
  with assms(3,4) show "visual_top yValues labelCenters \<le> p" "p \<le> visual_bottom yValues labelCenters"
    by (auto simp: visual_top_def visual_bottom_def min_le_iff_disj le_max_iff_disj)
qed (use assms in auto)

lemma graph_min_height_labels:
  assumes "yValues \<noteq> []" "c \<in> set labelCenters" "0 \<le> padding" "\<bar>p - c\<bar> \<le> EDGE_LABEL_TARGET_HEIGHT / 2"
  shows "2 * \<bar>p - node_center yValues\<bar> * (1 + padding * 2) + GRAPH_VERTICAL_MARGIN \<le> graph_min_height least padding yValues labelCenters"
proof (rule graph_min_height_extent [OF assms(1,3)])
  have "Min (set labelCenters) \<le> c" "c \<le> Max (set labelCenters)" "labelCenters \<noteq> []" using assms(2) by auto
  moreover from this assms(4) have "Min (set labelCenters) - EDGE_LABEL_TARGET_HEIGHT / 2 \<le> p"
    "p \<le> Max (set labelCenters) + EDGE_LABEL_TARGET_HEIGHT / 2" by linarith+
  ultimately show "visual_top yValues labelCenters \<le> p" "p \<le> visual_bottom yValues labelCenters"
    by (auto simp: visual_top_def visual_bottom_def min_le_iff_disj le_max_iff_disj)
qed

subsection \<open>Edges end at nodes\<close>

lemma addValue_keys: "set (map_keys (addValue t v b m)) = insert (correlationNodeId t v) (set (map_keys m))"
  by (simp add: addValue_def Let_def)

lemma distinct_addValue: "distinct (map_keys m) \<Longrightarrow> distinct (map_keys (addValue t v b m))"
  by (simp add: addValue_def Let_def)

lemma correlation_values_keys:
  "set (map_keys (correlation_values c rs)) =
     insert (correlationNodeId (co_inputType c) (co_inputValue c))
       (\<Union>e\<in>set rs. {correlationNodeId (cr_sourceType e) (cr_sourceValue e), correlationNodeId (cr_targetType e) (cr_targetValue e)})"
  "distinct (map_keys (correlation_values c rs))"
proof -
  let ?f = "\<lambda>m e. addValue (cr_targetType e) (cr_targetValue e) False (addValue (cr_sourceType e) (cr_sourceValue e) False m)"
  have "set (map_keys (foldl ?f m rs)) = set (map_keys m) \<union>
      (\<Union>e\<in>set rs. {correlationNodeId (cr_sourceType e) (cr_sourceValue e), correlationNodeId (cr_targetType e) (cr_targetValue e)})" for m
    by (induction rs arbitrary: m) (auto simp: addValue_keys simp del: set_map)
  then show "set (map_keys (correlation_values c rs)) =
     insert (correlationNodeId (co_inputType c) (co_inputValue c))
       (\<Union>e\<in>set rs. {correlationNodeId (cr_sourceType e) (cr_sourceValue e), correlationNodeId (cr_targetType e) (cr_targetValue e)})"
    unfolding correlation_values_def by (simp only: addValue_keys) simp
  have "distinct (map_keys m) \<Longrightarrow> distinct (map_keys (foldl ?f m rs))" for m
    by (induction rs arbitrary: m) (auto intro!: distinct_addValue)
  then show "distinct (map_keys (correlation_values c rs))"
    unfolding correlation_values_def by (simp add: distinct_addValue)
qed

text \<open>\<open>correlationNodeId\<close> does not confuse two values: the type has no colon.\<close>

lemma correlationNodeId_inj: "correlationNodeId t v = correlationNodeId t' v' \<longleftrightarrow> t = t' \<and> v = v'"
  by (cases t; cases t') (auto simp: correlationNodeId_def js_def)

definition value_entry_ok :: "CorrelationDto \<Rightarrow> jsstring \<times> correlation_value \<Rightarrow> bool" where
  "value_entry_ok c = (\<lambda>(i, v). i = correlationNodeId (cv_valueType v) (cv_value v) \<and>
     (cv_input v \<longleftrightarrow> cv_valueType v = co_inputType c \<and> cv_value v = co_inputValue c))"

lemma addValue_ok:
  assumes "\<forall>e\<in>set m. value_entry_ok c e" "b \<longrightarrow> t = co_inputType c \<and> v = co_inputValue c"
    and "\<not> b \<and> t = co_inputType c \<and> v = co_inputValue c \<longrightarrow> correlationNodeId t v \<in> set (map_keys m)"
  shows "\<forall>e\<in>set (addValue t v b m). value_entry_ok c e"
proof
  fix e assume "e \<in> set (addValue t v b m)"
  then consider "e \<in> set m" | "e = (correlationNodeId t v, \<lparr>cv_value = v, cv_valueType = t,
      cv_input = (b \<or> (case map_get m (correlationNodeId t v) of Some c \<Rightarrow> cv_input c | None \<Rightarrow> False))\<rparr>)"
    using set_map_set unfolding addValue_def Let_def by fastforce
  then show "value_entry_ok c e"
  proof cases
    case 2
    have "(b \<or> (case map_get m (correlationNodeId t v) of Some c \<Rightarrow> cv_input c | None \<Rightarrow> False)) \<longleftrightarrow> t = co_inputType c \<and> v = co_inputValue c"
    proof (cases "map_get m (correlationNodeId t v)")
      case None
      then have "correlationNodeId t v \<notin> set (map_keys m)" by (simp add: map_of_eq_None_iff)
      with assms(2,3) None show ?thesis by auto
    next
      case (Some w)
      then have "value_entry_ok c (correlationNodeId t v, w)" using assms(1) map_of_SomeD by fast
      with Some assms(2) show ?thesis by (auto simp: value_entry_ok_def correlationNodeId_inj)
    qed
    with 2 show ?thesis by (simp add: value_entry_ok_def)
  qed (use assms in blast)
qed

lemma correlation_values_ok: "\<forall>e\<in>set (correlation_values c rs). value_entry_ok c e"
proof -
  let ?f = "\<lambda>m e. addValue (cr_targetType e) (cr_targetValue e) False (addValue (cr_sourceType e) (cr_sourceValue e) False m)"
  let ?i = "correlationNodeId (co_inputType c) (co_inputValue c)"
  have "(\<forall>e\<in>set m. value_entry_ok c e) \<Longrightarrow> ?i \<in> set (map_keys m) \<Longrightarrow> \<forall>e\<in>set (foldl ?f m rs). value_entry_ok c e" for m
  proof (induction rs arbitrary: m)
    case (Cons r rs)
    have "\<forall>e\<in>set (?f m r). value_entry_ok c e"
      by (intro addValue_ok) (use Cons.prems in \<open>auto simp: addValue_keys simp del: set_map\<close>)
    moreover have "?i \<in> set (map_keys (?f m r))" using Cons.prems(2) by (simp only: addValue_keys) simp
    ultimately show ?case using Cons.IH by simp
  qed simp
  moreover have "\<forall>e\<in>set (addValue (co_inputType c) (co_inputValue c) True []). value_entry_ok c e"
    by (rule addValue_ok) auto
  ultimately show ?thesis unfolding correlation_values_def by (simp add: addValue_keys del: set_map)
qed

text \<open>A node of the topology: of an endpoint, or of a target under its own name.\<close>

lemma topology_node_ids_set:
  "set (topology_node_ids t groups) =
     (endpointNodeId \<circ> tn_endpointId) ` set (topo_nodes t) \<union> (targetNodeId \<circ> tg_target) ` set groups"
  by (auto simp: topology_node_ids_def)

lemma node_ids_differ: "endpointNodeId i \<noteq> targetNodeId s" "targetNodeId s \<noteq> endpointNodeId i"
  by (simp_all add: endpointNodeId_def targetNodeId_def js_def)

lemma topology_node_target: "gn_text (topology_node upper labels t domainGroups positions selection (targetNodeId s)) = s"
  by (simp add: topology_node_def Let_def targetNodeId_def js_def startsWith_def)

lemma topology_node_endpoint:
  assumes "n \<in> set (topo_nodes t)"
  shows "\<exists>m\<in>set (topo_nodes t). endpointNodeId (tn_endpointId m) = endpointNodeId (tn_endpointId n) \<and>
    gn_text (topology_node upper labels t domainGroups positions selection (endpointNodeId (tn_endpointId n))) =
      tn_hostname m @ MIDDLE_DOT @ js ''Risk '' @ id_text (tn_riskScore m)"
proof -
  let ?P = "\<lambda>m. endpointNodeId (tn_endpointId m) = endpointNodeId (tn_endpointId n)"
  have st: "startsWith (endpointNodeId (tn_endpointId n)) (js ''endpoint:'')" by (simp add: endpointNodeId_def)
  have "List.find ?P (topo_nodes t) \<noteq> None"
    using assms by (auto simp: find_None_iff)
  then obtain m where m: "List.find ?P (topo_nodes t) = Some m" by auto
  with find_SomeD [OF m] st show ?thesis
    by (intro bexI [of _ m]) (auto simp: topology_node_def Let_def)
qed

subsection \<open>At most one frame of a kind is pending\<close>

definition is_fit :: "frame_call \<Rightarrow> bool" where
  "is_fit c \<longleftrightarrow> c = FitView"

definition is_focus :: "frame_call \<Rightarrow> bool" where
  "is_focus c \<longleftrightarrow> (\<exists>i. c = FocusSoon i \<or> c = FocusNow i)"

definition pending_of :: "(frame_call \<Rightarrow> bool) \<Rightarrow> graph_frames \<Rightarrow> nat list" where
  "pending_of P f = map fst (filter (P \<circ> snd) (gf_pending f))"

definition handles :: "nat option \<Rightarrow> nat list" where
  "handles h = (case h of None \<Rightarrow> [] | Some n \<Rightarrow> [n])"

definition frames_inv :: "graph_frames \<Rightarrow> bool" where
  "frames_inv f \<longleftrightarrow>
     distinct (map fst (gf_pending f)) \<and> (\<forall>h\<in>set (map fst (gf_pending f)). h < gf_next f) \<and>
     pending_of is_fit f = handles (gf_fitFrame f) \<and> pending_of is_focus f = handles (gf_focusFrame f)"

lemmas frames_defs = frames_inv_def pending_of_def handles_def request_frame_def is_fit_def is_focus_def

lemma pending_of_cancel: "pending_of P (cancel_frame (Some n) f) = filter (\<lambda>k. k \<noteq> n) (pending_of P f)"
  by (simp add: pending_of_def cancel_frame_def filter_map comp_def case_prod_unfold conj_commute)

text \<open>A handle names one call: cancelling a fit leaves the pending focus alone, and conversely.\<close>

lemma pending_exclusive:
  assumes "distinct (map fst xs)" "\<forall>c. P c \<longrightarrow> \<not> Q c" "n \<in> set (map fst (filter (P \<circ> snd) xs))"
  shows "n \<notin> set (map fst (filter (Q \<circ> snd) xs))"
  using assms by (force simp: distinct_map inj_on_def)

lemma cancel_other:
  assumes "distinct (map fst (gf_pending f))" "\<forall>c. P c \<longrightarrow> \<not> Q c" "pending_of P f = handles h"
  shows "pending_of P (cancel_frame h f) = []" "pending_of Q (cancel_frame h f) = pending_of Q f"
proof -
  show "pending_of P (cancel_frame h f) = []"
    using assms(3) by (cases h) (simp_all add: cancel_frame_def [of None] pending_of_cancel handles_def)
  show "pending_of Q (cancel_frame h f) = pending_of Q f"
  proof (cases h)
    case (Some n)
    then have "n \<notin> set (pending_of Q f)"
      using pending_exclusive [OF assms(1), of P Q n] assms(2,3) by (metis list.set_intros(1) pending_of_def handles_def option.simps(5))
    then show ?thesis unfolding Some pending_of_cancel by (auto simp: filter_id_conv)
  qed (simp add: cancel_frame_def)
qed

lemma cancel_pending: "set (gf_pending (cancel_frame h f)) \<subseteq> set (gf_pending f)"
  "distinct (map fst (gf_pending f)) \<Longrightarrow> distinct (map fst (gf_pending (cancel_frame h f)))"
  "gf_next (cancel_frame h f) = gf_next f" "gf_fitFrame (cancel_frame h f) = gf_fitFrame f"
  "gf_focusFrame (cancel_frame h f) = gf_focusFrame f"
  by (cases h; auto simp: cancel_frame_def distinct_map_filter)+

lemma fit_not_focus: "\<forall>c. is_fit c \<longrightarrow> \<not> is_focus c" "\<forall>c. is_focus c \<longrightarrow> \<not> is_fit c"
  by (auto simp: is_fit_def is_focus_def)

lemmas cancel_fit = cancel_other [where P = is_fit and Q = is_focus, OF _ fit_not_focus(1)]
lemmas cancel_focus = cancel_other [where P = is_focus and Q = is_fit, OF _ fit_not_focus(2)]

lemma pending_of_request:
  "pending_of P (request_frame c f) = pending_of P f @ (if P c then [gf_next f] else [])"
  by (simp add: pending_of_def request_frame_def)

lemma pending_of_fields [simp]:
  "pending_of P (f\<lparr>gf_fitFrame := a\<rparr>) = pending_of P f" "pending_of P (f\<lparr>gf_focusFrame := b\<rparr>) = pending_of P f"
  "pending_of P (f\<lparr>gf_instance := c\<rparr>) = pending_of P f" "pending_of P (f\<lparr>gf_focused := d\<rparr>) = pending_of P f"
  "pending_of P (f\<lparr>gf_fits := n\<rparr>) = pending_of P f"
  by (simp_all add: pending_of_def)

lemma request_after_cancel:
  fixes c h f
  assumes "frames_inv f"
  defines "g \<equiv> request_frame c (cancel_frame h f)"
  shows "distinct (map fst (gf_pending g)) \<and> (\<forall>k\<in>set (map fst (gf_pending g)). k < gf_next g)"
proof -
  have "\<forall>k\<in>set (map fst (gf_pending (cancel_frame h f))). k < gf_next f"
    using assms(1) cancel_pending(1) [of h f] unfolding frames_inv_def by auto
  moreover have "distinct (map fst (gf_pending (cancel_frame h f)))"
    using assms(1) cancel_pending(2) unfolding frames_inv_def by blast
  ultimately show ?thesis by (auto simp: g_def request_frame_def cancel_pending less_Suc_eq)
qed

lemma scheduleFitView_inv:
  assumes "frames_inv f" shows "frames_inv (scheduleFitView f)"
proof (cases "gf_instance f")
  case True
  from assms have *: "distinct (map fst (gf_pending f))" "pending_of is_fit f = handles (gf_fitFrame f)"
    "pending_of is_focus f = handles (gf_focusFrame f)" by (simp_all add: frames_inv_def)
  show ?thesis
    using request_after_cancel [OF assms, of FitView "gf_fitFrame f"] cancel_fit [OF *(1) *(2)] True *(3)
    by (simp add: scheduleFitView_def frames_inv_def pending_of_request is_fit_def is_focus_def handles_def cancel_pending)
      (simp add: request_frame_def cancel_pending)
qed (simp add: scheduleFitView_def assms)

lemma scheduleEdgeFocus_inv:
  assumes "frames_inv f" shows "frames_inv (scheduleEdgeFocus i f)"
proof -
  from assms have *: "distinct (map fst (gf_pending f))" "pending_of is_fit f = handles (gf_fitFrame f)"
    "pending_of is_focus f = handles (gf_focusFrame f)" by (simp_all add: frames_inv_def)
  show ?thesis
    using request_after_cancel [OF assms, of "FocusSoon i" "gf_focusFrame f"] cancel_focus [OF *(1) *(3)] *(2)
    by (simp add: scheduleEdgeFocus_def frames_inv_def pending_of_request is_fit_def is_focus_def handles_def cancel_pending)
      (simp add: request_frame_def cancel_pending)
qed

lemma run_frame_inv:
  assumes "frames_inv f" shows "frames_inv (run_frame f)"
proof (cases "gf_pending f")
  case (Cons p rest)
  obtain h c where p: "p = (h, c)" by fastforce
  show ?thesis
    using assms by (cases c) (auto simp: run_frame_def Cons p frames_defs less_Suc_eq split: option.splits)
qed (simp add: run_frame_def assms)

lemma untracked_inv:
  assumes "frames_inv f" shows "frames_inv (request_frame (FocusNode i) f)"
  using assms by (auto simp: frames_defs less_Suc_eq)

lemma frames_step_inv:
  assumes "frames_step f f'" "frames_inv f" shows "frames_inv f'"
  using assms
proof cases
  case init
  have "frames_inv (f\<lparr>gf_instance := True\<rparr>)" using assms(2) by (simp add: frames_inv_def)
  with init show ?thesis by (simp add: graph_onInit_def scheduleFitView_inv)
next
  case (topology_key key element)
  then show ?thesis using assms(2)
    by (auto simp: topology_onKeyDown_def untracked_inv split: option.splits TopologySelection.splits)
next
  case (correlation_key key element)
  then show ?thesis using assms(2)
    by (auto simp: correlation_onKeyDown_def scheduleEdgeFocus_inv split: option.splits CorrelationSelection.splits)
qed (simp_all add: assms(2) scheduleFitView_inv scheduleEdgeFocus_inv run_frame_inv)

lemma reachable_frames_inv: "reachable_frames f \<Longrightarrow> frames_inv f"
proof (induction rule: reachable_frames.induct)
  case (mount n)
  show ?case by (simp add: mount_frames_def frames_defs)
qed (rule frames_step_inv)

lemma unmount_graph_pending:
  assumes "frames_inv f"
  shows "pending_of is_fit (unmount_graph f) = [] \<and> pending_of is_focus (unmount_graph f) = []"
proof -
  from assms have *: "distinct (map fst (gf_pending f))" "pending_of is_fit f = handles (gf_fitFrame f)"
    "pending_of is_focus f = handles (gf_focusFrame f)" by (simp_all add: frames_inv_def)
  let ?g = "cancel_frame (gf_fitFrame f) f"
  have g: "distinct (map fst (gf_pending ?g))" "pending_of is_focus ?g = handles (gf_focusFrame f)" "pending_of is_fit ?g = []"
    using cancel_fit [OF *(1) *(2)] cancel_pending(2) *(1,3) by simp_all
  show ?thesis
    unfolding unmount_graph_def using cancel_focus [OF g(1) g(2)] g(3) by simp
qed

end
