(* ===== verification/EvidenceProperties.thy ===== *)
theory EvidenceProperties
  imports ProcessTree Investigation Intelligence ChartModel GraphLayout
begin

text \<open>
  The properties of what analysts look at: the process tree, the queues, the timeline, the topology and
  its graphs, the correlation, the state of the pipeline and the activity chart, with concrete
  instances.
\<close>

section \<open>Process tree\<close>

text \<open>
  C21. The process tree shows every process once, whatever the parent pids (missing, own, cyclic): its
  nodes have distinct pids, which are the pids of the process events; a node below a root follows a node
  of its parent and is one level deeper, up to level 12; and a node is marked orphaned or selected as
  its event says.
\<close>

theorem process_tree_complete:
  "distinct (node_pids (buildProcessTree date_parse events selectedPid)) \<and>
   set (node_pids (buildProcessTree date_parse events selectedPid)) = pid_of ` {e \<in> set events. is_process e} \<and>
   linked [] (buildProcessTree date_parse events selectedPid) \<and>
   list_all (\<lambda>n. pt_depth n \<le> 12 \<and> n = tree_node (processes_by_pid date_parse events) selectedPid (pt_event n) (pt_depth n))
     (buildProcessTree date_parse events selectedPid)"
  using buildProcessTree_spec [of date_parse events selectedPid] by (auto simp: list_all_iff)

text \<open>
  Of several events with one pid the tree shows a latest one.
\<close>

lemma process_tree_latest:
  assumes "\<forall>e\<in>set events. is_process e \<longrightarrow> date_parse (ev_occurredAt e) \<noteq> None"
    and "map_get (processes_by_pid date_parse events) p = Some e" "e' \<in> set events" "is_process e'" "pid_of e' = p"
  shows "the (date_parse (ev_occurredAt e')) \<le> the (date_parse (ev_occurredAt e))"
  using assms by (rule processes_by_pid_latest)

definition word_dates :: date_parser where
  "word_dates s = (if s = js ''early'' then Some 0 else if s = js ''late'' then Some 60000 else None)"

section \<open>Queues\<close>

text \<open>
  The next alert is unresolved and not the current one, and there is one exactly when the queue
  holds an unresolved alert besides the current one.
\<close>

lemma next_alert_is_actionable:
  assumes "distinct (map alert_alertId xs)"
  shows "case nextActionableAlert xs c of
      None \<Rightarrow> {a \<in> set xs. alert_status a \<noteq> RESOLVED \<and> alert_alertId a \<noteq> c} = {}
    | Some a \<Rightarrow> a \<in> set xs \<and> alert_status a \<noteq> RESOLVED \<and> alert_alertId a \<noteq> c"
  using nextActionableAlert_spec [OF assms, of c] by (cases "nextActionableAlert xs c") auto

text \<open>
  The queries of the two queues send only what the backend accepts, whatever the address holds:
  every filter is one of its values or a positive id, the time range is one of the presets, and no name
  occurs twice.
\<close>

lemma queue_queries_valid:
  "list_all (member_ok ALERT_ENUMS) (alertTriageQueueQuery date_parse ps) \<and> list_all (member_ok INCIDENT_ENUMS) (incidentQueueQuery date_parse ps) \<and>
   distinct (map fst (alertTriageQueueQuery date_parse ps)) \<and> distinct (map fst (incidentQueueQuery date_parse ps))"
  using alert_query_members incident_query_members queue_query_keys_distinct by (auto simp: list_all_iff)

text \<open>
  Choosing an item of the timeline selects a node of the graph that the timeline in turn marks as
  matching, and something is selected exactly when a node matches.
\<close>

lemma timeline_selection_round_trip:
  "case selectionForTimelineItem d item of
      None \<Rightarrow> {n \<in> set (inv_nodes d). nodeMatchesTimeline n item} = {}
    | Some s \<Rightarrow> selectionMatchesTimelineItem (Some s) d item"
  using timeline_selection_matches [of d item] timeline_selection_defined [of d item]
  by (cases "selectionForTimelineItem d item") auto

section \<open>Topology\<close>

text \<open>
  C22. Grouping the edges of the topology loses and invents nothing: the groups contain every edge once,
  their ids are distinct, each group's counts, protocols and ends are those of its edges, and the totals
  of events and alerts are those of the topology.
\<close>

theorem grouping_conserves_edges:
  assumes "groupTopologyEdges date_parse es = Inr gs"
  shows "mset (concat (map tg_edges gs)) = mset es \<and> distinct (map tg_id gs) \<and> list_all (\<lambda>g. group_ok (tg_id g, g)) gs \<and>
    sum_list (map tg_eventCount gs) = sum_list (map te_eventCount es) \<and> sum_list (map tg_alertCount gs) = sum_list (map te_alertCount es)"
  using groupTopologyEdges_spec [OF assms] by (auto simp: list_all_iff)

definition sample_edge :: "string \<Rightarrow> string \<Rightarrow> int \<Rightarrow> TopologyEdgeDto" where
  "sample_edge target protocol n =
     \<lparr>te_endpointId = 1, te_sourceLabel = js ''host'', te_target = js target, te_protocol = js protocol, te_eventCount = n,
      te_alertCount = 0, te_lastSeenAt = js ''early''\<rparr>"

lemma sample_edges_grouped: "\<exists>gs. groupTopologyEdges word_dates [sample_edge ''a'' ''TLS'' 3, sample_edge ''a'' ''DNS'' 4] = Inr gs"
proof -
  have "\<exists>m. group_edges word_dates [] [sample_edge ''a'' ''TLS'' 3, sample_edge ''a'' ''DNS'' 4] = Inr m"
    unfolding group_edges_total using text_units_js by (auto simp: sample_edge_def text_units_def)
  then show ?thesis by (auto simp: groupTopologyEdges_def)
qed

theorem grouping_conserves_edges_witness:
  "\<exists>gs. groupTopologyEdges word_dates [sample_edge ''a'' ''TLS'' 3, sample_edge ''a'' ''DNS'' 4] = Inr gs \<and>
    sum_list (map tg_eventCount gs) = 7"
proof -
  obtain gs where gs: "groupTopologyEdges word_dates [sample_edge ''a'' ''TLS'' 3, sample_edge ''a'' ''DNS'' 4] = Inr gs"
    using sample_edges_grouped by blast
  have "sum_list (map tg_eventCount gs) = 7"
    using grouping_conserves_edges [OF gs] by (simp add: sample_edge_def)
  with gs show ?thesis by blast
qed

text \<open>
  Folding the targets of a registrable domain into one node keeps the totals of events and alerts
  and leaves at most one edge per endpoint, shown target and protocol, whichever domains are expanded.
\<close>

lemma domain_view_conserves_counts:
  "sum_list (map te_eventCount (topo_edges (fst (buildTopologyDomainView date_parse get_domain locale_compare t expandedDomains)))) =
     sum_list (map te_eventCount (topo_edges t)) \<and>
   sum_list (map te_alertCount (topo_edges (fst (buildTopologyDomainView date_parse get_domain locale_compare t expandedDomains)))) =
     sum_list (map te_alertCount (topo_edges t)) \<and>
   distinct (map edge_id (topo_edges (fst (buildTopologyDomainView date_parse get_domain locale_compare t expandedDomains))))"
proof (cases "buildTopologyDomainView date_parse get_domain locale_compare t expandedDomains")
  case (Pair view groups)
  with buildTopologyDomainView_spec [OF Pair] show ?thesis by simp
qed

text \<open>
  The relationships drawn are those that touch the input, in the order received, then the others,
  cut at the limit, which is never below one.
\<close>

lemma correlation_order:
  "correlationGraphRelationships c limit =
     take (nat (max 1 limit)) (filter (input_connected c) (co_relationships c) @ filter (\<lambda>e. \<not> input_connected c e) (co_relationships c))"
  by (rule correlationGraphRelationships_eq)

text \<open>
  The snapshot of the pipeline has its three stages, the worst first, and a stage is healthy exactly
  when it has parts and all of them are: for detection every worker runs without lag and no event failed.
\<close>

lemma pipeline_snapshot:
  "mset (map fst (buildPipelineSnapshot h ingest)) = {#COLLECTION, DETECTION, STORAGE#} \<and>
   sorted (map (\<lambda>(stage, s). HEALTH_PRIORITY s) (buildPipelineSnapshot h ingest)) \<and>
   ((DETECTION, HEALTHY) \<in> set (buildPipelineSnapshot h ingest) \<longleftrightarrow>
      oh_workers h \<noteq> [] \<and> list_all (\<lambda>w. worker_health w = HEALTHY) (oh_workers h) \<and>
      ic_failedCount ingest \<le> 0 \<and> ic_reprocessFailedCount ingest \<le> 0)"
proof -
  have "(DETECTION, HEALTHY) \<in> set (buildPipelineSnapshot h ingest) \<longleftrightarrow>
      worstHealth (map worker_health (oh_workers h) @
        (if 0 < ic_failedCount ingest \<or> 0 < ic_reprocessFailedCount ingest then [DEGRADED] else [])) = HEALTHY"
    using pipeline_status(1) [of HEALTHY h ingest] by metis
  then show ?thesis using pipeline_stages pipeline_sorted by (auto simp: worstHealth_HEALTHY list_all_iff)
qed

section \<open>Chart\<close>

text \<open>
  The three series of the activity chart share one time axis: increasing time stamps without
  repetition, exactly the readable starts of the buckets; its domain is from the first to the last; and
  every series has one point per time stamp.
\<close>

lemma chart_axis:
  "sorted_wrt (<) (da_timestamps (buildDetectionActivityModel date_parse events alerts incidents)) \<and>
   set (da_timestamps (buildDetectionActivityModel date_parse events alerts incidents)) =
     {t. (\<exists>r\<in>set events. date_parse (tsp_bucketStartAt r) = Some t) \<or> (\<exists>r\<in>set alerts. date_parse (tsp_bucketStartAt r) = Some t) \<or>
         (\<exists>r\<in>set incidents. date_parse (itp_bucketStartAt r) = Some t)} \<and>
   list_all (\<lambda>s. map fst (ds_points s) = da_timestamps (buildDetectionActivityModel date_parse events alerts incidents))
     (da_series (buildDetectionActivityModel date_parse events alerts incidents)) \<and>
   da_domain (buildDetectionActivityModel date_parse events alerts incidents) =
     (let ts = da_timestamps (buildDetectionActivityModel date_parse events alerts incidents)
      in if ts = [] then None else Some (Min (set ts), Max (set ts)))"
  using timestamps_spec [of date_parse events alerts incidents] domain_spec [of date_parse events alerts incidents]
  unfolding list_all_iff Let_def by blast

section \<open>Graphs\<close>

text \<open>
  C23. The labels of the topology graph do not collide: every group has a label, not above the point of
  its curve, and two labels in the same lane are at least 40 pixels apart.
\<close>

theorem topology_labels_placed:
  assumes "distinct (map tg_id groups)"
  shows "set (map_keys (layoutTopologyEdgeLabels bezier locale_compare groups positions)) = tg_id ` set groups \<and>
    list_all (\<lambda>(i, l). list_ex (\<lambda>(j, y). j = i \<and> y \<le> lp_y l) (topology_candidates bezier groups positions))
      (layoutTopologyEdgeLabels bezier locale_compare groups positions) \<and>
    list_all (\<lambda>(i, a). list_all (\<lambda>(j, b). i = j \<or> lp_xOffset a \<noteq> lp_xOffset b \<or> 40 \<le> \<bar>lp_y a - lp_y b\<bar>)
        (layoutTopologyEdgeLabels bezier locale_compare groups positions))
      (layoutTopologyEdgeLabels bezier locale_compare groups positions)"
proof -
  let ?ls = "layoutTopologyEdgeLabels bezier locale_compare groups positions"
  have "list_all (\<lambda>(i, l). list_ex (\<lambda>(j, y). j = i \<and> y \<le> lp_y l) (topology_candidates bezier groups positions)) ?ls"
    using topology_label_below [OF assms, of _ _ bezier locale_compare positions] by (fastforce simp: list_all_iff list_ex_iff)
  moreover have "list_all (\<lambda>(i, a). list_all (\<lambda>(j, b). i = j \<or> lp_xOffset a \<noteq> lp_xOffset b \<or> 40 \<le> \<bar>lp_y a - lp_y b\<bar>) ?ls) ?ls"
    using topology_labels_apart [OF assms, of _ _ _ bezier locale_compare positions]
    by (fastforce simp: list_all_iff EDGE_LABEL_GAP_def)
  ultimately show ?thesis using topology_label_keys [OF assms] by simp
qed

definition sample_group :: "string \<Rightarrow> TopologyEdgeGroup" where
  "sample_group i =
     \<lparr>tg_id = js i, tg_endpointId = 1, tg_sourceLabel = js ''host'', tg_target = js i, tg_protocols = [js ''TLS''], tg_eventCount = 1,
      tg_alertCount = 0, tg_lastSeenAt = js ''early'', tg_edges = []\<rparr>"

theorem topology_labels_placed_witness:
  "set (map_keys (layoutTopologyEdgeLabels (\<lambda>_. (0, 0)) (\<lambda>_ _. 0) [sample_group ''a'', sample_group ''b''] [])) =
     tg_id ` set [sample_group ''a'', sample_group ''b'']"
  by (rule topology_labels_placed [THEN conjunct1]) (simp add: sample_group_def)



text \<open>
  The canvas of the topology graph is high enough: it is at least 420 pixels high, and every point
  of a node or of a label, measured from the middle of the nodes, fits into half of it with the padding
  of the view and the margin to spare.
\<close>

lemma topology_canvas_fits:
  assumes "(i, p) \<in> set positions" "pt_y p \<le> y \<and> y \<le> pt_y p + NODE_HEIGHT \<or>
    (\<exists>l\<in>set (map_values labels). \<bar>y - lp_y l\<bar> \<le> EDGE_LABEL_TARGET_HEIGHT / 2)"
  shows "420 \<le> topologyGraphMinHeight positions labels \<and>
    2 * \<bar>y - node_center (map pt_y (map_values positions))\<bar> * (1 + TOPOLOGY_FIT_VIEW_PADDING * 2) + GRAPH_VERTICAL_MARGIN
      \<le> topologyGraphMinHeight positions labels"
proof -
  have ys: "pt_y p \<in> set (map pt_y (map_values positions))" using assms(1) by force
  have pad: "0 \<le> TOPOLOGY_FIT_VIEW_PADDING" by (simp add: TOPOLOGY_FIT_VIEW_PADDING_def)
  have fits: "2 * \<bar>y - node_center (map pt_y (map_values positions))\<bar> * (1 + TOPOLOGY_FIT_VIEW_PADDING * 2) + GRAPH_VERTICAL_MARGIN
      \<le> graph_min_height 420 TOPOLOGY_FIT_VIEW_PADDING (map pt_y (map_values positions)) (map lp_y (map_values labels))"
    using assms(2)
  proof
    assume "pt_y p \<le> y \<and> y \<le> pt_y p + NODE_HEIGHT"
    then show ?thesis by (intro graph_min_height_nodes [OF ys pad]) simp_all
  next
    assume "\<exists>l\<in>set (map_values labels). \<bar>y - lp_y l\<bar> \<le> EDGE_LABEL_TARGET_HEIGHT / 2"
    then obtain l where l: "l \<in> set (map_values labels)" "\<bar>y - lp_y l\<bar> \<le> EDGE_LABEL_TARGET_HEIGHT / 2" ..
    have "lp_y l \<in> set (map lp_y (map_values labels))" using l(1) by (metis image_eqI set_map)
    moreover have "map pt_y (map_values positions) \<noteq> []" using ys by auto
    ultimately show ?thesis using l(2) by (intro graph_min_height_labels [OF _ _ pad, where c = "lp_y l"])
  qed
  with graph_min_height_least show ?thesis unfolding topologyGraphMinHeight_def by blast
qed

text \<open>
  A graph never has two pending frames that fit the view or two that move the focus, and after it is
  unmounted it has none of them, in whatever order it asked, was resized, used from the keyboard and drawn.
\<close>

lemma graph_frames_bounded:
  assumes "reachable_frames f"
  shows "length (pending_of is_fit f) \<le> 1 \<and> length (pending_of is_focus f) \<le> 1 \<and>
    pending_of is_fit (unmount_graph f) = [] \<and> pending_of is_focus (unmount_graph f) = []"
  using reachable_frames_inv [OF assms] unmount_graph_pending [of f]
  by (auto simp: frames_inv_def handles_def split: option.splits)

text \<open>
  The correlation graph has one node per value, the input among them, marked as such and no other,
  and every edge drawn ends at two of its nodes.
\<close>

lemma correlation_graph_closed:
  "distinct (map gn_id (dg_nodes (CorrelationGraph dagre bezier locale_compare c limit selection))) \<and>
   (\<Union>e\<in>set (dg_edges (CorrelationGraph dagre bezier locale_compare c limit selection)). {ge_source e, ge_target e})
     \<subseteq> set (map gn_id (dg_nodes (CorrelationGraph dagre bezier locale_compare c limit selection))) \<and>
   {(cv_valueType v, cv_value v) |i v. (i, v) \<in> set (correlation_values c (correlationGraphRelationships c limit)) \<and> cv_input v} =
     {(co_inputType c, co_inputValue c)}"
proof -
  let ?vs = "correlation_values c (correlationGraphRelationships c limit)"
  have ids: "map gn_id (dg_nodes (CorrelationGraph dagre bezier locale_compare c limit selection)) = map_keys ?vs"
    by (simp add: CorrelationGraph_def Let_def correlation_node_def comp_def case_prod_unfold)
  have ends: "(\<Union>e\<in>set (dg_edges (CorrelationGraph dagre bezier locale_compare c limit selection)). {ge_source e, ge_target e}) \<subseteq> set (map_keys ?vs)"
    unfolding correlation_values_keys(1) by (auto simp: CorrelationGraph_def Let_def correlation_edge_def)
  have ok: "cv_input v \<longleftrightarrow> cv_valueType v = co_inputType c \<and> cv_value v = co_inputValue c"
    "i = correlationNodeId (cv_valueType v) (cv_value v)" if "(i, v) \<in> set ?vs" for i v
    using bspec [OF correlation_values_ok that] by (simp_all add: value_entry_ok_def)
  have "correlationNodeId (co_inputType c) (co_inputValue c) \<in> set (map_keys ?vs)" unfolding correlation_values_keys(1) by simp
  then obtain v where v: "(correlationNodeId (co_inputType c) (co_inputValue c), v) \<in> set ?vs" by auto
  from ok(2) [OF v] have "cv_valueType v = co_inputType c \<and> cv_value v = co_inputValue c" by (simp add: correlationNodeId_inj)
  with v ok(1) [OF v] have "(co_inputType c, co_inputValue c) \<in> {(cv_valueType v, cv_value v) |i v. (i, v) \<in> set ?vs \<and> cv_input v}"
    by (intro CollectI exI [of _ "correlationNodeId (co_inputType c) (co_inputValue c)"] exI [of _ v]) simp
  moreover have "{(cv_valueType v, cv_value v) |i v. (i, v) \<in> set ?vs \<and> cv_input v} \<subseteq> {(co_inputType c, co_inputValue c)}"
    using ok(1) by auto
  ultimately have "{(cv_valueType v, cv_value v) |i v. (i, v) \<in> set ?vs \<and> cv_input v} = {(co_inputType c, co_inputValue c)}" by blast
  with ids ends correlation_values_keys(2) show ?thesis by simp
qed

end
