(* ===== verification/DomTree.thy ===== *)
theory DomTree
  imports JsDate
begin

text \<open>
  The part of the document object model that the report reads: a tree of elements and texts, the
  selectors in use (a type, classes, the presence of an attribute, \<open>:scope\<close>, child and descendant
  combinators, lists), \<open>querySelectorAll\<close>, \<open>closest\<close>, \<open>matches\<close> and \<open>textContent\<close>.

  A node is the element followed by its ancestors, so that a selector may look outside of the element a
  query starts from, as it does in a browser.  Tag names are in upper case, as \<open>tagName\<close> gives them for
  HTML; a type selector ignores case.
\<close>

section \<open>Elements\<close>

datatype dom =
    TextNode jsstring
  | Element string jsstring "(string \<times> jsstring) list" "dom list"  \<comment> \<open>tag, class attribute, other attributes, children\<close>

fun is_element :: "dom \<Rightarrow> bool" where
  "is_element (Element t c as ns) = True"
| "is_element (TextNode s) = False"

fun textContent :: "dom \<Rightarrow> jsstring" where
  "textContent (TextNode s) = s"
| "textContent (Element t c as ns) = concat (map textContent ns)"

fun element_parts :: "dom \<Rightarrow> string \<times> jsstring \<times> (string \<times> jsstring) list \<times> dom list" where
  "element_parts (Element t c as ns) = (t, c, as, ns)"
| "element_parts (TextNode s) = ([], [], [], [])"

definition dom_children :: "dom \<Rightarrow> dom list" where
  "dom_children e = (case element_parts e of (t, c, as, ns) \<Rightarrow> filter is_element ns)"

definition dom_class :: "dom \<Rightarrow> jsstring" where
  "dom_class e = (case element_parts e of (t, c, as, ns) \<Rightarrow> c)"

definition dom_tag :: "dom \<Rightarrow> string" where
  "dom_tag e = (case element_parts e of (t, c, as, ns) \<Rightarrow> t)"

definition dom_attribute :: "dom \<Rightarrow> string \<Rightarrow> jsstring option" where
  "dom_attribute e a = (case element_parts e of (t, c, as, ns) \<Rightarrow> map_of as a)"

text \<open>The tokens of the class attribute: what ASCII white space separates.\<close>

definition is_ascii_space :: "nat \<Rightarrow> bool" where
  "is_ascii_space c \<longleftrightarrow> c \<in> {9, 10, 12, 13, 32}"

fun class_tokens :: "jsstring \<Rightarrow> jsstring \<Rightarrow> jsstring list" where
  "class_tokens acc [] = (if acc = [] then [] else [rev acc])"
| "class_tokens acc (c # s) =
     (if is_ascii_space c then (if acc = [] then [] else [rev acc]) @ class_tokens [] s else class_tokens (c # acc) s)"

definition has_class :: "dom \<Rightarrow> string \<Rightarrow> bool" where
  "has_class e c \<longleftrightarrow> js c \<in> set (class_tokens [] (dom_class e))"

section \<open>Nodes and selectors\<close>

type_synonym node = "dom list"

datatype compound = Scope | Compound "string option" "string list" "string list"

datatype selector = Simple compound | Child selector compound | Descendant selector compound

definition of_tag :: "string \<Rightarrow> compound" where "of_tag t = Compound (Some t) [] []"
definition of_class :: "string \<Rightarrow> compound" where "of_class c = Compound None [c] []"
definition with_attribute :: "string \<Rightarrow> compound" where "with_attribute a = Compound None [] [a]"

text \<open>The number is the length of the scope, which identifies it among a node and its ancestors.\<close>

fun compound_selects :: "nat \<Rightarrow> compound \<Rightarrow> node \<Rightarrow> bool" where
  "compound_selects d c [] = False"
| "compound_selects d Scope (e # as) = (length (e # as) = d)"
| "compound_selects d (Compound t cs ats) (e # as) =
     ((case t of None \<Rightarrow> True | Some name \<Rightarrow> dom_tag e = name) \<and> list_all (has_class e) cs \<and> list_all (\<lambda>a. dom_attribute e a \<noteq> None) ats)"

fun selects :: "nat \<Rightarrow> selector \<Rightarrow> node \<Rightarrow> bool" where
  "selects d (Simple c) n = compound_selects d c n"
| "selects d (Child s c) n = (compound_selects d c n \<and> selects d s (tl n))"
| "selects d (Descendant s c) n = (compound_selects d c n \<and> list_ex (\<lambda>k. selects d s (drop k n)) [1..<length n])"

fun nodes_below :: "dom list \<Rightarrow> dom \<Rightarrow> node list" where
  "nodes_below outer (TextNode s) = []"
| "nodes_below outer (Element t c as ns) =
     concat (map (\<lambda>n. if is_element n
                      then (n # Element t c as ns # outer) # nodes_below (Element t c as ns # outer) n
                      else []) ns)"

definition descendants :: "node \<Rightarrow> node list" where
  "descendants n = (case n of [] \<Rightarrow> [] | e # outer \<Rightarrow> nodes_below outer e)"

definition querySelectorAll :: "node \<Rightarrow> selector list \<Rightarrow> node list" where
  "querySelectorAll n ss = filter (\<lambda>m. list_ex (\<lambda>s. selects (length n) s m) ss) (descendants n)"

definition querySelector :: "node \<Rightarrow> selector list \<Rightarrow> node option" where
  "querySelector n ss = (case querySelectorAll n ss of [] \<Rightarrow> None | m # ms \<Rightarrow> Some m)"

definition node_matches :: "node \<Rightarrow> selector list \<Rightarrow> bool" where
  "node_matches n ss = list_ex (\<lambda>s. selects (length n) s n) ss"

fun closest :: "node \<Rightarrow> selector list \<Rightarrow> node option" where
  "closest [] ss = None"
| "closest (e # as) ss = (if node_matches (e # as) ss then Some (e # as) else closest as ss)"

definition child_elements :: "node \<Rightarrow> node list" where
  "child_elements n = (case n of [] \<Rightarrow> [] | e # outer \<Rightarrow> map (\<lambda>c. c # n) (dom_children e))"

definition node_attribute :: "node \<Rightarrow> string \<Rightarrow> jsstring option" where
  "node_attribute n a = (case n of [] \<Rightarrow> None | e # outer \<Rightarrow> dom_attribute e a)"

section \<open>Texts\<close>

text \<open>\<open>replace(/\s+/g, " ")\<close>.\<close>

function collapse_white_space :: "jsstring \<Rightarrow> jsstring" where
  "collapse_white_space [] = []"
| "collapse_white_space (c # s) =
     (if is_white_space c then 32 # collapse_white_space (dropWhile is_white_space s) else c # collapse_white_space s)"
  by pat_completeness auto

termination
  by (relation "measure length") (simp_all add: length_dropWhile_le le_imp_less_Suc)

definition normalized_text :: "jsstring \<Rightarrow> jsstring" where
  "normalized_text s = trim (collapse_white_space s)"

section \<open>Facts\<close>

text \<open>A normalised text has single spaces for its white space, and none at its ends.\<close>

fun single_spaced :: "jsstring \<Rightarrow> bool" where
  "single_spaced [] = True"
| "single_spaced [c] = (is_white_space c \<longrightarrow> c = 32)"
| "single_spaced (c # d # s) = ((is_white_space c \<longrightarrow> c = 32) \<and> \<not> (is_white_space c \<and> is_white_space d) \<and> single_spaced (d # s))"

lemma single_spaced_Cons:
  "single_spaced (c # s) \<longleftrightarrow>
     (is_white_space c \<longrightarrow> c = 32) \<and> (s = [] \<or> \<not> (is_white_space c \<and> is_white_space (hd s))) \<and> single_spaced s"
  by (cases s) auto

lemma space_is_white [simp]: "is_white_space 32"
  by (simp add: is_white_space_def)

lemma collapse_hd:
  "s \<noteq> [] \<Longrightarrow> collapse_white_space s \<noteq> [] \<and> is_white_space (hd (collapse_white_space s)) = is_white_space (hd s)"
  by (cases s) auto

lemma collapse_single_spaced: "single_spaced (collapse_white_space s)"
proof (induction s rule: collapse_white_space.induct)
  case (2 c s)
  show ?case
  proof (cases "is_white_space c")
    case True
    have "collapse_white_space (dropWhile is_white_space s) = [] \<or>
        \<not> is_white_space (hd (collapse_white_space (dropWhile is_white_space s)))"
      by (metis collapse_hd collapse_white_space.simps(1) hd_dropWhile)
    with 2(1) [OF True] True show ?thesis by (simp add: single_spaced_Cons)
  next
    case False
    with 2(2) [OF False] show ?thesis by (simp add: single_spaced_Cons)
  qed
qed simp

lemma single_spaced_append: "single_spaced (a @ b) \<Longrightarrow> single_spaced a \<and> single_spaced b"
  by (induction a) (auto simp: single_spaced_Cons hd_append split: if_splits)

lemma single_spaced_trim:
  assumes "single_spaced s" shows "single_spaced (trim s)"
proof -
  obtain a where a: "s = a @ dropWhile is_white_space s" by (metis takeWhile_dropWhile_id)
  define m where "m = dropWhile is_white_space s"
  have m: "single_spaced m" using single_spaced_append [of a m] a assms by (metis m_def)
  have "rev m = takeWhile is_white_space (rev m) @ dropWhile is_white_space (rev m)" by simp
  then have "m = rev (dropWhile is_white_space (rev m)) @ rev (takeWhile is_white_space (rev m))"
    by (metis rev_append rev_rev_ident)
  then have "single_spaced (rev (dropWhile is_white_space (rev m)))" using m by (metis single_spaced_append)
  then show ?thesis by (simp add: trim_def m_def)
qed

lemma normalized_text_single_spaced: "single_spaced (normalized_text s)"
  unfolding normalized_text_def by (rule single_spaced_trim [OF collapse_single_spaced])

lemma collapse_fixed: "single_spaced s \<Longrightarrow> collapse_white_space s = s"
proof (induction s rule: collapse_white_space.induct)
  case (2 c s)
  show ?case
  proof (cases "is_white_space c")
    case True
    with 2(3) have c: "c = 32" "s = [] \<or> \<not> is_white_space (hd s)" "single_spaced s" by (auto simp: single_spaced_Cons)
    then have "dropWhile is_white_space s = s" by (cases s) auto
    with 2(1) [OF True] c True show ?thesis by simp
  next
    case False
    with 2(2) [OF False] 2(3) show ?thesis by (simp add: single_spaced_Cons)
  qed
qed simp

lemma nodes_below_ancestors:
  "m \<in> set (nodes_below outer e) \<Longrightarrow> \<exists>p. p \<noteq> [] \<and> m = p @ e # outer"
proof (induction outer e rule: nodes_below.induct)
  case (2 outer t c as ns)
  let ?e = "Element t c as ns"
  from 2(2) obtain n where n: "n \<in> set ns" "is_element n" and m: "m = n # ?e # outer \<or> m \<in> set (nodes_below (?e # outer) n)"
    by (auto split: if_splits)
  show ?case
  proof (cases "m = n # ?e # outer")
    case True
    then have "m = [n] @ ?e # outer" by simp
    then show ?thesis by blast
  next
    case False
    with m 2(1) [OF n] obtain p where "m = p @ n # ?e # outer" by auto
    then have "m = (p @ [n]) @ ?e # outer" by simp
    then show ?thesis by blast
  qed
qed simp

text \<open>What a query finds lies below the node it starts from, and matches.\<close>

lemma querySelectorAll_below:
  assumes "m \<in> set (querySelectorAll n ss)"
  shows "\<exists>p. p \<noteq> [] \<and> m = p @ n"
  using assms nodes_below_ancestors by (auto simp: querySelectorAll_def descendants_def split: list.splits)

lemma closest_matches: "closest n ss = Some m \<Longrightarrow> node_matches m ss \<and> (\<exists>p. n = p @ m)"
  by (induction n ss rule: closest.induct) (auto split: if_splits)

end
