(* ===== verification/ReportCollection.thy ===== *)
theory ReportCollection
  imports DomTree Investigation
begin

text \<open>
  The first half of \<open>features/dashboardReport.tsx\<close>: what the report reads off the page that is shown.
  Every \<open>collect\<close> function is a query on the document; the results are put together in a snapshot.
\<close>

section \<open>The snapshot\<close>

datatype DashboardReportScope = SelectedPeriod | CurrentSnapshot | CurrentView

record DashboardReportMetric =
  rm_label :: jsstring
  rm_value :: jsstring
  rm_detail :: "jsstring option"
  rm_scope :: DashboardReportScope

record DashboardReportSignal =
  rs_label :: jsstring
  rs_value :: jsstring
  rs_status :: "jsstring option"
  rs_details :: "jsstring list"
  rs_scope :: DashboardReportScope

record DashboardReportBreakdownRow =
  br_label :: jsstring
  br_value :: jsstring
  br_count :: jsnum
  br_detail :: "jsstring option"
  br_tone :: jsstring

record DashboardReportBreakdown =
  bd_title :: jsstring
  bd_rows :: "DashboardReportBreakdownRow list"
  bd_scope :: DashboardReportScope

record DashboardReportTrendSeries =
  ts_label :: jsstring
  ts_values :: "rat option list"
  ts_tone :: jsstring

record DashboardReportTrend =
  tr_title :: jsstring
  tr_categories :: "jsstring list"
  tr_series :: "DashboardReportTrendSeries list"
  tr_scope :: DashboardReportScope

record DashboardReportTable =
  tb_title :: jsstring
  tb_columns :: "jsstring list"
  tb_rows :: "jsstring list list"
  tb_scope :: DashboardReportScope

record DashboardReportFactGroup =
  fg_title :: jsstring
  fg_items :: "(jsstring \<times> jsstring) list"
  fg_scope :: DashboardReportScope

record DashboardReportRecordGroup =
  rg_title :: jsstring
  rg_records :: "(jsstring \<times> jsstring list) list"
  rg_scope :: DashboardReportScope

text \<open>The context a caller may give in part; \<open>generatedAt\<close> is a time value.\<close>

record report_context =
  ctx_generatedAt :: "int option"
  ctx_operator :: "jsstring option"
  ctx_pageTitle :: "jsstring option"
  ctx_pathname :: "jsstring option"
  ctx_search :: "jsstring option"
  ctx_userRole :: "jsstring option"

record DashboardReportContext =
  rc_generatedAt :: int
  rc_operator :: jsstring
  rc_pageTitle :: jsstring
  rc_pathname :: jsstring
  rc_search :: jsstring
  rc_userRole :: jsstring

record DashboardReportSnapshot = DashboardReportContext +
  sn_breakdowns :: "DashboardReportBreakdown list"
  sn_factGroups :: "DashboardReportFactGroup list"
  sn_metrics :: "DashboardReportMetric list"
  sn_pageLimited :: bool
  sn_recordGroups :: "DashboardReportRecordGroup list"
  sn_signals :: "DashboardReportSignal list"
  sn_tables :: "DashboardReportTable list"
  sn_trends :: "DashboardReportTrend list"
  sn_visibleRowCount :: nat

section \<open>Reading texts and numbers\<close>

definition EM_DASH :: jsstring where "EM_DASH = [8212]"

definition node_text :: "node option \<Rightarrow> jsstring" where
  "node_text n = normalized_text (case n of Some (e # outer) \<Rightarrow> textContent e | _ \<Rightarrow> [])"

text \<open>The arrows that mark a sorted column at the end of a heading.\<close>

definition is_sort_arrow :: "nat \<Rightarrow> bool" where
  "is_sort_arrow c \<longleftrightarrow> c \<in> {8597, 8595, 8593}"

definition cleanCell :: "node \<Rightarrow> jsstring" where
  "cleanCell n = trim (rev (dropWhile is_sort_arrow (rev (node_text (Some n)))))"

definition directChildText :: "node \<Rightarrow> string \<Rightarrow> string option \<Rightarrow> jsstring" where
  "directChildText n tagName excludedClass =
     node_text (List.find (\<lambda>c. dom_tag (hd c) = tagName \<and>
                              (case excludedClass of None \<Rightarrow> True | Some x \<Rightarrow> x = [] \<or> \<not> has_class (hd c) x)) (child_elements n))"

definition joinedChildText :: "node \<Rightarrow> jsstring" where
  "joinedChildText n =
     (let joined = join_text (js '' '') (filter (\<lambda>s. s \<noteq> []) (map (\<lambda>c. node_text (Some c)) (child_elements n)))
      in if joined \<noteq> [] then joined else node_text (Some n))"

text \<open>\<open>replace(/[^\d.-]/g, "")\<close>.\<close>

definition number_characters :: "jsstring \<Rightarrow> jsstring" where
  "number_characters = filter (\<lambda>c. is_digit c \<or> c = 46 \<or> c = 45)"

definition parseCount :: "jsstring \<Rightarrow> jsnum" where
  "parseCount v = (case js_Number (number_characters v) of NaN \<Rightarrow> Num 0 | n \<Rightarrow> n)"

definition parseNullableCount :: "jsstring option \<Rightarrow> rat option" where
  "parseNullableCount v =
     (case v of
        None \<Rightarrow> None
      | Some s \<Rightarrow>
          if s = [] \<or> trim s = EM_DASH then None
          else (case js_Number (number_characters s) of Num r \<Rightarrow> Some r | _ \<Rightarrow> None))"

text \<open>The first match of \<open>/tone-([a-z-]+)/\<close>.\<close>

definition is_tone_character :: "nat \<Rightarrow> bool" where
  "is_tone_character c \<longleftrightarrow> (97 \<le> c \<and> c \<le> 122) \<or> c = 45"

fun tone_match :: "jsstring \<Rightarrow> jsstring option" where
  "tone_match [] = None"
| "tone_match (c # s) =
     (let tone = takeWhile is_tone_character (drop 5 (c # s))
      in if startsWith (c # s) (js ''tone-'') \<and> tone \<noteq> [] then Some tone else tone_match s)"

definition toneFromClass :: "jsstring \<Rightarrow> jsstring" where
  "toneFromClass className = (case tone_match className of Some t \<Rightarrow> t | None \<Rightarrow> js ''neutral'')"

definition text_includes :: "jsstring \<Rightarrow> jsstring \<Rightarrow> bool" where
  "text_includes s t \<longleftrightarrow> list_ex (\<lambda>k. startsWith (drop k s) t) [0..<Suc (length s)]"

text \<open>The values that satisfy a condition, each at its first occurrence: \<open>values.indexOf(value) === index\<close>.\<close>

definition first_occurrences :: "('a \<Rightarrow> bool) \<Rightarrow> 'a list \<Rightarrow> 'a list" where
  "first_occurrences P vs = map (nth vs) (filter (\<lambda>i. P (vs ! i) \<and> vs ! i \<notin> set (take i vs)) [0..<length vs])"

definition nonempty :: "jsstring \<Rightarrow> jsstring option" where
  "nonempty s = (if s = [] then None else Some s)"

fun first_nonempty :: "jsstring list \<Rightarrow> jsstring" where
  "first_nonempty [] = []"
| "first_nonempty (s # ss) = (if s \<noteq> [] \<or> ss = [] then s else first_nonempty ss)"

definition numbered :: "string \<Rightarrow> nat \<Rightarrow> jsstring" where
  "numbered name i = js name @ js '' '' @ show_nat (i + 1)"

definition query_text :: "node option \<Rightarrow> selector list \<Rightarrow> jsstring" where
  "query_text n ss = node_text (case n of None \<Rightarrow> None | Some m \<Rightarrow> querySelector m ss)"

section \<open>Scope\<close>

definition CURRENT_SNAPSHOT_BLOCKS :: "jsstring list" where
  "CURRENT_SNAPSHOT_BLOCKS =
     [js ''edr-state'', js ''kpi-high-risk-endpoints'', js ''fleet-distribution'', js ''highest-risk-endpoints'']"

definition SELECTED_PERIOD_BLOCKS :: "jsstring list" where
  "SELECTED_PERIOD_BLOCKS =
     [js ''kpi-alerts'', js ''kpi-critical-alerts'', js ''kpi-open-incidents'', js ''detection-activity'', js ''alert-severity'',
      js ''incident-queue'']"

definition TIME_QUERY_KEYS :: "jsstring list" where
  "TIME_QUERY_KEYS = [js ''timePreset'', js ''from'', js ''to'']"

definition scope_of_link :: "node \<Rightarrow> DashboardReportScope" where
  "scope_of_link n =
     (let anchor = (if node_matches n [Simple (of_tag ''A'')] then Some n else closest n [Simple (of_tag ''A'')]);
          href = (case Option.bind anchor (\<lambda>m. node_attribute m ''href'') of Some h \<Rightarrow> h | None \<Rightarrow> [])
      in if list_ex (\<lambda>key. text_includes href (key @ js ''='')) TIME_QUERY_KEYS then SelectedPeriod else CurrentView)"

definition scopeForNode :: "node \<Rightarrow> DashboardReportScope" where
  "scopeForNode n =
     (let block = Option.bind (closest n [Simple (with_attribute ''data-overview-block'')]) (\<lambda>m. node_attribute m ''data-overview-block'')
      in case block of
           Some b \<Rightarrow>
             if b \<noteq> [] \<and> b \<in> set CURRENT_SNAPSHOT_BLOCKS then CurrentSnapshot
             else if b \<noteq> [] \<and> b \<in> set SELECTED_PERIOD_BLOCKS then SelectedPeriod
             else scope_of_link n
         | None \<Rightarrow> scope_of_link n)"

section \<open>Queries\<close>

definition panel_title :: "node \<Rightarrow> jsstring" where
  "panel_title n =
     query_text (closest n [Simple (of_class ''panel'')]) [Descendant (Simple (of_class ''panel-heading'')) (of_tag ''H2'')]"

definition section_title :: "node \<Rightarrow> jsstring" where
  "section_title n =
     query_text (closest n [Simple (of_class ''detail-ledger-section'')])
       [Descendant (Child (Simple Scope) (of_tag ''HEADER'')) (of_tag ''H2'')]"

definition child_text :: "node \<Rightarrow> string \<Rightarrow> jsstring" where
  "child_text n t = query_text (Some n) [Simple (of_tag t)]"

definition metric_of :: "node \<Rightarrow> DashboardReportMetric option" where
  "metric_of kpi =
     (let label = directChildText kpi ''SPAN'' (Some ''kpi-icon'');
          v = directChildText kpi ''STRONG'' None;
          detail = directChildText kpi ''SMALL'' None
      in if label \<noteq> [] \<and> v \<noteq> []
         then Some \<lparr>rm_label = label, rm_value = v, rm_detail = nonempty detail, rm_scope = scopeForNode kpi\<rparr> else None)"

definition collectMetrics :: "node \<Rightarrow> DashboardReportMetric list" where
  "collectMetrics page =
     take 12 (map the (filter (\<lambda>m. m \<noteq> None) (map metric_of (querySelectorAll page [Simple (of_class ''kpi-card'')]))))"

definition axis_text :: "node \<Rightarrow> jsstring" where
  "axis_text axis =
     (let axisScore = child_text axis ''STRONG''
      in join_text MIDDLE_DOT (filter (\<lambda>s. s \<noteq> [])
           [child_text axis ''SPAN'', if axisScore \<noteq> [] then axisScore @ js ''/100'' else [], child_text axis ''SMALL'']))"

definition signal_of :: "node \<Rightarrow> DashboardReportSignal" where
  "signal_of signal =
     (let label = query_text (Some signal) [Simple (of_class ''eyebrow'')];
          score = query_text (Some signal) [Descendant (Simple (of_class ''edr-overall'')) (of_tag ''STRONG'')];
          status = query_text (Some signal) [Simple (of_class ''status-pill'')];
          axes = map axis_text (querySelectorAll signal [Simple (of_class ''edr-axis'')]);
          reasons = filter (\<lambda>s. s \<noteq> []) (map (\<lambda>n. node_text (Some n))
            (querySelectorAll signal [Descendant (Simple (of_class ''edr-reason-block'')) (of_tag ''LI'')]))
      in \<lparr>rs_label = (if label \<noteq> [] then label else js ''EDR state''),
          rs_value = (if score \<noteq> [] then score @ js ''/100'' else EM_DASH),
          rs_status = nonempty status, rs_details = take 6 (axes @ reasons), rs_scope = scopeForNode signal\<rparr>)"

definition collectSignals :: "node \<Rightarrow> DashboardReportSignal list" where
  "collectSignals page = map signal_of (querySelectorAll page [Simple (of_class ''edr-state-summary'')])"

definition breakdown_row :: "nat \<Rightarrow> node \<Rightarrow> DashboardReportBreakdownRow" where
  "breakdown_row listIndex item =
     (let label = child_text item ''SPAN''; v = child_text item ''STRONG''; detail = child_text item ''SMALL''
      in \<lparr>br_label = (if label \<noteq> [] then label else numbered ''Item'' listIndex), br_value = (if v \<noteq> [] then v else js ''0''),
          br_count = parseCount v, br_detail = nonempty detail, br_tone = toneFromClass (dom_class (hd item))\<rparr>)"

definition breakdown_of :: "nat \<Rightarrow> node \<Rightarrow> DashboardReportBreakdown" where
  "breakdown_of listIndex lst =
     (let sectionTitle = query_text (closest lst [Simple (of_tag ''SECTION'')]) [Descendant (Simple (of_tag ''HEADER'')) (of_tag ''H3'')];
          groupTitle = (if has_class (hd lst) ''sensor-breakdown-statuses''
                        then query_text (closest lst [Simple (of_class ''sensor-breakdown-heading'')]) [Child (Simple Scope) (of_tag ''STRONG'')]
                        else []);
          figureLabel = (case Option.bind (closest lst [Simple (of_tag ''FIGURE'')]) (\<lambda>f. node_attribute f ''aria-label'') of
                           Some l \<Rightarrow> l | None \<Rightarrow> []);
          title = join_text MIDDLE_DOT
            (first_occurrences (\<lambda>s. s \<noteq> []) [panel_title lst, sectionTitle, groupTitle, figureLabel])
      in \<lparr>bd_title = (if title \<noteq> [] then title else numbered ''Distribution'' listIndex),
          bd_rows = map (breakdown_row listIndex) (child_elements lst), bd_scope = scopeForNode lst\<rparr>)"

definition BREAKDOWN_LISTS :: "selector list" where
  "BREAKDOWN_LISTS =
     [Simple (of_class ''severity-donut-legend''), Simple (of_class ''fleet-risk-list''), Simple (of_class ''sensor-health-legend''),
      Simple (of_class ''sensor-breakdown-statuses'')]"

definition collectBreakdowns :: "node \<Rightarrow> DashboardReportBreakdown list" where
  "collectBreakdowns page =
     filter (\<lambda>b. bd_rows b \<noteq> []) (map (\<lambda>(i, l). breakdown_of i l) (enumerate 0 (querySelectorAll page BREAKDOWN_LISTS)))"

subsection \<open>Tables\<close>

definition row_cells :: "node \<Rightarrow> node list" where
  "row_cells row = filter (\<lambda>c. dom_tag (hd c) = ''TD'' \<or> dom_tag (hd c) = ''TH'') (child_elements row)"

definition table_headers :: "node \<Rightarrow> jsstring list" where
  "table_headers table = map cleanCell (querySelectorAll table [Descendant (Simple (of_tag ''THEAD'')) (of_tag ''TH'')])"

definition table_rows :: "node \<Rightarrow> jsstring list list" where
  "table_rows table =
     map (\<lambda>row. map cleanCell (row_cells row)) (querySelectorAll table [Descendant (Simple (of_tag ''TBODY'')) (of_tag ''TR'')])"

definition table_of :: "nat \<Rightarrow> node \<Rightarrow> DashboardReportTable" where
  "table_of index table =
     (let columns = table_headers table; rows = table_rows table
      in \<lparr>tb_title = first_nonempty [child_text table ''CAPTION'', section_title table, panel_title table, numbered ''Table'' index],
          tb_columns = (if columns \<noteq> [] then columns
                        else map (numbered ''Column'') [0..<foldr max (map length rows) 0]),
          tb_rows = rows, tb_scope = scopeForNode table\<rparr>)"

definition collectTables :: "node \<Rightarrow> DashboardReportTable list" where
  "collectTables page =
     filter (\<lambda>t. tb_columns t \<noteq> [] \<and> tb_rows t \<noteq> [])
       (map (\<lambda>(i, t). table_of i t)
         (enumerate 0 (filter (\<lambda>t. closest t [Simple (of_class ''detection-activity-tables'')] = None)
           (querySelectorAll page [Simple (of_tag ''TABLE'')]))))"

subsection \<open>Trends\<close>

definition cell_at :: "jsstring list \<Rightarrow> nat \<Rightarrow> jsstring option" where
  "cell_at row i = (if i < length row then Some (row ! i) else None)"

definition first_cell :: "jsstring list \<Rightarrow> jsstring" where
  "first_cell row = (case cell_at row 0 of Some s \<Rightarrow> s | None \<Rightarrow> [])"

definition add_category :: "jsstring list \<Rightarrow> jsstring list \<Rightarrow> jsstring list" where
  "add_category categoryOrder row =
     (if first_cell row \<noteq> [] \<and> first_cell row \<notin> set categoryOrder then categoryOrder @ [first_cell row] else categoryOrder)"

definition value_map :: "jsstring list list \<Rightarrow> nat \<Rightarrow> (jsstring, rat option) jsmap" where
  "value_map rows columnIndex = map_from (map (\<lambda>row. (first_cell row, parseNullableCount (cell_at row columnIndex))) rows)"

definition category_value :: "(jsstring, rat option) jsmap \<Rightarrow> jsstring \<Rightarrow> rat option" where
  "category_value m category = (case map_get m category of Some v \<Rightarrow> v | None \<Rightarrow> None)"

definition TREND_TONES :: "jsstring list" where
  "TREND_TONES = [js ''events'', js ''alerts'', js ''incidents-open'', js ''incidents-closed'']"

text \<open>A table of the chart, as far as it is read: its caption, its headings and the cells of its rows.\<close>

record trend_source =
  src_caption :: jsstring
  src_headers :: "jsstring list"
  src_rows :: "jsstring list list"

definition trend_source_of :: "nat \<Rightarrow> node \<Rightarrow> trend_source" where
  "trend_source_of tableIndex table =
     \<lparr>src_caption = first_nonempty [child_text table ''CAPTION'', numbered ''Series'' tableIndex],
      src_headers = table_headers table, src_rows = table_rows table\<rparr>"

definition column_label :: "trend_source \<Rightarrow> nat \<Rightarrow> jsstring" where
  "column_label src columnIndex =
     (let valueHeaders = drop 1 (src_headers src)
      in if 1 < length valueHeaders
         then src_caption src @ MIDDLE_DOT @ (case cell_at valueHeaders (columnIndex - 1) of Some h \<Rightarrow> h | None \<Rightarrow> show_nat columnIndex)
         else src_caption src)"

definition add_column ::
  "trend_source \<Rightarrow> jsstring list \<Rightarrow> DashboardReportTrendSeries list \<Rightarrow> nat \<Rightarrow> DashboardReportTrendSeries list" where
  "add_column src categoryOrder series columnIndex =
     series @ [\<lparr>ts_label = column_label src columnIndex,
                ts_values = map (category_value (value_map (src_rows src) columnIndex)) categoryOrder,
                ts_tone = TREND_TONES ! (length series mod 4)\<rparr>]"

definition column_indices :: "trend_source \<Rightarrow> nat list" where
  "column_indices src = [1..<max (length (src_headers src)) 2]"

definition add_source ::
  "jsstring list \<times> DashboardReportTrendSeries list \<Rightarrow> trend_source \<Rightarrow> jsstring list \<times> DashboardReportTrendSeries list" where
  "add_source = (\<lambda>(categoryOrder, series) src.
     let categories = foldl add_category categoryOrder (src_rows src)
     in (categories, foldl (add_column src categories) series (column_indices src)))"

definition pad_series :: "nat \<Rightarrow> DashboardReportTrendSeries \<Rightarrow> DashboardReportTrendSeries" where
  "pad_series n s = s\<lparr>ts_values := ts_values s @ replicate (n - length (ts_values s)) None\<rparr>"

definition trend_data :: "trend_source list \<Rightarrow> jsstring list \<times> DashboardReportTrendSeries list" where
  "trend_data srcs =
     (let (categoryOrder, series) = foldl add_source ([], []) srcs
      in (categoryOrder, map (pad_series (length categoryOrder)) series))"

definition trend_of :: "nat \<Rightarrow> node \<Rightarrow> DashboardReportTrend" where
  "trend_of wrapperIndex wrapper =
     (let data = trend_data (map (\<lambda>(i, t). trend_source_of i t) (enumerate 0 (querySelectorAll wrapper [Simple (of_tag ''TABLE'')])))
      in \<lparr>tr_title = first_nonempty
            [query_text (closest wrapper [Simple (of_class ''chart-frame'')]) [Descendant (Child (Simple Scope) (of_tag ''HEADER'')) (of_tag ''H2'')],
             panel_title wrapper,
             query_text (closest wrapper [Simple (with_attribute ''data-overview-block'')])
               [Descendant (Simple (of_class ''panel-heading'')) (of_tag ''H2'')],
             numbered ''Trend'' wrapperIndex],
          tr_categories = fst data, tr_series = snd data, tr_scope = scopeForNode wrapper\<rparr>)"

definition collectTrends :: "node \<Rightarrow> DashboardReportTrend list" where
  "collectTrends page =
     filter (\<lambda>t. tr_categories t \<noteq> [] \<and> tr_series t \<noteq> [])
       (map (\<lambda>(i, w). trend_of i w) (enumerate 0 (querySelectorAll page [Simple (of_class ''detection-activity-tables'')])))"

subsection \<open>Facts and records\<close>

definition fact_group_of :: "nat \<Rightarrow> node \<Rightarrow> DashboardReportFactGroup" where
  "fact_group_of index grp =
     \<lparr>fg_title = first_nonempty [section_title grp, panel_title grp, numbered ''Details'' index],
      fg_items = filter (\<lambda>(l, v). l \<noteq> [] \<and> v \<noteq> []) (map (\<lambda>item. (child_text item ''DT'', child_text item ''DD'')) (child_elements grp)),
      fg_scope = scopeForNode grp\<rparr>"

definition collectFactGroups :: "node \<Rightarrow> DashboardReportFactGroup list" where
  "collectFactGroups page =
     filter (\<lambda>g. fg_items g \<noteq> [])
       (map (\<lambda>(i, g). fact_group_of i g)
         (enumerate 0 (querySelectorAll page [Simple (of_class ''definition-grid''), Simple (of_class ''detail-fact-list'')])))"

definition METRIC_BOX :: selector where
  "METRIC_BOX = Child (Simple (of_class ''risk-ranking-metrics'')) (of_tag ''DIV'')"

definition record_of :: "node \<Rightarrow> jsstring \<times> jsstring list" where
  "record_of item =
     (let named = query_text (Some item)
            [Simple (of_tag ''A''), Child (Simple (of_class ''queue-primary'')) (of_tag ''STRONG''), Child (Simple Scope) (of_tag ''STRONG'')];
          label = (if named \<noteq> [] then named else take 120 (node_text (Some item)));
          found = querySelectorAll item
            [Simple (of_tag ''SMALL''), Simple (of_class ''status-pill''), Simple (of_class ''incident-state''),
             Simple (of_class ''incident-alert-count''), Simple (of_tag ''TIME''), METRIC_BOX];
          details = map (\<lambda>d. if node_matches d [METRIC_BOX] then joinedChildText d else node_text (Some d))
            (filter (\<lambda>d. \<not> (node_matches d [Simple (of_tag ''SMALL'')] \<and> closest d [Simple (of_class ''risk-ranking-metrics'')] \<noteq> None)) found)
      in (label, take 6 (first_occurrences (\<lambda>v. v \<noteq> [] \<and> v \<noteq> label) details)))"

definition record_group_of :: "nat \<Rightarrow> node \<Rightarrow> DashboardReportRecordGroup" where
  "record_group_of index grp =
     (let ariaLabel = (case node_attribute grp ''aria-label'' of Some l \<Rightarrow> l | None \<Rightarrow> [])
      in \<lparr>rg_title = first_nonempty [panel_title grp, ariaLabel, numbered ''Records'' index],
          rg_records = filter (\<lambda>r. fst r \<noteq> []) (map record_of (child_elements grp)), rg_scope = scopeForNode grp\<rparr>)"

definition collectRecordGroups :: "node \<Rightarrow> DashboardReportRecordGroup list" where
  "collectRecordGroups page =
     filter (\<lambda>g. rg_records g \<noteq> [])
       (map (\<lambda>(i, g). record_group_of i g)
         (enumerate 0 (querySelectorAll page
           [Simple (of_class ''risk-endpoint-ranking''), Simple (of_class ''incident-queue-list''), Simple (of_class ''guidance-list''),
            Simple (of_class ''risk-factor-list'')])))"

section \<open>The whole page\<close>

definition report_context_of :: "int \<Rightarrow> report_context \<Rightarrow> DashboardReportContext" where
  "report_context_of now c =
     \<lparr>rc_generatedAt = (case ctx_generatedAt c of Some t \<Rightarrow> t | None \<Rightarrow> now),
      rc_operator = (case ctx_operator c of Some s \<Rightarrow> s | None \<Rightarrow> EM_DASH),
      rc_pageTitle = (case ctx_pageTitle c of Some s \<Rightarrow> s | None \<Rightarrow> js ''Report''),
      rc_pathname = (case ctx_pathname c of Some s \<Rightarrow> s | None \<Rightarrow> js ''/''),
      rc_search = (case ctx_search c of Some s \<Rightarrow> s | None \<Rightarrow> []),
      rc_userRole = (case ctx_userRole c of Some s \<Rightarrow> s | None \<Rightarrow> EM_DASH)\<rparr>"

definition collectDashboardReport :: "int \<Rightarrow> node option \<Rightarrow> report_context \<Rightarrow> DashboardReportSnapshot" where
  "collectDashboardReport now page context =
     DashboardReportContext.extend (report_context_of now context)
       (case page of
          None \<Rightarrow> DashboardReportSnapshot.fields [] [] [] False [] [] [] [] 0
        | Some r \<Rightarrow>
            let tables = collectTables r
            in DashboardReportSnapshot.fields (collectBreakdowns r) (collectFactGroups r) (collectMetrics r)
                 (querySelector r [Simple (of_class ''pagination'')] \<noteq> None) (collectRecordGroups r) (collectSignals r)
                 tables (collectTrends r) (sum_list (map (\<lambda>t. length (tb_rows t)) tables)))"

section \<open>Facts\<close>

subsection \<open>The series of a trend are aligned\<close>

lemma add_category_spec:
  assumes "distinct cs" "[] \<notin> set cs"
  shows "distinct (add_category cs row) \<and> [] \<notin> set (add_category cs row) \<and>
    (first_cell row \<noteq> [] \<longrightarrow> first_cell row \<in> set (add_category cs row)) \<and> (\<exists>ext. add_category cs row = cs @ ext)"
  using assms by (auto simp: add_category_def)

lemma add_categories_spec:
  assumes "distinct cs" "[] \<notin> set cs"
  shows "distinct (foldl add_category cs rows) \<and> [] \<notin> set (foldl add_category cs rows) \<and>
    first_cell ` set rows \<subseteq> insert [] (set (foldl add_category cs rows)) \<and> (\<exists>ext. foldl add_category cs rows = cs @ ext)"
  using assms
proof (induction rows arbitrary: cs)
  case (Cons row rows)
  note step = add_category_spec [OF Cons.prems, of row]
  from Cons.IH [of "add_category cs row"] step
  have rest: "distinct (foldl add_category (add_category cs row) rows) \<and> [] \<notin> set (foldl add_category (add_category cs row) rows) \<and>
      first_cell ` set rows \<subseteq> insert [] (set (foldl add_category (add_category cs row) rows)) \<and>
      (\<exists>ext. foldl add_category (add_category cs row) rows = add_category cs row @ ext)" by blast
  then obtain ext where ext: "foldl add_category (add_category cs row) rows = add_category cs row @ ext" by blast
  moreover obtain ext' where "add_category cs row = cs @ ext'" using step by blast
  ultimately have "foldl add_category cs (row # rows) = cs @ (ext' @ ext)" by simp
  moreover have "first_cell row \<in> insert [] (set (foldl add_category cs (row # rows)))" using step ext by auto
  ultimately show ?case using rest by auto
qed auto

lemma keys_map_from: "fst ` set (map_from es) = fst ` set es"
proof -
  have "fst ` set (foldl (\<lambda>m (k, v). map_set m k v) m es) = fst ` set m \<union> fst ` set es" for m
  proof (induction es arbitrary: m)
    case (Cons e es)
    show ?case by (cases e) (simp add: Cons.IH)
  qed simp
  then show ?thesis by (simp add: map_from_def)
qed

lemma value_map_absent: "c \<notin> first_cell ` set rows \<Longrightarrow> category_value (value_map rows j) c = None"
proof -
  assume "c \<notin> first_cell ` set rows"
  then have "c \<notin> fst ` set (value_map rows j)" by (auto simp: value_map_def keys_map_from image_image)
  then show ?thesis by (simp add: category_value_def map_of_eq_None_iff [THEN iffD2])
qed

text \<open>The values of a source for every category of the whole trend, column by column.\<close>

definition source_values :: "jsstring list \<Rightarrow> trend_source \<Rightarrow> rat option list list" where
  "source_values cs src = map (\<lambda>j. map (category_value (value_map (src_rows src) j)) cs) (column_indices src)"

lemma add_columns_values:
  "\<exists>new. foldl (add_column src cs) series cols = series @ new \<and>
     map ts_values new = map (\<lambda>j. map (category_value (value_map (src_rows src) j)) cs) cols"
proof (induction cols arbitrary: series)
  case (Cons j cols)
  let ?s = "\<lparr>ts_label = column_label src j, ts_values = map (category_value (value_map (src_rows src) j)) cs,
     ts_tone = TREND_TONES ! (length series mod 4)\<rparr>"
  obtain new where "foldl (add_column src cs) (series @ [?s]) cols = (series @ [?s]) @ new"
      "map ts_values new = map (\<lambda>j. map (category_value (value_map (src_rows src) j)) cs) cols" using Cons by blast
  then have "foldl (add_column src cs) series (j # cols) = series @ (?s # new) \<and>
      map ts_values (?s # new) = map (\<lambda>j. map (category_value (value_map (src_rows src) j)) cs) (j # cols)"
    by (simp add: add_column_def)
  then show ?case by blast
qed simp

definition padded :: "nat \<Rightarrow> rat option list \<Rightarrow> rat option list" where
  "padded n vs = vs @ replicate (n - length vs) None"

lemma ts_values_pad [simp]: "ts_values (pad_series n s) = padded n (ts_values s)"
  by (simp add: pad_series_def padded_def)

lemma padded_map:
  assumes "\<And>c. c \<in> set ext \<Longrightarrow> f c = None"
  shows "padded (length (cs @ ext)) (map f cs) = map f (cs @ ext)"
  using assms by (auto simp: padded_def intro!: nth_equalityI)

lemma source_values_extend:
  assumes "first_cell ` set (src_rows src) \<subseteq> insert [] (set cs)" "distinct (cs @ ext)" "[] \<notin> set ext"
  shows "map (padded (length (cs @ ext))) (source_values cs src) = source_values (cs @ ext) src"
proof -
  have "category_value (value_map (src_rows src) j) c = None" if "c \<in> set ext" for c j
    using that assms by (intro value_map_absent) auto
  then show ?thesis unfolding source_values_def by (simp add: padded_map del: length_append map_append)
qed

lemma add_sources_values:
  assumes "distinct cs" "[] \<notin> set cs"
  shows "\<exists>ext new. foldl add_source (cs, series) srcs = (cs @ ext, series @ new) \<and> distinct (cs @ ext) \<and> [] \<notin> set (cs @ ext) \<and>
    map (padded (length (cs @ ext)) \<circ> ts_values) new = concat (map (source_values (cs @ ext)) srcs)"
  using assms
proof (induction srcs arbitrary: cs series)
  case (Cons src srcs)
  let ?cs = "foldl add_category cs (src_rows src)"
  obtain mid where mid: "?cs = cs @ mid" and cs: "distinct ?cs" "[] \<notin> set ?cs"
      "first_cell ` set (src_rows src) \<subseteq> insert [] (set ?cs)"
    using add_categories_spec [OF Cons.prems] by blast
  obtain cols where cols: "foldl (add_column src ?cs) series (column_indices src) = series @ cols" "map ts_values cols = source_values ?cs src"
    using add_columns_values unfolding source_values_def by blast
  obtain ext new where rest: "foldl add_source (?cs, series @ cols) srcs = (?cs @ ext, (series @ cols) @ new)"
      "distinct (?cs @ ext)" "[] \<notin> set (?cs @ ext)"
      "map (padded (length (?cs @ ext)) \<circ> ts_values) new = concat (map (source_values (?cs @ ext)) srcs)"
    using Cons.IH [OF cs(1,2)] by blast
  have "map (padded (length (?cs @ ext)) \<circ> ts_values) cols = source_values (?cs @ ext) src"
    using source_values_extend [OF cs(3) rest(2)] rest(3) cols(2) by (simp flip: map_map)
  then have "map (padded (length (?cs @ ext)) \<circ> ts_values) (cols @ new) = concat (map (source_values (?cs @ ext)) (src # srcs))"
    using rest(4) by simp
  moreover have "foldl add_source (cs, series) (src # srcs) = (?cs @ ext, series @ (cols @ new))"
    using rest(1) cols(1) by (simp add: add_source_def)
  ultimately show ?case using rest(2,3) mid by (metis append_assoc)
qed auto

lemma trend_data_aligned:
  "distinct (fst (trend_data srcs)) \<and> [] \<notin> set (fst (trend_data srcs)) \<and>
   map ts_values (snd (trend_data srcs)) = concat (map (source_values (fst (trend_data srcs))) srcs)"
proof -
  obtain cs new where "foldl add_source ([], []) srcs = (cs, new)" "distinct cs" "[] \<notin> set cs"
      "map (padded (length cs) \<circ> ts_values) new = concat (map (source_values cs) srcs)"
    using add_sources_values [of "[]" "[]" srcs] by auto
  then show ?thesis by (simp add: trend_data_def comp_def)
qed

lemma trend_series_lengths: "s \<in> set (snd (trend_data srcs)) \<Longrightarrow> length (ts_values s) = length (fst (trend_data srcs))"
proof -
  assume "s \<in> set (snd (trend_data srcs))"
  then have "ts_values s \<in> set (concat (map (source_values (fst (trend_data srcs))) srcs))"
    using trend_data_aligned [of srcs] by (metis image_eqI set_map)
  then show ?thesis by (auto simp: source_values_def)
qed

subsection \<open>The snapshot is well formed\<close>

lemma first_occurrences_spec:
  "distinct (first_occurrences P vs) \<and> set (first_occurrences P vs) \<subseteq> {v \<in> set vs. P v}"
proof -
  let ?is = "filter (\<lambda>i. P (vs ! i) \<and> vs ! i \<notin> set (take i vs)) [0..<length vs]"
  have later: "vs ! i \<noteq> vs ! j" if "i < j" "j < length vs" "vs ! j \<notin> set (take j vs)" for i j
    using that by (metis in_set_conv_nth length_take less_trans min_less_iff_conj nth_take)
  have "inj_on (nth vs) (set ?is)"
  proof (rule inj_onI)
    fix i j
    assume "i \<in> set ?is" "j \<in> set ?is" "vs ! i = vs ! j"
    then show "i = j" using later [of i j] later [of j i] by (cases i j rule: linorder_cases) auto
  qed
  then show ?thesis by (auto simp: first_occurrences_def distinct_map)
qed

definition trend_ok :: "DashboardReportTrend \<Rightarrow> bool" where
  "trend_ok t \<longleftrightarrow> tr_categories t \<noteq> [] \<and> tr_series t \<noteq> [] \<and> distinct (tr_categories t) \<and>
     list_all (\<lambda>s. length (ts_values s) = length (tr_categories t)) (tr_series t)"

definition snapshot_ok :: "'a DashboardReportSnapshot_scheme \<Rightarrow> bool" where
  "snapshot_ok s \<longleftrightarrow>
     length (sn_metrics s) \<le> 12 \<and> list_all (\<lambda>m. rm_label m \<noteq> [] \<and> rm_value m \<noteq> []) (sn_metrics s) \<and>
     list_all (\<lambda>g. length (rs_details g) \<le> 6) (sn_signals s) \<and>
     list_all (\<lambda>b. bd_rows b \<noteq> [] \<and> bd_title b \<noteq> []) (sn_breakdowns s) \<and>
     list_all trend_ok (sn_trends s) \<and>
     list_all (\<lambda>t. tb_title t \<noteq> [] \<and> tb_columns t \<noteq> [] \<and> tb_rows t \<noteq> []) (sn_tables s) \<and>
     list_all (\<lambda>g. fg_items g \<noteq> [] \<and> list_all (\<lambda>(l, v). l \<noteq> [] \<and> v \<noteq> []) (fg_items g)) (sn_factGroups s) \<and>
     list_all (\<lambda>g. rg_records g \<noteq> [] \<and> list_all (\<lambda>(l, ds). l \<noteq> [] \<and> length ds \<le> 6 \<and> distinct ds \<and> [] \<notin> set ds \<and> l \<notin> set ds) (rg_records g))
       (sn_recordGroups s) \<and>
     sn_visibleRowCount s = sum_list (map (\<lambda>t. length (tb_rows t)) (sn_tables s))"

lemma numbered_nonempty [simp]: "numbered name i \<noteq> []"
  by (simp add: numbered_def)

lemma first_nonempty_last: "last ss \<noteq> [] \<Longrightarrow> ss \<noteq> [] \<Longrightarrow> first_nonempty ss \<noteq> []"
  by (induction ss rule: first_nonempty.induct) auto

lemma collectMetrics_ok:
  "length (collectMetrics page) \<le> 12 \<and> list_all (\<lambda>m. rm_label m \<noteq> [] \<and> rm_value m \<noteq> []) (collectMetrics page)"
proof -
  have "rm_label m \<noteq> [] \<and> rm_value m \<noteq> []" if "metric_of n = Some m" for n m
    using that by (auto simp: metric_of_def Let_def split: if_splits)
  then show ?thesis by (fastforce simp: collectMetrics_def list_all_iff dest!: in_set_takeD)
qed

lemma trend_of_ok: "tr_categories (trend_of i w) \<noteq> [] \<Longrightarrow> tr_series (trend_of i w) \<noteq> [] \<Longrightarrow> trend_ok (trend_of i w)"
  using trend_data_aligned trend_series_lengths by (auto simp: trend_ok_def trend_of_def Let_def list_all_iff)

lemma record_of_ok:
  assumes "record_of item = (l, ds)"
  shows "length ds \<le> 6 \<and> distinct ds \<and> [] \<notin> set ds \<and> l \<notin> set ds"
proof -
  obtain vs where ds: "ds = take 6 (first_occurrences (\<lambda>v. v \<noteq> [] \<and> v \<noteq> l) vs)"
    using assms by (auto simp: record_of_def Let_def)
  show ?thesis
    using first_occurrences_spec [of "\<lambda>v. v \<noteq> [] \<and> v \<noteq> l" vs] unfolding ds by (auto dest!: in_set_takeD)
qed

lemma record_group_ok:
  "(l, ds) \<in> set (rg_records (record_group_of i g)) \<Longrightarrow> l \<noteq> [] \<and> length ds \<le> 6 \<and> distinct ds \<and> [] \<notin> set ds \<and> l \<notin> set ds"
proof -
  assume "(l, ds) \<in> set (rg_records (record_group_of i g))"
  then obtain item where "record_of item = (l, ds)" "l \<noteq> []" by (auto simp: record_group_of_def Let_def)
  with record_of_ok show ?thesis by blast
qed

lemma breakdown_title_nonempty: "bd_title (breakdown_of i l) \<noteq> []"
proof -
  have "(if t \<noteq> [] then t else numbered ''Distribution'' i) \<noteq> []" for t by simp
  then show ?thesis unfolding breakdown_of_def Let_def DashboardReportBreakdown.select_convs .
qed

lemma collected_snapshot_ok: "snapshot_ok (collectDashboardReport now page context)"
proof (cases page)
  case None
  then show ?thesis
    by (simp add: collectDashboardReport_def snapshot_ok_def DashboardReportContext.defs DashboardReportSnapshot.defs report_context_of_def)
next
  case (Some r)
  have "list_all (\<lambda>g. length (rs_details g) \<le> 6) (collectSignals r)"
    by (auto simp: collectSignals_def list_all_iff signal_of_def Let_def)
  moreover have "list_all (\<lambda>b. bd_rows b \<noteq> [] \<and> bd_title b \<noteq> []) (collectBreakdowns r)"
    using breakdown_title_nonempty by (auto simp: collectBreakdowns_def list_all_iff)
  moreover have "list_all trend_ok (collectTrends r)"
    by (auto simp: collectTrends_def list_all_iff intro: trend_of_ok)
  moreover have "list_all (\<lambda>t. tb_title t \<noteq> [] \<and> tb_columns t \<noteq> [] \<and> tb_rows t \<noteq> []) (collectTables r)"
    by (auto simp: collectTables_def list_all_iff table_of_def Let_def split: if_splits)
  moreover have "list_all (\<lambda>g. fg_items g \<noteq> [] \<and> list_all (\<lambda>(l, v). l \<noteq> [] \<and> v \<noteq> []) (fg_items g)) (collectFactGroups r)"
    by (auto simp: collectFactGroups_def list_all_iff fact_group_of_def)
  moreover have "list_all (\<lambda>g. rg_records g \<noteq> [] \<and>
      list_all (\<lambda>(l, ds). l \<noteq> [] \<and> length ds \<le> 6 \<and> distinct ds \<and> [] \<notin> set ds \<and> l \<notin> set ds) (rg_records g)) (collectRecordGroups r)"
    using record_group_ok by (auto simp: collectRecordGroups_def list_all_iff)
  ultimately show ?thesis using collectMetrics_ok [of r] Some
    by (simp add: collectDashboardReport_def snapshot_ok_def DashboardReportContext.defs DashboardReportSnapshot.defs report_context_of_def Let_def)
qed

end
