(* ===== verification/TranslationTables.thy ===== *)
theory TranslationTables
  imports Prelude
begin

text \<open>
  The texts of the user interface (\<open>i18n/translations.ts\<close>): the two tables of the source, line by line,
  each split into definitions of at most 150 entries.  A key is a \<open>string\<close>; a text is a list of code
  units, given as ASCII literals where it is ASCII and by its code units elsewhere.
\<close>

type_synonym TranslationKey = string
type_synonym translation_table = "(TranslationKey \<times> jsstring) list"

section \<open>English\<close>

definition english_1 :: translation_table where
  "english_1 =
    [(''common.retry'', js ''Retry''),
     (''common.notAvailable'', js ''Not available''),
     (''common.none'', js ''None''),
     (''common.noneReported'', js ''None reported''),
     (''common.requestIdUnavailable'', js ''Request ID unavailable''),
     (''common.requestId'', js ''Request {requestId}''),
     (''common.to'', js ''to''),
     (''common.latest'', js ''Latest {time}''),
     (''common.oldest'', js ''Oldest {time}''),
     (''common.loading'', js ''Loading''),
     (''common.refreshing'', js ''Refreshing data''),
     (''common.largeView'', js ''Large view''),
     (''navigation.primary'', js ''Primary navigation''),
     (''navigation.skipToContent'', js ''Skip to content''),
     (''navigation.expand'', js ''Expand navigation''),
     (''navigation.compact'', js ''Compact navigation''),
     (''navigation.toggle'', js ''Toggle navigation''),
     (''navigation.close'', js ''Close navigation''),
     (''navigation.logout'', js ''Log out''),
     (''navigation.breadcrumb'', js ''Breadcrumb''),
     (''navigation.accountMenu'', js ''Open account menu''),
     (''navigation.groupOverview'', js ''Overview''),
     (''navigation.groupTriage'', js ''Triage''),
     (''navigation.groupEvidence'', js ''Evidence''),
     (''navigation.groupAnalysis'', js ''Analysis''),
     (''navigation.groupPlatform'', js ''Platform''),
     (''navigation.overview'', js ''Overview''),
     (''navigation.dashboards'', js ''Dashboards''),
     (''navigation.alerts'', js ''Alerts''),
     (''navigation.incidents'', js ''Incidents''),
     (''navigation.endpoints'', js ''Endpoints''),
     (''navigation.events'', js ''Events''),
     (''navigation.intelligence'', js ''Intelligence''),
     (''navigation.operations'', js ''Operations''),
     (''navigation.archives'', js ''Archives''),
     (''navigation.console'', js ''OWLBY''),
     (''navigation.investigationPath'', js ''Investigation path''),
     (''navigation.pathSignal'', js ''Signal''),
     (''navigation.pathEvidence'', js ''Evidence''),
     (''navigation.pathDecision'', js ''Decision''),
     (''navigation.endpointDefense'', js ''Endpoint defense''),
     (''navigation.evidenceFirst'', js ''Evidence-first operations''),
     (''search.aria'', js ''Search Event evidence''),
     (''search.placeholder'', js ''Endpoint ID or process''),
     (''report.openAria'', js ''Open printable report''),
     (''report.close'', js ''Close report''),
     (''report.printTitle'', js ''Print report''),
     (''report.snapshot'', js ''{page} snapshot''),
     (''report.page'', js ''Page''),
     (''report.generated'', js ''Generated''),
     (''report.userRole'', js ''User role''),
     (''report.cancel'', js ''Cancel''),
     (''report.printSave'', js ''Print / Save PDF''),
     (''language.label'', js ''Language''),
     (''language.english'', js ''English''),
     (''language.korean'', [54620, 44397, 50612]),
     (''language.saveError'', js ''Language preference could not be saved. Your previous language is still active.''),
     (''theme.switchToLight'', js ''Switch to light theme''),
     (''theme.switchToDark'', js ''Switch to dark theme''),
     (''dashboard.managerAria'', js ''Dashboard controls''),
     (''dashboard.settings'', js ''Dashboard settings''),
     (''dashboard.settingsTitle'', js ''Dashboard settings''),
     (''dashboard.closeSettings'', js ''Close settings''),
     (''dashboard.settingsDescription'', js ''Select a saved layout, or start an explicit draft to create, edit, or delete one.''),
     (''dashboard.overviewSettingsDescription'', js ''Switch the read-only Overview layout here. Open the workbench to change its widgets.''),
     (''dashboard.activeLayout'', js ''ACTIVE LAYOUT''),
     (''dashboard.manage'', js ''Manage dashboards''),
     (''dashboard.openOverview'', js ''Open Overview''),
     (''dashboard.workbenchEyebrow'', js ''LAYOUT WORKBENCH''),
     (''dashboard.workbenchTitle'', js ''Dashboard layouts''),
     (''dashboard.workbenchDescription'', js ''Build focused investigation views and apply the selected layout to Overview. Layouts stay in this browser for the signed-in user.''),
     (''dashboard.workbenchContext'', js ''BROWSER-LOCAL LAYOUTS''),
     (''dashboard.overviewContext'', js ''ACTIVE DASHBOARD''),
     (''dashboard.managementHint'', js ''Choose a layout to apply to Overview or open its draft editor.''),
     (''dashboard.readOnlyHint'', js ''Overview renders the selected layout read-only. Layout changes live in the workbench.''),
     (''dashboard.activeCustomDescription'', js ''This browser-local layout is applied to the read-only Overview.''),
     (''dashboard.restoreDefault'', js ''Use Default''),
     (''dashboard.layoutCatalog'', js ''Layout catalog''),
     (''dashboard.defaultFixed'', js ''Immutable product layout''),
     (''dashboard.browserLocal'', js ''Browser-local custom layout''),
     (''dashboard.layoutState'', js ''Layout state''),
     (''dashboard.savedLayout'', js ''Saved custom layout''),
     (''dashboard.widgetCount'', js ''Widgets''),
     (''dashboard.storage'', js ''Storage''),
     (''dashboard.productDefault'', js ''Product default''),
     (''dashboard.defaultRouteHint'', js ''Open the fixed Overview to inspect current security state.''),
     (''dashboard.openDraft'', js ''Open draft editor''),
     (''dashboard.savedCount'', js ''{count} custom dashboards saved for this user''),
     (''dashboard.selectorLabel'', js ''Dashboard''),
     (''dashboard.defaultName'', js ''Default''),
     (''dashboard.new'', js ''New dashboard''),
     (''dashboard.edit'', js ''Edit dashboard''),
     (''dashboard.delete'', js ''Delete dashboard''),
     (''dashboard.newTitle'', js ''Build a new dashboard''),
     (''dashboard.editTitle'', js ''Edit custom dashboard''),
     (''dashboard.builderDescription'', js ''Choose only the investigation widgets you need. Changes are saved when you select Save.''),
     (''dashboard.nameLabel'', js ''Dashboard name''),
     (''dashboard.namePlaceholder'', js ''Example: Priority investigation''),
     (''dashboard.saveRequirements'', js ''Required: a name and at least one widget.''),
     (''dashboard.palette'', js ''Widget catalog''),
     (''dashboard.paletteDescription'', js ''Drag a widget to the canvas or activate it to add with the keyboard.''),
     (''dashboard.addWidget'', js ''Add {widget}''),
     (''dashboard.removeWidget'', js ''Remove {widget}''),
     (''dashboard.dragHandle'', js ''Move {widget}''),
     (''dashboard.widgetGeometry'', js ''{widget}: column {column}, row {row}, width {width}, height {height}''),
     (''dashboard.keyboardInstructions'', js ''Use Arrow keys to move the focused widget. Hold Shift with Arrow keys to resize.''),
     (''dashboard.paletteComplete'', js ''All available widgets are on the canvas. Remove one to make it available again.''),
     (''dashboard.widgetAlreadyAdded'', js ''This widget is already on the canvas.''),
     (''dashboard.widgetPlacementUnavailable'', js ''There is no available space for this widget. Move, resize, or remove a widget, or try a smaller widget.''),
     (''dashboard.emptyTitle'', js ''Start with one investigation widget''),
     (''dashboard.emptyDescription'', js ''Add a widget from the catalog. A dashboard is not created until you save it.''),
     (''dashboard.save'', js ''Save''),
     (''dashboard.cancel'', js ''Cancel''),
     (''dashboard.editUnavailable'', js ''Custom dashboard editing is available at 1280px and wider.''),
     (''dashboard.customAria'', js ''Custom dashboard: {name}''),
     (''dashboard.deleteTitle'', js ''Delete custom dashboard''),
     (''dashboard.deleteDescription'', js ''Delete {name}? This removes its browser-local layout for the current user.''),
     (''dashboard.confirmDelete'', js ''Delete dashboard''),
     (''dashboard.closeDelete'', js ''Close delete confirmation''),
     (''filter.filters'', js ''Filters''),
     (''filter.clear'', js ''Clear filters''),
     (''filter.timeRange'', js ''Time range''),
     (''filter.latest15Minutes'', js ''Latest 15 minutes''),
     (''filter.latestHour'', js ''Latest hour''),
     (''filter.latest24Hours'', js ''Latest 24 hours''),
     (''filter.latest7Days'', js ''Latest 7 days''),
     (''filter.customUtcRange'', js ''Custom UTC range''),
     (''filter.from'', js ''From''),
     (''filter.to'', js ''To''),
     (''filter.availableRanges'', js ''Queryable data periods''),
     (''filter.availabilityLoading'', js ''Checking available periods...''),
     (''filter.availabilityUnavailable'', js ''Queryable periods could not be checked.''),
     (''filter.noAvailableRanges'', js ''No data periods are currently queryable.''),
     (''filter.unavailableRangeTitle'', js ''No data is available for the selected period''),
     (''filter.unavailableRangeDescription'', js ''Choose a period from the queryable data ranges below.''),
     (''filter.status'', js ''Status''),
     (''filter.severity'', js ''Severity''),
     (''filter.endpointId'', js ''Endpoint ID''),
     (''filter.endpointIds'', js ''Endpoint IDs''),
     (''filter.order'', js ''Order''),
     (''filter.sort'', js ''Sort''),
     (''filter.priority'', js ''Priority''),
     (''filter.allStatuses'', js ''All statuses''),
     (''filter.allSeverities'', js ''All severities''),
     (''filter.newestFirst'', js ''Newest first''),
     (''filter.oldestFirst'', js ''Oldest first''),
     (''filter.descending'', js ''Descending''),
     (''filter.ascending'', js ''Ascending''),
     (''filter.more'', js ''More filters''),
     (''filter.moreTitle'', js ''Additional filters'')]"

definition english_2 :: translation_table where
  "english_2 =
    [(''filter.closeMore'', js ''Close additional filters''),
     (''filter.done'', js ''Done''),
     (''filter.active'', js ''Applied filters''),
     (''filter.remove'', js ''Remove {label} filter''),
     (''filter.sortColumn'', js ''Sort {label}, {direction}''),
     (''filter.invalidTitle'', js ''Invalid filters''),
     (''filter.invalidDescription'', js ''Review the URL filters and enter supported values before loading data.''),
     (''pagination.label'', js ''Pagination''),
     (''pagination.previous'', js ''Previous''),
     (''pagination.next'', js ''Next''),
     (''pagination.summary'', js ''Page {page} of {totalPages} '' @ [183] @ js '' {total} results''),
     (''pagination.pageSize'', js ''Rows per page''),
     (''table.aria'', js ''{label} table''),
     (''error.dataLoad'', js ''The requested data could not be loaded.''),
     (''error.retryableHelp'', js ''The last successful data may be stale. Retry when the service is available.''),
     (''error.actionHelp'', js ''Review the request and try the next action below.''),
     (''error.refreshStale'', js ''Refresh failed. Showing the last successful data.''),
     (''error.archiveAction'', js ''Open archive operations''),
     (''error.validation'', js ''The request is invalid. Review the entered values.''),
     (''error.invalidToken'', js ''Your session is no longer valid. Sign in again.''),
     (''error.forbidden'', js ''You do not have permission to perform this action.''),
     (''error.notFound'', js ''The requested resource was not found.''),
     (''error.serviceUnavailable'', js ''The Backend service is temporarily unavailable.''),
     (''error.archiveNotReady'', js ''The Archive data is not ready for access.''),
     (''error.rollupNotReady'', js ''The Dashboard rollup is still being prepared. Retry to load current Event metrics from ClickHouse.''),
     (''error.network'', js ''The Backend could not be reached. Check the connection and retry.''),
     (''error.invalidEnvelope'', js ''The Backend returned an invalid success envelope.''),
     (''error.dashboardRevisionConflict'', js ''The dashboard layout changed in another session. Reload it and retry.''),
     (''error.dashboardNotFound'', js ''The requested dashboard layout is not supported.''),
     (''error.invalidDashboardLayout'', js ''The dashboard layout is invalid.''),
     (''error.detailField'', js ''Review the {field} field.''),
     (''error.detailUnknown'', js ''Review the request details.''),
     (''error.partialTitle'', js ''Some evidence is unavailable''),
     (''edrState.current'', js ''Current EDR state''),
     (''edrState.diagnostics'', js ''EDR diagnostic axes''),
     (''edrState.threatLevel'', js ''Threat level''),
     (''edrState.collectionHealth'', js ''Collection health''),
     (''edrState.reasonCodes'', js ''Status drivers''),
     (''edrState.noReasons'', js ''No active risk reasons''),
     (''edrState.reason.mediumEndpointRisk'', js ''Medium Endpoint Risk''),
     (''edrState.reason.highEndpointRisk'', js ''High Endpoint Risk''),
     (''edrState.reason.criticalEndpointRisk'', js ''Critical Endpoint Risk''),
     (''edrState.reason.openIncident'', js ''Open Incident''),
     (''edrState.reason.criticalAlert'', js ''Critical Alert''),
     (''edrState.reason.offlineEndpoint'', js ''Offline Endpoint''),
     (''edrState.reason.staleEndpoint'', js ''Stale Endpoint''),
     (''edrState.reason.degradedSensor'', js ''Degraded Sensor''),
     (''edrState.reason.unavailableSensor'', js ''Unavailable Sensor''),
     (''edrState.reason.ingestFailure'', js ''Ingest failure''),
     (''edrState.reason.ingestDelayed'', js ''Ingest delayed''),
     (''edrState.reason.storageFailure'', js ''Storage failure''),
     (''edrState.calculated'', js ''Calculated {time}''),
     (''edrState.aria'', js ''EDR state {state}, score {score}''),
     (''empty.noResponseGuidance'', js ''No response guidance''),
     (''empty.responseGuidanceDescription'', js ''The matching RuleV1 version has no guidance steps.''),
     (''empty.noRiskFactors'', js ''No active factors''),
     (''empty.riskFactorsDescription'', js ''The Backend returned no active Alert or Incident risk factors.''),
     (''risk.openSource'', js ''Open {sourceType} source''),
     (''risk.openIncidentContribution'', js ''Open correlated Incident contribution''),
     (''empty.sourceEventUnavailable'', js ''Source event unavailable''),
     (''empty.sourceEventDescription'', js ''The event is not currently available in HOT or RESTORED storage.''),
     (''charts.noSeverityTitle'', js ''No alert severity data''),
     (''charts.noSeverityDescription'', js ''No Alerts were detected in this time range.''),
     (''charts.severityAria'', js ''{total} alerts by severity''),
     (''charts.noDistributionTitle'', js ''No distribution data''),
     (''charts.noDistributionDescription'', js ''The Backend returned an empty distribution.''),
     (''charts.noSeriesTitle'', js ''No {label} series''),
     (''charts.noSeriesDescription'', js ''No time buckets were returned for this range.''),
     (''charts.seriesAria'', js ''{label} time series''),
     (''charts.viewData'', js ''View {label} data table''),
     (''charts.bucket'', js ''Bucket''),
     (''charts.count'', js ''Count''),
     (''charts.noIncidentSeries'', js ''No incident series''),
     (''charts.noDetectionActivity'', js ''No detection activity''),
     (''charts.noIncidentSeriesDescription'', js ''No Incident time buckets were returned for this range.''),
     (''charts.incidentSeriesAria'', js ''Incident open and closed time series''),
     (''charts.open'', js ''Open''),
     (''charts.closed'', js ''Closed''),
     (''charts.viewIncidentData'', js ''View incident data table''),
     (''charts.viewMore'', js ''View {count} more values''),
     (''charts.minimum'', js ''Minimum''),
     (''charts.average'', js ''Average''),
     (''charts.maximum'', js ''Maximum''),
     (''charts.currentValues'', js ''Current series values''),
     (''charts.bucketSelection'', js ''Detection activity time buckets''),
     (''charts.selectBucket'', js ''Select a server bucket''),
     (''charts.detectionSummary'', js ''Latest server buckets: Events {events}, Alerts {alerts}, Open incidents {incidents}.''),
     (''charts.timeContext'', js ''Bucket range {from} '' @ [8211] @ js '' {to} '' @ [183] @ js '' {timezone} '' @ [183] @ js '' counts per server bucket''),
     (''overview.eyebrow'', js ''CURRENT POSTURE''),
     (''overview.title'', js ''Overview''),
     (''overview.description'', js ''Backend-calculated EDR posture, collection health, and evidence volume.''),
     (''overview.dashboardAria'', js ''Fixed Overview dashboard''),
     (''overview.lastRefreshed'', js ''Last refreshed {time}''),
     (''overview.notYet'', js ''Not yet''),
     (''overview.kpiAria'', js ''Key performance indicators''),
     (''overview.events'', js ''Events''),
     (''overview.alerts'', js ''Alerts''),
     (''overview.totalAlerts'', js ''Total alerts''),
     (''overview.criticalAlerts'', js ''Critical alerts''),
     (''overview.criticalAlertsDetail'', js ''Critical severity in selected range''),
     (''overview.openIncidents'', js ''Open incidents''),
     (''overview.incidents'', js ''Incidents''),
     (''overview.highRiskEndpoints'', js ''HIGH-level endpoints''),
     (''overview.onlineEndpoints'', js ''Online endpoints''),
     (''overview.eventFailures'', js ''Event failures''),
     (''overview.storageBuckets'', js ''Storage buckets''),
     (''overview.eventsDetail'', js ''Events in selected range''),
     (''overview.alertsDetail'', js ''Alerts in selected range''),
     (''overview.currentlyOpen'', js ''Currently open''),
     (''overview.highRiskEndpointsDetail'', js ''Current HIGH-level snapshot''),
     (''overview.currentSnapshot'', js ''Current snapshot''),
     (''overview.currentFailureRows'', js ''Current failure rows''),
     (''overview.allLifecycleBuckets'', js ''All lifecycle buckets''),
     (''overview.alertSeverity'', js ''Alert severity''),
     (''overview.detectionActivity'', js ''Detection activity''),
     (''overview.detectionActivityDescription'', js ''Server-provided Event, Alert, and Incident time buckets''),
     (''overview.eventVolume'', js ''Event volume''),
     (''overview.alertVolume'', js ''Alert volume''),
     (''overview.incidentActivity'', js ''Incident activity''),
     (''overview.endpointRisk'', js ''Endpoint risk''),
     (''overview.fleetDistribution'', js ''Fleet distribution''),
     (''overview.fleetDistributionSubtitle'', js ''Endpoint risk and current Sensor Health''),
     (''overview.reportedEndpoints'', js ''{count} reported Endpoints''),
     (''overview.reportedRiskSnapshots'', js ''{count} risk snapshots''),
     (''overview.reportedSensorChecks'', js ''{count} reported checks''),
     (''overview.noSensorHealthSnapshots'', js ''No Sensor Health snapshots are available.''),
     (''overview.fleetSnapshotNote'', js ''Current snapshot. Open Endpoints or Operations for root-cause detail.''),
     (''overview.riskCritical'', js ''Critical''),
     (''overview.riskHigh'', js ''High''),
     (''overview.riskMedium'', js ''Medium''),
     (''overview.riskLow'', js ''Low''),
     (''overview.sensorHealthy'', js ''Healthy''),
     (''overview.sensorDegraded'', js ''Degraded''),
     (''overview.sensorUnavailable'', js ''Unavailable''),
     (''overview.allSensors'', js ''All sensors''),
     (''overview.sensorByType'', js ''Checks by sensor''),
     (''overview.sensorStatusSummary'', js ''{sensor}: {healthy} healthy, {degraded} degraded, {unavailable} unavailable, {total} total''),
     (''overview.endpointOs'', js ''Endpoint operating systems''),
     (''overview.sensorHealth'', js ''Sensor health''),
     (''overview.topRules'', js ''Top rules''),
     (''overview.mitreDistribution'', js ''MITRE detection distribution''),
     (''overview.processNetwork'', js ''Process and network signals''),
     (''overview.fileDnsL7'', js ''File, DNS, and L7 signals''),
     (''overview.failureDistribution'', js ''Failure distribution''),
     (''overview.storageDistribution'', js ''Storage distribution''),
     (''overview.serverDistribution'', js ''Server-provided distribution''),
     (''overview.serverBuckets'', js ''Server-provided time buckets''),
     (''overview.openClosedBuckets'', js ''Open and closed buckets''),
     (''overview.querySnapshot'', js ''Current query-time snapshot''),
     (''overview.endpointSnapshot'', js ''Current Endpoint snapshot'')]"

definition english_3 :: translation_table where
  "english_3 =
    [(''overview.sensorSnapshots'', js ''Current reported sensor snapshots''),
     (''overview.mitreSubtitle'', js ''Tactics and techniques observed in Alert snapshots''),
     (''overview.backendTopValues'', js ''Top values returned by the Backend''),
     (''overview.lifecycleSnapshot'', js ''Current lifecycle snapshot''),
     (''overview.highest'', js ''Highest {value}''),
     (''overview.oldestFailed'', js ''Oldest failed {time}''),
     (''overview.highestRiskEndpoints'', js ''Highest-risk endpoints''),
     (''overview.currentRiskSnapshot'', js ''Based on the latest risk assessment''),
     (''overview.endpointActiveAlerts'', js ''Endpoint {endpointId} '' @ [183] @ js '' {count} active Alert(s)''),
     (''overview.noEndpoints'', js ''No Endpoints''),
     (''overview.noEndpointRiskSnapshot'', js ''No Endpoint risk snapshot is available.''),
     (''overview.incidentQueueWidget'', js ''Incident queue''),
     (''overview.recentOpenIncidents'', js ''Five most recent open Incidents''),
     (''overview.incidentAlertCount'', js ''{time} '' @ [183] @ js '' {count} Alert(s)''),
     (''overview.noOpenIncidents'', js ''No open Incidents''),
     (''overview.noOpenIncidentsDescription'', js ''The selected time range has no open Incident rows.''),
     (''overview.endpoint'', js ''Endpoint''),
     (''overview.incident'', js ''Incident''),
     (''overview.riskScore'', js ''Risk score''),
     (''overview.status'', js ''Status''),
     (''overview.lastDetected'', js ''Last detected''),
     (''overview.partialFailure'', js ''Successful dashboard sections remain available. Retry the failed section or refresh the page.''),
     (''overview.responseGuidanceSummary'', js ''Response guidance summary''),
     (''overview.responseGuidanceCount'', js ''{alerts} active Alerts across {rules} Rule versions''),
     (''overview.manualSteps'', js ''{count} manual steps''),
     (''overview.toolbarAria'', js ''Overview controls''),
     (''overview.endpointScope'', js ''Endpoint scope''),
     (''overview.allEndpoints'', js ''All endpoints''),
     (''overview.endpointScopeDescription'', js ''Dashboard summary APIs currently support the all-endpoints aggregation scope.''),
     (''overview.timeRangeLabel'', js ''Time range: {range}''),
     (''overview.refresh'', js ''Refresh''),
     (''overview.refreshing'', js ''Refreshing''),
     (''overview.autoRefresh'', js ''Auto-refresh every 30 seconds''),
     (''overview.signalRibbon'', js ''Observed signal stream''),
     (''overview.backendSnapshot'', js ''Backend snapshot''),
     (''overview.signalEvents'', js ''Event intake''),
     (''overview.signalDetections'', js ''Alert detections''),
     (''overview.signalEndpointReach'', js ''Online endpoints''),
     (''overview.signalOpenCases'', js ''Open investigations''),
     (''alerts.eyebrow'', js ''DETECTION QUEUE''),
     (''alerts.title'', js ''Alerts''),
     (''alerts.description'', js ''Server-paginated RuleV1 detections and their current workflow state.''),
     (''alerts.ruleCode'', js ''Rule code''),
     (''alerts.queue'', js ''Alert queue''),
     (''alerts.records'', js ''{total} Alert records''),
     (''alerts.rule'', js ''Rule''),
     (''alerts.risk'', js ''Risk''),
     (''alerts.agent'', js ''Agent''),
     (''alerts.detected'', js ''Detected''),
     (''alerts.noResults'', js ''No Alerts found''),
     (''alerts.noFilterMatch'', js ''No Alerts match the current filters.''),
     (''alerts.noneInRange'', js ''No Alerts were detected in this time range.''),
     (''alerts.priorityOrder'', js ''Open status, severity, risk, then newest detection''),
     (''alert.evidence'', js ''Alert evidence''),
     (''alert.detectedAt'', js ''Detected {time}''),
     (''alert.id'', js ''Alert ID''),
     (''alert.riskScore'', js ''Risk score''),
     (''alert.agentId'', js ''Agent ID''),
     (''alert.eventId'', js ''Event ID''),
     (''alert.mitreTactic'', js ''MITRE tactic''),
     (''alert.mitreTechnique'', js ''MITRE technique''),
     (''alert.updated'', js ''Updated''),
     (''alert.workflowState'', js ''Workflow state''),
     (''alert.updateAllowed'', js ''ADMIN and ANALYST may update Alert status''),
     (''alert.viewerReadOnly'', js ''VIEWER access is read-only''),
     (''alert.status'', js ''Alert status''),
     (''alert.viewerControlsHidden'', js ''Status controls are hidden for VIEWER.''),
     (''alert.sourceEvent'', js ''Source event''),
     (''alert.sourceEventSubtitle'', js ''HOT or RESTORED Event reference''),
     (''alert.connectedIncidents'', js ''Connected Incidents''),
     (''alert.evidenceChain'', js ''Evidence chain''),
     (''alert.evidenceChainDescription'', js ''Endpoint to Incident '' @ [183] @ js '' follow observed records''),
     (''alert.notConnected'', js ''Not connected''),
     (''alert.correlationReferences'', js ''Read-only correlation references''),
     (''alert.noConnectedIncidents'', js ''No connected Incidents''),
     (''alert.noConnectedDescription'', js ''This Alert is not linked to an Incident.''),
     (''alert.responseGuidance'', js ''Response guidance''),
     (''alert.guidanceSubtitle'', js ''Read-only steps from the matching RuleV1 version''),
     (''alert.guidanceRuleVersion'', js ''Read-only steps from {ruleCode} v{version}''),
     (''alert.guidanceSteps'', js ''Ordered response guidance steps''),
     (''alert.manualAction'', js ''Manual action''),
     (''alert.activeQueue'', js ''Active alert queue''),
     (''alert.requiresAction'', js ''{total} Alerts require action''),
     (''alert.riskValue'', js ''Risk {score}''),
     (''alert.queueCleared'', js ''Queue cleared''),
     (''alert.queueClearedDescription'', js ''No unresolved Alerts match the current time, severity, endpoint, and rule filters.''),
     (''alert.queueClearedRecoverableDescription'', js ''No unresolved Alerts match this queue. The resolved Alert remains available below for review or reopening.''),
     (''alert.workflowSaved'', js ''Alert workflow state saved.''),
     (''alert.saveOrContinue'', js ''Save this Alert or continue directly to the next unresolved item''),
     (''alert.saveStatus'', js ''Save status''),
     (''alert.submitNext'', js ''Submit & Next''),
     (''alert.nextItem'', js ''Next: {ruleCode} '' @ [183] @ js '' {title}''),
     (''alert.noNextItem'', js ''No other unresolved Alert matches this queue.''),
     (''detection.procPowershellEncoded.title'', js ''Encoded PowerShell command detected''),
     (''detection.procPowershellEncoded.ruleName'', js ''PowerShell Encoded Command''),
     (''detection.procPowershellEncoded.titleOnEndpoint'', js ''PowerShell encoded command on {endpoint}''),
     (''detection.procPowershellEncoded.summary'', js ''PowerShell was executed with an encoded command argument.''),
     (''detection.netSuspiciousEgress.title'', js ''Suspicious encrypted egress detected''),
     (''detection.netSuspiciousEgress.ruleName'', js ''Suspicious Egress Destination''),
     (''detection.netSuspiciousEgress.titleOnEndpoint'', js ''Suspicious Egress Destination on {endpoint}''),
     (''detection.netSuspiciousEgress.summary'', js ''A monitored process connected to a rare external destination.''),
     (''detection.dnsRareDomain.title'', js ''Rare domain query detected''),
     (''detection.dnsRareDomain.ruleName'', js ''Rare Domain Query''),
     (''detection.dnsRareDomain.titleOnEndpoint'', js ''Rare Domain Query on {endpoint}''),
     (''detection.dnsRareDomain.summary'', js ''An endpoint queried a rarely observed domain.''),
     (''detection.fileSuspiciousDrop.title'', js ''Suspicious file drop detected''),
     (''detection.fileSuspiciousDrop.ruleName'', js ''Suspicious File Drop''),
     (''detection.fileSuspiciousDrop.titleOnEndpoint'', js ''Suspicious File Drop on {endpoint}''),
     (''detection.fileSuspiciousDrop.summary'', js ''A process created a suspicious payload or artifact file.''),
     (''detection.l7UploadAnomaly.title'', js ''Unusual HTTPS upload detected''),
     (''detection.l7UploadAnomaly.ruleName'', js ''Unusual HTTPS Upload''),
     (''detection.l7UploadAnomaly.titleOnEndpoint'', js ''Unusual HTTPS Upload on {endpoint}''),
     (''detection.l7UploadAnomaly.summary'', js ''An unusual upload request was observed to an external host.''),
     (''detection.qaLongRange.summary'', js ''Deterministic long-range QA alert for {agentId}.''),
     (''guidance.reviewDomainProcess'', js ''Review domain and query process''),
     (''guidance.blockMaliciousDomain'', js ''Block confirmed malicious domain''),
     (''guidance.validateFileOrigin'', js ''Validate file origin and hash''),
     (''guidance.quarantineMaliciousFile'', js ''Quarantine confirmed malicious file''),
     (''guidance.reviewUploadContext'', js ''Review upload context''),
     (''guidance.restrictUploadPath'', js ''Restrict unauthorized upload path''),
     (''guidance.reviewDestinationProcess'', js ''Review destination and source process''),
     (''guidance.containUnauthorizedEgress'', js ''Contain unauthorized egress''),
     (''guidance.reviewSourceEvent'', js ''Review source event''),
     (''incident.eyebrow'', js ''CORRELATION''),
     (''incident.title'', js ''Incidents''),
     (''incident.description'', js ''Correlated Alert windows generated by Detection Workers with auditable status control.''),
     (''incident.queue'', js ''Incident workbench''),
     (''incident.records'', js ''{total} Incident records''),
     (''incident.singular'', js ''Incident''),
     (''incident.alerts'', js ''Alerts''),
     (''incident.window'', js ''Window''),
     (''incident.lastDetected'', js ''Last detected''),
     (''incident.noResults'', js ''No Incidents found''),
     (''incident.noFilterMatch'', js ''No Incidents match the current filters.''),
     (''incident.noneInRange'', js ''No correlated Incidents exist in this time range.''),
     (''incident.noDescription'', js ''No description was captured for this Incident.''),
     (''incident.context'', js ''Correlation context''),
     (''incident.contextSubtitle'', js ''Detection projection with preserved Event and Alert evidence''),
     (''incident.correlationKey'', js ''Correlation key''),
     (''incident.alertCount'', js ''Alert count''),
     (''incident.windowStart'', js ''Window start''),
     (''incident.windowEnd'', js ''Window end''),
     (''incident.firstDetected'', js ''First detected''),
     (''incident.closed'', js ''Closed''),
     (''incident.lifecycle'', js ''Lifecycle boundary''),
     (''incident.statusControlDescription'', js ''ADMIN and ANALYST may reopen or close this Incident. A manual state remains until changed again.''),
     (''incident.statusSaved'', js ''Incident status saved.''),
     (''incident.saveStatus'', js ''Save Incident status''),
     (''incident.viewerReadOnly'', js ''Incident status is read-only for VIEWER''),
     (''incident.viewerReadOnlyDescription'', js ''VIEWER can inspect the current status but cannot change it.'')]"

definition english_4 :: translation_table where
  "english_4 =
    [(''incident.connectedAlerts'', js ''Connected Alerts''),
     (''incident.connectedSubtitle'', js ''Alert snapshots attached to this Incident''),
     (''incident.noConnectedAlerts'', js ''No connected Alerts''),
     (''incident.noConnectedAlertsDescription'', js ''This Incident currently has no linked Alerts.''),
     (''incident.attackTimeline'', js ''Attack timeline''),
     (''incident.attackTimelineSubtitle'', js ''Event '' @ [8594] @ js '' Alert '' @ [8594] @ js '' Incident evidence assembled by the Backend''),
     (''incident.noTimelineEvidence'', js ''No timeline evidence''),
     (''incident.noTimelineDescription'', js ''No connected Event or Alert snapshots were found.''),
     (''incident.workbench'', js ''Incident investigation workbench''),
     (''incident.activeQueue'', js ''Open Incident queue''),
     (''incident.activeQueueDescription'', js ''Preserves list filters and opens active investigations first''),
     (''incident.queueMeta'', js ''{alerts} Alerts '' @ [183] @ js '' {time}''),
     (''incident.noActiveQueue'', js ''No active Incidents''),
     (''incident.noActiveQueueDescription'', js ''No OPEN Incident matches the current list context.''),
     (''incident.investigation'', js ''Investigation graph''),
     (''incident.investigationSubtitle'', js ''Observed Backend relationships with synchronized context and evidence''),
     (''incident.observedOnly'', js ''OBSERVED ONLY''),
     (''incident.observedRelationDescription'', js ''This relationship is backed by a source record; it does not assert inferred causality.''),
     (''incident.legend'', js ''Legend''),
     (''incident.observedNodes'', js ''Observed nodes''),
     (''incident.expandObservedNodes'', js ''Open Observed nodes in large view''),
     (''incident.expandedInvestigation'', js ''Observed nodes '' @ [183] @ js '' expanded investigation''),
     (''incident.closeExpandedInvestigation'', js ''Close expanded investigation''),
     (''incident.edges'', js ''Observed edges''),
     (''incident.selectedContext'', js ''Selected context''),
     (''incident.selectedPrompt'', js ''Select a graph node, edge, timeline item, or evidence row.''),
     (''incident.nothingSelected'', js ''Nothing selected''),
     (''incident.investigationPartial'', js ''The graph is partial or truncated. Timeline and evidence tables remain the primary fallback.''),
     (''incident.investigationWarnings'', js ''Investigation warnings''),
     (''incident.warningArchiveNotReady'', js ''Event evidence is in an Archive bucket that is not ready.''),
     (''incident.warningEventNotFound'', js ''Event evidence is not present in HOT or RESTORED Storage.''),
     (''incident.graphDisabled'', js ''Graph rendering is disabled by feature flag''),
     (''incident.graphEmpty'', js ''No graph nodes are available''),
     (''incident.graphIncomplete'', js ''The graph is incomplete''),
     (''incident.tableFallback'', js ''TABLE FALLBACK''),
     (''incident.graphFallbackDescription'', js ''Use the observed timeline, connected Alerts, and evidence records below.''),
     (''incident.graphRequestFailed'', js ''The graph request failed. Timeline and connected Alert evidence remain available.''),
     (''incident.evidenceList'', js ''Observed evidence''),
     (''incident.evidenceSubtitle'', js ''Every edge links back to its available Incident, Alert, or Event record''),
     (''incident.noGraphEvidence'', js ''No graph evidence''),
     (''incident.relation'', js ''Relation''),
     (''incident.relation.contains'', js ''Contains''),
     (''incident.relation.triggeredBy'', js ''Triggered by''),
     (''incident.relation.parentOf'', js ''Parent of''),
     (''incident.relation.connectedTo'', js ''Connected to''),
     (''incident.source'', js ''Source''),
     (''incident.target'', js ''Target''),
     (''incident.evidence'', js ''Evidence''),
     (''incident.observedAt'', js ''Observed at''),
     (''incident.sourceRecord'', js ''Source record''),
     (''incident.nodeType'', js ''Node type''),
     (''incident.process'', js ''Process''),
     (''incident.destination'', js ''Destination''),
     (''incident.protocol'', js ''Protocol''),
     (''incident.selectEvidence'', js ''Select evidence''),
     (''incident.processTree'', js ''Process Tree''),
     (''incident.processTreeSubtitle'', js ''Loaded only for a selected Process node within the Incident time range''),
     (''incident.selectProcess'', js ''Select a Process node''),
     (''incident.selectProcessDescription'', js ''Choose an observed Process node or connected edge to load its Endpoint Process Tree.''),
     (''endpoints.eyebrow'', js ''CURRENT SNAPSHOT''),
     (''endpoints.title'', js ''Endpoints''),
     (''endpoints.description'', js ''Endpoint health and Backend-calculated Risk, including retired assets.''),
     (''endpoints.operatingSystem'', js ''Operating system''),
     (''endpoints.search'', js ''Search endpoints''),
     (''endpoints.allSystems'', js ''All systems''),
     (''endpoints.riskLevel'', js ''Risk level''),
     (''endpoints.allLevels'', js ''All levels''),
     (''endpoints.riskScore'', js ''Risk score''),
     (''endpoints.lastSeen'', js ''Last seen''),
     (''endpoints.registered'', js ''Registered''),
     (''endpoints.inventory'', js ''Endpoint inventory''),
     (''endpoints.records'', js ''{total} Endpoint records''),
     (''endpoints.os'', js ''OS''),
     (''endpoints.risk'', js ''Risk''),
     (''endpoints.activeAlerts'', js ''Active Alerts''),
     (''endpoints.openIncidents'', js ''Open Incidents''),
     (''endpoints.versionUnavailable'', js ''Version unavailable''),
     (''endpoints.stale'', js ''Stale''),
     (''endpoints.noResults'', js ''No Endpoints found''),
     (''endpoints.noFilterMatch'', js ''No Endpoints match the current filters.''),
     (''endpoints.noneRegistered'', js ''No Endpoint has registered yet.''),
     (''endpoint.staleWarning'', js ''This Endpoint snapshot is stale. Last seen {time}.''),
     (''endpoint.profile'', js ''Endpoint profile''),
     (''endpoint.profileSubtitle'', js ''Current Agent and platform snapshot''),
     (''endpoint.ipAddress'', js ''IP address''),
     (''endpoint.agentVersion'', js ''Agent version''),
     (''endpoint.buildId'', js ''Build ID''),
     (''endpoint.architecture'', js ''Architecture''),
     (''endpoint.capabilities'', js ''Capabilities''),
     (''endpoint.calculated'', js ''Calculated {time}''),
     (''endpoint.level'', js ''Level''),
     (''endpoint.highestAlertScore'', js ''Highest Alert score''),
     (''endpoint.sensorHealth'', js ''Sensor health''),
     (''endpoint.heartbeatSubtitle'', js ''Latest heartbeat snapshot''),
     (''endpoint.provider'', js ''Provider''),
     (''endpoint.packetDrops'', js ''Packet drops''),
     (''endpoint.parseErrors'', js ''Parse errors''),
     (''endpoint.noSensor'', js ''No sensor health''),
     (''endpoint.noSensorDescription'', js ''The Endpoint has not reported sensor snapshots.''),
     (''endpoint.certificateHistory'', js ''Certificate history''),
     (''endpoint.certificateSubtitle'', js ''Public certificate identity only''),
     (''endpoint.subject'', js ''Subject''),
     (''endpoint.sanAgentId'', js ''SAN agent ID''),
     (''endpoint.issued'', js ''Issued''),
     (''endpoint.expires'', js ''Expires''),
     (''endpoint.revoked'', js ''Revoked''),
     (''endpoint.noCertificates'', js ''No certificate history''),
     (''endpoint.noCertificatesDescription'', js ''No certificate records are available for this Endpoint.''),
     (''endpoint.switcher'', js ''Switch Endpoint''),
     (''endpoint.switcherPlaceholder'', js ''Hostname, agent ID, or exact Endpoint ID''),
     (''endpoint.switcherError'', js ''Endpoint search failed. Try again.''),
     (''endpoint.switcherEmpty'', js ''No Endpoint matches this search.''),
     (''endpoint.current'', js ''Current Endpoint {endpointId}''),
     (''endpoint.relatedEvidence'', js ''Related evidence''),
     (''endpoint.relatedEvidenceSubtitle'', js ''Backend counts with direct links to the owning lists''),
     (''endpoint.recentEvents'', js ''Recent Events''),
     (''endpoint.openRecentEvents'', js ''Open recent events''),
     (''endpoint.processTreeEntry'', js ''Choose an Event to establish the required time range before opening its Process Tree.''),
     (''endpoint.chooseEvent'', js ''Choose an Event''),
     (''endpoint.certificateAnomaly'', js ''Certificate requires review''),
     (''events.eyebrow'', js ''EVENT EVIDENCE''),
     (''events.title'', js ''Events''),
     (''events.description'', js ''HOT ClickHouse and directly read RESTORED Parquet events.''),
     (''events.type'', js ''Event type''),
     (''events.allTypes'', js ''All types''),
     (''events.stream'', js ''Event stream''),
     (''events.records'', js ''{total} Event records''),
     (''events.occurred'', js ''Occurred''),
     (''events.process'', js ''Process''),
     (''events.network'', js ''Network / DNS / L7''),
     (''events.ingested'', js ''Ingested''),
     (''events.noResults'', js ''No Events found''),
     (''events.noFilterMatch'', js ''No Events match the current filters.''),
     (''events.noneInRange'', js ''No Events are available in this time range.''),
     (''event.routingMissing'', js ''Event routing information is missing''),
     (''event.routingDescription'', js ''Open this Event from the Event list so endpointId and occurredAt remain in the URL query.''),
     (''event.return'', js ''Return to Events''),
     (''event.batchId'', js ''Batch ID''),
     (''event.occurred'', js ''Occurred''),
     (''event.ingested'', js ''Ingested''),
     (''event.processName'', js ''Process name''),
     (''event.processPath'', js ''Process path''),
     (''event.commandLine'', js ''Command line''),
     (''event.user'', js ''User''),
     (''event.filePath'', js ''File path''),
     (''event.fileAction'', js ''File action''),
     (''event.dnsAnswers'', js ''DNS answers''),
     (''event.normalized'', js ''Normalized event''),
     (''event.normalizedSubtitle'', js ''Required and nullable Event DTO fields''),
     (''event.payloadIdentity'', js ''Payload identity'')]"

definition english_5 :: translation_table where
  "english_5 =
    [(''event.payloadSubtitle'', js ''No packet or PCAP bytes''),
     (''event.payloadSha'', js ''Payload SHA-256''),
     (''event.schemaVersion'', js ''Schema version''),
     (''event.rawPayload'', js ''Raw payload''),
     (''event.rawPayloadSubtitle'', js ''Normalized metadata event JSON''),
     (''event.processTree'', js ''Process tree''),
     (''event.processTreeSubtitle'', js ''Best-effort PID/PPID lineage from collected events, 30 minutes before through 5 minutes after this event''),
     (''event.rawPayloadCollapsed'', js ''Collapsed by default '' @ [183] @ js '' excluded from print''),
     (''event.searchPayload'', js ''Search Raw Payload''),
     (''event.payloadMatches'', js ''{count} matches''),
     (''event.copyPayload'', js ''Copy JSON''),
     (''event.copied'', js ''Copied''),
     (''event.groupIdentity'', js ''Identity and time''),
     (''event.groupIdentitySubtitle'', js ''Common Event, Endpoint, Agent, and timestamp fields''),
     (''event.groupProcess'', js ''Process and user''),
     (''event.groupProcessSubtitle'', js ''Process lineage and execution context''),
     (''event.groupFile'', js ''File activity''),
     (''event.groupFileSubtitle'', js ''File path, action, and hash evidence''),
     (''event.groupNetwork'', js ''Network destination''),
     (''event.groupNetworkSubtitle'', js ''Observed remote address and protocol fields''),
     (''event.groupDns'', js ''DNS evidence''),
     (''event.groupDnsSubtitle'', js ''Query, response, and collected answers''),
     (''event.groupHttpTls'', js ''HTTP and TLS''),
     (''event.groupHttpTlsSubtitle'', js ''Observed L7 request and certificate metadata''),
     (''event.observedFallback'', js ''{eventType} observed''),
     (''events.typeDetail'', js ''Event detail''),
     (''operations.eyebrow'', js ''COLLECTION HEALTH''),
     (''operations.title'', js ''Operations''),
     (''operations.description'', js ''Live dependency probes, Kafka worker lag, ingest freshness, and storage lifecycle.''),
     (''operations.archiveAction'', js ''Archive operations''),
     (''operations.ingestedEvents'', js ''Ingested events''),
     (''operations.failed'', js ''Failed''),
     (''operations.reprocessed'', js ''Replay published''),
     (''operations.reprocessFailed'', js ''Reprocess failed''),
     (''operations.reprocessedDetail'', js ''Kafka acknowledged the CLI replay request''),
     (''operations.reprocessFailedDetail'', js ''CLI reprocess failures''),
     (''operations.storageLifecycle'', js ''Storage lifecycle''),
     (''operations.storageSubtitle'', js ''Current ingest_metadata counts''),
     (''operations.boundary'', js ''Operational boundary''),
     (''operations.boundarySubtitle'', js ''Failure replay remains CLI-only''),
     (''operations.noWebReplay'', js ''No DLQ Monitor or web replay controls''),
     (''operations.boundaryDescription'', js ''This screen intentionally exposes only contracted summary counts and Archive lifecycle actions.''),
     (''operations.refreshing'', js ''Refreshing''),
     (''operations.refreshLive'', js ''Refresh live state''),
     (''operations.failureStatus'', js ''Failure status''),
     (''operations.stage'', js ''Stage''),
     (''operations.retryable'', js ''Retryable''),
     (''operations.all'', js ''All''),
     (''operations.notRetryable'', js ''Not retryable''),
     (''operations.failureQueue'', js ''Failure queue''),
     (''operations.failureQueueSubtitle'', js ''Read-only Failure Sink; replay remains CLI-only''),
     (''operations.eventFailureQueue'', js ''Event failure queue''),
     (''operations.failure'', js ''Failure''),
     (''operations.retry'', js ''Retry''),
     (''operations.error'', js ''Error''),
     (''operations.failedAt'', js ''Failed at''),
     (''operations.no'', js ''No''),
     (''operations.attempts'', js ''{count} attempt(s)''),
     (''operations.uncoded'', js ''Uncoded''),
     (''operations.noFailureRows'', js ''No failure rows''),
     (''operations.noFailureRowsDescription'', js ''No Event failures match the current filters.''),
     (''operations.liveControlPlane'', js ''Live control plane''),
     (''operations.checked'', js ''Checked {time}''),
     (''operations.serviceHealth'', js ''Service health''),
     (''operations.serviceHealthSubtitle'', js ''On-demand probes; no historical status is stored''),
     (''operations.pipelineWorkers'', js ''Pipeline workers''),
     (''operations.pipelineWorkersSubtitle'', js ''Kafka consumer membership and current committed-offset lag''),
     (''operations.pipelineWorkerHealth'', js ''Pipeline worker health''),
     (''operations.members'', js ''Members''),
     (''operations.brokerState'', js ''Broker state''),
     (''operations.unknown'', js ''Unknown''),
     (''operations.ingestFreshness'', js ''{rate}/min '' @ [183] @ js '' Latest {time} '' @ [183] @ js '' {minutes}m ago''),
     (''operations.noIngestedInRange'', js ''No event has been ingested in this range''),
     (''operations.failureRate'', js ''{rate}/min '' @ [183] @ js '' Oldest {time}''),
     (''operations.ingestPartial'', js ''Ingest and storage summary is unavailable. Live service and worker probes remain visible.''),
     (''operations.healthPartial'', js ''Live service and worker probes are unavailable. Ingest, failure, and storage summaries remain visible.''),
     (''operations.currentPipelineSnapshot'', js ''Current pipeline snapshot''),
     (''operations.currentPipelineSnapshotSubtitle'', js ''Problem areas first; this is a query-time state list, not a historical flow''),
     (''operations.stageCOLLECTION'', js ''Collection''),
     (''operations.stageDETECTION'', js ''Detection''),
     (''operations.stageSTORAGE'', js ''Storage''),
     (''operations.collectionEvents'', js ''{count} Event(s) ingested''),
     (''operations.collectionLatest'', js ''Latest Event {time}''),
     (''operations.detectionWorkers'', js ''{count} Worker(s) '' @ [183] @ js '' total lag {lag}''),
     (''operations.detectionFailures'', js ''{count} current failure(s)''),
     (''operations.storageBuckets'', js ''{count} tracked bucket(s)''),
     (''operations.storageExceptions'', js ''Restoring {restoring} '' @ [183] @ js '' Failed {failed}''),
     (''operations.snapshotCaveat'', js ''Snapshot checked {time}. Stages are not an animated or stored historical flow.''),
     (''operations.collectionPath'', js ''Multi-layer collection path''),
     (''operations.collectionPathSubtitle'', js ''Agent evidence to durable detection storage''),
     (''operations.collectionPathCaveat'', js ''Each status comes from the current operations contract. NO PROBE marks architecture layers without a live health signal.''),
     (''operations.pathAgent'', js ''Windows / macOS Agent''),
     (''operations.pathCollector'', js ''Collector API''),
     (''operations.pathStorageWorker'', js ''Event Storage Worker''),
     (''operations.pathDetectionWorker'', js ''Detection Worker''),
     (''operations.noHealthProbe'', js ''No contracted live health probe''),
     (''operations.backendResponding'', js ''The authenticated operations endpoint is responding.''),
     (''operations.liveProbeSucceeded'', js ''Live dependency probe succeeded.''),
     (''operations.liveProbeFailedPlain'', js ''Live dependency probe failed.''),
     (''operations.liveProbeFailed'', js ''Live dependency probe failed ({error}).''),
     (''operations.workerProbeFailedPlain'', js ''Worker probe failed.''),
     (''operations.workerProbeFailed'', js ''Worker probe failed ({error}).''),
     (''operations.brokerGroupState'', js ''Broker group state {state}.''),
     (''operations.memberLag'', js ''{count} member '' @ [183] @ js '' lag {lag}''),
     (''operations.problemSummary'', js ''Current problem summary''),
     (''operations.problemSummaryDescription'', js ''Problem areas first '' @ [183] @ js '' query-time state''),
     (''processTree.empty'', js ''No process lineage captured''),
     (''processTree.emptyDescription'', js ''No PROCESS_EXECUTION events were collected in the surrounding 35-minute window.''),
     (''processTree.aria'', js ''Collected process lineage''),
     (''processTree.commandUnavailable'', js ''Command line unavailable''),
     (''processTree.metadata'', js ''{time} '' @ [183] @ js '' PID {pid} '' @ [183] @ js '' PPID {ppid} '' @ [183] @ js '' {count} event(s)''),
     (''processTree.selectedPid'', js ''Selected PID''),
     (''processTree.parentNotCaptured'', js ''Parent not captured''),
     (''intelligence.title'', js ''Intelligence''),
     (''intelligence.description'', js ''MITRE mappings and Endpoint egress relationships calculated from existing Event and Alert evidence.''),
     (''intelligence.mappedTactics'', js ''Mapped tactics''),
     (''intelligence.mitreTactics'', js ''MITRE tactics''),
     (''intelligence.mappedTechniques'', js ''Mapped techniques''),
     (''intelligence.mitreTechniques'', js ''MITRE techniques''),
     (''intelligence.observedEgress'', js ''Endpoints with observed egress''),
     (''intelligence.topologyNodes'', js ''Topology nodes''),
     (''intelligence.uniqueRelationships'', js ''Unique Endpoint-to-destination relationships''),
     (''intelligence.egressEdges'', js ''Egress edges''),
     (''intelligence.alertDistribution'', js ''Alert snapshot distribution''),
     (''intelligence.topDomains'', js ''Top domains''),
     (''intelligence.topRemoteIps'', js ''Top remote IPs''),
     (''intelligence.topProcesses'', js ''Top processes''),
     (''intelligence.normalizedValues'', js ''Normalized Event values''),
     (''intelligence.egressTopology'', js ''Endpoint egress topology''),
     (''intelligence.egressSubtitle'', js ''Event and Alert counts only; traffic-byte volume is not inferred''),
     (''intelligence.noRelationships'', js ''No egress relationships''),
     (''intelligence.noRelationshipsDescription'', js ''No matching network, DNS, or L7 Event targets were found.''),
     (''intelligence.relationships'', js ''Endpoint egress relationships''),
     (''intelligence.source'', js ''Source''),
     (''intelligence.target'', js ''Target''),
     (''intelligence.destination'', js ''Destination''),
     (''intelligence.summaryUnavailable'', js ''MITRE and Top-N summary is unavailable. Egress evidence remains available.''),
     (''intelligence.topologyUnavailable'', js ''Egress topology is unavailable. MITRE and Top-N evidence remains available.''),
     (''intelligence.mitreMatrix'', js ''MITRE matrix''),
     (''intelligence.mitreMatrixSubtitle'', js ''Tactic and technique counts from the current Alert snapshot; no causal path is inferred''),
     (''intelligence.currentAlertSnapshot'', js ''CURRENT ALERT SNAPSHOT''),
     (''intelligence.observedTactics'', js ''Observed tactics''),
     (''intelligence.observedTechniques'', js ''Observed techniques''),
     (''intelligence.coverageUnavailable'', js ''Coverage unavailable''),
     (''intelligence.coverageUnavailableDescription'', js ''Active RuleV1 technique catalog required''),
     (''intelligence.mitreSelectPrompt'', js ''Select a tactic or technique to inspect its current Alert count.''),
     (''intelligence.selectedContext'', js ''Selected context''),
     (''intelligence.mappingType'', js ''Mapping type''),
     (''intelligence.mappingCode'', js ''Mapping code''),
     (''intelligence.alertCount'', js ''Alert count'')]"

definition english_6 :: translation_table where
  "english_6 =
    [(''intelligence.eventCount'', js ''Event count''),
     (''intelligence.timeRange'', js ''Time range''),
     (''intelligence.nothingSelected'', js ''Nothing selected''),
     (''intelligence.openTableFallback'', js ''Open semantic table fallback''),
     (''intelligence.mitreTableFallback'', js ''MITRE mapping table fallback''),
     (''intelligence.rulesSignals'', js ''Rules and signal Top-N''),
     (''intelligence.topNSubtitle'', js ''Ranked counts from the same query-time snapshot''),
     (''intelligence.rules'', js ''Rules''),
     (''intelligence.signals'', js ''Signals''),
     (''intelligence.alertsCount'', js ''{count} Alert(s)''),
     (''intelligence.noMappings'', js ''No MITRE mappings''),
     (''intelligence.noMappingsDescription'', js ''No tactic or technique mapping was observed in this range.''),
     (''intelligence.searchTopology'', js ''Search topology''),
     (''intelligence.topN'', js ''Top-N relationships''),
     (''intelligence.expandTopology'', js ''Open Endpoint egress topology in large view''),
     (''intelligence.expandedTopology'', js ''Endpoint egress topology '' @ [8212] @ js '' Large view''),
     (''intelligence.closeExpandedTopology'', js ''Close large Endpoint egress topology''),
     (''intelligence.noFilteredRelationships'', js ''No matching relationships''),
     (''intelligence.noFilteredRelationshipsDescription'', js ''Change the topology search or Top-N limit.''),
     (''intelligence.legend'', js ''Legend''),
     (''intelligence.observedEdge'', js ''Observed relationship''),
     (''intelligence.alertBearingEdge'', js ''Relationship with Alerts''),
     (''intelligence.countsNotTraffic'', js ''Labels are Event and Alert counts, not traffic volume.''),
     (''intelligence.graphAria'', js ''Endpoint egress topology graph''),
     (''intelligence.domainGroup'', js ''Domain group''),
     (''intelligence.hosts'', js ''hosts''),
     (''intelligence.hostCount'', js ''Host count''),
     (''intelligence.groupedDomainCaveat'', js ''Sibling subdomains are grouped by registrable domain. The evidence table keeps exact targets.''),
     (''intelligence.groupedDomainDescription'', js ''Sibling subdomains grouped for graph readability. Expand the group to inspect exact hosts.''),
     (''intelligence.showSubdomains'', js ''Show {count} subdomains''),
     (''intelligence.collapseSubdomains'', js ''Collapse to {domain}''),
     (''intelligence.tableFallback'', js ''TABLE FALLBACK''),
     (''intelligence.graphDisabled'', js ''Topology graph is disabled''),
     (''intelligence.graphDisabledDescription'', js ''The Inspector and evidence table preserve the same contracted information.''),
     (''intelligence.observedOnly'', js ''OBSERVED COUNTS''),
     (''intelligence.relationship'', js ''relationship''),
     (''intelligence.lastObserved'', js ''Last observed''),
     (''intelligence.openEndpoint'', js ''Open Endpoint''),
     (''intelligence.observedTargetDescription'', js ''Destination observed in Event evidence. This may be a Domain, HTTP Host, TLS SNI, IP, or DNS query.''),
     (''intelligence.nodeType'', js ''Node type''),
     (''intelligence.topologySelectPrompt'', js ''Select a node, edge, or evidence row to inspect its contracted fields.''),
     (''intelligence.correlationTitle'', js ''IP and Domain correlation''),
     (''intelligence.correlationSubtitle'', js ''Combine live DNS candidates with IP and Domain relationships already observed in Event evidence''),
     (''intelligence.correlationValue'', js ''IP or Domain''),
     (''intelligence.correlationPlaceholder'', js ''8.8.8.8 or yahoo.com''),
     (''intelligence.lookup'', js ''Look up relationships''),
     (''intelligence.tryObservedSignal'', js ''Try an observed signal''),
     (''intelligence.correlationReady'', js ''Choose an IP or Domain''),
     (''intelligence.correlationReadyDescription'', js ''Search directly or select a Top Domain or Remote IP from the current time range.''),
     (''intelligence.noCorrelation'', js ''No related values found''),
     (''intelligence.noCorrelationDescription'', js ''Live DNS and the selected Event evidence contain no matching IP or Domain relationship.''),
     (''intelligence.relatedCount'', js ''{count} related value(s)''),
     (''intelligence.correlationLegend'', js ''DNS relationship legend''),
     (''intelligence.inputNode'', js ''Search input''),
     (''intelligence.ptrCaveat'', js ''PTR names are candidates and never replace the original IP.''),
     (''intelligence.correlationGraphAria'', js ''IP and Domain correlation graph''),
     (''intelligence.expandCorrelation'', js ''Open IP and Domain correlation graph in large view''),
     (''intelligence.expandedCorrelation'', js ''IP and Domain correlation '' @ [8212] @ js '' Large view''),
     (''intelligence.closeExpandedCorrelation'', js ''Close large IP and Domain correlation graph''),
     (''intelligence.correlationGraphScope'', js ''Graph shows {visible} of {total} relationships. The table retains all relationships.''),
     (''intelligence.correlationGraphDisabled'', js ''Correlation graph is disabled''),
     (''intelligence.correlationGraphDisabledDescription'', js ''The Inspector and relationship table preserve the same evidence.''),
     (''intelligence.evidenceSource'', js ''Evidence source''),
     (''intelligence.ipNodeDescription'', js ''The IP remains visible alongside its candidate Domains.''),
     (''intelligence.domainNodeDescription'', js ''Domain value returned by live DNS or observed Event evidence.''),
     (''intelligence.correlationSelectPrompt'', js ''Select a Domain, IP, or relationship to inspect its evidence source.''),
     (''intelligence.correlationTable'', js ''IP and Domain relationship evidence''),
     (''archive.eyebrow'', js ''STORAGE LIFECYCLE''),
     (''archive.title'', js ''Archive operations''),
     (''archive.description'', js ''Query Glacier Flexible Retrieval buckets and start temporary 7-day Standard retrieval.''),
     (''archive.endpointHelp'', js ''Comma-separated positive IDs''),
     (''archive.invalidDateTime'', js ''Use YYYY-MM-DD HH:mm in your local time.''),
     (''archive.chooseRange'', js ''Choose an Archive range''),
     (''archive.chooseRangeDescription'', js ''Enter one or more Endpoint IDs and a valid UTC range of at most 31 days. Archive data is not queried until these fields are valid.''),
     (''archive.readiness'', js ''Archive query readiness''),
     (''archive.scopeReady'', js ''Scope is valid''),
     (''archive.valid'', js ''READY''),
     (''archive.incomplete'', js ''INPUT REQUIRED''),
     (''archive.queryScope'', js ''Query scope''),
     (''archive.requiredInput'', js ''Required input''),
     (''archive.endpointCount'', js ''{count} Endpoint(s)''),
     (''archive.endpointRequirement'', js ''One or more comma-separated IDs''),
     (''archive.utcRange'', js ''UTC range''),
     (''archive.rangeRequirement'', js ''Maximum 31 days''),
     (''archive.restorePolicy'', js ''Restore policy''),
     (''archive.actionBoundary'', js ''Action boundary''),
     (''archive.retrieval'', js ''Retrieval''),
     (''archive.temporaryCopy'', js ''Temporary copy''),
     (''archive.standardSevenDays'', js ''Standard tier '' @ [183] @ js '' 7 days''),
     (''archive.nextStep'', js ''Next step''),
     (''archive.validationGated'', js ''Validation gated''),
     (''archive.readyDescription'', js ''The scope is valid. The Archive query starts automatically and restore actions remain permission-gated.''),
     (''archive.invalidScopeDescription'', js ''Complete or correct the scope. No Archive API request is sent while validation fails.''),
     (''archive.temporaryRestore'', js ''Temporary restore''),
     (''archive.policy'', js ''Fixed policy: Days 7 '' @ [183] @ js '' Standard tier''),
     (''archive.starting'', js ''Starting restore'' @ [8230]),
     (''archive.start'', js ''Start archive restore''),
     (''archive.success'', js ''Restore request processed. Archive status is refreshing.''),
     (''archive.access'', js ''Archive access''),
     (''archive.viewerSubtitle'', js ''VIEWER access is read-only''),
     (''archive.viewerDescription'', js ''Restore controls are hidden for VIEWER. Current bucket status remains available below.''),
     (''archive.buckets'', js ''Archive buckets''),
     (''archive.records'', js ''{total} S3 Glacier bucket records''),
     (''archive.bucket'', js ''Bucket''),
     (''archive.objectPath'', js ''Object path''),
     (''archive.eventCount'', js ''Events''),
     (''archive.restoreWindow'', js ''Restore window''),
     (''archive.lastError'', js ''Last error''),
     (''archive.requested'', js ''Requested {time}''),
     (''archive.notRequested'', js ''Not requested''),
     (''archive.expires'', js ''Expires {time}''),
     (''archive.noExpiry'', js ''No active expiry''),
     (''archive.noBuckets'', js ''No Archive buckets''),
     (''archive.noBucketsDescription'', js ''No S3 Glacier buckets overlap this Endpoint and time range.''),
     (''archive.lifecycle'', js ''Archive lifecycle''),
     (''archive.lifecycleSubtitle'', js ''Current bucket states in lifecycle order; zero and empty are shown explicitly''),
     (''archive.lifecycleHot'', js ''Queryable in the hot store''),
     (''archive.lifecycleArchived'', js ''Stored in Glacier and not restored''),
     (''archive.lifecycleRequested'', js ''Restore accepted and still in progress''),
     (''archive.lifecycleRestored'', js ''Temporarily available until expiry''),
     (''archive.lifecycleFailed'', js ''Restore failed; review the row error''),
     (''archive.lifecycleExpired'', js ''Temporary restore window expired''),
     (''archive.successRequested'', js ''Restore request accepted. Buckets remain RESTORE_REQUESTED until the Backend completes retrieval.'')]"

definition english :: translation_table where
  "english = english_1 @ english_2 @ english_3 @ english_4 @ english_5 @ english_6"

section \<open>Korean\<close>

definition korean_1 :: translation_table where
  "korean_1 =
    [(''common.retry'', [51116, 49884, 46020]),
     (''common.notAvailable'', [51221, 48372, 32, 50630, 51020]),
     (''common.none'', [50630, 51020]),
     (''common.noneReported'', [48372, 44256, 46108, 32, 51221, 48372, 32, 50630, 51020]),
     (''common.requestIdUnavailable'', [50836, 52397] @ js '' ID '' @ [50630, 51020]),
     (''common.requestId'', [50836, 52397] @ js '' {requestId}''),
     (''common.to'', [126]),
     (''common.latest'', [52572, 44540] @ js '' {time}''),
     (''common.oldest'', [44032, 51109, 32, 50724, 47000, 46108, 32, 49884, 44033] @ js '' {time}''),
     (''common.loading'', [48520, 47084, 50724, 45716, 32, 51473]),
     (''common.refreshing'', [45936, 51060, 53552, 32, 49352, 47196, 44256, 52840, 32, 51473]),
     (''common.largeView'', [53360, 32, 54868, 47732]),
     (''navigation.primary'', [51452, 50836, 32, 53456, 49353, 32, 47700, 45684]),
     (''navigation.skipToContent'', [48376, 47928, 32, 48148, 47196, 44032, 44592]),
     (''navigation.expand'', [53456, 49353, 32, 47700, 45684, 32, 54204, 52824, 44592]),
     (''navigation.compact'', [53456, 49353, 32, 47700, 45684, 32, 51217, 44592]),
     (''navigation.toggle'', [53456, 49353, 32, 47700, 45684, 32, 50676, 44592] @ js ''/'' @ [45803, 44592]),
     (''navigation.close'', [53456, 49353, 32, 47700, 45684, 32, 45803, 44592]),
     (''navigation.logout'', [47196, 44536, 50500, 50883]),
     (''navigation.breadcrumb'', [44221, 47196, 32, 53456, 49353]),
     (''navigation.accountMenu'', [44228, 51221, 32, 47700, 45684, 32, 50676, 44592]),
     (''navigation.groupOverview'', js ''Overview''),
     (''navigation.groupTriage'', js ''Triage''),
     (''navigation.groupEvidence'', js ''Evidence''),
     (''navigation.groupAnalysis'', js ''Analysis''),
     (''navigation.groupPlatform'', js ''Platform''),
     (''navigation.dashboards'', js ''Dashboards''),
     (''navigation.archives'', js ''Archives''),
     (''navigation.investigationPath'', [51312, 49324, 32, 55120, 47492]),
     (''navigation.pathSignal'', js ''Signal''),
     (''navigation.pathEvidence'', js ''Evidence''),
     (''navigation.pathDecision'', js ''Decision''),
     (''navigation.endpointDefense'', js ''Endpoint Defense''),
     (''navigation.evidenceFirst'', [44540, 44144, 32, 51473, 49900, 32, 50868, 50689]),
     (''search.aria'', js ''Event '' @ [44540, 44144, 32, 44160, 49353]),
     (''search.placeholder'', js ''Endpoint ID '' @ [46608, 45716] @ js '' Process''),
     (''report.openAria'', [51064, 49604, 50857] @ js '' Report '' @ [50676, 44592]),
     (''report.close'', js ''Report '' @ [45803, 44592]),
     (''report.printTitle'', js ''Report '' @ [51064, 49604]),
     (''report.snapshot'', js ''{page} '' @ [49828, 45253, 49399]),
     (''report.page'', [54168, 51060, 51648]),
     (''report.generated'', [49373, 49457, 32, 49884, 44033]),
     (''report.userRole'', [49324, 50857, 51088, 32, 50669, 54624]),
     (''report.cancel'', [52712, 49548]),
     (''report.printSave'', [51064, 49604] @ js '' / PDF '' @ [51200, 51109]),
     (''language.label'', [50616, 50612]),
     (''language.saveError'', [50616, 50612, 32, 49444, 51221, 51012, 32, 51200, 51109, 54616, 51648, 32, 47803, 54664, 49845, 45768, 45796] @ js ''. '' @ [44592, 51316, 32, 50616, 50612, 47484, 32, 44228, 49549, 32, 49324, 50857, 54633, 45768, 45796] @ js ''.''),
     (''theme.switchToLight'', [46972, 51060, 53944, 32, 53580, 47560, 47196, 32, 51204, 54872]),
     (''theme.switchToDark'', [45796, 53356, 32, 53580, 47560, 47196, 32, 51204, 54872]),
     (''dashboard.managerAria'', js ''Dashboard '' @ [44288, 47532]),
     (''dashboard.settings'', js ''Dashboard '' @ [49444, 51221]),
     (''dashboard.settingsTitle'', js ''Dashboard '' @ [49444, 51221]),
     (''dashboard.closeSettings'', [49444, 51221, 32, 45803, 44592]),
     (''dashboard.settingsDescription'', [51200, 51109, 46108] @ js '' Layout'' @ [51012, 32, 49440, 53469, 54616, 44144, 45208, 32, 47749, 49884, 51201, 51064] @ js '' Draft'' @ [47484, 32, 50676, 50612, 32, 49373, 49457, 183, 54200, 51665, 183, 49325, 51228, 54616, 49464, 50836] @ js ''.''),
     (''dashboard.overviewSettingsDescription'', [51069, 44592, 32, 51204, 50857] @ js '' Overview Layout'' @ [51012, 32, 50668, 44592, 49436, 32, 51204, 54872, 54633, 45768, 45796] @ js ''. Widget '' @ [48320, 44221, 51008] @ js '' Workbench'' @ [50640, 49436, 32, 51652, 54665, 54616, 49464, 50836] @ js ''.''),
     (''dashboard.activeLayout'', js ''ACTIVE LAYOUT''),
     (''dashboard.manage'', js ''Dashboard '' @ [44288, 47532]),
     (''dashboard.openOverview'', js ''Overview '' @ [50676, 44592]),
     (''dashboard.workbenchEyebrow'', js ''LAYOUT WORKBENCH''),
     (''dashboard.workbenchTitle'', js ''Dashboard Layout''),
     (''dashboard.workbenchDescription'', [51312, 49324, 32, 47785, 51201, 50640, 32, 47582, 45716, 32, 54868, 47732, 51012, 32, 44396, 49457, 54616, 44256, 32, 49440, 53469, 54620] @ js '' Layout'' @ [51012] @ js '' Overview'' @ [50640, 32, 51201, 50857, 54633, 45768, 45796] @ js ''. Layout'' @ [51008, 32, 47196, 44536, 51064, 54620, 32, 49324, 50857, 51088, 32, 44592, 51456, 51004, 47196, 32, 51060] @ js '' Browser'' @ [50640, 32, 51200, 51109, 46121, 45768, 45796] @ js ''.''),
     (''dashboard.workbenchContext'', js ''BROWSER-LOCAL LAYOUT''),
     (''dashboard.overviewContext'', js ''ACTIVE DASHBOARD''),
     (''dashboard.managementHint'', js ''Overview'' @ [50640, 32, 51201, 50857, 54624] @ js '' Layout'' @ [51012, 32, 49440, 53469, 54616, 44144, 45208] @ js '' Draft '' @ [54200, 51665, 44592, 47484, 32, 50668, 49464, 50836] @ js ''.''),
     (''dashboard.readOnlyHint'', js ''Overview'' @ [45716, 32, 49440, 53469, 54620] @ js '' Layout'' @ [51012, 32, 51069, 44592, 32, 51204, 50857, 51004, 47196, 32, 54364, 49884, 54633, 45768, 45796] @ js ''. Layout '' @ [48320, 44221, 51008] @ js '' Workbench'' @ [50640, 49436, 32, 51652, 54665, 54616, 49464, 50836] @ js ''.''),
     (''dashboard.activeCustomDescription'', [51060] @ js '' Browser-local Layout'' @ [51060, 32, 51069, 44592, 32, 51204, 50857] @ js '' Overview'' @ [50640, 32, 51201, 50857, 46104, 50612, 32, 51080, 49845, 45768, 45796] @ js ''.''),
     (''dashboard.restoreDefault'', js ''Default '' @ [51201, 50857]),
     (''dashboard.layoutCatalog'', js ''Layout '' @ [47785, 47197]),
     (''dashboard.defaultFixed'', [48320, 44221, 54624, 32, 49688, 32, 50630, 45716, 32, 51228, 54408, 32, 44592, 48376] @ js '' Layout''),
     (''dashboard.browserLocal'', js ''Browser'' @ [50640, 32, 51200, 51109, 46108] @ js '' Custom Layout''),
     (''dashboard.layoutState'', js ''Layout '' @ [49345, 53468]),
     (''dashboard.savedLayout'', [51200, 51109, 46108] @ js '' Custom Layout''),
     (''dashboard.widgetCount'', js ''Widget '' @ [49688]),
     (''dashboard.storage'', [51200, 51109, 32, 50948, 52824]),
     (''dashboard.productDefault'', [51228, 54408, 32, 44592, 48376, 44050]),
     (''dashboard.defaultRouteHint'', [44256, 51221] @ js '' Overview'' @ [50640, 49436, 32, 54788, 51116, 32, 48372, 50504, 32, 49345, 53468, 47484, 32, 54869, 51064, 54616, 49464, 50836] @ js ''.''),
     (''dashboard.openDraft'', js ''Draft '' @ [54200, 51665, 44592, 32, 50676, 44592]),
     (''dashboard.savedCount'', [51060, 32, 49324, 50857, 51088, 50640, 44172, 32, 51200, 51109, 46108] @ js '' Custom Dashboard {count}'' @ [44060]),
     (''dashboard.selectorLabel'', js ''Dashboard''),
     (''dashboard.defaultName'', js ''Default''),
     (''dashboard.new'', [49352] @ js '' Dashboard''),
     (''dashboard.edit'', js ''Dashboard '' @ [54200, 51665]),
     (''dashboard.delete'', js ''Dashboard '' @ [49325, 51228]),
     (''dashboard.newTitle'', [49352] @ js '' Dashboard '' @ [47564, 46308, 44592]),
     (''dashboard.editTitle'', js ''Custom Dashboard '' @ [54200, 51665]),
     (''dashboard.builderDescription'', [51312, 49324, 50640, 32, 54596, 50836, 54620] @ js '' Widget'' @ [47564, 32, 49440, 53469, 54633, 45768, 45796] @ js ''. '' @ [51200, 51109, 51012, 32, 49440, 53469, 54624, 32, 46412, 32, 48320, 44221, 49324, 54637, 51060, 32, 48152, 50689, 46121, 45768, 45796] @ js ''.''),
     (''dashboard.nameLabel'', js ''Dashboard '' @ [51060, 47492]),
     (''dashboard.namePlaceholder'', [50696] @ js '': '' @ [50864, 49440, 32, 51312, 49324]),
     (''dashboard.saveRequirements'', [54596, 49688] @ js '': '' @ [51060, 47492, 51012, 32, 51077, 47141, 54616, 44256] @ js '' Widget'' @ [51012, 32, 54616, 45208, 32, 51060, 49345, 32, 52628, 44032, 54616, 49464, 50836] @ js ''.''),
     (''dashboard.palette'', js ''Widget '' @ [47785, 47197]),
     (''dashboard.paletteDescription'', js ''Widget'' @ [51012] @ js '' Canvas'' @ [47196, 32, 45132, 44144, 45208, 32, 48260, 53948, 51012, 32, 45580, 47084] @ js '' Keyboard'' @ [47196, 32, 52628, 44032, 54633, 45768, 45796] @ js ''.''),
     (''dashboard.addWidget'', js ''{widget} '' @ [52628, 44032]),
     (''dashboard.removeWidget'', js ''{widget} '' @ [51228, 44144]),
     (''dashboard.dragHandle'', js ''{widget} '' @ [51060, 46041]),
     (''dashboard.widgetGeometry'', js ''{widget}: {column}'' @ [50676] @ js '', {row}'' @ [54665] @ js '', '' @ [45320, 48708] @ js '' {width}, '' @ [45458, 51060] @ js '' {height}''),
     (''dashboard.keyboardInstructions'', [54252, 52964, 49828, 54620] @ js '' Widget'' @ [51008, 32, 48169, 54693, 53412, 47196, 32, 51060, 46041, 54616, 44256] @ js '' Shift'' @ [50752, 32, 48169, 54693, 53412, 47484, 32, 54632, 44760, 32, 45580, 47084, 32, 53356, 44592, 47484, 32, 51312, 51208, 54633, 45768, 45796] @ js ''.''),
     (''dashboard.paletteComplete'', [47784, 46304] @ js '' Widget'' @ [51012] @ js '' Canvas'' @ [50640, 32, 52628, 44032, 54664, 49845, 45768, 45796] @ js ''. '' @ [45796, 49884, 32, 49324, 50857, 54616, 47140, 47732] @ js '' Canvas'' @ [50640, 49436] @ js '' Widget'' @ [51012, 32, 51228, 44144, 54616, 49464, 50836] @ js ''.''),
     (''dashboard.widgetAlreadyAdded'', [51060] @ js '' Widget'' @ [51008, 32, 51060, 48120] @ js '' Canvas'' @ [50640, 32, 51080, 49845, 45768, 45796] @ js ''.''),
     (''dashboard.widgetPlacementUnavailable'', [51060] @ js '' Widget'' @ [51012, 32, 48176, 52824, 54624, 32, 44277, 44036, 51060, 32, 50630, 49845, 45768, 45796] @ js ''. '' @ [44592, 51316] @ js '' Widget'' @ [51012, 32, 51060, 46041, 54616, 44144, 45208, 32, 53356, 44592, 47484, 32, 51460, 51060, 44144, 45208, 32, 51228, 44144, 54616, 44144, 45208, 32, 45908, 32, 51089, 51008] @ js '' Widget'' @ [51012, 32, 49440, 53469, 54616, 49464, 50836] @ js ''.''),
     (''dashboard.emptyTitle'', [51312, 49324] @ js '' Widget '' @ [54616, 45208, 48512, 53552, 32, 49884, 51089, 54616, 49464, 50836]),
     (''dashboard.emptyDescription'', [47785, 47197, 50640, 49436] @ js '' Widget'' @ [51012, 32, 52628, 44032, 54616, 49464, 50836] @ js ''. '' @ [51200, 51109, 54616, 44592, 32, 51204, 50640, 45716] @ js '' Dashboard'' @ [44032, 32, 49373, 49457, 46104, 51648, 32, 50506, 49845, 45768, 45796] @ js ''.''),
     (''dashboard.save'', [51200, 51109]),
     (''dashboard.cancel'', [52712, 49548]),
     (''dashboard.editUnavailable'', js ''Custom Dashboard '' @ [54200, 51665, 51008] @ js '' 1280px '' @ [51060, 49345, 50640, 49436, 32, 49324, 50857, 54624, 32, 49688, 32, 51080, 49845, 45768, 45796] @ js ''.''),
     (''dashboard.customAria'', js ''Custom Dashboard: {name}''),
     (''dashboard.deleteTitle'', js ''Custom Dashboard '' @ [49325, 51228]),
     (''dashboard.deleteDescription'', js ''{name}'' @ [51012, 32, 49325, 51228, 54624, 44620, 50836] @ js ''? '' @ [54788, 51116, 32, 49324, 50857, 51088, 51032] @ js '' Browser-local layout'' @ [51060, 32, 51228, 44144, 46121, 45768, 45796] @ js ''.''),
     (''dashboard.confirmDelete'', js ''Dashboard '' @ [49325, 51228]),
     (''dashboard.closeDelete'', [49325, 51228, 32, 54869, 51064, 32, 45803, 44592]),
     (''filter.filters'', [54596, 53552]),
     (''filter.clear'', [54596, 53552, 32, 52488, 44592, 54868]),
     (''filter.timeRange'', [51312, 54924, 32, 44592, 44036]),
     (''filter.latest15Minutes'', [52572, 44540] @ js '' 15'' @ [48516]),
     (''filter.latestHour'', [52572, 44540] @ js '' 1'' @ [49884, 44036]),
     (''filter.latest24Hours'', [52572, 44540] @ js '' 24'' @ [49884, 44036]),
     (''filter.latest7Days'', [52572, 44540] @ js '' 7'' @ [51068]),
     (''filter.customUtcRange'', js ''UTC '' @ [44592, 44036, 32, 51649, 51217, 32, 49444, 51221]),
     (''filter.from'', [49884, 51089]),
     (''filter.to'', [51333, 47308]),
     (''filter.availableRanges'', [51312, 54924, 32, 44032, 45733, 54620, 32, 45936, 51060, 53552, 32, 44592, 44036]),
     (''filter.availabilityLoading'', [51312, 54924, 32, 44032, 45733, 54620, 32, 44592, 44036, 51012, 32, 54869, 51064, 54616, 45716, 32, 51473, 51077, 45768, 45796] @ js ''.''),
     (''filter.availabilityUnavailable'', [51312, 54924, 32, 44032, 45733, 54620, 32, 44592, 44036, 51012, 32, 54869, 51064, 54616, 51648, 32, 47803, 54664, 49845, 45768, 45796] @ js ''.''),
     (''filter.noAvailableRanges'', [54788, 51116, 32, 51312, 54924, 32, 44032, 45733, 54620, 32, 45936, 51060, 53552, 32, 44592, 44036, 51060, 32, 50630, 49845, 45768, 45796] @ js ''.''),
     (''filter.unavailableRangeTitle'', [49440, 53469, 54620, 32, 44592, 44036, 50640, 32, 51312, 54924, 32, 44032, 45733, 54620, 32, 45936, 51060, 53552, 44032, 32, 50630, 49845, 45768, 45796]),
     (''filter.unavailableRangeDescription'', [50500, 47000, 32, 51312, 54924, 32, 44032, 45733, 54620, 32, 45936, 51060, 53552, 32, 44592, 44036, 50640, 49436, 32, 45796, 49884, 32, 49440, 53469, 54616, 49464, 50836] @ js ''.''),
     (''filter.status'', [49345, 53468]),
     (''filter.order'', [51221, 47148]),
     (''filter.sort'', [51221, 47148]),
     (''filter.priority'', [50864, 49440, 49692, 50948]),
     (''filter.allStatuses'', [51204, 52404, 32, 49345, 53468]),
     (''filter.allSeverities'', [51204, 52404, 32, 49900, 44033, 46020]),
     (''filter.newestFirst'', [52572, 49888, 49692]),
     (''filter.oldestFirst'', [50724, 47000, 46108, 49692]),
     (''filter.descending'', [45236, 47548, 52264, 49692]),
     (''filter.ascending'', [50724, 47492, 52264, 49692]),
     (''filter.more'', [52628, 44032, 32, 54596, 53552]),
     (''filter.moreTitle'', [52628, 44032, 32, 54596, 53552]),
     (''filter.closeMore'', [52628, 44032, 32, 54596, 53552, 32, 45803, 44592]),
     (''filter.done'', [50756, 47308]),
     (''filter.active'', [51201, 50857, 46108, 32, 54596, 53552]),
     (''filter.remove'', js ''{label} '' @ [54596, 53552, 32, 51228, 44144]),
     (''filter.sortColumn'', js ''{label} '' @ [51221, 47148] @ js '', {direction}''),
     (''filter.invalidTitle'', [51096, 47803, 46108, 32, 54596, 53552]),
     (''filter.invalidDescription'', [45936, 51060, 53552, 47484, 32, 48520, 47084, 50724, 44592, 32, 51204, 50640] @ js '' URL '' @ [54596, 53552, 50752, 32, 51077, 47141, 44050, 51060, 32, 51648, 50896, 46104, 45716, 32, 54805, 49885, 51064, 51648, 32, 54869, 51064, 54616, 49464, 50836] @ js ''.''),
     (''pagination.label'', [54168, 51060, 51648, 32, 53456, 49353]),
     (''pagination.previous'', [51060, 51204]),
     (''pagination.next'', [45796, 51020]),
     (''pagination.summary'', js ''{page} / {totalPages}'' @ [54168, 51060, 51648, 32, 183, 32, 52509] @ js '' {total}'' @ [44148]),
     (''pagination.pageSize'', [54168, 51060, 51648, 45817, 32, 54665, 32, 49688]),
     (''table.aria'', js ''{label} '' @ [54364])]"

definition korean_2 :: translation_table where
  "korean_2 =
    [(''error.dataLoad'', [50836, 52397, 54620, 32, 45936, 51060, 53552, 47484, 32, 48520, 47084, 50724, 51648, 32, 47803, 54664, 49845, 45768, 45796] @ js ''.''),
     (''error.retryableHelp'', [47560, 51648, 47561, 32, 51221, 49345, 32, 45936, 51060, 53552, 44032, 32, 50724, 47000, 46104, 50632, 51012, 32, 49688, 32, 51080, 49845, 45768, 45796] @ js ''. '' @ [49436, 48708, 49828, 44032, 32, 48373, 44396, 46104, 47732, 32, 45796, 49884, 32, 49884, 46020, 54616, 49464, 50836] @ js ''.''),
     (''error.actionHelp'', [50836, 52397, 32, 45236, 50857, 51012, 32, 54869, 51064, 54620, 32, 46244, 32, 50500, 47000, 32, 51089, 50629, 51012, 32, 45796, 49884, 32, 49884, 46020, 54616, 49464, 50836] @ js ''.''),
     (''error.refreshStale'', [49352, 47196, 44256, 52840, 50640, 32, 49892, 54056, 54616, 50668, 32, 47560, 51648, 47561, 32, 51221, 49345, 32, 45936, 51060, 53552, 47484, 32, 54364, 49884, 54633, 45768, 45796] @ js ''.''),
     (''error.archiveAction'', js ''Archive Operations '' @ [50676, 44592]),
     (''error.validation'', [50836, 52397, 32, 44050, 51060, 32, 50732, 48148, 47476, 51648, 32, 50506, 49845, 45768, 45796] @ js ''. '' @ [51077, 47141, 44050, 51012, 32, 54869, 51064, 54616, 49464, 50836] @ js ''.''),
     (''error.invalidToken'', [49464, 49496, 51060, 32, 45908, 32, 51060, 49345, 32, 50976, 54952, 54616, 51648, 32, 50506, 49845, 45768, 45796] @ js ''. '' @ [45796, 49884, 32, 47196, 44536, 51064, 54616, 49464, 50836] @ js ''.''),
     (''error.forbidden'', [51060, 32, 51089, 50629, 51012, 32, 49688, 54665, 54624, 32, 44428, 54620, 51060, 32, 50630, 49845, 45768, 45796] @ js ''.''),
     (''error.notFound'', [50836, 52397, 54620, 32, 47532, 49548, 49828, 47484, 32, 52286, 51012, 32, 49688, 32, 50630, 49845, 45768, 45796] @ js ''.''),
     (''error.serviceUnavailable'', js ''Backend '' @ [49436, 48708, 49828, 47484, 32, 51068, 49884, 51201, 51004, 47196, 32, 49324, 50857, 54624, 32, 49688, 32, 50630, 49845, 45768, 45796] @ js ''.''),
     (''error.archiveNotReady'', js ''Archive '' @ [45936, 51060, 53552, 47484, 32, 50500, 51649, 32, 49324, 50857, 54624, 32, 49688, 32, 50630, 49845, 45768, 45796] @ js ''.''),
     (''error.rollupNotReady'', js ''Dashboard Rollup'' @ [51012, 32, 50500, 51649, 32, 51456, 48708, 32, 51473, 51077, 45768, 45796] @ js ''. '' @ [45796, 49884, 32, 49884, 46020, 54616, 47732] @ js '' ClickHouse'' @ [50640, 49436, 32, 54788, 51116] @ js '' Event '' @ [51648, 54364, 47484, 32, 51312, 54924, 54633, 45768, 45796] @ js ''.''),
     (''error.network'', js ''Backend'' @ [50640, 32, 50672, 44208, 54624, 32, 49688, 32, 50630, 49845, 45768, 45796] @ js ''. '' @ [50672, 44208, 51012, 32, 54869, 51064, 54616, 44256, 32, 45796, 49884, 32, 49884, 46020, 54616, 49464, 50836] @ js ''.''),
     (''error.invalidEnvelope'', js ''Backend '' @ [51025, 45813, 32, 54805, 49885, 51060, 32, 50732, 48148, 47476, 51648, 32, 50506, 49845, 45768, 45796] @ js ''.''),
     (''error.dashboardRevisionConflict'', [45796, 47480] @ js '' Session'' @ [50640, 49436] @ js '' Dashboard Layout'' @ [51060, 32, 48320, 44221, 46104, 50632, 49845, 45768, 45796] @ js ''. '' @ [45796, 49884, 32, 48520, 47084, 50728, 32, 46244, 32, 51116, 49884, 46020, 54616, 49464, 50836] @ js ''.''),
     (''error.dashboardNotFound'', [51648, 50896, 54616, 51648, 32, 50506, 45716] @ js '' Dashboard Layout'' @ [51077, 45768, 45796] @ js ''.''),
     (''error.invalidDashboardLayout'', js ''Dashboard Layout'' @ [51060, 32, 50732, 48148, 47476, 51648, 32, 50506, 49845, 45768, 45796] @ js ''.''),
     (''error.detailField'', js ''{field} '' @ [54637, 47785, 51012, 32, 54869, 51064, 54616, 49464, 50836] @ js ''.''),
     (''error.detailUnknown'', [50836, 52397, 32, 49464, 48512, 32, 45236, 50857, 51012, 32, 54869, 51064, 54616, 49464, 50836] @ js ''.''),
     (''error.partialTitle'', [51068, 48512, 32, 44540, 44144, 47484, 32, 49324, 50857, 54624, 32, 49688, 32, 50630, 51020]),
     (''edrState.current'', [54788, 51116] @ js '' EDR '' @ [49345, 53468]),
     (''edrState.diagnostics'', js ''EDR '' @ [51652, 45800, 32, 52629]),
     (''edrState.threatLevel'', js ''Threat Level''),
     (''edrState.collectionHealth'', js ''Collection Health''),
     (''edrState.reasonCodes'', [49345, 53468, 32, 50689, 54693, 32, 50836, 51064]),
     (''edrState.noReasons'', [54876, 49457] @ js '' Risk '' @ [50836, 51064, 32, 50630, 51020]),
     (''edrState.reason.mediumEndpointRisk'', [51473, 44036, 32, 46321, 44553] @ js '' Endpoint Risk''),
     (''edrState.reason.highEndpointRisk'', [45458, 51008, 32, 46321, 44553] @ js '' Endpoint Risk''),
     (''edrState.reason.criticalEndpointRisk'', js ''Critical '' @ [46321, 44553] @ js '' Endpoint Risk''),
     (''edrState.reason.openIncident'', [51652, 54665, 32, 51473, 51064] @ js '' Incident''),
     (''edrState.reason.criticalAlert'', js ''Critical Alert''),
     (''edrState.reason.offlineEndpoint'', js ''Offline Endpoint''),
     (''edrState.reason.staleEndpoint'', [44081, 49888, 32, 51648, 50672] @ js '' Endpoint''),
     (''edrState.reason.degradedSensor'', [49457, 45733, 32, 51200, 54616] @ js '' Sensor''),
     (''edrState.reason.unavailableSensor'', [49324, 50857, 32, 48520, 44032] @ js '' Sensor''),
     (''edrState.reason.ingestFailure'', [49688, 51665, 32, 49892, 54056]),
     (''edrState.reason.ingestDelayed'', [49688, 51665, 32, 51648, 50672]),
     (''edrState.reason.storageFailure'', js ''Storage '' @ [49892, 54056]),
     (''edrState.calculated'', [44228, 49328, 32, 49884, 44033] @ js '' {time}''),
     (''edrState.aria'', js ''EDR '' @ [49345, 53468] @ js '' {state}, '' @ [51216, 49688] @ js '' {score}''),
     (''empty.noResponseGuidance'', js ''Response '' @ [44032, 51060, 45912, 49828, 32, 50630, 51020]),
     (''empty.responseGuidanceDescription'', [51068, 52824, 54616, 45716] @ js '' RuleV1 '' @ [48260, 51204, 50640] @ js '' Response '' @ [44032, 51060, 45912, 49828, 32, 45800, 44228, 44032, 32, 50630, 49845, 45768, 45796] @ js ''.''),
     (''empty.noRiskFactors'', [54876, 49457] @ js '' Risk '' @ [50836, 51064, 32, 50630, 51020]),
     (''empty.riskFactorsDescription'', js ''Backend'' @ [50640, 49436, 32, 54876, 49457] @ js '' Alert '' @ [46608, 45716] @ js '' Incident Risk '' @ [50836, 51064, 51012, 32, 48152, 54872, 54616, 51648, 32, 50506, 50520, 49845, 45768, 45796] @ js ''.''),
     (''risk.openSource'', js ''{sourceType} Source '' @ [50676, 44592]),
     (''risk.openIncidentContribution'', [51652, 54665, 32, 51473, 51064] @ js '' Correlation Incident '' @ [48152, 50689]),
     (''empty.sourceEventUnavailable'', js ''Source Event'' @ [47484, 32, 51312, 54924, 54624, 32, 49688, 32, 50630, 49845, 45768, 45796]),
     (''empty.sourceEventDescription'', [54788, 51116] @ js '' HOT '' @ [46608, 45716] @ js '' RESTORED Storage'' @ [50640, 49436] @ js '' Event'' @ [47484, 32, 51312, 54924, 54624, 32, 49688, 32, 50630, 49845, 45768, 45796] @ js ''.''),
     (''charts.noSeverityTitle'', js ''Alert '' @ [49900, 44033, 46020, 32, 45936, 51060, 53552, 44032, 32, 50630, 49845, 45768, 45796]),
     (''charts.noSeverityDescription'', [49440, 53469, 54620, 32, 44592, 44036, 50640, 32, 53456, 51648, 46108] @ js '' Alert'' @ [44032, 32, 50630, 49845, 45768, 45796] @ js ''.''),
     (''charts.severityAria'', [49900, 44033, 46020, 48324] @ js '' Alert {total}'' @ [44148]),
     (''charts.noDistributionTitle'', [48516, 54252, 32, 45936, 51060, 53552, 44032, 32, 50630, 49845, 45768, 45796]),
     (''charts.noDistributionDescription'', js ''Backend'' @ [50640, 49436, 32, 48712, 32, 48516, 54252, 47484, 32, 48152, 54872, 54664, 49845, 45768, 45796] @ js ''.''),
     (''charts.noSeriesTitle'', js ''{label} '' @ [49884, 44228, 50676, 51060, 32, 50630, 49845, 45768, 45796]),
     (''charts.noSeriesDescription'', [49440, 53469, 54620, 32, 44592, 44036, 50640, 32, 48152, 54872, 46108, 32, 49884, 44036] @ js '' Bucket'' @ [51060, 32, 50630, 49845, 45768, 45796] @ js ''.''),
     (''charts.seriesAria'', js ''{label} '' @ [49884, 44228, 50676]),
     (''charts.viewData'', js ''{label} '' @ [45936, 51060, 53552, 32, 54364, 32, 48372, 44592]),
     (''charts.bucket'', js ''Bucket''),
     (''charts.count'', [44148, 49688]),
     (''charts.noIncidentSeries'', js ''Incident '' @ [49884, 44228, 50676, 51060, 32, 50630, 49845, 45768, 45796]),
     (''charts.noDetectionActivity'', [53456, 51648, 32, 54876, 46041, 32, 45936, 51060, 53552, 44032, 32, 50630, 49845, 45768, 45796]),
     (''charts.noIncidentSeriesDescription'', [49440, 53469, 54620, 32, 44592, 44036, 50640, 32, 48152, 54872, 46108] @ js '' Incident '' @ [49884, 44036] @ js '' Bucket'' @ [51060, 32, 50630, 49845, 45768, 45796] @ js ''.''),
     (''charts.incidentSeriesAria'', js ''OPEN '' @ [48143] @ js '' CLOSED Incident '' @ [49884, 44228, 50676]),
     (''charts.viewIncidentData'', js ''Incident '' @ [45936, 51060, 53552, 32, 54364, 32, 48372, 44592]),
     (''charts.viewMore'', [45208, 47672, 51648] @ js '' {count}'' @ [44060, 32, 44050, 32, 48372, 44592]),
     (''charts.minimum'', [52572, 49567, 44050]),
     (''charts.average'', [54217, 44512]),
     (''charts.maximum'', [52572, 45843, 44050]),
     (''charts.currentValues'', [54788, 51116, 32, 49884, 44228, 50676, 32, 44050]),
     (''charts.bucketSelection'', js ''Detection Activity '' @ [49884, 44036] @ js '' Bucket''),
     (''charts.selectBucket'', js ''Backend Bucket '' @ [49440, 53469]),
     (''charts.detectionSummary'', [52572, 49888] @ js '' Backend Bucket: Event {events}'' @ [44148] @ js '', Alert {alerts}'' @ [44148] @ js '', Open Incident {incidents}'' @ [44148] @ js ''.''),
     (''charts.timeContext'', js ''Bucket '' @ [48276, 50948] @ js '' {from} '' @ [8211] @ js '' {to} '' @ [183] @ js '' {timezone} '' @ [183] @ js '' Backend Bucket'' @ [48324, 32, 44148, 49688]),
     (''overview.eyebrow'', js ''SECURITY POSTURE''),
     (''overview.description'', js ''EDR '' @ [49345, 53468] @ js '', '' @ [49688, 51665, 32, 49345, 53468, 32, 48143, 32, 44540, 44144, 32, 45936, 51060, 53552, 32, 44508, 47784, 47484, 32, 54364, 49884, 54633, 45768, 45796] @ js ''.''),
     (''overview.dashboardAria'', [44256, 51221, 54805] @ js '' Overview Dashboard''),
     (''overview.lastRefreshed'', [47560, 51648, 47561, 32, 44081, 49888] @ js '' {time}''),
     (''overview.notYet'', [50500, 51649, 32, 44081, 49888, 46104, 51648, 32, 50506, 51020]),
     (''overview.kpiAria'', [51452, 50836, 32, 49457, 44284, 32, 51648, 54364]),
     (''overview.totalAlerts'', [51204, 52404] @ js '' Alerts''),
     (''overview.criticalAlerts'', js ''Critical Alerts''),
     (''overview.criticalAlertsDetail'', [49440, 53469, 32, 44592, 44036, 51032] @ js '' Critical '' @ [49900, 44033, 46020]),
     (''overview.openIncidents'', js ''Open Incidents''),
     (''overview.incidents'', js ''Incidents''),
     (''overview.highRiskEndpoints'', js ''HIGH '' @ [46321, 44553] @ js '' Endpoints''),
     (''overview.onlineEndpoints'', js ''Online Endpoints''),
     (''overview.eventFailures'', js ''Event '' @ [49892, 54056]),
     (''overview.storageBuckets'', js ''Storage Bucket''),
     (''overview.eventsDetail'', [49440, 53469, 32, 44592, 44036, 32, 45236] @ js '' Event''),
     (''overview.alertsDetail'', [49440, 53469, 32, 44592, 44036, 32, 45236] @ js '' Alert''),
     (''overview.currentlyOpen'', js ''OPEN''),
     (''overview.highRiskEndpointsDetail'', [54788, 51116] @ js '' HIGH '' @ [46321, 44553, 32, 49828, 45253, 49399]),
     (''overview.currentSnapshot'', [54788, 51116, 32, 49828, 45253, 49399]),
     (''overview.currentFailureRows'', [54788, 51116, 32, 49892, 54056, 32, 44148, 49688]),
     (''overview.allLifecycleBuckets'', [51204, 52404] @ js '' Lifecycle Bucket''),
     (''overview.alertSeverity'', js ''Alert '' @ [49900, 44033, 46020]),
     (''overview.detectionActivity'', js ''Detection Activity''),
     (''overview.detectionActivityDescription'', js ''Backend'' @ [44032, 32, 51228, 44277, 54620] @ js '' Event, Alert, Incident '' @ [49884, 44036] @ js '' Bucket''),
     (''overview.eventVolume'', js ''Event '' @ [48156, 49373, 47049]),
     (''overview.alertVolume'', js ''Alert '' @ [48156, 49373, 47049]),
     (''overview.incidentActivity'', js ''Incident '' @ [54876, 46041]),
     (''overview.endpointRisk'', js ''Endpoint Risk''),
     (''overview.fleetDistribution'', [51204, 52404] @ js '' Endpoint '' @ [54788, 54889]),
     (''overview.fleetDistributionSubtitle'', js ''Endpoint Risk'' @ [50752, 32, 54788, 51116] @ js '' Sensor Health''),
     (''overview.reportedEndpoints'', [48372, 44256, 46108] @ js '' Endpoint {count}'' @ [44060]),
     (''overview.reportedRiskSnapshots'', js ''Risk '' @ [49828, 45253, 49399] @ js '' {count}'' @ [44060]),
     (''overview.reportedSensorChecks'', [48372, 44256, 46108] @ js '' Sensor '' @ [44160, 49324] @ js '' {count}'' @ [44148]),
     (''overview.noSensorHealthSnapshots'', [51312, 54924, 32, 44032, 45733, 54620] @ js '' Sensor Health '' @ [49828, 45253, 49399, 51060, 32, 50630, 49845, 45768, 45796] @ js ''.''),
     (''overview.fleetSnapshotNote'', [54788, 51116, 32, 49828, 45253, 49399, 51077, 45768, 45796] @ js ''. '' @ [49345, 49464, 32, 50896, 51064, 51008] @ js '' Endpoints '' @ [46608, 45716] @ js '' Operations'' @ [50640, 49436, 32, 54869, 51064, 54616, 49464, 50836] @ js ''.''),
     (''overview.riskCritical'', [52824, 47749, 51201]),
     (''overview.riskHigh'', [45458, 51020]),
     (''overview.riskMedium'', [51473, 44036]),
     (''overview.riskLow'', [45230, 51020]),
     (''overview.sensorHealthy'', [51221, 49345]),
     (''overview.sensorDegraded'', [51200, 54616]),
     (''overview.sensorUnavailable'', [49324, 50857, 32, 48520, 44032]),
     (''overview.allSensors'', [51204, 52404] @ js '' Sensor''),
     (''overview.sensorByType'', js ''Sensor'' @ [48324, 32, 44160, 49324]),
     (''overview.sensorStatusSummary'', js ''{sensor}: '' @ [51221, 49345] @ js '' {healthy}'' @ [44148] @ js '', '' @ [51200, 54616] @ js '' {degraded}'' @ [44148] @ js '', '' @ [49324, 50857, 32, 48520, 44032] @ js '' {unavailable}'' @ [44148] @ js '', '' @ [52509] @ js '' {total}'' @ [44148]),
     (''overview.endpointOs'', js ''Endpoint OS''),
     (''overview.sensorHealth'', js ''Sensor Health''),
     (''overview.topRules'', [53456, 51648, 32, 48712, 46020, 32, 49345, 50948] @ js '' Rule''),
     (''overview.mitreDistribution'', js ''MITRE '' @ [53456, 51648, 32, 48516, 54252]),
     (''overview.processNetwork'', js ''Process '' @ [183] @ js '' Network Signal''),
     (''overview.fileDnsL7'', js ''File '' @ [183] @ js '' DNS '' @ [183] @ js '' L7 Signal''),
     (''overview.failureDistribution'', [49892, 54056, 32, 48516, 54252]),
     (''overview.storageDistribution'', [49828, 53664, 47532, 51648, 32, 48516, 54252]),
     (''overview.serverDistribution'', js ''Backend '' @ [51228, 44277, 32, 48516, 54252]),
     (''overview.serverBuckets'', js ''Backend '' @ [51228, 44277, 32, 49884, 44036] @ js '' Bucket''),
     (''overview.openClosedBuckets'', js ''OPEN '' @ [48143] @ js '' CLOSED Bucket''),
     (''overview.querySnapshot'', [54788, 51116, 32, 51312, 54924, 32, 49884, 51216, 32, 49828, 45253, 49399]),
     (''overview.endpointSnapshot'', [54788, 51116] @ js '' Endpoint '' @ [49828, 45253, 49399]),
     (''overview.sensorSnapshots'', [54788, 51116, 32, 48372, 44256, 46108] @ js '' Sensor '' @ [49828, 45253, 49399]),
     (''overview.mitreSubtitle'', js ''Alert '' @ [49828, 45253, 49399, 50640, 49436, 32, 44288, 52272, 46108] @ js '' Tactic '' @ [48143] @ js '' Technique''),
     (''overview.backendTopValues'', js ''Backend'' @ [50640, 49436, 32, 48152, 54872, 54620, 32, 49345, 50948, 32, 44050]),
     (''overview.lifecycleSnapshot'', [54788, 51116] @ js '' Lifecycle '' @ [49828, 45253, 49399]),
     (''overview.highest'', [52572, 44256] @ js '' {value}''),
     (''overview.oldestFailed'', [44032, 51109, 32, 50724, 47000, 46108, 32, 49892, 54056] @ js '' {time}''),
     (''overview.highestRiskEndpoints'', js ''Risk'' @ [44032, 32, 44032, 51109, 32, 45458, 51008] @ js '' Endpoint''),
     (''overview.currentRiskSnapshot'', js ''Backend'' @ [44032, 32, 44228, 49328, 54620, 32, 52572, 49888, 32, 50948, 54744, 46020, 32, 49692, 50948]),
     (''overview.endpointActiveAlerts'', js ''Endpoint {endpointId} '' @ [183, 32, 54876, 49457] @ js '' Alert {count}'' @ [44148]),
     (''overview.noEndpoints'', js ''Endpoint'' @ [44032, 32, 50630, 49845, 45768, 45796]),
     (''overview.noEndpointRiskSnapshot'', [51312, 54924, 32, 44032, 45733, 54620] @ js '' Endpoint Risk '' @ [49828, 45253, 49399, 51060, 32, 50630, 49845, 45768, 45796] @ js ''.''),
     (''overview.incidentQueueWidget'', js ''Incident Queue''),
     (''overview.recentOpenIncidents'', [52572, 44540] @ js '' Open Incident 5'' @ [44148]),
     (''overview.incidentAlertCount'', js ''{time} '' @ [183] @ js '' Alert {count}'' @ [44148]),
     (''overview.noOpenIncidents'', js ''Open Incident'' @ [44032, 32, 50630, 49845, 45768, 45796]),
     (''overview.noOpenIncidentsDescription'', [49440, 53469, 54620, 32, 44592, 44036, 50640] @ js '' Open Incident'' @ [44032, 32, 50630, 49845, 45768, 45796] @ js ''.''),
     (''overview.endpoint'', js ''Endpoint''),
     (''overview.incident'', js ''Incident'')]"

definition korean_3 :: translation_table where
  "korean_3 =
    [(''overview.riskScore'', js ''Risk '' @ [51216, 49688]),
     (''overview.status'', [49345, 53468]),
     (''overview.lastDetected'', [47560, 51648, 47561, 32, 53456, 51648]),
     (''overview.partialFailure'', [51221, 49345, 32, 51025, 45813, 32, 50689, 50669, 51008, 32, 50976, 51648, 54633, 45768, 45796] @ js ''. '' @ [49892, 54056, 54620, 32, 50689, 50669, 51012, 32, 45796, 49884, 32, 49884, 46020, 54616, 44144, 45208, 32, 54168, 51060, 51648, 47484, 32, 49352, 47196, 44256, 52840, 54616, 49464, 50836] @ js ''.''),
     (''overview.responseGuidanceSummary'', js ''Response '' @ [44032, 51060, 45912, 49828, 32, 50836, 50557]),
     (''overview.responseGuidanceCount'', js ''Rule '' @ [48260, 51204] @ js '' {rules}'' @ [44060, 50640, 32, 44152, 52828, 32, 54876, 49457] @ js '' Alert {alerts}'' @ [44148]),
     (''overview.manualSteps'', [49688, 46041, 32, 45800, 44228] @ js '' {count}'' @ [44060]),
     (''overview.toolbarAria'', js ''Overview '' @ [51228, 50612]),
     (''overview.endpointScope'', js ''Endpoint '' @ [48276, 50948]),
     (''overview.allEndpoints'', [51204, 52404] @ js '' Endpoints''),
     (''overview.endpointScopeDescription'', js ''Dashboard Summary API'' @ [45716, 32, 54788, 51116, 32, 51204, 52404] @ js '' Endpoint '' @ [51665, 44228, 32, 48276, 50948, 47484, 32, 51648, 50896, 54633, 45768, 45796] @ js ''.''),
     (''overview.timeRangeLabel'', [49884, 44036, 32, 48276, 50948] @ js '': {range}''),
     (''overview.refresh'', [49352, 47196, 32, 44256, 52840]),
     (''overview.refreshing'', [49352, 47196, 32, 44256, 52824, 45716, 32, 51473]),
     (''overview.autoRefresh'', js ''30'' @ [52488, 47560, 45796, 32, 51088, 46041, 32, 44081, 49888]),
     (''overview.signalRibbon'', [44288, 52769] @ js '' Signal Stream''),
     (''overview.backendSnapshot'', js ''Backend '' @ [49828, 45253, 49399]),
     (''overview.signalEvents'', js ''Event '' @ [49688, 51665]),
     (''overview.signalDetections'', js ''Alert '' @ [53456, 51648]),
     (''overview.signalEndpointReach'', js ''Online Endpoint''),
     (''overview.signalOpenCases'', js ''Open Investigation''),
     (''alerts.description'', [49436, 48260, 32, 54168, 51060, 51648, 45348, 51060, 49496, 51004, 47196] @ js '' RuleV1 Detection'' @ [44284, 32, 54788, 51116] @ js '' Workflow '' @ [49345, 53468, 47484, 32, 54364, 49884, 54633, 45768, 45796] @ js ''.''),
     (''alerts.ruleCode'', js ''Rule '' @ [53076, 46300]),
     (''alerts.queue'', js ''Alert Queue''),
     (''alerts.records'', js ''Alert {total}'' @ [44148])]"

definition korean_4 :: translation_table where
  "korean_4 =
    [(''filter.severity'', [49900, 44033, 46020]),
     (''alerts.risk'', js ''Risk''),
     (''alerts.detected'', [53456, 51648, 32, 49884, 44033]),
     (''alerts.noResults'', js ''Alert'' @ [44032, 32, 50630, 49845, 45768, 45796]),
     (''alerts.noFilterMatch'', [54788, 51116, 32, 54596, 53552, 50752, 32, 51068, 52824, 54616, 45716] @ js '' Alert'' @ [44032, 32, 50630, 49845, 45768, 45796] @ js ''.''),
     (''alerts.noneInRange'', [49440, 53469, 54620, 32, 44592, 44036, 50640, 32, 53456, 51648, 46108] @ js '' Alert'' @ [44032, 32, 50630, 49845, 45768, 45796] @ js ''.''),
     (''alerts.priorityOrder'', [48120, 52376, 47532, 32, 49345, 53468] @ js '', '' @ [49900, 44033, 46020] @ js '', Risk, '' @ [52572, 49888, 32, 53456, 51648, 32, 49692]),
     (''alert.evidence'', js ''Alert '' @ [44540, 44144]),
     (''alert.detectedAt'', [53456, 51648, 32, 49884, 44033] @ js '' {time}''),
     (''alert.riskScore'', js ''Risk '' @ [51216, 49688]),
     (''alert.mitreTactic'', js ''MITRE Tactic''),
     (''alert.mitreTechnique'', js ''MITRE Technique''),
     (''alert.updated'', [44081, 49888, 32, 49884, 44033]),
     (''alert.workflowState'', js ''Workflow '' @ [49345, 53468]),
     (''alert.updateAllowed'', js ''ADMIN'' @ [44284] @ js '' ANALYST'' @ [45716] @ js '' Alert '' @ [49345, 53468, 47484, 32, 48320, 44221, 54624, 32, 49688, 32, 51080, 49845, 45768, 45796] @ js ''.''),
     (''alert.viewerReadOnly'', js ''VIEWER'' @ [45716, 32, 51069, 44592, 32, 51204, 50857]),
     (''alert.status'', js ''Alert '' @ [49345, 53468]),
     (''alert.viewerControlsHidden'', js ''VIEWER'' @ [50640, 44172, 45716, 32, 49345, 53468, 32, 48320, 44221, 32, 44592, 45733, 51060, 32, 54364, 49884, 46104, 51648, 32, 50506, 49845, 45768, 45796] @ js ''.''),
     (''alert.sourceEvent'', js ''Source Event''),
     (''alert.sourceEventSubtitle'', js ''HOT '' @ [46608, 45716] @ js '' RESTORED Event '' @ [52280, 51312]),
     (''alert.connectedIncidents'', [50672, 44208, 46108] @ js '' Incident''),
     (''alert.evidenceChain'', js ''Evidence Chain''),
     (''alert.evidenceChainDescription'', js ''Endpoint'' @ [48512, 53552] @ js '' Incident'' @ [44620, 51648, 32, 44288, 52769, 32, 44540, 44144, 32, 51060, 46041]),
     (''alert.notConnected'', [50672, 44208, 32, 50630, 51020]),
     (''alert.correlationReferences'', [51069, 44592, 32, 51204, 50857] @ js '' Correlation '' @ [52280, 51312]),
     (''alert.noConnectedIncidents'', [50672, 44208, 46108] @ js '' Incident'' @ [44032, 32, 50630, 49845, 45768, 45796]),
     (''alert.noConnectedDescription'', [51060] @ js '' Alert'' @ [45716] @ js '' Incident'' @ [50640, 32, 50672, 44208, 46104, 51648, 32, 50506, 50520, 49845, 45768, 45796] @ js ''.''),
     (''alert.responseGuidance'', js ''Response '' @ [44032, 51060, 45912, 49828]),
     (''alert.guidanceSubtitle'', [51068, 52824, 54616, 45716] @ js '' RuleV1 '' @ [48260, 51204, 51032, 32, 51069, 44592, 32, 51204, 50857, 32, 45800, 44228]),
     (''alert.guidanceRuleVersion'', js ''{ruleCode} v{version}'' @ [51032, 32, 51069, 44592, 32, 51204, 50857, 32, 45800, 44228]),
     (''alert.guidanceSteps'', [49692, 49436, 44032, 32, 51648, 51221, 46108] @ js '' Response Guidance '' @ [45800, 44228]),
     (''alert.manualAction'', [49688, 46041, 32, 51312, 52824]),
     (''alert.activeQueue'', [54876, 49457] @ js '' Alert Queue''),
     (''alert.requiresAction'', [51312, 52824, 44032, 32, 54596, 50836, 54620] @ js '' Alert {total}'' @ [44148]),
     (''alert.riskValue'', js ''Risk {score}''),
     (''alert.queueCleared'', js ''Queue'' @ [44032, 32, 48708, 50632, 49845, 45768, 45796]),
     (''alert.queueClearedDescription'', [54788, 51116, 32, 44592, 44036] @ js '', '' @ [49900, 44033, 46020] @ js '', Endpoint '' @ [48143] @ js '' Rule '' @ [54596, 53552, 50752, 32, 51068, 52824, 54616, 45716, 32, 48120, 54644, 44208] @ js '' Alert'' @ [44032, 32, 50630, 49845, 45768, 45796] @ js ''.''),
     (''alert.queueClearedRecoverableDescription'', [54788, 51116] @ js '' Queue'' @ [50640, 32, 48120, 54644, 44208] @ js '' Alert'' @ [44032, 32, 50630, 49845, 45768, 45796] @ js ''. '' @ [52376, 47532, 54620] @ js '' Alert'' @ [45716, 32, 50500, 47000, 50640, 49436, 32, 44228, 49549, 32, 54869, 51064, 54616, 44144, 45208, 32, 45796, 49884, 32, 50676, 32, 49688, 32, 51080, 49845, 45768, 45796] @ js ''.''),
     (''alert.workflowSaved'', js ''Alert Workflow '' @ [49345, 53468, 47484, 32, 51200, 51109, 54664, 49845, 45768, 45796] @ js ''.''),
     (''alert.saveOrContinue'', [51060] @ js '' Alert'' @ [47484, 32, 51200, 51109, 54616, 44144, 45208, 32, 45796, 51020, 32, 48120, 54644, 44208, 32, 54637, 47785, 51004, 47196, 32, 48148, 47196, 32, 51060, 46041, 54633, 45768, 45796]),
     (''alert.saveStatus'', [49345, 53468, 32, 51200, 51109]),
     (''alert.submitNext'', [51200, 51109, 32, 54980, 32, 45796, 51020]),
     (''alert.nextItem'', [45796, 51020] @ js '': {ruleCode} '' @ [183] @ js '' {title}''),
     (''alert.noNextItem'', [54788, 51116] @ js '' Queue'' @ [50752, 32, 51068, 52824, 54616, 45716, 32, 45796, 47480, 32, 48120, 54644, 44208] @ js '' Alert'' @ [44032, 32, 50630, 49845, 45768, 45796] @ js ''.''),
     (''incident.eyebrow'', js ''ALERT CORRELATION''),
     (''incident.description'', js ''Detection Worker'' @ [44032] @ js '' Alert'' @ [47484] @ js '' Correlation Key'' @ [50752, 32, 49884, 44036, 32, 44396, 44036, 51004, 47196, 32, 47926, 50612, 32, 49373, 49457, 54616, 47728, 32, 49345, 53468, 32, 48320, 44221, 51008, 32, 44048, 49324, 32, 47196, 44536, 50640, 32, 44592, 47197, 46121, 45768, 45796] @ js ''.''),
     (''incident.queue'', js ''Incident Queue''),
     (''incident.records'', js ''Incident {total}'' @ [44148]),
     (''incident.alerts'', js ''Alert '' @ [49688]),
     (''incident.window'', [48516, 49437, 32, 44396, 44036]),
     (''incident.noResults'', js ''Incident'' @ [44032, 32, 50630, 49845, 45768, 45796]),
     (''incident.noFilterMatch'', [54788, 51116, 32, 54596, 53552, 50752, 32, 51068, 52824, 54616, 45716] @ js '' Incident'' @ [44032, 32, 50630, 49845, 45768, 45796] @ js ''.''),
     (''incident.noneInRange'', [49440, 53469, 54620, 32, 44592, 44036, 50640] @ js '' Correlation'' @ [46108] @ js '' Incident'' @ [44032, 32, 50630, 49845, 45768, 45796] @ js ''.''),
     (''incident.noDescription'', [51060] @ js '' Incident'' @ [50640, 32, 51200, 51109, 46108, 32, 49444, 47749, 51060, 32, 50630, 49845, 45768, 45796] @ js ''.'')]"

definition korean_5 :: translation_table where
  "korean_5 =
    [(''detection.procPowershellEncoded.title'', [51064, 53076, 46377, 46108] @ js '' PowerShell '' @ [47749, 47161, 32, 49892, 54665, 32, 53456, 51648]),
     (''detection.procPowershellEncoded.ruleName'', js ''PowerShell '' @ [51064, 53076, 46377, 32, 47749, 47161]),
     (''detection.procPowershellEncoded.titleOnEndpoint'', js ''{endpoint}'' @ [51032] @ js '' PowerShell '' @ [51064, 53076, 46377, 32, 47749, 47161, 32, 53456, 51648]),
     (''detection.procPowershellEncoded.summary'', [51064, 53076, 46377, 46108, 32, 47749, 47161, 32, 51064, 51088, 47196] @ js '' PowerShell'' @ [51060, 32, 49892, 54665, 46104, 50632, 49845, 45768, 45796] @ js ''.''),
     (''detection.netSuspiciousEgress.title'', [51032, 49900, 49828, 47084, 50868, 32, 50516, 54840, 54868, 32, 50808, 48512, 32, 53685, 49888, 32, 53456, 51648]),
     (''detection.netSuspiciousEgress.ruleName'', [51032, 49900, 49828, 47084, 50868, 32, 50808, 48512, 32, 53685, 49888, 32, 45824, 49345]),
     (''detection.netSuspiciousEgress.titleOnEndpoint'', js ''{endpoint}'' @ [51032, 32, 51032, 49900, 49828, 47084, 50868, 32, 50808, 48512, 32, 53685, 49888, 32, 53456, 51648]),
     (''detection.netSuspiciousEgress.summary'', [47784, 45768, 53552, 47553, 32, 51473, 51064] @ js '' Process'' @ [44032, 32, 46300, 47928, 32, 50808, 48512, 32, 45824, 49345, 50640, 32, 50672, 44208, 46104, 50632, 49845, 45768, 45796] @ js ''.''),
     (''detection.dnsRareDomain.title'', [46300, 47928] @ js '' Domain '' @ [51656, 51032, 32, 53456, 51648]),
     (''detection.dnsRareDomain.ruleName'', [46300, 47928] @ js '' Domain '' @ [51656, 51032]),
     (''detection.dnsRareDomain.titleOnEndpoint'', js ''{endpoint}'' @ [51032, 32, 46300, 47928] @ js '' Domain '' @ [51656, 51032, 32, 53456, 51648]),
     (''detection.dnsRareDomain.summary'', js ''Endpoint'' @ [50640, 49436, 32, 46300, 47932, 44172, 32, 44288, 52272, 46104, 45716] @ js '' Domain'' @ [51012, 32, 51656, 51032, 54664, 49845, 45768, 45796] @ js ''.''),
     (''detection.fileSuspiciousDrop.title'', [51032, 49900, 49828, 47084, 50868] @ js '' File '' @ [49373, 49457, 32, 53456, 51648]),
     (''detection.fileSuspiciousDrop.ruleName'', [51032, 49900, 49828, 47084, 50868] @ js '' File '' @ [49373, 49457]),
     (''detection.fileSuspiciousDrop.titleOnEndpoint'', js ''{endpoint}'' @ [51032, 32, 51032, 49900, 49828, 47084, 50868] @ js '' File '' @ [49373, 49457, 32, 53456, 51648]),
     (''detection.fileSuspiciousDrop.summary'', js ''Process'' @ [44032, 32, 51032, 49900, 49828, 47084, 50868] @ js '' Payload '' @ [46608, 45716] @ js '' Artifact File'' @ [51012, 32, 49373, 49457, 54664, 49845, 45768, 45796] @ js ''.''),
     (''detection.l7UploadAnomaly.title'', [48708, 51221, 49345] @ js '' HTTPS '' @ [50629, 47196, 46300, 32, 53456, 51648]),
     (''detection.l7UploadAnomaly.ruleName'', [48708, 51221, 49345] @ js '' HTTPS '' @ [50629, 47196, 46300]),
     (''detection.l7UploadAnomaly.titleOnEndpoint'', js ''{endpoint}'' @ [51032, 32, 48708, 51221, 49345] @ js '' HTTPS '' @ [50629, 47196, 46300, 32, 53456, 51648]),
     (''detection.l7UploadAnomaly.summary'', [50808, 48512] @ js '' Host'' @ [47196, 32, 54693, 54616, 45716, 32, 48708, 51221, 49345, 32, 50629, 47196, 46300, 32, 50836, 52397, 51060, 32, 44288, 52272, 46104, 50632, 49845, 45768, 45796] @ js ''.''),
     (''detection.qaLongRange.summary'', js ''{agentId}'' @ [51032, 32, 51109, 44592, 32, 44396, 44036] @ js '' QA Alert'' @ [51077, 45768, 45796] @ js ''.''),
     (''guidance.reviewDomainProcess'', js ''Domain'' @ [44284, 32, 51656, 51032] @ js '' Process '' @ [54869, 51064]),
     (''guidance.blockMaliciousDomain'', [50501, 49457] @ js '' Domain '' @ [52264, 45800]),
     (''guidance.validateFileOrigin'', js ''File '' @ [52636, 52376, 50752] @ js '' Hash '' @ [54869, 51064]),
     (''guidance.quarantineMaliciousFile'', [54869, 51064, 46108, 32, 50501, 49457] @ js '' File '' @ [44201, 47532]),
     (''guidance.reviewUploadContext'', [50629, 47196, 46300] @ js '' Context '' @ [54869, 51064]),
     (''guidance.restrictUploadPath'', [49849, 51064, 46104, 51648, 32, 50506, 51008, 32, 50629, 47196, 46300, 32, 44221, 47196, 32, 51228, 54620]),
     (''guidance.reviewDestinationProcess'', [47785, 51201, 51648, 50752] @ js '' Source Process '' @ [54869, 51064]),
     (''guidance.containUnauthorizedEgress'', [49849, 51064, 46104, 51648, 32, 50506, 51008, 32, 50808, 48512, 32, 53685, 49888, 32, 52264, 45800]),
     (''guidance.reviewSourceEvent'', js ''Source Event '' @ [54869, 51064]),
     (''incident.context'', js ''Correlation Context''),
     (''incident.contextSubtitle'', js ''Event'' @ [50752] @ js '' Alert '' @ [44540, 44144, 47484, 32, 48372, 51316, 54616, 45716] @ js '' Detection '' @ [44208, 44284, 51077, 45768, 45796]),
     (''incident.correlationKey'', js ''Correlation Key''),
     (''incident.alertCount'', js ''Alert '' @ [49688]),
     (''incident.windowStart'', [44396, 44036, 32, 49884, 51089]),
     (''incident.windowEnd'', [44396, 44036, 32, 51333, 47308]),
     (''incident.firstDetected'', [52572, 52488, 32, 53456, 51648, 32, 49884, 44033])]"

definition korean_6 :: translation_table where
  "korean_6 =
    [(''incident.lastDetected'', [47560, 51648, 47561, 32, 53456, 51648, 32, 49884, 44033]),
     (''incident.closed'', [51333, 47308, 32, 49884, 44033]),
     (''incident.lifecycle'', js ''Lifecycle '' @ [51221, 52293]),
     (''incident.statusControlDescription'', js ''ADMIN'' @ [44284] @ js '' ANALYST'' @ [45716] @ js '' Incident'' @ [47484, 32, 45796, 49884, 32, 50676, 44144, 45208, 32, 51333, 47308, 54624, 32, 49688, 32, 51080, 49845, 45768, 45796] @ js ''. '' @ [49688, 46041, 32, 49345, 53468, 45716, 32, 45796, 49884, 32, 48320, 44221, 54624, 32, 46412, 44620, 51648, 32, 50976, 51648, 46121, 45768, 45796] @ js ''.''),
     (''incident.statusSaved'', js ''Incident '' @ [49345, 53468, 47484, 32, 51200, 51109, 54664, 49845, 45768, 45796] @ js ''.''),
     (''incident.saveStatus'', js ''Incident '' @ [49345, 53468, 32, 51200, 51109]),
     (''incident.viewerReadOnly'', js ''VIEWER'' @ [45716] @ js '' Incident '' @ [49345, 53468, 47484, 32, 48320, 44221, 54624, 32, 49688, 32, 50630, 49845, 45768, 45796]),
     (''incident.viewerReadOnlyDescription'', [54788, 51116, 32, 49345, 53468, 45716, 32, 51312, 54924, 54624, 32, 49688, 32, 51080, 51648, 47564, 32, 48320, 44221, 32, 44428, 54620, 51008, 32, 50630, 49845, 45768, 45796] @ js ''.''),
     (''incident.connectedAlerts'', [50672, 44208, 46108] @ js '' Alert''),
     (''incident.connectedSubtitle'', [51060] @ js '' Incident'' @ [50640, 32, 50672, 44208, 46108] @ js '' Alert '' @ [49828, 45253, 49399]),
     (''incident.noConnectedAlerts'', [50672, 44208, 46108] @ js '' Alert'' @ [44032, 32, 50630, 49845, 45768, 45796]),
     (''incident.noConnectedAlertsDescription'', [51060] @ js '' Incident'' @ [50640, 32, 50672, 44208, 46108] @ js '' Alert'' @ [44032, 32, 50630, 49845, 45768, 45796] @ js ''.''),
     (''incident.attackTimeline'', js ''Attack Timeline''),
     (''incident.attackTimelineSubtitle'', js ''Backend'' @ [44032, 32, 44396, 49457, 54620] @ js '' Event '' @ [8594] @ js '' Alert '' @ [8594] @ js '' Incident '' @ [44540, 44144]),
     (''incident.noTimelineEvidence'', js ''Timeline '' @ [44540, 44144, 44032, 32, 50630, 49845, 45768, 45796]),
     (''incident.noTimelineDescription'', [50672, 44208, 46108] @ js '' Event '' @ [46608, 45716] @ js '' Alert '' @ [49828, 45253, 49399, 51060, 32, 50630, 49845, 45768, 45796] @ js ''.''),
     (''incident.workbench'', js ''Incident '' @ [51312, 49324] @ js '' Workbench''),
     (''incident.activeQueue'', js ''Open Incident Queue''),
     (''incident.activeQueueDescription'', [47785, 47197, 32, 54596, 53552, 47484, 32, 50976, 51648, 54616, 44256, 32, 51652, 54665, 32, 51473, 51064, 32, 51312, 49324, 47484, 32, 47676, 51200, 32, 50685, 45768, 45796]),
     (''incident.queueMeta'', js ''Alert {alerts}'' @ [44060, 32, 183] @ js '' {time}''),
     (''incident.noActiveQueue'', [51652, 54665, 32, 51473, 51064] @ js '' Incident'' @ [44032, 32, 50630, 49845, 45768, 45796]),
     (''incident.noActiveQueueDescription'', [54788, 51116, 32, 47785, 47197, 32, 51312, 44148, 44284, 32, 51068, 52824, 54616, 45716] @ js '' OPEN Incident'' @ [44032, 32, 50630, 49845, 45768, 45796] @ js ''.''),
     (''incident.investigation'', js ''Investigation Graph''),
     (''incident.investigationSubtitle'', js ''Backend '' @ [44288, 52769, 32, 44288, 44228, 50752, 32, 46041, 44592, 54868, 46108] @ js '' Context '' @ [48143] @ js '' Evidence''),
     (''incident.observedOnly'', js ''OBSERVED ONLY''),
     (''incident.observedRelationDescription'', [50896, 48376] @ js '' record'' @ [47196, 32, 54869, 51064, 46108, 32, 44288, 44228, 51060, 47728, 32, 52628, 47200, 46108, 32, 51064, 44284, 44288, 44228, 47484, 32, 51032, 48120, 54616, 51648, 32, 50506, 49845, 45768, 45796] @ js ''.''),
     (''incident.legend'', [48276, 47168]),
     (''incident.observedNodes'', js ''Observed nodes''),
     (''incident.expandObservedNodes'', js ''Observed nodes '' @ [53356, 44172, 32, 48372, 44592]),
     (''incident.expandedInvestigation'', js ''Observed nodes '' @ [183, 32, 54869, 45824, 32, 51312, 49324]),
     (''incident.closeExpandedInvestigation'', [54869, 45824, 32, 51312, 49324, 32, 45803, 44592]),
     (''incident.edges'', [44288, 52769] @ js '' Edge''),
     (''incident.selectedContext'', [49440, 53469] @ js '' Context''),
     (''incident.selectedPrompt'', js ''Graph node, edge, Timeline '' @ [54637, 47785, 32, 46608, 45716] @ js '' Evidence '' @ [54665, 51012, 32, 49440, 53469, 54616, 49464, 50836] @ js ''.''),
     (''incident.nothingSelected'', [49440, 53469, 32, 54637, 47785, 32, 50630, 51020]),
     (''incident.investigationPartial'', js ''Graph'' @ [44032, 32, 51068, 48512, 32, 45572, 46973, 46104, 50632, 44144, 45208, 32, 51228, 54620, 46104, 50632, 49845, 45768, 45796] @ js ''. Timeline'' @ [44284] @ js '' Evidence '' @ [54364, 47484, 32, 44592, 48376] @ js '' fallback'' @ [51004, 47196, 32, 49324, 50857, 54633, 45768, 45796] @ js ''.''),
     (''incident.investigationWarnings'', js ''Investigation '' @ [44221, 44256]),
     (''incident.warningArchiveNotReady'', js ''Event '' @ [44540, 44144, 44032, 32, 50500, 51649, 32, 51456, 48708, 46104, 51648, 32, 50506, 51008] @ js '' Archive Bucket'' @ [50640, 32, 51080, 49845, 45768, 45796] @ js ''.''),
     (''incident.warningEventNotFound'', js ''HOT '' @ [46608, 45716] @ js '' RESTORED Storage'' @ [50640, 49436] @ js '' Event '' @ [44540, 44144, 47484, 32, 52286, 51012, 32, 49688, 32, 50630, 49845, 45768, 45796] @ js ''.''),
     (''incident.graphDisabled'', js ''Feature flag'' @ [47196] @ js '' Graph '' @ [47116, 45908, 47553, 51060, 32, 44732, 51256, 32, 51080, 49845, 45768, 45796]),
     (''incident.graphEmpty'', [54364, 49884, 54624] @ js '' Graph node'' @ [44032, 32, 50630, 49845, 45768, 45796]),
     (''incident.graphIncomplete'', js ''Graph'' @ [44032, 32, 50756, 51204, 54616, 51648, 32, 50506, 49845, 45768, 45796]),
     (''incident.tableFallback'', js ''TABLE FALLBACK''),
     (''incident.graphFallbackDescription'', [50500, 47000, 51032, 32, 44288, 52769] @ js '' Timeline, '' @ [50672, 44208] @ js '' Alert'' @ [50752] @ js '' Evidence record'' @ [47484, 32, 49324, 50857, 54616, 49464, 50836] @ js ''.''),
     (''incident.graphRequestFailed'', js ''Graph '' @ [50836, 52397, 51060, 32, 49892, 54056, 54664, 49845, 45768, 45796] @ js ''. Timeline'' @ [44284, 32, 50672, 44208] @ js '' Alert '' @ [44540, 44144, 45716, 32, 44228, 49549, 32, 49324, 50857, 54624, 32, 49688, 32, 51080, 49845, 45768, 45796] @ js ''.''),
     (''incident.evidenceList'', [44288, 52769] @ js '' Evidence''),
     (''incident.evidenceSubtitle'', [47784, 46304] @ js '' Edge'' @ [50640, 49436, 32, 49324, 50857, 32, 44032, 45733, 54620] @ js '' Incident, Alert '' @ [46608, 45716] @ js '' Event '' @ [50896, 48376, 51004, 47196, 32, 51060, 46041, 54624, 32, 49688, 32, 51080, 49845, 45768, 45796]),
     (''incident.noGraphEvidence'', js ''Graph Evidence '' @ [50630, 51020]),
     (''incident.relation'', [44288, 44228]),
     (''incident.relation.contains'', [54252, 54632]),
     (''incident.relation.triggeredBy'', [49892, 54665, 32, 50976, 48156]),
     (''incident.relation.parentOf'', [49345, 50948] @ js '' Process''),
     (''incident.relation.connectedTo'', [50672, 44208]),
     (''incident.source'', [52636, 48156, 51216]),
     (''incident.target'', [46020, 52265, 51216]),
     (''incident.evidence'', [44540, 44144]),
     (''incident.observedAt'', [44288, 52769, 32, 49884, 44033]),
     (''incident.sourceRecord'', [50896, 48376] @ js '' Record''),
     (''incident.nodeType'', js ''Node '' @ [50976, 54805]),
     (''incident.process'', js ''Process''),
     (''incident.destination'', js ''Destination''),
     (''incident.protocol'', js ''Protocol''),
     (''incident.selectEvidence'', js ''Evidence '' @ [49440, 53469]),
     (''incident.processTree'', js ''Process Tree''),
     (''incident.processTreeSubtitle'', js ''Incident '' @ [44396, 44036, 50640, 49436] @ js '' Process node'' @ [47484, 32, 49440, 53469, 54620, 32, 44221, 50864, 50640, 47564, 32, 48520, 47084, 50741, 45768, 45796]),
     (''incident.selectProcess'', js ''Process node'' @ [47484, 32, 49440, 53469, 54616, 49464, 50836]),
     (''incident.selectProcessDescription'', [44288, 52769] @ js '' Process node '' @ [46608, 45716, 32, 50672, 44208] @ js '' Edge'' @ [47484, 32, 49440, 53469, 54644] @ js '' Endpoint Process Tree'' @ [47484, 32, 48520, 47084, 50724, 49464, 50836] @ js ''.''),
     (''endpoints.eyebrow'', js ''ENDPOINT SNAPSHOT''),
     (''endpoints.description'', [54224, 44592, 46108, 32, 51088, 49328, 51012, 32, 54252, 54632, 54616, 50668] @ js '' Endpoint '' @ [49345, 53468, 50752] @ js '' Backend'' @ [50640, 49436, 32, 44228, 49328, 54620] @ js '' Risk'' @ [47484, 32, 54364, 49884, 54633, 45768, 45796] @ js ''.''),
     (''endpoints.operatingSystem'', js ''OS''),
     (''endpoints.search'', js ''Endpoint '' @ [44160, 49353]),
     (''endpoints.allSystems'', [51204, 52404] @ js '' OS''),
     (''endpoints.riskLevel'', js ''Risk Level''),
     (''endpoints.allLevels'', [51204, 52404] @ js '' Level''),
     (''endpoints.riskScore'', js ''Risk '' @ [51216, 49688]),
     (''endpoints.lastSeen'', [47560, 51648, 47561, 32, 54869, 51064, 32, 49884, 44033]),
     (''endpoints.registered'', [46321, 47197, 32, 49884, 44033]),
     (''endpoints.inventory'', js ''Endpoint Inventory''),
     (''endpoints.records'', js ''Endpoint {total}'' @ [44148]),
     (''endpoints.activeAlerts'', [54876, 49457] @ js '' Alert''),
     (''endpoints.openIncidents'', js ''Open Incident''),
     (''endpoints.versionUnavailable'', [48260, 51204, 32, 51221, 48372, 32, 50630, 51020]),
     (''endpoints.stale'', [44081, 49888, 32, 51648, 50672]),
     (''endpoints.noResults'', js ''Endpoint'' @ [44032, 32, 50630, 49845, 45768, 45796]),
     (''endpoints.noFilterMatch'', [54788, 51116, 32, 54596, 53552, 50752, 32, 51068, 52824, 54616, 45716] @ js '' Endpoint'' @ [44032, 32, 50630, 49845, 45768, 45796] @ js ''.''),
     (''endpoints.noneRegistered'', [46321, 47197, 46108] @ js '' Endpoint'' @ [44032, 32, 50630, 49845, 45768, 45796] @ js ''.''),
     (''endpoint.staleWarning'', js ''Endpoint '' @ [49828, 45253, 49399, 32, 44081, 49888, 51060, 32, 51648, 50672, 46104, 50632, 49845, 45768, 45796] @ js ''. '' @ [47560, 51648, 47561, 32, 54869, 51064, 32, 49884, 44033] @ js '' {time}.''),
     (''endpoint.profile'', js ''Endpoint '' @ [51221, 48372]),
     (''endpoint.profileSubtitle'', [54788, 51116] @ js '' Agent '' @ [48143, 32, 54540, 47019, 54268, 32, 49828, 45253, 49399]),
     (''endpoint.agentVersion'', js ''Agent '' @ [48260, 51204]),
     (''endpoint.architecture'', [50500, 53412, 53581, 52376]),
     (''endpoint.capabilities'', js ''Capability''),
     (''endpoint.calculated'', [44228, 49328, 32, 49884, 44033] @ js '' {time}''),
     (''endpoint.highestAlertScore'', [52572, 44256] @ js '' Alert '' @ [51216, 49688]),
     (''endpoint.sensorHealth'', js ''Sensor Health''),
     (''endpoint.heartbeatSubtitle'', [52572, 49888] @ js '' Heartbeat '' @ [49828, 45253, 49399]),
     (''endpoint.provider'', [51228, 44277, 51088]),
     (''endpoint.packetDrops'', [54056, 53431, 32, 49552, 49892]),
     (''endpoint.parseErrors'', [54028, 49905, 32, 50724, 47448]),
     (''endpoint.noSensor'', js ''Sensor Health '' @ [51221, 48372, 44032, 32, 50630, 49845, 45768, 45796]),
     (''endpoint.noSensorDescription'', js ''Endpoint'' @ [50640, 49436] @ js '' Sensor '' @ [49828, 45253, 49399, 51012, 32, 48372, 44256, 54616, 51648, 32, 50506, 50520, 49845, 45768, 45796] @ js ''.''),
     (''endpoint.certificateHistory'', [51064, 51613, 49436, 32, 51060, 47141]),
     (''endpoint.certificateSubtitle'', [44277, 44060, 32, 51064, 51613, 49436, 32, 49885, 48324, 32, 51221, 48372, 47564, 32, 54364, 49884]),
     (''endpoint.issued'', [48156, 44553, 32, 49884, 44033]),
     (''endpoint.expires'', [47564, 47308, 32, 49884, 44033]),
     (''endpoint.revoked'', [54224, 44592, 32, 49884, 44033]),
     (''endpoint.noCertificates'', [51064, 51613, 49436, 32, 51060, 47141, 51060, 32, 50630, 49845, 45768, 45796]),
     (''endpoint.noCertificatesDescription'', [51060] @ js '' Endpoint'' @ [50640, 49436, 32, 51312, 54924, 54624, 32, 49688, 32, 51080, 45716, 32, 51064, 51613, 49436, 32, 44592, 47197, 51060, 32, 50630, 49845, 45768, 45796] @ js ''.''),
     (''endpoint.switcher'', js ''Endpoint '' @ [51204, 54872]),
     (''endpoint.switcherPlaceholder'', js ''Hostname, Agent ID '' @ [46608, 45716, 32, 51221, 54869, 54620] @ js '' Endpoint ID''),
     (''endpoint.switcherError'', js ''Endpoint '' @ [44160, 49353, 50640, 32, 49892, 54056, 54664, 49845, 45768, 45796] @ js ''. '' @ [45796, 49884, 32, 49884, 46020, 54616, 49464, 50836] @ js ''.''),
     (''endpoint.switcherEmpty'', [44160, 49353, 44284, 32, 51068, 52824, 54616, 45716] @ js '' Endpoint'' @ [44032, 32, 50630, 49845, 45768, 45796] @ js ''.''),
     (''endpoint.current'', [54788, 51116] @ js '' Endpoint {endpointId}''),
     (''endpoint.relatedEvidence'', [44288, 47144] @ js '' Evidence''),
     (''endpoint.relatedEvidenceSubtitle'', js ''Backend count'' @ [50752, 32, 49548, 50976, 32, 47785, 47197, 51004, 47196, 32, 51060, 46041, 54616, 45716, 32, 47553, 53356]),
     (''endpoint.recentEvents'', [52572, 44540] @ js '' Event''),
     (''endpoint.openRecentEvents'', [52572, 44540] @ js '' Event '' @ [50676, 44592]),
     (''endpoint.processTreeEntry'', js ''Process Tree'' @ [50640, 32, 54596, 50836, 54620, 32, 49884, 44036, 32, 44396, 44036, 51012, 32, 54869, 48372, 54616, 47140, 47732] @ js '' Event'' @ [47484, 32, 49440, 53469, 54616, 49464, 50836] @ js ''.''),
     (''endpoint.chooseEvent'', js ''Event '' @ [49440, 53469]),
     (''endpoint.certificateAnomaly'', [44160, 53664, 44032, 32, 54596, 50836, 54620, 32, 51064, 51613, 49436]),
     (''events.description'', js ''HOT ClickHouse '' @ [48143, 32, 51649, 51217, 32, 51069, 51008] @ js '' RESTORED Parquet Event'' @ [47484, 32, 54364, 49884, 54633, 45768, 45796] @ js ''.''),
     (''events.type'', js ''Event '' @ [50976, 54805]),
     (''events.allTypes'', [51204, 52404, 32, 50976, 54805]),
     (''events.stream'', js ''Event Stream''),
     (''events.records'', js ''Event {total}'' @ [44148]),
     (''events.occurred'', [48156, 49373, 32, 49884, 44033]),
     (''events.ingested'', [49688, 51665, 32, 49884, 44033]),
     (''events.noResults'', js ''Event'' @ [44032, 32, 50630, 49845, 45768, 45796]),
     (''events.noFilterMatch'', [54788, 51116, 32, 54596, 53552, 50752, 32, 51068, 52824, 54616, 45716] @ js '' Event'' @ [44032, 32, 50630, 49845, 45768, 45796] @ js ''.''),
     (''events.noneInRange'', [49440, 53469, 54620, 32, 44592, 44036, 50640, 32, 51312, 54924, 32, 44032, 45733, 54620] @ js '' Event'' @ [44032, 32, 50630, 49845, 45768, 45796] @ js ''.''),
     (''event.routingMissing'', js ''Event '' @ [44221, 47196, 32, 51221, 48372, 44032, 32, 50630, 49845, 45768, 45796]),
     (''event.routingDescription'', js ''endpointId'' @ [50752] @ js '' occurredAt'' @ [51060] @ js '' URL query'' @ [50640, 32, 50976, 51648, 46104, 46020, 47197] @ js '' Event '' @ [47785, 47197, 50640, 49436, 32, 51060] @ js '' Event'' @ [47484, 32, 50668, 49464, 50836] @ js ''.''),
     (''event.return'', js ''Events'' @ [47196, 32, 46028, 50500, 44032, 44592]),
     (''event.occurred'', [48156, 49373, 32, 49884, 44033]),
     (''event.ingested'', [49688, 51665, 32, 49884, 44033]),
     (''event.processName'', js ''Process '' @ [51060, 47492]),
     (''event.processPath'', js ''Process '' @ [44221, 47196]),
     (''event.commandLine'', js ''Command Line''),
     (''event.user'', [49324, 50857, 51088]),
     (''event.filePath'', js ''File '' @ [44221, 47196]),
     (''event.fileAction'', js ''File '' @ [46041, 51089]),
     (''event.dnsAnswers'', js ''DNS '' @ [51025, 45813]),
     (''event.normalized'', [51221, 44508, 54868] @ js '' Event''),
     (''event.normalizedSubtitle'', [54596, 49688, 32, 48143] @ js '' nullable Event DTO '' @ [54596, 46300]),
     (''event.payloadIdentity'', js ''Payload '' @ [49885, 48324, 32, 51221, 48372]),
     (''event.payloadSubtitle'', js ''Packet '' @ [46608, 45716] @ js '' PCAP byte'' @ [45716, 32, 54364, 49884, 54616, 51648, 32, 50506, 51020]),
     (''event.schemaVersion'', js ''Schema '' @ [48260, 51204]),
     (''event.rawPayload'', [50896, 48376] @ js '' Payload''),
     (''event.rawPayloadSubtitle'', [51221, 44508, 54868] @ js '' Metadata Event JSON''),
     (''event.processTree'', js ''Process Tree'')]"

definition korean_7 :: translation_table where
  "korean_7 =
    [(''event.processTreeSubtitle'', [54788, 51116] @ js '' Event '' @ [51204] @ js '' 30'' @ [48516, 48512, 53552, 32, 54980] @ js '' 5'' @ [48516, 44620, 51648, 32, 49688, 51665, 46108] @ js '' Event '' @ [44592, 48152] @ js '' PID/PPID '' @ [44228, 48372]),
     (''event.rawPayloadCollapsed'', [44592, 48376, 32, 51217, 55192, 32, 183, 32, 51064, 49604, 32, 51228, 50808]),
     (''event.searchPayload'', js ''Raw Payload '' @ [44160, 49353]),
     (''event.payloadMatches'', [51068, 52824] @ js '' {count}'' @ [44148]),
     (''event.copyPayload'', js ''JSON '' @ [48373, 49324]),
     (''event.copied'', [48373, 49324, 46120]),
     (''event.groupIdentity'', [49885, 48324, 32, 51221, 48372, 50752, 32, 49884, 44033]),
     (''event.groupIdentitySubtitle'', [44277, 53685] @ js '' Event, Endpoint, Agent '' @ [48143] @ js '' timestamp field''),
     (''event.groupProcess'', js ''Process'' @ [50752, 32, 49324, 50857, 51088]),
     (''event.groupProcessSubtitle'', js ''Process '' @ [44228, 48372, 50752, 32, 49892, 54665] @ js '' Context''),
     (''event.groupFile'', js ''File '' @ [54876, 46041]),
     (''event.groupFileSubtitle'', js ''File '' @ [44221, 47196] @ js '', '' @ [46041, 51089, 32, 48143] @ js '' hash Evidence''),
     (''event.groupNetwork'', js ''Network Destination''),
     (''event.groupNetworkSubtitle'', [44288, 52769, 46108] @ js '' remote '' @ [51452, 49548, 50752] @ js '' protocol field''),
     (''event.groupDns'', js ''DNS Evidence''),
     (''event.groupDnsSubtitle'', js ''Query, response'' @ [50752, 32, 49688, 51665, 46108] @ js '' answer''),
     (''event.groupHttpTls'', js ''HTTP'' @ [50752] @ js '' TLS''),
     (''event.groupHttpTlsSubtitle'', [44288, 52769, 46108] @ js '' L7 request'' @ [50752, 32, 51064, 51613, 49436] @ js '' metadata''),
     (''event.observedFallback'', js ''{eventType} '' @ [44288, 52272]),
     (''events.typeDetail'', js ''Event '' @ [49345, 49464]),
     (''operations.eyebrow'', [49688, 51665, 32, 49345, 53468]),
     (''operations.description'', [49892, 49884, 44036, 32, 51032, 51316, 32, 49436, 48708, 49828, 32, 51216, 44160] @ js '', Kafka Worker Lag, '' @ [49688, 51665, 32, 52572, 49888, 49457, 44284] @ js '' Storage Lifecycle'' @ [51012, 32, 54364, 49884, 54633, 45768, 45796] @ js ''.''),
     (''operations.archiveAction'', js ''Archive Operations''),
     (''operations.ingestedEvents'', [49688, 51665, 46108] @ js '' Event''),
     (''operations.failed'', [49892, 54056]),
     (''operations.reprocessed'', [51116, 48156, 54665, 32, 50756, 47308]),
     (''operations.reprocessFailed'', [51116, 52376, 47532, 32, 49892, 54056]),
     (''operations.reprocessedDetail'', js ''CLI '' @ [51116, 48156, 54665, 51012] @ js '' Kafka'' @ [44032, 32, 49849, 51064, 54632] @ js ''('' @ [54980, 49549, 32, 52376, 47532, 50752, 32, 48324, 46020] @ js '')''),
     (''operations.reprocessFailedDetail'', js ''CLI '' @ [51116, 52376, 47532, 32, 49892, 54056]),
     (''operations.storageLifecycle'', js ''STORAGE LIFECYCLE''),
     (''operations.storageSubtitle'', [54788, 51116] @ js '' ingest_metadata '' @ [44148, 49688]),
     (''operations.boundary'', [50868, 50689, 32, 48276, 50948]),
     (''operations.boundarySubtitle'', [49892, 54056, 32, 51116, 52376, 47532, 45716] @ js '' CLI'' @ [50640, 49436, 47564, 32, 44032, 45733]),
     (''operations.noWebReplay'', js ''DLQ Monitor '' @ [48143] @ js '' Web '' @ [51116, 52376, 47532, 32, 44592, 45733, 32, 50630, 51020]),
     (''operations.boundaryDescription'', [51060, 32, 54868, 47732, 51008, 32, 44228, 50557, 46108, 32, 50836, 50557, 32, 44148, 49688, 50752] @ js '' Archive Lifecycle '' @ [51089, 50629, 47564, 32, 51228, 44277, 54633, 45768, 45796] @ js ''.''),
     (''operations.refreshing'', [49352, 47196, 44256, 52840, 32, 51473]),
     (''operations.refreshLive'', [49892, 49884, 44036, 32, 49345, 53468, 32, 49352, 47196, 44256, 52840]),
     (''operations.failureStatus'', [49892, 54056, 32, 49345, 53468]),
     (''operations.stage'', js ''Stage''),
     (''operations.retryable'', [51116, 49884, 46020, 32, 44032, 45733]),
     (''operations.all'', [51204, 52404]),
     (''operations.notRetryable'', [51116, 49884, 46020, 32, 48520, 44032]),
     (''operations.failureQueue'', js ''Failure Queue''),
     (''operations.failureQueueSubtitle'', [51069, 44592, 32, 51204, 50857] @ js '' Failure Sink'' @ [51060, 47728, 32, 51116, 52376, 47532, 45716] @ js '' CLI'' @ [50640, 49436, 47564, 32, 49688, 54665, 54633, 45768, 45796]),
     (''operations.eventFailureQueue'', js ''Event Failure Queue''),
     (''operations.failure'', js ''Failure''),
     (''operations.retry'', [51116, 49884, 46020]),
     (''operations.error'', [50724, 47448]),
     (''operations.failedAt'', [49892, 54056, 32, 49884, 44033]),
     (''operations.no'', [50500, 45768, 50836]),
     (''operations.attempts'', js ''{count}'' @ [54924, 32, 49884, 46020]),
     (''operations.uncoded'', [53076, 46300, 32, 50630, 51020]),
     (''operations.noFailureRows'', js ''Failure'' @ [44032, 32, 50630, 49845, 45768, 45796]),
     (''operations.noFailureRowsDescription'', [54788, 51116, 32, 54596, 53552, 50752, 32, 51068, 52824, 54616, 45716] @ js '' Event Failure'' @ [44032, 32, 50630, 49845, 45768, 45796] @ js ''.''),
     (''operations.liveControlPlane'', [49892, 49884, 44036] @ js '' Control Plane''),
     (''operations.checked'', [54869, 51064, 32, 49884, 44033] @ js '' {time}''),
     (''operations.serviceHealth'', [49436, 48708, 49828, 32, 49345, 53468]),
     (''operations.serviceHealthSubtitle'', [50836, 52397, 32, 49884, 51216, 32, 51216, 44160, 51060, 47728, 32, 44284, 44144, 32, 49345, 53468, 45716, 32, 51200, 51109, 54616, 51648, 32, 50506, 49845, 45768, 45796]),
     (''operations.pipelineWorkers'', js ''Pipeline Worker''),
     (''operations.pipelineWorkersSubtitle'', js ''Kafka Consumer '' @ [47716, 48260, 49901, 44284, 32, 54788, 51116] @ js '' committed-offset Lag''),
     (''operations.pipelineWorkerHealth'', js ''Pipeline Worker '' @ [49345, 53468]),
     (''operations.members'', [47716, 48260, 32, 49688]),
     (''operations.brokerState'', js ''Broker '' @ [49345, 53468]),
     (''operations.unknown'', [50508, 32, 49688, 32, 50630, 51020]),
     (''operations.ingestFreshness'', js ''{rate}/'' @ [48516, 32, 183, 32, 47560, 51648, 47561, 32, 49688, 51665] @ js '' {time} '' @ [183] @ js '' {minutes}'' @ [48516, 32, 51204]),
     (''operations.noIngestedInRange'', [49440, 53469, 54620, 32, 44592, 44036, 50640, 32, 49688, 51665, 46108] @ js '' Event'' @ [44032, 32, 50630, 49845, 45768, 45796]),
     (''operations.failureRate'', js ''{rate}/'' @ [48516, 32, 183, 32, 44032, 51109, 32, 50724, 47000, 46108, 32, 49892, 54056] @ js '' {time}''),
     (''operations.ingestPartial'', js ''Ingest '' @ [48143] @ js '' Storage '' @ [50836, 50557, 51012, 32, 49324, 50857, 54624, 32, 49688, 32, 50630, 49845, 45768, 45796] @ js ''. '' @ [49892, 49884, 44036] @ js '' Service'' @ [50752] @ js '' Worker '' @ [51216, 44160, 51008, 32, 44228, 49549, 32, 54364, 49884, 54633, 45768, 45796] @ js ''.''),
     (''operations.healthPartial'', [49892, 49884, 44036] @ js '' Service '' @ [48143] @ js '' Worker '' @ [51216, 44160, 51012, 32, 49324, 50857, 54624, 32, 49688, 32, 50630, 49845, 45768, 45796] @ js ''. Ingest, Failure '' @ [48143] @ js '' Storage '' @ [50836, 50557, 51008, 32, 44228, 49549, 32, 54364, 49884, 54633, 45768, 45796] @ js ''.''),
     (''operations.currentPipelineSnapshot'', [54788, 51116] @ js '' Pipeline '' @ [49828, 45253, 49399]),
     (''operations.currentPipelineSnapshotSubtitle'', [47928, 51228, 32, 50689, 50669, 51012, 32, 47676, 51200, 32, 54364, 49884, 54616, 47728, 32, 51312, 54924, 32, 49884, 51216, 32, 49345, 53468, 32, 47785, 47197, 51060, 51648, 32, 44284, 44144] @ js '' Flow'' @ [44032, 32, 50500, 45785, 45768, 45796]),
     (''operations.stageCOLLECTION'', js ''Collection''),
     (''operations.stageDETECTION'', js ''Detection''),
     (''operations.stageSTORAGE'', js ''Storage''),
     (''operations.collectionEvents'', [49688, 51665] @ js '' Event {count}'' @ [44148]),
     (''operations.collectionLatest'', [47560, 51648, 47561] @ js '' Event {time}''),
     (''operations.detectionWorkers'', js ''Worker {count}'' @ [44060, 32, 183, 32, 51204, 52404] @ js '' Lag {lag}''),
     (''operations.detectionFailures'', [54788, 51116] @ js '' Failure {count}'' @ [44148]),
     (''operations.storageBuckets'', [52628, 51201] @ js '' Bucket {count}'' @ [44060]),
     (''operations.storageExceptions'', js ''Restore '' @ [51473] @ js '' {restoring} '' @ [183, 32, 49892, 54056] @ js '' {failed}''),
     (''operations.snapshotCaveat'', js ''{time} '' @ [54869, 51064, 32, 49828, 45253, 49399, 51077, 45768, 45796] @ js ''. Stage'' @ [47484, 32, 50880, 51649, 51060, 45716, 32, 44284, 44144] @ js '' Flow'' @ [47196, 32, 54364, 54788, 54616, 51648, 32, 50506, 49845, 45768, 45796] @ js ''.''),
     (''operations.collectionPath'', [45796, 44228, 52789, 32, 49688, 51665, 32, 44221, 47196]),
     (''operations.collectionPathSubtitle'', js ''Agent Evidence'' @ [48512, 53552] @ js '' Detection '' @ [51200, 51109, 44620, 51648]),
     (''operations.collectionPathCaveat'', [44033, 32, 49345, 53468, 45716, 32, 54788, 51116] @ js '' Operations '' @ [44228, 50557, 50640, 49436, 32, 44032, 51256, 50741, 45768, 45796] @ js ''. NO PROBE'' @ [45716, 32, 49892, 49884, 44036] @ js '' Health Signal'' @ [51060, 32, 50630, 45716, 32, 50500, 53412, 53581, 52376, 32, 44228, 52789, 51077, 45768, 45796] @ js ''.''),
     (''operations.pathAgent'', js ''Windows / macOS Agent''),
     (''operations.pathCollector'', js ''Collector API''),
     (''operations.pathStorageWorker'', js ''Event Storage Worker''),
     (''operations.pathDetectionWorker'', js ''Detection Worker''),
     (''operations.noHealthProbe'', [44228, 50557, 46108, 32, 49892, 49884, 44036] @ js '' Health Probe '' @ [50630, 51020]),
     (''operations.backendResponding'', [51064, 51613, 46108] @ js '' Operations Endpoint'' @ [44032, 32, 51221, 49345, 32, 51025, 45813, 32, 51473, 51077, 45768, 45796] @ js ''.''),
     (''operations.liveProbeSucceeded'', [49892, 49884, 44036, 32, 51032, 51316, 49457, 32, 51216, 44160, 50640, 32, 49457, 44277, 54664, 49845, 45768, 45796] @ js ''.''),
     (''operations.liveProbeFailedPlain'', [49892, 49884, 44036, 32, 51032, 51316, 49457, 32, 51216, 44160, 50640, 32, 49892, 54056, 54664, 49845, 45768, 45796] @ js ''.''),
     (''operations.liveProbeFailed'', [49892, 49884, 44036, 32, 51032, 51316, 49457, 32, 51216, 44160, 50640, 32, 49892, 54056, 54664, 49845, 45768, 45796] @ js ''({error}).''),
     (''operations.workerProbeFailedPlain'', js ''Worker '' @ [51216, 44160, 50640, 32, 49892, 54056, 54664, 49845, 45768, 45796] @ js ''.''),
     (''operations.workerProbeFailed'', js ''Worker '' @ [51216, 44160, 50640, 32, 49892, 54056, 54664, 49845, 45768, 45796] @ js ''({error}).''),
     (''operations.brokerGroupState'', js ''Broker Group '' @ [49345, 53468] @ js '': {state}''),
     (''operations.memberLag'', [47716, 48260] @ js '' {count}'' @ [44060, 32, 183] @ js '' Lag {lag}''),
     (''operations.problemSummary'', [54788, 51116, 32, 47928, 51228, 32, 50836, 50557]),
     (''operations.problemSummaryDescription'', [47928, 51228, 32, 50689, 50669, 32, 50864, 49440, 32, 183, 32, 51312, 54924, 32, 49884, 51216, 32, 49345, 53468]),
     (''processTree.empty'', js ''Process '' @ [44228, 48372, 44032, 32, 50630, 49845, 45768, 45796]),
     (''processTree.emptyDescription'', [51452, 48320] @ js '' 35'' @ [48516, 32, 44396, 44036, 50640, 32, 49688, 51665, 46108] @ js '' PROCESS_EXECUTION Event'' @ [44032, 32, 50630, 49845, 45768, 45796] @ js ''.''),
     (''processTree.aria'', [49688, 51665, 46108] @ js '' Process '' @ [44228, 48372]),
     (''processTree.commandUnavailable'', js ''Command Line '' @ [51221, 48372, 32, 50630, 51020]),
     (''processTree.metadata'', js ''{time} '' @ [183] @ js '' PID {pid} '' @ [183] @ js '' PPID {ppid} '' @ [183] @ js '' Event {count}'' @ [44148]),
     (''processTree.selectedPid'', [49440, 53469, 54620] @ js '' PID''),
     (''processTree.parentNotCaptured'', [49345, 50948] @ js '' Process '' @ [48120, 49688, 51665]),
     (''intelligence.description'', [44592, 51316] @ js '' Event '' @ [48143] @ js '' Alert '' @ [44540, 44144, 50640, 49436, 32, 44228, 49328, 54620] @ js '' MITRE '' @ [47588, 54609, 44284] @ js '' Endpoint Egress '' @ [44288, 44228, 47484, 32, 54364, 49884, 54633, 45768, 45796] @ js ''.''),
     (''intelligence.mappedTactics'', [47588, 54609, 46108] @ js '' Tactic''),
     (''intelligence.mitreTactics'', js ''MITRE Tactic''),
     (''intelligence.mappedTechniques'', [47588, 54609, 46108] @ js '' Technique''),
     (''intelligence.mitreTechniques'', js ''MITRE Technique''),
     (''intelligence.observedEgress'', js ''Egress'' @ [44032, 32, 44288, 52272, 46108] @ js '' Endpoint''),
     (''intelligence.topologyNodes'', js ''Topology Node''),
     (''intelligence.uniqueRelationships'', [44256, 50976] @ js '' Endpoint-'' @ [53685, 49888, 32, 47785, 51201, 51648, 32, 44288, 44228]),
     (''intelligence.egressEdges'', js ''Egress Edge''),
     (''intelligence.alertDistribution'', js ''Alert '' @ [49828, 45253, 49399, 32, 48516, 54252]),
     (''intelligence.topDomains'', [49345, 50948] @ js '' Domain''),
     (''intelligence.topRemoteIps'', [49345, 50948] @ js '' Remote IP''),
     (''intelligence.topProcesses'', [49345, 50948] @ js '' Process''),
     (''intelligence.normalizedValues'', [51221, 44508, 54868] @ js '' Event '' @ [44050]),
     (''intelligence.egressTopology'', js ''Endpoint Egress Topology''),
     (''intelligence.egressSubtitle'', js ''Event '' @ [48143] @ js '' Alert '' @ [44148, 49688, 47564, 32, 54364, 49884, 54616, 47728] @ js '' Traffic Byte '' @ [50577, 51008, 32, 52628, 47200, 54616, 51648, 32, 50506, 49845, 45768, 45796]),
     (''intelligence.noRelationships'', js ''Egress '' @ [44288, 44228, 44032, 32, 50630, 49845, 45768, 45796]),
     (''intelligence.noRelationshipsDescription'', [51068, 52824, 54616, 45716] @ js '' Network, DNS '' @ [46608, 45716] @ js '' L7 Event Target'' @ [51060, 32, 50630, 49845, 45768, 45796] @ js ''.''),
     (''intelligence.relationships'', js ''Endpoint Egress '' @ [44288, 44228]),
     (''intelligence.source'', js ''Source''),
     (''intelligence.target'', js ''Target''),
     (''intelligence.destination'', [53685, 49888, 32, 47785, 51201, 51648]),
     (''intelligence.summaryUnavailable'', js ''MITRE '' @ [48143] @ js '' Top-N '' @ [50836, 50557, 51012, 32, 49324, 50857, 54624, 32, 49688, 32, 50630, 49845, 45768, 45796] @ js ''. Egress '' @ [44540, 44144, 45716, 32, 44228, 49549, 32, 54869, 51064, 54624, 32, 49688, 32, 51080, 49845, 45768, 45796] @ js ''.''),
     (''intelligence.topologyUnavailable'', js ''Egress Topology'' @ [47484, 32, 49324, 50857, 54624, 32, 49688, 32, 50630, 49845, 45768, 45796] @ js ''. MITRE '' @ [48143] @ js '' Top-N '' @ [44540, 44144, 45716, 32, 44228, 49549, 32, 54869, 51064, 54624, 32, 49688, 32, 51080, 49845, 45768, 45796] @ js ''.''),
     (''intelligence.mitreMatrix'', js ''MITRE Matrix''),
     (''intelligence.mitreMatrixSubtitle'', [54788, 51116] @ js '' Alert '' @ [49828, 45253, 49399, 51032] @ js '' Tactic '' @ [48143] @ js '' Technique '' @ [44148, 49688, 51060, 47728, 32, 51064, 44284, 32, 44221, 47196, 47484, 32, 52628, 47200, 54616, 51648, 32, 50506, 49845, 45768, 45796]),
     (''intelligence.currentAlertSnapshot'', [54788, 51116] @ js '' ALERT '' @ [49828, 45253, 49399]),
     (''intelligence.observedTactics'', [44288, 52769] @ js '' Tactic''),
     (''intelligence.observedTechniques'', [44288, 52769] @ js '' Technique''),
     (''intelligence.coverageUnavailable'', js ''Coverage '' @ [48120, 51648, 50896]),
     (''intelligence.coverageUnavailableDescription'', [54876, 49457] @ js '' RuleV1 Technique Catalog API '' @ [54596, 50836]),
     (''intelligence.mitreSelectPrompt'', js ''Tactic '' @ [46608, 45716] @ js '' Technique'' @ [51012, 32, 49440, 53469, 54644, 32, 54788, 51116] @ js '' Alert '' @ [44148, 49688, 47484, 32, 54869, 51064, 54616, 49464, 50836] @ js ''.''),
     (''intelligence.selectedContext'', [49440, 53469] @ js '' Context''),
     (''intelligence.mappingType'', js ''Mapping '' @ [50976, 54805]),
     (''intelligence.mappingCode'', js ''Mapping '' @ [53076, 46300]),
     (''intelligence.alertCount'', js ''Alert '' @ [44148, 49688]),
     (''intelligence.eventCount'', js ''Event '' @ [44148, 49688]),
     (''intelligence.timeRange'', [51312, 54924, 32, 44592, 44036]),
     (''intelligence.nothingSelected'', [49440, 53469, 32, 54637, 47785, 32, 50630, 51020]),
     (''intelligence.openTableFallback'', js ''Semantic Table fallback '' @ [50676, 44592]),
     (''intelligence.mitreTableFallback'', js ''MITRE Mapping Table fallback''),
     (''intelligence.rulesSignals'', js ''Rule '' @ [48143] @ js '' Signal Top-N''),
     (''intelligence.topNSubtitle'', [46041, 51068, 32, 51312, 54924, 32, 49884, 51216, 32, 49828, 45253, 49399, 51032, 32, 49692, 50948, 48324, 32, 44148, 49688]),
     (''intelligence.rules'', js ''Rule'')]"

definition korean_8 :: translation_table where
  "korean_8 =
    [(''intelligence.signals'', js ''Signal''),
     (''intelligence.alertsCount'', js ''Alert {count}'' @ [44148]),
     (''intelligence.noMappings'', js ''MITRE Mapping'' @ [51060, 32, 50630, 49845, 45768, 45796]),
     (''intelligence.noMappingsDescription'', [51060, 32, 44592, 44036, 50640, 32, 44288, 52272, 46108] @ js '' Tactic '' @ [46608, 45716] @ js '' Technique Mapping'' @ [51060, 32, 50630, 49845, 45768, 45796] @ js ''.''),
     (''intelligence.searchTopology'', js ''Topology '' @ [44160, 49353]),
     (''intelligence.topN'', [49345, 50948, 32, 44288, 44228, 32, 49688]),
     (''intelligence.expandTopology'', js ''Endpoint Egress Topology'' @ [47484, 32, 53360, 32, 54868, 47732, 51004, 47196, 32, 50676, 44592]),
     (''intelligence.expandedTopology'', js ''Endpoint Egress Topology '' @ [8212, 32, 53360, 32, 54868, 47732]),
     (''intelligence.closeExpandedTopology'', [53360] @ js '' Endpoint Egress Topology '' @ [45803, 44592]),
     (''intelligence.noFilteredRelationships'', [51068, 52824, 54616, 45716, 32, 44288, 44228, 44032, 32, 50630, 49845, 45768, 45796]),
     (''intelligence.noFilteredRelationshipsDescription'', js ''Topology '' @ [44160, 49353, 50612, 45208] @ js '' Top-N '' @ [51228, 54620, 51012, 32, 48320, 44221, 54616, 49464, 50836] @ js ''.''),
     (''intelligence.legend'', [48276, 47168]),
     (''intelligence.observedEdge'', [44288, 52272, 46108, 32, 44288, 44228]),
     (''intelligence.alertBearingEdge'', js ''Alert'' @ [44032, 32, 54252, 54632, 46108, 32, 44288, 44228]),
     (''intelligence.countsNotTraffic'', js ''Label'' @ [51008] @ js '' Event '' @ [48143] @ js '' Alert '' @ [44148, 49688, 51060, 47728] @ js '' Traffic '' @ [50577, 51060, 32, 50500, 45785, 45768, 45796] @ js ''.''),
     (''intelligence.graphAria'', js ''Endpoint Egress Topology Graph''),
     (''intelligence.domainGroup'', [46020, 47700, 51064, 32, 44536, 47353]),
     (''intelligence.hosts'', [54840, 49828, 53944]),
     (''intelligence.hostCount'', [54840, 49828, 53944, 32, 49688]),
     (''intelligence.groupedDomainCaveat'', [54805, 51228] @ js '' Subdomain'' @ [51008, 32, 46321, 47197, 32, 44032, 45733] @ js '' Domain '' @ [44592, 51456, 51004, 47196, 32, 47926, 44256] @ js '', Evidence Table'' @ [50640, 45716, 32, 51221, 54869, 54620] @ js '' Target'' @ [51012, 32, 50976, 51648, 54633, 45768, 45796] @ js ''.''),
     (''intelligence.groupedDomainDescription'', js ''Graph '' @ [44032, 46021, 49457, 51012, 32, 50948, 54644, 32, 54805, 51228] @ js '' Subdomain'' @ [51012, 32, 47926, 50632, 49845, 45768, 45796] @ js ''. '' @ [51221, 54869, 54620] @ js '' Host'' @ [45716, 32, 44536, 47353, 51012, 32, 54204, 52432, 32, 54869, 51064, 54624, 32, 49688, 32, 51080, 49845, 45768, 45796] @ js ''.''),
     (''intelligence.showSubdomains'', js ''Subdomain {count}'' @ [44060, 32, 54204, 52824, 44592]),
     (''intelligence.collapseSubdomains'', js ''{domain}('' @ [51004] @ js '')'' @ [47196, 32, 47926, 44592]),
     (''intelligence.tableFallback'', js ''TABLE FALLBACK''),
     (''intelligence.graphDisabled'', js ''Topology Graph'' @ [44032, 32, 48708, 54876, 49457, 54868, 46120]),
     (''intelligence.graphDisabledDescription'', js ''Inspector'' @ [50752] @ js '' Evidence Table'' @ [50640, 49436, 32, 46041, 51068, 54620, 32, 44228, 50557, 32, 51221, 48372, 47484, 32, 44228, 49549, 32, 54869, 51064, 54624, 32, 49688, 32, 51080, 49845, 45768, 45796] @ js ''.''),
     (''intelligence.observedOnly'', [44288, 52272, 32, 44148, 49688]),
     (''intelligence.relationship'', [44288, 44228]),
     (''intelligence.lastObserved'', [47560, 51648, 47561, 32, 44288, 52272]),
     (''intelligence.openEndpoint'', js ''Endpoint '' @ [50676, 44592]),
     (''intelligence.observedTargetDescription'', js ''Event '' @ [44540, 44144, 50640, 49436, 32, 44288, 52272, 46108, 32, 53685, 49888, 32, 47785, 51201, 51648, 51077, 45768, 45796] @ js ''. Domain, HTTP Host, TLS SNI, IP '' @ [46608, 45716] @ js '' DNS Query'' @ [51068, 32, 49688, 32, 51080, 49845, 45768, 45796] @ js ''.''),
     (''intelligence.nodeType'', js ''Node '' @ [50976, 54805]),
     (''intelligence.topologySelectPrompt'', js ''Node, Edge '' @ [46608, 45716] @ js '' Evidence '' @ [54665, 51012, 32, 49440, 53469, 54644, 32, 44228, 50557, 46108] @ js '' field'' @ [47484, 32, 54869, 51064, 54616, 49464, 50836] @ js ''.''),
     (''intelligence.correlationTitle'', js ''IP '' @ [48143] @ js '' Domain '' @ [49345, 44288, 44288, 44228]),
     (''intelligence.correlationSubtitle'', js ''Live DNS '' @ [54980, 48372, 50752] @ js '' Event '' @ [44540, 44144, 50640, 49436, 32, 51060, 48120, 32, 44288, 52272, 46108] @ js '' IP '' @ [48143] @ js '' Domain '' @ [44288, 44228, 47484, 32, 54632, 44760, 32, 54364, 49884, 54633, 45768, 45796]),
     (''intelligence.correlationValue'', js ''IP '' @ [46608, 45716] @ js '' Domain''),
     (''intelligence.correlationPlaceholder'', js ''8.8.8.8 '' @ [46608, 45716] @ js '' yahoo.com''),
     (''intelligence.lookup'', [44288, 44228, 32, 51312, 54924]),
     (''intelligence.tryObservedSignal'', [44288, 52272, 46108] @ js '' Signal'' @ [47196, 32, 51312, 54924]),
     (''intelligence.correlationReady'', js ''IP '' @ [46608, 45716] @ js '' Domain'' @ [51012, 32, 49440, 53469, 54616, 49464, 50836]),
     (''intelligence.correlationReadyDescription'', [51649, 51217, 32, 44160, 49353, 54616, 44144, 45208, 32, 54788, 51116, 32, 44592, 44036, 51032, 32, 49345, 50948] @ js '' Domain '' @ [46608, 45716] @ js '' Remote IP'' @ [47484, 32, 49440, 53469, 54616, 49464, 50836] @ js ''.''),
     (''intelligence.noCorrelation'', [50672, 44288, 32, 44050, 51012, 32, 52286, 51648, 32, 47803, 54664, 49845, 45768, 45796]),
     (''intelligence.noCorrelationDescription'', js ''Live DNS'' @ [50752, 32, 49440, 53469, 54620] @ js '' Event '' @ [44540, 44144, 50640, 32, 51068, 52824, 54616, 45716] @ js '' IP '' @ [46608, 45716] @ js '' Domain '' @ [44288, 44228, 44032, 32, 50630, 49845, 45768, 45796] @ js ''.''),
     (''intelligence.relatedCount'', [50672, 44288, 32, 44050] @ js '' {count}'' @ [44060]),
     (''intelligence.correlationLegend'', js ''DNS '' @ [44288, 44228, 32, 48276, 47168]),
     (''intelligence.inputNode'', [44160, 49353, 32, 51077, 47141, 44050]),
     (''intelligence.ptrCaveat'', js ''PTR '' @ [51060, 47492, 51008, 32, 54980, 48372, 51060, 47728, 32, 50896, 47000] @ js '' IP'' @ [47484, 32, 45824, 52404, 54616, 51648, 32, 50506, 49845, 45768, 45796] @ js ''.''),
     (''intelligence.correlationGraphAria'', js ''IP '' @ [48143] @ js '' Domain '' @ [49345, 44288, 44288, 44228] @ js '' Graph''),
     (''intelligence.expandCorrelation'', js ''IP '' @ [48143] @ js '' Domain '' @ [49345, 44288, 44288, 44228] @ js '' Graph'' @ [47484, 32, 53360, 32, 54868, 47732, 51004, 47196, 32, 50676, 44592]),
     (''intelligence.expandedCorrelation'', js ''IP '' @ [48143] @ js '' Domain '' @ [49345, 44288, 44288, 44228, 32, 8212, 32, 53360, 32, 54868, 47732]),
     (''intelligence.closeExpandedCorrelation'', [53360] @ js '' IP '' @ [48143] @ js '' Domain '' @ [49345, 44288, 44288, 44228] @ js '' Graph '' @ [45803, 44592]),
     (''intelligence.correlationGraphScope'', js ''Graph'' @ [50640, 45716, 32, 44288, 44228] @ js '' {total}'' @ [44060, 32, 51473] @ js '' {visible}'' @ [44060, 47484, 32, 54364, 49884, 54633, 45768, 45796] @ js ''. '' @ [51204, 52404, 32, 44288, 44228, 45716] @ js '' Table'' @ [50640, 32, 50976, 51648, 46121, 45768, 45796] @ js ''.''),
     (''intelligence.correlationGraphDisabled'', [49345, 44288, 44288, 44228] @ js '' Graph'' @ [44032, 32, 48708, 54876, 49457, 54868, 46120]),
     (''intelligence.correlationGraphDisabledDescription'', js ''Inspector'' @ [50752, 32, 44288, 44228] @ js '' Table'' @ [50640, 49436, 32, 46041, 51068, 54620, 32, 44540, 44144, 47484, 32, 44228, 49549, 32, 54869, 51064, 54624, 32, 49688, 32, 51080, 49845, 45768, 45796] @ js ''.''),
     (''intelligence.evidenceSource'', [44540, 44144] @ js '' Source''),
     (''intelligence.ipNodeDescription'', js ''IP'' @ [47484, 32, 54980, 48372] @ js '' Domain'' @ [44284, 32, 54632, 44760, 32, 50976, 51648, 54644, 32, 54364, 49884, 54633, 45768, 45796] @ js ''.''),
     (''intelligence.domainNodeDescription'', js ''Live DNS '' @ [46608, 45716, 32, 44288, 52272, 46108] @ js '' Event '' @ [44540, 44144, 50640, 49436, 32, 48152, 54872, 46108] @ js '' Domain '' @ [44050, 51077, 45768, 45796] @ js ''.''),
     (''intelligence.correlationSelectPrompt'', js ''Domain, IP '' @ [46608, 45716, 32, 44288, 44228, 47484, 32, 49440, 53469, 54644, 32, 44540, 44144] @ js '' Source'' @ [47484, 32, 54869, 51064, 54616, 49464, 50836] @ js ''.''),
     (''intelligence.correlationTable'', js ''IP '' @ [48143] @ js '' Domain '' @ [44288, 44228, 32, 44540, 44144]),
     (''archive.title'', js ''Archive Operations''),
     (''archive.description'', js ''Glacier Flexible Retrieval Bucket'' @ [51012, 32, 51312, 54924, 54616, 44256] @ js '' 7'' @ [51068, 32, 46041, 50504] @ js '' Standard '' @ [51076, 49884, 32, 48373, 50896, 51012, 32, 49884, 51089, 54633, 45768, 45796] @ js ''.''),
     (''archive.endpointHelp'', [49788, 54364, 47196, 32, 44396, 48516, 54620, 32, 50577, 51032] @ js '' ID''),
     (''archive.invalidDateTime'', [47196, 52972, 32, 49884, 44036, 32, 44592, 51456] @ js '' YYYY-MM-DD HH:mm '' @ [54805, 49885, 51004, 47196, 32, 51077, 47141, 54616, 49464, 50836] @ js ''.''),
     (''archive.chooseRange'', js ''Archive '' @ [44592, 44036, 51012, 32, 49440, 53469, 54616, 49464, 50836]),
     (''archive.chooseRangeDescription'', [54616, 45208, 32, 51060, 49345, 51032] @ js '' Endpoint ID'' @ [50752, 32, 52572, 45824] @ js '' 31'' @ [51068, 51032, 32, 50976, 54952, 54620] @ js '' UTC '' @ [44592, 44036, 51012, 32, 51077, 47141, 54616, 49464, 50836] @ js ''. '' @ [44050, 51060, 32, 50976, 54952, 54644, 51656, 32, 46412, 44620, 51648] @ js '' Archive '' @ [45936, 51060, 53552, 47484, 32, 51312, 54924, 54616, 51648, 32, 50506, 49845, 45768, 45796] @ js ''.''),
     (''archive.readiness'', js ''Archive '' @ [51312, 54924, 32, 51456, 48708, 32, 49345, 53468]),
     (''archive.scopeReady'', [51312, 54924, 32, 48276, 50948, 44032, 32, 50976, 54952, 54633, 45768, 45796]),
     (''archive.valid'', [51456, 48708, 32, 50756, 47308]),
     (''archive.incomplete'', [51077, 47141, 32, 54596, 50836]),
     (''archive.queryScope'', [51312, 54924, 32, 48276, 50948]),
     (''archive.requiredInput'', [54596, 49688, 32, 51077, 47141]),
     (''archive.endpointCount'', js ''Endpoint {count}'' @ [44060]),
     (''archive.endpointRequirement'', [49788, 54364, 47196, 32, 44396, 48516, 54620] @ js '' ID 1'' @ [44060, 32, 51060, 49345]),
     (''archive.utcRange'', js ''UTC '' @ [44592, 44036]),
     (''archive.rangeRequirement'', [52572, 45824] @ js '' 31'' @ [51068]),
     (''archive.restorePolicy'', js ''Restore '' @ [51221, 52293]),
     (''archive.actionBoundary'', [49892, 54665, 32, 44221, 44228]),
     (''archive.retrieval'', js ''Retrieval''),
     (''archive.temporaryCopy'', [51076, 49884, 32, 48373, 50896, 48376]),
     (''archive.standardSevenDays'', js ''Standard tier '' @ [183] @ js '' 7'' @ [51068]),
     (''archive.nextStep'', [45796, 51020, 32, 45800, 44228]),
     (''archive.validationGated'', [51077, 47141, 32, 44160, 51613, 32, 54596, 50836]),
     (''archive.readyDescription'', [51312, 54924, 32, 48276, 50948, 44032, 32, 50976, 54952, 54633, 45768, 45796] @ js ''. Archive '' @ [51312, 54924, 44032, 32, 51088, 46041, 51004, 47196, 32, 49884, 51089, 46104, 47728] @ js '' Restore '' @ [49892, 54665, 51008, 32, 44428, 54620, 50640, 32, 46384, 46972, 32, 51228, 54620, 46121, 45768, 45796] @ js ''.''),
     (''archive.invalidScopeDescription'', [51312, 54924, 32, 48276, 50948, 47484, 32, 50756, 49457, 54616, 44144, 45208, 32, 49688, 51221, 54616, 49464, 50836] @ js ''. '' @ [51077, 47141, 32, 44160, 51613, 50640, 32, 49892, 54056, 54620, 32, 46041, 50504] @ js '' Archive API'' @ [47484, 32, 54840, 52636, 54616, 51648, 32, 50506, 49845, 45768, 45796] @ js ''.''),
     (''archive.temporaryRestore'', js ''Temporary Restore''),
     (''archive.policy'', [44256, 51221, 32, 51221, 52293] @ js '': 7'' @ [51068, 32, 183] @ js '' Standard tier''),
     (''archive.starting'', js ''Restore '' @ [49884, 51089, 32, 51473, 8230]),
     (''archive.start'', js ''Archive Restore '' @ [49884, 51089]),
     (''archive.success'', js ''Restore '' @ [50836, 52397, 51012, 32, 52376, 47532, 54664, 49845, 45768, 45796] @ js ''. Archive '' @ [49345, 53468, 47484, 32, 44081, 49888, 54633, 45768, 45796] @ js ''.''),
     (''archive.access'', js ''Archive '' @ [51217, 44540, 32, 44428, 54620]),
     (''archive.viewerSubtitle'', js ''VIEWER'' @ [45716, 32, 51069, 44592, 32, 51204, 50857]),
     (''archive.viewerDescription'', js ''VIEWER'' @ [50640, 44172, 45716] @ js '' Restore '' @ [44592, 45733, 51060, 32, 54364, 49884, 46104, 51648, 32, 50506, 49845, 45768, 45796] @ js ''. '' @ [54788, 51116] @ js '' Bucket '' @ [49345, 53468, 45716, 32, 50500, 47000, 50640, 49436, 32, 54869, 51064, 54624, 32, 49688, 32, 51080, 49845, 45768, 45796] @ js ''.''),
     (''archive.buckets'', js ''Archive Bucket''),
     (''archive.records'', js ''S3 Glacier Bucket {total}'' @ [44148]),
     (''archive.objectPath'', js ''Object '' @ [44221, 47196]),
     (''archive.eventCount'', js ''Event''),
     (''archive.restoreWindow'', js ''Restore '' @ [44592, 44036]),
     (''archive.lastError'', [47560, 51648, 47561, 32, 50724, 47448]),
     (''archive.requested'', [50836, 52397, 32, 49884, 44033] @ js '' {time}''),
     (''archive.notRequested'', [50836, 52397, 46104, 51648, 32, 50506, 51020]),
     (''archive.expires'', [47564, 47308, 32, 49884, 44033] @ js '' {time}''),
     (''archive.noExpiry'', [54876, 49457, 32, 47564, 47308, 32, 49884, 44033, 32, 50630, 51020]),
     (''archive.noBuckets'', js ''Archive Bucket'' @ [51060, 32, 50630, 49845, 45768, 45796]),
     (''archive.noBucketsDescription'', [51060] @ js '' Endpoint '' @ [48143, 32, 44592, 44036, 44284, 32, 44217, 52824, 45716] @ js '' S3 Glacier Bucket'' @ [51060, 32, 50630, 49845, 45768, 45796] @ js ''.''),
     (''archive.lifecycle'', js ''Archive Lifecycle''),
     (''archive.lifecycleSubtitle'', [54788, 51116] @ js '' Bucket '' @ [49345, 53468, 47484] @ js '' Lifecycle '' @ [49692, 49436, 47196, 32, 54364, 49884, 54616, 47728] @ js '' 0'' @ [44284] @ js '' Empty'' @ [47484, 32, 47749, 49884, 51201, 51004, 47196, 32, 44396, 48516, 54633, 45768, 45796]),
     (''archive.lifecycleHot'', js ''HOT '' @ [51200, 51109, 49548, 50640, 49436, 32, 51312, 54924, 32, 44032, 45733]),
     (''archive.lifecycleArchived'', js ''Glacier'' @ [50640, 32, 48372, 44288, 46104, 50612, 32, 50500, 51649, 32, 48373, 50896, 46104, 51648, 32, 50506, 51020]),
     (''archive.lifecycleRequested'', js ''Restore '' @ [50836, 52397, 51060, 32, 51217, 49688, 46104, 50612, 32, 51652, 54665, 32, 51473]),
     (''archive.lifecycleRestored'', [47564, 47308, 32, 49884, 44033, 44620, 51648, 32, 51076, 49884, 32, 51312, 54924, 32, 44032, 45733]),
     (''archive.lifecycleFailed'', js ''Restore '' @ [49892, 54056, 32, 183, 32, 54665, 51032, 32, 50724, 47448, 32, 54869, 51064, 32, 54596, 50836]),
     (''archive.lifecycleExpired'', [51076, 49884] @ js '' Restore '' @ [44592, 44036, 32, 47564, 47308]),
     (''archive.successRequested'', js ''Restore '' @ [50836, 52397, 51012, 32, 51217, 49688, 54664, 49845, 45768, 45796] @ js ''. Backend'' @ [44032, 32, 48373, 50896, 51012, 32, 50756, 47308, 54624, 32, 46412, 44620, 51648] @ js '' Bucket'' @ [51008] @ js '' RESTORE_REQUESTED '' @ [49345, 53468, 47484, 32, 50976, 51648, 54633, 45768, 45796] @ js ''.'')]"

definition korean :: translation_table where
  "korean = korean_1 @ korean_2 @ korean_3 @ korean_4 @ korean_5 @ korean_6 @ korean_7 @ korean_8"

section \<open>Every Korean text has an English key\<close>

text \<open>Each part of the Korean table follows the order of the English one.\<close>

lemma korean_1_keys: "subseq (map fst korean_1) (map fst english_1 @ map fst english_2)"
  unfolding korean_1_def english_1_def english_2_def list.map fst_conv append_Cons append_Nil
  by (rule subseq_Cons2 list_emb_Nil list_emb_Cons)+

lemma korean_2_keys: "subseq (map fst korean_2) (map fst english_2 @ map fst english_3)"
  unfolding korean_2_def english_2_def english_3_def list.map fst_conv append_Cons append_Nil
  by (rule subseq_Cons2 list_emb_Nil list_emb_Cons)+

lemma korean_3_keys: "subseq (map fst korean_3) (map fst english_3)"
  unfolding korean_3_def english_3_def list.map fst_conv append_Cons append_Nil
  by (rule subseq_Cons2 list_emb_Nil list_emb_Cons)+

lemma korean_4_keys: "subseq (map fst korean_4) (map fst english_1 @ map fst english_2 @ map fst english_3)"
  unfolding korean_4_def english_1_def english_2_def english_3_def list.map fst_conv append_Cons append_Nil
  by (rule subseq_Cons2 list_emb_Nil list_emb_Cons)+

lemma korean_5_keys: "subseq (map fst korean_5) (map fst english_3)"
  unfolding korean_5_def english_3_def list.map fst_conv append_Cons append_Nil
  by (rule subseq_Cons2 list_emb_Nil list_emb_Cons)+

lemma korean_6_keys: "subseq (map fst korean_6) (map fst english_3 @ map fst english_4 @ map fst english_5)"
  unfolding korean_6_def english_3_def english_4_def english_5_def list.map fst_conv append_Cons append_Nil
  by (rule subseq_Cons2 list_emb_Nil list_emb_Cons)+

lemma korean_7_keys: "subseq (map fst korean_7) (map fst english_5 @ map fst english_6)"
  unfolding korean_7_def english_5_def english_6_def list.map fst_conv append_Cons append_Nil
  by (rule subseq_Cons2 list_emb_Nil list_emb_Cons)+

lemma korean_8_keys: "subseq (map fst korean_8) (map fst english_6)"
  unfolding korean_8_def english_6_def list.map fst_conv append_Cons append_Nil
  by (rule subseq_Cons2 list_emb_Nil list_emb_Cons)+

lemmas korean_parts_keys = korean_1_keys korean_2_keys korean_3_keys korean_4_keys korean_5_keys korean_6_keys korean_7_keys korean_8_keys

theorem korean_keys: "set (map fst korean) \<subseteq> set (map fst english)"
  using korean_parts_keys [THEN subseq_subset]
  unfolding korean_def english_def map_append set_append by blast

end
