(* ===== verification/Localization.thy ===== *)
theory Localization
  imports TranslationTables AuthSession
begin

text \<open>
  The language of the interface: \<open>translate\<close> and its templates (\<open>i18n/translations.ts\<close>), the provider
  (\<open>i18n/LocaleContext.tsx\<close>), the texts of detections (\<open>i18n/detectionCopy.ts\<close>), the formatting of values
  (\<open>lib/format.ts\<close>) and the colour theme (\<open>theme/ThemeProvider.tsx\<close>).  \<open>Intl.DateTimeFormat\<close> and
  \<open>toLowerCase\<close> are arguments.
\<close>

section \<open>Templates\<close>

text \<open>The class \<open>\w\<close> of a regular expression.\<close>

definition is_word :: "nat \<Rightarrow> bool" where
  "is_word c \<longleftrightarrow> (48 \<le> c \<and> c \<le> 57) \<or> (65 \<le> c \<and> c \<le> 90) \<or> c = 95 \<or> (97 \<le> c \<and> c \<le> 122)"

datatype segment = Plain nat | Hole jsstring

text \<open>The matches of \<open>/\{(\w+)\}/g\<close> from left to right, and what lies between them.\<close>

function template_segments :: "jsstring \<Rightarrow> segment list" where
  "template_segments [] = []"
| "template_segments (c # s) =
     (let name = takeWhile is_word s; rest = dropWhile is_word s
      in if c = 123 \<and> name \<noteq> [] \<and> rest \<noteq> [] \<and> hd rest = 125 then Hole name # template_segments (tl rest)
         else Plain c # template_segments s)"
  by pat_completeness auto

termination
proof (relation "measure length", goal_cases)
  case (2 c s name rest)
  then show ?case using length_dropWhile_le [of is_word s] by (cases rest) auto
qed auto

datatype translation_param = TextParam jsstring | NumberParam int

fun param_text :: "translation_param \<Rightarrow> jsstring" where
  "param_text (TextParam s) = s"
| "param_text (NumberParam i) = js_String (Num (of_int i))"

type_synonym TranslationParams = "(jsstring \<times> translation_param) list"

fun fill_segment :: "TranslationParams \<Rightarrow> segment \<Rightarrow> jsstring" where
  "fill_segment params (Plain c) = [c]"
| "fill_segment params (Hole name) =
     (case map_of params name of Some v \<Rightarrow> param_text v | None \<Rightarrow> js ''{'' @ name @ js ''}'')"

definition fill_template :: "TranslationParams \<Rightarrow> jsstring \<Rightarrow> jsstring" where
  "fill_template params template = concat (map (fill_segment params) (template_segments template))"

definition template_for :: "UserLocale \<Rightarrow> TranslationKey \<Rightarrow> jsstring option" where
  "template_for locale key =
     (case (if locale = KO then map_of korean key else None) of Some s \<Rightarrow> Some s | None \<Rightarrow> map_of english key)"

text \<open>A key that is in neither table, which the type checker excludes, makes \<open>template.replace\<close> throw.\<close>

definition translate :: "UserLocale \<Rightarrow> TranslationKey \<Rightarrow> TranslationParams \<Rightarrow> js_error + jsstring" where
  "translate locale key params =
     (case template_for locale key of None \<Rightarrow> Inl TypeError | Some template \<Rightarrow> Inr (fill_template params template))"

section \<open>The provider\<close>

datatype date_locale = EN_US | KO_KR

record locale_state =
  ls_locale :: UserLocale
  ls_dateLocale :: date_locale
  ls_displayLocale :: date_locale
  ls_documentLang :: jsstring

definition LocaleProvider :: "UserDto option \<Rightarrow> locale_state" where
  "LocaleProvider user =
     (let locale = (if map_option user_locale user = Some KO then KO else EN);
          dateLocale = (if locale = KO then KO_KR else EN_US)
      in \<lparr>ls_locale = locale, ls_dateLocale = dateLocale, ls_displayLocale = dateLocale,
          ls_documentLang = (if locale = KO then js ''ko'' else js ''en'')\<rparr>)"

section \<open>Formatting\<close>

definition display_language :: "date_locale \<Rightarrow> UserLocale" where
  "display_language d = (if d = KO_KR then KO else EN)"

text \<open>\<open>format\<close> stands for \<open>Intl.DateTimeFormat\<close> with medium styles; it throws for an unreadable date.\<close>

definition formatDateTime ::
  "(date_locale \<Rightarrow> jsstring \<Rightarrow> js_error + jsstring) \<Rightarrow> date_locale \<Rightarrow> jsstring option \<Rightarrow> js_error + jsstring" where
  "formatDateTime format displayLocale v =
     (case v of None \<Rightarrow> translate (display_language displayLocale) ''common.notAvailable'' [] | Some s \<Rightarrow> format displayLocale s)"

definition formatQueueDateTime ::
  "(date_locale \<Rightarrow> jsstring \<Rightarrow> js_error + (jsstring \<times> jsstring) list) \<Rightarrow> date_locale \<Rightarrow> jsstring \<Rightarrow> js_error + jsstring" where
  "formatQueueDateTime formatToParts displayLocale v =
     map_sum id (\<lambda>parts.
       let part = (\<lambda>t. case map_of parts t of Some s \<Rightarrow> s | None \<Rightarrow> js ''--'')
       in part (js ''month'') @ js ''-'' @ part (js ''day'') @ js '' '' @ part (js ''hour'') @ js '':'' @ part (js ''minute''))
       (formatToParts displayLocale v)"

definition ascii_upper :: "nat \<Rightarrow> nat" where
  "ascii_upper c = (if 97 \<le> c \<and> c \<le> 122 then c - 32 else c)"

text \<open>\<open>replace(/\b\w/g, upper)\<close>: a word character that does not follow another; the flag says whether the previous one was.\<close>

fun capitalize_words :: "bool \<Rightarrow> jsstring \<Rightarrow> jsstring" where
  "capitalize_words inside [] = []"
| "capitalize_words inside (c # s) = (if is_word c \<and> \<not> inside then ascii_upper c else c) # capitalize_words (is_word c) s"

definition humanize :: "(jsstring \<Rightarrow> jsstring) \<Rightarrow> jsstring \<Rightarrow> jsstring" where
  "humanize lower v = capitalize_words False (map (\<lambda>c. if c = 95 then 32 else c) (lower v))"

definition displayNullable :: "date_locale \<Rightarrow> translation_param option \<Rightarrow> js_error + jsstring" where
  "displayNullable displayLocale v =
     (case v of None \<Rightarrow> translate (display_language displayLocale) ''common.notAvailable'' [] | Some p \<Rightarrow> Inr (param_text p))"

section \<open>Texts of detections\<close>

text \<open>
  A lookup \<open>table[value]\<close> in an object literal also finds the members every object inherits.  They are
  not keys: \<open>t\<close> applied to one throws.
\<close>

definition prototype_members :: "string list" where
  "prototype_members =
     [''constructor'', ''hasOwnProperty'', ''isPrototypeOf'', ''propertyIsEnumerable'', ''toLocaleString'', ''toString'', ''valueOf'',
      ''__proto__'', ''__defineGetter__'', ''__defineSetter__'', ''__lookupGetter__'', ''__lookupSetter__'']"

datatype 'a member = Own 'a | Inherited | Absent

definition object_member :: "(string \<times> 'a) list \<Rightarrow> jsstring \<Rightarrow> 'a member" where
  "object_member table name =
     (case map_of (map (\<lambda>(k, v). (js k, v)) table) name of
        Some v \<Rightarrow> Own v | None \<Rightarrow> if name \<in> set (map js prototype_members) then Inherited else Absent)"

record RuleCopyKeys =
  rk_ruleName :: TranslationKey
  rk_title :: TranslationKey
  rk_titleOnEndpoint :: TranslationKey
  rk_summary :: TranslationKey

definition RULE_KEYS :: "(string \<times> RuleCopyKeys) list" where
  "RULE_KEYS =
     [(''PROC_POWERSHELL_ENCODED'',
       \<lparr>rk_ruleName = ''detection.procPowershellEncoded.ruleName'', rk_title = ''detection.procPowershellEncoded.title'',
        rk_titleOnEndpoint = ''detection.procPowershellEncoded.titleOnEndpoint'', rk_summary = ''detection.procPowershellEncoded.summary''\<rparr>),
      (''NET_SUSPICIOUS_EGRESS'',
       \<lparr>rk_ruleName = ''detection.netSuspiciousEgress.ruleName'', rk_title = ''detection.netSuspiciousEgress.title'',
        rk_titleOnEndpoint = ''detection.netSuspiciousEgress.titleOnEndpoint'', rk_summary = ''detection.netSuspiciousEgress.summary''\<rparr>),
      (''DNS_RARE_DOMAIN'',
       \<lparr>rk_ruleName = ''detection.dnsRareDomain.ruleName'', rk_title = ''detection.dnsRareDomain.title'',
        rk_titleOnEndpoint = ''detection.dnsRareDomain.titleOnEndpoint'', rk_summary = ''detection.dnsRareDomain.summary''\<rparr>),
      (''FILE_SUSPICIOUS_DROP'',
       \<lparr>rk_ruleName = ''detection.fileSuspiciousDrop.ruleName'', rk_title = ''detection.fileSuspiciousDrop.title'',
        rk_titleOnEndpoint = ''detection.fileSuspiciousDrop.titleOnEndpoint'', rk_summary = ''detection.fileSuspiciousDrop.summary''\<rparr>),
      (''L7_UPLOAD_ANOMALY'',
       \<lparr>rk_ruleName = ''detection.l7UploadAnomaly.ruleName'', rk_title = ''detection.l7UploadAnomaly.title'',
        rk_titleOnEndpoint = ''detection.l7UploadAnomaly.titleOnEndpoint'', rk_summary = ''detection.l7UploadAnomaly.summary''\<rparr>)]"

definition TITLE_KEYS :: "(string \<times> TranslationKey) list" where
  "TITLE_KEYS =
     [(''PROC_POWERSHELL_ENCODED'', ''detection.procPowershellEncoded.title''),
      (''PowerShell Encoded Command'', ''detection.procPowershellEncoded.ruleName''),
      (''Encoded PowerShell command detected'', ''detection.procPowershellEncoded.title''),
      (''NET_SUSPICIOUS_EGRESS'', ''detection.netSuspiciousEgress.title''),
      (''Suspicious Egress Destination'', ''detection.netSuspiciousEgress.ruleName''),
      (''Suspicious encrypted egress detected'', ''detection.netSuspiciousEgress.title''),
      (''DNS_RARE_DOMAIN'', ''detection.dnsRareDomain.title''),
      (''Rare Domain Query'', ''detection.dnsRareDomain.ruleName''),
      (''Rare domain query detected'', ''detection.dnsRareDomain.title''),
      (''FILE_SUSPICIOUS_DROP'', ''detection.fileSuspiciousDrop.title''),
      (''Suspicious File Drop'', ''detection.fileSuspiciousDrop.ruleName''),
      (''Suspicious file drop detected'', ''detection.fileSuspiciousDrop.title''),
      (''L7_UPLOAD_ANOMALY'', ''detection.l7UploadAnomaly.title''),
      (''Unusual HTTPS Upload'', ''detection.l7UploadAnomaly.ruleName''),
      (''Unusual HTTPS upload detected'', ''detection.l7UploadAnomaly.title'')]"

definition SUMMARY_KEYS :: "(string \<times> TranslationKey) list" where
  "SUMMARY_KEYS =
     [(''PowerShell was executed with an encoded command argument.'', ''detection.procPowershellEncoded.summary''),
      (''A monitored process connected to a rare external destination.'', ''detection.netSuspiciousEgress.summary''),
      (''An endpoint queried a rarely observed domain.'', ''detection.dnsRareDomain.summary''),
      (''A process created a suspicious payload or artifact file.'', ''detection.fileSuspiciousDrop.summary''),
      (''An unusual upload request was observed to an external host.'', ''detection.l7UploadAnomaly.summary'')]"

definition TITLE_PREFIXES :: "(string \<times> string) list" where
  "TITLE_PREFIXES =
     [(''PowerShell Encoded Command on '', ''PROC_POWERSHELL_ENCODED''),
      (''Encoded PowerShell Command on '', ''PROC_POWERSHELL_ENCODED''),
      (''Suspicious Egress Destination on '', ''NET_SUSPICIOUS_EGRESS''),
      (''Rare Domain Query on '', ''DNS_RARE_DOMAIN''),
      (''Suspicious File Drop on '', ''FILE_SUSPICIOUS_DROP''),
      (''Unusual HTTPS Upload on '', ''L7_UPLOAD_ANOMALY'')]"

definition GUIDANCE_TITLE_KEYS :: "(string \<times> TranslationKey) list" where
  "GUIDANCE_TITLE_KEYS =
     [(''Review domain and query process'', ''guidance.reviewDomainProcess''),
      (''Block confirmed malicious domain'', ''guidance.blockMaliciousDomain''),
      (''Validate file origin and hash'', ''guidance.validateFileOrigin''),
      (''Quarantine confirmed malicious file'', ''guidance.quarantineMaliciousFile''),
      (''Review upload context'', ''guidance.reviewUploadContext''),
      (''Restrict unauthorized upload path'', ''guidance.restrictUploadPath''),
      (''Review destination and source process'', ''guidance.reviewDestinationProcess''),
      (''Contain unauthorized egress'', ''guidance.containUnauthorizedEgress''),
      (''Review source event'', ''guidance.reviewSourceEvent'')]"

type_synonym translator = "TranslationKey \<Rightarrow> TranslationParams \<Rightarrow> js_error + jsstring"

text \<open>The member of a rule: those every object inherits have no such property.\<close>

definition rule_key :: "(RuleCopyKeys \<Rightarrow> TranslationKey) \<Rightarrow> jsstring option \<Rightarrow> TranslationKey option" where
  "rule_key field ruleCode =
     (case ruleCode of
        Some code \<Rightarrow> if code = [] then None else (case object_member RULE_KEYS code of Own c \<Rightarrow> Some (field c) | _ \<Rightarrow> None)
      | None \<Rightarrow> None)"

fun title_on_endpoint :: "translator \<Rightarrow> (string \<times> string) list \<Rightarrow> jsstring \<Rightarrow> (js_error + jsstring) option" where
  "title_on_endpoint t [] v = None"
| "title_on_endpoint t ((lead, code) # ps) v =
     (case object_member RULE_KEYS (js code) of
        Own copy \<Rightarrow>
          if startsWith v (js lead)
          then Some (t (rk_titleOnEndpoint copy) [(js ''endpoint'', TextParam (drop (length lead) v))])
          else title_on_endpoint t ps v
      | _ \<Rightarrow> title_on_endpoint t ps v)"

definition detectionTitle :: "translator \<Rightarrow> jsstring \<Rightarrow> jsstring option \<Rightarrow> js_error + jsstring" where
  "detectionTitle t v ruleCode =
     (case object_member TITLE_KEYS v of
        Own key \<Rightarrow> t key []
      | Inherited \<Rightarrow> Inl TypeError
      | Absent \<Rightarrow>
          (case title_on_endpoint t TITLE_PREFIXES v of
             Some r \<Rightarrow> r
           | None \<Rightarrow> (case rule_key rk_title ruleCode of Some key \<Rightarrow> t key [] | None \<Rightarrow> Inr v)))"

definition detectionRuleName :: "translator \<Rightarrow> jsstring \<Rightarrow> jsstring option \<Rightarrow> js_error + jsstring" where
  "detectionRuleName t v ruleCode =
     (case rule_key rk_ruleName ruleCode of
        Some key \<Rightarrow> t key []
      | None \<Rightarrow> (case object_member TITLE_KEYS v of Own key \<Rightarrow> t key [] | Inherited \<Rightarrow> Inl TypeError | Absent \<Rightarrow> Inr v))"

text \<open>
  \<open>/^Deterministic long-range QA alert for (.+)\.$/\<close>: the dot matches anything but a line terminator.
\<close>

definition qa_agent_id :: "jsstring \<Rightarrow> jsstring option" where
  "qa_agent_id v =
     (let lead = js ''Deterministic long-range QA alert for '';
          rest = drop (length lead) v
      in if startsWith v lead \<and> 2 \<le> length rest \<and> last rest = 46 \<and> list_all (\<lambda>c. c \<notin> {10, 13, 8232, 8233}) (butlast rest)
         then Some (butlast rest) else None)"

definition detectionSummary :: "translator \<Rightarrow> jsstring option \<Rightarrow> jsstring \<Rightarrow> js_error + jsstring" where
  "detectionSummary t v fallback =
     (case v of
        None \<Rightarrow> Inr fallback
      | Some s \<Rightarrow>
          if s = [] then Inr fallback
          else (case object_member SUMMARY_KEYS s of
                  Own key \<Rightarrow> t key []
                | Inherited \<Rightarrow> Inl TypeError
                | Absent \<Rightarrow>
                    (case qa_agent_id s of
                       Some i \<Rightarrow> t ''detection.qaLongRange.summary'' [(js ''agentId'', TextParam i)]
                     | None \<Rightarrow> Inr s)))"

definition responseGuidanceTitle :: "translator \<Rightarrow> jsstring \<Rightarrow> js_error + jsstring" where
  "responseGuidanceTitle t v =
     (case object_member GUIDANCE_TITLE_KEYS v of Own key \<Rightarrow> t key [] | Inherited \<Rightarrow> Inl TypeError | Absent \<Rightarrow> Inr v)"

definition riskFactorDescription :: "translator \<Rightarrow> jsstring \<Rightarrow> js_error + jsstring" where
  "riskFactorDescription t v =
     (if v = js ''OPEN correlation Incident contribution'' then t ''risk.openIncidentContribution'' [] else Inr v)"

section \<open>Theme\<close>

datatype Theme = DARK | LIGHT

fun theme_name :: "Theme \<Rightarrow> jsstring" where
  "theme_name DARK = js ''dark''"
| "theme_name LIGHT = js ''light''"

fun THEME_COLOR :: "Theme \<Rightarrow> jsstring" where
  "THEME_COLOR DARK = js ''#09090b''"
| "THEME_COLOR LIGHT = js ''#f4f6f8''"

definition THEME_STORAGE_KEY :: jsstring where "THEME_STORAGE_KEY = js ''edr.theme''"
definition DEFAULT_THEME :: Theme where "DEFAULT_THEME = DARK"

text \<open>The document, as far as the theme touches it; the two \<open>meta\<close> elements may be missing.\<close>

record themed_document =
  doc_lightClass :: bool
  doc_colorScheme :: jsstring
  doc_metaColorScheme :: "jsstring option"
  doc_metaThemeColor :: "jsstring option"

definition readStoredTheme :: "browser_storage \<Rightarrow> Theme" where
  "readStoredTheme st =
     (case getItem st THEME_STORAGE_KEY of
        Inr (Some s) \<Rightarrow> if s = js ''dark'' then DARK else if s = js ''light'' then LIGHT else DEFAULT_THEME
      | _ \<Rightarrow> DEFAULT_THEME)"

definition applyTheme :: "Theme \<Rightarrow> themed_document \<Rightarrow> themed_document" where
  "applyTheme theme d =
     d\<lparr>doc_lightClass := (theme = LIGHT), doc_colorScheme := theme_name theme,
       doc_metaColorScheme := map_option (\<lambda>_. theme_name theme) (doc_metaColorScheme d),
       doc_metaThemeColor := map_option (\<lambda>_. THEME_COLOR theme) (doc_metaThemeColor d)\<rparr>"

record theme_provider =
  tp_theme :: Theme
  tp_document :: themed_document
  tp_storage :: browser_storage

text \<open>The layout effect runs after the first rendering and after every change.\<close>

definition mount_theme :: "browser_storage \<Rightarrow> themed_document \<Rightarrow> theme_provider" where
  "mount_theme st d = (let theme = readStoredTheme st in \<lparr>tp_theme = theme, tp_document = applyTheme theme d, tp_storage = st\<rparr>)"

definition setTheme :: "Theme \<Rightarrow> theme_provider \<Rightarrow> theme_provider" where
  "setTheme nextTheme p =
     p\<lparr>tp_theme := nextTheme, tp_document := (if nextTheme = tp_theme p then tp_document p else applyTheme nextTheme (tp_document p)),
       tp_storage := (case setItem (tp_storage p) THEME_STORAGE_KEY (theme_name nextTheme) of
                       Inr st \<Rightarrow> st | Inl _ \<Rightarrow> tp_storage p)\<rparr>"

definition toggleTheme :: "theme_provider \<Rightarrow> theme_provider" where
  "toggleTheme p = setTheme (if tp_theme p = DARK then LIGHT else DARK) p"

section \<open>Facts\<close>

subsection \<open>Templates\<close>

lemma takeWhile_dropWhile_brace:
  assumes "dropWhile is_word s \<noteq> []" "hd (dropWhile is_word s) = 125"
  shows "s = takeWhile is_word s @ 125 # tl (dropWhile is_word s)"
  using assms by (metis list.collapse takeWhile_dropWhile_id)

text \<open>Without parameters the template stays as it is.\<close>

lemma fill_template_Nil: "fill_template [] s = s"
proof -
  have "concat (map (fill_segment []) (template_segments s)) = s"
  proof (induction s rule: template_segments.induct)
    case (2 c s)
    show ?case
    proof (cases "c = 123 \<and> takeWhile is_word s \<noteq> [] \<and> dropWhile is_word s \<noteq> [] \<and> hd (dropWhile is_word s) = 125")
      case True
      then show ?thesis using 2(1) [OF refl refl] takeWhile_dropWhile_brace [of s] by (simp add: Let_def js_def)
    next
      case False
      then show ?thesis using 2(2) [OF refl refl] by (auto simp: Let_def)
    qed
  qed simp
  then show ?thesis by (simp add: fill_template_def)
qed

definition placeholders :: "jsstring \<Rightarrow> jsstring set" where
  "placeholders s = {n. Hole n \<in> set (template_segments s)}"

text \<open>Only the parameters the template names matter.\<close>

lemma fill_template_cong:
  assumes "\<And>n. n \<in> placeholders s \<Longrightarrow> map_of ps n = map_of qs n"
  shows "fill_template ps s = fill_template qs s"
proof -
  have "fill_segment ps g = fill_segment qs g" if g: "g \<in> set (template_segments s)" for g
  proof (cases g)
    case (Hole n)
    with g have "n \<in> placeholders s" by (simp add: placeholders_def)
    with assms Hole show ?thesis by simp
  qed simp
  then show ?thesis unfolding fill_template_def by (metis (no_types, lifting) map_cong)
qed

lemma template_for_key: "template_for l k \<noteq> None \<longleftrightarrow> k \<in> set (map fst english)"
proof -
  have "map_of korean k \<noteq> None \<Longrightarrow> map_of english k \<noteq> None"
    using korean_keys by (metis map_of_eq_None_iff set_map subset_iff)
  then have "template_for l k \<noteq> None \<longleftrightarrow> map_of english k \<noteq> None"
    by (cases "map_of korean k") (auto simp: template_for_def)
  then show ?thesis by (simp add: map_of_eq_None_iff)
qed

lemma translate_total: "k \<in> set (map fst english) \<Longrightarrow> \<exists>s. translate l k ps = Inr s"
  using template_for_key [of l k] by (auto simp: translate_def)

subsection \<open>Texts of detections\<close>

definition detection_keys :: "TranslationKey list" where
  "detection_keys =
     [''detection.procPowershellEncoded.title'',
      ''detection.procPowershellEncoded.ruleName'',
      ''detection.procPowershellEncoded.titleOnEndpoint'',
      ''detection.procPowershellEncoded.summary'',
      ''detection.netSuspiciousEgress.title'',
      ''detection.netSuspiciousEgress.ruleName'',
      ''detection.netSuspiciousEgress.titleOnEndpoint'',
      ''detection.netSuspiciousEgress.summary'',
      ''detection.dnsRareDomain.title'',
      ''detection.dnsRareDomain.ruleName'',
      ''detection.dnsRareDomain.titleOnEndpoint'',
      ''detection.dnsRareDomain.summary'',
      ''detection.fileSuspiciousDrop.title'',
      ''detection.fileSuspiciousDrop.ruleName'',
      ''detection.fileSuspiciousDrop.titleOnEndpoint'',
      ''detection.fileSuspiciousDrop.summary'',
      ''detection.l7UploadAnomaly.title'',
      ''detection.l7UploadAnomaly.ruleName'',
      ''detection.l7UploadAnomaly.titleOnEndpoint'',
      ''detection.l7UploadAnomaly.summary'',
      ''detection.qaLongRange.summary'',
      ''guidance.reviewDomainProcess'',
      ''guidance.blockMaliciousDomain'',
      ''guidance.validateFileOrigin'',
      ''guidance.quarantineMaliciousFile'',
      ''guidance.reviewUploadContext'',
      ''guidance.restrictUploadPath'',
      ''guidance.reviewDestinationProcess'',
      ''guidance.containUnauthorizedEgress'',
      ''guidance.reviewSourceEvent'']"

lemma detection_keys_english: "set detection_keys \<subseteq> set (map fst english)"
proof -
  have "subseq detection_keys (map fst english_3)"
    unfolding detection_keys_def english_3_def list.map fst_conv
    by (rule subseq_Cons2 list_emb_Nil list_emb_Cons)+
  then have "set detection_keys \<subseteq> set (map fst english_3)" by (rule subseq_subset)
  then show ?thesis unfolding english_def by auto
qed

text \<open>A translator that knows the keys of the tables.\<close>

definition knows_keys :: "translator \<Rightarrow> bool" where
  "knows_keys t \<longleftrightarrow> (\<forall>k\<in>set detection_keys. \<forall>ps. \<exists>s. t k ps = Inr s)"

lemma translate_knows_keys: "knows_keys (translate l)"
  using detection_keys_english translate_total unfolding knows_keys_def by blast

lemma object_member_Own: "object_member table name = Own v \<Longrightarrow> v \<in> snd ` set table"
  by (auto simp: object_member_def split: option.splits if_splits dest!: map_of_SomeD) force

lemma detection_tables:
  "snd ` set TITLE_KEYS \<subseteq> set detection_keys" "snd ` set SUMMARY_KEYS \<subseteq> set detection_keys"
  "snd ` set GUIDANCE_TITLE_KEYS \<subseteq> set detection_keys"
  "\<And>c. c \<in> snd ` set RULE_KEYS \<Longrightarrow> rk_ruleName c \<in> set detection_keys \<and> rk_title c \<in> set detection_keys \<and> rk_titleOnEndpoint c \<in> set detection_keys"
  "''detection.qaLongRange.summary'' \<in> set detection_keys"
  by (auto simp: TITLE_KEYS_def SUMMARY_KEYS_def GUIDANCE_TITLE_KEYS_def RULE_KEYS_def detection_keys_def)

definition is_prototype_member :: "jsstring \<Rightarrow> bool" where
  "is_prototype_member v \<longleftrightarrow> v \<in> set (map js prototype_members)"

lemma object_member_not_inherited: "\<not> is_prototype_member v \<Longrightarrow> object_member table v \<noteq> Inherited"
  by (simp add: object_member_def is_prototype_member_def split: option.splits)

lemma rule_key_known:
  assumes "rule_key field ruleCode = Some k" "field = rk_title \<or> field = rk_ruleName"
  shows "k \<in> set detection_keys"
proof -
  from assms(1) obtain code c where "object_member RULE_KEYS code = Own c" "k = field c"
    by (auto simp: rule_key_def split: option.splits if_splits member.splits)
  then show ?thesis using object_member_Own [of RULE_KEYS code c] detection_tables(4) assms(2) by blast
qed

lemma knows_keysD: "knows_keys t \<Longrightarrow> k \<in> set detection_keys \<Longrightarrow> \<exists>s. t k ps = Inr s"
  by (simp add: knows_keys_def)

lemma title_on_endpoint_known:
  assumes t: "knows_keys t" shows "title_on_endpoint t ps v = Some r \<Longrightarrow> \<exists>s. r = Inr s"
proof (induction ps)
  case (Cons p ps)
  obtain lead code where p: "p = (lead, code)" by fastforce
  show ?case
  proof (cases "object_member RULE_KEYS (js code)")
    case (Own c)
    then have "rk_titleOnEndpoint c \<in> set detection_keys"
      using object_member_Own [of RULE_KEYS "js code" c] detection_tables(4) by blast
    from knows_keysD [OF t this] Cons Own p show ?thesis by (auto split: if_splits)
  qed (use Cons p in simp_all)
qed simp

text \<open>
  Every text has a title, a rule name, a summary and a guidance title, whatever the rule code, unless it
  is the name of a member that every object inherits; then the lookup finds that member and throws.
\<close>

lemma detectionTitle_total:
  assumes "knows_keys t" "\<not> is_prototype_member v" shows "\<exists>s. detectionTitle t v ruleCode = Inr s"
proof (cases "object_member TITLE_KEYS v")
  case (Own k)
  then have "k \<in> set detection_keys" using object_member_Own [of TITLE_KEYS v k] detection_tables(1) by blast
  from knows_keysD [OF assms(1) this] Own show ?thesis by (simp add: detectionTitle_def)
next
  case Absent
  show ?thesis
  proof (cases "title_on_endpoint t TITLE_PREFIXES v")
    case None
    with Absent show ?thesis using knows_keysD [OF assms(1) rule_key_known [of rk_title ruleCode]]
      by (cases "rule_key rk_title ruleCode") (auto simp: detectionTitle_def)
  next
    case (Some r)
    with Absent show ?thesis using title_on_endpoint_known [OF assms(1) Some] by (auto simp: detectionTitle_def)
  qed
qed (use assms(2) object_member_not_inherited in blast)

lemma detectionRuleName_total:
  assumes "knows_keys t" "\<not> is_prototype_member v" shows "\<exists>s. detectionRuleName t v ruleCode = Inr s"
proof (cases "rule_key rk_ruleName ruleCode")
  case (Some k)
  from knows_keysD [OF assms(1) rule_key_known [OF Some]] Some show ?thesis by (simp add: detectionRuleName_def)
next
  case None
  show ?thesis
  proof (cases "object_member TITLE_KEYS v")
    case (Own k)
    then have "k \<in> set detection_keys" using object_member_Own [of TITLE_KEYS v k] detection_tables(1) by blast
    from knows_keysD [OF assms(1) this] Own None show ?thesis by (simp add: detectionRuleName_def)
  qed (use None assms(2) object_member_not_inherited in \<open>auto simp: detectionRuleName_def\<close>)
qed

lemma detectionSummary_total:
  assumes "knows_keys t" "\<forall>s. v = Some s \<longrightarrow> \<not> is_prototype_member s"
  shows "\<exists>r. detectionSummary t v fallback = Inr r"
proof (cases v)
  case (Some s)
  then have n: "object_member SUMMARY_KEYS s \<noteq> Inherited" using assms(2) object_member_not_inherited by simp
  show ?thesis
  proof (cases "object_member SUMMARY_KEYS s")
    case (Own k)
    then have "k \<in> set detection_keys" using object_member_Own [of SUMMARY_KEYS s k] detection_tables(2) by blast
    from knows_keysD [OF assms(1) this] Own Some show ?thesis by (simp add: detectionSummary_def)
  next
    case Absent
    with knows_keysD [OF assms(1) detection_tables(5)] Some show ?thesis
      by (cases "qa_agent_id s") (auto simp: detectionSummary_def)
  qed (use n in simp)
qed (simp add: detectionSummary_def)

lemma responseGuidanceTitle_total:
  assumes "knows_keys t" "\<not> is_prototype_member v" shows "\<exists>s. responseGuidanceTitle t v = Inr s"
proof (cases "object_member GUIDANCE_TITLE_KEYS v")
  case (Own k)
  then have "k \<in> set detection_keys" using object_member_Own [of GUIDANCE_TITLE_KEYS v k] detection_tables(3) by blast
  from knows_keysD [OF assms(1) this] Own show ?thesis by (simp add: responseGuidanceTitle_def)
qed (use assms(2) object_member_not_inherited in \<open>auto simp: responseGuidanceTitle_def\<close>)

lemma detectionTitle_inherited: "detectionTitle t (js ''constructor'') ruleCode = Inl TypeError"
  by (simp add: detectionTitle_def object_member_def TITLE_KEYS_def prototype_members_def)

subsection \<open>Theme\<close>

lemma theme_name_inj [simp]: "theme_name a = theme_name b \<longleftrightarrow> a = b"
  by (cases a; cases b) simp_all

text \<open>The document shows the theme of the state, and the storage gives it back after a reload.\<close>

definition theme_inv :: "theme_provider \<Rightarrow> bool" where
  "theme_inv p \<longleftrightarrow>
     (doc_lightClass (tp_document p) \<longleftrightarrow> tp_theme p = LIGHT) \<and> doc_colorScheme (tp_document p) = theme_name (tp_theme p) \<and>
     doc_metaColorScheme (tp_document p) \<in> {None, Some (theme_name (tp_theme p))} \<and>
     doc_metaThemeColor (tp_document p) \<in> {None, Some (THEME_COLOR (tp_theme p))}"

lemma applyTheme_inv: "theme_inv \<lparr>tp_theme = theme, tp_document = applyTheme theme d, tp_storage = st\<rparr>"
  by (cases "doc_metaColorScheme d"; cases "doc_metaThemeColor d") (simp_all add: theme_inv_def applyTheme_def)

lemma mount_theme_inv: "theme_inv (mount_theme st d)"
  unfolding mount_theme_def Let_def by (rule applyTheme_inv)

lemma setTheme_inv:
  assumes "theme_inv p" shows "theme_inv (setTheme theme p)"
  using assms applyTheme_inv [of theme "tp_document p"] by (simp add: theme_inv_def setTheme_def)

lemma setTheme_stored:
  assumes "storage_writable (tp_storage p)" shows "readStoredTheme (tp_storage (setTheme theme p)) = theme"
  using assms by (cases theme) (simp_all add: storage_writable_def setTheme_def setItem_def readStoredTheme_def getItem_def)

inductive reachable_theme :: "theme_provider \<Rightarrow> bool" where
  mount: "reachable_theme (mount_theme st d)"
| set: "reachable_theme p \<Longrightarrow> reachable_theme (setTheme theme p)"
| toggle: "reachable_theme p \<Longrightarrow> reachable_theme (toggleTheme p)"

lemma reachable_theme_inv: "reachable_theme p \<Longrightarrow> theme_inv p"
  by (induction rule: reachable_theme.induct) (simp_all add: mount_theme_inv setTheme_inv toggleTheme_def)

end
