(* ===== verification/ReportDocument.thy ===== *)
theory ReportDocument
  imports ReportCollection Localization
begin

text \<open>
  The second half of \<open>features/dashboardReport.tsx\<close>: the filters and the summary of the report, its pages
  and what each page shows.  Numbers of the chart are rationals; the printing of a coordinate, the
  formatting of a number for a locale (an argument) and the markup are left out.
\<close>

section \<open>Texts of the report\<close>

definition SERVICE_NAME :: jsstring where "SERVICE_NAME = js ''OWLBY''"

record report_copy =
  cp_appliedScope :: jsstring
  cp_currentSnapshot :: jsstring
  cp_currentView :: jsstring
  cp_empty :: jsstring
  cp_executiveSummary :: jsstring
  cp_generated :: jsstring
  cp_operator :: jsstring
  cp_page :: jsstring
  cp_pageSize :: jsstring
  cp_reportId :: jsstring
  cp_selectedPeriod :: jsstring
  cp_userRole :: jsstring
  cp_documentType :: jsstring
  cp_visibleBoundary :: "nat \<Rightarrow> jsstring"

fun REPORT_COPY :: "UserLocale \<Rightarrow> report_copy" where
  "REPORT_COPY EN =
     \<lparr>cp_appliedScope = js ''Applied filters'',
      cp_currentSnapshot = js ''Current snapshot'',
      cp_currentView = js ''Current view'',
      cp_empty = js ''No structured evidence is rendered on this page.'',
      cp_executiveSummary = js ''Executive Summary'',
      cp_generated = js ''Generated'',
      cp_operator = js ''Operator'',
      cp_page = js ''Page'',
      cp_pageSize = js ''Page size'',
      cp_reportId = js ''Report ID'',
      cp_selectedPeriod = js ''Selected period'',
      cp_userRole = js ''Access role'',
      cp_documentType = SERVICE_NAME @ js '' OPERATIONS REPORT'',
      cp_visibleBoundary = (\<lambda>rows. js ''Visible page'' @ MIDDLE_DOT @ show_nat rows @ js '' rows'')\<rparr>"
| "REPORT_COPY KO =
     \<lparr>cp_appliedScope = [51201, 50857] @ js '' '' @ [54596, 53552],
      cp_currentSnapshot = [54788, 51116] @ js '' '' @ [49828, 45253, 49399],
      cp_currentView = [54788, 51116] @ js '' '' @ [54868, 47732],
      cp_empty = [54788, 51116] @ js '' '' @ [54868, 47732, 50640] @ js '' '' @ [44396, 51312, 54868, 46108] @ js '' '' @ [44208, 44284, 44032] @ js '' '' @ [50630, 49845, 45768, 45796] @ js ''.'',
      cp_executiveSummary = js ''Executive Summary'',
      cp_generated = [49373, 49457] @ js '' '' @ [49884, 44033],
      cp_operator = js ''Operator'',
      cp_page = [54168, 51060, 51648],
      cp_pageSize = [54168, 51060, 51648] @ js '' '' @ [53356, 44592],
      cp_reportId = js ''Report ID'',
      cp_selectedPeriod = [49440, 53469] @ js '' '' @ [44592, 44036],
      cp_userRole = js ''Access role'',
      cp_documentType = SERVICE_NAME @ js '' '' @ [50868, 50689] @ js '' '' @ [47532, 54252, 53944],
      cp_visibleBoundary = (\<lambda>rows. [54788, 51116] @ js '' '' @ [54168, 51060, 51648] @ MIDDLE_DOT @ show_nat rows @ [54665])\<rparr>"

fun FILTER_LABELS :: "UserLocale \<Rightarrow> (string \<times> jsstring) list" where
  "FILTER_LABELS EN =
     [(''timePreset'', js ''Time range''),
      (''from'', js ''From (UTC)''),
      (''to'', js ''To (UTC)''),
      (''endpointId'', js ''Endpoint ID''),
      (''endpointIds'', js ''Endpoint IDs''),
      (''severity'', js ''Severity''),
      (''status'', js ''Status''),
      (''riskLevel'', js ''Risk level''),
      (''osType'', js ''Operating system''),
      (''sortBy'', js ''Sort by''),
      (''sortOrder'', js ''Sort order''),
      (''q'', js ''Search''),
      (''processName'', js ''Process name''),
      (''eventType'', js ''Event type''),
      (''ruleCode'', js ''Rule code''),
      (''domain'', js ''Domain'')]"
| "FILTER_LABELS KO =
     [(''timePreset'', [51312, 54924] @ js '' '' @ [44592, 44036]),
      (''from'', [49884, 51089] @ js '' (UTC)''),
      (''to'', [51333, 47308] @ js '' (UTC)''),
      (''endpointId'', js ''Endpoint ID''),
      (''endpointIds'', js ''Endpoint ID '' @ [47785, 47197]),
      (''severity'', [49900, 44033, 46020]),
      (''status'', [49345, 53468]),
      (''riskLevel'', js ''Risk '' @ [46321, 44553]),
      (''osType'', [50868, 50689, 52404, 51228]),
      (''sortBy'', [51221, 47148] @ js '' '' @ [44592, 51456]),
      (''sortOrder'', [51221, 47148] @ js '' '' @ [49692, 49436]),
      (''q'', [44160, 49353, 50612]),
      (''processName'', js ''Process '' @ [51060, 47492]),
      (''eventType'', js ''Event '' @ [50976, 54805]),
      (''ruleCode'', js ''Rule '' @ [53076, 46300]),
      (''domain'', js ''Domain'')]"

definition scopeLabel :: "DashboardReportScope \<Rightarrow> report_copy \<Rightarrow> jsstring" where
  "scopeLabel scope copy =
     (case scope of SelectedPeriod \<Rightarrow> cp_selectedPeriod copy | CurrentSnapshot \<Rightarrow> cp_currentSnapshot copy | CurrentView \<Rightarrow> cp_currentView copy)"

section \<open>Filters\<close>

text \<open>
  \<open>replace(/([a-z0-9])([A-Z])/g, "$1 $2")\<close>: the second character of a match is not the first of another.
\<close>

definition is_lower_or_digit :: "nat \<Rightarrow> bool" where
  "is_lower_or_digit c \<longleftrightarrow> (97 \<le> c \<and> c \<le> 122) \<or> (48 \<le> c \<and> c \<le> 57)"

definition is_upper :: "nat \<Rightarrow> bool" where
  "is_upper c \<longleftrightarrow> 65 \<le> c \<and> c \<le> 90"

fun split_camel :: "jsstring \<Rightarrow> jsstring" where
  "split_camel [] = []"
| "split_camel [c] = [c]"
| "split_camel (c # d # s) = (if is_lower_or_digit c \<and> is_upper d then c # 32 # split_camel (d # s) else c # split_camel (d # s))"

definition replace_underscores :: "jsstring \<Rightarrow> jsstring" where
  "replace_underscores = map (\<lambda>c. if c = 95 then 32 else c)"

text \<open>\<open>upper\<close> stands for \<open>toUpperCase\<close> of one code unit; \<open>/^./\<close> does not match a line terminator.\<close>

definition upper_first :: "(nat \<Rightarrow> jsstring) \<Rightarrow> jsstring \<Rightarrow> jsstring" where
  "upper_first upper s = (case s of [] \<Rightarrow> [] | c # r \<Rightarrow> (if c \<in> {10, 13, 8232, 8233} then [c] else upper c) @ r)"

definition humanizeKey :: "(nat \<Rightarrow> jsstring) \<Rightarrow> jsstring \<Rightarrow> jsstring" where
  "humanizeKey upper v = upper_first upper (replace_underscores (split_camel v))"

fun presets :: "UserLocale \<Rightarrow> (string \<times> jsstring) list" where
  "presets EN =
     [(''LATEST_15M'', js ''Latest 15 minutes''),
      (''LATEST_1H'', js ''Latest 1 hour''),
      (''LATEST_24H'', js ''Latest 24 hours''),
      (''LATEST_7D'', js ''Latest 7 days''),
      (''CUSTOM'', js ''Custom UTC range'')]"
| "presets KO =
     [(''LATEST_15M'', [52572, 44540] @ js '' 15'' @ [48516]),
      (''LATEST_1H'', [52572, 44540] @ js '' 1'' @ [49884, 44036]),
      (''LATEST_24H'', [52572, 44540] @ js '' 24'' @ [49884, 44036]),
      (''LATEST_7D'', [52572, 44540] @ js '' 7'' @ [51068]),
      (''CUSTOM'', js ''UTC '' @ [44592, 44036] @ js '' '' @ [51649, 51217] @ js '' '' @ [49444, 51221])]"

text \<open>A lookup in an object literal may find a member that every object inherits instead of a text.\<close>

datatype report_text = ShownText jsstring | InheritedMember

definition own_text :: "(string \<times> jsstring) list \<Rightarrow> jsstring \<Rightarrow> jsstring \<Rightarrow> report_text" where
  "own_text table name fallback =
     (case object_member table name of Own s \<Rightarrow> ShownText s | Inherited \<Rightarrow> InheritedMember | Absent \<Rightarrow> ShownText fallback)"

definition humanizeValue :: "jsstring \<Rightarrow> UserLocale \<Rightarrow> report_text" where
  "humanizeValue v l = own_text (presets l) v (replace_underscores v)"

record ReportFilter =
  rf_label :: report_text
  rf_value :: report_text

definition report_filter :: "(nat \<Rightarrow> jsstring) \<Rightarrow> UserLocale \<Rightarrow> jsstring \<times> jsstring \<Rightarrow> ReportFilter" where
  "report_filter upper l = (\<lambda>(key, v).
     \<lparr>rf_label = (if key = js ''page'' then ShownText (cp_page (REPORT_COPY l))
                  else if key = js ''pageSize'' then ShownText (cp_pageSize (REPORT_COPY l))
                  else own_text (FILTER_LABELS l) key (humanizeKey upper key)),
      rf_value = humanizeValue v l\<rparr>)"

definition buildReportFilters :: "(nat \<Rightarrow> jsstring) \<Rightarrow> jsstring \<Rightarrow> UserLocale \<Rightarrow> ReportFilter list" where
  "buildReportFilters upper search l = map (report_filter upper l) (filter (\<lambda>(key, v). v \<noteq> []) (params_of_string search))"

section \<open>Summary\<close>

definition signal_summary :: "UserLocale \<Rightarrow> DashboardReportSignal \<Rightarrow> jsstring" where
  "signal_summary l signal =
     rs_label signal @ (if l = KO then js '' '' else js '': '') @ rs_value signal @
     (case rs_status signal of Some s \<Rightarrow> MIDDLE_DOT @ s | None \<Rightarrow> [])"

definition REPORT_SCOPES :: "DashboardReportScope list" where
  "REPORT_SCOPES = [CurrentSnapshot, SelectedPeriod, CurrentView]"

definition metric_summary :: "UserLocale \<Rightarrow> DashboardReportMetric list \<Rightarrow> jsstring list \<Rightarrow> DashboardReportScope \<Rightarrow> jsstring list" where
  "metric_summary l metrics summaries scope =
     (let vs = filter (\<lambda>m. rm_scope m = scope) metrics
      in if vs = [] \<or> 3 \<le> length summaries then summaries
         else summaries @ [scopeLabel scope (REPORT_COPY l) @ js '': '' @
                           join_text MIDDLE_DOT (map (\<lambda>m. rm_label m @ js '' '' @ rm_value m) vs)])"

definition buildSummary :: "'a DashboardReportSnapshot_scheme \<Rightarrow> UserLocale \<Rightarrow> jsstring list" where
  "buildSummary snapshot l =
     (let signals = (case sn_signals snapshot of [] \<Rightarrow> [] | g # gs \<Rightarrow> [signal_summary l g]);
          summaries = foldl (metric_summary l (sn_metrics snapshot)) signals REPORT_SCOPES;
          bounded = (if sn_pageLimited snapshot \<and> length summaries < 3
                     then summaries @ [cp_visibleBoundary (REPORT_COPY l) (sn_visibleRowCount snapshot)] else summaries)
      in take 3 bounded)"

section \<open>Pages\<close>

text \<open>The loop advances by \<open>size\<close>, which is a positive constant in every call.\<close>

function chunk :: "nat \<Rightarrow> 'a list \<Rightarrow> 'a list list" where
  "chunk len xs = (if xs = [] \<or> len = 0 then [] else take len xs # chunk len (drop len xs))"
  by pat_completeness auto

termination
  by (relation "measure (length \<circ> snd)") auto

declare chunk.simps [simp del]

definition series_slice :: "nat \<Rightarrow> nat \<Rightarrow> DashboardReportTrendSeries \<Rightarrow> DashboardReportTrendSeries" where
  "series_slice len chunkIndex s = s\<lparr>ts_values := take len (drop (chunkIndex * len) (ts_values s))\<rparr>"

definition chunkTrend :: "DashboardReportTrend \<Rightarrow> nat \<Rightarrow> DashboardReportTrend list" where
  "chunkTrend trend len =
     map (\<lambda>(chunkIndex, categories). trend\<lparr>tr_categories := categories, tr_series := map (series_slice len chunkIndex) (tr_series trend)\<rparr>)
       (enumerate 0 (chunk len (tr_categories trend)))"

definition commonScope :: "DashboardReportScope list \<Rightarrow> DashboardReportScope option" where
  "commonScope scopes = (case scopes of [] \<Rightarrow> None | s # ss \<Rightarrow> if list_all (\<lambda>t. t = s) scopes then Some s else None)"

record report_overview =
  ov_reportId :: jsstring
  ov_summaries :: "jsstring list"
  ov_filters :: "ReportFilter list"
  ov_visibleBoundary :: "jsstring option"
  ov_signals :: "DashboardReportSignal list"
  ov_metricGroups :: "(DashboardReportScope \<times> DashboardReportMetric list) list"
  ov_breakdowns :: "DashboardReportBreakdown list"

datatype report_content =
    OverviewContent report_overview
  | EvidenceContent "DashboardReportBreakdown list" "DashboardReportRecordGroup option"
  | TrendContent DashboardReportTrend
  | RecordsContent "(jsstring \<times> jsstring list) list"
  | FactsContent "(jsstring \<times> jsstring) list"
  | TableContent "jsstring list" "jsstring list list"

record ReportPage =
  pg_content :: report_content
  pg_key :: jsstring
  pg_scope :: "DashboardReportScope option"
  pg_title :: jsstring

definition metric_groups :: "DashboardReportMetric list \<Rightarrow> (DashboardReportScope \<times> DashboardReportMetric list) list" where
  "metric_groups metrics = filter (\<lambda>(s, ms). ms \<noteq> []) (map (\<lambda>s. (s, filter (\<lambda>m. rm_scope m = s) metrics)) REPORT_SCOPES)"

definition report_id :: "int \<Rightarrow> jsstring" where
  "report_id generatedAt = SERVICE_NAME @ js ''-'' @ take 15 (filter (\<lambda>c. c \<noteq> 45 \<and> c \<noteq> 58) (iso_string generatedAt)) @ js ''Z''"

definition ReportOverview ::
  "(nat \<Rightarrow> jsstring) \<Rightarrow> UserLocale \<Rightarrow> 'a DashboardReportSnapshot_scheme \<Rightarrow> report_overview" where
  "ReportOverview upper l snapshot =
     \<lparr>ov_reportId = report_id (rc_generatedAt snapshot), ov_summaries = buildSummary snapshot l,
      ov_filters = buildReportFilters upper (rc_search snapshot) l,
      ov_visibleBoundary = (if sn_pageLimited snapshot then Some (cp_visibleBoundary (REPORT_COPY l) (sn_visibleRowCount snapshot)) else None),
      ov_signals = sn_signals snapshot, ov_metricGroups = metric_groups (sn_metrics snapshot),
      ov_breakdowns = take 2 (sn_breakdowns snapshot)\<rparr>"

definition page_key :: "string \<Rightarrow> jsstring \<Rightarrow> nat \<Rightarrow> jsstring" where
  "page_key kind title index = js kind @ js ''-'' @ title @ js ''-'' @ show_nat index"

definition evidence_page ::
  "UserLocale \<Rightarrow> nat \<Rightarrow> DashboardReportBreakdown list \<Rightarrow> DashboardReportRecordGroup option \<Rightarrow> ReportPage" where
  "evidence_page l index grp recordGroup =
     \<lparr>pg_content = EvidenceContent grp recordGroup, pg_key = js ''breakdowns-'' @ show_nat index,
      pg_scope = commonScope (map bd_scope grp @ (case recordGroup of Some g \<Rightarrow> [rg_scope g] | None \<Rightarrow> [])),
      pg_title = (if l = KO then [54645, 49900] @ js '' '' @ [44540, 44144] else js ''Key evidence'')\<rparr>"

text \<open>The first group of at most six records is taken out for the first page of evidence.\<close>

definition take_record_group ::
  "DashboardReportRecordGroup list \<Rightarrow> DashboardReportRecordGroup option \<times> DashboardReportRecordGroup list" where
  "take_record_group groups =
     (case find_index (\<lambda>g. length (rg_records g) \<le> 6) groups of
        Some i \<Rightarrow> (Some (groups ! i), take i groups @ drop (Suc i) groups) | None \<Rightarrow> (None, groups))"

definition evidence_pages ::
  "UserLocale \<Rightarrow> DashboardReportBreakdown list list \<Rightarrow> DashboardReportRecordGroup list \<Rightarrow> ReportPage list \<times> DashboardReportRecordGroup list" where
  "evidence_pages l chunks groups =
     (case chunks of
        [] \<Rightarrow> ([], groups)
      | c # cs \<Rightarrow>
          let (recordGroup, left) = take_record_group groups
          in (evidence_page l 0 c recordGroup # map (\<lambda>(i, b). evidence_page l i b None) (enumerate 1 cs), left))"

definition trend_pages :: "DashboardReportTrend \<Rightarrow> ReportPage list" where
  "trend_pages trend =
     map (\<lambda>(i, part). \<lparr>pg_content = TrendContent part, pg_key = page_key ''trend'' (tr_title trend) i,
                       pg_scope = Some (tr_scope trend), pg_title = tr_title trend\<rparr>) (enumerate 0 (chunkTrend trend 10))"

definition record_pages :: "DashboardReportRecordGroup \<Rightarrow> ReportPage list" where
  "record_pages grp =
     map (\<lambda>(i, rs). \<lparr>pg_content = RecordsContent rs, pg_key = page_key ''records'' (rg_title grp) i,
                     pg_scope = Some (rg_scope grp), pg_title = rg_title grp\<rparr>) (enumerate 0 (chunk 8 (rg_records grp)))"

definition fact_pages :: "DashboardReportFactGroup \<Rightarrow> ReportPage list" where
  "fact_pages grp =
     map (\<lambda>(i, fs). \<lparr>pg_content = FactsContent fs, pg_key = page_key ''facts'' (fg_title grp) i,
                     pg_scope = Some (fg_scope grp), pg_title = fg_title grp\<rparr>) (enumerate 0 (chunk 18 (fg_items grp)))"

definition rows_per_page :: "DashboardReportTable \<Rightarrow> nat" where
  "rows_per_page table = (if 8 < length (tb_columns table) then 7 else if 5 < length (tb_columns table) then 9 else 12)"

definition table_pages :: "DashboardReportTable \<Rightarrow> ReportPage list" where
  "table_pages table =
     map (\<lambda>(i, rows). \<lparr>pg_content = TableContent (tb_columns table) rows, pg_key = page_key ''table'' (tb_title table) i,
                       pg_scope = Some (tb_scope table), pg_title = tb_title table\<rparr>)
       (enumerate 0 (chunk (rows_per_page table) (tb_rows table)))"

definition report_pages :: "(nat \<Rightarrow> jsstring) \<Rightarrow> UserLocale \<Rightarrow> 'a DashboardReportSnapshot_scheme \<Rightarrow> ReportPage list" where
  "report_pages upper l snapshot =
     (let (evidence, remainingRecordGroups) = evidence_pages l (chunk 3 (drop 2 (sn_breakdowns snapshot))) (sn_recordGroups snapshot)
      in \<lparr>pg_content = OverviewContent (ReportOverview upper l snapshot), pg_key = js ''overview'', pg_scope = None,
          pg_title = cp_executiveSummary (REPORT_COPY l)\<rparr> #
         evidence @ concat (map trend_pages (sn_trends snapshot)) @ concat (map record_pages remainingRecordGroups) @
         concat (map fact_pages (sn_factGroups snapshot)) @ concat (map table_pages (sn_tables snapshot)))"

text \<open>A sheet of paper: the heading of every page but the first, and the number of the page at its foot.\<close>

record report_sheet =
  sh_heading :: "(jsstring \<times> DashboardReportScope option) option"
  sh_content :: report_content
  sh_folio :: jsstring
  sh_number :: nat
  sh_total :: nat

definition ReportSheet :: "'a DashboardReportSnapshot_scheme \<Rightarrow> nat \<Rightarrow> nat \<times> ReportPage \<Rightarrow> report_sheet" where
  "ReportSheet snapshot n = (\<lambda>(index, page).
     \<lparr>sh_heading = (if index = 0 then None else Some (pg_title page, pg_scope page)), sh_content = pg_content page,
      sh_folio = rc_pathname snapshot @ rc_search snapshot, sh_number = index + 1, sh_total = n\<rparr>)"

definition DashboardReportDocument ::
  "(nat \<Rightarrow> jsstring) \<Rightarrow> UserLocale \<Rightarrow> 'a DashboardReportSnapshot_scheme \<Rightarrow> report_sheet list" where
  "DashboardReportDocument upper l snapshot =
     (let pages = report_pages upper l snapshot in map (ReportSheet snapshot (length pages)) (enumerate 0 pages))"

section \<open>What a page shows\<close>

definition report_table_cells :: "jsstring list \<Rightarrow> jsstring list list \<Rightarrow> jsstring list list" where
  "report_table_cells columns rows =
     map (\<lambda>row. map (\<lambda>i. case cell_at row i of Some s \<Rightarrow> (if s = [] then EM_DASH else s) | None \<Rightarrow> EM_DASH) [0..<length columns]) rows"

definition record_numbers :: "'a list \<Rightarrow> jsstring list" where
  "record_numbers records = map (\<lambda>i. pad 2 (i + 1)) [0..<length records]"

text \<open>\<open>Math.max\<close> of the counts and 1, and the width of a bar in percent.\<close>

definition breakdown_maximum :: "jsnum list \<Rightarrow> jsnum" where
  "breakdown_maximum counts =
     (if NaN \<in> set counts then NaN else if PosInf \<in> set counts then PosInf
      else Num (foldr max (map (\<lambda>n. case n of Num r \<Rightarrow> r | _ \<Rightarrow> 1) counts) 1))"

definition bar_share :: "jsnum \<Rightarrow> jsnum \<Rightarrow> jsnum" where
  "bar_share maximum n =
     (case n of
        Num r \<Rightarrow> if 0 < r then (case maximum of Num m \<Rightarrow> Num (max (r / m * 100) 2) | NaN \<Rightarrow> NaN | _ \<Rightarrow> Num 2) else Num 0
      | PosInf \<Rightarrow> NaN
      | _ \<Rightarrow> Num 0)"

definition bar_shares :: "DashboardReportBreakdown \<Rightarrow> jsnum list" where
  "bar_shares b = (let counts = map br_count (bd_rows b) in map (bar_share (breakdown_maximum counts)) counts)"

definition trendX :: "nat \<Rightarrow> nat \<Rightarrow> rat" where
  "trendX index len = (if len \<le> 1 then 428 else 54 + (of_nat index * 748) / of_nat (len - 1))"

definition trendY :: "rat \<Rightarrow> rat \<Rightarrow> rat" where
  "trendY v maximum = 174 - (v / max maximum 1) * 150"

datatype path_step = MoveTo rat rat | LineTo rat rat

definition trendPath :: "rat option list \<Rightarrow> rat \<Rightarrow> path_step list" where
  "trendPath vs maximum =
     concat (map (\<lambda>index. case vs ! index of
         None \<Rightarrow> []
       | Some v \<Rightarrow> [(if index = 0 \<or> vs ! (index - 1) = None then MoveTo else LineTo) (trendX index (length vs)) (trendY v maximum)])
       [0..<length vs])"

definition trendPoints :: "rat option list \<Rightarrow> rat \<Rightarrow> (nat \<times> rat \<times> rat \<times> rat) list" where
  "trendPoints vs maximum =
     concat (map (\<lambda>index. case vs ! index of None \<Rightarrow> [] | Some v \<Rightarrow> [(index, v, trendX index (length vs), trendY v maximum)]) [0..<length vs])"

definition trend_maximum :: "DashboardReportTrend \<Rightarrow> rat" where
  "trend_maximum trend = foldr max (concat (map (\<lambda>s. map the (filter (\<lambda>v. v \<noteq> None) (ts_values s))) (tr_series trend))) 1"

definition axis_labels :: "nat \<Rightarrow> int list" where
  "axis_labels n = (let m = int n - 1 in first_occurrences (\<lambda>v. 0 \<le> v) [0, m div 2, m])"

definition chart_height :: "nat \<Rightarrow> int" where
  "chart_height n = (if n \<le> 4 then 320 else if n \<le> 7 then 270 else 230)"

text \<open>\<open>/\d{4}|\d{1,2}[:/-]\d{1,2}/\<close> somewhere in the text.\<close>

fun looks_like_date :: "jsstring \<Rightarrow> bool" where
  "looks_like_date [] = False"
| "looks_like_date (c # s) =
     ((3 \<le> length s \<and> list_all is_digit (c # take 3 s)) \<or>
      (2 \<le> length s \<and> is_digit c \<and> s ! 0 \<in> {58, 47, 45} \<and> is_digit (s ! 1)) \<or> looks_like_date s)"

definition localeIndependentBucketLabel :: "DashboardReportTrend \<Rightarrow> jsstring" where
  "localeIndependentBucketLabel trend = (if list_ex looks_like_date (tr_categories trend) then js ''Bucket'' else js ''Category'')"

definition formatReportNumber :: "(rat \<Rightarrow> jsstring) \<Rightarrow> rat option \<Rightarrow> jsstring" where
  "formatReportNumber to_locale v = (case v of None \<Rightarrow> EM_DASH | Some r \<Rightarrow> to_locale r)"

definition trend_table :: "(rat \<Rightarrow> jsstring) \<Rightarrow> DashboardReportTrend \<Rightarrow> jsstring list \<times> jsstring list list" where
  "trend_table to_locale trend =
     (localeIndependentBucketLabel trend # map ts_label (tr_series trend),
      map (\<lambda>(i, category). category # map (\<lambda>s. formatReportNumber to_locale (if i < length (ts_values s) then ts_values s ! i else None)) (tr_series trend))
        (enumerate 0 (tr_categories trend)))"

section \<open>Facts\<close>

subsection \<open>Chunks\<close>

lemma chunk_Nil [simp]: "chunk n [] = []"
  by (subst chunk.simps) simp

lemma chunk_Cons: "xs \<noteq> [] \<Longrightarrow> 0 < n \<Longrightarrow> chunk n xs = take n xs # chunk n (drop n xs)"
  by (subst chunk.simps) simp

lemma chunk_concat: "0 < n \<Longrightarrow> concat (chunk n xs) = xs"
proof (induction n xs rule: chunk.induct)
  case (1 n xs)
  then show ?case by (cases "xs = []") (simp_all add: chunk_Cons)
qed

lemma chunk_bounds: "c \<in> set (chunk n xs) \<Longrightarrow> c \<noteq> [] \<and> length c \<le> n"
proof (induction n xs rule: chunk.induct)
  case (1 n xs)
  have xs: "xs \<noteq> []" "0 < n" using 1(2) by (auto simp: chunk.simps [of n xs] split: if_splits)
  with 1(2) have "c = take n xs \<or> c \<in> set (chunk n (drop n xs))" by (simp add: chunk_Cons)
  with 1(1) xs show ?case by auto
qed

text \<open>Slicing a list of the same length at the indices of the chunks gives the chunks of that list.\<close>

lemma chunk_slices:
  assumes "0 < n" "length xs = length (drop (k * n) ys)"
  shows "map (\<lambda>(i, c). take n (drop (i * n) ys)) (enumerate k (chunk n xs)) = chunk n (drop (k * n) ys)"
  using assms
proof (induction n xs arbitrary: k rule: chunk.induct)
  case (1 n xs)
  show ?case
  proof (cases "xs = []")
    case False
    then have ys: "drop (k * n) ys \<noteq> []" using 1(3) by auto
    have "length (drop n xs) = length (drop (Suc k * n) ys)" using 1(3) by simp
    with 1(1) [of "Suc k"] 1(2) False ys show ?thesis by (simp add: chunk_Cons ac_simps)
  qed (use 1(3) in simp)
qed

lemma map_enumerate_snd: "(\<And>i x. f (i, x) = g x) \<Longrightarrow> map f (enumerate k xs) = map g xs"
  by (induction xs arbitrary: k) auto

lemma chunkTrend_categories: "0 < n \<Longrightarrow> concat (map tr_categories (chunkTrend t n)) = tr_categories t"
  by (simp add: chunkTrend_def map_enumerate_snd [where g = id] comp_def chunk_concat)

lemma chunkTrend_values:
  assumes "0 < n" "k < length (tr_series t)" "length (ts_values (tr_series t ! k)) = length (tr_categories t)"
  shows "concat (map (\<lambda>p. ts_values (tr_series p ! k)) (chunkTrend t n)) = ts_values (tr_series t ! k)"
proof -
  have "map (\<lambda>p. ts_values (tr_series p ! k)) (chunkTrend t n) =
      map (\<lambda>(i, c). take n (drop (i * n) (ts_values (tr_series t ! k)))) (enumerate 0 (chunk n (tr_categories t)))"
    using assms(2) by (simp add: chunkTrend_def case_prod_unfold series_slice_def)
  also have "\<dots> = chunk n (ts_values (tr_series t ! k))" using chunk_slices [of n "tr_categories t" 0 "ts_values (tr_series t ! k)"] assms by simp
  finally show ?thesis using chunk_concat [OF assms(1)] by simp
qed

subsection \<open>Pages\<close>

fun page_breakdowns :: "report_content \<Rightarrow> DashboardReportBreakdown list" where
  "page_breakdowns (OverviewContent ov) = ov_breakdowns ov"
| "page_breakdowns (EvidenceContent bs g) = bs"
| "page_breakdowns c = []"

fun page_records :: "report_content \<Rightarrow> (jsstring \<times> jsstring list) list" where
  "page_records (EvidenceContent bs (Some g)) = rg_records g"
| "page_records (RecordsContent rs) = rs"
| "page_records c = []"

fun page_facts :: "report_content \<Rightarrow> (jsstring \<times> jsstring) list" where
  "page_facts (FactsContent fs) = fs"
| "page_facts c = []"

fun page_rows :: "report_content \<Rightarrow> jsstring list list" where
  "page_rows (TableContent cs rows) = rows"
| "page_rows c = []"

fun page_trends :: "report_content \<Rightarrow> DashboardReportTrend list" where
  "page_trends (TrendContent t) = [t]"
| "page_trends c = []"

lemma page_contents [simp]:
  "map pg_content (trend_pages t) = map TrendContent (chunkTrend t 10)"
  "map pg_content (record_pages g) = map RecordsContent (chunk 8 (rg_records g))"
  "map pg_content (fact_pages f) = map FactsContent (chunk 18 (fg_items f))"
  "map pg_content (table_pages b) = map (TableContent (tb_columns b)) (chunk (rows_per_page b) (tb_rows b))"
  by (simp_all add: trend_pages_def record_pages_def fact_pages_def table_pages_def map_enumerate_snd)

lemma evidence_breakdowns:
  assumes "evidence_pages l chunks groups = (pages, left)"
  shows "concat (map page_breakdowns (map pg_content pages)) = concat chunks"
  using assms by (cases chunks) (auto simp: evidence_pages_def evidence_page_def map_enumerate_snd [where g = id] split: prod.splits)

lemma take_record_group_mset:
  assumes "take_record_group groups = (g, left)"
  shows "mset groups = mset (case g of Some x \<Rightarrow> [x] | None \<Rightarrow> []) + mset left \<and>
    (case g of Some x \<Rightarrow> length (rg_records x) \<le> 6 | None \<Rightarrow> True)"
proof (cases "find_index (\<lambda>g. length (rg_records g) \<le> 6) groups")
  case (Some i)
  then have i: "i < length groups" "length (rg_records (groups ! i)) \<le> 6" using find_index_Some by blast+
  have "groups = take i groups @ groups ! i # drop (Suc i) groups" using i(1) by (rule id_take_nth_drop)
  then have "mset groups = mset (take i groups @ groups ! i # drop (Suc i) groups)" by metis
  with Some i assms show ?thesis by (auto simp: take_record_group_def)
qed (use assms in \<open>auto simp: take_record_group_def\<close>)

lemma evidence_records:
  assumes "evidence_pages l chunks groups = (pages, left)"
  shows "mset (concat (map page_records (map pg_content pages))) + mset (concat (map rg_records left)) =
    mset (concat (map rg_records groups))"
proof (cases chunks)
  case (Cons c cs)
  obtain g rest where g: "take_record_group groups = (g, rest)" by fastforce
  have "concat (map page_records (map pg_content (map (\<lambda>(i, b). evidence_page l i b None) (enumerate 1 cs)))) = []"
    by (auto simp: evidence_page_def)
  then have "concat (map page_records (map pg_content pages)) = (case g of Some x \<Rightarrow> rg_records x | None \<Rightarrow> [])" "left = rest"
    using assms Cons g by (auto simp: evidence_pages_def evidence_page_def split: option.splits)
  moreover have "(\<Sum>x\<in>#mset groups. mset (rg_records x)) =
      (\<Sum>x\<in>#mset (case g of Some x \<Rightarrow> [x] | None \<Rightarrow> []). mset (rg_records x)) + (\<Sum>x\<in>#mset rest. mset (rg_records x))"
    using take_record_group_mset [OF g] by simp
  ultimately show ?thesis by (simp add: mset_concat comp_def split: option.splits flip: sum_mset_sum_list)
qed (use assms in \<open>simp add: evidence_pages_def\<close>)

text \<open>Nothing the snapshot holds is lost or shown twice.\<close>

lemma concat_map_parts:
  "concat (map f (concat (map (\<lambda>x. map (C x) (g x)) xs))) = concat (map (\<lambda>x. concat (map (\<lambda>y. f (C x y)) (g x))) xs)"
  by (induction xs) (simp_all add: comp_def)

lemma concat_map_Nil [simp]: "concat (map (\<lambda>x. []) xs) = []"
  by (induction xs) simp_all

lemma rows_per_page_bounds: "0 < rows_per_page b" "rows_per_page b \<le> 12"
  by (simp_all add: rows_per_page_def)

definition report_contents :: "(nat \<Rightarrow> jsstring) \<Rightarrow> UserLocale \<Rightarrow> 'a DashboardReportSnapshot_scheme \<Rightarrow> report_content list" where
  "report_contents upper l snapshot = map pg_content (report_pages upper l snapshot)"

lemma report_contents_split:
  assumes "evidence_pages l (chunk 3 (drop 2 (sn_breakdowns s))) (sn_recordGroups s) = (pages, left)"
  shows "report_contents upper l s =
    OverviewContent (ReportOverview upper l s) # map pg_content pages @
    concat (map (\<lambda>t. map TrendContent (chunkTrend t 10)) (sn_trends s)) @
    concat (map (\<lambda>g. map RecordsContent (chunk 8 (rg_records g))) left) @
    concat (map (\<lambda>f. map FactsContent (chunk 18 (fg_items f))) (sn_factGroups s)) @
    concat (map (\<lambda>b. map (TableContent (tb_columns b)) (chunk (rows_per_page b) (tb_rows b))) (sn_tables s))"
  using assms by (simp add: report_contents_def report_pages_def map_concat comp_def)

lemma evidence_content:
  assumes "evidence_pages l chunks groups = (pages, left)" "c \<in> set (map pg_content pages)"
  shows "\<exists>bs g. c = EvidenceContent bs g \<and> bs \<in> set chunks \<and> (\<forall>x. g = Some x \<longrightarrow> length (rg_records x) \<le> 6)"
proof (cases chunks)
  case (Cons b bs)
  obtain g rest where g: "take_record_group groups = (g, rest)" by fastforce
  have "\<forall>x. g = Some x \<longrightarrow> length (rg_records x) \<le> 6" using take_record_group_mset [OF g] by auto
  with assms g Cons show ?thesis
    by (auto simp: evidence_pages_def evidence_page_def dest!: in_set_enumerate_eq [THEN iffD1])
qed (use assms in \<open>simp add: evidence_pages_def\<close>)

text \<open>How much a page may hold.\<close>

fun page_fits :: "report_content \<Rightarrow> bool" where
  "page_fits (OverviewContent ov) \<longleftrightarrow> length (ov_breakdowns ov) \<le> 2 \<and> length (ov_summaries ov) \<le> 3"
| "page_fits (EvidenceContent bs g) \<longleftrightarrow> length bs \<le> 3 \<and> (case g of Some x \<Rightarrow> length (rg_records x) \<le> 6 | None \<Rightarrow> True)"
| "page_fits (TrendContent t) \<longleftrightarrow> length (tr_categories t) \<le> 10"
| "page_fits (RecordsContent rs) \<longleftrightarrow> length rs \<le> 8"
| "page_fits (FactsContent fs) \<longleftrightarrow> length fs \<le> 18"
| "page_fits (TableContent cs rows) \<longleftrightarrow> length rows \<le> (if 8 < length cs then 7 else if 5 < length cs then 9 else 12)"

lemma report_pages_fit: "list_all page_fits (report_contents upper l s)"
proof -
  obtain pages left where e: "evidence_pages l (chunk 3 (drop 2 (sn_breakdowns s))) (sn_recordGroups s) = (pages, left)" by fastforce
  have "page_fits c" if "c \<in> set (map pg_content pages)" for c
    using evidence_content [OF e that] chunk_bounds [of _ 3 "drop 2 (sn_breakdowns s)"] by (auto split: option.splits)
  moreover have "page_fits (OverviewContent (ReportOverview upper l s))"
    by (simp add: ReportOverview_def buildSummary_def Let_def)
  moreover have "page_fits (TrendContent p)" if "p \<in> set (chunkTrend t 10)" for p t
    using that chunk_bounds [of _ 10 "tr_categories t"] by (auto simp: chunkTrend_def in_set_enumerate_eq)
  moreover have "page_fits (TableContent (tb_columns b) rows)" if "rows \<in> set (chunk (rows_per_page b) (tb_rows b))" for b rows
    using chunk_bounds [OF that] by (simp add: rows_per_page_def split: if_splits)
  ultimately show ?thesis
    unfolding report_contents_split [OF e] list_all_iff by (auto dest: chunk_bounds)
qed

lemma report_pages_conserve:
  "concat (map page_breakdowns (report_contents upper l s)) = sn_breakdowns s \<and>
   mset (concat (map page_records (report_contents upper l s))) = mset (concat (map rg_records (sn_recordGroups s))) \<and>
   concat (map page_facts (report_contents upper l s)) = concat (map fg_items (sn_factGroups s)) \<and>
   concat (map page_rows (report_contents upper l s)) = concat (map tb_rows (sn_tables s)) \<and>
   concat (map page_trends (report_contents upper l s)) = concat (map (\<lambda>t. chunkTrend t 10) (sn_trends s))"
proof -
  obtain pages left where e: "evidence_pages l (chunk 3 (drop 2 (sn_breakdowns s))) (sn_recordGroups s) = (pages, left)" by fastforce
  have none: "concat (map page_facts (map pg_content pages)) = []" "concat (map page_rows (map pg_content pages)) = []"
      "concat (map page_trends (map pg_content pages)) = []"
    using evidence_content [OF e] by fastforce+
  have b: "concat (map page_breakdowns (map pg_content pages)) = drop 2 (sn_breakdowns s)"
    using evidence_breakdowns [OF e] by (simp add: chunk_concat)
  show ?thesis
    using none b evidence_records [OF e] unfolding report_contents_split [OF e]
    by (simp add: concat_map_parts chunk_concat rows_per_page_bounds ReportOverview_def)
qed

text \<open>The pages of a trend together show every category once and, for every series, its values in order.\<close>

lemma trend_parts:
  assumes "trend_ok t"
  shows "concat (map tr_categories (chunkTrend t 10)) = tr_categories t \<and>
    list_all (\<lambda>k. concat (map (\<lambda>p. ts_values (tr_series p ! k)) (chunkTrend t 10)) = ts_values (tr_series t ! k)) [0..<length (tr_series t)]"
  using assms chunkTrend_categories [of 10 t] chunkTrend_values [of 10 _ t] by (simp add: trend_ok_def list_all_iff)

subsection \<open>Charts\<close>

lemma foldr_max_ge: "(1 :: rat) \<le> foldr max xs 1" "x \<in> set xs \<Longrightarrow> x \<le> foldr max xs (1 :: rat)"
  by (induction xs) (auto simp: max_def)

lemma parseCount_not_NaN: "parseCount s \<noteq> NaN"
  by (simp add: parseCount_def split: jsnum.splits)

lemma bar_share_bounds:
  assumes "n \<in> set counts" "NaN \<notin> set counts" "PosInf \<notin> set counts"
  shows "\<exists>r. bar_share (breakdown_maximum counts) n = Num r \<and> 0 \<le> r \<and> r \<le> 100 \<and> (r = 0 \<or> 2 \<le> r)"
proof -
  define M where "M = foldr max (map (\<lambda>n. case n of Num r \<Rightarrow> r | _ \<Rightarrow> 1) counts) 1"
  have M: "breakdown_maximum counts = Num M" using assms(2,3) by (simp add: breakdown_maximum_def M_def)
  have "1 \<le> M" unfolding M_def by (rule foldr_max_ge)
  show ?thesis
  proof (cases n)
    case (Num r)
    with assms(1) have "r \<in> set (map (\<lambda>n. case n of Num r \<Rightarrow> r | _ \<Rightarrow> 1) counts)" by force
    then have "r \<le> M" unfolding M_def by (rule foldr_max_ge)
    with \<open>1 \<le> M\<close> have "r / M \<le> 1" by (simp add: divide_le_eq_1)
    then have "r / M * 100 \<le> 1 * 100" by (rule mult_right_mono) simp
    with Num M show ?thesis by (auto simp: bar_share_def max_def)
  qed (use assms in \<open>auto simp: bar_share_def\<close>)
qed

lemma trendX_bounds: "index < len \<Longrightarrow> 54 \<le> trendX index len \<and> trendX index len \<le> 802"
proof -
  assume i: "index < len"
  show ?thesis
  proof (cases "len \<le> 1")
    case False
    define n where "n = len - 1"
    with i False have n: "0 < n" "index \<le> n" by auto
    then have "of_nat index * 748 / (of_nat n :: rat) \<le> 748" by (simp add: divide_le_eq)
    with False show ?thesis by (simp add: trendX_def n_def)
  qed (simp add: trendX_def)
qed

lemma trendY_bounds: "0 \<le> v \<Longrightarrow> v \<le> m \<Longrightarrow> 1 \<le> m \<Longrightarrow> 24 \<le> trendY v m \<and> trendY v m \<le> 174"
  by (simp add: trendY_def max_def divide_le_eq)

lemma trendPoints_bounds:
  assumes "s \<in> set (tr_series t)" "\<And>v. Some v \<in> set (ts_values s) \<Longrightarrow> 0 \<le> v" "(i, v, x, y) \<in> set (trendPoints (ts_values s) (trend_maximum t))"
  shows "54 \<le> x \<and> x \<le> 802 \<and> 24 \<le> y \<and> y \<le> 174 \<and> i < length (ts_values s) \<and> ts_values s ! i = Some v"
proof -
  from assms(3) have i: "i < length (ts_values s)" "ts_values s ! i = Some v"
      and xy: "x = trendX i (length (ts_values s))" "y = trendY v (trend_maximum t)"
    by (auto simp: trendPoints_def split: option.splits)
  then have v: "Some v \<in> set (ts_values s)" by (metis nth_mem)
  then have "v \<in> set (map the (filter (\<lambda>v. v \<noteq> None) (ts_values s)))" by force
  with assms(1) have "v \<in> set (concat (map (\<lambda>s. map the (filter (\<lambda>v. v \<noteq> None) (ts_values s))) (tr_series t)))" by auto
  then have "v \<le> trend_maximum t" "1 \<le> trend_maximum t" unfolding trend_maximum_def using foldr_max_ge by blast+
  with trendY_bounds [OF assms(2) [OF v]] trendX_bounds [OF i(1)] i xy show ?thesis by blast
qed

fun step_point :: "path_step \<Rightarrow> rat \<times> rat" where
  "step_point (MoveTo x y) = (x, y)"
| "step_point (LineTo x y) = (x, y)"

text \<open>The line goes through the points, in their order.\<close>

lemma trendPath_points: "map step_point (trendPath vs m) = map (\<lambda>(i, v, x, y). (x, y)) (trendPoints vs m)"
  unfolding trendPath_def trendPoints_def map_concat map_map comp_def
  by (rule arg_cong [of _ _ concat], rule map_cong) (auto split: option.splits)

subsection \<open>Filters\<close>

lemma own_text_inherited:
  assumes "set (map fst table) \<inter> set prototype_members = {}"
  shows "own_text table name fallback = InheritedMember \<longleftrightarrow> name \<in> set (map js prototype_members)"
proof -
  have "map_of (map (\<lambda>(k, v). (js k, v)) table) (js p) = None" if "p \<in> set prototype_members" for p
    using assms that by (force simp: map_of_eq_None_iff)
  then show ?thesis
    by (auto simp: own_text_def object_member_def split: option.splits)
qed

lemma report_tables_own:
  "set (map fst (FILTER_LABELS l)) \<inter> set prototype_members = {}" "set (map fst (presets l)) \<inter> set prototype_members = {}"
  by (cases l; simp add: prototype_members_def)+

lemma report_filter_texts:
  "rf_label (report_filter upper l (k, v)) = InheritedMember \<longleftrightarrow> k \<in> set (map js prototype_members)"
  "rf_value (report_filter upper l (k, v)) = InheritedMember \<longleftrightarrow> v \<in> set (map js prototype_members)"
proof -
  have "js ''page'' \<notin> set (map js prototype_members)" "js ''pageSize'' \<notin> set (map js prototype_members)"
    by (simp_all add: prototype_members_def)
  then show "rf_label (report_filter upper l (k, v)) = InheritedMember \<longleftrightarrow> k \<in> set (map js prototype_members)"
    by (auto simp: report_filter_def own_text_inherited [OF report_tables_own(1)] simp del: FILTER_LABELS.simps)
  show "rf_value (report_filter upper l (k, v)) = InheritedMember \<longleftrightarrow> v \<in> set (map js prototype_members)"
    by (simp add: report_filter_def humanizeValue_def own_text_inherited [OF report_tables_own(2)])
qed

end
