(* ===== verification/ReportProperties.thy ===== *)
theory ReportProperties
  imports ReportDocument
begin

text \<open>
  The properties of the printed report, from the document it is read from to the sheets it is printed on.
\<close>

section \<open>Reading the page\<close>

text \<open>
  The series of a trend, which are read table by table while the categories are still being collected
  and padded at the end, are the ones that two passes would give: first all categories, without repetition,
  then for every column of every table the value of each category, or none.
\<close>

lemma trend_series_aligned:
  "distinct (fst (trend_data srcs)) \<and>
   map ts_values (snd (trend_data srcs)) =
     concat (map (\<lambda>src. map (\<lambda>j. map (category_value (value_map (src_rows src) j)) (fst (trend_data srcs))) (column_indices src)) srcs)"
  using trend_data_aligned [of srcs] unfolding source_values_def by blast

section \<open>Printing it\<close>


text \<open>
  What is drawn stays in its frame: the bars of a distribution are between 0 and 100 percent wide, and at
  least 2 when they are shown at all, and the points of a series of counts lie on the grid of the chart.
\<close>

lemma report_charts_in_frame:
  assumes "PosInf \<notin> br_count ` set (bd_rows b)" "NaN \<notin> br_count ` set (bd_rows b)"
    and "s \<in> set (tr_series t)" "\<forall>v\<in>set (ts_values s). v = None \<or> 0 \<le> the v"
  shows "list_all (\<lambda>n. \<exists>r. n = Num r \<and> (r = 0 \<or> 2 \<le> r \<and> r \<le> 100)) (bar_shares b) \<and>
    list_all (\<lambda>(i, v, x, y). 54 \<le> x \<and> x \<le> 802 \<and> 24 \<le> y \<and> y \<le> 174) (trendPoints (ts_values s) (trend_maximum t)) \<and>
    map step_point (trendPath (ts_values s) (trend_maximum t)) = map (\<lambda>(i, v, x, y). (x, y)) (trendPoints (ts_values s) (trend_maximum t))"
proof (intro conjI)
  show "list_all (\<lambda>n. \<exists>r. n = Num r \<and> (r = 0 \<or> 2 \<le> r \<and> r \<le> 100)) (bar_shares b)"
    using assms(1,2) bar_share_bounds [of _ "map br_count (bd_rows b)"]
    by (fastforce simp: bar_shares_def list_all_iff Let_def)
  have "0 \<le> v" if "Some v \<in> set (ts_values s)" for v using assms(4) that by auto
  then show "list_all (\<lambda>(i, v, x, y). 54 \<le> x \<and> x \<le> 802 \<and> 24 \<le> y \<and> y \<le> 174) (trendPoints (ts_values s) (trend_maximum t))"
    using trendPoints_bounds [OF assms(3)] by (auto simp: list_all_iff)
qed (rule trendPath_points)

text \<open>
  C26. The filters of the report are texts exactly as long as no parameter with a value is called like, or has
  as its value, a member that every object inherits; otherwise the lookup of its label or of its preset
  finds that member.
\<close>

theorem report_filters_text:
  "InheritedMember \<in> rf_label ` set (buildReportFilters upper search l) \<union> rf_value ` set (buildReportFilters upper search l) \<longleftrightarrow>
   list_ex (\<lambda>(k, v). v \<noteq> [] \<and> (k \<in> set (map js prototype_members) \<or> v \<in> set (map js prototype_members))) (params_of_string search)"
proof -
  let ?A = "{p \<in> set (params_of_string search). snd p \<noteq> []}"
  have filters: "set (buildReportFilters upper search l) = report_filter upper l ` ?A"
    by (auto simp: buildReportFilters_def case_prod_unfold)
  have labels: "(InheritedMember = rf_label (report_filter upper l p)) = (fst p \<in> set (map js prototype_members))" for p
    using report_filter_texts(1) [of upper l "fst p" "snd p"] by (subst eq_commute) simp
  have texts: "(InheritedMember = rf_value (report_filter upper l p)) = (snd p \<in> set (map js prototype_members))" for p
    using report_filter_texts(2) [of upper l "fst p" "snd p"] by (subst eq_commute) simp
  have "(\<exists>x\<in>{p \<in> A. P p}. F x) \<or> (\<exists>x\<in>{p \<in> A. P p}. G x) \<longleftrightarrow> (\<exists>p\<in>A. P p \<and> (F p \<or> G p))" for A :: "'a set" and P F G
    by blast
  then show ?thesis unfolding filters Un_iff image_image image_iff labels texts list_ex_iff case_prod_unfold .
qed

end
