(* ===== verification/ConsoleControls.thy ===== *)
theory ConsoleControls
  imports NavigationUrl
begin

text \<open>
  Controls with a state of their own: the two pickers of an endpoint
  (\<open>features/overview/EndpointScopePicker.tsx\<close>, \<open>components/EndpointSwitcher.tsx\<close>), dialogs and drawers
  with their focus (\<open>components/primitives.tsx\<close>) and the links between the pages of a list
  (\<open>components/ui.tsx\<close>).  What the API answers to the search of a picker is an event that may arrive at any
  time, also while an option is marked.
\<close>

section \<open>Pickers\<close>

text \<open>The state both pickers keep; the marked option is \<open>-1\<close> when there is none.\<close>

record endpoint_picker =
  pk_open :: bool
  pk_query :: jsstring
  pk_page :: int
  pk_active :: int

definition initial_picker :: endpoint_picker where
  "initial_picker = \<lparr>pk_open = False, pk_query = [], pk_page = 1, pk_active = -1\<rparr>"

definition next_option :: "nat \<Rightarrow> int \<Rightarrow> int" where
  "next_option n index = (index + 1) mod int n"

definition previous_option :: "nat \<Rightarrow> int \<Rightarrow> int" where
  "previous_option n index = (if index \<le> 0 then int n - 1 else index - 1)"

datatype picker_key = Escape | ArrowDown | ArrowUp | Enter | OtherKey

subsection \<open>The scope of the overview\<close>

text \<open>
  The result of a handler is the new state and, when \<open>onChange\<close> is called, its argument: an endpoint or
  \<open>undefined\<close>.
\<close>

definition scope_close :: "endpoint_picker \<Rightarrow> endpoint_picker" where
  "scope_close p = p\<lparr>pk_open := False, pk_active := -1\<rparr>"

definition scope_select :: "int option \<Rightarrow> endpoint_picker \<Rightarrow> endpoint_picker \<times> int option option" where
  "scope_select endpoint p = (scope_close p, Some endpoint)"

definition option_at :: "int list \<Rightarrow> int \<Rightarrow> int option" where
  "option_at endpoints index = (if 0 \<le> index \<and> nat index < length endpoints then Some (endpoints ! nat index) else None)"

definition scope_onKeyDown :: "int list \<Rightarrow> picker_key \<Rightarrow> endpoint_picker \<Rightarrow> endpoint_picker \<times> int option option" where
  "scope_onKeyDown endpoints key p =
     (if key = Escape then (scope_close p, None)
      else if endpoints = [] then (p, None)
      else if key = ArrowDown then (p\<lparr>pk_active := next_option (length endpoints) (pk_active p)\<rparr>, None)
      else if key = ArrowUp then (p\<lparr>pk_active := previous_option (length endpoints) (pk_active p)\<rparr>, None)
      else if key = Enter \<and> 0 \<le> pk_active p then scope_select (option_at endpoints (pk_active p)) p
      else (p, None))"

definition scope_toggle :: "endpoint_picker \<Rightarrow> endpoint_picker" where
  "scope_toggle p = p\<lparr>pk_open := \<not> pk_open p\<rparr>"

definition scope_type :: "jsstring \<Rightarrow> endpoint_picker \<Rightarrow> endpoint_picker" where
  "scope_type v p = p\<lparr>pk_query := v, pk_page := 1, pk_active := -1\<rparr>"

definition hover_option :: "nat \<Rightarrow> endpoint_picker \<Rightarrow> endpoint_picker" where
  "hover_option index p = p\<lparr>pk_active := int index\<rparr>"

definition turn_page :: "int \<Rightarrow> endpoint_picker \<Rightarrow> endpoint_picker" where
  "turn_page by p = p\<lparr>pk_page := pk_page p + by, pk_active := -1\<rparr>"

definition SCOPE_PAGE_SIZE :: int where "SCOPE_PAGE_SIZE = 20"

definition total_pages :: "int \<Rightarrow> int \<Rightarrow> int" where
  "total_pages rows size_of_page = max 1 \<lceil>of_int rows / (of_int size_of_page :: rat)\<rceil>"

text \<open>
  The picker on the page: its state, the endpoints and their number as the API last answered for the search
  and page shown, and the scopes chosen so far.
\<close>

record scope_view =
  sv_picker :: endpoint_picker
  sv_endpoints :: "int list"
  sv_total :: int
  sv_chosen :: "int option list"

definition with_choice :: "scope_view \<Rightarrow> endpoint_picker \<times> int option option \<Rightarrow> scope_view" where
  "with_choice v r =
     v\<lparr>sv_picker := fst r, sv_chosen := sv_chosen v @ (case snd r of Some c \<Rightarrow> [c] | None \<Rightarrow> [])\<rparr>"

inductive scope_step :: "scope_view \<Rightarrow> scope_view \<Rightarrow> bool" where
  toggle: "scope_step v (v\<lparr>sv_picker := scope_toggle (sv_picker v)\<rparr>)"
| outside: "pk_open (sv_picker v) \<Longrightarrow> scope_step v (v\<lparr>sv_picker := scope_close (sv_picker v)\<rparr>)"
| type: "pk_open (sv_picker v) \<Longrightarrow> scope_step v (v\<lparr>sv_picker := scope_type s (sv_picker v), sv_endpoints := [], sv_total := 0\<rparr>)"
| key: "pk_open (sv_picker v) \<Longrightarrow> scope_step v (with_choice v (scope_onKeyDown (sv_endpoints v) k (sv_picker v)))"
| hover: "pk_open (sv_picker v) \<Longrightarrow> i < length (sv_endpoints v) \<Longrightarrow> scope_step v (v\<lparr>sv_picker := hover_option i (sv_picker v)\<rparr>)"
| click: "pk_open (sv_picker v) \<Longrightarrow> i < length (sv_endpoints v) \<Longrightarrow>
    scope_step v (with_choice v (scope_select (Some (sv_endpoints v ! i)) (sv_picker v)))"
| all: "pk_open (sv_picker v) \<Longrightarrow> scope_step v (with_choice v (scope_select None (sv_picker v)))"
| previous: "pk_open (sv_picker v) \<Longrightarrow> 1 < pk_page (sv_picker v) \<Longrightarrow>
    scope_step v (v\<lparr>sv_picker := turn_page (-1) (sv_picker v), sv_endpoints := [], sv_total := 0\<rparr>)"
| later: "pk_open (sv_picker v) \<Longrightarrow> pk_page (sv_picker v) < total_pages (sv_total v) SCOPE_PAGE_SIZE \<Longrightarrow>
    scope_step v (v\<lparr>sv_picker := turn_page 1 (sv_picker v), sv_endpoints := [], sv_total := 0\<rparr>)"

text \<open>A first answer for a search or page, and a later one that replaces it.\<close>

inductive answer_step :: "scope_view \<Rightarrow> scope_view \<Rightarrow> bool" where
  first: "sv_endpoints v = [] \<Longrightarrow> answer_step v (v\<lparr>sv_endpoints := es, sv_total := n\<rparr>)"

inductive refetch_step :: "scope_view \<Rightarrow> scope_view \<Rightarrow> bool" where
  again: "refetch_step v (v\<lparr>sv_endpoints := es, sv_total := n\<rparr>)"

inductive_simps refetch_step_iff: "refetch_step v v'"

text \<open>What is reached as long as an answer is not replaced while it is shown.\<close>

inductive reachable_scope :: "scope_view \<Rightarrow> bool" where
  mount: "reachable_scope \<lparr>sv_picker = initial_picker, sv_endpoints = [], sv_total = 0, sv_chosen = []\<rparr>"
| step: "reachable_scope v \<Longrightarrow> scope_step v v' \<Longrightarrow> reachable_scope v'"
| answer: "reachable_scope v \<Longrightarrow> answer_step v v' \<Longrightarrow> reachable_scope v'"

subsection \<open>Switching to another endpoint\<close>

definition switcher_term_ok :: "jsstring \<Rightarrow> bool" where
  "switcher_term_ok query = (let n = length (trim query) in 1 \<le> n \<and> n \<le> 128)"

text \<open>The address a choice navigates to: the path of the endpoint and the parameters with the selection.\<close>

definition switcher_target :: "search_params \<Rightarrow> int \<Rightarrow> jsstring \<times> jsstring" where
  "switcher_target params endpointId =
     (js ''/endpoints/'' @ js_String (Num (of_int endpointId)),
      js ''?'' @ params_to_string (params_set params (js ''selected'') (js_String (Num (of_int endpointId)))))"

definition switcher_select ::
  "search_params \<Rightarrow> int \<Rightarrow> endpoint_picker \<Rightarrow> endpoint_picker \<times> (jsstring \<times> jsstring) option" where
  "switcher_select params endpointId p = (p\<lparr>pk_open := False\<rparr>, Some (switcher_target params endpointId))"

definition switcher_onKeyDown ::
  "search_params \<Rightarrow> int list \<Rightarrow> picker_key \<Rightarrow> endpoint_picker \<Rightarrow> endpoint_picker \<times> (jsstring \<times> jsstring) option" where
  "switcher_onKeyDown params endpoints key p =
     (if key = Escape then (p\<lparr>pk_open := False, pk_active := -1\<rparr>, None)
      else if endpoints = [] then (p, None)
      else if key = ArrowDown then (p\<lparr>pk_open := True, pk_active := next_option (length endpoints) (pk_active p)\<rparr>, None)
      else if key = ArrowUp then (p\<lparr>pk_active := previous_option (length endpoints) (pk_active p)\<rparr>, None)
      else if key = Enter \<and> 0 \<le> pk_active p
           then (case option_at endpoints (pk_active p) of Some e \<Rightarrow> switcher_select params e p | None \<Rightarrow> (p, None))
      else (p, None))"

definition switcher_type :: "jsstring \<Rightarrow> endpoint_picker \<Rightarrow> endpoint_picker" where
  "switcher_type v p = p\<lparr>pk_query := v, pk_page := 1, pk_active := -1, pk_open := True\<rparr>"

definition switcher_focus :: "endpoint_picker \<Rightarrow> endpoint_picker" where
  "switcher_focus p = p\<lparr>pk_open := switcher_term_ok (pk_query p)\<rparr>"

section \<open>Dialogs and drawers\<close>

text \<open>
  The page as far as \<open>useModalFocus\<close> changes it: the overflow style of the body, the focused element, and for
  every open dialog what it found when it was opened.
\<close>

record modal_page =
  mp_overflow :: jsstring
  mp_focus :: nat
  mp_saved :: "(nat \<times> jsstring \<times> nat) list"

definition open_modal :: "nat \<Rightarrow> nat option \<Rightarrow> nat \<Rightarrow> modal_page \<Rightarrow> modal_page" where
  "open_modal dialog returnFocus first p =
     p\<lparr>mp_overflow := js ''hidden'', mp_focus := first,
       mp_saved := (dialog, mp_overflow p, case returnFocus of Some e \<Rightarrow> e | None \<Rightarrow> mp_focus p) # mp_saved p\<rparr>"

definition close_modal :: "nat \<Rightarrow> modal_page \<Rightarrow> modal_page" where
  "close_modal dialog p =
     (case map_of (mp_saved p) dialog of
        None \<Rightarrow> p
      | Some (overflow, focus) \<Rightarrow>
          p\<lparr>mp_overflow := overflow, mp_focus := focus, mp_saved := filter (\<lambda>e. fst e \<noteq> dialog) (mp_saved p)\<rparr>)"

text \<open>
  The tab key within a panel: the element the handler moves the focus to, if it does; otherwise the browser
  moves on to the neighbour in the document.
\<close>

definition trap_focus :: "'e list \<Rightarrow> bool \<Rightarrow> 'e \<Rightarrow> 'e option" where
  "trap_focus focusable shift active =
     (if focusable = [] then None
      else if shift \<and> active = hd focusable then Some (last focusable)
      else if \<not> shift \<and> active = last focusable then Some (hd focusable)
      else None)"

definition tab_index :: "nat \<Rightarrow> bool \<Rightarrow> nat \<Rightarrow> nat" where
  "tab_index n shift i =
     (case trap_focus [0..<n] shift i of Some j \<Rightarrow> j | None \<Rightarrow> if shift then i - 1 else i + 1)"

section \<open>Pages of a list\<close>

definition pagination_url :: "jsstring \<Rightarrow> search_params \<Rightarrow> int \<Rightarrow> jsstring" where
  "pagination_url pathname params targetPage =
     (let changed = (if targetPage \<le> 1 then params_delete params (js ''page'')
                     else params_set params (js ''page'') (js_String (Num (of_int targetPage))))
      in pathname @ (if changed \<noteq> [] then js ''?'' @ params_to_string changed else []))"

definition previous_link :: "int \<Rightarrow> int option" where
  "previous_link page = (if page \<le> 1 then None else Some (page - 1))"

definition next_link :: "int \<Rightarrow> int \<Rightarrow> int \<Rightarrow> int option" where
  "next_link page rows size_of_page = (if total_pages rows size_of_page \<le> page then None else Some (page + 1))"

definition updateListParams :: "search_params \<Rightarrow> (jsstring \<times> jsstring option) list \<Rightarrow> search_params" where
  "updateListParams current vs =
     params_delete
       (foldl (\<lambda>ps (key, v). case v of
            None \<Rightarrow> params_delete ps key
          | Some s \<Rightarrow> if s = [] then params_delete ps key else params_set ps key s) current vs)
       (js ''page'')"

section \<open>Facts\<close>

subsection \<open>A list of options under the arrow keys\<close>

locale option_cursor =
  fixes down up :: "nat \<Rightarrow> 's \<Rightarrow> 's"
    and cursor :: "'s \<Rightarrow> int"
  assumes cursor_down: "0 < n \<Longrightarrow> cursor (down n s) = (cursor s + 1) mod int n"
    and cursor_up: "0 < n \<Longrightarrow> cursor (up n s) = (if cursor s \<le> 0 then int n - 1 else cursor s - 1)"
begin

definition on_option :: "nat \<Rightarrow> 's \<Rightarrow> bool" where
  "on_option n s \<longleftrightarrow> 0 \<le> cursor s \<and> cursor s < int n"

lemma down_on_option: "0 < n \<Longrightarrow> on_option n (down n s)"
  by (simp add: on_option_def cursor_down)

lemma up_on_option: "0 < n \<Longrightarrow> cursor s \<le> int n \<Longrightarrow> on_option n (up n s)"
  by (auto simp: on_option_def cursor_up)

lemma up_down: "on_option n s \<Longrightarrow> cursor (up n (down n s)) = cursor s"
proof -
  assume "on_option n s"
  then have n: "0 < n" "0 \<le> cursor s" "cursor s < int n" by (auto simp: on_option_def)
  show ?thesis
  proof (cases "cursor s + 1 = int n")
    case True
    then show ?thesis using n by (simp add: cursor_up cursor_down)
  next
    case False
    then have "(cursor s + 1) mod int n = cursor s + 1" using n by simp
    then show ?thesis using n by (simp add: cursor_up cursor_down)
  qed
qed

lemma down_times: "0 < n \<Longrightarrow> cursor s = -1 \<Longrightarrow> cursor ((down n ^^ Suc k) s) = int (k mod n)"
proof (induction k)
  case (Suc k)
  have "cursor ((down n ^^ Suc (Suc k)) s) = (int (k mod n) + 1) mod int n"
    using Suc by (simp add: cursor_down)
  also have "\<dots> = int (Suc k mod n)" by (simp add: zmod_int mod_add_left_eq mod_add_right_eq add.commute)
  finally show ?case .
qed (simp add: cursor_down)

text \<open>Every option is reached, from none marked, by the arrow down alone.\<close>

lemma down_reaches: "i < n \<Longrightarrow> cursor s = -1 \<Longrightarrow> cursor ((down n ^^ Suc i) s) = int i"
  using down_times [of n s i] by simp

end

text \<open>The marked option of the two pickers, for a list of as many endpoints as the number says.\<close>

definition scope_key :: "picker_key \<Rightarrow> int list \<Rightarrow> endpoint_picker \<Rightarrow> endpoint_picker" where
  "scope_key k endpoints p = fst (scope_onKeyDown endpoints k p)"

definition switcher_key :: "picker_key \<Rightarrow> int list \<Rightarrow> endpoint_picker \<Rightarrow> endpoint_picker" where
  "switcher_key k endpoints p = fst (switcher_onKeyDown [] endpoints k p)"

interpretation scope_cursor: option_cursor
  "\<lambda>n. scope_key ArrowDown (replicate n 0)" "\<lambda>n. scope_key ArrowUp (replicate n 0)" pk_active
  by unfold_locales (simp_all add: scope_key_def scope_onKeyDown_def next_option_def previous_option_def)

interpretation switcher_cursor: option_cursor
  "\<lambda>n. switcher_key ArrowDown (replicate n 0)" "\<lambda>n. switcher_key ArrowUp (replicate n 0)" pk_active
  by unfold_locales (simp_all add: switcher_key_def switcher_onKeyDown_def next_option_def previous_option_def)

lemma arrow_key_length:
  "k = ArrowDown \<or> k = ArrowUp \<Longrightarrow> scope_key k (replicate (length es) 0) p = scope_key k es p"
  "k = ArrowDown \<or> k = ArrowUp \<Longrightarrow> switcher_key k (replicate (length es) 0) p = switcher_key k es p"
  by (auto simp: scope_key_def scope_onKeyDown_def switcher_key_def switcher_onKeyDown_def)

subsection \<open>What a picker chooses\<close>

definition scope_inv :: "scope_view \<Rightarrow> bool" where
  "scope_inv v \<longleftrightarrow> -1 \<le> pk_active (sv_picker v) \<and> pk_active (sv_picker v) < int (length (sv_endpoints v)) \<and> 1 \<le> pk_page (sv_picker v)"

lemma scope_key_inv:
  assumes "scope_inv v" shows "scope_inv (with_choice v (scope_onKeyDown (sv_endpoints v) k (sv_picker v)))"
proof -
  have "0 < length (sv_endpoints v) \<Longrightarrow> (pk_active (sv_picker v) + 1) mod int (length (sv_endpoints v)) \<ge> -1"
    by (meson int_one_le_iff_zero_less le_minus_one_simps(1) order_trans pos_mod_sign zero_less_imp_eq_int of_nat_0_less_iff)
  then show ?thesis using assms
    by (auto simp: scope_inv_def with_choice_def scope_onKeyDown_def scope_close_def scope_select_def next_option_def previous_option_def)
qed

lemma scope_step_inv: "scope_step v v' \<Longrightarrow> scope_inv v \<Longrightarrow> scope_inv v'"
proof (induction rule: scope_step.induct)
  case (key v k)
  then show ?case using scope_key_inv by blast
qed (auto simp: scope_inv_def scope_toggle_def scope_close_def scope_type_def hover_option_def turn_page_def with_choice_def scope_select_def)

lemma reachable_scope_inv: "reachable_scope v \<Longrightarrow> scope_inv v"
proof (induction rule: reachable_scope.induct)
  case mount
  show ?case by (simp add: scope_inv_def initial_picker_def)
next
  case (step v v')
  then show ?case using scope_step_inv by blast
next
  case (answer v v')
  from answer.hyps(2) answer.IH show ?case by (cases rule: answer_step.cases) (auto simp: scope_inv_def)
qed

lemma option_at_member: "0 \<le> i \<Longrightarrow> i < int (length es) \<Longrightarrow> \<exists>e\<in>set es. option_at es i = Some e"
  by (auto simp: option_at_def nat_less_iff)

lemma scope_enter_listed:
  assumes "scope_inv v" "snd (scope_onKeyDown (sv_endpoints v) k (sv_picker v)) = Some c"
  shows "\<exists>e\<in>set (sv_endpoints v). c = Some e"
  using assms option_at_member [of "pk_active (sv_picker v)" "sv_endpoints v"]
  by (auto simp: scope_inv_def scope_onKeyDown_def scope_select_def split: if_splits)

text \<open>The picker with the answer of a first search, one arrow down later; and with one up: the last is marked.\<close>

definition picker_on :: "int \<Rightarrow> int list \<Rightarrow> scope_view" where
  "picker_on i es =
     \<lparr>sv_picker = \<lparr>pk_open = True, pk_query = [], pk_page = 1, pk_active = i\<rparr>, sv_endpoints = es, sv_total = 0, sv_chosen = []\<rparr>"

lemma picker_on_reachable:
  assumes "es \<noteq> []"
  shows "reachable_scope (picker_on 0 es)" "reachable_scope (picker_on (int (length es) - 1) es)"
proof -
  let ?opened = "\<lparr>sv_picker = initial_picker\<lparr>pk_open := True\<rparr>, sv_endpoints = [], sv_total = 0, sv_chosen = []\<rparr>"
  have "reachable_scope ?opened"
    using reachable_scope.step [OF reachable_scope.mount scope_step.toggle] by (simp add: scope_toggle_def initial_picker_def)
  then have "reachable_scope (?opened\<lparr>sv_endpoints := es, sv_total := 0\<rparr>)"
    by (rule reachable_scope.answer) (rule answer_step.first, simp)
  from reachable_scope.step [OF this scope_step.key [of _ ArrowDown]] reachable_scope.step [OF this scope_step.key [of _ ArrowUp]]
  show "reachable_scope (picker_on 0 es)" "reachable_scope (picker_on (int (length es) - 1) es)"
    using assms
    by (simp_all add: initial_picker_def picker_on_def with_choice_def scope_onKeyDown_def next_option_def previous_option_def)
qed

text \<open>A later answer with fewer endpoints: Enter then calls \<open>onChange\<close> without an endpoint.\<close>

lemma scope_cleared_by_refetch:
  "\<exists>w w'. reachable_scope w \<and> refetch_step w w' \<and> snd (scope_onKeyDown (sv_endpoints w') Enter (sv_picker w')) = Some None"
proof (intro exI conjI)
  show "reachable_scope (picker_on 1 [7, 9])" using picker_on_reachable(2) [of "[7, 9]"] by simp
  show "refetch_step (picker_on 1 [7, 9]) ((picker_on 1 [7, 9])\<lparr>sv_endpoints := [7], sv_total := 1\<rparr>)" by (rule refetch_step.again)
qed (simp add: picker_on_def scope_onKeyDown_def scope_select_def option_at_def)

lemma switcher_enter_listed:
  assumes "snd (switcher_onKeyDown params es k p) = Some target"
  shows "\<exists>e\<in>set es. target = switcher_target params e"
  using assms by (auto simp: switcher_onKeyDown_def switcher_select_def option_at_def split: if_splits)

subsection \<open>Dialogs\<close>

text \<open>Dialogs that are opened and closed one within the other, with any moves of the focus.\<close>

inductive nested_dialogs :: "modal_page \<Rightarrow> modal_page \<Rightarrow> bool" where
  nothing: "nested_dialogs p p"
| focus: "nested_dialogs (p\<lparr>mp_focus := e\<rparr>) p' \<Longrightarrow> nested_dialogs p p'"
| dialog: "d \<notin> fst ` set (mp_saved p) \<Longrightarrow> nested_dialogs (open_modal d r f p) q \<Longrightarrow> nested_dialogs (close_modal d q) p' \<Longrightarrow>
    nested_dialogs p p'"

lemma close_opened:
  assumes "d \<notin> fst ` set (mp_saved p)" "mp_saved q = mp_saved (open_modal d r f p)"
  shows "mp_overflow (close_modal d q) = mp_overflow p \<and> mp_saved (close_modal d q) = mp_saved p \<and>
    mp_focus (close_modal d q) = (case r of Some e \<Rightarrow> e | None \<Rightarrow> mp_focus p)"
proof -
  have "filter (\<lambda>e. fst e \<noteq> d) (mp_saved p) = mp_saved p" using assms(1) by (auto simp: filter_id_conv)
  with assms(2) show ?thesis by (simp add: close_modal_def open_modal_def)
qed

lemma nested_dialogs_restore: "nested_dialogs p p' \<Longrightarrow> mp_overflow p' = mp_overflow p \<and> mp_saved p' = mp_saved p"
proof (induction rule: nested_dialogs.induct)
  case (dialog d p r f q p')
  with close_opened [OF dialog.hyps(1), of q r f] show ?case by simp
qed simp_all

text \<open>The tab key goes round in the panel.\<close>

lemma tab_index_cycle:
  assumes "i < n"
  shows "tab_index n False i = (i + 1) mod n" "tab_index n True i = (i + n - 1) mod n"
proof -
  have ends: "hd [0..<n] = 0" "last [0..<n] = n - 1" "[0..<n] \<noteq> []" using assms by auto
  show "tab_index n False i = (i + 1) mod n"
    using assms ends by (cases "i = n - 1") (auto simp: tab_index_def trap_focus_def)
  show "tab_index n True i = (i + n - 1) mod n"
  proof (cases "i = 0")
    case False
    then have "(i + n - 1) mod n = i - 1" using assms by (metis Nat.add_diff_assoc2 One_nat_def Suc_leI less_imp_diff_less mod_add_self2 mod_less neq0_conv)
    with False assms ends show ?thesis by (simp add: tab_index_def trap_focus_def)
  qed (use assms ends in \<open>simp add: tab_index_def trap_focus_def\<close>)
qed

lemma tab_index_inverse:
  assumes "i < n"
  shows "tab_index n False i < n \<and> tab_index n True i < n \<and> tab_index n True (tab_index n False i) = i \<and>
    tab_index n False (tab_index n True i) = i"
proof -
  have less: "tab_index n False i < n" "tab_index n True i < n" using assms by (simp_all add: tab_index_cycle)
  have "((i + 1) mod n + n - 1) mod n = i" using assms by (cases "i + 1 = n") auto
  moreover have "((i + n - 1) mod n + 1) mod n = i" using assms by (cases i) (auto simp: mod_Suc)
  ultimately show ?thesis using less tab_index_cycle [OF assms] tab_index_cycle [OF less(1)] tab_index_cycle [OF less(2)] by simp
qed

subsection \<open>Pages\<close>

lemma total_pages_bounds:
  assumes "0 < rows" "0 < k"
  shows "(total_pages rows k - 1) * k < rows \<and> rows \<le> total_pages rows k * k"
proof -
  define c where "c = \<lceil>of_int rows / (of_int k :: rat)\<rceil>"
  have "1 \<le> c" using assms by (simp add: c_def one_le_ceiling)
  then have t: "total_pages rows k = c" by (simp add: total_pages_def c_def)
  have "of_int rows / (of_int k :: rat) \<le> of_int c" "of_int c - 1 < of_int rows / (of_int k :: rat)"
    unfolding c_def by linarith+
  then have "of_int rows \<le> (of_int (c * k) :: rat)" "(of_int ((c - 1) * k) :: rat) < of_int rows"
    using assms(2) by (simp_all add: pos_divide_le_eq pos_less_divide_eq)
  then show ?thesis unfolding t of_int_le_iff of_int_less_iff by blast
qed

end
