(* ===== verification/ConsoleShell.thy ===== *)
theory ConsoleShell
  imports ReportDocument ConsoleControls
begin

text \<open>
  The frame around the pages (\<open>components/AppShell.tsx\<close>): the navigation with its stored width and the time
  range it carries, the search, the change of the language, the breadcrumbs, and the report that is read off
  the page and printed.  The translator is an argument: the keys it is applied to are keys of the tables.
\<close>

section \<open>Navigation\<close>

record navigation_item =
  ni_to :: jsstring
  ni_labelKey :: TranslationKey
  ni_end :: bool
  ni_child :: bool

definition nav :: "string \<Rightarrow> TranslationKey \<Rightarrow> bool \<Rightarrow> bool \<Rightarrow> navigation_item" where
  "nav to key e child = \<lparr>ni_to = js to, ni_labelKey = key, ni_end = e, ni_child = child\<rparr>"

definition NAVIGATION_GROUPS :: "(TranslationKey \<times> navigation_item list) list" where
  "NAVIGATION_GROUPS =
     [(''navigation.groupOverview'', [nav ''/'' ''navigation.overview'' True False]),
      (''navigation.groupTriage'', [nav ''/alerts'' ''navigation.alerts'' False False, nav ''/incidents'' ''navigation.incidents'' False False]),
      (''navigation.groupEvidence'', [nav ''/endpoints'' ''navigation.endpoints'' False False, nav ''/events'' ''navigation.events'' False False]),
      (''navigation.groupAnalysis'', [nav ''/intelligence'' ''navigation.intelligence'' False False]),
      (''navigation.groupPlatform'',
       [nav ''/operations'' ''navigation.operations'' True False, nav ''/operations/archives'' ''navigation.archives'' True True])]"

definition NAVIGATION_ITEMS :: "navigation_item list" where
  "NAVIGATION_ITEMS = concat (map snd NAVIGATION_GROUPS)"

definition COMPACT_KEY :: jsstring where "COMPACT_KEY = js ''edr.compactNavigation''"

definition readCompactNavigation :: "browser_storage \<Rightarrow> bool" where
  "readCompactNavigation st = (case getItem st COMPACT_KEY of Inr v \<Rightarrow> v = Some (js ''true'') | Inl _ \<Rightarrow> False)"

definition writeCompactNavigation :: "bool \<Rightarrow> browser_storage \<Rightarrow> browser_storage" where
  "writeCompactNavigation b st =
     (case setItem st COMPACT_KEY (if b then js ''true'' else js ''false'') of Inr st' \<Rightarrow> st' | Inl _ \<Rightarrow> st)"

section \<open>State\<close>

record app_shell =
  as_compact :: bool
  as_storage :: browser_storage
  as_mobileOpen :: bool
  as_localeSaving :: bool
  as_localeError :: bool
  as_search :: jsstring
  as_reportOpen :: bool
  as_report :: "DashboardReportSnapshot option"
  as_navigationTime :: jsstring

definition mount_shell :: "date_parser \<Rightarrow> browser_storage \<Rightarrow> jsstring \<Rightarrow> app_shell" where
  "mount_shell date_parse st search =
     \<lparr>as_compact = readCompactNavigation st, as_storage = st, as_mobileOpen = False, as_localeSaving = False, as_localeError = False,
      as_search = [], as_reportOpen = False, as_report = None,
      as_navigationTime = (case navigationTimeScope date_parse (params_of_string search) of
                             Some s \<Rightarrow> s | None \<Rightarrow> js ''timePreset=LATEST_24H'')\<rparr>"

text \<open>The effects of a new address: another path closes the drawer, a usable time range is kept.\<close>

definition location_changed :: "date_parser \<Rightarrow> bool \<Rightarrow> jsstring \<Rightarrow> app_shell \<Rightarrow> app_shell" where
  "location_changed date_parse other_path search s =
     s\<lparr>as_mobileOpen := (as_mobileOpen s \<and> \<not> other_path),
       as_navigationTime := (case navigationTimeScope date_parse (params_of_string search) of
                               Some t \<Rightarrow> (if t = [] then as_navigationTime s else t) | None \<Rightarrow> as_navigationTime s)\<rparr>"

definition toggleCompact :: "app_shell \<Rightarrow> app_shell" where
  "toggleCompact s = s\<lparr>as_compact := \<not> as_compact s, as_storage := writeCompactNavigation (\<not> as_compact s) (as_storage s)\<rparr>"

text \<open>
  The change of the language: the flag says whether a request is sent; its answer ends the saving.
\<close>

definition changeLocale :: "UserLocale \<Rightarrow> UserLocale \<Rightarrow> app_shell \<Rightarrow> app_shell \<times> bool" where
  "changeLocale current nextLocale s =
     (if nextLocale = current \<or> as_localeSaving s then (s, False)
      else (s\<lparr>as_localeSaving := True, as_localeError := False\<rparr>, True))"

definition locale_answered :: "bool \<Rightarrow> app_shell \<Rightarrow> app_shell" where
  "locale_answered success s = s\<lparr>as_localeSaving := False, as_localeError := (as_localeError s \<or> \<not> success)\<rparr>"

text \<open>\<open>/^[1-9]\d*$/\<close>.\<close>

definition is_endpoint_number :: "jsstring \<Rightarrow> bool" where
  "is_endpoint_number v \<longleftrightarrow> (case v of [] \<Rightarrow> False | c # s \<Rightarrow> 49 \<le> c \<and> c \<le> 57 \<and> list_all is_digit s)"

definition search_query :: "jsstring \<Rightarrow> search_params" where
  "search_query v = params_set [] (if is_endpoint_number v then js ''endpointId'' else js ''processName'') v"

definition submitSearch :: "app_shell \<Rightarrow> jsstring option" where
  "submitSearch s =
     (let v = trim (as_search s)
      in if v = [] then None else Some (js ''/events?'' @ params_to_string (search_query v)))"

section \<open>Report\<close>

definition openReport ::
  "int \<Rightarrow> node option \<Rightarrow> jsstring option \<Rightarrow> jsstring option \<Rightarrow> jsstring \<Rightarrow> jsstring \<Rightarrow> jsstring \<Rightarrow> app_shell \<Rightarrow> app_shell" where
  "openReport now content name role pageTitleText pathname search s =
     s\<lparr>as_report := Some (collectDashboardReport now content
         \<lparr>ctx_generatedAt = None, ctx_operator = Some (case name of Some n \<Rightarrow> n | None \<Rightarrow> EM_DASH), ctx_pageTitle = Some pageTitleText,
          ctx_pathname = Some pathname, ctx_search = Some search, ctx_userRole = Some (case role of Some r \<Rightarrow> r | None \<Rightarrow> EM_DASH)\<rparr>),
       as_reportOpen := True\<rparr>"

text \<open>
  The title of the document while \<open>print\<close> runs and afterwards; \<open>print\<close> may throw, which the result passes on.
\<close>

definition printReport :: "(jsstring \<Rightarrow> js_error option) \<Rightarrow> jsstring \<Rightarrow> app_shell \<Rightarrow> jsstring list \<times> js_error option" where
  "printReport print_page title s =
     (case as_report s of
        None \<Rightarrow> ([title], None)
      | Some r \<Rightarrow>
          let shown = SERVICE_NAME @ js '' - '' @ rc_pageTitle r @ js '' - '' @ take 10 (iso_string (rc_generatedAt r))
          in ([title, shown, title], print_page shown))"

section \<open>Breadcrumbs\<close>

record BreadcrumbItem =
  bc_label :: jsstring
  bc_to :: "jsstring option"

definition item_matches :: "jsstring \<Rightarrow> navigation_item \<Rightarrow> bool" where
  "item_matches pathname item \<longleftrightarrow> pathname = ni_to item \<or> startsWith pathname (ni_to item @ js ''/'')"

definition matched_item :: "jsstring \<Rightarrow> navigation_item option" where
  "matched_item pathname =
     List.find (item_matches pathname) (js_sort (\<lambda>l r. int (length (ni_to r)) - int (length (ni_to l))) NAVIGATION_ITEMS)"

text \<open>\<open>replace(/s$/, "")\<close>.\<close>

definition singular :: "jsstring \<Rightarrow> jsstring" where
  "singular s = (if s \<noteq> [] \<and> last s = 115 then butlast s else s)"

definition buildBreadcrumbs :: "(TranslationKey \<Rightarrow> jsstring) \<Rightarrow> jsstring \<Rightarrow> BreadcrumbItem list" where
  "buildBreadcrumbs t pathname =
     (if pathname = js ''/'' then [\<lparr>bc_label = t ''navigation.overview'', bc_to = None\<rparr>]
      else if pathname = js ''/dashboards'' then [\<lparr>bc_label = t ''navigation.dashboards'', bc_to = None\<rparr>]
      else if pathname = js ''/operations/archives''
      then [\<lparr>bc_label = t ''navigation.operations'', bc_to = Some (js ''/operations'')\<rparr>,
            \<lparr>bc_label = t ''navigation.archives'', bc_to = None\<rparr>]
      else case matched_item pathname of
             None \<Rightarrow> [\<lparr>bc_label = t ''navigation.console'', bc_to = None\<rparr>]
           | Some item \<Rightarrow>
               if pathname = ni_to item then [\<lparr>bc_label = t (ni_labelKey item), bc_to = None\<rparr>]
               else let identifier = takeWhile (\<lambda>c. c \<noteq> 47) (drop (length (ni_to item) + 1) pathname)
                    in [\<lparr>bc_label = t (ni_labelKey item), bc_to = Some (ni_to item)\<rparr>,
                        \<lparr>bc_label = singular (t (ni_labelKey item)) @ js '' #'' @ identifier, bc_to = None\<rparr>])"

definition page_title_text :: "(TranslationKey \<Rightarrow> jsstring) \<Rightarrow> jsstring \<Rightarrow> jsstring" where
  "page_title_text t pathname =
     (case buildBreadcrumbs t pathname of [] \<Rightarrow> t ''navigation.console'' | b # bs \<Rightarrow> bc_label (last (b # bs)))"

text \<open>What is shown: a link for every item but the last that has an address.\<close>

definition breadcrumb_links :: "BreadcrumbItem list \<Rightarrow> (jsstring \<times> jsstring option) list" where
  "breadcrumb_links bs =
     map (\<lambda>(i, item). (bc_label item, if i < length bs - 1 \<and> truthy (bc_to item) then bc_to item else None)) (enumerate 0 bs)"

section \<open>Facts\<close>

lemma compact_round_trip:
  assumes "storage_writable (as_storage s)"
  shows "readCompactNavigation (as_storage (toggleCompact s)) = as_compact (toggleCompact s) \<and> storage_writable (as_storage (toggleCompact s))"
  using assms by (auto simp: toggleCompact_def writeCompactNavigation_def readCompactNavigation_def setItem_def getItem_def storage_writable_def)

lemma locale_change_exclusive:
  "snd (changeLocale c n s) \<Longrightarrow> \<not> snd (changeLocale c' n' (fst (changeLocale c n s)))"
  by (auto simp: changeLocale_def split: if_splits)

text \<open>The search leads to the list of events with exactly the text asked for.\<close>

lemma search_reads_back:
  assumes "text_units (trim (as_search s))" "submitSearch s = Some url"
  shows "startsWith url (js ''/events?'') \<and>
    params_of_string (drop 8 url) =
      [(if is_endpoint_number (trim (as_search s)) then js ''endpointId'' else js ''processName'', trim (as_search s))]"
proof -
  let ?ps = "search_query (trim (as_search s))"
  have url: "url = js ''/events?'' @ params_to_string ?ps" using assms(2) by (auto simp: submitSearch_def Let_def split: if_splits)
  have q: "?ps = [(if is_endpoint_number (trim (as_search s)) then js ''endpointId'' else js ''processName'', trim (as_search s))]"
    by (simp add: search_query_def)
  have "params_ok ?ps" using assms(1) text_units_js unfolding q by (auto simp: params_ok_def)
  then have "params_of_string (params_to_string ?ps) = ?ps" by (rule params_of_string_to_string)
  then show ?thesis unfolding url using q by (simp add: startsWith_def)
qed

lemma breadcrumbs_shape:
  "buildBreadcrumbs t pathname \<noteq> [] \<and> length (buildBreadcrumbs t pathname) \<le> 2 \<and>
   bc_to (last (buildBreadcrumbs t pathname)) = None \<and> list_all (\<lambda>b. bc_to b \<noteq> None) (butlast (buildBreadcrumbs t pathname))"
  by (auto simp: buildBreadcrumbs_def Let_def split: option.splits)

end
