(* ===== verification/Distribution.thy ===== *)
theory Distribution
  imports Intelligence
begin

text \<open>
  The two distributions of the overview: alerts by severity as a ring
  (\<open>features/overview/AlertSeverityDonut.tsx\<close>), and risk and sensors of the fleet
  (\<open>features/overview/FleetDistributionPanel.tsx\<close>).  Counts are the integers of the contract.
\<close>

section \<open>Alerts by severity\<close>

record SeverityCountDto =
  sc_severity :: Severity
  sc_count :: int

definition SEVERITY_ORDER :: "Severity list" where "SEVERITY_ORDER = [CRITICAL, HIGH, MEDIUM, LOW]"

definition count_of :: "SeverityCountDto list \<Rightarrow> Severity \<Rightarrow> int" where
  "count_of rows severity =
     (case List.find (\<lambda>row. sc_severity row = severity) rows of Some row \<Rightarrow> sc_count row | None \<Rightarrow> 0)"

definition donut_counts :: "SeverityCountDto list \<Rightarrow> int list" where
  "donut_counts rows = map (count_of rows) SEVERITY_ORDER"

definition donut_percentages :: "int \<Rightarrow> int list \<Rightarrow> rat list" where
  "donut_percentages whole counts =
     map (\<lambda>n. if 0 < whole then min (of_int n / of_int whole * 100) 100 else 0) counts"

record donut_segment =
  dn_severity :: Severity
  dn_count :: int
  dn_percentage :: rat
  dn_offset :: rat

definition AlertSeverityDonut :: "SeverityCountDto list \<Rightarrow> int \<Rightarrow> donut_segment list" where
  "AlertSeverityDonut rows whole =
     (let counts = donut_counts rows; percentages = donut_percentages whole counts
      in map (\<lambda>(i, severity).
           \<lparr>dn_severity = severity, dn_count = (if i < length counts then counts ! i else 0),
            dn_percentage = (if i < length percentages then percentages ! i else 0),
            dn_offset = foldl (+) 0 (take i percentages)\<rparr>) (enumerate 0 SEVERITY_ORDER))"

text \<open>The arcs that are drawn: dash, gap and offset on a path of length 100.\<close>

definition donut_arcs :: "donut_segment list \<Rightarrow> (Severity \<times> rat \<times> rat \<times> rat) list" where
  "donut_arcs segments =
     map (\<lambda>s. (dn_severity s, dn_percentage s, 100 - dn_percentage s, - dn_offset s)) (filter (\<lambda>s. 0 < dn_percentage s) segments)"

section \<open>Risk and sensors of the fleet\<close>

record RiskLevelCountDto =
  rl_level :: RiskLevel
  rl_count :: int

record SensorHealthCountDto =
  se_sensor :: jsstring
  se_status :: SensorHealth
  se_count :: int

definition RISK_LEVELS :: "RiskLevel list" where "RISK_LEVELS = [CRITICAL, HIGH, MEDIUM, LOW]"

definition SENSOR_STATES :: "SensorHealth list" where "SENSOR_STATES = [HEALTHY, DEGRADED, UNAVAILABLE]"

fun RISK_LABEL_KEYS :: "RiskLevel \<Rightarrow> string" where
  "RISK_LABEL_KEYS CRITICAL = ''overview.riskCritical''"
| "RISK_LABEL_KEYS HIGH = ''overview.riskHigh''"
| "RISK_LABEL_KEYS MEDIUM = ''overview.riskMedium''"
| "RISK_LABEL_KEYS LOW = ''overview.riskLow''"

fun SENSOR_LABEL_KEYS :: "SensorHealth \<Rightarrow> string" where
  "SENSOR_LABEL_KEYS HEALTHY = ''overview.sensorHealthy''"
| "SENSOR_LABEL_KEYS DEGRADED = ''overview.sensorDegraded''"
| "SENSOR_LABEL_KEYS UNAVAILABLE = ''overview.sensorUnavailable''"

definition row_total :: "('k \<times> int) list \<Rightarrow> int" where
  "row_total rows = foldl (\<lambda>acc row. acc + snd row) 0 rows"

definition riskRows :: "RiskLevelCountDto list \<Rightarrow> (RiskLevel \<times> int) list" where
  "riskRows levels =
     map (\<lambda>level. (level, case List.find (\<lambda>row. rl_level row = level) levels of Some row \<Rightarrow> rl_count row | None \<Rightarrow> 0)) RISK_LEVELS"

definition checks_total :: "SensorHealthCountDto list \<Rightarrow> int" where
  "checks_total rows = foldl (\<lambda>acc row. acc + se_count row) 0 rows"

definition sensorRows :: "SensorHealthCountDto list \<Rightarrow> (SensorHealth \<times> int) list" where
  "sensorRows health = map (\<lambda>status. (status, checks_total (filter (\<lambda>row. se_status row = status) health))) SENSOR_STATES"

record sensor_group =
  sg_sensor :: jsstring
  sg_rows :: "(SensorHealth \<times> int) list"
  sg_total :: int

definition sensor_group_of :: "SensorHealthCountDto list \<Rightarrow> jsstring \<Rightarrow> sensor_group" where
  "sensor_group_of health sensor =
     (let rows = map (\<lambda>status. (status, checks_total (filter (\<lambda>row. se_sensor row = sensor \<and> se_status row = status) health))) SENSOR_STATES
      in \<lparr>sg_sensor = sensor, sg_rows = rows, sg_total = row_total rows\<rparr>)"

definition sensorBreakdown :: "SensorHealthCountDto list \<Rightarrow> sensor_group list" where
  "sensorBreakdown health = map (sensor_group_of health) (js_sort by_code_units (set_from (map se_sensor health)))"

text \<open>The widths of the bars of one stack, in percent; states without a check have none.\<close>

definition stack_widths :: "(SensorHealth \<times> int) list \<Rightarrow> int \<Rightarrow> rat list" where
  "stack_widths rows whole = map (\<lambda>row. of_int (snd row) / of_int whole * 100) (filter (\<lambda>row. 0 < snd row) rows)"

text \<open>The widths of the risk bars; without a snapshot a text is shown instead.\<close>

definition risk_widths :: "RiskLevelCountDto list \<Rightarrow> rat list option" where
  "risk_widths levels =
     (let rows = riskRows levels; whole = row_total rows
      in if whole = 0 then None else Some (map (\<lambda>row. of_int (snd row) / of_int whole * 100) rows))"

text \<open>The numbers a screen reader is told of a stack: \<open>sensorSummary\<close>.\<close>

definition sensorSummary :: "(SensorHealth \<times> int) list \<Rightarrow> SensorHealth \<Rightarrow> int" where
  "sensorSummary rows status = (case List.find (\<lambda>row. fst row = status) rows of Some row \<Rightarrow> snd row | None \<Rightarrow> 0)"

section \<open>Facts\<close>

lemma foldl_plus_sum_list: "foldl (\<lambda>acc x. acc + f x) a xs = a + sum_list (map f xs)" for a :: "'b::comm_monoid_add"
  by (induction xs arbitrary: a) (simp_all add: add.assoc)

lemma row_total_sum: "row_total rows = sum_list (map snd rows)"
  unfolding row_total_def foldl_plus_sum_list by simp

lemma checks_total_sum: "checks_total rows = sum_list (map se_count rows)"
  unfolding checks_total_def foldl_plus_sum_list by simp

lemma find_key_sum:
  fixes f :: "'r \<Rightarrow> int"
  assumes "distinct (map key rows)" "set (map key rows) \<subseteq> set ks" "distinct ks"
  shows "sum_list (map (\<lambda>k. case List.find (\<lambda>r. key r = k) rows of Some r \<Rightarrow> f r | None \<Rightarrow> 0) ks) = sum_list (map f rows)"
  using assms(1,2)
proof (induction rows)
  case (Cons r rows)
  let ?g = "\<lambda>rs k. case List.find (\<lambda>r. key r = k) rs of Some r \<Rightarrow> f r | None \<Rightarrow> 0"
  have none: "?g rows (key r) = 0" using Cons.prems(1)
    by (auto split: option.split dest!: find_SomeD simp: image_iff)
  have "sum_list (map (?g (r # rows)) ks) = (\<Sum>k\<in>set ks. ?g rows k + (if k = key r then f r else 0))"
    unfolding sum_list_distinct_conv_sum_set [OF assms(3)] by (intro sum.cong) (auto simp: none [simplified])
  also have "\<dots> = sum_list (map (?g rows) ks) + f r"
    using Cons.prems(2) by (simp add: sum.distrib sum_list_distinct_conv_sum_set [OF assms(3)] sum.delta)
  finally show ?case using Cons by simp
qed simp

subsection \<open>The ring\<close>

lemma count_of_nonneg: "\<forall>r\<in>set rows. 0 \<le> sc_count r \<Longrightarrow> 0 \<le> count_of rows s"
  by (auto simp: count_of_def split: option.split dest: find_SomeD)

lemma severity_order_complete: "set SEVERITY_ORDER = UNIV" "distinct SEVERITY_ORDER"
  by (auto simp: SEVERITY_ORDER_def) (metis Severity.exhaust)

lemma donut_counts_sum:
  "distinct (map sc_severity rows) \<Longrightarrow> sum_list (donut_counts rows) = sum_list (map sc_count rows)"
  unfolding donut_counts_def count_of_def
  by (rule find_key_sum) (simp_all add: severity_order_complete)

lemma donut_unfold:
  "AlertSeverityDonut rows whole =
     (let p = \<lambda>s. if 0 < whole then min (of_int (count_of rows s) / of_int whole * 100) 100 else 0
      in [\<lparr>dn_severity = CRITICAL, dn_count = count_of rows CRITICAL, dn_percentage = p CRITICAL, dn_offset = 0\<rparr>,
          \<lparr>dn_severity = HIGH, dn_count = count_of rows HIGH, dn_percentage = p HIGH, dn_offset = p CRITICAL\<rparr>,
          \<lparr>dn_severity = MEDIUM, dn_count = count_of rows MEDIUM, dn_percentage = p MEDIUM, dn_offset = p CRITICAL + p HIGH\<rparr>,
          \<lparr>dn_severity = LOW, dn_count = count_of rows LOW, dn_percentage = p LOW, dn_offset = p CRITICAL + p HIGH + p MEDIUM\<rparr>])"
  by (simp add: AlertSeverityDonut_def donut_counts_def donut_percentages_def SEVERITY_ORDER_def Let_def)

lemma share_of_whole:
  assumes "0 \<le> n" "n \<le> whole" "0 < whole"
  shows "min (of_int n / of_int whole * 100) 100 = (of_int n / of_int whole * 100 :: rat)"
  using assms by (simp add: min_def divide_le_eq)

lemma severity_sum:
  assumes "distinct (map sc_severity rows)"
  shows "count_of rows CRITICAL + count_of rows HIGH + count_of rows MEDIUM + count_of rows LOW = sum_list (map sc_count rows)"
  using donut_counts_sum [OF assms] by (simp add: donut_counts_def SEVERITY_ORDER_def)

text \<open>Where an arc ends.\<close>

definition arc_end :: "donut_segment \<Rightarrow> rat" where
  "arc_end s = dn_offset s + dn_percentage s"

definition percent_of :: "int \<Rightarrow> int \<Rightarrow> rat" where
  "percent_of whole n = (if 0 < whole then of_int n / of_int whole * 100 else 0)"

lemma percent_of_props:
  "percent_of whole (m + n) = percent_of whole m + percent_of whole n"
  "0 \<le> n \<Longrightarrow> 0 \<le> percent_of whole n"
  "n \<le> whole \<Longrightarrow> percent_of whole n \<le> 100"
  "0 < whole \<Longrightarrow> percent_of whole whole = 100"
  "percent_of whole 0 = 0"
  by (auto simp: percent_of_def add_divide_distrib distrib_right divide_le_eq)

lemma donut_is_contiguous:
  assumes "distinct (map sc_severity rows)" "\<forall>r\<in>set rows. 0 \<le> sc_count r" "sum_list (map sc_count rows) \<le> whole"
  shows "map dn_percentage (AlertSeverityDonut rows whole) = map (percent_of whole) (donut_counts rows) \<and>
    map arc_end (AlertSeverityDonut rows whole) =
      map (\<lambda>i. percent_of whole (sum_list (take (Suc i) (donut_counts rows)))) [0..<4] \<and>
    map dn_offset (AlertSeverityDonut rows whole) = 0 # butlast (map arc_end (AlertSeverityDonut rows whole))"
proof -
  note nonneg = count_of_nonneg [OF assms(2)]
  have le: "count_of rows s \<le> whole" for s
    using severity_sum [OF assms(1)] assms(3) nonneg [of CRITICAL] nonneg [of HIGH] nonneg [of MEDIUM] nonneg [of LOW]
    by (cases s) auto
  have p: "(if 0 < whole then min (of_int (count_of rows s) / of_int whole * 100) 100 else 0) = percent_of whole (count_of rows s)" for s
    using share_of_whole [OF nonneg le] by (simp add: percent_of_def)
  show ?thesis
    unfolding donut_unfold p
    by (simp add: Let_def donut_counts_def SEVERITY_ORDER_def arc_end_def percent_of_props(1,5) numeral_eq_Suc)
qed

lemma donut_last_end:
  assumes "distinct (map sc_severity rows)" "\<forall>r\<in>set rows. 0 \<le> sc_count r" "sum_list (map sc_count rows) \<le> whole"
  shows "arc_end (last (AlertSeverityDonut rows whole)) = percent_of whole (sum_list (map sc_count rows))"
proof -
  let ?ends = "map arc_end (AlertSeverityDonut rows whole)"
  have ne: "AlertSeverityDonut rows whole \<noteq> []" by (simp add: donut_unfold Let_def)
  have four: "length (donut_counts rows) = 4" by (simp add: donut_counts_def SEVERITY_ORDER_def)
  have "?ends = map (\<lambda>i. percent_of whole (sum_list (take (Suc i) (donut_counts rows)))) [0..<4]"
    using donut_is_contiguous [OF assms] by blast
  then have "last ?ends = percent_of whole (sum_list (take 4 (donut_counts rows)))" by (simp add: upt_rec numeral_eq_Suc)
  then show ?thesis using four ne by (simp add: last_map donut_counts_sum [OF assms(1)])
qed

lemma donut_closed:
  assumes "distinct (map sc_severity rows)" "\<forall>r\<in>set rows. 0 \<le> sc_count r" "sum_list (map sc_count rows) \<le> whole"
  shows "whole \<noteq> sum_list (map sc_count rows) \<or> whole = 0 \<or> arc_end (last (AlertSeverityDonut rows whole)) = 100"
proof -
  have "0 \<le> sum_list (map sc_count rows)" using assms(2) by (intro sum_list_nonneg) auto
  then show ?thesis using assms(3) percent_of_props(4) [of whole] unfolding donut_last_end [OF assms] by (cases "whole = 0") auto
qed

subsection \<open>The fleet\<close>

lemma risk_levels_complete: "set RISK_LEVELS = UNIV" "distinct RISK_LEVELS"
  by (auto simp: RISK_LEVELS_def) (metis Severity.exhaust)

lemma riskRows_total:
  assumes "distinct (map rl_level levels)"
  shows "row_total (riskRows levels) = sum_list (map rl_count levels)"
  using find_key_sum [OF assms, of RISK_LEVELS rl_count] by (simp add: row_total_sum riskRows_def comp_def risk_levels_complete)

lemma checks_by_status:
  "sum_list (map (\<lambda>status. checks_total (filter (\<lambda>row. P row \<and> se_status row = status) rows)) SENSOR_STATES) =
   checks_total (filter P rows)"
proof (induction rows)
  case (Cons r rows)
  then show ?case by (cases "se_status r") (auto simp: checks_total_sum SENSOR_STATES_def)
qed (simp add: checks_total_sum SENSOR_STATES_def)

lemma sensorRows_total: "row_total (sensorRows health) = checks_total health"
  using checks_by_status [of "\<lambda>_. True" health] by (simp add: row_total_sum sensorRows_def comp_def)

lemma sensor_group_total: "sg_total (sensor_group_of health sensor) = checks_total (filter (\<lambda>row. se_sensor row = sensor) health)"
  using checks_by_status [of "\<lambda>row. se_sensor row = sensor" health]
  by (simp add: sensor_group_of_def Let_def row_total_sum comp_def)

lemma checks_by_sensor:
  assumes "distinct ss" "se_sensor ` set rows \<subseteq> set ss"
  shows "sum_list (map (\<lambda>s. checks_total (filter (\<lambda>row. se_sensor row = s) rows)) ss) = checks_total rows"
  using assms(2)
proof (induction rows)
  case (Cons r rows)
  have "sum_list (map (\<lambda>s. checks_total (filter (\<lambda>row. se_sensor row = s) (r # rows))) ss) =
      (\<Sum>s\<in>set ss. checks_total (filter (\<lambda>row. se_sensor row = s) rows) + (if s = se_sensor r then se_count r else 0))"
    unfolding sum_list_distinct_conv_sum_set [OF assms(1)] by (intro sum.cong) (auto simp: checks_total_sum)
  also have "\<dots> = checks_total rows + se_count r"
    using Cons by (simp add: sum.distrib sum_list_distinct_conv_sum_set [OF assms(1)])
  finally show ?case by (simp add: checks_total_sum)
qed (simp add: checks_total_sum)

lemma sensor_names:
  "map sg_sensor (sensorBreakdown health) = js_sort by_code_units (set_from (map se_sensor health))"
  by (simp add: sensorBreakdown_def comp_def sensor_group_of_def Let_def)

lemma sensorBreakdown_total: "sum_list (map sg_total (sensorBreakdown health)) = checks_total health"
  using checks_by_sensor [of "js_sort by_code_units (set_from (map se_sensor health))" health]
  by (simp add: sensorBreakdown_def comp_def sensor_group_total)

lemma stack_widths_sum:
  assumes "\<forall>row\<in>set rows. 0 \<le> snd row" "0 < row_total rows"
  shows "sum_list (stack_widths rows (row_total rows)) = 100"
proof -
  have pos: "sum_list (map snd (filter (\<lambda>row. 0 < snd row) rows)) = sum_list (map snd rows)" using assms(1)
    by (induction rows) auto
  have "sum_list (stack_widths rows w) = of_int (sum_list (map snd (filter (\<lambda>row. 0 < snd row) rows))) / of_int w * 100" for w
    unfolding stack_widths_def by (induction rows) (auto simp: add_divide_distrib distrib_right)
  then show ?thesis using assms(2) unfolding pos row_total_sum by simp
qed

lemma checks_total_nonneg: "\<forall>r\<in>set rows. 0 \<le> se_count r \<Longrightarrow> 0 \<le> checks_total rows"
  unfolding checks_total_sum by (rule sum_list_nonneg) auto

lemma sensor_rows_nonneg:
  assumes "\<forall>r\<in>set health. 0 \<le> se_count r"
  shows "\<forall>row\<in>set (sensorRows health). 0 \<le> snd row" "\<forall>row\<in>set (sg_rows (sensor_group_of health s)). 0 \<le> snd row"
  using assms by (auto simp: sensorRows_def sensor_group_of_def Let_def intro!: checks_total_nonneg)

lemma stack_filled:
  assumes "\<forall>row\<in>set rows. 0 \<le> snd row"
  shows "row_total rows = 0 \<or> sum_list (stack_widths rows (row_total rows)) = 100"
proof -
  have "0 \<le> row_total rows" using assms unfolding row_total_sum by (intro sum_list_nonneg) auto
  then show ?thesis using stack_widths_sum [OF assms] by (cases "row_total rows = 0") auto
qed

lemma group_stack_filled:
  assumes "\<forall>r\<in>set health. 0 \<le> se_count r"
  shows "sg_total (sensor_group_of health s) = 0 \<or>
    sum_list (stack_widths (sg_rows (sensor_group_of health s)) (sg_total (sensor_group_of health s))) = 100"
  using stack_filled [OF sensor_rows_nonneg(2) [OF assms, of s]] by (simp add: sensor_group_of_def Let_def)

text \<open>The order of the names is that of their code units.\<close>

interpretation code_units: signed_comparator by_code_units
  by unfold_locales (auto simp: by_code_units_def split: if_splits)

end
