(* ===== verification/EvidenceViews.thy ===== *)
theory EvidenceViews
  imports ProcessTree ChartModel
begin

text \<open>
  What the console draws of the evidence: the process tree of the API (\<open>components/ProcessTree.tsx\<close>), the
  charts of a series (\<open>components/charts.tsx\<close>) and the selection in the activity chart
  (\<open>features/overview/DetectionActivityPanel.tsx\<close>).
\<close>

section \<open>Process tree\<close>

record RenderedProcessNode =
  rn_node :: ProcessTreeNodeDto
  rn_depth :: nat

definition node_chronological :: "date_parser \<Rightarrow> ProcessTreeNodeDto \<Rightarrow> ProcessTreeNodeDto \<Rightarrow> int" where
  "node_chronological date_parse l r =
     (let d = parsed_difference date_parse (node_firstSeenAt l) (node_firstSeenAt r)
      in if d \<noteq> 0 then d else node_pid l - node_pid r)"

definition node_is_root :: "(int, ProcessTreeNodeDto) jsmap \<Rightarrow> ProcessTreeNodeDto \<Rightarrow> bool" where
  "node_is_root byPid n \<longleftrightarrow>
     (case node_ppid n of None \<Rightarrow> True | Some pp \<Rightarrow> pp = node_pid n \<or> map_get byPid pp = None)"

definition attach_node ::
  "(int, ProcessTreeNodeDto) jsmap \<Rightarrow> ProcessTreeNodeDto list \<times> (int, ProcessTreeNodeDto list) jsmap \<Rightarrow> ProcessTreeNodeDto
   \<Rightarrow> ProcessTreeNodeDto list \<times> (int, ProcessTreeNodeDto list) jsmap" where
  "attach_node byPid acc n =
     (case acc of (roots, children) \<Rightarrow>
        if node_is_root byPid n then (roots @ [n], children)
        else let pp = the (node_ppid n)
             in (roots, map_set children pp ((case map_get children pp of Some ss \<Rightarrow> ss | None \<Rightarrow> []) @ [n])))"

definition node_children :: "(int, ProcessTreeNodeDto list) jsmap \<Rightarrow> int \<Rightarrow> ProcessTreeNodeDto list" where
  "node_children children p = (case map_get children p of Some ss \<Rightarrow> ss | None \<Rightarrow> [])"

text \<open>A process of the API as an event of the walk: its pids and the time it was first seen.\<close>

definition as_event :: "ProcessTreeNodeDto \<Rightarrow> EventDto" where
  "as_event n =
     \<lparr>ev_agentId = [], ev_batchId = [], ev_commandLine = node_commandLine n, ev_dnsAnswers = [], ev_dnsQuery = None,
      ev_dnsRecordType = None, ev_dnsResponseCode = None, ev_endpointId = 0, ev_eventId = [], ev_eventType = PROCESS_EXECUTION,
      ev_fileAction = None, ev_fileHashSha256 = None, ev_filePath = None, ev_hostname = [], ev_httpHost = None, ev_httpMethod = None,
      ev_httpStatusCode = None, ev_httpUserAgent = None, ev_ingestedAt = node_lastSeenAt n, ev_ipAddress = None, ev_l7Protocol = None,
      ev_occurredAt = node_firstSeenAt n, ev_osType = MACOS, ev_pid = Some (node_pid n), ev_ppid = node_ppid n,
      ev_processName = Some (node_processName n), ev_processPath = node_processPath n, ev_protocol = None, ev_remoteDomain = None,
      ev_remoteIp = None, ev_remotePort = None, ev_tlsCertificateIssuer = None, ev_tlsCertificateSha256 = None,
      ev_tlsCertificateSubject = None, ev_tlsSni = None, ev_tlsVersion = None, ev_url = None, ev_userName = node_userName n\<rparr>"

lemma as_event_sel [simp]:
  "ev_pid (as_event n) = Some (node_pid n)" "ev_ppid (as_event n) = node_ppid n" "ev_occurredAt (as_event n) = node_firstSeenAt n"
  "is_process (as_event n)"
  by (simp_all add: as_event_def is_process_def)

abbreviation event_children :: "(int, ProcessTreeNodeDto list) jsmap \<Rightarrow> (int, EventDto list) jsmap" where
  "event_children children \<equiv> map (\<lambda>(k, ss). (k, map as_event ss)) children"

abbreviation event_todo :: "(ProcessTreeNodeDto \<times> nat) list \<Rightarrow> (EventDto \<times> nat) list" where
  "event_todo todo \<equiv> map (\<lambda>(n, d). (as_event n, d)) todo"

lemma map_get_map_snd: "map_get (map (\<lambda>(k, v). (k, f v)) m) k = map_option f (map_get m k)"
  by (induction m) auto

lemma children_of_event_children: "children_of (event_children children) p = map as_event (node_children children p)"
  by (simp add: children_of_def node_children_def map_get_map_snd split: option.split)

function visit_nodes ::
  "(int, ProcessTreeNodeDto list) jsmap \<Rightarrow> int list \<Rightarrow> RenderedProcessNode list \<Rightarrow> (ProcessTreeNodeDto \<times> nat) list
   \<Rightarrow> int list \<times> RenderedProcessNode list" where
  "visit_nodes children visited rendered [] = (visited, rendered)"
| "visit_nodes children visited rendered ((n, depth) # todo) =
     (if node_pid n \<in> set visited then visit_nodes children visited rendered todo
      else visit_nodes children (visited @ [node_pid n]) (rendered @ [\<lparr>rn_node = n, rn_depth = depth\<rparr>])
             (map (\<lambda>c. (c, min (depth + 1) 12)) (node_children children (node_pid n)) @ todo))"
  by pat_completeness auto
termination
proof (relation "measures [\<lambda>(children, visited, rendered, todo). card (pids_below (event_children children) (event_todo todo) - set visited),
      \<lambda>(children, visited, rendered, todo). length todo]", goal_cases)
  case (2 children visited rendered n depth todo)
  show ?case using pids_below_skip [of "event_children children" "event_todo todo" visited "as_event n" depth] by (auto simp: le_less)
next
  case (3 children visited rendered n depth todo)
  then show ?case
    using pids_below_visit [of "as_event n" visited "event_children children" "min (depth + 1) 12" "event_todo todo" depth]
    by (simp add: children_of_event_children comp_def)
qed simp

definition layoutProcessTree :: "date_parser \<Rightarrow> ProcessTreeNodeDto list \<Rightarrow> RenderedProcessNode list" where
  "layoutProcessTree date_parse nodes =
     (let byPid = map_from (map (\<lambda>n. (node_pid n, n)) nodes);
          (roots, children) = foldl (attach_node byPid) ([], []) nodes;
          roots = js_sort (node_chronological date_parse) roots;
          children = map (\<lambda>(k, ss). (k, js_sort (node_chronological date_parse) ss)) children;
          (visited, rendered) = visit_nodes children [] [] (map (\<lambda>n. (n, 0)) roots);
          (visited, rendered) = visit_nodes children visited rendered
            (map (\<lambda>n. (n, 0)) (js_sort (node_chronological date_parse) nodes))
      in rendered)"

section \<open>Charts\<close>

definition sampleRows :: "'r list \<Rightarrow> nat \<Rightarrow> 'r list" where
  "sampleRows rows maximum =
     (if length rows \<le> maximum then rows
      else let stride = nat \<lceil>of_nat (length rows) / (of_nat maximum :: rat)\<rceil>;
               kept = filter (\<lambda>i. i mod stride = 0) [0..<length rows];
               kept = (if last kept \<noteq> length rows - 1 then kept @ [length rows - 1] else kept)
           in map ((!) rows) kept)"

definition coordinates :: "int list \<Rightarrow> (rat \<times> rat) list" where
  "coordinates vs =
     (let maximum = Max (insert 1 (set vs)); n = length vs
      in map (\<lambda>(i, v).
           (if n = 1 then 260 else 20 + of_nat i * 480 / of_int (max (int n - 1) 1),
            150 - of_int v / of_int maximum * 120)) (enumerate 0 vs))"

definition sortByBucket :: "date_parser \<Rightarrow> ('r \<Rightarrow> jsstring) \<Rightarrow> 'r list \<Rightarrow> 'r list" where
  "sortByBucket date_parse bucketStartAt rows = js_sort (\<lambda>l r. parsed_difference date_parse (bucketStartAt l) (bucketStartAt r)) rows"

datatype ChartDensity = Compact | Standard | Expanded

text \<open>The bars shown, and under a fold all of them; the widths are percentages of the largest count.\<close>

definition bar_widths :: "int \<Rightarrow> int list \<Rightarrow> rat list" where
  "bar_widths maximum rows = map (\<lambda>n. of_int n / of_int maximum * 100) rows"

definition CountBars :: "int list \<Rightarrow> ChartDensity \<Rightarrow> (rat list \<times> (nat \<times> rat list) option) option" where
  "CountBars rows mode =
     (if rows = [] then None
      else let maximum = Max (insert 1 (set rows)); visibleRows = (if mode = Compact then take 3 rows else rows)
           in Some (bar_widths maximum visibleRows,
                    if length visibleRows < length rows then Some (length rows - length visibleRows, bar_widths maximum rows) else None))"

text \<open>The points drawn for a series.\<close>

definition TimeSeriesChart :: "TimeSeriesPointDto list \<Rightarrow> ChartDensity \<Rightarrow> (rat \<times> rat) list" where
  "TimeSeriesChart rows mode = coordinates (map tsp_count (if mode = Compact then sampleRows rows 8 else rows))"

section \<open>Selection in the activity chart\<close>

text \<open>A new model drops a selection it has no bucket for.\<close>

definition keep_selected :: "DetectionActivityModel \<Rightarrow> int option \<Rightarrow> int option" where
  "keep_selected model current =
     (case current of None \<Rightarrow> None | Some t \<Rightarrow> if t \<notin> set (da_timestamps model) then None else current)"

text \<open>The tip that is shown: the first series with a number at the time stamp and the index of its point.\<close>

definition tip_for :: "DetectionActivityModel \<Rightarrow> int \<Rightarrow> (nat \<times> nat) option" where
  "tip_for model timestamp =
     (case find_index (\<lambda>s. case valueAt s timestamp of Some (Some v) \<Rightarrow> True | _ \<Rightarrow> False) (da_series model) of
        None \<Rightarrow> None
      | Some i \<Rightarrow> (case find_index (\<lambda>(t, v). t = timestamp) (ds_points (da_series model ! i)) of
                    None \<Rightarrow> None | Some j \<Rightarrow> Some (i, j)))"

definition selectTimestamp :: "DetectionActivityModel \<Rightarrow> int \<Rightarrow> int option \<times> (nat \<times> nat) option" where
  "selectTimestamp model timestamp = (Some timestamp, tip_for model timestamp)"

definition latest_values :: "DetectionActivityModel \<Rightarrow> int option list" where
  "latest_values model = map (\<lambda>s. if ds_points s = [] then None else snd (last (ds_points s))) (da_series model)"

section \<open>The tree that is drawn\<close>

lemma js_sort_map: "js_sort cmp (map f xs) = map f (js_sort (\<lambda>x y. cmp (f x) (f y)) xs)"
proof (induction xs)
  case (Cons x xs)
  have "js_insort cmp (f y) (map f ys) = map f (js_insort (\<lambda>x y. cmp (f x) (f y)) y ys)" for y ys
    by (induction ys) auto
  with Cons show ?case by simp
qed simp

lemma chronological_as_event: "(\<lambda>l r. chronological dp (as_event l) (as_event r)) = node_chronological dp"
  by (intro ext) (simp add: chronological_def node_chronological_def Let_def)

lemma map_set_map_snd: "map_set (map (\<lambda>(k, v). (k, f v)) m) k (f v) = map (\<lambda>(k, v). (k, f v)) (map_set m k v)"
  by (induction m) auto

lemma is_root_as_event: "is_root (map (\<lambda>(k, n). (k, as_event n)) byPid) (as_event n) = node_is_root byPid n"
  by (simp add: is_root_def node_is_root_def map_get_map_snd split: option.split)

lemma attach_as_event:
  "attach_process (map (\<lambda>(k, n). (k, as_event n)) byPid) (map as_event roots, event_children children) (as_event n) =
   map_prod (map as_event) (\<lambda>c. event_children c) (attach_node byPid (roots, children) n)"
proof -
  have "map_set (event_children children) k (map as_event v @ [as_event n]) = event_children (map_set children k (v @ [n]))" for k v
    using map_set_map_snd [where f = "map as_event" and m = children and k = k and v = "v @ [n]"] by simp
  note step = this [of _ "[]", simplified] this
  then show ?thesis
    by (auto simp: attach_process_def attach_node_def is_root_as_event map_get_map_snd Let_def split: option.split)
qed

lemma attach_all_as_event:
  "foldl (attach_process (map (\<lambda>(k, n). (k, as_event n)) byPid)) (map as_event roots, event_children children) (map as_event ns) =
   map_prod (map as_event) (\<lambda>c. event_children c) (foldl (attach_node byPid) (roots, children) ns)"
proof (induction ns arbitrary: roots children)
  case (Cons n ns)
  obtain r c where rc: "attach_node byPid (roots, children) n = (r, c)" by fastforce
  show ?case using Cons [of r c] by (simp add: attach_as_event rc)
qed simp

definition walk_node :: "(EventDto \<Rightarrow> nat \<Rightarrow> ProcessTreeNode) \<Rightarrow> RenderedProcessNode \<Rightarrow> ProcessTreeNode" where
  "walk_node mk r = mk (as_event (rn_node r)) (rn_depth r)"

lemma visit_nodes_walk:
  "visit_all mk (event_children children) visited (map (walk_node mk) rendered) (event_todo todo) =
   map_prod id (map (walk_node mk)) (visit_nodes children visited rendered todo)"
proof (induction children visited rendered todo rule: visit_nodes.induct)
  case (2 children visited rendered n depth todo)
  then show ?case by (simp add: children_of_event_children walk_node_def comp_def)
qed simp

lemma event_children_sorted:
  "map (\<lambda>(k, ss). (k, js_sort (chronological dp) ss)) (event_children children) =
   event_children (map (\<lambda>(k, ss). (k, js_sort (node_chronological dp) ss)) children)"
  by (simp add: js_sort_map chronological_as_event case_prod_unfold comp_def)

text \<open>
  The drawn tree is the walk of the other process tree over the same processes; for processes with
  different pids it is that tree.
\<close>

definition walk_over :: "date_parser \<Rightarrow> (int, EventDto) jsmap \<Rightarrow> int option \<Rightarrow> EventDto list \<Rightarrow> ProcessTreeNode list" where
  "walk_over dp byPid sel es =
     (let (roots, children) = foldl (attach_process byPid) ([], []) es;
          roots = js_sort (chronological dp) roots;
          children = map (\<lambda>(k, ss). (k, js_sort (chronological dp) ss)) children;
          mk = tree_node byPid sel;
          (visited, nodes) = visit_all mk children [] [] (map (\<lambda>e. (e, 0)) roots);
          (visited, nodes) = visit_all mk children visited nodes (map (\<lambda>e. (e, 0)) (js_sort (chronological dp) es))
      in nodes)"

lemma buildProcessTree_walk:
  "buildProcessTree dp events sel = walk_over dp (processes_by_pid dp events) sel (map_values (processes_by_pid dp events))"
  by (simp add: buildProcessTree_def walk_over_def Let_def)

definition event_by_pid :: "ProcessTreeNodeDto list \<Rightarrow> (int, EventDto) jsmap" where
  "event_by_pid nodes = map (\<lambda>(k, n). (k, as_event n)) (map_from (map (\<lambda>n. (node_pid n, n)) nodes))"

lemma layoutProcessTree_walk:
  "map (walk_node (tree_node (event_by_pid nodes) sel)) (layoutProcessTree dp nodes) =
   walk_over dp (event_by_pid nodes) sel (map as_event nodes)"
proof -
  let ?byPid = "map_from (map (\<lambda>n. (node_pid n, n)) nodes)"
  let ?mk = "tree_node (event_by_pid nodes) sel"
  obtain roots children where a: "foldl (attach_node ?byPid) ([], []) nodes = (roots, children)" by fastforce
  let ?ch = "map (\<lambda>(k, ss). (k, js_sort (node_chronological dp) ss)) children"
  let ?start = "\<lambda>ns. map (\<lambda>n. (n, 0)) (js_sort (node_chronological dp) ns)"
  obtain v1 r1 where w1: "visit_nodes ?ch [] [] (?start roots) = (v1, r1)" by fastforce
  obtain v2 r2 where w2: "visit_nodes ?ch v1 r1 (?start nodes) = (v2, r2)" by fastforce
  have todo: "map (\<lambda>e. (e, 0)) (js_sort (chronological dp) (map as_event ns)) = event_todo (?start ns)" for ns
    by (simp add: js_sort_map chronological_as_event comp_def)
  have "foldl (attach_process (event_by_pid nodes)) ([], []) (map as_event nodes) = (map as_event roots, event_children children)"
    using attach_all_as_event [of ?byPid "[]" "[]" nodes] a by (simp add: event_by_pid_def)
  moreover have "visit_all ?mk (event_children ?ch) [] [] (event_todo (?start roots)) = (v1, map (walk_node ?mk) r1)"
    using visit_nodes_walk [of ?mk ?ch "[]" "[]" "?start roots"] w1 by simp
  moreover have "visit_all ?mk (event_children ?ch) v1 (map (walk_node ?mk) r1) (event_todo (?start nodes)) = (v2, map (walk_node ?mk) r2)"
    using visit_nodes_walk [of ?mk ?ch v1 r1 "?start nodes"] w2 by simp
  ultimately have "walk_over dp (event_by_pid nodes) sel (map as_event nodes) = map (walk_node ?mk) r2"
    unfolding walk_over_def by (simp only: Let_def prod.case todo event_children_sorted)
  moreover have "layoutProcessTree dp nodes = r2" by (simp add: layoutProcessTree_def Let_def a w1 w2)
  ultimately show ?thesis by simp
qed

lemma walk_over_spec:
  fixes byPid es sel dp
  defines "ns \<equiv> walk_over dp byPid sel es"
  assumes "\<forall>e\<in>set es. ev_pid e \<noteq> None"
  shows "distinct (node_pids ns) \<and> set (node_pids ns) = pid_of ` set es \<and> linked [] ns \<and> (\<forall>n\<in>set ns. pt_depth n \<le> 12)"
proof -
  define ch where "ch = map (\<lambda>(k, ss). (k, js_sort (chronological dp) ss)) (snd (foldl (attach_process byPid) ([], []) es))"
  define roots where "roots = js_sort (chronological dp) (filter (is_root byPid) es)"
  let ?mk = "tree_node byPid sel"
  obtain v1 n1 where r1: "visit_all ?mk ch [] [] (map (\<lambda>e. (e, 0)) roots) = (v1, n1)" by fastforce
  obtain v2 n2 where r2: "visit_all ?mk ch v1 n1 (map (\<lambda>e. (e, 0)) (js_sort (chronological dp) es)) = (v2, n2)" by fastforce
  have ns: "ns = n2"
    using r1 r2 attach_all [of byPid "[]" "[]" es]
    by (simp add: ns_def walk_over_def Let_def case_prod_unfold ch_def roots_def)
  have mk: "pt_event (?mk e d) = e" "pt_depth (?mk e d) = d" for e d by (simp_all add: tree_node_def)
  have "attached (snd (foldl (attach_process byPid) ([], []) es)) (set es)"
    using attached_all [of "[]" "{}" byPid "[]" es] by (simp add: attached_def)
  from attached_children_of [OF this] have ch: "ev_ppid c = Some p \<and> c \<in> set es" if "c \<in> set (children_of ch p)" for c p
    using that unfolding ch_def by blast
  then have "children_ok ch" by (simp add: children_ok_def)
  then have w: "walk_ok v2 n2 []"
    using visit_all_ok [OF r2 walk_ok_restart [OF visit_all_ok [OF r1 walk_ok_start]]] mk by simp
  have "\<forall>n\<in>set n2. \<exists>e d. n = ?mk e d \<and> e \<in> set es"
    using visit_all_events [OF r2 visit_all_events [OF r1], of "\<lambda>e. e \<in> set es"] ch by (simp add: roots_def ball_Un)
  then have "set (node_pids n2) \<subseteq> pid_of ` set es" using mk by fastforce
  moreover have "pid_of ` set es \<subseteq> set v2" using visit_all_visits [OF r2, of _ 0] assms(2) by auto
  ultimately show ?thesis using w unfolding ns by (auto simp: walk_ok_def)
qed

lemma visit_nodes_subset:
  "visit_nodes children visited rendered todo = (visited', rendered') \<Longrightarrow> rn_node ` set rendered \<subseteq> A \<Longrightarrow> fst ` set todo \<subseteq> A \<Longrightarrow>
   \<forall>p. set (node_children children p) \<subseteq> A \<Longrightarrow> rn_node ` set rendered' \<subseteq> A"
proof (induction children visited rendered todo rule: visit_nodes.induct)
  case (2 children visited rendered n depth todo)
  show ?case
  proof (cases "node_pid n \<in> set visited")
    case True
    then show ?thesis using "2.IH"(1) "2.prems" by simp
  next
    case False
    have "fst ` set (map (\<lambda>c. (c, min (depth + 1) 12)) (node_children children (node_pid n)) @ todo) \<subseteq> A"
      using "2.prems"(3) spec [OF "2.prems"(4), of "node_pid n"] by auto
    then show ?thesis using "2.IH"(2) [OF False] "2.prems" False by simp
  qed
qed simp

lemma map_get_subset:
  assumes "\<forall>(k, ss)\<in>set m. set ss \<subseteq> A" "map_get m p = Some ss" shows "set ss \<subseteq> A"
  using map_of_SomeD [OF assms(2)] assms(1) by blast

lemma map_set_ball:
  assumes "\<forall>(k, v)\<in>set m. P v" "P w" shows "\<forall>(k, v)\<in>set (map_set m p w). P v"
  using set_map_set [of p w m] assms by blast

lemma attach_node_subset:
  assumes "foldl (attach_node byPid) (roots, children) ns = (roots', children')" "set roots \<subseteq> A" "\<forall>(k, ss)\<in>set children. set ss \<subseteq> A"
    and "set ns \<subseteq> A"
  shows "set roots' \<subseteq> A \<and> (\<forall>(k, ss)\<in>set children'. set ss \<subseteq> A)"
  using assms
proof (induction ns arbitrary: roots children)
  case (Cons n ns)
  obtain r c where rc: "attach_node byPid (roots, children) n = (r, c)" by fastforce
  let ?ss = "\<lambda>p. case map_get children p of Some ss \<Rightarrow> ss | None \<Rightarrow> []"
  have "set (?ss p) \<subseteq> A" for p using map_get_subset [OF Cons.prems(3), of p] by (cases "map_get children p") simp_all
  then have put: "\<forall>(k, ss)\<in>set (map_set children p (?ss p @ [n])). set ss \<subseteq> A" for p
    using map_set_ball [OF Cons.prems(3), of "?ss p @ [n]" p] Cons.prems(4) by simp
  have "set r \<subseteq> A \<and> (\<forall>(k, ss)\<in>set c. set ss \<subseteq> A)"
  proof (cases "node_is_root byPid n")
    case True
    then show ?thesis using rc Cons.prems(2-4) by (simp add: attach_node_def) force
  next
    case False
    then have "r = roots" "c = map_set children (the (node_ppid n)) (?ss (the (node_ppid n)) @ [n])"
      using rc by (simp_all add: attach_node_def Let_def)
    then show ?thesis using put Cons.prems(2) by blast
  qed
  then show ?case using Cons.IH [of r c] Cons.prems rc by simp
qed simp

lemma layoutProcessTree_members: "rn_node ` set (layoutProcessTree dp nodes) \<subseteq> set nodes"
proof -
  let ?byPid = "map_from (map (\<lambda>n. (node_pid n, n)) nodes)"
  obtain roots children where a: "foldl (attach_node ?byPid) ([], []) nodes = (roots, children)" by fastforce
  let ?ch = "map (\<lambda>(k, ss). (k, js_sort (node_chronological dp) ss)) children"
  let ?start = "\<lambda>ns. map (\<lambda>n. (n, 0)) (js_sort (node_chronological dp) ns)"
  obtain v1 r1 where w1: "visit_nodes ?ch [] [] (?start roots) = (v1, r1)" by fastforce
  obtain v2 r2 where w2: "visit_nodes ?ch v1 r1 (?start nodes) = (v2, r2)" by fastforce
  have sub: "set roots \<subseteq> set nodes" "\<forall>(k, ss)\<in>set children. set ss \<subseteq> set nodes"
    using attach_node_subset [OF a] by simp_all
  have ch: "\<forall>p. set (node_children ?ch p) \<subseteq> set nodes"
  proof
    show "set (node_children ?ch p) \<subseteq> set nodes" for p
      using map_get_subset [OF sub(2), of p] by (cases "map_get children p") (simp_all add: node_children_def map_get_map_snd)
  qed
  have "rn_node ` set r2 \<subseteq> set nodes"
    using visit_nodes_subset [OF w2 visit_nodes_subset [OF w1]] ch sub(1) by (simp add: image_image)
  then show ?thesis by (simp add: layoutProcessTree_def Let_def a w1 w2)
qed

lemma layoutProcessTree_spec:
  "distinct (map (\<lambda>r. node_pid (rn_node r)) (layoutProcessTree dp nodes)) \<and>
   node_pid ` rn_node ` set (layoutProcessTree dp nodes) = node_pid ` set nodes \<and>
   (\<forall>r\<in>set (layoutProcessTree dp nodes). rn_depth r \<le> 12)"
proof -
  let ?mk = "tree_node (event_by_pid nodes) None"
  have n: "pt_event (walk_node ?mk r) = as_event (rn_node r)" "pt_depth (walk_node ?mk r) = rn_depth r" for r
    by (simp_all add: walk_node_def tree_node_def)
  show ?thesis
    using walk_over_spec [of "map as_event nodes" dp "event_by_pid nodes" None]
    unfolding layoutProcessTree_walk [symmetric] by (auto simp: comp_def n image_image)
qed

text \<open>With one node per pid the map of the other tree holds just these nodes.\<close>

lemma processes_of_distinct:
  assumes "distinct (map node_pid nodes)"
  shows "processes_by_pid dp (map as_event nodes) = event_by_pid nodes" "map_values (event_by_pid nodes) = map as_event nodes"
proof -
  have plain: "event_by_pid ns = map (\<lambda>n. (node_pid n, as_event n)) ns" if "distinct (map node_pid ns)" for ns
  proof -
    have "distinct (map_keys (map (\<lambda>n. (node_pid n, n)) ns))" using that by (simp add: comp_def)
    from map_from_distinct [OF this] show ?thesis by (simp add: event_by_pid_def comp_def)
  qed
  show "map_values (event_by_pid nodes) = map as_event nodes" by (simp add: plain [OF assms] comp_def)
  show "processes_by_pid dp (map as_event nodes) = event_by_pid nodes"
    using assms
  proof (induction nodes rule: rev_induct)
    case (snoc n ns)
    let ?m = "map (\<lambda>n. (node_pid n, as_event n)) ns"
    have "map_get ?m (node_pid n) = None" using snoc.prems by (auto simp: map_of_eq_None_iff)
    moreover have "map_set ?m (node_pid n) e = ?m @ [(node_pid n, e)]" for e
      using snoc.prems by (induction ns) auto
    ultimately have "record_process dp ?m (as_event n) = ?m @ [(node_pid n, as_event n)]" by (simp add: record_process_def)
    then show ?case using snoc plain by (simp add: processes_by_pid_def)
  qed (simp add: processes_by_pid_def plain)
qed

section \<open>Points and bars\<close>

lemma multiples_count:
  fixes n m k :: nat
  assumes "0 < k" "n \<le> m * k"
  shows "length (filter (\<lambda>i. i mod k = 0) [0..<n]) \<le> m"
proof -
  let ?is = "filter (\<lambda>i. i mod k = 0) [0..<n]"
  have "set ?is \<subseteq> (\<lambda>j. j * k) ` {..<m}"
  proof
    fix i assume "i \<in> set ?is"
    then have "i < m * k" "i = i div k * k" using assms(2) by auto
    then show "i \<in> (\<lambda>j. j * k) ` {..<m}" using less_mult_imp_div_less by blast
  qed
  from card_mono [OF _ this] have "card (set ?is) \<le> card ((\<lambda>j. j * k) ` {..<m})" by simp
  also have "\<dots> \<le> m" using card_image_le [of "{..<m}" "\<lambda>j. j * k"] by simp
  finally show ?thesis by (simp only: distinct_card [OF distinct_filter [OF distinct_upt]])
qed

text \<open>The indices kept are the multiples of the stride and the last one.\<close>

lemma kept_indices:
  fixes k m :: nat
  defines "is \<equiv> filter (\<lambda>i. i mod k = 0) [0..<Suc m]"
  shows "(if last is \<noteq> m then is @ [m] else is) = filter (\<lambda>i. i mod k = 0 \<or> i = m) [0..<Suc m]"
proof -
  have below: "filter (\<lambda>i. i mod k = 0 \<or> i = m) [0..<m] = filter (\<lambda>i. i mod k = 0) [0..<m]" by (rule filter_cong) auto
  show ?thesis
  proof (cases "m mod k = 0")
    case False
    then have "m \<noteq> 0" by (cases m) auto
    then have "0 \<in> set is" by (simp add: is_def)
    then have "last is \<in> set is" by (cases "is") auto
    then have "last is \<noteq> m" using False by (auto simp: is_def)
    then show ?thesis using False below by (simp add: is_def)
  qed (simp add: is_def below)
qed

lemma sampleRows_spec:
  assumes "rows \<noteq> []" "0 < maximum"
  shows "subseq (sampleRows rows maximum) rows \<and> hd (sampleRows rows maximum) = hd rows \<and> last (sampleRows rows maximum) = last rows \<and>
    length (sampleRows rows maximum) \<le> maximum + 1"
proof (cases "length rows \<le> maximum")
  case True
  then show ?thesis by (simp add: sampleRows_def)
next
  case False
  define k where "k = nat \<lceil>of_nat (length rows) / (of_nat maximum :: rat)\<rceil>"
  obtain m where m: "length rows = Suc m" using assms(1) by (cases rows) auto
  let ?is = "filter (\<lambda>i. i mod k = 0) [0..<Suc m]"
  let ?kept = "filter (\<lambda>i. i mod k = 0 \<or> i = m) [0..<Suc m]"
  have r: "sampleRows rows maximum = map ((!) rows) ?kept"
    using False kept_indices [of k m] by (simp only: sampleRows_def k_def m Let_def if_False diff_Suc_1)
  have "of_nat (length rows) / of_nat maximum \<le> (of_nat k :: rat)" unfolding k_def by (simp add: of_nat_nat)
  then have "(of_nat (length rows) :: rat) \<le> of_nat (maximum * k)" using assms(2) by (simp add: divide_le_eq mult.commute)
  then have le: "length rows \<le> maximum * k" by (simp only: of_nat_le_iff)
  then have "0 < k" using m by (cases k) auto
  then have "length ?is \<le> maximum" by (rule multiples_count) (use le m in simp)
  moreover have "length ?kept \<le> length ?is + 1" unfolding kept_indices [symmetric] by simp
  ultimately have "length (sampleRows rows maximum) \<le> maximum + 1" by (simp only: r length_map)
  moreover have "subseq (map ((!) rows) ?kept) (map ((!) rows) [0..<length rows])" unfolding m by (rule subseq_map) (rule subseq_filter_left)
  moreover have "?kept \<noteq> []" "hd ?kept = 0" by (simp_all add: upt_conv_Cons del: upt_Suc)
  then have "hd (map ((!) rows) ?kept) = rows ! 0" by (simp add: hd_map del: upt_Suc)
  moreover have "last (map ((!) rows) ?kept) = rows ! m" by simp
  ultimately show ?thesis using assms(1) m unfolding r map_nth by (simp add: hd_conv_nth last_conv_nth)
qed

lemma share_bounds:
  assumes "0 \<le> v" "v \<le> M" "1 \<le> M"
  shows "0 \<le> of_int v / (of_int M :: rat)" "of_int v / (of_int M :: rat) \<le> 1"
  using assms by (simp_all add: divide_le_eq_1)

lemma scaled_share:
  fixes a b :: rat
  assumes "0 \<le> a" "a \<le> 1" "0 \<le> b"
  shows "0 \<le> a * b \<and> a * b \<le> b"
  using assms mult_right_mono [of a 1 b] by simp

lemma coordinates_bounds:
  assumes "(x, y) \<in> set (coordinates vs)" "\<forall>v\<in>set vs. 0 \<le> v"
  shows "20 \<le> x \<and> x \<le> 500 \<and> 30 \<le> y \<and> y \<le> 150"
proof -
  let ?M = "Max (insert 1 (set vs))" and ?n = "length vs"
  from assms(1) obtain i where i: "i < ?n"
    and x: "x = (if ?n = 1 then 260 else 20 + of_nat i * 480 / of_int (max (int ?n - 1) 1))"
    and y: "y = 150 - of_int (vs ! i) / of_int ?M * 120"
    by (auto simp: coordinates_def Let_def in_set_enumerate_eq)
  have "0 \<le> of_int (vs ! i) / (of_int ?M :: rat)" "of_int (vs ! i) / (of_int ?M :: rat) \<le> 1"
    using share_bounds [of "vs ! i" ?M] i assms(2) by simp_all
  then have "30 \<le> y" "y \<le> 150" unfolding y by linarith+
  moreover have "20 \<le> x \<and> x \<le> 500"
  proof (cases "?n = 1")
    case False
    then have d: "max (int ?n - 1) 1 = int ?n - 1" using i by auto
    have "of_nat i \<le> (of_int (int ?n - 1) :: rat)" "(0 :: rat) < of_int (int ?n - 1)" using i False by auto
    then have "0 \<le> of_nat i / (of_int (int ?n - 1) :: rat)" "of_nat i / (of_int (int ?n - 1) :: rat) \<le> 1" by simp_all
    from scaled_share [OF this, of 480] have "0 \<le> x - 20 \<and> x - 20 \<le> 480" unfolding x d using False by simp
    then show ?thesis by simp
  qed (simp add: x)
  ultimately show ?thesis by blast
qed

lemma bar_widths_bounds:
  assumes "\<forall>v\<in>set rows. 0 \<le> v" "w \<in> set (bar_widths (Max (insert 1 (set rows))) vs)" "set vs \<subseteq> set rows"
  shows "0 \<le> w \<and> w \<le> 100"
proof -
  let ?M = "Max (insert 1 (set rows))"
  from assms(2) obtain v where v: "v \<in> set vs" and w: "w = of_int v / of_int ?M * 100" by (auto simp: bar_widths_def)
  have "1 \<le> ?M" "v \<le> ?M" "0 \<le> v" using v assms by auto
  from scaled_share [OF share_bounds [OF this(3,2,1)], of 100] show ?thesis unfolding w by simp
qed

lemma count_bars_bounds:
  assumes "\<forall>v\<in>set rows. 0 \<le> v" "rows \<noteq> []"
  shows "case CountBars rows mode of
       None \<Rightarrow> False
     | Some (shown, folded) \<Rightarrow>
         list_all (\<lambda>w. 0 \<le> w \<and> w \<le> 100) (shown @ (case folded of None \<Rightarrow> [] | Some (n, ws) \<Rightarrow> ws))"
proof -
  have "list_all (\<lambda>w. 0 \<le> w \<and> w \<le> 100) (bar_widths (Max (insert 1 (set rows))) vs)" if "set vs \<subseteq> set rows" for vs
    unfolding list_all_iff using bar_widths_bounds [OF assms(1) _ that] by blast
  note bars = this [OF set_take_subset, of 3] this [OF subset_refl]
  show ?thesis unfolding CountBars_def Let_def using assms(2) bars by (simp add: list_all_append)
qed

text \<open>A tip is shown at a point with a number, and when there is such a point.\<close>

lemma tip_for_point:
  assumes "tip_for model t = Some (i, j)"
  shows "i < length (da_series model) \<and> j < length (ds_points (da_series model ! i)) \<and> fst (ds_points (da_series model ! i) ! j) = t"
proof -
  from assms obtain "find_index (\<lambda>s. case valueAt s t of Some (Some v) \<Rightarrow> True | _ \<Rightarrow> False) (da_series model) = Some i"
    and "find_index (\<lambda>(t', v). t' = t) (ds_points (da_series model ! i)) = Some j"
    by (auto simp: tip_for_def split: option.splits)
  from find_index_Some(1) [OF this(1)] find_index_Some(1,2) [OF this(2)] show ?thesis by (auto simp: case_prod_unfold)
qed

end
