(* ===== verification/ConsoleProperties.thy ===== *)
theory ConsoleProperties
  imports ConsoleShell Distribution EvidenceViews
begin

text \<open>
  The properties of the controls, of what is drawn of processes and series, and of the two distributions of the
  overview.
\<close>

section \<open>Pickers\<close>

text \<open>
  C33. In the picker of the scope a key chooses nothing but an endpoint that is listed, as long as no answer
  of the API replaces another one while it is shown.  If a later answer has fewer endpoints than the marked
  place, Enter chooses no endpoint and thereby takes the scope away; the switcher of endpoints does nothing then,
  and whatever it navigates to is listed.
\<close>

theorem picker_chooses_listed:
  assumes "reachable_scope v" "snd (scope_onKeyDown (sv_endpoints v) k (sv_picker v)) = Some c"
  shows "c \<in> Some ` set (sv_endpoints v) \<and>
    (\<exists>w w'. reachable_scope w \<and> refetch_step w w' \<and> snd (scope_onKeyDown (sv_endpoints w') Enter (sv_picker w')) = Some None) \<and>
    set_option (snd (switcher_onKeyDown params es key p)) \<subseteq> switcher_target params ` set es"
proof (intro conjI)
  show "c \<in> Some ` set (sv_endpoints v)"
    using scope_enter_listed [OF reachable_scope_inv [OF assms(1)] assms(2)] by auto
  show "\<exists>w w'. reachable_scope w \<and> refetch_step w w' \<and> snd (scope_onKeyDown (sv_endpoints w') Enter (sv_picker w')) = Some None"
    by (rule scope_cleared_by_refetch)
  show "set_option (snd (switcher_onKeyDown params es key p)) \<subseteq> switcher_target params ` set es"
    using switcher_enter_listed [of params es key p] by (cases "snd (switcher_onKeyDown params es key p)") auto
qed

theorem picker_chooses_listed_witness:
  "Some 7 \<in> Some ` set (sv_endpoints (picker_on 0 [7, 9]))"
  using picker_chooses_listed [OF picker_on_reachable(1) [of "[7, 9]"], of Enter "Some 7" "[]" "[]" Enter initial_picker]
  by (simp add: picker_on_def scope_onKeyDown_def scope_select_def option_at_def)

text \<open>
  C34. Every listed endpoint can be chosen from the keyboard: in an open picker with nothing marked, one arrow
  down more than the number of endpoints before it, then Enter, chooses it, in the picker of the scope as in the
  switcher.
\<close>

theorem picker_reaches_every_endpoint:
  assumes "i < length es" "pk_active p = -1"
  shows "snd (scope_onKeyDown es Enter ((scope_key ArrowDown es ^^ Suc i) p)) = Some (Some (es ! i)) \<and>
    snd (switcher_onKeyDown params es Enter ((switcher_key ArrowDown es ^^ Suc i) p)) = Some (switcher_target params (es ! i))"
proof -
  have "pk_active ((scope_key ArrowDown es ^^ Suc i) p) = int i"
    using scope_cursor.down_reaches [OF assms] unfolding arrow_key_length(1) [OF disjI1 [OF HOL.refl]] .
  moreover have "pk_active ((switcher_key ArrowDown es ^^ Suc i) p) = int i"
    using switcher_cursor.down_reaches [OF assms] unfolding arrow_key_length(2) [OF disjI1 [OF HOL.refl]] .
  ultimately show ?thesis using assms(1)
    by (auto simp: scope_onKeyDown_def switcher_onKeyDown_def scope_select_def switcher_select_def option_at_def)
qed

theorem picker_reaches_every_endpoint_witness:
  "snd (scope_onKeyDown [7, 9] Enter ((scope_key ArrowDown [7, 9] ^^ Suc 1) initial_picker)) = Some (Some 9)"
  using picker_reaches_every_endpoint [of 1 "[7, 9]" initial_picker "[]"] by (simp add: initial_picker_def)

section \<open>Dialogs\<close>

text \<open>
  C35. However dialogs are opened within each other and the focus moves, when they are closed again the page
  scrolls as before; a closed dialog gives the focus to the element it was told or to the one that had it; and
  within a panel the tab key goes round: every step stays inside and the step back undoes it.
\<close>

theorem dialogs_restore_page:
  assumes "nested_dialogs p p'" "d \<notin> fst ` set (mp_saved p)" "nested_dialogs (open_modal d r f p) q" "i < n"
  shows "mp_overflow p' = mp_overflow p \<and> mp_overflow (close_modal d q) = mp_overflow p \<and>
    mp_focus (close_modal d q) = (case r of Some e \<Rightarrow> e | None \<Rightarrow> mp_focus p) \<and>
    tab_index n False i < n \<and> tab_index n True i < n \<and> tab_index n True (tab_index n False i) = i \<and>
    tab_index n False (tab_index n True i) = i"
proof -
  have q: "mp_saved q = mp_saved (open_modal d r f p)" using nested_dialogs_restore [OF assms(3)] by blast
  show ?thesis
    using nested_dialogs_restore [OF assms(1)] close_opened [OF assms(2) q] tab_index_inverse [OF assms(4)] by blast
qed

theorem dialogs_restore_page_witness:
  "mp_focus (close_modal 1 (open_modal 1 None 5 \<lparr>mp_overflow = js ''auto'', mp_focus = 4, mp_saved = []\<rparr>)) = 4 \<and>
   tab_index 3 True (tab_index 3 False 2) = 2"
  using dialogs_restore_page [OF nested_dialogs.nothing, of 1 "\<lparr>mp_overflow = js ''auto'', mp_focus = 4, mp_saved = []\<rparr>" None 5
      "open_modal 1 None 5 \<lparr>mp_overflow = js ''auto'', mp_focus = 4, mp_saved = []\<rparr>" 2 3, OF _ nested_dialogs.nothing]
  by simp

section \<open>Processes and series\<close>

text \<open>
  C36. The process tree drawn for an alert shows one node for every pid, also when pids occur several times or
  the parents form a cycle; its nodes are among those the API sent, at most twelve levels deep; and if
  every pid occurs once it is, node by node and level by level, the tree that is built from events.
\<close>

theorem process_view_complete:
  "distinct (map (\<lambda>r. node_pid (rn_node r)) (layoutProcessTree dp nodes)) \<and>
   node_pid ` rn_node ` set (layoutProcessTree dp nodes) = node_pid ` set nodes \<and>
   rn_node ` set (layoutProcessTree dp nodes) \<subseteq> set nodes \<and> list_all (\<lambda>r. rn_depth r \<le> 12) (layoutProcessTree dp nodes) \<and>
   (distinct (map node_pid nodes) \<longrightarrow>
      map (\<lambda>r. (as_event (rn_node r), rn_depth r)) (layoutProcessTree dp nodes) =
      map (\<lambda>n. (pt_event n, pt_depth n)) (buildProcessTree dp (map as_event nodes) sel))"
proof (intro conjI impI)
  assume d: "distinct (map node_pid nodes)"
  have "buildProcessTree dp (map as_event nodes) sel =
      map (walk_node (tree_node (event_by_pid nodes) sel)) (layoutProcessTree dp nodes)"
    by (simp only: buildProcessTree_walk processes_of_distinct [OF d] layoutProcessTree_walk)
  then show "map (\<lambda>r. (as_event (rn_node r), rn_depth r)) (layoutProcessTree dp nodes) =
      map (\<lambda>n. (pt_event n, pt_depth n)) (buildProcessTree dp (map as_event nodes) sel)"
    by (simp add: walk_node_def tree_node_def)
qed (use layoutProcessTree_spec [of dp nodes] layoutProcessTree_members [of dp nodes] in \<open>auto simp: list_all_iff\<close>)

definition sample_node :: "int \<Rightarrow> int option \<Rightarrow> ProcessTreeNodeDto" where
  "sample_node pid ppid =
     \<lparr>node_pid = pid, node_ppid = ppid, node_processName = js ''sh'', node_processPath = None, node_commandLine = None, node_userName = None,
      node_firstSeenAt = [], node_lastSeenAt = [], node_eventCount = 1, node_parentCaptured = False, node_selected = False\<rparr>"

theorem process_view_complete_witness:
  "map (\<lambda>r. (as_event (rn_node r), rn_depth r)) (layoutProcessTree (\<lambda>_. None) [sample_node 1 (Some 2), sample_node 2 (Some 1)]) =
   map (\<lambda>n. (pt_event n, pt_depth n)) (buildProcessTree (\<lambda>_. None) (map as_event [sample_node 1 (Some 2), sample_node 2 (Some 1)]) None)"
  using process_view_complete [of "\<lambda>_. None" "[sample_node 1 (Some 2), sample_node 2 (Some 1)]" None]
  by (simp add: sample_node_def)

text \<open>
  C37. The chart of a series stays in its frame, whatever the counts: every point lies on the grid; a compact
  chart has at most nine points, in the order of the series, with its first and its last one; and the bars of a
  distribution are between 0 and 100 percent wide, also those under the fold.
\<close>

theorem series_charts_in_frame:
  assumes "\<forall>r\<in>set rows. 0 \<le> tsp_count r" "rows \<noteq> []"
  shows "list_all (\<lambda>(x, y). 20 \<le> x \<and> x \<le> 500 \<and> 30 \<le> y \<and> y \<le> 150) (TimeSeriesChart rows mode) \<and>
    length (TimeSeriesChart rows Compact) \<le> 9 \<and> subseq (sampleRows rows 8) rows \<and>
    hd (sampleRows rows 8) = hd rows \<and> last (sampleRows rows 8) = last rows \<and>
    (case CountBars (map tsp_count rows) mode of
       None \<Rightarrow> False
     | Some (shown, folded) \<Rightarrow>
         list_all (\<lambda>w. 0 \<le> w \<and> w \<le> 100) (shown @ (case folded of None \<Rightarrow> [] | Some (n, ws) \<Rightarrow> ws)))"
proof (intro conjI)
  have sample: "subseq (sampleRows rows 8) rows" "hd (sampleRows rows 8) = hd rows" "last (sampleRows rows 8) = last rows"
    "length (sampleRows rows 8) \<le> 9"
    using sampleRows_spec [OF assms(2), of 8] by simp_all
  then show "subseq (sampleRows rows 8) rows" "hd (sampleRows rows 8) = hd rows" "last (sampleRows rows 8) = last rows" by blast+
  show "length (TimeSeriesChart rows Compact) \<le> 9"
    using sample(4) by (simp add: TimeSeriesChart_def coordinates_def Let_def)
  have nonneg: "\<forall>v\<in>set (map tsp_count (if mode = Compact then sampleRows rows 8 else rows)). 0 \<le> v"
    using assms(1) subseq_subset [OF sample(1)] by auto
  show "list_all (\<lambda>(x, y). 20 \<le> x \<and> x \<le> 500 \<and> 30 \<le> y \<and> y \<le> 150) (TimeSeriesChart rows mode)"
    unfolding TimeSeriesChart_def list_all_iff using coordinates_bounds [OF _ nonneg] by blast
  show "case CountBars (map tsp_count rows) mode of
       None \<Rightarrow> False
     | Some (shown, folded) \<Rightarrow>
         list_all (\<lambda>w. 0 \<le> w \<and> w \<le> 100) (shown @ (case folded of None \<Rightarrow> [] | Some (n, ws) \<Rightarrow> ws))"
    using count_bars_bounds [of "map tsp_count rows" mode] assms by simp
qed

theorem series_charts_in_frame_witness:
  "length (TimeSeriesChart (replicate 20 \<lparr>tsp_bucketStartAt = [], tsp_count = 3\<rparr>) Compact) \<le> 9"
  using series_charts_in_frame [of "replicate 20 \<lparr>tsp_bucketStartAt = [], tsp_count = 3\<rparr>" Standard] by simp

section \<open>Distributions\<close>

text \<open>
  The ring of the severities: if the total is not less than the counts, the arcs are the shares of the
  counts, each begins where the one before ends, the first at the start of the path, and none goes round
  again; if the total is that of the counts they close the ring.
\<close>

lemma severity_ring:
  assumes "distinct (map sc_severity rows)" "\<forall>r\<in>set rows. 0 \<le> sc_count r" "sum_list (map sc_count rows) \<le> whole"
  shows "map dn_percentage (AlertSeverityDonut rows whole) = map (percent_of whole) (donut_counts rows) \<and>
    map dn_offset (AlertSeverityDonut rows whole) = 0 # butlast (map arc_end (AlertSeverityDonut rows whole)) \<and>
    arc_end (last (AlertSeverityDonut rows whole)) = percent_of whole (sum_list (map sc_count rows)) \<and>
    percent_of whole (sum_list (map sc_count rows)) \<le> 100 \<and>
    (whole \<noteq> sum_list (map sc_count rows) \<or> whole = 0 \<or> arc_end (last (AlertSeverityDonut rows whole)) = 100)"
  using donut_is_contiguous [OF assms] donut_last_end [OF assms] percent_of_props(3) [OF assms(3)] donut_closed [OF assms]
  by blast

text \<open>
  C38. The distribution of the fleet counts every check of a sensor once: the three states add up to all
  checks, and so do the sensors, each of which has one group, in the order of their names; the bars of a stack
  that is shown fill it; and the risk levels add up to the reported endpoints.
\<close>

theorem fleet_distribution_conserves:
  assumes "\<forall>r\<in>set health. 0 \<le> se_count r" "distinct (map rl_level levels)"
  shows "row_total (sensorRows health) = sum_list (map se_count health) \<and>
    sum_list (map sg_total (sensorBreakdown health)) = sum_list (map se_count health) \<and>
    distinct (map sg_sensor (sensorBreakdown health)) \<and> set (map sg_sensor (sensorBreakdown health)) = se_sensor ` set health \<and>
    sorted_wrt (\<lambda>a b. by_code_units a b \<le> 0) (map sg_sensor (sensorBreakdown health)) \<and>
    list_all (\<lambda>g. sg_total g = 0 \<or> sum_list (stack_widths (sg_rows g) (sg_total g)) = 100) (sensorBreakdown health) \<and>
    (row_total (sensorRows health) = 0 \<or> sum_list (stack_widths (sensorRows health) (row_total (sensorRows health))) = 100) \<and>
    row_total (riskRows levels) = sum_list (map rl_count levels)"
proof (intro conjI)
  show "row_total (sensorRows health) = sum_list (map se_count health)" by (simp add: sensorRows_total checks_total_sum)
  show "sum_list (map sg_total (sensorBreakdown health)) = sum_list (map se_count health)"
    by (simp add: sensorBreakdown_total checks_total_sum)
  show "distinct (map sg_sensor (sensorBreakdown health))" "set (map sg_sensor (sensorBreakdown health)) = se_sensor ` set health"
    "sorted_wrt (\<lambda>a b. by_code_units a b \<le> 0) (map sg_sensor (sensorBreakdown health))"
    unfolding sensor_names by (simp_all add: code_units.sorted_js_sort)
  show "list_all (\<lambda>g. sg_total g = 0 \<or> sum_list (stack_widths (sg_rows g) (sg_total g)) = 100) (sensorBreakdown health)"
    using group_stack_filled [OF assms(1)] by (auto simp: sensorBreakdown_def list_all_iff)
  show "row_total (sensorRows health) = 0 \<or> sum_list (stack_widths (sensorRows health) (row_total (sensorRows health))) = 100"
    by (rule stack_filled [OF sensor_rows_nonneg(1) [OF assms(1)]])
  show "row_total (riskRows levels) = sum_list (map rl_count levels)" by (rule riskRows_total [OF assms(2)])
qed

definition sample_checks :: "SensorHealthCountDto list" where
  "sample_checks =
     [\<lparr>se_sensor = js ''process'', se_status = HEALTHY, se_count = 3\<rparr>, \<lparr>se_sensor = js ''network'', se_status = DEGRADED, se_count = 1\<rparr>,
      \<lparr>se_sensor = js ''process'', se_status = UNAVAILABLE, se_count = 2\<rparr>]"

theorem fleet_distribution_conserves_witness:
  "sum_list (map sg_total (sensorBreakdown sample_checks)) = 6"
  using fleet_distribution_conserves [of sample_checks "[]"] by (simp add: sample_checks_def)

end
