(* ===== verification/ListPages.thy ===== *)
theory ListPages
  imports Investigation ConsoleControls
begin

text \<open>
  The list pages (\<open>pages/EventsPage.tsx\<close>, \<open>pages/AlertsPage.tsx\<close>, \<open>pages/IncidentsPage.tsx\<close>,
  \<open>pages/EndpointsPage.tsx\<close>): what each accepts as an address, the query it sends and what its controls do to the
  address.  The four pages share one contract, the locale \<open>list_page\<close>: a page that accepts its address
  sends what the address shows.
\<close>

section \<open>Choices\<close>

definition EVENT_TYPES :: "jsstring list" where
  "EVENT_TYPES = map js [''PROCESS_EXECUTION'', ''NETWORK_CONNECTION'', ''FILE_EVENT'', ''DNS_QUERY'', ''L7_EVENT'']"

definition DETAIL_FILTERS :: "string list" where
  "DETAIL_FILTERS = [''processName'', ''filePath'', ''domain'', ''remoteIp'', ''dnsQuery'', ''l7Protocol'']"

definition ALERT_SORT_FIELDS :: "jsstring list" where
  "ALERT_SORT_FIELDS = map js [''priority'', ''detectedAt'', ''severity'', ''riskScore'', ''status'']"

definition ENDPOINT_STATUSES :: "jsstring list" where
  "ENDPOINT_STATUSES = map js [''ONLINE'', ''OFFLINE'', ''RETIRED'']"

definition OS_TYPES :: "jsstring list" where
  "OS_TYPES = map js [''WINDOWS'', ''MACOS'']"

definition ENDPOINT_RISK_LEVELS :: "jsstring list" where
  "ENDPOINT_RISK_LEVELS = map js [''LOW'', ''MEDIUM'', ''HIGH'', ''CRITICAL'']"

definition ENDPOINT_SORT_FIELDS :: "jsstring list" where
  "ENDPOINT_SORT_FIELDS = map js [''riskScore'', ''lastSeenAt'', ''registeredAt'']"

lemmas page_choices = EVENT_TYPES_def ALERT_SORT_FIELDS_def ENDPOINT_STATUSES_def OS_TYPES_def ENDPOINT_RISK_LEVELS_def
  ENDPOINT_SORT_FIELDS_def enum_lists

section \<open>Reading the address\<close>

definition choice :: "search_params \<Rightarrow> string \<Rightarrow> jsstring list \<Rightarrow> jsstring option" where
  "choice ps key allowed = allowedValue (params_get ps (js key)) allowed"

definition sort_order :: "search_params \<Rightarrow> jsstring" where
  "sort_order ps = or_default (choice ps ''sortOrder'' SORT_ORDERS) (js ''desc'')"

definition sort_by :: "search_params \<Rightarrow> jsstring list \<Rightarrow> string \<Rightarrow> jsstring" where
  "sort_by ps columns d = or_default (choice ps ''sortBy'' columns) (js d)"

definition paging :: "search_params \<Rightarrow> query_record" where
  "paging ps = [(js ''page'', QNumber (Num (of_int (numberParam ps (js ''page'') 1)))),
                (js ''size'', QNumber (Num (of_int (numberParam ps (js ''size'') 50))))]"

definition trimmed_member :: "search_params \<Rightarrow> string \<Rightarrow> query_record" where
  "trimmed_member ps key = optional_member key (Some (trim (stringParam ps (js key) [])))"

text \<open>The pattern \<open>^\s*[1-9]\d*\s*$\<close>; the three classes of characters are disjoint, so it is read from the left.\<close>

definition id_token :: "jsstring \<Rightarrow> bool" where
  "id_token token =
     (let s = dropWhile is_white_space token; digits = takeWhile is_digit s
      in digits \<noteq> [] \<and> hd digits \<noteq> 48 \<and> list_all is_white_space (dropWhile is_digit s))"

definition invalidEndpointIds :: "jsstring \<Rightarrow> bool" where
  "invalidEndpointIds raw \<longleftrightarrow> raw \<noteq> [] \<and> (\<exists>token\<in>set (split_at 44 raw). \<not> id_token token)"

section \<open>The four pages\<close>

definition events_invalid :: "date_parser \<Rightarrow> search_params \<Rightarrow> bool" where
  "events_invalid dp ps \<longleftrightarrow> \<not> tf_valid (readTimeFilter dp ps) \<or> hasInvalidEnum ps (js ''eventType'') EVENT_TYPES \<or>
     hasInvalidEnum ps (js ''sortOrder'') SORT_ORDERS \<or> hasInvalidPositiveInteger ps (js ''endpointId'') \<or> hasInvalidPagination ps"

definition events_query :: "date_parser \<Rightarrow> search_params \<Rightarrow> query_record" where
  "events_query dp ps = time_query (readTimeFilter dp ps) @ paging ps @ [(js ''sortOrder'', QText (sort_order ps))] @
     optional_member ''eventType'' (choice ps ''eventType'' EVENT_TYPES) @
     optional_id ''endpointId'' (positiveInteger (params_get ps (js ''endpointId''))) @
     concat (map (trimmed_member ps) DETAIL_FILTERS)"

definition alerts_invalid :: "date_parser \<Rightarrow> search_params \<Rightarrow> bool" where
  "alerts_invalid dp ps \<longleftrightarrow> \<not> tf_valid (readTimeFilter dp ps) \<or> hasInvalidEnum ps (js ''status'') ALERT_STATUSES \<or>
     hasInvalidEnum ps (js ''severity'') SEVERITIES \<or> hasInvalidEnum ps (js ''sortBy'') ALERT_SORT_FIELDS \<or>
     hasInvalidEnum ps (js ''sortOrder'') SORT_ORDERS \<or> hasInvalidPositiveInteger ps (js ''endpointId'') \<or> hasInvalidPagination ps"

definition alerts_query :: "date_parser \<Rightarrow> search_params \<Rightarrow> query_record" where
  "alerts_query dp ps = time_query (readTimeFilter dp ps) @ paging ps @
     [(js ''sortBy'', QText (sort_by ps ALERT_SORT_FIELDS ''priority'')), (js ''sortOrder'', QText (sort_order ps))] @
     optional_member ''status'' (choice ps ''status'' ALERT_STATUSES) @
     optional_member ''severity'' (choice ps ''severity'' SEVERITIES) @
     optional_id ''endpointId'' (positiveInteger (params_get ps (js ''endpointId''))) @
     trimmed_member ps ''ruleCode''"

definition incidents_invalid :: "date_parser \<Rightarrow> search_params \<Rightarrow> bool" where
  "incidents_invalid dp ps \<longleftrightarrow> \<not> tf_valid (readTimeFilter dp ps) \<or> hasInvalidEnum ps (js ''status'') INCIDENT_STATUSES \<or>
     hasInvalidEnum ps (js ''severity'') SEVERITIES \<or> hasInvalidEnum ps (js ''sortOrder'') SORT_ORDERS \<or>
     hasInvalidPositiveInteger ps (js ''endpointId'') \<or> hasInvalidPagination ps"

definition incidents_query :: "date_parser \<Rightarrow> search_params \<Rightarrow> query_record" where
  "incidents_query dp ps = time_query (readTimeFilter dp ps) @ paging ps @ [(js ''sortOrder'', QText (sort_order ps))] @
     optional_member ''status'' (choice ps ''status'' INCIDENT_STATUSES) @
     optional_member ''severity'' (choice ps ''severity'' SEVERITIES) @
     optional_id ''endpointId'' (positiveInteger (params_get ps (js ''endpointId'')))"

definition endpoints_invalid :: "search_params \<Rightarrow> bool" where
  "endpoints_invalid ps \<longleftrightarrow> hasInvalidEnum ps (js ''status'') ENDPOINT_STATUSES \<or> hasInvalidEnum ps (js ''osType'') OS_TYPES \<or>
     hasInvalidEnum ps (js ''riskLevel'') ENDPOINT_RISK_LEVELS \<or> hasInvalidEnum ps (js ''sortBy'') ENDPOINT_SORT_FIELDS \<or>
     hasInvalidEnum ps (js ''sortOrder'') SORT_ORDERS \<or> hasInvalidText ps (js ''q'') 128 \<or>
     invalidEndpointIds (stringParam ps (js ''endpointIds'') []) \<or> hasInvalidPagination ps"

definition id_list_member :: "int list \<Rightarrow> query_record" where
  "id_list_member ids = (if ids = [] then [] else [(js ''endpointIds'', QNumbers (map (\<lambda>i. Num (of_int i)) ids))])"

definition endpoints_query :: "search_params \<Rightarrow> query_record" where
  "endpoints_query ps = paging ps @
     [(js ''sortBy'', QText (sort_by ps ENDPOINT_SORT_FIELDS ''riskScore'')), (js ''sortOrder'', QText (sort_order ps))] @
     trimmed_member ps ''q'' @
     optional_member ''status'' (choice ps ''status'' ENDPOINT_STATUSES) @
     optional_member ''osType'' (choice ps ''osType'' OS_TYPES) @
     optional_member ''riskLevel'' (choice ps ''riskLevel'' ENDPOINT_RISK_LEVELS) @
     id_list_member (parseEndpointIds (Some (stringParam ps (js ''endpointIds'') [])))"

section \<open>Controls\<close>

text \<open>The header of the one sorted column of events and incidents, and those of alerts and endpoints.\<close>

definition toggleOrder :: "search_params \<Rightarrow> search_params" where
  "toggleOrder ps = updateParams ps [(js ''sortOrder'', PText (if sort_order ps = js ''desc'' then js ''asc'' else js ''desc''))] True"

definition updateSort :: "jsstring list \<Rightarrow> string \<Rightarrow> search_params \<Rightarrow> jsstring \<Rightarrow> search_params" where
  "updateSort columns d ps nextSortBy =
     updateParams ps [(js ''sortBy'', PText nextSortBy),
       (js ''sortOrder'', PText (if sort_by ps columns d = nextSortBy \<and> sort_order ps = js ''desc'' then js ''asc'' else js ''desc''))] True"

text \<open>A field of the filter bar, and the button of an empty list that widens the range.\<close>

definition set_field :: "search_params \<Rightarrow> string \<Rightarrow> jsstring \<Rightarrow> search_params" where
  "set_field ps key v = updateParams ps [(js key, PText v)] True"

definition latest_7_days :: "search_params \<Rightarrow> search_params" where
  "latest_7_days ps =
     updateParams ps [(js ''timePreset'', PText (js ''LATEST_7D'')), (js ''from'', PNull), (js ''to'', PNull), (js ''page'', PNull)] True"

datatype sort_state = Ascending | Descending | Unsorted

definition SortableHeader_state :: "bool \<Rightarrow> jsstring \<Rightarrow> sort_state" where
  "SortableHeader_state active direction = (if active then if direction = js ''desc'' then Descending else Ascending else Unsorted)"

text \<open>What the controls of a list page, its filter bar and its pagination can do to the address.\<close>

datatype page_name = EventsPage | AlertsPage | IncidentsPage | EndpointsPage

datatype page_control =
    PickOption string jsstring
  | PickPreset jsstring
  | SortColumn jsstring
  | ToggleOrder
  | RemoveFilter string
  | ClearFilters
  | Latest7Days
  | PickSize jsstring
  | TurnTo int

definition turn_to :: "search_params \<Rightarrow> int \<Rightarrow> search_params" where
  "turn_to ps targetPage = (if targetPage \<le> 1 then params_delete ps (js ''page'')
     else params_set ps (js ''page'') (js_String (Num (of_int targetPage))))"

fun page_step :: "page_name \<Rightarrow> search_params \<Rightarrow> page_control \<Rightarrow> search_params" where
  "page_step pg ps (PickOption k v) = set_field ps k v"
| "page_step pg ps (PickPreset v) = select_preset ps v"
| "page_step pg ps (SortColumn c) =
     (case pg of AlertsPage \<Rightarrow> updateSort ALERT_SORT_FIELDS ''priority'' ps c
      | EndpointsPage \<Rightarrow> updateSort ENDPOINT_SORT_FIELDS ''riskScore'' ps c | _ \<Rightarrow> ps)"
| "page_step pg ps ToggleOrder = toggleOrder ps"
| "page_step pg ps (RemoveFilter k) = removeListFilter ps (js k)"
| "page_step pg ps ClearFilters = []"
| "page_step pg ps Latest7Days = latest_7_days ps"
| "page_step pg ps (PickSize v) = updateListParams ps [(js ''size'', Some v)]"
| "page_step pg ps (TurnTo n) = turn_to ps n"

section \<open>What an address shows\<close>

text \<open>
  The kinds of filters a list page has.  A choice may have a default that is sent when the address has no value; a
  counter has one and may have a maximum; a moment counts only for the custom range.
\<close>

datatype page_field =
    Choice "jsstring list" "jsstring option"
  | Identifier
  | Identifiers
  | Counter int "int option"
  | Words "nat option"
  | Moment

definition custom_range :: "search_params \<Rightarrow> bool" where
  "custom_range ps \<longleftrightarrow> params_get ps (js ''timePreset'') = Some (js ''CUSTOM'')"

fun accepts :: "date_parser \<Rightarrow> page_field \<Rightarrow> search_params \<Rightarrow> jsstring \<Rightarrow> bool" where
  "accepts dp (Choice vs d) ps k = pred_option (\<lambda>v. v \<in> set vs) (params_get ps k)"
| "accepts dp Identifier ps k = pred_option (\<lambda>v. number_in (\<lambda>r. 0 < r) (js_Number v)) (params_get ps k)"
| "accepts dp Identifiers ps k = pred_option (\<lambda>v. v = [] \<or> list_all id_token (split_at 44 v)) (params_get ps k)"
| "accepts dp (Counter d m) ps k = pred_option (\<lambda>v. number_in (\<lambda>r. 0 < r \<and> pred_option (\<lambda>x. r \<le> of_int x) m) (js_Number v)) (params_get ps k)"
| "accepts dp (Words m) ps k = pred_option (\<lambda>v. pred_option (\<lambda>x. trim v \<noteq> [] \<and> length (trim v) \<le> x) m) (params_get ps k)"
| "accepts dp Moment ps k = (custom_range ps \<longrightarrow> truthy (params_get ps (js ''from'')) \<and> truthy (params_get ps (js ''to'')) \<and>
     parsed_after dp (the (params_get ps (js ''to''))) (the (params_get ps (js ''from''))))"

fun shown_value :: "page_field \<Rightarrow> search_params \<Rightarrow> jsstring \<Rightarrow> query_value option" where
  "shown_value (Choice vs d) ps k = map_option QText (case params_get ps k of Some v \<Rightarrow> Some v | None \<Rightarrow> d)"
| "shown_value Identifier ps k = map_option (\<lambda>v. QNumber (js_Number v)) (params_get ps k)"
| "shown_value Identifiers ps k =
     (let ids = parseEndpointIds (params_get ps k) in if ids = [] then None else Some (QNumbers (map (\<lambda>i. Num (of_int i)) ids)))"
| "shown_value (Counter d m) ps k = Some (QNumber (case params_get ps k of Some v \<Rightarrow> js_Number v | None \<Rightarrow> Num (of_int d)))"
| "shown_value (Words m) ps k =
     (case params_get ps k of Some v \<Rightarrow> if trim v = [] then None else Some (QText (trim v)) | None \<Rightarrow> None)"
| "shown_value Moment ps k = (if custom_range ps then map_option QText (params_get ps k) else None)"

definition time_fields :: "(string \<times> page_field) list" where
  "time_fields = [(''timePreset'', Choice preset_names (Some (js ''LATEST_24H''))), (''from'', Moment), (''to'', Moment)]"

definition common_fields :: "(string \<times> page_field) list" where
  "common_fields = [(''page'', Counter 1 None), (''size'', Counter 50 (Some 200)), (''sortOrder'', Choice SORT_ORDERS (Some (js ''desc'')))]"

fun page_fields :: "page_name \<Rightarrow> (string \<times> page_field) list" where
  "page_fields EventsPage = time_fields @ common_fields @
     [(''eventType'', Choice EVENT_TYPES None), (''endpointId'', Identifier)] @ map (\<lambda>k. (k, Words None)) DETAIL_FILTERS"
| "page_fields AlertsPage = time_fields @ common_fields @
     [(''sortBy'', Choice ALERT_SORT_FIELDS (Some (js ''priority''))), (''status'', Choice ALERT_STATUSES None),
      (''severity'', Choice SEVERITIES None), (''endpointId'', Identifier), (''ruleCode'', Words None)]"
| "page_fields IncidentsPage = time_fields @ common_fields @
     [(''status'', Choice INCIDENT_STATUSES None), (''severity'', Choice SEVERITIES None), (''endpointId'', Identifier)]"
| "page_fields EndpointsPage = common_fields @
     [(''sortBy'', Choice ENDPOINT_SORT_FIELDS (Some (js ''riskScore''))), (''q'', Words (Some 128)),
      (''status'', Choice ENDPOINT_STATUSES None), (''osType'', Choice OS_TYPES None),
      (''riskLevel'', Choice ENDPOINT_RISK_LEVELS None), (''endpointIds'', Identifiers)]"

fun page_invalid :: "date_parser \<Rightarrow> page_name \<Rightarrow> search_params \<Rightarrow> bool" where
  "page_invalid dp EventsPage ps = events_invalid dp ps"
| "page_invalid dp AlertsPage ps = alerts_invalid dp ps"
| "page_invalid dp IncidentsPage ps = incidents_invalid dp ps"
| "page_invalid dp EndpointsPage ps = endpoints_invalid ps"

fun page_query :: "date_parser \<Rightarrow> page_name \<Rightarrow> search_params \<Rightarrow> query_record" where
  "page_query dp EventsPage ps = events_query dp ps"
| "page_query dp AlertsPage ps = alerts_query dp ps"
| "page_query dp IncidentsPage ps = incidents_query dp ps"
| "page_query dp EndpointsPage ps = endpoints_query ps"

section \<open>Members of a query\<close>

lemma lookup_optional:
  "map_of (optional_member k v) j = (if j = js k then case v of Some s \<Rightarrow> if s = [] then None else Some (QText s) | None \<Rightarrow> None else None)"
  "map_of (optional_id k w) j = (if j = js k then case w of Some i \<Rightarrow> if i = 0 then None else Some (QNumber (Num (of_int i))) | None \<Rightarrow> None else None)"
  by (simp_all add: optional_member_def optional_id_def split: option.split)

lemma lookup_trimmed:
  "map_of (trimmed_member ps k) j = (if j = js k then shown_value (Words None) ps (js k) else None)"
  by (simp add: trimmed_member_def lookup_optional stringParam_def trim_def split: option.split)

lemma shown_words: "shown_value (Words (Some m)) ps k = shown_value (Words None) ps k"
  by simp

lemma lookup_ids: "map_of (id_list_member (parseEndpointIds (Some (stringParam ps (js ''endpointIds'') [])))) j =
    (if j = js ''endpointIds'' then shown_value Identifiers ps (js ''endpointIds'') else None)"
  by (simp add: id_list_member_def stringParam_def parseEndpointIds_def Let_def trim_def split: option.split)

lemma lookup_choice:
  assumes "\<not> hasInvalidEnum ps (js k) vs" "[] \<notin> set vs"
  shows "map_of (optional_member k (choice ps k vs)) j = (if j = js k then shown_value (Choice vs None) ps (js k) else None)"
  using assms by (auto simp: lookup_optional choice_def allowedValue_def hasInvalidEnum_def split: option.splits)

lemma sent_default:
  "\<not> hasInvalidEnum ps (js k) vs \<Longrightarrow> Some (QText (or_default (choice ps k vs) d)) = shown_value (Choice vs (Some d)) ps (js k)"
  by (auto simp: or_default_def choice_def allowedValue_def hasInvalidEnum_def split: option.splits)

lemma read_number:
  assumes "number_in P (js_Number v)" "\<And>r. P r \<Longrightarrow> 0 < r"
  obtains i where "0 < i" "positiveInteger (Some v) = Some i" "js_Number v = Num (of_int i)" "P (of_int i)"
  using assms by (auto simp: number_in_def positiveInteger_def is_integer_def split: jsnum.splits if_splits)
    (metis Ints_cases floor_of_int of_int_0_less_iff)

lemma lookup_id:
  assumes "\<not> hasInvalidPositiveInteger ps (js k)"
  shows "map_of (optional_id k (positiveInteger (params_get ps (js k)))) j = (if j = js k then shown_value Identifier ps (js k) else None)"
proof (cases "params_get ps (js k)")
  case None
  then show ?thesis by (simp add: lookup_optional positiveInteger_def)
next
  case (Some v)
  then have "number_in (\<lambda>r. 0 < r) (js_Number v)" using assms by (simp add: hasInvalidPositiveInteger_def)
  then obtain i where "0 < i" "positiveInteger (Some v) = Some i" "js_Number v = Num (of_int i)" by (rule read_number)
  then show ?thesis using Some by (simp add: lookup_optional)
qed

lemma sent_counter:
  assumes "pred_option (\<lambda>v. number_in P (js_Number v)) (params_get ps (js k))" "\<And>r. P r \<Longrightarrow> 0 < r"
  shows "Some (QNumber (Num (of_int (numberParam ps (js k) d)))) = shown_value (Counter d m) ps (js k)"
proof (cases "params_get ps (js k)")
  case (Some v)
  then have "number_in P (js_Number v)" using assms(1) by simp
  then obtain i where "positiveInteger (Some v) = Some i" "js_Number v = Num (of_int i)" using assms(2) by (rule read_number)
  then show ?thesis using Some by (simp add: numberParam_alt)
qed (simp add: numberParam_alt positiveInteger_def)

lemma preset_names_read:
  assumes "params_get ps (js ''timePreset'') = Some v" "v \<in> set preset_names"
  shows "preset_name (timePreset ps) = v" "timePreset ps = CUSTOM \<longleftrightarrow> v = js ''CUSTOM''"
  using assms by (auto simp: preset_names_def TIME_PRESETS_def timePreset_def)

lemma custom_iff: "timePreset ps = CUSTOM \<longleftrightarrow> custom_range ps"
  by (auto simp: custom_range_def timePreset_def split: option.splits if_splits)

lemma valid_time_iff:
  "tf_valid (readTimeFilter dp ps) \<longleftrightarrow> accepts dp (Choice preset_names d) ps (js ''timePreset'') \<and> accepts dp Moment ps (js k)"
  by (auto simp: readTimeFilter_def Let_def custom_iff split: option.splits)

lemma lookup_time:
  assumes "tf_valid (readTimeFilter dp ps)"
  shows "map_of (time_query (readTimeFilter dp ps)) j =
    (if j = js ''timePreset'' then shown_value (Choice preset_names (Some (js ''LATEST_24H''))) ps j
     else if j = js ''from'' \<or> j = js ''to'' then shown_value Moment ps j else None)"
proof -
  let ?q = "tf_query (readTimeFilter dp ps)"
  have v: "pred_option (\<lambda>v. v \<in> set preset_names) (params_get ps (js ''timePreset''))"
    and c: "custom_range ps \<Longrightarrow> truthy (params_get ps (js ''from'')) \<and> truthy (params_get ps (js ''to''))"
    using assms by (auto simp: readTimeFilter_def Let_def custom_iff split: option.splits)
  have "fst ?q = timePreset ps" by (simp add: readTimeFilter_def Let_def)
  moreover have "Some (QText (preset_name (timePreset ps))) = shown_value (Choice preset_names (Some (js ''LATEST_24H''))) ps (js ''timePreset'')"
    using v preset_names_read(1) [of ps] by (cases "params_get ps (js ''timePreset'')") (simp_all add: timePreset_def)
  moreover have "snd ?q = (if custom_range ps then Some (the (params_get ps (js ''from'')), the (params_get ps (js ''to''))) else None)"
    using c by (auto simp: readTimeFilter_def Let_def custom_iff)
  ultimately show ?thesis using c by (auto simp: time_query_def truthy_def)
qed

lemma valid_paging_iff:
  "\<not> hasInvalidPagination ps \<longleftrightarrow> accepts dp (Counter d None) ps (js ''page'') \<and> accepts dp (Counter e (Some 200)) ps (js ''size'')"
proof -
  have "0 < r \<longleftrightarrow> 1 \<le> r" if "of_int \<lfloor>r\<rfloor> = r" for r :: rat
    by (subst (1 2) that [symmetric]) (simp only: of_int_0_less_iff of_int_1_le_iff int_one_le_iff_zero_less)
  then have "number_in (\<lambda>r. 1 \<le> r \<and> r \<le> 200) n = number_in (\<lambda>r. 0 < r \<and> r \<le> 200) n" for n
    by (cases n) (auto simp: number_in_def is_integer_def)
  then show ?thesis by (auto simp: hasInvalidPagination_def hasInvalidPositiveInteger_def split: option.splits)
qed

lemma valid_enum_iff: "\<not> hasInvalidEnum ps (js k) vs \<longleftrightarrow> accepts dp (Choice vs d) ps (js k)"
  by (auto simp: hasInvalidEnum_def split: option.splits)

lemma valid_id_iff: "\<not> hasInvalidPositiveInteger ps (js k) \<longleftrightarrow> accepts dp Identifier ps (js k)"
  by (auto simp: hasInvalidPositiveInteger_def split: option.splits)

lemma valid_text_iff: "\<not> hasInvalidText ps (js k) m \<longleftrightarrow> accepts dp (Words (Some m)) ps (js k)"
  by (auto simp: hasInvalidText_def Suc_le_eq not_less split: option.splits)

lemma valid_ids_iff: "\<not> invalidEndpointIds (stringParam ps (js k) []) \<longleftrightarrow> accepts dp Identifiers ps (js k)"
  by (auto simp: invalidEndpointIds_def stringParam_def list_all_iff split: option.splits)

lemma any_words: "accepts dp (Words None) ps k"
  by (simp add: option.pred_set)

lemma lookup_paging:
  assumes "\<not> hasInvalidPagination ps"
  shows "map_of (paging ps) j = (if j = js ''page'' then shown_value (Counter 1 None) ps j
    else if j = js ''size'' then shown_value (Counter 50 (Some 200)) ps j else None)"
proof -
  have a: "accepts undefined (Counter 1 None) ps (js ''page'')" "accepts undefined (Counter 50 (Some 200)) ps (js ''size'')"
    using assms valid_paging_iff by blast+
  show ?thesis
    using sent_counter [of "\<lambda>r. 0 < r" ps "''page''" 1 None] sent_counter [of "\<lambda>r. 0 < r \<and> r \<le> 200" ps "''size''" 50 "Some 200"] a
    by (simp add: paging_def)
qed

section \<open>The contract of a list page\<close>

locale list_page =
  fixes dp :: date_parser
    and fields_of :: "(string \<times> page_field) list"
    and invalid :: "search_params \<Rightarrow> bool"
    and query :: "search_params \<Rightarrow> query_record"
  assumes valid_iff: "\<not> invalid ps \<longleftrightarrow> list_all (\<lambda>(k, f). accepts dp f ps (js k)) fields_of"
    and sent: "\<not> invalid ps \<Longrightarrow> (k, f) \<in> set fields_of \<Longrightarrow> map_of (query ps) (js k) = shown_value f ps (js k)"
    and keys: "set (map fst (query ps)) \<subseteq> js ` set (map fst fields_of)"
    and query_distinct: "distinct (map fst (query ps))"
    and fields_distinct: "distinct (map fst fields_of)"
begin

lemma request_is_shown:
  assumes "\<not> invalid ps"
  shows "map_of (query ps) key = (case List.find (\<lambda>(k, f). js k = key) fields_of of Some (k, f) \<Rightarrow> shown_value f ps key | None \<Rightarrow> None)"
proof (cases "List.find (\<lambda>(k, f). js k = key) fields_of")
  case None
  then have "js k \<noteq> key" if "k \<in> set (map fst fields_of)" for k using that by (auto simp: find_None_iff)
  then have "key \<notin> set (map fst (query ps))" using keys [of ps] by (metis imageE subsetD)
  then have "map_of (query ps) key = None" by (simp only: map_of_eq_None_iff set_map not_False_eq_True)
  then show ?thesis using None by simp
next
  case (Some kf)
  then show ?thesis using sent [OF assms] by (auto dest!: find_SomeD split: prod.splits)
qed

text \<open>A change of the address keeps it acceptable when every field keeps its value, loses it or gets an acceptable one.\<close>

lemma change_keeps_valid:
  assumes "\<not> invalid ps"
    and "\<And>k f. (k, f) \<in> set fields_of \<Longrightarrow> params_get ps' (js k) = params_get ps (js k) \<or> params_get ps' (js k) = None \<or> accepts dp f ps' (js k)"
    and "(\<forall>k\<in>{''timePreset'', ''from'', ''to''}. params_get ps' (js k) = params_get ps (js k)) \<or> \<not> custom_range ps'"
  shows "\<not> invalid ps'"
proof -
  have "accepts dp f ps' (js k)" if kf: "(k, f) \<in> set fields_of" for k f
  proof (rule ccontr)
    assume n: "\<not> accepts dp f ps' (js k)"
    have old: "accepts dp f ps (js k)" using assms(1) kf by (auto simp: valid_iff list_all_iff)
    from n assms(2) [OF kf] consider "params_get ps' (js k) = params_get ps (js k)" | "params_get ps' (js k) = None" by auto
    then show False
      using n old assms(3) by cases (cases f; auto simp: custom_range_def)+
  qed
  then show ?thesis by (auto simp: valid_iff list_all_iff)
qed

end

lemma valid_time:
  "tf_valid (readTimeFilter dp ps) \<longleftrightarrow> \<not> hasInvalidEnum ps (js ''timePreset'') preset_names \<and> accepts dp Moment ps (js ''from'')"
  unfolding valid_time_iff [where k = "''from''" and d = None] valid_enum_iff [of _ _ _ dp None] ..

lemma moment_key: "accepts dp Moment ps (js ''to'') \<longleftrightarrow> accepts dp Moment ps (js ''from'')"
  by simp

lemmas accepts_checks = valid_enum_iff [symmetric] valid_id_iff [symmetric] valid_text_iff [symmetric] valid_ids_iff [symmetric]
  any_words moment_key

lemmas page_checks = events_invalid_def alerts_invalid_def incidents_invalid_def endpoints_invalid_def valid_time

lemma page_accepts:
  "\<not> page_invalid dp pg ps \<longleftrightarrow> list_all (\<lambda>(k, f). accepts dp f ps (js k)) (page_fields pg)"
proof -
  have p: "hasInvalidPagination ps \<longleftrightarrow> \<not> (accepts dp (Counter 1 None) ps (js ''page'') \<and> accepts dp (Counter 50 (Some 200)) ps (js ''size''))"
    using valid_paging_iff [of ps dp 1 50] by blast
  show ?thesis
    by (cases pg; simp add: page_checks p accepts_checks time_fields_def common_fields_def DETAIL_FILTERS_def del: accepts.simps; argo)
qed

lemma choices_nonempty:
  "[] \<notin> set EVENT_TYPES" "[] \<notin> set ALERT_STATUSES" "[] \<notin> set SEVERITIES" "[] \<notin> set INCIDENT_STATUSES"
  "[] \<notin> set ENDPOINT_STATUSES" "[] \<notin> set OS_TYPES" "[] \<notin> set ENDPOINT_RISK_LEVELS"
  by (simp_all add: page_choices)

lemma lookup_pairs: "map_of [] j = None" "map_of ((k, v) # m) j = (if j = k then Some v else map_of m j)"
  by auto

lemma or_else_None: "or_else None v = v" "or_else v None = v" "or_else (Some w) v = Some w"
  by (simp_all add: or_else_def split: option.split)

lemma lookup_append: "map_of (xs @ ys) j = or_else (map_of xs j) (map_of ys j)"
  by (simp add: or_else_def map_add_def split: option.split)

lemmas query_lookup = or_else_None lookup_append lookup_pairs lookup_trimmed shown_words lookup_ids sort_order_def sort_by_def time_fields_def
  common_fields_def DETAIL_FILTERS_def

lemma page_sends:
  assumes "\<not> page_invalid dp pg ps"
  shows "list_all (\<lambda>(k, f). map_of (page_query dp pg ps) (js k) = shown_value f ps (js k)) (page_fields pg)"
proof (cases pg)
  case EventsPage
  have v: "tf_valid (readTimeFilter dp ps)" "\<not> hasInvalidPagination ps" "\<not> hasInvalidEnum ps (js ''eventType'') EVENT_TYPES"
    "\<not> hasInvalidEnum ps (js ''sortOrder'') SORT_ORDERS" "\<not> hasInvalidPositiveInteger ps (js ''endpointId'')"
    using assms EventsPage by (simp_all add: events_invalid_def)
  show ?thesis
    using EventsPage sent_default [OF v(4), of "js ''desc''"]
    by (simp add: events_query_def query_lookup lookup_time [OF v(1)] lookup_paging [OF v(2)]
        lookup_choice [OF v(3) choices_nonempty(1)] lookup_id [OF v(5)]
        del: shown_value.simps map_of.simps map_of_append)
next
  case AlertsPage
  have v: "tf_valid (readTimeFilter dp ps)" "\<not> hasInvalidPagination ps" "\<not> hasInvalidEnum ps (js ''status'') ALERT_STATUSES"
    "\<not> hasInvalidEnum ps (js ''severity'') SEVERITIES" "\<not> hasInvalidEnum ps (js ''sortBy'') ALERT_SORT_FIELDS"
    "\<not> hasInvalidEnum ps (js ''sortOrder'') SORT_ORDERS" "\<not> hasInvalidPositiveInteger ps (js ''endpointId'')"
    using assms AlertsPage by (simp_all add: alerts_invalid_def)
  show ?thesis
    using AlertsPage sent_default [OF v(6), of "js ''desc''"] sent_default [OF v(5), of "js ''priority''"]
    by (simp add: alerts_query_def query_lookup lookup_time [OF v(1)] lookup_paging [OF v(2)]
        lookup_choice [OF v(3) choices_nonempty(2)] lookup_choice [OF v(4) choices_nonempty(3)] lookup_id [OF v(7)]
        del: shown_value.simps map_of.simps map_of_append)
next
  case IncidentsPage
  have v: "tf_valid (readTimeFilter dp ps)" "\<not> hasInvalidPagination ps" "\<not> hasInvalidEnum ps (js ''status'') INCIDENT_STATUSES"
    "\<not> hasInvalidEnum ps (js ''severity'') SEVERITIES" "\<not> hasInvalidEnum ps (js ''sortOrder'') SORT_ORDERS"
    "\<not> hasInvalidPositiveInteger ps (js ''endpointId'')"
    using assms IncidentsPage by (simp_all add: incidents_invalid_def)
  show ?thesis
    using IncidentsPage sent_default [OF v(5), of "js ''desc''"]
    by (simp add: incidents_query_def query_lookup lookup_time [OF v(1)] lookup_paging [OF v(2)]
        lookup_choice [OF v(3) choices_nonempty(4)] lookup_choice [OF v(4) choices_nonempty(3)] lookup_id [OF v(6)]
        del: shown_value.simps map_of.simps map_of_append)
next
  case EndpointsPage
  have v: "\<not> hasInvalidPagination ps" "\<not> hasInvalidEnum ps (js ''status'') ENDPOINT_STATUSES" "\<not> hasInvalidEnum ps (js ''osType'') OS_TYPES"
    "\<not> hasInvalidEnum ps (js ''riskLevel'') ENDPOINT_RISK_LEVELS" "\<not> hasInvalidEnum ps (js ''sortBy'') ENDPOINT_SORT_FIELDS"
    "\<not> hasInvalidEnum ps (js ''sortOrder'') SORT_ORDERS"
    using assms EndpointsPage by (simp_all add: endpoints_invalid_def)
  show ?thesis
    using EndpointsPage sent_default [OF v(6), of "js ''desc''"] sent_default [OF v(5), of "js ''riskScore''"]
    by (simp add: endpoints_query_def query_lookup lookup_paging [OF v(1)] lookup_choice [OF v(2) choices_nonempty(5)]
        lookup_choice [OF v(3) choices_nonempty(6)] lookup_choice [OF v(4) choices_nonempty(7)]
        del: shown_value.simps map_of.simps map_of_append)
qed

lemma page_sends_field:
  "\<not> page_invalid dp pg ps \<Longrightarrow> (k, f) \<in> set (page_fields pg) \<Longrightarrow> map_of (page_query dp pg ps) (js k) = shown_value f ps (js k)"
  using page_sends [of dp pg ps] by (auto simp: list_all_iff)

text \<open>The keys of each query are a selection of the fields, in an order of their own.\<close>

lemma member_keys:
  "subseq (map fst (trimmed_member ps k)) [js k]" "subseq (map fst (id_list_member ids)) [js ''endpointIds'']"
  "subseq (map fst (paging ps)) (map js [''page'', ''size''])"
  by (simp_all add: trimmed_member_def optional_keys_subseq id_list_member_def paging_def)

fun page_keys :: "page_name \<Rightarrow> jsstring list" where
  "page_keys EventsPage = map js [''timePreset'', ''from'', ''to''] @ map js [''page'', ''size''] @ [js ''sortOrder''] @
     [js ''eventType''] @ [js ''endpointId''] @ [js ''processName''] @ [js ''filePath''] @ [js ''domain''] @ [js ''remoteIp''] @
     [js ''dnsQuery''] @ [js ''l7Protocol'']"
| "page_keys AlertsPage = map js [''timePreset'', ''from'', ''to''] @ map js [''page'', ''size''] @ [js ''sortBy'', js ''sortOrder''] @
     [js ''status''] @ [js ''severity''] @ [js ''endpointId''] @ [js ''ruleCode'']"
| "page_keys IncidentsPage = map js [''timePreset'', ''from'', ''to''] @ map js [''page'', ''size''] @ [js ''sortOrder''] @
     [js ''status''] @ [js ''severity''] @ [js ''endpointId'']"
| "page_keys EndpointsPage = map js [''page'', ''size''] @ [js ''sortBy'', js ''sortOrder''] @ [js ''q''] @ [js ''status''] @
     [js ''osType''] @ [js ''riskLevel''] @ [js ''endpointIds'']"

lemma page_query_keys: "subseq (map fst (page_query dp pg ps)) (page_keys pg)"
proof (cases pg)
  case EventsPage
  show ?thesis
    unfolding EventsPage page_query.simps page_keys.simps events_query_def DETAIL_FILTERS_def list.map concat.simps append_Nil2 map_append
    by (intro keys_append optional_keys_subseq time_query_keys_subseq [simplified] member_keys [simplified]) simp_all
next
  case AlertsPage
  show ?thesis
    unfolding AlertsPage page_query.simps page_keys.simps alerts_query_def map_append
    by (intro keys_append optional_keys_subseq time_query_keys_subseq member_keys) simp_all
next
  case IncidentsPage
  show ?thesis
    unfolding IncidentsPage page_query.simps page_keys.simps incidents_query_def map_append
    by (intro keys_append optional_keys_subseq time_query_keys_subseq member_keys) simp_all
next
  case EndpointsPage
  show ?thesis
    unfolding EndpointsPage page_query.simps page_keys.simps endpoints_query_def map_append
    by (intro keys_append optional_keys_subseq member_keys) simp_all
qed

interpretation list_pages: list_page dp "page_fields pg" "page_invalid dp pg" "page_query dp pg"
proof
  fix ps
  have k: "distinct (page_keys pg)" "set (page_keys pg) \<subseteq> js ` set (map fst (page_fields pg))"
    by (cases pg; simp add: time_fields_def common_fields_def DETAIL_FILTERS_def)+
  show "distinct (map fst (page_query dp pg ps))" using subseq_distinct [OF page_query_keys] k(1) .
  show "set (map fst (page_query dp pg ps)) \<subseteq> js ` set (map fst (page_fields pg))"
    using k(2) list_emb_set [OF page_query_keys] by blast
  show "distinct (map fst (page_fields pg))"
    by (cases pg) (simp_all add: time_fields_def common_fields_def DETAIL_FILTERS_def)
qed (fact page_accepts page_sends_field)+

section \<open>Controls keep the address acceptable\<close>

text \<open>
  The controls a page has.  A page number is one the address can hold; the custom range is left out, since it is
  incomplete until both moments are set, and so are the buttons that remove one of the two.
\<close>

fun offered :: "page_name \<Rightarrow> page_control \<Rightarrow> bool" where
  "offered pg (PickOption k v) \<longleftrightarrow> k \<noteq> ''timePreset'' \<and>
     (case map_of (page_fields pg) k of Some (Choice vs d) \<Rightarrow> v \<in> set vs \<or> d = None \<and> v = [] | _ \<Rightarrow> False)"
| "offered pg (PickPreset v) \<longleftrightarrow> pg \<noteq> EndpointsPage \<and> v \<in> set preset_names \<and> v \<noteq> js ''CUSTOM''"
| "offered pg (SortColumn c) \<longleftrightarrow>
     pg = AlertsPage \<and> c \<in> set (map js [''severity'', ''riskScore'', ''status'', ''detectedAt'']) \<or>
     pg = EndpointsPage \<and> c \<in> set (map js [''lastSeenAt'', ''riskScore''])"
| "offered pg ToggleOrder \<longleftrightarrow> pg = EventsPage \<or> pg = IncidentsPage"
| "offered pg (RemoveFilter k) \<longleftrightarrow> k \<in> set (map fst (page_fields pg)) - {''page'', ''size'', ''from'', ''to''}"
| "offered pg ClearFilters \<longleftrightarrow> True"
| "offered pg Latest7Days \<longleftrightarrow> pg \<noteq> EndpointsPage"
| "offered pg (PickSize v) \<longleftrightarrow> v \<in> set (map js [''25'', ''50'', ''100''])"
| "offered pg (TurnTo n) \<longleftrightarrow> n < 2 ^ 53"

lemma field_unique: "(k, f) \<in> set (page_fields pg) \<longleftrightarrow> map_of (page_fields pg) k = Some f"
  using list_pages.fields_distinct by (metis map_of_eq_Some_iff)

lemma common_kinds:
  "map_of (page_fields pg) ''page'' = Some (Counter 1 None)" "map_of (page_fields pg) ''size'' = Some (Counter 50 (Some 200))"
  "map_of (page_fields pg) ''sortOrder'' = Some (Choice SORT_ORDERS (Some (js ''desc'')))"
  by (cases pg; simp add: time_fields_def common_fields_def)+

lemma preset_kind: "pg \<noteq> EndpointsPage \<Longrightarrow> map_of (page_fields pg) ''timePreset'' = Some (Choice preset_names (Some (js ''LATEST_24H'')))"
  by (cases pg) (simp_all add: time_fields_def)

lemma get_Nil: "params_get [] j = None"
  by (simp add: params_get_def)

lemma sizes_read: "js_Number (js ''25'') = Num 25" "js_Number (js ''50'') = Num 50" "js_Number (js ''100'') = Num 100"
  using js_Number_digits [of "js ''25''"] js_Number_digits [of "js ''50''"] js_Number_digits [of "js ''100''"]
  by (simp_all add: js_def is_digit_def decimal_value_def digits_value_def)

lemma updateSort_get:
  "params_get (updateSort columns d ps x) j =
    (if j = js ''page'' then None
     else if j = js ''sortBy'' then if x = [] then None else Some x
     else if j = js ''sortOrder''
       then Some (if sort_by ps columns d = x \<and> sort_order ps = js ''desc'' then js ''asc'' else js ''desc'')
     else params_get ps j)"
  by (simp add: updateSort_def updateParams_get written_def)

lemma page_number_read:
  assumes "1 < n" "n < 2 ^ 53"
  shows "number_in (\<lambda>r. 0 < r) (js_Number (js_String (Num (of_int n))))"
  using assms js_Number_show_int [of n] js_String_int [of n] by (simp add: number_in_def is_integer_def)

lemma step_keeps_valid:
  assumes "\<not> page_invalid dp pg ps" "offered pg c"
  shows "\<not> page_invalid dp pg (page_step pg ps c)"
proof (rule list_pages.change_keeps_valid [OF assms(1)])
  fix k f
  assume "(k, f) \<in> set (page_fields pg)"
  then have f: "map_of (page_fields pg) k = Some f" by (simp add: field_unique)
  show "params_get (page_step pg ps c) (js k) = params_get ps (js k) \<or> params_get (page_step pg ps c) (js k) = None \<or>
      accepts dp f (page_step pg ps c) (js k)"
  proof (cases c)
    case (PickOption k' v)
    then show ?thesis using assms(2) f
      by (auto simp: set_field_def updateParams_get written_def split: option.splits page_field.splits)
  next
    case (PickSize v)
    then show ?thesis using assms(2) f common_kinds(2) [of pg]
      by (auto simp: updateListParams_def get_delete get_set sizes_read number_in_def is_integer_def)
  next
    case (TurnTo n)
    then show ?thesis using assms(2) f common_kinds(1) [of pg]
      by (auto simp: turn_to_def get_delete get_set page_number_read)
  next
    case (SortColumn x)
    have "accepts dp f (page_step pg ps c) (js k)" if "k = ''sortBy''"
      using that assms(2) f SortColumn
      by (auto simp: time_fields_def common_fields_def updateSort_get page_choices)
    moreover have "accepts dp f (page_step pg ps c) (js k)" if "k = ''sortOrder''"
      using that assms(2) f SortColumn common_kinds(3) [of pg] by (auto simp: updateSort_get SORT_ORDERS_def)
    ultimately show ?thesis
      using SortColumn by (cases pg) (auto simp: updateSort_get)
  next
    case ToggleOrder
    then show ?thesis using f common_kinds(3) [of pg]
      by (auto simp: toggleOrder_def updateParams_get written_def SORT_ORDERS_def)
  next
    case (PickPreset v)
    then show ?thesis using assms(2) f preset_kind [of pg]
      by (auto simp: select_preset_def updateParams_get written_def)
  next
    case Latest7Days
    then show ?thesis using assms(2) f preset_kind [of pg]
      by (auto simp: latest_7_days_def updateParams_get written_def preset_names_def TIME_PRESETS_def)
  qed (auto simp: removeListFilter_get get_Nil)
next
  show "(\<forall>k\<in>{''timePreset'', ''from'', ''to''}. params_get (page_step pg ps c) (js k) = params_get ps (js k)) \<or> \<not> custom_range (page_step pg ps c)"
  proof (cases c)
    case (PickOption k v)
    then have "k \<noteq> ''timePreset''" "k \<noteq> ''from''" "k \<noteq> ''to''"
      using assms(2) by (cases pg; auto simp: time_fields_def common_fields_def DETAIL_FILTERS_def)+
    then show ?thesis using PickOption by (simp add: set_field_def updateParams_get)
  next
    case (PickPreset v)
    then show ?thesis using assms(2) by (auto simp: select_preset_def updateParams_get written_def custom_range_def)
  next
    case (SortColumn x)
    then show ?thesis by (cases pg) (simp_all add: updateSort_get)
  next
    case (RemoveFilter k)
    then show ?thesis using assms(2) by (cases "k = ''timePreset''") (auto simp: removeListFilter_get custom_range_def)
  qed (simp_all add: toggleOrder_def latest_7_days_def updateParams_get updateListParams_def turn_to_def get_delete get_set get_Nil
      written_def custom_range_def)
qed

lemma run_keeps_valid:
  "\<not> page_invalid dp pg ps \<Longrightarrow> list_all (offered pg) cs \<Longrightarrow> \<not> page_invalid dp pg (foldl (page_step pg) ps cs)"
  by (induction cs arbitrary: ps) (simp_all add: step_keeps_valid)

lemma empty_address_valid: "\<not> page_invalid dp pg []"
proof -
  have "accepts dp f [] k" if "f = Moment \<longrightarrow> True" for f k
    by (cases f) (simp_all add: get_Nil custom_range_def)
  then show ?thesis by (simp add: page_accepts list_all_iff)
qed

text \<open>A header that is clicked sorts by its column, downwards first, and starts at the first page.\<close>

definition sorted_by :: "page_name \<Rightarrow> search_params \<Rightarrow> jsstring \<Rightarrow> sort_state" where
  "sorted_by pg ps c =
     (case pg of AlertsPage \<Rightarrow> SortableHeader_state (sort_by ps ALERT_SORT_FIELDS ''priority'' = c) (sort_order ps)
      | EndpointsPage \<Rightarrow> SortableHeader_state (sort_by ps ENDPOINT_SORT_FIELDS ''riskScore'' = c) (sort_order ps)
      | _ \<Rightarrow> SortableHeader_state True (sort_order ps))"

lemma order_after: "params_get ps (js ''sortOrder'') = Some v \<Longrightarrow> v \<in> set SORT_ORDERS \<Longrightarrow> sort_order ps = v"
  by (simp add: sort_order_def choice_def allowedValue_def or_default_def)

lemma column_after: "params_get ps (js ''sortBy'') = Some c \<Longrightarrow> c \<in> set columns \<Longrightarrow> sort_by ps columns d = c"
  by (simp add: sort_by_def choice_def allowedValue_def or_default_def)

lemma clicked_column:
  assumes "c \<in> set columns" "c \<noteq> []"
  shows "sort_by (updateSort columns d ps c) columns d = c"
    "sort_order (updateSort columns d ps c) = (if sort_by ps columns d = c \<and> sort_order ps = js ''desc'' then js ''asc'' else js ''desc'')"
  using assms column_after [of "updateSort columns d ps c" c columns d] order_after [of "updateSort columns d ps c"]
  by (simp_all add: updateSort_get SORT_ORDERS_def)

lemma header_click:
  assumes "offered pg (SortColumn c)"
  shows "sorted_by pg (page_step pg ps (SortColumn c)) c = (if sorted_by pg ps c = Descending then Ascending else Descending)"
    and "params_get (page_step pg ps (SortColumn c)) (js ''page'') = None"
proof -
  have "c \<in> set ALERT_SORT_FIELDS" "c \<noteq> []" if "pg = AlertsPage" using that assms by (auto simp: page_choices)
  moreover have "c \<in> set ENDPOINT_SORT_FIELDS" "c \<noteq> []" if "pg = EndpointsPage" using that assms by (auto simp: page_choices)
  moreover have "pg = AlertsPage \<or> pg = EndpointsPage" using assms by auto
  ultimately show "sorted_by pg (page_step pg ps (SortColumn c)) c = (if sorted_by pg ps c = Descending then Ascending else Descending)"
    by (elim disjE) (simp_all add: sorted_by_def SortableHeader_state_def clicked_column)
  show "params_get (page_step pg ps (SortColumn c)) (js ''page'') = None"
    using \<open>pg = AlertsPage \<or> pg = EndpointsPage\<close> by (elim disjE) (simp_all add: updateSort_get)
qed

section \<open>What the API receives\<close>

lemma well_formed_prefix: "well_formed (s @ w) \<Longrightarrow> \<forall>c\<in>set w. \<not> is_high c \<and> \<not> is_low c \<Longrightarrow> well_formed s"
proof (induction s rule: well_formed.induct)
  case (2 c)
  then show ?case by (cases w) (auto split: if_splits)
qed (auto split: if_splits)

lemma well_formed_dropWhile: "well_formed s \<Longrightarrow> (\<And>c. P c \<Longrightarrow> \<not> is_high c \<and> \<not> is_low c) \<Longrightarrow> well_formed (dropWhile P s)"
  by (induction s rule: well_formed.induct) (auto split: if_splits)

lemma white_space_units: "is_white_space c \<Longrightarrow> \<not> is_high c \<and> \<not> is_low c"
  by (auto simp: is_white_space_def is_high_def is_low_def)

lemma text_units_trim:
  assumes "text_units s"
  shows "text_units (trim s)"
proof -
  let ?d = "dropWhile is_white_space s"
  have "trim s @ rev (takeWhile is_white_space (rev ?d)) = ?d"
    by (metis rev_append rev_rev_ident takeWhile_dropWhile_id trim_def)
  moreover have "well_formed ?d" using assms white_space_units by (intro well_formed_dropWhile) (auto simp: text_units_def)
  moreover have "\<forall>c\<in>set (rev (takeWhile is_white_space (rev ?d))). \<not> is_high c \<and> \<not> is_low c"
    using white_space_units by (auto dest!: set_takeWhileD)
  ultimately have "well_formed (trim s)" using well_formed_prefix by metis
  moreover have "set (trim s) \<subseteq> set s" by (auto simp: trim_def dest!: set_dropWhileD)
  ultimately show ?thesis using assms by (auto simp: text_units_def)
qed

lemma ascii_digits: "c \<in> set (show_nat n) \<Longrightarrow> c < 128"
  using show_nat_digits [of c n] by (simp add: is_digit_def)

lemma show_positive_ascii: "c \<in> set (show_positive a) \<Longrightarrow> c < 128"
proof -
  have z: "set (strip_zeros s) \<subseteq> set s" for s by (auto simp: strip_zeros_def dest!: set_dropWhileD)
  assume "c \<in> set (show_positive a)"
  then show ?thesis
    using z ascii_digits
    by (auto simp: show_positive_def Let_def js_def dest!: in_set_takeD in_set_dropD split: prod.splits if_splits)
qed

lemma text_units_number [simp]: "text_units (js_String n)"
proof (cases n)
  case (Num r)
  then show ?thesis
    using show_positive_ascii text_units_show_int by (auto simp: js_String_def intro!: text_units_ascii)
qed (simp_all add: js_String_def)

text \<open>The values of a parameter in the query string of a request, and the texts of a member.\<close>

definition received :: "query_record \<Rightarrow> jsstring \<Rightarrow> jsstring list" where
  "received q k = map snd (filter (\<lambda>(n, v). n = k) (params_of_string (buildQuery q)))"

definition texts :: "query_value option \<Rightarrow> jsstring list" where
  "texts v = (case v of None \<Rightarrow> [] | Some w \<Rightarrow> map snd (expand_query ([], w)))"

lemma expand_texts: "map snd (filter (\<lambda>(n, v). n = k) (expand_query (j, w))) = (if j = k then texts (Some w) else [])"
  by (auto simp: texts_def expand_query_def filter_map comp_def split: query_value.split)

lemma received_lookup:
  assumes "distinct (map fst q)" "params_ok (concat (map expand_query q))"
  shows "received q k = texts (map_of q k)"
  unfolding received_def buildQuery_read [OF assms]
  using assms(1)
proof (induction q)
  case (Cons kv q)
  have "texts (map_of q (fst kv)) = []" using Cons.prems by (simp add: texts_def map_of_eq_None_iff [THEN iffD2])
  then show ?case using Cons expand_texts [of k "fst kv" "snd kv"] by simp
qed (simp add: texts_def)

lemma shown_units:
  assumes "params_ok ps" "map_of (page_fields pg) k = Some f" "shown_value f ps (js k) = Some v" "s \<in> set (map snd (expand_query (j, v)))"
  shows "text_units s"
proof -
  have t: "text_units x" if "params_get ps (js k) = Some x" for x using assms(1) that by (rule params_ok_get)
  have "text_units d" if "f = Choice vs (Some d)" for vs d
    using that assms(2) by (cases pg) (auto simp: time_fields_def common_fields_def DETAIL_FILTERS_def split: if_splits)
  with t assms(3,4) show ?thesis
    by (cases f) (auto simp: expand_query_def Let_def text_units_trim split: option.splits if_splits)
qed

lemma page_query_units:
  assumes "\<not> page_invalid dp pg ps" "params_ok ps"
  shows "params_ok (concat (map expand_query (page_query dp pg ps)))"
proof -
  have "text_units n \<and> text_units s" if nv: "(j, v) \<in> set (page_query dp pg ps)" and s: "(n, s) \<in> set (expand_query (j, v))" for n s j v
  proof -
    obtain k where k: "j = js k" "k \<in> set (map fst (page_fields pg))" using list_pages.keys [of dp pg ps] nv by force
    then obtain f where f: "map_of (page_fields pg) k = Some f" by (metis map_of_eq_None_iff not_Some_eq set_map)
    have "map_of (page_query dp pg ps) j = Some v" using nv list_pages.query_distinct by (metis map_of_eq_Some_iff)
    then have "shown_value f ps (js k) = Some v" using page_sends_field [OF assms(1)] f k field_unique by metis
    moreover have "n = j" using expand_query_keys [of j v] s by force
    ultimately show ?thesis using shown_units [OF assms(2) f] s k(1) by force
  qed
  then show ?thesis by (auto simp: params_ok_def)
qed

lemma page_request_received:
  assumes "\<not> page_invalid dp pg ps" "params_ok ps" "map_of (page_fields pg) k = Some f"
  shows "received (page_query dp pg ps) (js k) = texts (shown_value f ps (js k))"
  using received_lookup [OF list_pages.query_distinct page_query_units [OF assms(1,2)]] page_sends_field [OF assms(1)] assms(3)
  by (simp add: field_unique)

end
