(* ===== verification/OperationsPages.thy ===== *)
theory OperationsPages
  imports ListPages Intelligence Localization
begin

text \<open>
  What a page shows of a query (\<open>components/ui.tsx\<close>), the archive (\<open>pages/ArchivesPage.tsx\<close>) and the state of the
  pipeline (\<open>pages/OperationsPage.tsx\<close>).  The state of a query is that of the query library: the predicate
  \<open>documented_state\<close> says what its documentation promises of the flags the pages read.  The function \<open>t\<close> that gives a
  text for a key is an argument, as in the source.
\<close>

section \<open>Feedback\<close>

record query_state =
  has_data :: bool
  query_error :: "request_error option"
  is_fetching :: bool
  is_pending :: bool
  is_refetch_error :: bool

definition documented_state :: "query_state \<Rightarrow> bool" where
  "documented_state r \<longleftrightarrow> (is_pending r \<longleftrightarrow> \<not> has_data r \<and> query_error r = None) \<and>
     (is_refetch_error r \<longleftrightarrow> has_data r \<and> query_error r \<noteq> None)"

text \<open>A query that is not enabled is never fetched: it has neither data nor an error.\<close>

definition never_fetched :: query_state where
  "never_fetched = \<lparr>has_data = False, query_error = None, is_fetching = False, is_pending = True, is_refetch_error = False\<rparr>"

datatype feedback = InvalidFilterState | Skeleton | ErrorState | StaleWarning | RefetchingIndicator

definition QueryFeedback :: "bool \<Rightarrow> bool \<Rightarrow> bool \<Rightarrow> bool \<Rightarrow> bool \<Rightarrow> bool \<Rightarrow> feedback list" where
  "QueryFeedback invalid pending fetching refetchError failed hasData =
     (if invalid then [InvalidFilterState]
      else (if pending then [Skeleton] else []) @ (if failed \<and> \<not> hasData then [ErrorState] else []) @
        (if refetchError \<and> hasData then [StaleWarning] else []) @
        (if fetching \<and> hasData \<and> \<not> refetchError then [RefetchingIndicator] else []))"

text \<open>How every list page calls it, and when it shows its table.\<close>

definition page_feedback :: "bool \<Rightarrow> query_state \<Rightarrow> feedback list" where
  "page_feedback invalid r =
     QueryFeedback invalid (is_pending r \<and> \<not> invalid) (is_fetching r) (is_refetch_error r) (query_error r \<noteq> None) (has_data r)"

definition page_content :: "bool \<Rightarrow> query_state \<Rightarrow> bool" where
  "page_content invalid r \<longleftrightarrow> \<not> invalid \<and> has_data r"

definition API_ERROR_KEYS :: "(string \<times> TranslationKey) list" where
  "API_ERROR_KEYS =
     [(''VALIDATION_ERROR'', ''error.validation''), (''INVALID_TOKEN'', ''error.invalidToken''), (''FORBIDDEN'', ''error.forbidden''),
      (''NOT_FOUND'', ''error.notFound''), (''SERVICE_UNAVAILABLE'', ''error.serviceUnavailable''),
      (''ARCHIVE_NOT_READY'', ''error.archiveNotReady''), (''ROLLUP_NOT_READY'', ''error.rollupNotReady''),
      (''NETWORK_ERROR'', ''error.network''), (''INVALID_ENVELOPE'', ''error.invalidEnvelope''),
      (''DASHBOARD_LAYOUT_REVISION_CONFLICT'', ''error.dashboardRevisionConflict''),
      (''DASHBOARD_LAYOUT_NOT_FOUND'', ''error.dashboardNotFound''), (''INVALID_DASHBOARD_LAYOUT'', ''error.invalidDashboardLayout'')]"

text \<open>
  The headline of an error.  The lookup also finds members every object inherits; \<open>t\<close> has no text for those and
  throws.
\<close>

definition error_message :: "translator \<Rightarrow> UserLocale \<Rightarrow> request_error \<Rightarrow> js_error + jsstring" where
  "error_message t lang e =
     (case e of
        ApiError d \<Rightarrow>
          if lang = KO then
            (case object_member API_ERROR_KEYS (err_code d) of
               Own key \<Rightarrow> t key [] | Inherited \<Rightarrow> Inl TypeError | Absent \<Rightarrow> t ''error.dataLoad'' [])
          else Inr (err_message d)
      | Aborted \<Rightarrow> t ''error.dataLoad'' [])"

definition error_class :: "request_error \<Rightarrow> string" where
  "error_class e =
     (case e of
        ApiError d \<Rightarrow> if err_code d = js ''FORBIDDEN'' then ''forbidden''
          else if err_code d = js ''ARCHIVE_NOT_READY'' then ''archive-not-ready'' else ''error''
      | Aborted \<Rightarrow> ''error'')"

definition offers_archive :: "bool \<Rightarrow> request_error \<Rightarrow> bool" where
  "offers_archive archiveAction e \<longleftrightarrow> archiveAction \<or> error_class e = ''archive-not-ready''"

section \<open>The archive\<close>

definition archive_ids :: "jsstring \<Rightarrow> int list" where
  "archive_ids raw = set_from (List.map_filter (\<lambda>token. positiveInteger (Some (trim token))) (split_at 44 raw))"

definition endpointIdsValid :: "jsstring \<Rightarrow> bool" where
  "endpointIdsValid raw \<longleftrightarrow> raw \<noteq> [] \<and> list_all id_token (split_at 44 raw)"

record archive_scope =
  as_ids :: jsstring
  as_from :: jsstring
  as_to :: jsstring

definition archive_scope_of :: "search_params \<Rightarrow> archive_scope" where
  "archive_scope_of ps = \<lparr>as_ids = stringParam ps (js ''endpointIds'') [], as_from = stringParam ps (js ''from'') [],
     as_to = stringParam ps (js ''to'') []\<rparr>"

definition hasCriteria :: "archive_scope \<Rightarrow> bool" where
  "hasCriteria s \<longleftrightarrow> as_ids s \<noteq> [] \<or> as_from s \<noteq> [] \<or> as_to s \<noteq> []"

definition validRange :: "date_parser \<Rightarrow> jsstring \<Rightarrow> jsstring \<Rightarrow> bool" where
  "validRange dp f t \<longleftrightarrow> f \<noteq> [] \<and> t \<noteq> [] \<and>
     (case (dp f, dp t) of (Some a, Some b) \<Rightarrow> a < b \<and> b - a \<le> 31 * 86400000 | _ \<Rightarrow> False)"

definition archive_ready :: "date_parser \<Rightarrow> search_params \<Rightarrow> bool" where
  "archive_ready dp ps = (let s = archive_scope_of ps in endpointIdsValid (as_ids s) \<and> archive_ids (as_ids s) \<noteq> [] \<and>
     validRange dp (as_from s) (as_to s) \<and> \<not> hasInvalidPagination ps)"

definition archive_invalid :: "date_parser \<Rightarrow> search_params \<Rightarrow> bool" where
  "archive_invalid dp ps \<longleftrightarrow> hasCriteria (archive_scope_of ps) \<and> \<not> archive_ready dp ps"

definition archive_query :: "search_params \<Rightarrow> query_record" where
  "archive_query ps = (let s = archive_scope_of ps in
     [(js ''endpointIds'', QNumbers (map (\<lambda>i. Num (of_int i)) (archive_ids (as_ids s)))),
      (js ''from'', QText (as_from s)), (js ''to'', QText (as_to s))] @ paging ps)"

text \<open>The body of the request that starts a restore, and who may send it.\<close>

definition restore_request :: "search_params \<Rightarrow> json" where
  "restore_request ps = (let s = archive_scope_of ps in
     JObj [(js ''endpointIds'', JArr (map (\<lambda>i. JNum (Num (of_int i))) (archive_ids (as_ids s)))),
           (js ''from'', JStr (as_from s)), (js ''to'', JStr (as_to s))])"

definition writeAllowed :: "UserDto option \<Rightarrow> bool" where
  "writeAllowed user = (case user of Some u \<Rightarrow> list_ex (\<lambda>r. user_role u = JStr (role_name r) \<and> canMutate r) [ADMIN, ANALYST, VIEWER] | None \<Rightarrow> False)"

definition start_restore :: "date_parser \<Rightarrow> UserDto option \<Rightarrow> bool \<Rightarrow> search_params \<Rightarrow> api_method option" where
  "start_restore dp user pending ps =
     (if archive_ready dp ps \<and> writeAllowed user \<and> \<not> pending then Some (StartRestore (restore_request ps)) else None)"

fun lifecycleDescription :: "StorageStatus \<Rightarrow> TranslationKey" where
  "lifecycleDescription HOT = ''archive.lifecycleHot''"
| "lifecycleDescription ARCHIVED = ''archive.lifecycleArchived''"
| "lifecycleDescription RESTORE_REQUESTED = ''archive.lifecycleRequested''"
| "lifecycleDescription RESTORED = ''archive.lifecycleRestored''"
| "lifecycleDescription RESTORE_FAILED = ''archive.lifecycleFailed''"
| "lifecycleDescription EXPIRED = ''archive.lifecycleExpired''"

text \<open>The pattern \<open>YYYY-MM-DD HH:mm\<close>, a digit where there is no character.\<close>

definition DATE_TEXT :: "nat option list" where
  "DATE_TEXT = replicate 4 None @ [Some 45] @ replicate 2 None @ [Some 45] @ replicate 2 None @ [Some 32] @ replicate 2 None @
     [Some 58] @ replicate 2 None"

definition is_date_text :: "jsstring \<Rightarrow> bool" where
  "is_date_text s = list_all2 (\<lambda>p c. case p of None \<Rightarrow> is_digit c | Some d \<Rightarrow> c = d) DATE_TEXT s"

definition utcFromArchiveText :: "date_parser \<Rightarrow> (int \<Rightarrow> int) \<Rightarrow> jsstring \<Rightarrow> js_error + jsstring option" where
  "utcFromArchiveText dp offset v =
     (let s = trim v; localValue = take 10 s @ [84] @ drop 11 s
      in if s = [] \<or> \<not> is_date_text s then Inr None
         else (case dp localValue of
                 None \<Rightarrow> Inr None
               | Some time \<Rightarrow>
                   (case localDateTimeValue dp offset (iso_string time) of
                      Inl e \<Rightarrow> Inl e
                    | Inr w \<Rightarrow> if w \<noteq> localValue then Inr None else map_sum id Some (utcFromLocal dp localValue))))"

text \<open>Leaving the field: whether it is marked invalid, and what is committed if anything is.\<close>

definition commit_date :: "date_parser \<Rightarrow> (int \<Rightarrow> int) \<Rightarrow> jsstring \<Rightarrow> js_error + bool \<times> jsstring option option" where
  "commit_date dp offset v =
     (if trim v = [] then Inr (False, Some None)
      else map_sum id (\<lambda>parsed. case parsed of None \<Rightarrow> (True, None) | Some s \<Rightarrow> if s = [] then (True, None) else (False, Some (Some s)))
             (utcFromArchiveText dp offset v))"

text \<open>The text of the field for a committed time: \<open>replace\<close> changes the first T.\<close>

definition replace_first :: "nat \<Rightarrow> nat \<Rightarrow> jsstring \<Rightarrow> jsstring" where
  "replace_first a b s = takeWhile (\<lambda>c. c \<noteq> a) s @ (case dropWhile (\<lambda>c. c \<noteq> a) s of [] \<Rightarrow> [] | c # r \<Rightarrow> b # r)"

definition date_field_text :: "date_parser \<Rightarrow> (int \<Rightarrow> int) \<Rightarrow> jsstring \<Rightarrow> js_error + jsstring" where
  "date_field_text dp offset timestamp =
     (if timestamp = [] then Inr [] else map_sum id (replace_first 84 32) (localDateTimeValue dp offset timestamp))"

section \<open>Operations\<close>

definition FAILURE_STATUSES :: "jsstring list" where
  "FAILURE_STATUSES = map js [''FAILED'', ''REPLAY_PUBLISHED'', ''REPROCESSED'', ''REPROCESS_FAILED'']"

text \<open>A truth value of a query is printed as \<open>true\<close> or \<open>false\<close>; the size of a page is fixed.\<close>

definition failureQuery :: "date_parser \<Rightarrow> search_params \<Rightarrow> query_record" where
  "failureQuery dp ps = time_query (readTimeFilter dp ps) @
     [(js ''page'', QNumber (Num (of_int (numberParam ps (js ''page'') 1)))), (js ''size'', QNumber (Num 50)), (js ''sortOrder'', QText (js ''desc''))] @
     optional_member ''status'' (choice ps ''failureStatus'' FAILURE_STATUSES) @
     optional_member ''failureStage'' (params_get ps (js ''failureStage'')) @
     optional_member ''retryable'' (choice ps ''retryable'' (map js [''true'', ''false'']))"

text \<open>The three queries of the page: two of them wait for a valid range.\<close>

definition operations_feedback :: "query_state \<Rightarrow> feedback list" where
  "operations_feedback r =
     (if is_pending r then [Skeleton] else []) @ (if query_error r \<noteq> None \<and> \<not> has_data r then [ErrorState] else []) @
     (if is_refetch_error r \<and> has_data r then [StaleWarning] else [])"

definition failures_feedback :: "query_state \<Rightarrow> feedback list" where
  "failures_feedback r = (if is_pending r then [Skeleton] else []) @ (if query_error r \<noteq> None \<and> \<not> has_data r then [ErrorState] else [])"

definition partial_failure :: "query_state \<Rightarrow> query_state \<Rightarrow> TranslationKey option" where
  "partial_failure health ingest =
     (if (query_error health \<noteq> None \<and> \<not> has_data health) \<noteq> (query_error ingest \<noteq> None \<and> \<not> has_data ingest)
      then Some (if has_data health then ''operations.ingestPartial'' else ''operations.healthPartial'') else None)"

definition totalLag :: "OperationsHealthDto \<Rightarrow> int" where
  "totalLag h = foldl (\<lambda>n w. n + (case pw_lag w of Some l \<Rightarrow> l | None \<Rightarrow> 0)) 0 (oh_workers h)"

type_synonym text_for = "TranslationKey \<Rightarrow> TranslationParams \<Rightarrow> jsstring"

text \<open>What is between a lead and an end, if it is a line that is not empty: the groups of the patterns of \<open>operationsDetail\<close>.\<close>

definition one_line :: "jsstring \<Rightarrow> bool" where
  "one_line s \<longleftrightarrow> s \<noteq> [] \<and> list_all (\<lambda>c. c \<notin> {10, 13, 8232, 8233}) s"

definition between :: "string \<Rightarrow> string \<Rightarrow> jsstring \<Rightarrow> jsstring option" where
  "between lead ending s =
     (let middle = take (length s - length lead - length ending) (drop (length lead) s)
      in if s = js lead @ middle @ js ending \<and> one_line middle then Some middle else None)"

definition broker_state :: "jsstring \<Rightarrow> jsstring option" where
  "broker_state s =
     (let lead = js ''Broker group state'';
          r = drop (length lead) s; r = (if r \<noteq> [] \<and> hd r = 58 then tl r else r)
      in if startsWith s lead \<and> r \<noteq> [] \<and> hd r = 32
         then (let rest = tl r; state = (if 2 \<le> length rest \<and> last rest = 46 then butlast rest else rest)
               in if one_line state then Some state else None)
         else None)"

definition operationsDetail :: "text_for \<Rightarrow> jsstring \<Rightarrow> jsstring" where
  "operationsDetail t detail =
     (if detail = js ''The authenticated operations endpoint is responding.'' then t ''operations.backendResponding'' []
      else if detail = js ''Live dependency probe succeeded.'' then t ''operations.liveProbeSucceeded'' []
      else if detail = js ''Live dependency probe failed.'' then t ''operations.liveProbeFailedPlain'' []
      else if detail = js ''Worker probe failed.'' then t ''operations.workerProbeFailedPlain'' []
      else (case between ''Live dependency probe failed ('' '').'' detail of
              Some e \<Rightarrow> t ''operations.liveProbeFailed'' [(js ''error'', TextParam e)]
            | None \<Rightarrow>
          (case between ''Worker probe failed ('' '').'' detail of
              Some e \<Rightarrow> t ''operations.workerProbeFailed'' [(js ''error'', TextParam e)]
            | None \<Rightarrow>
          (case broker_state detail of
              Some s \<Rightarrow> t ''operations.brokerGroupState'' [(js ''state'', TextParam s)]
            | None \<Rightarrow> detail))))"

definition workerDetail :: "text_for \<Rightarrow> PipelineWorkerDto option \<Rightarrow> jsstring \<Rightarrow> jsstring" where
  "workerDetail t worker unknown =
     (case worker of
        None \<Rightarrow> unknown
      | Some w \<Rightarrow> t ''operations.memberLag''
          [(js ''count'', case pw_memberCount w of Some n \<Rightarrow> NumberParam n | None \<Rightarrow> TextParam unknown),
           (js ''lag'', case pw_lag w of Some n \<Rightarrow> NumberParam n | None \<Rightarrow> TextParam unknown)])"

record path_node =
  pn_label :: jsstring
  pn_detail :: jsstring
  pn_status :: jsstring

definition health_text :: "SensorHealth \<Rightarrow> jsstring" where
  "health_text s = js (case s of HEALTHY \<Rightarrow> ''HEALTHY'' | DEGRADED \<Rightarrow> ''DEGRADED'' | UNAVAILABLE \<Rightarrow> ''UNAVAILABLE'')"

definition worker_text :: "WorkerStatus \<Rightarrow> jsstring" where
  "worker_text s = js (case s of RUNNING \<Rightarrow> ''RUNNING'' | IDLE \<Rightarrow> ''IDLE'' | WORKER_OFFLINE \<Rightarrow> ''OFFLINE'' | UNKNOWN \<Rightarrow> ''UNKNOWN'')"

definition service_named :: "string \<Rightarrow> OperationsHealthDto \<Rightarrow> ServiceHealthDto option" where
  "service_named name h = List.find (\<lambda>s. sh_service s = js name) (oh_services h)"

text \<open>\<open>includes\<close> on the lower-case name of a worker.\<close>

definition worker_named :: "(jsstring \<Rightarrow> jsstring) \<Rightarrow> string \<Rightarrow> OperationsHealthDto \<Rightarrow> PipelineWorkerDto option" where
  "worker_named lower name h = List.find (\<lambda>w. sublist (js name) (lower (pw_worker w))) (oh_workers h)"

definition service_node :: "text_for \<Rightarrow> jsstring \<Rightarrow> bool \<Rightarrow> ServiceHealthDto option \<Rightarrow> path_node" where
  "service_node t label latency service =
     (case service of
        None \<Rightarrow> \<lparr>pn_label = label, pn_detail = t ''operations.noHealthProbe'' [], pn_status = js ''NO PROBE''\<rparr>
      | Some s \<Rightarrow> \<lparr>pn_label = label,
          pn_detail = (if latency then js_String (Num (of_int (sh_latencyMs s))) @ js '' ms '' @ [183] @ js '' '' else []) @ operationsDetail t (sh_detail s),
          pn_status = health_text (sh_status s)\<rparr>)"

definition worker_node :: "text_for \<Rightarrow> jsstring \<Rightarrow> PipelineWorkerDto option \<Rightarrow> path_node" where
  "worker_node t label worker =
     \<lparr>pn_label = label, pn_detail = workerDetail t worker (t ''operations.unknown'' []),
      pn_status = (case worker of Some w \<Rightarrow> worker_text (pw_status w) | None \<Rightarrow> js ''NO PROBE'')\<rparr>"

definition CollectionPath :: "text_for \<Rightarrow> (jsstring \<Rightarrow> jsstring) \<Rightarrow> OperationsHealthDto \<Rightarrow> path_node list" where
  "CollectionPath t lower h =
     (let kafka = service_named ''Kafka'' h
      in [service_node t (t ''operations.pathAgent'' []) False None, service_node t (js ''Nginx / mTLS'') False None,
          service_node t (t ''operations.pathCollector'' []) True (service_named ''Backend API'' h),
          service_node t (js ''Kafka telemetry.raw'') False kafka,
          worker_node t (t ''operations.pathStorageWorker'' []) (worker_named lower ''storage'' h),
          service_node t (js ''ClickHouse'') True (service_named ''ClickHouse'' h),
          service_node t (js ''Kafka telemetry.validated'') False kafka,
          worker_node t (t ''operations.pathDetectionWorker'' []) (worker_named lower ''detection'' h),
          service_node t (js ''PostgreSQL'') True (service_named ''PostgreSQL'' h)])"

text \<open>Whole minutes since a time, \<open>None\<close> for \<open>NaN\<close>.\<close>

definition freshness :: "date_parser \<Rightarrow> int \<Rightarrow> jsstring option \<Rightarrow> int option option" where
  "freshness dp now timestamp =
     (case timestamp of
        None \<Rightarrow> None
      | Some s \<Rightarrow> if s = [] then None else Some (map_option (\<lambda>seen. max 0 ((now - seen) div 60000)) (dp s)))"

section \<open>Facts\<close>

text \<open>A page that waits, fails or shows its data does only one of these, and an address that is not accepted shows no data.\<close>

lemma feedback_exclusive:
  assumes "documented_state r"
  shows "(if invalid then page_feedback invalid r = [InvalidFilterState] \<and> \<not> page_content invalid r
    else of_bool (Skeleton \<in> set (page_feedback invalid r)) + of_bool (ErrorState \<in> set (page_feedback invalid r)) +
      of_bool (page_content invalid r) = (1 :: nat))"
  using assms by (auto simp: page_feedback_def page_content_def QueryFeedback_def documented_state_def)

lemma stale_data_marked:
  assumes "documented_state r" "page_content False r"
  shows "StaleWarning \<in> set (page_feedback False r) \<longleftrightarrow> query_error r \<noteq> None"
  using assms by (auto simp: page_feedback_def page_content_def QueryFeedback_def documented_state_def)

text \<open>The operations page does not ask whether its range is valid: it waits for a query that is never sent.\<close>

lemma never_fetched_documented: "documented_state never_fetched"
  by (simp add: documented_state_def never_fetched_def)

lemma invalid_range_waits: "operations_feedback never_fetched = [Skeleton]" "page_feedback True never_fetched = [InvalidFilterState]"
  by (simp_all add: operations_feedback_def page_feedback_def QueryFeedback_def never_fetched_def)

text \<open>The size chosen below the failures is not sent.\<close>

lemma failure_size_fixed: "map_of (failureQuery dp (updateListParams ps [(js ''size'', Some v)])) (js ''size'') = Some (QNumber (Num 50))"
proof -
  have "map_of (time_query s) (js ''size'') = None" for s by (auto simp: time_query_def split: option.split)
  then show ?thesis by (simp add: failureQuery_def map_add_def)
qed

text \<open>A restore asks for what the list shows.\<close>

lemma archive_ids_positive: "i \<in> set (archive_ids raw) \<Longrightarrow> 0 < i"
  by (auto simp: archive_ids_def List.map_filter_def dest: positiveInteger_pos)

lemma start_restore_scope:
  assumes "start_restore dp user pending ps = Some m"
  shows "\<exists>ids f t. m = StartRestore (JObj [(js ''endpointIds'', JArr (map (\<lambda>i. JNum (Num (of_int i))) ids)), (js ''from'', JStr f), (js ''to'', JStr t)]) \<and>
    map_of (archive_query ps) (js ''endpointIds'') = Some (QNumbers (map (\<lambda>i. Num (of_int i)) ids)) \<and>
    map_of (archive_query ps) (js ''from'') = Some (QText f) \<and> map_of (archive_query ps) (js ''to'') = Some (QText t) \<and>
    ids \<noteq> [] \<and> distinct ids \<and> (\<forall>i\<in>set ids. 0 < i) \<and>
    (\<exists>a b. dp f = Some a \<and> dp t = Some b \<and> a < b \<and> b - a \<le> 31 * 86400000)"
  using assms archive_ids_positive
  by (auto simp: start_restore_def archive_ready_def restore_request_def archive_query_def Let_def validRange_def archive_ids_def
      split: if_splits option.splits)

text \<open>What is typed into the date field comes back.\<close>

lemma date_text_length: "is_date_text s \<Longrightarrow> length s = 16"
  by (auto simp: is_date_text_def DATE_TEXT_def dest!: list_all2_lengthD)

lemma date_text_no_T: "is_date_text s \<Longrightarrow> 84 \<notin> set (take 10 s) \<and> s ! 10 = 32"
proof -
  assume d: "is_date_text s"
  have p: "case DATE_TEXT ! i of None \<Rightarrow> is_digit (s ! i) | Some c \<Rightarrow> s ! i = c" if "i < 16" for i
    using d that list_all2_nthD [of _ DATE_TEXT s i] by (simp add: is_date_text_def DATE_TEXT_def)
  have "s ! i \<noteq> 84" if "i < 10" for i
    using p [of i] that by (auto simp: DATE_TEXT_def is_digit_def less_Suc_eq numeral_eq_Suc)
  moreover have "DATE_TEXT ! 10 = Some 32" by (simp add: DATE_TEXT_def numeral_eq_Suc)
  ultimately show ?thesis using p [of 10] date_text_length [OF d] by (auto simp: in_set_conv_nth)
qed

lemma replace_first_here: "a \<notin> set xs \<Longrightarrow> replace_first a b (xs @ [a] @ ys) = xs @ [b] @ ys"
  by (auto simp: replace_first_def takeWhile_append dropWhile_append)

lemma committed_date_shown:
  assumes "commit_date dp offset v = Inr (bad, Some (Some u))"
  shows "date_field_text dp offset u = Inr (trim v)"
proof -
  let ?s = "trim v"
  from assms have u: "utcFromArchiveText dp offset v = Inr (Some u)" "u \<noteq> []"
    by (auto simp: commit_date_def map_sum_def split: if_splits sum.splits option.splits)
  then have d: "is_date_text ?s" and
    w: "localDateTimeValue dp offset u = Inr (take 10 ?s @ [84] @ drop 11 ?s)"
    by (auto simp: utcFromArchiveText_def Let_def utcFromLocal_def toISOString_def split: if_splits option.splits sum.splits)
  have "take 10 ?s @ [32] @ drop 11 ?s = ?s"
    using date_text_no_T [OF d] date_text_length [OF d] id_take_nth_drop [of 10 ?s] by simp
  then show ?thesis
    using w u(2) date_text_no_T [OF d] replace_first_here [of 84 "take 10 ?s" 32 "drop 11 ?s"] by (simp add: date_field_text_def)
qed

end
