(* ===== verification/IntelligenceWorkspace.thy ===== *)
theory IntelligenceWorkspace
  imports OperationsPages
begin

text \<open>
  The intelligence page (\<open>pages/IntelligencePage.tsx\<close>): its requests, what it shows while they are answered, the
  state of the topology and of the correlation workspace, the inspectors, and the links from a relationship to the lists of
  its evidence.  The public suffix list, \<open>localeCompare\<close> and \<open>toLowerCase\<close> are arguments, as in
  \<open>Intelligence\<close>.
\<close>

section \<open>Requests\<close>

definition endpoint_ids_member :: "search_params \<Rightarrow> query_record" where
  "endpoint_ids_member ps = id_list_member (parseEndpointIds (params_get ps (js ''endpointIds'')))"

definition availability_request :: "date_parser \<Rightarrow> search_params \<Rightarrow> api_method option" where
  "availability_request dp ps =
     (if tf_preset (readTimeFilter dp ps) = CUSTOM then Some (DashboardAvailability (endpoint_ids_member ps)) else None)"

definition summary_request :: "date_parser \<Rightarrow> search_params \<Rightarrow> api_method option" where
  "summary_request dp ps = (let time = readTimeFilter dp ps in
     if tf_valid time then Some (Dashboard (time_query time @ [(js ''interval'', QText (interval_name (tf_interval time)))])) else None)"

definition topology_request :: "date_parser \<Rightarrow> search_params \<Rightarrow> api_method option" where
  "topology_request dp ps = (let time = readTimeFilter dp ps in
     if tf_valid time then Some (Topology (time_query time @ endpoint_ids_member ps)) else None)"

definition correlationValue :: "search_params \<Rightarrow> jsstring" where
  "correlationValue ps = (case params_get ps (js ''value'') of Some v \<Rightarrow> trim v | None \<Rightarrow> [])"

definition correlation_request :: "date_parser \<Rightarrow> search_params \<Rightarrow> api_method option" where
  "correlation_request dp ps = (let time = readTimeFilter dp ps in
     if tf_valid time \<and> correlationValue ps \<noteq> []
     then Some (Correlation (time_query time @ [(js ''value'', QText (correlationValue ps))] @ endpoint_ids_member ps)) else None)"

text \<open>Searching for the value that is shown reads it again; another one goes into the address.\<close>

datatype search_action = Refetch | GoTo search_params

definition onSearch :: "search_params \<Rightarrow> jsstring \<Rightarrow> search_action" where
  "onSearch ps v =
     (let nextValue = trim v
      in if nextValue \<noteq> [] \<and> nextValue = correlationValue ps then Refetch
         else GoTo (updateParams ps [(js ''value'', PText nextValue)] True))"

definition submit_search :: "search_params \<Rightarrow> jsstring \<Rightarrow> search_action option" where
  "submit_search ps draft = (if trim draft = [] then None else Some (onSearch ps (trim draft)))"

definition correlation_suggestions :: "jsstring list \<Rightarrow> jsstring list \<Rightarrow> jsstring list" where
  "correlation_suggestions topDomains topRemoteIps = set_from (take 3 topDomains @ take 3 topRemoteIps)"

section \<open>What is shown\<close>

record dashboard_counts =
  dc_events :: int
  dc_alerts :: int
  dc_openIncidents :: int
  dc_closedIncidents :: int
  dc_failures :: int

definition dashboardHasEvidenceInRange :: "dashboard_counts \<Rightarrow> bool" where
  "dashboardHasEvidenceInRange d \<longleftrightarrow> 0 < dc_events d \<or> 0 < dc_alerts d \<or> 0 < dc_openIncidents d \<or> 0 < dc_closedIncidents d \<or> 0 < dc_failures d"

record intelligence_view =
  iv_preset :: TimePreset
  iv_valid :: bool
  iv_summary :: query_state
  iv_topology :: query_state
  iv_dashboard :: "dashboard_counts option"

definition unavailable_error :: "query_state \<Rightarrow> bool" where
  "unavailable_error r = (case query_error r of Some e \<Rightarrow> isUnavailableTimeRangeError e | None \<Rightarrow> False)"

definition unavailableRange :: "intelligence_view \<Rightarrow> bool" where
  "unavailableRange v \<longleftrightarrow> iv_preset v = CUSTOM \<and> iv_valid v \<and>
     (unavailable_error (iv_summary v) \<or> unavailable_error (iv_topology v) \<or>
      (case iv_dashboard v of Some d \<Rightarrow> \<not> dashboardHasEvidenceInRange d | None \<Rightarrow> False))"

definition failed_without_data :: "query_state \<Rightarrow> bool" where
  "failed_without_data r \<longleftrightarrow> query_error r \<noteq> None \<and> \<not> has_data r"

definition summaryUnavailable :: "intelligence_view \<Rightarrow> bool" where
  "summaryUnavailable v \<longleftrightarrow> \<not> unavailableRange v \<and> failed_without_data (iv_summary v)"

definition topologyUnavailable :: "intelligence_view \<Rightarrow> bool" where
  "topologyUnavailable v \<longleftrightarrow> \<not> unavailableRange v \<and> failed_without_data (iv_topology v)"

datatype intelligence_part =
    InvalidFilterNotice | UnavailableRangeNotice | LoadingNotice | FailureNotice | PartialNotice TranslationKey | StaleNotice
  | IntelligenceContent bool bool | CorrelationPart

definition IntelligencePage :: "intelligence_view \<Rightarrow> intelligence_part list" where
  "IntelligencePage v =
     (let s = iv_summary v; r = iv_topology v; u = unavailableRange v
      in (if \<not> iv_valid v \<and> iv_preset v \<noteq> CUSTOM then [InvalidFilterNotice] else []) @
         (if u then [UnavailableRangeNotice] else []) @
         (if iv_valid v \<and> \<not> u \<and> \<not> has_data s \<and> \<not> has_data r \<and> (is_pending s \<or> is_pending r) then [LoadingNotice] else []) @
         (if summaryUnavailable v \<and> topologyUnavailable v then [FailureNotice] else []) @
         (if summaryUnavailable v \<noteq> topologyUnavailable v
          then [PartialNotice (if summaryUnavailable v then ''intelligence.summaryUnavailable'' else ''intelligence.topologyUnavailable'')] else []) @
         (if \<not> u \<and> (is_refetch_error s \<or> is_refetch_error r) \<and> (has_data s \<or> has_data r) then [StaleNotice] else []) @
         (if \<not> u \<and> (has_data s \<or> has_data r) then [IntelligenceContent (has_data s) (has_data r)] else []) @
         (if iv_valid v \<and> \<not> u then [CorrelationPart] else []))"

section \<open>Signals\<close>

type_synonym counted = "jsstring \<times> int"

definition signalRows :: "counted list \<Rightarrow> counted list \<Rightarrow> counted list \<Rightarrow> counted list" where
  "signalRows topDomains topRemoteIps topProcesses =
     take 10 (js_sort (by_key (\<lambda>(label, n). - n))
       (map (\<lambda>(d, n). (js ''Domain'' @ MIDDLE_DOT @ d, n)) topDomains @ map (\<lambda>(i, n). (js ''IP'' @ MIDDLE_DOT @ i, n)) topRemoteIps @
        map (\<lambda>(p, n). (js ''Process'' @ MIDDLE_DOT @ p, n)) topProcesses))"

section \<open>The topology workspace\<close>

record topology_workspace =
  tw_search :: jsstring
  tw_limit :: int
  tw_selection :: "TopologySelection option"
  tw_expanded :: bool
  tw_domains :: "jsstring list"

definition open_workspace :: topology_workspace where
  "open_workspace = \<lparr>tw_search = [], tw_limit = 10, tw_selection = None, tw_expanded = False, tw_domains = []\<rparr>"

definition changeLimit :: "int \<Rightarrow> topology_workspace \<Rightarrow> topology_workspace" where
  "changeLimit nextLimit w = w\<lparr>tw_selection := None, tw_limit := nextLimit, tw_expanded := (10 < nextLimit \<or> tw_expanded w)\<rparr>"

definition closeExpanded :: "topology_workspace \<Rightarrow> topology_workspace" where
  "closeExpanded w = w\<lparr>tw_expanded := False, tw_selection := None, tw_limit := (if 10 < tw_limit w then 10 else tw_limit w)\<rparr>"

definition toggleDomain :: "jsstring \<Rightarrow> topology_workspace \<Rightarrow> topology_workspace" where
  "toggleDomain d w = w\<lparr>tw_domains := (if d \<in> set (tw_domains w) then filter (\<lambda>x. x \<noteq> d) (tw_domains w) else tw_domains w @ [d])\<rparr>"

definition changeSearch :: "jsstring \<Rightarrow> topology_workspace \<Rightarrow> topology_workspace" where
  "changeSearch s w = w\<lparr>tw_search := s, tw_selection := None\<rparr>"

definition selectTopology :: "TopologySelection \<Rightarrow> topology_workspace \<Rightarrow> topology_workspace" where
  "selectTopology s w = w\<lparr>tw_selection := Some s\<rparr>"

inductive reachable_topology :: "topology_workspace \<Rightarrow> bool" where
  start: "reachable_topology open_workspace"
| limit: "reachable_topology w \<Longrightarrow> n \<in> {10, 25, 50} \<Longrightarrow> reachable_topology (changeLimit n w)"
| expand: "reachable_topology w \<Longrightarrow> reachable_topology (w\<lparr>tw_expanded := True\<rparr>)"
| close: "reachable_topology w \<Longrightarrow> reachable_topology (closeExpanded w)"
| toggle: "reachable_topology w \<Longrightarrow> reachable_topology (toggleDomain d w)"
| search: "reachable_topology w \<Longrightarrow> reachable_topology (changeSearch s w)"
| select: "reachable_topology w \<Longrightarrow> reachable_topology (selectTopology s w)"

definition filtered_topology ::
  "date_parser \<Rightarrow> (jsstring \<Rightarrow> jsstring) \<Rightarrow> (jsstring \<Rightarrow> jsstring \<Rightarrow> int) \<Rightarrow> EgressTopologyDto \<Rightarrow> topology_workspace \<Rightarrow> EgressTopologyDto" where
  "filtered_topology dp lower lc t w = filterTopology dp lower lc t (tw_search w) (tw_limit w)"

definition domain_view ::
  "date_parser \<Rightarrow> (jsstring \<Rightarrow> jsstring) \<Rightarrow> (jsstring \<Rightarrow> jsstring option) \<Rightarrow> (jsstring \<Rightarrow> jsstring \<Rightarrow> int) \<Rightarrow> EgressTopologyDto \<Rightarrow>
   topology_workspace \<Rightarrow> EgressTopologyDto \<times> TopologyDomainGroup list" where
  "domain_view dp lower get_domain lc t w = buildTopologyDomainView dp get_domain lc (filtered_topology dp lower lc t w) (tw_domains w)"

section \<open>Rows and links\<close>

text \<open>Which rows of the table are marked for a selection.\<close>

definition row_selected ::
  "TopologySelection option \<Rightarrow> TopologyEdgeGroup option \<Rightarrow> TopologyDomainGroup list \<Rightarrow> TopologyEdgeDto \<Rightarrow> js_error + bool" where
  "row_selected selection selectedGraphGroup groups e =
     (let byEdge = (selection = Some (TopologyEdge (topologyEdgeId (te_endpointId e) (te_target e) (te_protocol e))));
          byGroup = (case selectedGraphGroup of
                       None \<Rightarrow> False
                     | Some g \<Rightarrow> te_endpointId e = tg_endpointId g \<and>
                         (case List.find (\<lambda>d. td_domain d = tg_target g) groups of
                            Some d \<Rightarrow> te_target e \<in> set (td_targets d) | None \<Rightarrow> te_target e = tg_target g))
      in if byEdge then Inr True
         else (case selection of
                 Some (TopologyEdgeGroupOf i) \<Rightarrow> map_sum id (\<lambda>own. i = own \<or> byGroup) (topologyEdgeGroupId (te_endpointId e) (te_target e))
               | _ \<Rightarrow> Inr byGroup))"

text \<open>The address of the list of events or alerts of a relationship.\<close>

definition evidence_params :: "int \<Rightarrow> EgressTopologyDto \<Rightarrow> search_params" where
  "evidence_params endpointId t =
     params_set [(js ''timePreset'', js ''CUSTOM''), (js ''from'', topo_from t), (js ''to'', topo_to t)] (js ''endpointId'') (id_text endpointId)"

definition evidenceListUrl :: "string \<Rightarrow> int \<Rightarrow> EgressTopologyDto \<Rightarrow> jsstring" where
  "evidenceListUrl route endpointId t = js ''/'' @ js route @ js ''?'' @ params_to_string (evidence_params endpointId t)"

section \<open>Inspectors\<close>

datatype topology_context =
    GroupContext TopologyEdgeGroup
  | EdgeContext TopologyEdgeDto
  | EndpointContext TopologyNodeDto
  | DomainContext TopologyDomainGroup nat bool
  | TargetContext jsstring nat "jsstring option"
  | NothingSelected

definition target_context :: "TopologyDomainGroup list \<Rightarrow> jsstring list \<Rightarrow> EgressTopologyDto \<Rightarrow> jsstring \<Rightarrow> topology_context" where
  "target_context groups expandedDomains t target =
     (case List.find (\<lambda>g. td_domain g = target \<or> target \<in> set (td_targets g)) groups of
        Some g \<Rightarrow>
          if td_domain g = target
          then DomainContext g (length (filter (\<lambda>e. te_target e = td_domain g \<or> te_target e \<in> set (td_targets g)) (topo_edges t)))
                 (td_domain g \<in> set expandedDomains)
          else TargetContext target (length (filter (\<lambda>e. targetNodeId (te_target e) = targetNodeId target) (topo_edges t))) (Some (td_domain g))
      | None \<Rightarrow> TargetContext target (length (filter (\<lambda>e. targetNodeId (te_target e) = targetNodeId target) (topo_edges t))) None)"

definition TopologyInspector ::
  "date_parser \<Rightarrow> TopologyDomainGroup list \<Rightarrow> EgressTopologyDto \<Rightarrow> jsstring list \<Rightarrow> EgressTopologyDto \<Rightarrow> TopologySelection option \<Rightarrow>
   js_error + topology_context" where
  "TopologyInspector dp groups evidence expandedDomains t selection =
     map_sum id (\<lambda>edgeGroup.
       (case edgeGroup of
          Some g \<Rightarrow> GroupContext g
        | None \<Rightarrow>
       (case selectedTopologyEdge evidence selection of
          Some e \<Rightarrow> EdgeContext e
        | None \<Rightarrow>
       (case selection of
          Some (TopologyNode i) \<Rightarrow>
            (case List.find (\<lambda>n. endpointNodeId (tn_endpointId n) = i) (topo_nodes t) of
               Some n \<Rightarrow> EndpointContext n
             | None \<Rightarrow> if startsWith i (js ''target:'') then target_context groups expandedDomains t (drop 7 i) else NothingSelected)
        | _ \<Rightarrow> NothingSelected)))) (selectedTopologyEdgeGroup dp t selection)"

section \<open>Facts\<close>

text \<open>The drawing beside the table never has more than ten relationships: more of them open the large view.\<close>

definition workspace_ok :: "topology_workspace \<Rightarrow> bool" where
  "workspace_ok w \<longleftrightarrow> tw_limit w \<in> {10, 25, 50} \<and> (10 < tw_limit w \<longrightarrow> tw_expanded w) \<and> distinct (tw_domains w)"

lemmas workspace_steps = open_workspace_def changeLimit_def closeExpanded_def toggleDomain_def changeSearch_def selectTopology_def

lemma reachable_workspace_ok: "reachable_topology w \<Longrightarrow> workspace_ok w"
  by (induction rule: reachable_topology.induct) (auto simp: workspace_ok_def workspace_steps)

lemma inline_topology_small:
  assumes "reachable_topology w" "\<not> tw_expanded w"
  shows "length (topo_edges (filtered_topology dp lower lc t w)) \<le> 10"
proof -
  have "tw_limit w = 10" using reachable_workspace_ok [OF assms(1)] assms(2) by (auto simp: workspace_ok_def)
  then show ?thesis using filterTopology_shape(1) [of _ dp lower lc t "tw_search w" 10] by (simp add: filtered_topology_def)
qed

text \<open>A page with an accepted range shows one of four things.\<close>

definition documented_view :: "intelligence_view \<Rightarrow> bool" where
  "documented_view v \<longleftrightarrow> documented_state (iv_summary v) \<and> documented_state (iv_topology v) \<and> (iv_dashboard v \<noteq> None \<longleftrightarrow> has_data (iv_summary v))"

definition main_parts :: "intelligence_part list \<Rightarrow> intelligence_part list" where
  "main_parts ps = filter (\<lambda>p. case p of UnavailableRangeNotice \<Rightarrow> True | LoadingNotice \<Rightarrow> True | FailureNotice \<Rightarrow> True
     | IntelligenceContent _ _ \<Rightarrow> True | _ \<Rightarrow> False) ps"

lemma one_main_part:
  assumes "documented_view v" "iv_valid v"
  shows "length (main_parts (IntelligencePage v)) = 1"
  using assms
  by (auto simp: main_parts_def IntelligencePage_def Let_def documented_view_def documented_state_def summaryUnavailable_def
      topologyUnavailable_def failed_without_data_def)

text \<open>The link of a relationship opens a list that accepts the address and asks for the evidence of the endpoint in the range.\<close>

lemma evidence_params_get:
  "params_get (evidence_params i t) k =
    (if k = js ''timePreset'' then Some (js ''CUSTOM'') else if k = js ''from'' then Some (topo_from t)
     else if k = js ''to'' then Some (topo_to t) else if k = js ''endpointId'' then Some (id_text i) else None)"
  by (auto simp: evidence_params_def get_set) (auto simp: params_get_def)

lemma evidence_params_ok: "text_units (topo_from t) \<Longrightarrow> text_units (topo_to t) \<Longrightarrow> params_ok (evidence_params i t)"
  unfolding evidence_params_def by (rule params_ok_set) (simp_all add: params_ok_def)

lemma evidence_accepted:
  assumes "0 < i" "i < 2 ^ 53" "topo_from t \<noteq> []" "topo_to t \<noteq> []" "parsed_after dp (topo_to t) (topo_from t)"
    and "pg = EventsPage \<or> pg = AlertsPage"
  shows "\<not> page_invalid dp pg (evidence_params i t)"
proof -
  have "number_in (\<lambda>r. 0 < r) (js_Number (id_text i))"
    using assms(1,2) js_Number_show_int [of i] js_String_int [of i] by (simp add: number_in_def is_integer_def)
  moreover have "js ''CUSTOM'' \<in> set preset_names" by (simp add: preset_names_def TIME_PRESETS_def)
  ultimately show ?thesis
    using assms(3-)
    unfolding page_accepts
    by (elim disjE) (simp_all add: time_fields_def common_fields_def DETAIL_FILTERS_def evidence_params_get custom_range_def truthy_def)
qed

lemma evidence_received:
  assumes "0 < i" "i < 2 ^ 53" "topo_from t \<noteq> []" "topo_to t \<noteq> []" "parsed_after dp (topo_to t) (topo_from t)"
    and "text_units (topo_from t)" "text_units (topo_to t)" "pg = EventsPage \<or> pg = AlertsPage"
  shows "received (page_query dp pg (evidence_params i t)) (js ''endpointId'') = [id_text i]"
    "received (page_query dp pg (evidence_params i t)) (js ''from'') = [topo_from t]"
    "received (page_query dp pg (evidence_params i t)) (js ''to'') = [topo_to t]"
proof -
  note r = page_request_received [OF evidence_accepted [OF assms(1-5,8)] evidence_params_ok [OF assms(6,7)]]
  have f: "map_of (page_fields pg) ''endpointId'' = Some Identifier" "map_of (page_fields pg) ''from'' = Some Moment" "map_of (page_fields pg) ''to'' = Some Moment"
    using assms(8) by (elim disjE; simp add: time_fields_def common_fields_def DETAIL_FILTERS_def)+
  have n: "js_String (js_Number (id_text i)) = id_text i"
    using assms(1,2) js_Number_show_int [of i] js_String_int [of i] by simp
  show "received (page_query dp pg (evidence_params i t)) (js ''endpointId'') = [id_text i]"
    using r [OF f(1)] n by (simp add: evidence_params_get texts_def expand_query_def)
  show "received (page_query dp pg (evidence_params i t)) (js ''from'') = [topo_from t]"
    using r [OF f(2)] assms(3) by (simp add: evidence_params_get custom_range_def texts_def expand_query_def)
  show "received (page_query dp pg (evidence_params i t)) (js ''to'') = [topo_to t]"
    using r [OF f(3)] assms(4) by (simp add: evidence_params_get custom_range_def texts_def expand_query_def)
qed

text \<open>
  A selected relationship marks the rows of all hosts of the domain its target names, whether or not the domain is folded:
  when it is unfolded and the domain is itself a target, rows of other hosts are marked too.
\<close>

lemma domain_rows_marked:
  assumes "List.find (\<lambda>d. td_domain d = tg_target g) groups = Some d" "te_endpointId e = tg_endpointId g" "te_target e \<in> set (td_targets d)"
    and "topologyEdgeGroupId (te_endpointId e) (te_target e) = Inr own"
  shows "row_selected (Some (TopologyEdgeGroupOf i)) (Some g) groups e = Inr True"
  using assms by (simp add: row_selected_def Let_def)

end
