(* ===== verification/DetailPages.thy ===== *)
theory DetailPages
  imports OperationsPages ProcessTree AuthSession
begin

text \<open>
  The pages of one alert, incident, event and endpoint and the sign-in page
  (\<open>pages/AlertDetailPage.tsx\<close>, \<open>pages/IncidentDetailPage.tsx\<close>, \<open>pages/EventDetailPage.tsx\<close>,
  \<open>pages/EndpointDetailPage.tsx\<close>, \<open>pages/LoginPage.tsx\<close>).  The answer to a request is an argument of the step that
  handles it; the comparison of strings by language, \<open>localeCompare\<close>, is an argument.
\<close>

section \<open>Triage of an alert\<close>

record triage_submission =
  sub_status :: AlertStatus
  sub_next :: "int option"

record alert_page =
  ap_alertId :: int
  ap_params :: search_params
  ap_queue :: "AlertDto list"
  ap_saved :: AlertStatus
  ap_draft :: AlertStatus
  ap_pending :: bool

definition route_id :: "jsstring \<Rightarrow> int option" where
  "route_id segment = positiveInteger (Some segment)"

definition back_url :: "string \<Rightarrow> search_params \<Rightarrow> jsstring" where
  "back_url path ps = js path @ (if ps \<noteq> [] then js ''?'' @ params_to_string ps else [])"

definition setDraftStatus :: "AlertStatus \<Rightarrow> alert_page \<Rightarrow> alert_page" where
  "setDraftStatus s p = (if ap_pending p then p else p\<lparr>ap_draft := s\<rparr>)"

definition nextAlert :: "alert_page \<Rightarrow> AlertDto option" where
  "nextAlert p = nextActionableAlert (ap_queue p) (ap_alertId p)"

definition save_enabled :: "bool \<Rightarrow> alert_page \<Rightarrow> bool" where
  "save_enabled canUpdate p \<longleftrightarrow> canUpdate \<and> \<not> (ap_pending p \<or> ap_draft p = ap_saved p)"

definition submit_enabled :: "bool \<Rightarrow> alert_page \<Rightarrow> bool" where
  "submit_enabled canUpdate p \<longleftrightarrow> canUpdate \<and> \<not> (ap_pending p \<or> (nextAlert p = None \<and> ap_draft p = ap_saved p))"

definition saveStatus :: "bool \<Rightarrow> alert_page \<Rightarrow> triage_submission option" where
  "saveStatus canUpdate p = (if save_enabled canUpdate p then Some \<lparr>sub_status = ap_draft p, sub_next = None\<rparr> else None)"

definition submitNext :: "bool \<Rightarrow> alert_page \<Rightarrow> triage_submission option" where
  "submitNext canUpdate p =
     (if submit_enabled canUpdate p
      then Some \<lparr>sub_status = ap_draft p, sub_next = map_option alert_alertId (nextAlert p)\<rparr> else None)"

definition update_request :: "alert_page \<Rightarrow> triage_submission \<Rightarrow> api_method" where
  "update_request p s = UpdateAlert (ap_alertId p) (JObj [(js ''status'', JStr (alert_status_name (sub_status s)))])"

text \<open>The keys of the queries: the name of the first element, and the id for the query of one object.\<close>

type_synonym query_key = "string \<times> int option"

definition invalidateAlertData :: "int \<Rightarrow> query_key list" where
  "invalidateAlertData alertId = [(''alert'', Some alertId), (''alerts'', None), (''alert-triage-queue'', None), (''endpoints'', None)]"

definition invalidateIncidentData :: "int \<Rightarrow> query_key list" where
  "invalidateIncidentData incidentId =
     [(''incident'', Some incidentId), (''incidents'', None), (''incident-workbench-queue'', None), (''endpoints'', None), (''dashboard'', None)]"

text \<open>What happens when the change was accepted: the queries to invalidate, then the address to go to.\<close>

definition alert_onSuccess :: "alert_page \<Rightarrow> triage_submission \<Rightarrow> query_key list \<times> jsstring option" where
  "alert_onSuccess p s =
     (invalidateAlertData (ap_alertId p),
      case sub_next s of Some n \<Rightarrow> if n = 0 then None else Some (alertDetailUrl n (ap_params p)) | None \<Rightarrow> None)"

definition activeQueue :: "AlertDto list \<Rightarrow> AlertDto list" where
  "activeQueue q = filter (\<lambda>a. alert_status a \<noteq> RESOLVED) q"

definition queueCleared :: "bool \<Rightarrow> bool \<Rightarrow> AlertStatus \<Rightarrow> AlertDto list \<Rightarrow> bool" where
  "queueCleared queuePending queueError status q \<longleftrightarrow> \<not> queuePending \<and> \<not> queueError \<and> status = RESOLVED \<and> length (activeQueue q) = 0"

text \<open>The evidence chain of an alert: label, detail, link and state of each of its five steps.\<close>

record chain_step =
  cs_label :: string
  cs_detail :: jsstring
  cs_to :: "jsstring option"
  cs_state :: string

definition event_link :: "jsstring \<Rightarrow> int \<Rightarrow> jsstring \<Rightarrow> js_error + jsstring" where
  "event_link eventId endpointId occurredAt =
     map_sum id (\<lambda>e. js ''/events/'' @ eventId @ js ''?endpointId='' @ id_segment endpointId @ js ''&occurredAt='' @ e) (encodeURIComponent occurredAt)"

definition event_step :: "AlertDto \<Rightarrow> EventDto option \<Rightarrow> js_error + chain_step" where
  "event_step a sourceEvent =
     (case sourceEvent of
        None \<Rightarrow> Inr \<lparr>cs_label = ''Event'', cs_detail = alert_eventId a, cs_to = None, cs_state = ''unavailable''\<rparr>
      | Some e \<Rightarrow> map_sum id (\<lambda>link. \<lparr>cs_label = ''Event'', cs_detail = ev_eventId e, cs_to = Some link, cs_state = ''linked''\<rparr>)
          (event_link (ev_eventId e) (ev_endpointId e) (ev_occurredAt e)))"

definition incident_step :: "text_for \<Rightarrow> int list \<Rightarrow> chain_step" where
  "incident_step t incidents =
     (case incidents of
        [] \<Rightarrow> \<lparr>cs_label = ''Incident'', cs_detail = t ''alert.notConnected'' [], cs_to = None, cs_state = ''unavailable''\<rparr>
      | i # rest \<Rightarrow> \<lparr>cs_label = ''Incident'',
          cs_detail = js ''#'' @ id_segment i @ (if rest \<noteq> [] then js '' +'' @ id_segment (int (length rest)) else []),
          cs_to = Some (js ''/incidents/'' @ id_segment i), cs_state = ''linked''\<rparr>)"

definition AlertEvidenceChain :: "text_for \<Rightarrow> AlertDto \<Rightarrow> EventDto option \<Rightarrow> int list \<Rightarrow> js_error + chain_step list" where
  "AlertEvidenceChain t a sourceEvent incidents =
     map_sum id (\<lambda>event.
       [\<lparr>cs_label = ''Endpoint'', cs_detail = js ''Endpoint '' @ id_segment (alert_endpointId a),
         cs_to = Some (js ''/endpoints/'' @ id_segment (alert_endpointId a)), cs_state = ''linked''\<rparr>,
        event,
        \<lparr>cs_label = ''Rule'', cs_detail = alert_ruleCode a @ MIDDLE_DOT @ js ''v'' @ id_segment (alert_ruleVersion a), cs_to = None, cs_state = ''observed''\<rparr>,
        \<lparr>cs_label = ''Alert'', cs_detail = js ''#'' @ id_segment (alert_alertId a), cs_to = None, cs_state = ''current''\<rparr>,
        incident_step t incidents]) (event_step a sourceEvent)"

section \<open>Work on an incident\<close>

text \<open>The selection is kept with the incident it was made in.\<close>

type_synonym selection_state = "(int \<times> InvestigationSelection) option"

definition current_selection :: "int \<Rightarrow> selection_state \<Rightarrow> InvestigationSelection option" where
  "current_selection incidentId s = (case s of Some (i, v) \<Rightarrow> if i = incidentId then Some v else None | None \<Rightarrow> None)"

definition setSelection :: "int \<Rightarrow> InvestigationSelection \<Rightarrow> selection_state" where
  "setSelection incidentId v = Some (incidentId, v)"

text \<open>The request for the process tree, once the incident, the graph and a process are known.\<close>

definition process_tree_request ::
  "int option \<Rightarrow> IncidentInvestigationDto option \<Rightarrow> jsstring \<times> jsstring \<Rightarrow> InvestigationSelection option \<Rightarrow> api_method option" where
  "process_tree_request endpointId d timeRange selection =
     (case (endpointId, d, selectedProcessPid selection d) of
        (Some e, Some i, Some pid) \<Rightarrow>
          Some (ProcessTree e [(js ''timePreset'', QText (js ''CUSTOM'')), (js ''from'', QText (fst timeRange)), (js ''to'', QText (snd timeRange)),
            (js ''selectedPid'', QNumber (Num (of_int pid)))])
      | _ \<Rightarrow> None)"

definition showQueue :: "bool \<Rightarrow> bool \<Rightarrow> nat \<Rightarrow> bool" where
  "showQueue queuePending queueError n \<longleftrightarrow> queuePending \<or> queueError \<or> 0 < n"

definition incident_save_enabled :: "bool \<Rightarrow> bool \<Rightarrow> IncidentStatus \<Rightarrow> IncidentStatus \<Rightarrow> bool" where
  "incident_save_enabled canUpdate pending draft saved \<longleftrightarrow> canUpdate \<and> \<not> (pending \<or> draft = saved)"

text \<open>A row of the time line: whether it is marked, what its button selects, its link, its title and its summary.\<close>

fun event_type_name :: "EventType \<Rightarrow> jsstring" where
  "event_type_name PROCESS_EXECUTION = js ''PROCESS_EXECUTION''"
| "event_type_name NETWORK_CONNECTION = js ''NETWORK_CONNECTION''"
| "event_type_name FILE_EVENT = js ''FILE_EVENT''"
| "event_type_name DNS_QUERY = js ''DNS_QUERY''"
| "event_type_name L7_EVENT = js ''L7_EVENT''"

definition timeline_link :: "AttackTimelineItemDto \<Rightarrow> js_error + jsstring option" where
  "timeline_link i =
     (case item_alertId i of
        Some a \<Rightarrow> if a \<noteq> 0 then Inr (Some (js ''/alerts/'' @ id_segment a))
                  else (case item_eventId i of
                          Some e \<Rightarrow> if e = [] then Inr None else map_sum id Some (event_link e (item_endpointId i) (item_occurredAt i))
                        | None \<Rightarrow> Inr None)
      | None \<Rightarrow> (case item_eventId i of
                   Some e \<Rightarrow> if e = [] then Inr None else map_sum id Some (event_link e (item_endpointId i) (item_occurredAt i))
                 | None \<Rightarrow> Inr None))"

definition timeline_title :: "translator \<Rightarrow> AttackTimelineItemDto \<Rightarrow> js_error + jsstring" where
  "timeline_title t i = (if item_itemType i = EVENT_ITEM then Inr (item_title i) else detectionTitle t (item_title i) None)"

definition timeline_summary :: "translator \<Rightarrow> AttackTimelineItemDto \<Rightarrow> js_error + jsstring" where
  "timeline_summary t i =
     (if item_itemType i = EVENT_ITEM
      then (case item_eventType i of
              Some e \<Rightarrow> if item_summary i = event_type_name e @ js '' observed''
                then t ''event.observedFallback'' [(js ''eventType'', TextParam (event_type_name e))] else Inr (item_summary i)
            | None \<Rightarrow> Inr (item_summary i))
      else detectionSummary t (Some (item_summary i)) (item_summary i))"

record timeline_row =
  tr_selected :: bool
  tr_select :: "InvestigationSelection option"
  tr_link :: "js_error + jsstring option"
  tr_title :: "js_error + jsstring"
  tr_summary :: "js_error + jsstring"

definition AttackTimeline ::
  "translator \<Rightarrow> AttackTimelineItemDto list \<Rightarrow> IncidentInvestigationDto option \<Rightarrow> InvestigationSelection option \<Rightarrow> timeline_row list" where
  "AttackTimeline t timeline d selection =
     map (\<lambda>i. \<lparr>tr_selected = (case d of Some g \<Rightarrow> selectionMatchesTimelineItem selection g i | None \<Rightarrow> False),
               tr_select = (case d of Some g \<Rightarrow> selectionForTimelineItem g i | None \<Rightarrow> None),
               tr_link = timeline_link i, tr_title = timeline_title t i, tr_summary = timeline_summary t i\<rparr>) timeline"

section \<open>An event\<close>

text \<open>The request for the event and for the tree of processes around it; the address must name the endpoint and the time.\<close>

definition event_request :: "date_parser \<Rightarrow> jsstring \<Rightarrow> search_params \<Rightarrow> api_method option" where
  "event_request dp eventId ps =
     (if eventId \<noteq> [] \<and> validEventDetailQuery dp ps
      then Some (Event eventId [(js ''endpointId'', QNumber (js_Number_nullable (params_get ps (js ''endpointId'')))),
                                (js ''occurredAt'', QText (stringParam ps (js ''occurredAt'') []))])
      else None)"

definition event_tree_request :: "date_parser \<Rightarrow> EventDto \<Rightarrow> js_error + api_method" where
  "event_tree_request dp e =
     map_sum id (\<lambda>(f, t). ProcessTree (ev_endpointId e)
       ([(js ''timePreset'', QText (js ''CUSTOM'')), (js ''from'', QText f), (js ''to'', QText t)] @
        (case ev_pid e of Some pid \<Rightarrow> [(js ''selectedPid'', QNumber (Num (of_int pid)))] | None \<Rightarrow> [])))
       (processTreeWindow dp (ev_occurredAt e))"

text \<open>An item of a group: its label and its value, \<open>None\<close> where the page says that there is none.\<close>

type_synonym detail_item = "jsstring \<times> jsstring option"

definition os_type_name :: "OsType \<Rightarrow> jsstring" where
  "os_type_name os = js (case os of WINDOWS \<Rightarrow> ''WINDOWS'' | MACOS \<Rightarrow> ''MACOS'')"

fun groupItems :: "text_for \<Rightarrow> UserLocale \<Rightarrow> EventDto \<Rightarrow> EventDetailGroup \<Rightarrow> detail_item list" where
  "groupItems t lang e IDENTITY =
     [(t ''event.batchId'' [], Some (ev_batchId e)), (js ''Agent ID'', Some (ev_agentId e)),
      (t ''endpoints.operatingSystem'' [], Some (os_type_name (ev_osType e))), (t ''endpoint.ipAddress'' [], ev_ipAddress e)]"
| "groupItems t lang e PROCESS =
     [(t ''event.processName'' [], ev_processName e), (t ''event.processPath'' [], ev_processPath e),
      (js ''PID'', number_text (ev_pid e)), (js ''PPID'', number_text (ev_ppid e)),
      (t ''event.commandLine'' [], ev_commandLine e), (t ''event.user'' [], ev_userName e)]"
| "groupItems t lang e FILE =
     [(t ''event.filePath'' [], ev_filePath e), (t ''event.fileAction'' [], ev_fileAction e), (js ''File SHA-256'', ev_fileHashSha256 e)]"
| "groupItems t lang e NETWORK =
     [(js ''Remote IP'', ev_remoteIp e), (js (if lang = KO then ''Remote Domain'' else ''Remote domain''), ev_remoteDomain e),
      (js (if lang = KO then ''Remote Port'' else ''Remote port''), number_text (ev_remotePort e)), (js ''Protocol'', ev_protocol e)]"
| "groupItems t lang e DNS =
     [(js ''DNS query'', ev_dnsQuery e), (js ''DNS record type'', ev_dnsRecordType e), (js ''DNS response'', ev_dnsResponseCode e),
      (t ''event.dnsAnswers'' [], if ev_dnsAnswers e \<noteq> [] then Some (join_text (js '', '') (ev_dnsAnswers e)) else None)]"
| "groupItems t lang e HTTP_TLS =
     [(js ''L7 protocol'', ev_l7Protocol e), (js ''HTTP method'', ev_httpMethod e), (js ''HTTP host'', ev_httpHost e),
      (js ''URL'', ev_url e), (js ''HTTP status'', number_text (ev_httpStatusCode e)), (js ''HTTP user agent'', ev_httpUserAgent e),
      (js ''TLS SNI'', ev_tlsSni e), (js ''TLS version'', ev_tlsVersion e), (js ''TLS subject'', ev_tlsCertificateSubject e),
      (js ''TLS issuer'', ev_tlsCertificateIssuer e), (js ''TLS SHA-256'', ev_tlsCertificateSha256 e)]"

fun groupTitle :: "EventDetailGroup \<Rightarrow> TranslationKey" where
  "groupTitle IDENTITY = ''event.groupIdentity''"
| "groupTitle PROCESS = ''event.groupProcess''"
| "groupTitle FILE = ''event.groupFile''"
| "groupTitle NETWORK = ''event.groupNetwork''"
| "groupTitle DNS = ''event.groupDns''"
| "groupTitle HTTP_TLS = ''event.groupHttpTls''"

fun groupSubtitle :: "EventDetailGroup \<Rightarrow> TranslationKey" where
  "groupSubtitle IDENTITY = ''event.groupIdentitySubtitle''"
| "groupSubtitle PROCESS = ''event.groupProcessSubtitle''"
| "groupSubtitle FILE = ''event.groupFileSubtitle''"
| "groupSubtitle NETWORK = ''event.groupNetworkSubtitle''"
| "groupSubtitle DNS = ''event.groupDnsSubtitle''"
| "groupSubtitle HTTP_TLS = ''event.groupHttpTlsSubtitle''"

definition EventDetail :: "text_for \<Rightarrow> UserLocale \<Rightarrow> EventDto \<Rightarrow> (TranslationKey \<times> TranslationKey \<times> detail_item list) list" where
  "EventDetail t lang e = map (\<lambda>g. (groupTitle g, groupSubtitle g, groupItems t lang e g)) (eventDetailGroups e)"

section \<open>An endpoint\<close>

record CertificateDto =
  cert_fingerprint :: jsstring
  cert_sanAgentId :: jsstring
  cert_subject :: jsstring
  cert_expiresAt :: jsstring
  cert_isExpired :: bool
  cert_isRevoked :: bool
  cert_issuedAt :: jsstring
  cert_revokedAt :: "jsstring option"

datatype certificate_status = REVOKED | CERT_EXPIRED | CERT_ACTIVE

definition certificateStatus :: "CertificateDto \<Rightarrow> certificate_status" where
  "certificateStatus c = (if cert_isRevoked c then REVOKED else if cert_isExpired c then CERT_EXPIRED else CERT_ACTIVE)"

definition anomaly :: "CertificateDto \<Rightarrow> bool" where
  "anomaly c \<longleftrightarrow> cert_isRevoked c \<or> cert_isExpired c"

definition compareCertificates :: "(jsstring \<Rightarrow> jsstring \<Rightarrow> int) \<Rightarrow> CertificateDto \<Rightarrow> CertificateDto \<Rightarrow> int" where
  "compareCertificates localeCompare a b =
     (let d = of_bool (anomaly b) - of_bool (anomaly a) in if d \<noteq> 0 then d else localeCompare (cert_issuedAt b) (cert_issuedAt a))"

definition certificate_rows :: "(jsstring \<Rightarrow> jsstring \<Rightarrow> int) \<Rightarrow> CertificateDto list \<Rightarrow> CertificateDto list" where
  "certificate_rows localeCompare cs = js_sort (compareCertificates localeCompare) cs"

text \<open>The links to what the endpoint has: the paths and the parameters.\<close>

definition endpoint_links :: "int \<Rightarrow> jsstring list" where
  "endpoint_links i = [js ''/alerts?endpointId='' @ id_segment i @ js ''&status=OPEN'', js ''/incidents?endpointId='' @ id_segment i @ js ''&status=OPEN'',
     js ''/events?endpointId='' @ id_segment i]"

section \<open>Signing in\<close>

record login_page =
  lp_loading :: bool
  lp_error :: "ErrorDetails option"

definition missing_credentials :: ErrorDetails where
  "missing_credentials = \<lparr>err_status = 400, err_code = js ''VALIDATION_ERROR'', err_message = js ''Enter both login ID and password.'',
     err_retryable = False, err_details = [], err_requestId = None, err_retryAfterSeconds = None\<rparr>"

definition submit_login :: "jsstring \<Rightarrow> jsstring \<Rightarrow> login_page \<Rightarrow> login_page \<times> api_method option" where
  "submit_login loginId password p =
     (if trim loginId = [] \<or> password = [] then (p\<lparr>lp_error := Some missing_credentials\<rparr>, None)
      else (\<lparr>lp_loading = True, lp_error = None\<rparr>, Some (Login loginId password)))"

text \<open>The answer: where to go, or the error that is shown.  The state of the location may be anything a page left there.\<close>

definition intended_path :: "json option \<Rightarrow> jsstring" where
  "intended_path state =
     (case state of
        Some (JObj kvs) \<Rightarrow> (case map_of kvs (js ''intended'') of Some (JStr s) \<Rightarrow> s | _ \<Rightarrow> js ''/'')
      | _ \<Rightarrow> js ''/'')"

definition login_answered :: "json option \<Rightarrow> request_error + 'a \<Rightarrow> login_page \<Rightarrow> login_page \<times> jsstring option" where
  "login_answered state answer p =
     (case answer of
        Inr _ \<Rightarrow> (p\<lparr>lp_loading := False\<rparr>, Some (intended_path state))
      | Inl (ApiError d) \<Rightarrow> (\<lparr>lp_loading = False, lp_error = Some d\<rparr>, None)
      | Inl Aborted \<Rightarrow> (\<lparr>lp_loading = False, lp_error = None\<rparr>, None))"

section \<open>Facts\<close>

text \<open>
  Working through the queue: the alert that is shown is resolved, the queue is read again, and the page goes on to the
  alert it had found.  The queue read again has the alert resolved, or leaves it out when the filter asks for others.
\<close>

definition queue_after :: "bool \<Rightarrow> AlertDto list \<Rightarrow> int \<Rightarrow> AlertDto list" where
  "queue_after listed q c =
     (if listed then map (\<lambda>a. if alert_alertId a = c then a\<lparr>alert_status := RESOLVED\<rparr> else a) q
      else filter (\<lambda>a. alert_alertId a \<noteq> c) q)"

lemma active_after: "activeQueue (queue_after listed q c) = filter (\<lambda>a. alert_alertId a \<noteq> c) (activeQueue q)"
  by (induction q) (auto simp: activeQueue_def queue_after_def)

lemma ids_after: "distinct (map alert_alertId q) \<Longrightarrow> distinct (map alert_alertId (queue_after listed q c))"
proof (cases listed)
  case True
  have "map alert_alertId (queue_after True q c) = map alert_alertId q" by (induction q) (auto simp: queue_after_def)
  then show "distinct (map alert_alertId q) \<Longrightarrow> ?thesis" using True by simp
qed (simp add: queue_after_def distinct_map_filter)

lemma remove_one_active:
  assumes "distinct (map alert_alertId q)" "c \<in> alert_alertId ` set q"
  shows "length q = Suc (length (filter (\<lambda>a. alert_alertId a \<noteq> c) q))"
  using assms
proof (induction q)
  case (Cons a q)
  have "\<forall>b\<in>set q. alert_alertId b \<noteq> alert_alertId a" using Cons.prems(1) by (metis distinct.simps(2) imageI list.simps(9) set_map)
  then have "filter (\<lambda>b. alert_alertId b \<noteq> alert_alertId a) q = q" by (simp add: filter_id_conv)
  then show ?case using Cons by auto
qed simp

text \<open>A round by the handlers of the page: the draft is set to resolved and submitted, and the page of the next alert is opened.\<close>

definition status_in :: "AlertDto list \<Rightarrow> int \<Rightarrow> AlertStatus" where
  "status_in q c = (case List.find (\<lambda>a. alert_alertId a = c) q of Some a \<Rightarrow> alert_status a | None \<Rightarrow> RESOLVED)"

definition open_alert :: "search_params \<Rightarrow> AlertDto list \<Rightarrow> int \<Rightarrow> alert_page" where
  "open_alert ps q c = \<lparr>ap_alertId = c, ap_params = ps, ap_queue = q, ap_saved = status_in q c, ap_draft = status_in q c, ap_pending = False\<rparr>"

definition triage_round :: "bool \<Rightarrow> alert_page \<Rightarrow> alert_page" where
  "triage_round listed p =
     (case submitNext True (setDraftStatus RESOLVED p) of
        None \<Rightarrow> p
      | Some s \<Rightarrow> open_alert (ap_params p) (queue_after listed (ap_queue p) (ap_alertId p))
          (case sub_next s of Some n \<Rightarrow> n | None \<Rightarrow> ap_alertId p))"

lemma status_active:
  assumes "distinct (map alert_alertId q)" "c \<in> alert_alertId ` set (activeQueue q)"
  shows "status_in q c \<noteq> RESOLVED"
proof -
  from assms(2) obtain a where a: "a \<in> set q" "alert_alertId a = c" "alert_status a \<noteq> RESOLVED" by (auto simp: activeQueue_def)
  then obtain b where b: "List.find (\<lambda>a. alert_alertId a = c) q = Some b" by (metis (mono_tags, lifting) find_None_iff not_Some_eq)
  then have "b \<in> set q" "alert_alertId b = c" by (auto dest: find_SomeD)
  then have "b = a" using a assms(1) by (metis (no_types, lifting) distinct_map inj_onD)
  then show ?thesis using a(3) b by (simp add: status_in_def)
qed

lemma triage_round_steps:
  assumes "distinct (map alert_alertId q)" "c \<in> alert_alertId ` set (activeQueue q)"
  shows "triage_round listed (open_alert ps q c) = open_alert ps (queue_after listed q c)
    (case nextActionableAlert q c of Some a \<Rightarrow> alert_alertId a | None \<Rightarrow> c)"
  using status_active [OF assms]
  by (auto simp: triage_round_def submitNext_def submit_enabled_def setDraftStatus_def open_alert_def nextAlert_def split: option.split)

lemma triage_clears:
  assumes "distinct (map alert_alertId q)" "c \<in> alert_alertId ` set (activeQueue q)"
  shows "activeQueue (ap_queue ((triage_round listed ^^ length (activeQueue q)) (open_alert ps q c))) = []"
  using assms
proof (induction "length (activeQueue q)" arbitrary: q c)
  case (Suc n)
  let ?q = "queue_after listed q c"
  have d: "distinct (map alert_alertId (activeQueue q))" using Suc.prems(1) by (simp add: activeQueue_def distinct_map_filter)
  have n: "n = length (activeQueue ?q)" using remove_one_active [OF d Suc.prems(2)] Suc.hyps(2) by (simp add: active_after)
  have r: "(triage_round listed ^^ Suc n) (open_alert ps q c) = (triage_round listed ^^ n)
      (open_alert ps ?q (case nextActionableAlert q c of Some a \<Rightarrow> alert_alertId a | None \<Rightarrow> c))"
    by (simp only: funpow_Suc_right comp_apply triage_round_steps [OF Suc.prems])
  show ?case
  proof (cases "nextActionableAlert q c")
    case None
    then have "activeQueue ?q = []"
      using nextActionableAlert_spec(1) [OF Suc.prems(1), of c] unfolding active_after by (auto simp: activeQueue_def filter_empty_conv)
    then show ?thesis unfolding Suc.hyps(2) [symmetric] r using n by (simp add: open_alert_def)
  next
    case (Some a)
    then have "a \<in> set q \<and> alert_status a \<noteq> RESOLVED \<and> alert_alertId a \<noteq> c"
      by (rule nextActionableAlert_spec(2) [OF Suc.prems(1)])
    then have "alert_alertId a \<in> alert_alertId ` set (activeQueue ?q)" unfolding active_after by (auto simp: activeQueue_def)
    then show ?thesis
      unfolding Suc.hyps(2) [symmetric] r using Suc.hyps(1) [OF n ids_after [OF Suc.prems(1)]] n Some by simp
  qed
qed (simp add: activeQueue_def)

text \<open>Submitting moves to an alert that still needs work, with the filters of the queue.\<close>

lemma submit_moves_on:
  assumes "distinct (map alert_alertId (ap_queue p))" "submitNext canUpdate p = Some s" "alert_onSuccess p s = (ks, Some url)"
  shows "\<exists>a\<in>set (ap_queue p). alert_status a \<noteq> RESOLVED \<and> alert_alertId a \<noteq> ap_alertId p \<and> url = alertDetailUrl (alert_alertId a) (ap_params p)"
proof -
  have "sub_next s = map_option alert_alertId (nextAlert p)" using assms(2) by (auto simp: submitNext_def split: if_splits)
  then obtain a where a: "nextAlert p = Some a" "url = alertDetailUrl (alert_alertId a) (ap_params p)"
    using assms(3) by (cases "nextAlert p") (auto simp: alert_onSuccess_def split: if_splits)
  then show ?thesis using nextActionableAlert_spec(2) [OF assms(1)] by (auto simp: nextAlert_def)
qed

lemma viewer_cannot_change: "saveStatus False p = None" "submitNext False p = None"
  by (simp_all add: saveStatus_def submitNext_def save_enabled_def submit_enabled_def)

text \<open>No value of an event is left out by hiding groups.\<close>

definition with_value :: "detail_item list \<Rightarrow> detail_item list" where
  "with_value vs = filter (\<lambda>(l, v). truthy v) vs"

lemma hidden_group_empty:
  "g \<notin> set (eventDetailGroups e) \<Longrightarrow> with_value (groupItems t lang e g) = []"
  by (cases g) (auto simp: eventDetailGroups_def with_value_def some_text_def some_number_def truthy_def split: if_splits)

lemma groups_filtered: "eventDetailGroups e = filter (\<lambda>g. g \<in> set (eventDetailGroups e)) [IDENTITY, PROCESS, FILE, NETWORK, DNS, HTTP_TLS]"
  by (simp add: eventDetailGroups_def)

lemma event_values_shown:
  "with_value (concat (map (\<lambda>(title, subtitle, vs). vs) (EventDetail t lang e))) =
   with_value (concat (map (groupItems t lang e) [IDENTITY, PROCESS, FILE, NETWORK, DNS, HTTP_TLS]))"
proof -
  have c: "with_value (concat vss) = concat (map with_value vss)" for vss
    by (induction vss) (simp_all add: with_value_def)
  have "concat (map (\<lambda>g. with_value (groupItems t lang e g)) (filter (\<lambda>g. g \<in> set (eventDetailGroups e)) gs)) =
      concat (map (\<lambda>g. with_value (groupItems t lang e g)) gs)" for gs
    by (induction gs) (simp_all add: hidden_group_empty)
  then show ?thesis
    unfolding c map_map comp_def EventDetail_def prod.case by (metis groups_filtered)
qed

text \<open>Certificates that need attention come first, the newest of each kind first.\<close>

lemma compareCertificates_comparator:
  assumes "comparator localeCompare"
  shows "comparator (compareCertificates localeCompare)"
proof
  fix x y z :: CertificateDto
  show "compareCertificates localeCompare x y \<le> 0 \<or> compareCertificates localeCompare y x \<le> 0"
    using comparator.total [OF assms, of "cert_issuedAt y" "cert_issuedAt x"]
    by (cases "anomaly x"; cases "anomaly y") (simp_all add: compareCertificates_def)
  show "compareCertificates localeCompare x z \<le> 0"
    if "compareCertificates localeCompare x y \<le> 0" "compareCertificates localeCompare y z \<le> 0"
    using that comparator.trans [OF assms, of "cert_issuedAt z" "cert_issuedAt y" "cert_issuedAt x"]
    by (cases "anomaly x"; cases "anomaly y"; cases "anomaly z") (simp_all add: compareCertificates_def)
qed

lemma certificates_in_order:
  assumes "comparator localeCompare"
  shows "mset (certificate_rows localeCompare cs) = mset cs"
    "sorted_wrt (\<lambda>a b. (anomaly b \<longrightarrow> anomaly a) \<and> (anomaly a = anomaly b \<longrightarrow> localeCompare (cert_issuedAt b) (cert_issuedAt a) \<le> 0))
       (certificate_rows localeCompare cs)"
proof -
  show "mset (certificate_rows localeCompare cs) = mset cs" by (simp add: certificate_rows_def)
  have "sorted_wrt (\<lambda>a b. compareCertificates localeCompare a b \<le> 0) (certificate_rows localeCompare cs)"
    unfolding certificate_rows_def by (rule comparator.sorted_js_sort [OF compareCertificates_comparator [OF assms]])
  then show "sorted_wrt (\<lambda>a b. (anomaly b \<longrightarrow> anomaly a) \<and> (anomaly a = anomaly b \<longrightarrow> localeCompare (cert_issuedAt b) (cert_issuedAt a) \<le> 0))
       (certificate_rows localeCompare cs)"
    by (rule sorted_wrt_mono_rel [rotated]) (auto simp: compareCertificates_def split: if_splits)
qed

text \<open>A selection belongs to the incident it was made in.\<close>

lemma selection_of_incident: "current_selection j (setSelection i v) = (if j = i then Some v else None)"
  by (simp add: current_selection_def setSelection_def)

text \<open>The button of a row selects what marks the row.\<close>

lemma timeline_row_selects:
  assumes "i < length rows" "tr_select (AttackTimeline t rows (Some d) selection ! i) = Some s"
  shows "tr_selected (AttackTimeline t rows (Some d) (Some s) ! i)"
  using assms timeline_selection_matches by (simp add: AttackTimeline_def)

section \<open>The cache of answers\<close>

text \<open>
  What the query client promises, as far as the pages depend on it.  A query is \<open>active\<close> while a page that uses it is shown.
  Invalidating reads the active ones again and marks the others; with \<open>refetchOnMount: false\<close>, the option the
  program sets, a page that is shown again gets the answer in the cache, if there is one.
\<close>

record 'd cache_entry =
  ce_data :: 'd
  ce_stale :: bool

type_synonym 'd query_cache = "query_key \<rightharpoonup> 'd cache_entry"

definition documented_invalidate ::
  "(query_key list \<Rightarrow> query_key set \<Rightarrow> (query_key \<Rightarrow> 'd) \<Rightarrow> 'd query_cache \<Rightarrow> 'd query_cache) \<Rightarrow> bool" where
  "documented_invalidate invalidate \<longleftrightarrow> (\<forall>ks active server cache k.
     invalidate ks active server cache k =
       (if k \<notin> set ks \<or> cache k = None then cache k
        else if k \<in> active then Some \<lparr>ce_data = server k, ce_stale = False\<rparr>
        else map_option (\<lambda>e. e\<lparr>ce_stale := True\<rparr>) (cache k)))"

definition shown_on_mount :: "(query_key \<Rightarrow> 'd) \<Rightarrow> 'd query_cache \<Rightarrow> query_key \<Rightarrow> 'd" where
  "shown_on_mount server cache k = (case cache k of Some e \<Rightarrow> ce_data e | None \<Rightarrow> server k)"

text \<open>The queries the detail page of an alert shows.\<close>

definition alert_page_queries :: "int \<Rightarrow> query_key set" where
  "alert_page_queries i = {(''alert'', Some i), (''alert-triage-queue'', None)}"

lemma after_saving:
  assumes "documented_invalidate invalidate" "cache k = Some e" "k \<in> set (invalidateAlertData i)"
  shows "shown_on_mount server (invalidate (invalidateAlertData i) (alert_page_queries i) server cache) k =
    (if k \<in> alert_page_queries i then server k else ce_data e)"
  using assms by (cases k) (simp add: documented_invalidate_def shown_on_mount_def)

end
