(* ===== verification/OverviewPages.thy ===== *)
theory OverviewPages
  imports IntelligenceWorkspace DetailPages ConsoleShell
begin

text \<open>
  The overview (\<open>pages/OverviewPage.tsx\<close>): its requests, the refresh and what is shown of their answers; and the
  routes of the program (\<open>App.tsx\<close>) with the links that lead to them.
\<close>

section \<open>Requests of the overview\<close>

definition readOverviewEndpointId :: "search_params \<Rightarrow> int option" where
  "readOverviewEndpointId ps = positiveInteger (params_get ps (js ''endpointId''))"

definition scope_ids :: "search_params \<Rightarrow> query_record" where
  "scope_ids ps = (case readOverviewEndpointId ps of Some i \<Rightarrow> id_list_member [i] | None \<Rightarrow> [])"

definition scopedTimeQuery :: "date_parser \<Rightarrow> search_params \<Rightarrow> query_record" where
  "scopedTimeQuery dp ps = time_query (readTimeFilter dp ps) @ optional_id ''endpointId'' (readOverviewEndpointId ps)"

definition summaryQuery :: "date_parser \<Rightarrow> search_params \<Rightarrow> string \<Rightarrow> query_record" where
  "summaryQuery dp ps eventSource = scopedTimeQuery dp ps @
     [(js ''interval'', QText (interval_name (tf_interval (readTimeFilter dp ps)))), (js ''eventSource'', QText (js eventSource))]"

definition endpointRankingQuery :: "search_params \<Rightarrow> query_record" where
  "endpointRankingQuery ps = [(js ''page'', QNumber (Num 1)), (js ''size'', QNumber (Num 5))] @ scope_ids ps @
     [(js ''sortBy'', QText (js ''riskScore'')), (js ''sortOrder'', QText (js ''desc''))]"

definition overviewIncidentQuery :: "date_parser \<Rightarrow> search_params \<Rightarrow> query_record" where
  "overviewIncidentQuery dp ps = scopedTimeQuery dp ps @
     [(js ''status'', QText (js ''OPEN'')), (js ''page'', QNumber (Num 1)), (js ''size'', QNumber (Num 5)), (js ''sortOrder'', QText (js ''desc''))]"

definition overview_requests :: "date_parser \<Rightarrow> search_params \<Rightarrow> api_method list" where
  "overview_requests dp ps =
     (if tf_valid (readTimeFilter dp ps)
      then [Dashboard (summaryQuery dp ps ''ROLLUP''), EndpointSummary (scopedTimeQuery dp ps), Endpoints (endpointRankingQuery ps),
            Incidents (overviewIncidentQuery dp ps)] else []) @
     (if tf_preset (readTimeFilter dp ps) = CUSTOM then [DashboardAvailability (scope_ids ps)] else [])"

text \<open>The manual refresh: one at a time, with the live events in place of the rollup.\<close>

definition refreshManually :: "date_parser \<Rightarrow> search_params \<Rightarrow> bool \<Rightarrow> bool \<times> api_method list" where
  "refreshManually dp ps manualRefreshing =
     (if manualRefreshing then (True, [])
      else (True, [Dashboard (summaryQuery dp ps ''LIVE''), EndpointSummary (scopedTimeQuery dp ps), Endpoints (endpointRankingQuery ps),
                   Incidents (overviewIncidentQuery dp ps)] @
                  (if tf_preset (readTimeFilter dp ps) = CUSTOM then [DashboardAvailability (scope_ids ps)] else [])))"

section \<open>What the overview shows\<close>

record overview_state =
  ov_preset :: TimePreset
  ov_valid :: bool
  ov_dashboard :: query_state
  ov_endpoints :: query_state
  ov_ranking :: query_state
  ov_incidents :: query_state
  ov_counts :: "dashboard_counts option"
  ov_live_error :: "request_error option"

definition panel_queries :: "overview_state \<Rightarrow> query_state list" where
  "panel_queries v = [ov_dashboard v, ov_endpoints v, ov_ranking v, ov_incidents v]"

definition rollupNotReady :: "overview_state \<Rightarrow> bool" where
  "rollupNotReady v = (case query_error (ov_dashboard v) of Some e \<Rightarrow> isRollupNotReadyError e | None \<Rightarrow> False)"

definition overview_unavailable :: "overview_state \<Rightarrow> bool" where
  "overview_unavailable v \<longleftrightarrow> ov_preset v = CUSTOM \<and> ov_valid v \<and>
     (list_ex unavailable_error (panel_queries v) \<or> (case ov_counts v of Some d \<Rightarrow> \<not> dashboardHasEvidenceInRange d | None \<Rightarrow> False))"

definition totalFailure :: "overview_state \<Rightarrow> bool" where
  "totalFailure v = list_all (\<lambda>r. failed_without_data r \<and> \<not> unavailable_error r) (panel_queries v)"

definition hasPanelData :: "overview_state \<Rightarrow> bool" where
  "hasPanelData v = list_ex has_data (panel_queries v)"

definition rollup_error :: "query_state \<Rightarrow> bool" where
  "rollup_error r = (case query_error r of Some e \<Rightarrow> isRollupNotReadyError e | None \<Rightarrow> False)"

definition partialFailure :: "overview_state \<Rightarrow> bool" where
  "partialFailure v \<longleftrightarrow> \<not> overview_unavailable v \<and> hasPanelData v \<and>
     list_ex (\<lambda>r. failed_without_data r \<and> \<not> unavailable_error r \<and> \<not> rollup_error r) (panel_queries v)"

definition staleError :: "overview_state \<Rightarrow> request_error option" where
  "staleError v = or_else (ov_live_error v)
     (Option.bind (List.find (\<lambda>r. is_refetch_error r \<and> \<not> unavailable_error r) [ov_dashboard v, ov_endpoints v]) query_error)"

definition initialError :: "overview_state \<Rightarrow> request_error option" where
  "initialError v = (if totalFailure v then Option.bind (List.find (\<lambda>r. query_error r \<noteq> None) (panel_queries v)) query_error else None)"

datatype overview_part =
    OverviewInvalid | OverviewPartial | OverviewStale request_error | OverviewError request_error | OverviewUnavailable | OverviewWorkspace

definition OverviewPageContent :: "overview_state \<Rightarrow> overview_part list" where
  "OverviewPageContent v =
     (if \<not> ov_valid v \<and> ov_preset v \<noteq> CUSTOM then [OverviewInvalid] else []) @
     (if partialFailure v then [OverviewPartial] else []) @
     (case staleError v of Some e \<Rightarrow> if hasPanelData v then [OverviewStale e] else [] | None \<Rightarrow> []) @
     (if rollupNotReady v \<and> \<not> has_data (ov_dashboard v) then [OverviewError (the (query_error (ov_dashboard v)))]
      else (case initialError v of Some e \<Rightarrow> if \<not> overview_unavailable v then [OverviewError e] else [] | None \<Rightarrow> [])) @
     (if overview_unavailable v then [OverviewUnavailable] else []) @
     (if ov_valid v \<and> \<not> totalFailure v \<and> \<not> overview_unavailable v then [OverviewWorkspace] else [])"

section \<open>Routes\<close>

datatype segment_pattern = Literal string | Parameter

datatype route_page =
    LoginRoute | OverviewRoute | DashboardsRoute | AlertsRoute | AlertRoute | IncidentsRoute | IncidentRoute | EndpointsRoute
  | EndpointRoute | EventsRoute | EventRoute | IntelligenceRoute | OperationsRoute | ArchivesRoute

definition ROUTES :: "(segment_pattern list \<times> route_page) list" where
  "ROUTES =
     [([Literal ''login''], LoginRoute), ([], OverviewRoute), ([Literal ''dashboards''], DashboardsRoute),
      ([Literal ''alerts''], AlertsRoute), ([Literal ''alerts'', Parameter], AlertRoute),
      ([Literal ''incidents''], IncidentsRoute), ([Literal ''incidents'', Parameter], IncidentRoute),
      ([Literal ''endpoints''], EndpointsRoute), ([Literal ''endpoints'', Parameter], EndpointRoute),
      ([Literal ''events''], EventsRoute), ([Literal ''events'', Parameter], EventRoute),
      ([Literal ''intelligence''], IntelligenceRoute), ([Literal ''operations''], OperationsRoute),
      ([Literal ''operations'', Literal ''archives''], ArchivesRoute)]"

definition path_segments :: "jsstring \<Rightarrow> jsstring list" where
  "path_segments path = filter (\<lambda>s. s \<noteq> []) (split_at 47 path)"

text \<open>
  A path is an instance of a route when its literal segments are those of the route; a parameter stands for any segment.
  No path is an instance of two routes (\<open>routes_unambiguous\<close>), so the order in which a router tries them does not
  matter.  A path that is an instance of none leads to the overview.
\<close>

definition segment_instance :: "segment_pattern \<Rightarrow> jsstring \<Rightarrow> bool" where
  "segment_instance p s = (case p of Literal l \<Rightarrow> s = js l | Parameter \<Rightarrow> True)"

definition route_of :: "jsstring \<Rightarrow> (route_page \<times> jsstring list) option" where
  "route_of path =
     (let ss = path_segments path
      in map_option (\<lambda>(ps, pg). (pg, map snd (filter (\<lambda>(p, s). p = Parameter) (zip ps ss))))
           (List.find (\<lambda>(ps, pg). list_all2 segment_instance ps ss) ROUTES))"

definition needs_session :: "route_page \<Rightarrow> bool" where
  "needs_session pg \<longleftrightarrow> pg \<noteq> LoginRoute"

text \<open>The path of an address: what precedes the query.\<close>

definition path_of :: "jsstring \<Rightarrow> jsstring" where
  "path_of url = takeWhile (\<lambda>c. c \<noteq> 63) url"

section \<open>Facts\<close>

definition overlapping :: "segment_pattern \<Rightarrow> segment_pattern \<Rightarrow> bool" where
  "overlapping p q = (case (p, q) of (Literal a, Literal b) \<Rightarrow> a = b | _ \<Rightarrow> True)"

lemma one_instance: "segment_instance p s \<Longrightarrow> segment_instance q s \<Longrightarrow> overlapping p q"
  by (simp add: segment_instance_def overlapping_def split: segment_pattern.splits)

lemma common_instance: "list_all2 segment_instance ps ss \<Longrightarrow> list_all2 segment_instance qs ss \<Longrightarrow> list_all2 overlapping ps qs"
proof (induction ps ss arbitrary: qs rule: list_all2_induct)
  case (Cons p ps s ss)
  then show ?case by (auto simp: list_all2_Cons2 intro: one_instance)
qed simp

lemma routes_apart: "list_all (\<lambda>a. list_all (\<lambda>b. list_all2 overlapping (fst a) (fst b) \<longrightarrow> a = b) ROUTES) ROUTES"
  by code_simp

lemma routes_unambiguous:
  assumes "a \<in> set ROUTES" "b \<in> set ROUTES" "list_all2 segment_instance (fst a) ss" "list_all2 segment_instance (fst b) ss"
  shows "a = b"
  using routes_apart common_instance [OF assms(3,4)] assms(1,2) by (auto simp: list_all_iff)

lemma digit_segment: "47 \<notin> set (show_int i)" "63 \<notin> set (show_int i)"
  using show_nat_digits by (auto simp: show_int_def is_digit_def dest!: show_nat_digits)

lemma path_of_query: "63 \<notin> set p \<Longrightarrow> path_of (p @ js ''?'' @ q) = p" "63 \<notin> set p \<Longrightarrow> path_of p = p"
  by (auto simp: path_of_def js_def takeWhile_append)

lemma two_segments:
  assumes "47 \<notin> set a" "47 \<notin> set b" "a \<noteq> []" "b \<noteq> []"
  shows "path_segments (js ''/'' @ a @ js ''/'' @ b) = [a, b]"
  using assms split_at_append [of 47 a b] split_at_none [of 47 b] by (simp add: path_segments_def js_def)

text \<open>The id of an object in the address of its page is the id the page reads.\<close>

lemma object_route:
  assumes "0 < i" "i < 2 ^ 53" "(name, pg) \<in> {(''alerts'', AlertRoute), (''incidents'', IncidentRoute), (''endpoints'', EndpointRoute)}"
  shows "route_of (js ''/'' @ js name @ js ''/'' @ id_segment i) = Some (pg, [id_segment i])" "route_id (id_segment i) = Some i"
proof -
  have n: "id_segment i = show_int i" using assms(1,2) by (simp add: id_segment_def js_String_int)
  have "47 \<notin> set (js name)" "js name \<noteq> []" using assms(3) by (auto simp: js_def)
  then have "path_segments (js ''/'' @ js name @ js ''/'' @ id_segment i) = [js name, show_int i]"
    unfolding n using digit_segment(1) by (intro two_segments) simp_all
  then show "route_of (js ''/'' @ js name @ js ''/'' @ id_segment i) = Some (pg, [id_segment i])"
    using assms(3) by (auto simp: route_of_def ROUTES_def segment_instance_def n)
  show "route_id (id_segment i) = Some i" using positiveInteger_show [OF assms(1,2)] by (simp add: route_id_def n)
qed

text \<open>With an accepted range the overview shows the workspace, the notice that there is no data, or an error, and only one of them is its main part.\<close>

definition documented_overview :: "overview_state \<Rightarrow> bool" where
  "documented_overview v \<longleftrightarrow> list_all documented_state (panel_queries v) \<and> (ov_counts v \<noteq> None \<longleftrightarrow> has_data (ov_dashboard v))"

lemma overview_total_failure:
  assumes "documented_overview v" "totalFailure v"
  shows "\<not> overview_unavailable v" "\<exists>e. OverviewError e \<in> set (OverviewPageContent v)" "OverviewWorkspace \<notin> set (OverviewPageContent v)"
proof -
  have f: "failed_without_data (ov_dashboard v)" "\<not> list_ex unavailable_error (panel_queries v)"
    using assms(2) by (auto simp: totalFailure_def panel_queries_def)
  then show u: "\<not> overview_unavailable v"
    using assms(1) by (auto simp: overview_unavailable_def documented_overview_def failed_without_data_def split: option.splits)
  obtain e where "query_error (ov_dashboard v) = Some e" using f(1) by (auto simp: failed_without_data_def)
  then have "initialError v = Some e" using assms(2) by (simp add: initialError_def panel_queries_def)
  then show "\<exists>e. OverviewError e \<in> set (OverviewPageContent v)" using u by (auto simp: OverviewPageContent_def)
  show "OverviewWorkspace \<notin> set (OverviewPageContent v)"
    using assms(2) by (auto simp: OverviewPageContent_def split: option.splits if_splits)
qed

lemma overview_main_part:
  assumes "documented_overview v" "ov_valid v"
  shows "(OverviewWorkspace \<in> set (OverviewPageContent v) \<longleftrightarrow> \<not> totalFailure v \<and> \<not> overview_unavailable v) \<and>
    (OverviewUnavailable \<in> set (OverviewPageContent v) \<longleftrightarrow> overview_unavailable v) \<and>
    (totalFailure v \<longrightarrow> \<not> overview_unavailable v \<and> (\<exists>e. OverviewError e \<in> set (OverviewPageContent v)))"
proof -
  have "OverviewWorkspace \<in> set (OverviewPageContent v) \<longleftrightarrow> \<not> totalFailure v \<and> \<not> overview_unavailable v"
    using assms(2) by (auto simp: OverviewPageContent_def split: option.splits if_splits)
  moreover have "OverviewUnavailable \<in> set (OverviewPageContent v) \<longleftrightarrow> overview_unavailable v"
    by (auto simp: OverviewPageContent_def split: option.splits if_splits)
  ultimately show ?thesis using overview_total_failure [OF assms(1)] by blast
qed

text \<open>A refresh in progress sends nothing more; otherwise it asks for what the page shows, with live events.\<close>

lemma refresh_requests:
  assumes "tf_valid (readTimeFilter dp ps)"
  shows "refreshManually dp ps True = (True, [])"
    "tl (snd (refreshManually dp ps False)) = tl (overview_requests dp ps)"
    "hd (snd (refreshManually dp ps False)) = Dashboard (summaryQuery dp ps ''LIVE'')"
  using assms by (simp_all add: refreshManually_def overview_requests_def)

end
