(* ===== verification/IncidentWorkbench.thy ===== *)
theory IncidentWorkbench
  imports DetailPages
begin

text \<open>
  The graph of an incident beside its evidence (\<open>components/IncidentInvestigation.tsx\<close>): the counts of the legend, when the
  table takes the place of the graph, what is said of the selection, the rows of the table and the links to the records.
\<close>

section \<open>Nodes\<close>

definition NODE_TYPES :: "InvestigationNodeType list" where
  "NODE_TYPES = [INCIDENT_NODE, ALERT_NODE, EVENT_NODE, PROCESS_NODE, DESTINATION_NODE]"

text \<open>Labels in the language of the page; a text that cannot be looked up stops the page.\<close>

fun localized_nodes :: "translator \<Rightarrow> InvestigationNodeDto list \<Rightarrow> js_error + InvestigationNodeDto list" where
  "localized_nodes t [] = Inr []"
| "localized_nodes t (n # ns) =
     (case detectionTitle t (inode_label n) None of
        Inl e \<Rightarrow> Inl e
      | Inr l \<Rightarrow> (case localized_nodes t ns of Inl e \<Rightarrow> Inl e | Inr ms \<Rightarrow> Inr (n\<lparr>inode_label := l\<rparr> # ms)))"

definition node_counts :: "InvestigationNodeDto list \<Rightarrow> (InvestigationNodeType \<times> nat) list" where
  "node_counts ns = map (\<lambda>ty. (ty, length (filter (\<lambda>n. inode_nodeType n = ty) ns))) NODE_TYPES"

definition showGraph :: "bool \<Rightarrow> IncidentInvestigationDto \<Rightarrow> bool" where
  "showGraph graphEnabled d \<longleftrightarrow> graphEnabled \<and> \<not> graphRequiresFallback d"

definition fallback_title :: "bool \<Rightarrow> IncidentInvestigationDto \<Rightarrow> TranslationKey" where
  "fallback_title enabled d =
     (if \<not> enabled then ''incident.graphDisabled'' else if length (inv_nodes d) = 0 then ''incident.graphEmpty'' else ''incident.graphIncomplete'')"

section \<open>The selection\<close>

fun relationLabel :: "InvestigationRelation \<Rightarrow> TranslationKey" where
  "relationLabel CONTAINS = ''incident.relation.contains''"
| "relationLabel TRIGGERED_BY = ''incident.relation.triggeredBy''"
| "relationLabel PARENT_OF = ''incident.relation.parentOf''"
| "relationLabel CONNECTED_TO = ''incident.relation.connectedTo''"

definition node_label :: "IncidentInvestigationDto \<Rightarrow> jsstring \<Rightarrow> jsstring" where
  "node_label d i = (case List.find (\<lambda>n. inode_nodeId n = i) (inv_nodes d) of Some n \<Rightarrow> inode_label n | None \<Rightarrow> i)"

datatype selected_context = NoContext | NodeContext InvestigationNodeDto | RelationContext InvestigationEdgeDto jsstring jsstring

definition SelectedContext :: "IncidentInvestigationDto \<Rightarrow> InvestigationSelection option \<Rightarrow> selected_context" where
  "SelectedContext d selection =
     (case (selectedNode selection d, selectedEdge selection d) of
        (Some n, _) \<Rightarrow> NodeContext n
      | (None, Some e) \<Rightarrow> RelationContext e (node_label d (iedge_sourceNodeId e)) (node_label d (iedge_targetNodeId e))
      | (None, None) \<Rightarrow> NoContext)"

definition investigationWarning :: "text_for \<Rightarrow> jsstring \<Rightarrow> jsstring \<Rightarrow> jsstring" where
  "investigationWarning t code fallback =
     (if code = js ''ARCHIVE_NOT_READY'' then t ''incident.warningArchiveNotReady'' []
      else if code = js ''EVENT_NOT_FOUND'' then t ''incident.warningEventNotFound'' [] else fallback)"

section \<open>Links to the records\<close>

definition NodeLinks :: "InvestigationNodeDto \<Rightarrow> js_error + jsstring list" where
  "NodeLinks n =
     (let incident = (case inode_incidentId n of Some i \<Rightarrow> [js ''/incidents/'' @ id_segment i] | None \<Rightarrow> []);
          alert = (case inode_alertId n of Some i \<Rightarrow> [js ''/alerts/'' @ id_segment i] | None \<Rightarrow> []);
          endpoint = (case inode_endpointId n of Some i \<Rightarrow> [js ''/endpoints/'' @ id_segment i] | None \<Rightarrow> [])
      in case (inode_eventId n, inode_endpointId n, inode_occurredAt n) of
           (Some e, Some i, Some time) \<Rightarrow>
             if e = [] \<or> time = [] then Inr (incident @ alert @ endpoint)
             else map_sum id (\<lambda>link. incident @ alert @ [link] @ endpoint) (event_link e i time)
         | _ \<Rightarrow> Inr (incident @ alert @ endpoint))"

definition EvidenceLinks :: "IncidentInvestigationDto \<Rightarrow> InvestigationEdgeDto \<Rightarrow> js_error + jsstring list" where
  "EvidenceLinks d e =
     (let eventNode = List.find (\<lambda>n. truthy (inode_eventId n) \<and> inode_eventId n = iedge_eventId e) (inv_nodes d);
          alert = (case iedge_alertId e of Some i \<Rightarrow> [js ''/alerts/'' @ id_segment i] | None \<Rightarrow> []);
          incident = (case iedge_incidentId e of Some i \<Rightarrow> [js ''/incidents/'' @ id_segment i] | None \<Rightarrow> [])
      in case (iedge_eventId e, eventNode) of
           (Some ev, Some n) \<Rightarrow>
             (case (inode_endpointId n, inode_occurredAt n) of
                (Some i, Some time) \<Rightarrow> if ev = [] \<or> time = [] then Inr (alert @ incident)
                                      else map_sum id (\<lambda>link. [link] @ alert @ incident) (event_link ev i time)
              | _ \<Rightarrow> Inr (alert @ incident))
         | _ \<Rightarrow> Inr (alert @ incident))"

section \<open>The table\<close>

record evidence_row =
  er_edge :: jsstring
  er_selected :: bool
  er_marked :: bool
  er_source :: jsstring
  er_target :: jsstring
  er_links :: "js_error + jsstring list"

text \<open>The map of the nodes keeps the last of those with the same id.\<close>

definition label_in :: "(jsstring, InvestigationNodeDto) jsmap \<Rightarrow> jsstring \<Rightarrow> jsstring" where
  "label_in nodeById i = (case map_get nodeById i of Some n \<Rightarrow> inode_label n | None \<Rightarrow> i)"

definition EvidenceTable :: "IncidentInvestigationDto \<Rightarrow> InvestigationSelection option \<Rightarrow> evidence_row list" where
  "EvidenceTable d selection =
     (let nodeById = map_from (map (\<lambda>n. (inode_nodeId n, n)) (inv_nodes d)); selectedIds = selectionNodeIds selection d
      in map (\<lambda>e.
           let selected = (selection = Some (SelectedEdge (iedge_edgeId e)));
               connected = (iedge_sourceNodeId e \<in> set selectedIds \<or> iedge_targetNodeId e \<in> set selectedIds)
           in \<lparr>er_edge = iedge_edgeId e, er_selected = selected, er_marked = (selected \<or> connected),
               er_source = label_in nodeById (iedge_sourceNodeId e), er_target = label_in nodeById (iedge_targetNodeId e),
               er_links = EvidenceLinks d e\<rparr>) (inv_edges d))"

fun node_type_name :: "InvestigationNodeType \<Rightarrow> jsstring" where
  "node_type_name INCIDENT_NODE = js ''INCIDENT''"
| "node_type_name ALERT_NODE = js ''ALERT''"
| "node_type_name EVENT_NODE = js ''EVENT''"
| "node_type_name PROCESS_NODE = js ''PROCESS''"
| "node_type_name DESTINATION_NODE = js ''DESTINATION''"

text \<open>\<open>format\<close> prints a time in the language of the page.\<close>

definition nodeDefinitionItems :: "text_for \<Rightarrow> (jsstring \<Rightarrow> jsstring) \<Rightarrow> InvestigationNodeDto \<Rightarrow> detail_item list" where
  "nodeDefinitionItems t format n =
     [(t ''incident.nodeType'' [], Some (node_type_name (inode_nodeType n))),
      (js ''Endpoint'', number_text (inode_endpointId n)), (js ''PID'', number_text (inode_pid n)),
      (t ''incident.process'' [], inode_processName n), (t ''incident.destination'' [], inode_destination n),
      (t ''incident.protocol'' [], inode_protocol n), (t ''incident.observedAt'' [], map_option format (inode_occurredAt n)),
      (js ''Risk'', map_option (\<lambda>r. js_String (Num r)) (inode_riskScore n))]"

section \<open>Facts\<close>

lemma node_counts_total: "sum_list (map snd (node_counts ns)) = length ns"
proof (induction ns)
  case (Cons n ns)
  then show ?case by (cases "inode_nodeType n") (simp_all add: node_counts_def NODE_TYPES_def)
qed (simp add: node_counts_def NODE_TYPES_def)

lemma localized_nodes_same:
  "localized_nodes t ns = Inr ms \<Longrightarrow> map (\<lambda>n. n\<lparr>inode_label := []\<rparr>) ms = map (\<lambda>n. n\<lparr>inode_label := []\<rparr>) ns"
  by (induction ns arbitrary: ms) (auto split: sum.splits)

text \<open>One row for each relationship; the row of the selected one is marked, and no other is selected when ids differ.\<close>

lemma evidence_rows: "map er_edge (EvidenceTable d selection) = map iedge_edgeId (inv_edges d)"
  by (simp add: EvidenceTable_def Let_def comp_def)

lemma selected_rows_marked: "r \<in> set (EvidenceTable d selection) \<Longrightarrow> er_selected r \<Longrightarrow> er_marked r \<and> selection = Some (SelectedEdge (er_edge r))"
  by (auto simp: EvidenceTable_def Let_def)

lemma node_selection_marks:
  assumes "i \<in> inode_nodeId ` set (inv_nodes d)"
  shows "map er_marked (EvidenceTable d (Some (SelectedNode i))) = map (\<lambda>e. iedge_sourceNodeId e = i \<or> iedge_targetNodeId e = i) (inv_edges d)"
  by (simp add: EvidenceTable_def Let_def selectionNodeIds_def comp_def)

end
