(* ===== verification/PageProperties.thy ===== *)
theory PageProperties
  imports OverviewPages IncidentWorkbench SessionProperties
begin

text \<open>
  Properties of the pages: what the lists request, how their controls behave, the links between pages, the triage of alerts,
  the archive and what is shown of a query.
\<close>

section \<open>Lists\<close>


definition sample_order :: date_parser where
  "sample_order s = (if s = js ''a'' then Some 1 else if s = js ''b'' then Some 2 else None)"








section \<open>From a relationship to its evidence\<close>

text \<open>
  C15. The links of a relationship in the topology open a list that accepts the address: read back from the link,
  the parameters make the page of events or alerts ask for exactly the endpoint and the range of the topology.
\<close>

theorem evidence_link_opens:
  assumes "0 < i" "i < 2 ^ 53" "topo_from t \<noteq> []" "topo_to t \<noteq> []" "parsed_after dp (topo_to t) (topo_from t)"
    and "text_units (topo_from t)" "text_units (topo_to t)"
    and "(route, pg, shown_page) \<in> {(''events'', EventsPage, EventsRoute), (''alerts'', AlertsPage, AlertsRoute)}"
  shows "let url = evidenceListUrl route i t; ps = params_of_string (drop (length (path_of url)) url)
    in route_of (path_of url) = Some (shown_page, []) \<and> \<not> page_invalid dp pg ps \<and>
      map (received (page_query dp pg ps)) [js ''endpointId'', js ''from'', js ''to''] = [[id_text i], [topo_from t], [topo_to t]]"
proof -
  let ?s = "params_to_string (evidence_params i t)" and ?p = "js ''/'' @ js route"
  have q: "63 \<notin> set ?p" using assms(8) by (auto simp: js_def)
  have path: "path_of (evidenceListUrl route i t) = ?p" using path_of_query(1) [OF q] by (simp add: evidenceListUrl_def)
  then have "drop (length (path_of (evidenceListUrl route i t))) (evidenceListUrl route i t) = js ''?'' @ ?s" by (simp add: evidenceListUrl_def)
  moreover have "params_of_string (js ''?'' @ ?s) = evidence_params i t"
    using params_of_string_to_string(2) [OF evidence_params_ok [OF assms(6,7)]] by (simp add: js_def)
  moreover have "pg = EventsPage \<or> pg = AlertsPage" using assms(8) by auto
  moreover have "route_of ?p = Some (shown_page, [])"
    using assms(8) by (auto simp: route_of_def path_segments_def ROUTES_def segment_instance_def js_def)
  ultimately show ?thesis
    using path evidence_accepted [OF assms(1-5)] evidence_received [OF assms(1-7)] by (simp add: Let_def)
qed

definition sample_topology :: EgressTopologyDto where
  "sample_topology = \<lparr>topo_from = js ''a'', topo_to = js ''b'', topo_nodes = [], topo_edges = []\<rparr>"

theorem evidence_link_opens_witness:
  "let url = evidenceListUrl ''events'' 7 sample_topology; ps = params_of_string (drop (length (path_of url)) url)
   in route_of (path_of url) = Some (EventsRoute, []) \<and> \<not> page_invalid sample_order EventsPage ps \<and>
     map (received (page_query sample_order EventsPage ps)) [js ''endpointId'', js ''from'', js ''to''] =
       [[id_text 7], [topo_from sample_topology], [topo_to sample_topology]]"
  by (rule evidence_link_opens) (simp_all add: sample_topology_def sample_order_def parsed_after_def)

section \<open>Triage\<close>




section \<open>The archive\<close>

text \<open>
  C20. A restore is started only by a user who may change data, and it asks for what the list shows: the same
  endpoints, at least one, each once and positive, and the same range, not empty and of at most 31 days.
\<close>

theorem restore_within_scope:
  assumes "start_restore dp user pending ps = Some m"
  shows "writeAllowed user \<and> (\<exists>ids f t.
    m = StartRestore (JObj [(js ''endpointIds'', JArr (map (\<lambda>i. JNum (Num (of_int i))) ids)), (js ''from'', JStr f), (js ''to'', JStr t)]) \<and>
    map_of (archive_query ps) (js ''endpointIds'') = Some (QNumbers (map (\<lambda>i. Num (of_int i)) ids)) \<and>
    map_of (archive_query ps) (js ''from'') = Some (QText f) \<and> map_of (archive_query ps) (js ''to'') = Some (QText t) \<and>
    ids \<noteq> [] \<and> distinct ids \<and> (\<forall>i\<in>set ids. 0 < i) \<and>
    (\<exists>a b. dp f = Some a \<and> dp t = Some b \<and> a < b \<and> b - a \<le> 31 * 86400000))"
proof -
  have "writeAllowed user" using assms by (simp add: start_restore_def split: if_splits)
  with start_restore_scope [OF assms] show ?thesis by (intro conjI)
qed

definition sample_scope :: search_params where
  "sample_scope = [(js ''endpointIds'', js ''7''), (js ''from'', js ''a''), (js ''to'', js ''b'')]"

lemma sample_restore: "start_restore sample_order (Some sample_user) False sample_scope = Some (StartRestore (restore_request sample_scope))"
proof -
  have "js_Number (js ''7'') = Num 7"
    using js_Number_digits [of "js ''7''"] by (simp add: js_def is_digit_def decimal_value_def digits_value_def)
  then have "positiveInteger (Some (js ''7'')) = Some 7" by (simp add: positiveInteger_def is_integer_def)
  moreover have "trim (js ''7'') = js ''7''" by (simp add: trim_def js_def is_white_space_def)
  moreover have "split_at 44 (js ''7'') = [js ''7'']" by (simp add: js_def)
  moreover have "id_token (js ''7'')" by (simp add: id_token_def js_def is_white_space_def is_digit_def)
  ultimately show ?thesis
    by (simp add: start_restore_def archive_ready_def archive_scope_of_def sample_scope_def stringParam_def params_get_def endpointIdsValid_def
        archive_ids_def validRange_def sample_order_def hasInvalidPagination_def hasInvalidPositiveInteger_def writeAllowed_def sample_user_def
        canMutate_def List.map_filter_def set_from_def set_add_def)
qed

theorem restore_within_scope_witness: "writeAllowed (Some sample_user)"
  using restore_within_scope [OF sample_restore] by simp

text \<open>
  A date that is accepted comes back as it was typed: the field shows, for the time it committed, the text
  without the white space around it.
\<close>

lemma archive_date_round_trip:
  assumes "commit_date dp offset v = Inr (bad, Some (Some u))"
  shows "date_field_text dp offset u = Inr (trim v) \<and> \<not> bad"
  using committed_date_shown [OF assms] assms
  by (auto simp: commit_date_def map_sum_def split: if_splits sum.splits option.splits)

section \<open>What is shown of a query\<close>

text \<open>
  A list page is in one of the states its query can have: with an address that is not accepted it says so
  and shows nothing else; otherwise it waits, shows an error or shows the data, one of the three, and data that could not be
  refreshed is marked as stale.
\<close>

lemma page_shows_one_state:
  assumes "documented_state r"
  shows "if invalid then page_feedback invalid r = [InvalidFilterState] \<and> \<not> page_content invalid r
    else of_bool (Skeleton \<in> set (page_feedback invalid r)) + of_bool (ErrorState \<in> set (page_feedback invalid r)) +
        of_bool (page_content invalid r) = (1 :: nat) \<and>
      (StaleWarning \<in> set (page_feedback invalid r) \<longleftrightarrow> page_content invalid r \<and> query_error r \<noteq> None)"
  using assms by (auto simp: page_feedback_def page_content_def QueryFeedback_def documented_state_def)

text \<open>
  With an accepted range the overview has one main part: the workspace, the notice that the range has no data, or
  an error when every query failed, and it is never empty.
\<close>

lemma overview_has_main_part:
  assumes "documented_overview v" "ov_valid v"
  shows "(OverviewWorkspace \<in> set (OverviewPageContent v) \<longleftrightarrow> \<not> totalFailure v \<and> \<not> overview_unavailable v) \<and>
    (OverviewUnavailable \<in> set (OverviewPageContent v) \<longleftrightarrow> overview_unavailable v) \<and>
    (totalFailure v \<longrightarrow> \<not> overview_unavailable v \<and> (\<exists>e. OverviewError e \<in> set (OverviewPageContent v)))"
  using assms by (rule overview_main_part)

section \<open>The evidence of an event\<close>

text \<open>
  Hiding the groups that do not apply to an event hides no value: what the page shows is, in the same order,
  every item of every group that has a value.
\<close>

lemma event_page_complete:
  "with_value (concat (map (\<lambda>(title, subtitle, vs). vs) (EventDetail t lang e))) =
   with_value (concat (map (groupItems t lang e) [IDENTITY, PROCESS, FILE, NETWORK, DNS, HTTP_TLS]))"
  by (rule event_values_shown)

end
