(* ===== verification/OverviewWidgets.thy ===== *)
theory OverviewWidgets
  imports OverviewPages Distribution OverviewLayoutModel
begin

text \<open>
  The widgets of the overview (\<open>features/overview/OverviewDashboard.tsx\<close>, \<open>features/overview/InvestigationQueues.tsx\<close>,
  \<open>EdrStateSummary\<close> of \<open>components/ui.tsx\<close>, the panel states of \<open>pages/OverviewPage.tsx\<close>): what each one shows of the data it has, what
  it shows without data, and where its link leads.
\<close>

section \<open>Links\<close>

record TimeRangeQuery =
  tr_preset :: "TimePreset option"
  tr_from :: "jsstring option"
  tr_to :: "jsstring option"

definition scopedPath :: "jsstring \<Rightarrow> int option \<Rightarrow> jsstring \<Rightarrow> jsstring" where
  "scopedPath path endpointId parameter =
     (case endpointId of
        None \<Rightarrow> path
      | Some i \<Rightarrow> path @ (if 63 \<in> set path then js ''&'' else js ''?'') @ parameter @ js ''='' @ id_text i)"

text \<open>The two parts of a path before and after the first question mark; a further part is ignored.\<close>

definition path_parts :: "jsstring \<Rightarrow> jsstring \<times> jsstring" where
  "path_parts path = (case split_at 63 path of [] \<Rightarrow> (path, []) | [p] \<Rightarrow> (p, []) | p # q # _ \<Rightarrow> (p, q))"

definition set_if :: "jsstring option \<Rightarrow> string \<Rightarrow> search_params \<Rightarrow> search_params" where
  "set_if v key ps = (if truthy v then params_set ps (js key) (the v) else ps)"

definition time_scoped_params :: "search_params \<Rightarrow> TimeRangeQuery \<Rightarrow> int option \<Rightarrow> search_params" where
  "time_scoped_params ps r endpointId =
     (let preset = set_if (map_option preset_name (tr_preset r)) ''timePreset'' ps;
          ranged = (if tr_preset r = Some CUSTOM then set_if (tr_to r) ''to'' (set_if (tr_from r) ''from'' preset)
                    else params_delete (params_delete preset (js ''from'')) (js ''to''))
      in (case endpointId of Some i \<Rightarrow> params_set ranged (js ''endpointId'') (id_text i) | None \<Rightarrow> ranged))"

definition timeScopedPath :: "jsstring \<Rightarrow> TimeRangeQuery \<Rightarrow> int option \<Rightarrow> jsstring" where
  "timeScopedPath path r endpointId =
     (let (pathname, rawQuery) = path_parts path;
          query = params_to_string (time_scoped_params (params_of_string rawQuery) r endpointId)
      in if query \<noteq> [] then pathname @ js ''?'' @ query else pathname)"

section \<open>Data\<close>

record EdrStateAxisDto =
  ax_reasonCodes :: "jsstring list"
  ax_score :: int
  ax_status :: jsstring

record EdrStateDto =
  edr_calculatedAt :: jsstring
  edr_collectionHealth :: EdrStateAxisDto
  edr_criticalRiskEndpointCount :: int
  edr_highRiskEndpointCount :: int
  edr_highestEndpointRiskScore :: "int option"
  edr_reasonCodes :: "jsstring list"
  edr_score :: int
  edr_status :: jsstring
  edr_threatLevel :: EdrStateAxisDto

record dashboard_summary = dashboard_counts +
  sum_bySeverity :: "SeverityCountDto list"
  sum_edrState :: EdrStateDto

record endpoint_totals =
  et_online :: int
  et_all :: int
  et_highRisk :: int

record EndpointRiskFactorDto =
  rf_code :: jsstring
  rf_contribution :: int
  rf_description :: jsstring
  rf_sourceId :: int
  rf_sourceType :: jsstring
  rf_title :: jsstring

record EndpointRiskDto =
  risk_activeAlertCount :: int
  risk_calculatedAt :: jsstring
  risk_highestAlertRiskScore :: "int option"
  risk_level :: RiskLevel
  risk_openIncidentCount :: int
  risk_riskFactors :: "EndpointRiskFactorDto list"
  risk_score :: int

datatype AgentArchitecture = X64 | ARM64

record SensorHealthDto =
  shd_packetDropCount :: "int option"
  shd_parseErrorCount :: "int option"
  shd_provider :: "jsstring option"
  shd_sensor :: jsstring
  shd_status :: SensorHealth

record EndpointDto =
  ep_agentArch :: "AgentArchitecture option"
  ep_agentBuildId :: "jsstring option"
  ep_agentId :: jsstring
  ep_agentVersion :: "jsstring option"
  ep_capabilityCodes :: "jsstring list"
  ep_endpointId :: int
  ep_hostname :: jsstring
  ep_ipAddress :: "jsstring option"
  ep_isStale :: bool
  ep_lastSeenAt :: "jsstring option"
  ep_osType :: OsType
  ep_osVersion :: "jsstring option"
  ep_registeredAt :: jsstring
  ep_risk :: EndpointRiskDto
  ep_sensorHealth :: "SensorHealthDto list"
  ep_status :: EndpointStatus

record IncidentDto =
  inc_alertCount :: int
  inc_closedAt :: "jsstring option"
  inc_correlationKey :: jsstring
  inc_createdAt :: jsstring
  inc_description :: "jsstring option"
  inc_endpointId :: int
  inc_firstDetectedAt :: jsstring
  inc_incidentId :: int
  inc_lastDetectedAt :: jsstring
  inc_severity :: Severity
  inc_status :: IncidentStatus
  inc_title :: jsstring
  inc_updatedAt :: jsstring
  inc_windowEndAt :: jsstring
  inc_windowStartAt :: jsstring

record overview_data =
  od_dashboard :: "dashboard_summary option"
  od_endpoints :: "endpoint_totals option"
  od_topEndpoints :: "EndpointDto list"
  od_incidentQueue :: "IncidentDto list"
  od_selectedEndpointId :: "int option"
  od_timeRange :: TimeRangeQuery

definition time_range_of :: "TimeFilterState \<Rightarrow> TimeRangeQuery" where
  "time_range_of s = \<lparr>tr_preset = Some (fst (tf_query s)), tr_from = map_option fst (snd (tf_query s)), tr_to = map_option snd (snd (tf_query s))\<rparr>"

section \<open>Panels\<close>

record panel_state =
  ps_pending :: bool
  ps_error :: "request_error option"
  ps_stale :: bool

datatype 'a panel = PanelContent 'a | PanelError request_error | PanelSkeleton

definition ResourceFeedback :: "'a option \<Rightarrow> panel_state \<Rightarrow> 'a panel" where
  "ResourceFeedback d s =
     (case d of Some v \<Rightarrow> PanelContent v | None \<Rightarrow> (case ps_error s of Some e \<Rightarrow> PanelError e | None \<Rightarrow> PanelSkeleton))"

text \<open>A list in a panel, with whether it is marked as stale.\<close>

definition QueueFeedback :: "'a list \<Rightarrow> panel_state \<Rightarrow> (bool \<times> 'a list) panel" where
  "QueueFeedback xs s =
     (if ps_pending s \<and> xs = [] then PanelSkeleton
      else if ps_error s \<noteq> None \<and> xs = [] then PanelError (the (ps_error s))
      else PanelContent (ps_stale s \<and> xs \<noteq> [], xs))"

text \<open>The states the page hands to its panels: a rollup that is not ready is shown as waiting.\<close>

definition query_panel :: "query_state \<Rightarrow> panel_state" where
  "query_panel r = \<lparr>ps_pending = is_pending r, ps_error = query_error r, ps_stale = is_refetch_error r\<rparr>"

definition dashboard_panel :: "overview_state \<Rightarrow> panel_state" where
  "dashboard_panel v =
     (let waiting = rollupNotReady v \<and> \<not> has_data (ov_dashboard v); r = ov_dashboard v
      in \<lparr>ps_pending = is_pending r \<or> waiting, ps_error = (if waiting then None else query_error r), ps_stale = is_refetch_error r\<rparr>)"

section \<open>Widgets\<close>

record kpi_card =
  kpi_label :: TranslationKey
  kpi_detail :: TranslationKey
  kpi_to :: jsstring
  kpi_tone :: string
  kpi_value :: int

fun kpi_link :: "OverviewWidgetType \<Rightarrow> TimeRangeQuery \<Rightarrow> int option \<Rightarrow> jsstring" where
  "kpi_link KpiAlerts r i = timeScopedPath (js ''/alerts'') r i"
| "kpi_link KpiCriticalAlerts r i = timeScopedPath (js ''/alerts?severity=CRITICAL'') r i"
| "kpi_link KpiOpenIncidents r i = timeScopedPath (js ''/incidents?status=OPEN'') r i"
| "kpi_link KpiHighRiskEndpoints r i = scopedPath (js ''/endpoints?riskLevel=HIGH&sortBy=riskScore&sortOrder=desc'') i (js ''endpointIds'')"
| "kpi_link DetectionActivity r i = timeScopedPath (js ''/'') \<lparr>tr_preset = Some LATEST_7D, tr_from = None, tr_to = None\<rparr> i"
| "kpi_link _ r i = []"

definition criticalAlerts :: "dashboard_summary \<Rightarrow> int" where
  "criticalAlerts d = (case List.find (\<lambda>row. sc_severity row = CRITICAL) (sum_bySeverity d) of Some row \<Rightarrow> sc_count row | None \<Rightarrow> 0)"

record ranking_row =
  rr_rank :: jsstring
  rr_to :: jsstring
  rr_hostname :: jsstring
  rr_small :: jsstring
  rr_level :: RiskLevel
  rr_counts :: "int \<times> int \<times> int"

definition RiskEndpointRanking :: "EndpointDto list \<Rightarrow> ranking_row list" where
  "RiskEndpointRanking endpoints =
     map (\<lambda>(k, e). \<lparr>rr_rank = pad 2 (k + 1), rr_to = js ''/endpoints/'' @ id_text (ep_endpointId e), rr_hostname = ep_hostname e,
       rr_small = js ''ID '' @ id_text (ep_endpointId e) @ MIDDLE_DOT @ ep_agentId e, rr_level = risk_level (ep_risk e),
       rr_counts = (risk_score (ep_risk e), risk_activeAlertCount (ep_risk e), risk_openIncidentCount (ep_risk e))\<rparr>) (enumerate 0 endpoints)"

record queue_row =
  qr_title :: "js_error + jsstring"
  qr_to :: jsstring
  qr_severity :: Severity
  qr_status :: IncidentStatus
  qr_alertCount :: int

definition IncidentQueueList :: "translator \<Rightarrow> IncidentDto list \<Rightarrow> queue_row list" where
  "IncidentQueueList t incidents =
     map (\<lambda>i. \<lparr>qr_title = detectionTitle t (inc_title i) None, qr_to = js ''/incidents/'' @ id_text (inc_incidentId i),
       qr_severity = inc_severity i, qr_status = inc_status i, qr_alertCount = inc_alertCount i\<rparr>) incidents"

datatype widget_view =
    EdrView EdrStateDto
  | KpiView kpi_card
  | ActivityView jsstring
  | SeverityView "donut_segment list"
  | RankingView bool "ranking_row list"
  | QueueView bool "queue_row list"

text \<open>The states of the two queues and of the two summaries, in this order.\<close>

record widget_states =
  ws_ranking :: panel_state
  ws_queue :: panel_state
  ws_dashboard :: panel_state
  ws_endpoints :: panel_state

definition page_widget_states :: "overview_state \<Rightarrow> widget_states" where
  "page_widget_states v =
     \<lparr>ws_ranking = query_panel (ov_ranking v), ws_queue = query_panel (ov_incidents v), ws_dashboard = dashboard_panel v,
      ws_endpoints = query_panel (ov_endpoints v)\<rparr>"

fun OverviewWidget :: "translator \<Rightarrow> overview_data \<Rightarrow> widget_states \<Rightarrow> OverviewWidgetType \<Rightarrow> widget_view panel" where
  "OverviewWidget t d s EdrState = map_panel (\<lambda>v. EdrView (sum_edrState v)) (ResourceFeedback (od_dashboard d) (ws_dashboard s))"
| "OverviewWidget t d s KpiAlerts = map_panel (\<lambda>v. KpiView \<lparr>kpi_label = ''overview.totalAlerts'', kpi_detail = ''overview.alertsDetail'',
     kpi_to = kpi_link KpiAlerts (od_timeRange d) (od_selectedEndpointId d), kpi_tone = ''accent'', kpi_value = dc_alerts v\<rparr>)
     (ResourceFeedback (od_dashboard d) (ws_dashboard s))"
| "OverviewWidget t d s KpiCriticalAlerts = map_panel (\<lambda>v. KpiView \<lparr>kpi_label = ''overview.criticalAlerts'', kpi_detail = ''overview.criticalAlertsDetail'',
     kpi_to = kpi_link KpiCriticalAlerts (od_timeRange d) (od_selectedEndpointId d),
     kpi_tone = (if criticalAlerts v \<noteq> 0 then ''critical'' else ''neutral''), kpi_value = criticalAlerts v\<rparr>)
     (ResourceFeedback (od_dashboard d) (ws_dashboard s))"
| "OverviewWidget t d s KpiHighRiskEndpoints = map_panel (\<lambda>v. KpiView \<lparr>kpi_label = ''overview.highRiskEndpoints'', kpi_detail = ''overview.highRiskEndpointsDetail'',
     kpi_to = kpi_link KpiHighRiskEndpoints (od_timeRange d) (od_selectedEndpointId d),
     kpi_tone = (if et_highRisk v \<noteq> 0 then ''high'' else ''neutral''), kpi_value = et_highRisk v\<rparr>)
     (ResourceFeedback (od_endpoints d) (ws_endpoints s))"
| "OverviewWidget t d s KpiOpenIncidents = map_panel (\<lambda>v. KpiView \<lparr>kpi_label = ''overview.openIncidents'', kpi_detail = ''overview.currentlyOpen'',
     kpi_to = kpi_link KpiOpenIncidents (od_timeRange d) (od_selectedEndpointId d),
     kpi_tone = (if dc_openIncidents v \<noteq> 0 then ''info'' else ''neutral''), kpi_value = dc_openIncidents v\<rparr>)
     (ResourceFeedback (od_dashboard d) (ws_dashboard s))"
| "OverviewWidget t d s DetectionActivity =
     map_panel (\<lambda>v. ActivityView (kpi_link DetectionActivity (od_timeRange d) (od_selectedEndpointId d))) (ResourceFeedback (od_dashboard d) (ws_dashboard s))"
| "OverviewWidget t d s AlertSeverity =
     map_panel (\<lambda>v. SeverityView (AlertSeverityDonut (sum_bySeverity v) (dc_alerts v))) (ResourceFeedback (od_dashboard d) (ws_dashboard s))"
| "OverviewWidget t d s HighestRiskEndpoints =
     map_panel (\<lambda>(old, xs). RankingView old (RiskEndpointRanking xs)) (QueueFeedback (od_topEndpoints d) (ws_ranking s))"
| "OverviewWidget t d s IncidentQueue =
     map_panel (\<lambda>(old, xs). QueueView old (IncidentQueueList t xs)) (QueueFeedback (od_incidentQueue d) (ws_queue s))"

text \<open>The ribbon above the widgets, once both summaries are there.\<close>

definition OverviewSignalRibbon :: "overview_data \<Rightarrow> (TranslationKey \<times> jsstring) list" where
  "OverviewSignalRibbon d =
     (case (od_dashboard d, od_endpoints d) of
        (Some v, Some e) \<Rightarrow>
          [(''overview.signalEvents'', id_text (dc_events v)), (''overview.signalDetections'', id_text (dc_alerts v)),
           (''overview.signalEndpointReach'', id_text (et_online e) @ js '' / '' @ id_text (et_all e)),
           (''overview.signalOpenCases'', id_text (dc_openIncidents v))]
      | _ \<Rightarrow> [])"

section \<open>The state of the platform\<close>

definition EDR_REASON_KEYS :: "(string \<times> TranslationKey) list" where
  "EDR_REASON_KEYS =
     [(''MEDIUM_ENDPOINT_RISK'', ''edrState.reason.mediumEndpointRisk''), (''HIGH_ENDPOINT_RISK'', ''edrState.reason.highEndpointRisk''),
      (''CRITICAL_ENDPOINT_RISK'', ''edrState.reason.criticalEndpointRisk''), (''OPEN_INCIDENT'', ''edrState.reason.openIncident''),
      (''CRITICAL_ALERT'', ''edrState.reason.criticalAlert''), (''OFFLINE_ENDPOINT'', ''edrState.reason.offlineEndpoint''),
      (''STALE_ENDPOINT'', ''edrState.reason.staleEndpoint''), (''DEGRADED_SENSOR'', ''edrState.reason.degradedSensor''),
      (''UNAVAILABLE_SENSOR'', ''edrState.reason.unavailableSensor''), (''INGEST_FAILURE'', ''edrState.reason.ingestFailure''),
      (''INGEST_DELAYED'', ''edrState.reason.ingestDelayed''), (''STORAGE_FAILURE'', ''edrState.reason.storageFailure'')]"

definition edr_reason_text :: "translator \<Rightarrow> (jsstring \<Rightarrow> jsstring) \<Rightarrow> jsstring \<Rightarrow> js_error + jsstring" where
  "edr_reason_text t lower reason =
     (case object_member EDR_REASON_KEYS reason of Own key \<Rightarrow> t key [] | Inherited \<Rightarrow> Inl TypeError | Absent \<Rightarrow> Inr (humanize lower reason))"

text \<open>The reasons of the summary, or the text that there are none.\<close>

definition edr_reasons :: "translator \<Rightarrow> (jsstring \<Rightarrow> jsstring) \<Rightarrow> EdrStateDto \<Rightarrow> (js_error + jsstring) list" where
  "edr_reasons t lower s = (if edr_reasonCodes s \<noteq> [] then map (edr_reason_text t lower) (edr_reasonCodes s) else [t ''edrState.noReasons'' []])"

section \<open>Facts\<close>

text \<open>Which number of the page a link stands for, and what the list it opens must ask for beside the range and the endpoint.\<close>

definition counted_by :: "(OverviewWidgetType \<times> page_name \<times> route_page \<times> (string \<times> string) list) list" where
  "counted_by =
     [(KpiAlerts, AlertsPage, AlertsRoute, []),
      (KpiCriticalAlerts, AlertsPage, AlertsRoute, [(''severity'', ''CRITICAL'')]),
      (KpiOpenIncidents, IncidentsPage, IncidentsRoute, [(''status'', ''OPEN'')])]"

lemma kpi_paths:
  "path_parts (js ''/alerts'') = (js ''/alerts'', [])"
  "path_parts (js ''/alerts?severity=CRITICAL'') = (js ''/alerts'', js ''severity=CRITICAL'')"
  "path_parts (js ''/incidents?status=OPEN'') = (js ''/incidents'', js ''status=OPEN'')"
  by (simp_all add: path_parts_def js_def)

lemma form_encode_plain:
  assumes "list_all is_alphanumeric s"
  shows "form_encode s = s"
proof -
  have "utf8_encode s = s" using assms by (intro utf8_encode_ascii) (auto simp: list_all_iff is_alphanumeric_def is_digit_def)
  moreover have "concat (map form_byte s) = s" using assms by (induction s) (auto simp: form_byte_def is_alphanumeric_def is_digit_def)
  ultimately show ?thesis by (simp add: form_encode_def)
qed

lemma params_of_plain:
  assumes "list_all is_alphanumeric a" "list_all is_alphanumeric b" "text_units a" "text_units b"
  shows "params_of_string (a @ 61 # b) = [(a, b)]"
  using params_of_string_to_string(1) [of "[(a, b)]"] assms by (simp add: params_to_string_def form_encode_plain params_ok_def)

lemma kpi_filters:
  "params_of_string (js ''severity=CRITICAL'') = [(js ''severity'', js ''CRITICAL'')]"
  "params_of_string (js ''status=OPEN'') = [(js ''status'', js ''OPEN'')]"
  "params_of_string [] = []"
proof -
  have "js ''severity=CRITICAL'' = js ''severity'' @ 61 # js ''CRITICAL''" "js ''status=OPEN'' = js ''status'' @ 61 # js ''OPEN''"
    by (simp_all add: js_def)
  moreover have "list_all is_alphanumeric (js ''severity'')" "list_all is_alphanumeric (js ''CRITICAL'')" "list_all is_alphanumeric (js ''status'')"
    "list_all is_alphanumeric (js ''OPEN'')"
    by (simp_all add: js_def is_alphanumeric_def is_digit_def)
  ultimately show "params_of_string (js ''severity=CRITICAL'') = [(js ''severity'', js ''CRITICAL'')]"
    "params_of_string (js ''status=OPEN'') = [(js ''status'', js ''OPEN'')]" by (simp_all add: params_of_plain)
qed (simp add: params_of_string_def utf8_encode_def)

text \<open>What the address of a link holds, for the range of the page.\<close>

lemma scoped_get:
  assumes "tf_valid (readTimeFilter dp ps)"
  shows "params_get (time_scoped_params qs (time_range_of (readTimeFilter dp ps)) i) k =
    (if k = js ''timePreset'' then Some (preset_name (tf_preset (readTimeFilter dp ps)))
     else if k = js ''from'' then map_option fst (snd (tf_query (readTimeFilter dp ps)))
     else if k = js ''to'' then map_option snd (snd (tf_query (readTimeFilter dp ps)))
     else if k = js ''endpointId'' \<and> i \<noteq> None then map_option id_text i else params_get qs k)"
  using assms
  by (auto simp: time_scoped_params_def time_range_of_def set_if_def readTimeFilter_def Let_def get_set get_delete truthy_def split: option.splits)

definition link_params :: "(string \<times> string) list \<Rightarrow> date_parser \<Rightarrow> search_params \<Rightarrow> search_params" where
  "link_params extra dp ps =
     time_scoped_params (map (\<lambda>(k, v). (js k, js v)) extra) (time_range_of (readTimeFilter dp ps)) (readOverviewEndpointId ps)"

lemma get_single: "params_get [(a, b)] k = (if k = a then Some b else None)"
  by (simp add: params_get_def)

lemmas get_extra = get_Nil get_single

lemma params_to_string_nonempty: "ps \<noteq> [] \<Longrightarrow> params_to_string ps \<noteq> []"
  by (cases ps; cases "tl ps") (auto simp: params_to_string_def split: prod.splits)

lemma link_params_nonempty: "link_params extra dp ps \<noteq> []"
proof
  assume "link_params extra dp ps = []"
  moreover have "params_get (params_set qs k v) k = Some v" for qs k v by (simp add: get_set)
  ultimately have "params_get (link_params extra dp ps) (js ''timePreset'') = None" by (simp add: params_get_def)
  then show False
    by (auto simp: link_params_def time_scoped_params_def time_range_of_def set_if_def Let_def get_set get_delete truthy_def split: option.splits if_splits)
qed

definition list_path :: "page_name \<Rightarrow> jsstring" where
  "list_path pg = (if pg = IncidentsPage then js ''/incidents'' else js ''/alerts'')"

lemma kpi_link_address:
  assumes "(kind, pg, shown_page, extra) \<in> set counted_by"
  shows "kpi_link kind (time_range_of (readTimeFilter dp ps)) (readOverviewEndpointId ps) =
      list_path pg @ js ''?'' @ params_to_string (link_params extra dp ps)"
    "route_of (list_path pg) = Some (shown_page, [])" "63 \<notin> set (list_path pg)"
proof -
  have n: "params_to_string (link_params extra dp ps) \<noteq> []" by (intro params_to_string_nonempty link_params_nonempty)
  show "kpi_link kind (time_range_of (readTimeFilter dp ps)) (readOverviewEndpointId ps) =
      list_path pg @ js ''?'' @ params_to_string (link_params extra dp ps)"
    using assms n
    by (auto simp: counted_by_def timeScopedPath_def kpi_paths kpi_filters link_params_def list_path_def)
  show "route_of (list_path pg) = Some (shown_page, [])"
    using assms by (auto simp: counted_by_def list_path_def route_of_def path_segments_def ROUTES_def segment_instance_def js_def)
  show "63 \<notin> set (list_path pg)" by (simp add: list_path_def js_def)
qed

lemma link_params_get:
  assumes "tf_valid (readTimeFilter dp ps)"
  shows "params_get (link_params extra dp ps) k =
    (if k = js ''timePreset'' then Some (preset_name (tf_preset (readTimeFilter dp ps)))
     else if k = js ''from'' then map_option fst (snd (tf_query (readTimeFilter dp ps)))
     else if k = js ''to'' then map_option snd (snd (tf_query (readTimeFilter dp ps)))
     else if k = js ''endpointId'' \<and> readOverviewEndpointId ps \<noteq> None then map_option id_text (readOverviewEndpointId ps)
     else params_get (map (\<lambda>(k, v). (js k, js v)) extra) k)"
  unfolding link_params_def by (rule scoped_get [OF assms])

lemma range_of_filter:
  assumes "tf_valid (readTimeFilter dp ps)"
  shows "snd (tf_query (readTimeFilter dp ps)) \<noteq> None \<longleftrightarrow> tf_preset (readTimeFilter dp ps) = CUSTOM"
    "snd (tf_query (readTimeFilter dp ps)) = Some (f, t) \<Longrightarrow>
      f \<noteq> [] \<and> t \<noteq> [] \<and> parsed_after dp t f \<and> params_get ps (js ''from'') = Some f \<and> params_get ps (js ''to'') = Some t"
    "fst (tf_query (readTimeFilter dp ps)) = tf_preset (readTimeFilter dp ps)"
  using assms by (auto simp: readTimeFilter_def Let_def truthy_def split: if_splits option.splits)

lemma link_params_ok:
  assumes "params_ok ps" "tf_valid (readTimeFilter dp ps)" "(kind, pg, shown_page, extra) \<in> set counted_by"
  shows "params_ok (link_params extra dp ps)"
proof -
  have e: "params_ok (map (\<lambda>(k, v). (js k, js v)) extra)" using assms(3) by (auto simp: counted_by_def params_ok_def)
  have t: "text_units f \<and> text_units t" if "snd (tf_query (readTimeFilter dp ps)) = Some (f, t)" for f t
    using range_of_filter(2) [OF assms(2) that] params_ok_get [OF assms(1)] by blast
  show ?thesis
    unfolding link_params_def time_scoped_params_def time_range_of_def set_if_def Let_def
    by (cases "readOverviewEndpointId ps"; cases "snd (tf_query (readTimeFilter dp ps))")
      (auto simp: truthy_def intro!: params_ok_set params_ok_delete e dest!: t)
qed

lemma id_text_read: "0 < i \<Longrightarrow> i < 2 ^ 53 \<Longrightarrow> js_Number (id_text i) = Num (of_int i)"
  using js_Number_show_int [of i] js_String_int [of i] by simp

lemma link_accepted:
  assumes "tf_valid (readTimeFilter dp ps)" "\<forall>i. readOverviewEndpointId ps = Some i \<longrightarrow> i < 2 ^ 53"
    and "(kind, pg, shown_page, extra) \<in> set counted_by"
  shows "\<not> page_invalid dp pg (link_params extra dp ps)"
proof -
  have p: "preset_name (tf_preset (readTimeFilter dp ps)) \<in> set preset_names" by (auto simp: preset_names_iff)
  have m: "custom_range (link_params extra dp ps) \<longrightarrow> (\<exists>f t. snd (tf_query (readTimeFilter dp ps)) = Some (f, t) \<and> f \<noteq> [] \<and> t \<noteq> [] \<and> parsed_after dp t f)"
    using range_of_filter [OF assms(1)] by (fastforce simp: custom_range_def link_params_get [OF assms(1)] preset_name_CUSTOM)
  have n: "0 < i" if "readOverviewEndpointId ps = Some i" for i
    using that positiveInteger_pos by (auto simp: readOverviewEndpointId_def)
  have d: "number_in (\<lambda>r. 0 < r) (js_Number (id_text i))" if "readOverviewEndpointId ps = Some i" for i
    using n [OF that] assms(2) that id_text_read [of i] by (auto simp: number_in_def is_integer_def)
  show ?thesis
    using assms(3) p m d
    unfolding page_accepts
    by (auto simp: counted_by_def time_fields_def common_fields_def link_params_get [OF assms(1)] truthy_def get_extra
        ALERT_STATUSES_def SEVERITIES_def INCIDENT_STATUSES_def split: option.splits)
qed

lemma summary_received:
  assumes "params_ok ps" "tf_valid (readTimeFilter dp ps)"
  shows "received (summaryQuery dp ps source) (js ''timePreset'') = [preset_name (tf_preset (readTimeFilter dp ps))]"
    "received (summaryQuery dp ps source) (js ''from'') = (case snd (tf_query (readTimeFilter dp ps)) of Some (f, t) \<Rightarrow> [f] | None \<Rightarrow> [])"
    "received (summaryQuery dp ps source) (js ''to'') = (case snd (tf_query (readTimeFilter dp ps)) of Some (f, t) \<Rightarrow> [t] | None \<Rightarrow> [])"
    "received (summaryQuery dp ps source) (js ''endpointId'') = (case readOverviewEndpointId ps of Some i \<Rightarrow> [id_text i] | None \<Rightarrow> [])"
proof -
  let ?q = "summaryQuery dp ps source"
  note range_of_filter [OF assms(2), simp]
  have z: "i \<noteq> 0" if "readOverviewEndpointId ps = Some i" for i
    using that positiveInteger_pos by (auto simp: readOverviewEndpointId_def)
  have d: "distinct (map fst ?q)"
    by (auto simp: summaryQuery_def scopedTimeQuery_def time_query_def optional_id_def split: option.splits)
  have t: "text_units f \<and> text_units t \<and> f \<noteq> [] \<and> t \<noteq> []" if "snd (tf_query (readTimeFilter dp ps)) = Some (f, t)" for f t
    using range_of_filter(2) [OF assms(2) that] params_ok_get [OF assms(1)] by blast
  have u: "text_units (interval_name (tf_interval (readTimeFilter dp ps)))" by (cases "tf_interval (readTimeFilter dp ps)") simp_all
  have o: "params_ok (concat (map expand_query ?q))"
    by (auto simp: u params_ok_def summaryQuery_def scopedTimeQuery_def time_query_def optional_id_def expand_query_def dest!: t [OF sym] split: option.splits if_splits)
  note r = received_lookup [OF d o]
  show "received ?q (js ''timePreset'') = [preset_name (tf_preset (readTimeFilter dp ps))]"
    unfolding r by (simp add: summaryQuery_def scopedTimeQuery_def time_query_def texts_def expand_query_def)
  show "received ?q (js ''from'') = (case snd (tf_query (readTimeFilter dp ps)) of Some (f, t) \<Rightarrow> [f] | None \<Rightarrow> [])"
    unfolding r by (auto simp: summaryQuery_def scopedTimeQuery_def time_query_def texts_def expand_query_def optional_id_def dest: t split: option.splits)
  show "received ?q (js ''to'') = (case snd (tf_query (readTimeFilter dp ps)) of Some (f, t) \<Rightarrow> [t] | None \<Rightarrow> [])"
    unfolding r by (auto simp: summaryQuery_def scopedTimeQuery_def time_query_def texts_def expand_query_def optional_id_def dest: t split: option.splits)
  show "received ?q (js ''endpointId'') = (case readOverviewEndpointId ps of Some i \<Rightarrow> [id_text i] | None \<Rightarrow> [])"
    unfolding r by (auto simp: summaryQuery_def scopedTimeQuery_def time_query_def texts_def expand_query_def optional_id_def dest: z split: option.splits)
qed

lemma link_received:
  assumes "params_ok ps" "tf_valid (readTimeFilter dp ps)" "\<forall>i. readOverviewEndpointId ps = Some i \<longrightarrow> i < 2 ^ 53"
    and "(kind, pg, shown_page, extra) \<in> set counted_by"
  shows "k \<in> {''timePreset'', ''from'', ''to'', ''endpointId''} \<Longrightarrow>
      received (page_query dp pg (link_params extra dp ps)) (js k) = received (summaryQuery dp ps source) (js k)"
    "(k, v) \<in> set extra \<Longrightarrow> received (page_query dp pg (link_params extra dp ps)) (js k) = [js v]"
proof -
  note r = page_request_received [OF link_accepted [OF assms(2-4)] link_params_ok [OF assms(1,2,4)]]
  note g = link_params_get [OF assms(2)]
  have f: "map_of (page_fields pg) ''timePreset'' = Some (Choice preset_names (Some (js ''LATEST_24H'')))"
    "map_of (page_fields pg) ''from'' = Some Moment" "map_of (page_fields pg) ''to'' = Some Moment"
    "map_of (page_fields pg) ''endpointId'' = Some Identifier"
    using assms(4) by (auto simp: counted_by_def time_fields_def common_fields_def)
  have c: "custom_range (link_params extra dp ps) \<longleftrightarrow> snd (tf_query (readTimeFilter dp ps)) \<noteq> None"
    using range_of_filter(1) [OF assms(2)] by (simp add: custom_range_def g preset_name_CUSTOM)
  have t: "f \<noteq> [] \<and> t \<noteq> []" if "snd (tf_query (readTimeFilter dp ps)) = Some (f, t)" for f t
    using range_of_filter(2) [OF assms(2) that] by blast
  have i: "js_String (js_Number (id_text i)) = id_text i" if "readOverviewEndpointId ps = Some i" for i
    using that assms(3) positiveInteger_pos id_text_read [of i] by (auto simp: readOverviewEndpointId_def)
  have e: "params_get (map (\<lambda>(k, v). (js k, js v)) extra) (js ''endpointId'') = None"
    using assms(4) by (auto simp: counted_by_def get_extra)
  assume "k \<in> {''timePreset'', ''from'', ''to'', ''endpointId''}"
  then consider "k = ''timePreset''" | "k = ''from''" | "k = ''to''" | "k = ''endpointId''" by blast
  then show "received (page_query dp pg (link_params extra dp ps)) (js k) = received (summaryQuery dp ps source) (js k)"
  proof cases
    case 1
    then show ?thesis by (simp add: summary_received [OF assms(1,2)] r [OF f(1)] g texts_def expand_query_def)
  next
    case 2
    then show ?thesis
      by (auto simp: summary_received [OF assms(1,2)] r [OF f(2)] g c texts_def expand_query_def dest: t split: option.splits)
  next
    case 3
    then show ?thesis
      by (auto simp: summary_received [OF assms(1,2)] r [OF f(3)] g c texts_def expand_query_def dest: t split: option.splits)
  next
    case 4
    then show ?thesis
      by (auto simp: summary_received [OF assms(1,2)] r [OF f(4)] g e texts_def expand_query_def i split: option.splits)
  qed
next
  note r = page_request_received [OF link_accepted [OF assms(2-4)] link_params_ok [OF assms(1,2,4)]]
  assume "(k, v) \<in> set extra"
  then show "received (page_query dp pg (link_params extra dp ps)) (js k) = [js v]"
    using assms(4) r [of k]
    by (auto simp: counted_by_def time_fields_def common_fields_def link_params_get [OF assms(2)] get_extra texts_def expand_query_def)
qed

text \<open>The number of critical alerts is the one the ring shows.\<close>

lemma critical_in_ring:
  "criticalAlerts v = dn_count (hd (AlertSeverityDonut (sum_bySeverity v) whole))"
  by (simp add: criticalAlerts_def AlertSeverityDonut_def SEVERITY_ORDER_def donut_counts_def count_of_def Let_def)

text \<open>A rollup that is not ready is shown as waiting in the widgets, never as an error; a widget with data shows the data.\<close>

lemma widget_panels:
  assumes "od_dashboard d = None" "rollupNotReady v" "\<not> has_data (ov_dashboard v)"
    "kind \<in> {EdrState, KpiAlerts, KpiCriticalAlerts, KpiOpenIncidents, DetectionActivity, AlertSeverity}"
  shows "OverviewWidget t d (page_widget_states v) kind = PanelSkeleton"
  using assms by (auto simp: page_widget_states_def dashboard_panel_def ResourceFeedback_def Let_def)

lemma queue_panel_content:
  "QueueFeedback xs s = PanelContent (old, ys) \<Longrightarrow> ys = xs \<and> (old \<longleftrightarrow> ps_stale s \<and> xs \<noteq> [])"
  by (auto simp: QueueFeedback_def split: if_splits)

text \<open>A reason has a text unless it is the name of a member every object inherits.\<close>

lemma edr_keys_english: "snd ` set EDR_REASON_KEYS \<subseteq> set (map fst english)"
proof -
  have "subseq (map snd EDR_REASON_KEYS) (map fst english_2)"
    unfolding EDR_REASON_KEYS_def english_2_def list.map fst_conv snd_conv
    by (rule subseq_Cons2 list_emb_Nil list_emb_Cons)+
  then have "set (map snd EDR_REASON_KEYS) \<subseteq> set (map fst english_2)" by (rule subseq_subset)
  then show ?thesis unfolding english_def by auto
qed

lemma edr_reason_total:
  assumes "\<not> is_prototype_member reason"
  shows "\<exists>s. edr_reason_text (translate l) lower reason = Inr s"
proof (cases "object_member EDR_REASON_KEYS reason")
  case (Own k)
  then have "k \<in> set (map fst english)" by (intro subsetD [OF edr_keys_english] object_member_Own)
  from translate_total [OF this] Own show ?thesis by (simp add: edr_reason_text_def)
qed (use object_member_not_inherited [OF assms, of EDR_REASON_KEYS] in \<open>simp_all add: edr_reason_text_def\<close>)

end
