(* ===== verification/PayloadViewer.thy ===== *)
theory PayloadViewer
  imports Json UrlSearchParams
begin

text \<open>
  The payload of an event as it is shown, searched and copied (\<open>components/RawPayloadViewer.tsx\<close>): the indented text of the
  value, the number of occurrences of a searched text, the line with the mark, and the state of the view.  The
  lower case of a text is an argument.
\<close>

section \<open>The text\<close>

text \<open>\<open>JSON.stringify(value, null, 2)\<close>: every element and member on a line of its own, two spaces deeper than its container.\<close>

fun pretty :: "jsstring \<Rightarrow> json \<Rightarrow> jsstring"
  and pretty_elements :: "jsstring \<Rightarrow> json list \<Rightarrow> jsstring"
  and pretty_members :: "jsstring \<Rightarrow> (jsstring \<times> json) list \<Rightarrow> jsstring" where
  "pretty ind (JArr vs) = (if vs = [] then [91, 93] else [91] @ pretty_elements (ind @ [32, 32]) vs @ [10] @ ind @ [93])"
| "pretty ind (JObj ms) = (if ms = [] then [123, 125] else [123] @ pretty_members (ind @ [32, 32]) ms @ [10] @ ind @ [125])"
| "pretty ind v = stringify v"
| "pretty_elements ind [] = []"
| "pretty_elements ind (v # vs) = [10] @ ind @ pretty ind v @ (if vs = [] then [] else [44]) @ pretty_elements ind vs"
| "pretty_members ind [] = []"
| "pretty_members ind ((k, v) # ms) = [10] @ ind @ quote k @ [58, 32] @ pretty ind v @ (if ms = [] then [] else [44]) @ pretty_members ind ms"

definition payload_text :: "json \<Rightarrow> jsstring" where
  "payload_text payload = pretty [] payload"

definition payload_lines :: "json \<Rightarrow> jsstring list" where
  "payload_lines payload = split_at 10 (payload_text payload)"

section \<open>Searching\<close>

text \<open>\<open>source.indexOf(target, index)\<close>\<close>

definition indexOf :: "jsstring \<Rightarrow> jsstring \<Rightarrow> nat \<Rightarrow> nat option" where
  "indexOf source target index = List.find (\<lambda>i. index \<le> i \<and> startsWith (drop i source) target) [0..<Suc (length source)]"

lemma indexOf_Some:
  "indexOf source target index = Some i \<Longrightarrow> index \<le> i \<and> startsWith (drop i source) target \<and> i \<le> length source"
  by (auto simp: indexOf_def dest!: find_SomeD)

text \<open>The loop stops because the index grows by the length of the searched text, which is not empty.\<close>

function count_from :: "jsstring \<Rightarrow> jsstring \<Rightarrow> nat \<Rightarrow> nat" where
  "count_from source target index =
     (if target = [] then 0
      else (case indexOf source target index of None \<Rightarrow> 0 | Some i \<Rightarrow> 1 + count_from source target (i + length target)))"
  by pat_completeness auto
termination
proof (relation "measure (\<lambda>(source, target, index). Suc (length source) - index)")
  fix source target :: jsstring and index i :: nat
  assume "target \<noteq> []" "indexOf source target index = Some i"
  then have "index \<le> i" "i \<le> length source" "0 < length target" by (auto dest: indexOf_Some)
  then show "((source, target, i + length target), (source, target, index)) \<in> measure (\<lambda>(source, target, index). Suc (length source) - index)"
    unfolding in_measure case_prod_conv by arith
qed simp

declare count_from.simps [simp del]

definition occurrences :: "(jsstring \<Rightarrow> jsstring) \<Rightarrow> jsstring \<Rightarrow> jsstring \<Rightarrow> nat" where
  "occurrences lower v query = count_from (lower v) (lower query) 0"

text \<open>A line without a mark, or what comes before the mark, the mark and what comes after it.\<close>

datatype highlighted = Plain jsstring | Marked jsstring jsstring jsstring

definition highlight :: "(jsstring \<Rightarrow> jsstring) \<Rightarrow> jsstring \<Rightarrow> jsstring \<Rightarrow> highlighted" where
  "highlight lower v query =
     (if query = [] then Plain v
      else (case indexOf (lower v) (lower query) 0 of
              None \<Rightarrow> Plain v
            | Some i \<Rightarrow> Marked (take i v) (take (length query) (drop i v)) (drop (i + length query) v)))"

section \<open>The view\<close>

record payload_view =
  pv_query :: jsstring
  pv_copied :: bool

definition open_payload :: payload_view where
  "open_payload = \<lparr>pv_query = [], pv_copied = False\<rparr>"

definition setQuery :: "jsstring \<Rightarrow> payload_view \<Rightarrow> payload_view" where
  "setQuery q p = p\<lparr>pv_query := q\<rparr>"

text \<open>The clipboard takes the text or refuses it.\<close>

definition copy_payload :: "bool \<Rightarrow> payload_view \<Rightarrow> payload_view" where
  "copy_payload accepted p = p\<lparr>pv_copied := accepted\<rparr>"

definition matchCount :: "(jsstring \<Rightarrow> jsstring) \<Rightarrow> json \<Rightarrow> payload_view \<Rightarrow> nat" where
  "matchCount lower payload p =
     (if pv_query p \<noteq> [] then sum_list (map (\<lambda>line. occurrences lower line (pv_query p)) (payload_lines payload)) else 0)"

definition line_matches :: "(jsstring \<Rightarrow> jsstring) \<Rightarrow> payload_view \<Rightarrow> jsstring \<Rightarrow> bool" where
  "line_matches lower p line \<longleftrightarrow> pv_query p \<noteq> [] \<and> indexOf (lower line) (lower (pv_query p)) 0 \<noteq> None"

section \<open>The count\<close>

text \<open>Places where the searched text stands, none reaching into the next.\<close>

fun apart :: "jsstring \<Rightarrow> jsstring \<Rightarrow> nat \<Rightarrow> nat list \<Rightarrow> bool" where
  "apart source target index [] = True"
| "apart source target index (i # places) \<longleftrightarrow>
     index \<le> i \<and> startsWith (drop i source) target \<and> apart source target (i + length target) places"

lemma apart_later: "apart source target index places \<Longrightarrow> j \<le> index \<Longrightarrow> apart source target j places"
  by (cases places) auto

lemma indexOf_first:
  assumes "startsWith (drop i source) target" "index \<le> i" "target \<noteq> []"
  shows "\<exists>j \<le> i. indexOf source target index = Some j"
proof -
  have l: "i < Suc (length source)"
    using assms(1,3) by (cases "i \<le> length source") (auto simp: startsWith_def)
  then obtain j where j: "indexOf source target index = Some j"
    using assms(1,2) unfolding indexOf_def by (metis (mono_tags, lifting) atLeastLessThan_iff find_None_iff le0 not_Some_eq set_upt)
  then have "\<forall>k < j. \<not> (index \<le> k \<and> startsWith (drop k source) target)"
    unfolding indexOf_def by (auto simp: find_Some_iff simp del: upt_Suc) 
  then have "j \<le> i" using assms(1,2) by (metis not_le)
  with j show ?thesis by blast
qed

lemma count_from_largest:
  assumes "target \<noteq> []" "apart source target index places"
  shows "length places \<le> count_from source target index"
  using assms(2)
proof (induction places arbitrary: index)
  case (Cons i places)
  then have "startsWith (drop i source) target" "index \<le> i" by simp_all
  from indexOf_first [OF this assms(1)] obtain j where j: "j \<le> i" "indexOf source target index = Some j" by blast
  have "length places \<le> count_from source target (j + length target)"
    using Cons j by (intro Cons.IH) (auto elim: apart_later)
  then show ?case using assms(1) j by (simp add: count_from.simps [of source target index])
qed simp

lemma count_from_reached: "\<exists>places. apart source target index places \<and> length places = count_from source target index"
proof (induction source target index rule: count_from.induct)
  case (1 source target index)
  show ?case
  proof (cases "target = [] \<or> indexOf source target index = None")
    case True
    then show ?thesis by (intro exI [of _ "[]"]) (auto simp: count_from.simps [of source target index])
  next
    case False
    then obtain i where i: "indexOf source target index = Some i" by blast
    with 1 False obtain rest where "apart source target (i + length target) rest" "length rest = count_from source target (i + length target)" by blast
    with i False show ?thesis
      by (intro exI [of _ "i # rest"]) (auto simp: count_from.simps [of source target index] dest: indexOf_Some)
  qed
qed

lemma count_positive: "target \<noteq> [] \<Longrightarrow> 0 < count_from source target 0 \<longleftrightarrow> indexOf source target 0 \<noteq> None"
  by (cases "indexOf source target 0") (simp_all add: count_from.simps [of source target 0])

text \<open>The lines that are marked are those that are counted.\<close>

lemma counted_lines:
  assumes "lower (pv_query p) = [] \<longleftrightarrow> pv_query p = []"
  shows "0 < matchCount lower payload p \<longleftrightarrow> (\<exists>line\<in>set (payload_lines payload). line_matches lower p line)"
proof (cases "pv_query p = []")
  case False
  then have "lower (pv_query p) \<noteq> []" using assms by simp
  then have "0 < occurrences lower line (pv_query p) \<longleftrightarrow> line_matches lower p line" for line
    using False by (simp only: occurrences_def line_matches_def count_positive simp_thms)
  moreover have "0 < sum_list ns \<longleftrightarrow> (\<exists>n\<in>set ns. 0 < n)" for ns :: "nat list" by (induction ns) auto
  ultimately show ?thesis using False by (simp add: matchCount_def)
qed (simp add: matchCount_def line_matches_def)

text \<open>
  A mark changes nothing of the line.  It covers the searched text, up to case, when the lower case is taken
  character by character; where a character has a longer lower case, as the dotted capital I, the mark is misplaced.
\<close>

lemma highlight_whole:
  assumes "highlight lower v query = Marked a m b"
  shows "a @ m @ b = v"
proof -
  have split: "take i v @ take n (drop i v) @ drop (i + n) v = v" for i n
    using append_take_drop_id [of n "drop i v"] append_take_drop_id [of i v] by (simp add: add.commute)
  from assms obtain i where "a = take i v" "m = take (length query) (drop i v)" "b = drop (i + length query) v"
    unfolding highlight_def by (cases "query = []"; cases "indexOf (lower v) (lower query) 0") auto
  with split show ?thesis by simp
qed

lemma highlight_marks:
  assumes "highlight (map f) v query = Marked a m b"
  shows "map f m = map f query"
proof -
  obtain i where i: "indexOf (map f v) (map f query) 0 = Some i" "m = take (length query) (drop i v)"
    using assms by (auto simp: highlight_def split: if_splits option.splits)
  then have "prefix (map f query) (map f (drop i v))" using indexOf_Some [OF i(1)] by (simp add: startsWith_def drop_map)
  then have "map f query = take (length query) (map f (drop i v))" by (auto simp: prefix_def)
  with i(2) show ?thesis by (simp add: take_map)
qed

section \<open>What is copied\<close>

text \<open>The parser reads the indented text as the value, whatever the indentation is.\<close>

definition ends_value :: "jsstring \<Rightarrow> bool" where
  "ends_value r \<longleftrightarrow> r = [] \<or> hd r = 10 \<or> hd r = 44"

definition pretty_round_trip :: "json \<Rightarrow> bool" where
  "pretty_round_trip v \<longleftrightarrow> (\<forall>ind n r. list_all is_json_space ind \<longrightarrow> length (pretty ind v) \<le> n \<longrightarrow> ends_value r \<longrightarrow>
     parse_value n (pretty ind v @ r) = Some (v, r))"

lemma pretty_round_tripD:
  "pretty_round_trip v \<Longrightarrow> list_all is_json_space ind \<Longrightarrow> length (pretty ind v) \<le> n \<Longrightarrow> ends_value r \<Longrightarrow>
   parse_value n (pretty ind v @ r) = Some (v, r)"
  by (simp add: pretty_round_trip_def)

lemma skip_spaces: "list_all is_json_space ind \<Longrightarrow> skip_ws (ind @ s) = skip_ws s"
  by (induction ind) auto

lemma parse_value_spaces: "list_all is_json_space ind \<Longrightarrow> parse_value n (ind @ s) = parse_value n s"
  by (cases n) (simp_all add: skip_spaces)

lemma pretty_hd:
  assumes "json_ok v"
  obtains c t where "pretty ind v = c # t" "c \<notin> {9, 10, 13, 32, 44, 93, 125}"
proof (cases v)
  case (JArr vs)
  with that show ?thesis by (cases "vs = []") auto
next
  case (JObj ms)
  with that show ?thesis by (cases "ms = []") auto
qed (use stringify_hd [OF assms] that in auto)

lemma parse_pretty_elements:
  assumes "vs \<noteq> []" "\<forall>v\<in>set vs. json_ok v \<and> pretty_round_trip v" "length (pretty_elements ind vs) < n"
    and "list_all is_json_space ind" "list_all is_json_space outer"
  shows "parse_elements n (pretty_elements ind vs @ 10 # outer @ 93 # r) = Some (vs, r)"
  using assms(1-3)
proof (induction vs arbitrary: n)
  case (Cons v vs)
  let ?rest = "(if vs = [] then [] else [44]) @ pretty_elements ind vs @ 10 # outer @ 93 # r"
  from Cons.prems(3) obtain m where m: "n = Suc m" "length (pretty ind v) \<le> m" "length (pretty_elements ind vs) < m" by (cases n) auto
  have e: "ends_value ?rest" by (cases vs) (simp_all add: ends_value_def)
  have nl: "list_all is_json_space (10 # ind)" using assms(4) by (simp add: is_json_space_def)
  have "parse_value m (pretty ind v @ ?rest) = Some (v, ?rest)"
    using Cons.prems(2) m(2) assms(4) e by (intro pretty_round_tripD) simp_all
  then have p: "parse_value m (pretty_elements ind (v # vs) @ 10 # outer @ 93 # r) = Some (v, ?rest)"
    using parse_value_spaces [OF nl, of m "pretty ind v @ ?rest"] by simp
  have o: "skip_ws (10 # outer @ 93 # r) = 93 # r"
    using skip_spaces [OF assms(5), of "93 # r"] by (simp add: is_json_space_def)
  show ?case
  proof (cases "vs = []")
    case True
    with p o m(1) show ?thesis by (simp del: pretty_elements.simps(2))
  next
    case False
    then have "parse_elements m (pretty_elements ind vs @ 10 # outer @ 93 # r) = Some (vs, r)"
      using Cons.prems(2) m(3) by (intro Cons.IH) simp_all
    with p False m(1) show ?thesis by (simp add: is_json_space_def del: pretty_elements.simps(2))
  qed
qed simp

lemma parse_pretty_members:
  assumes "ms \<noteq> []" "\<forall>m\<in>set ms. json_ok (snd m) \<and> pretty_round_trip (snd m)" "length (pretty_members ind ms) < n"
    and "list_all is_json_space ind" "list_all is_json_space outer"
  shows "parse_members n (pretty_members ind ms @ 10 # outer @ 125 # r) = Some (ms, r)"
  using assms(1-3)
proof (induction ms arbitrary: n)
  case (Cons kv ms)
  obtain k v where kv: "kv = (k, v)" by (cases kv)
  let ?rest = "(if ms = [] then [] else [44]) @ pretty_members ind ms @ 10 # outer @ 125 # r"
  from Cons.prems(3) obtain m where m: "n = Suc m" "length (pretty ind v) \<le> m" "length (pretty_members ind ms) < m" by (cases n) (auto simp: kv)
  have e: "ends_value ?rest" by (cases ms) (simp_all add: ends_value_def kv)
  have nl: "list_all is_json_space (10 # ind)" using assms(4) by (simp add: is_json_space_def)
  have "parse_value m (pretty ind v @ ?rest) = Some (v, ?rest)"
    using Cons.prems(2) m(2) assms(4) e by (intro pretty_round_tripD) (simp_all add: kv)
  then have p: "parse_value m (32 # pretty ind v @ ?rest) = Some (v, ?rest)"
    using parse_value_spaces [of "[32]" m "pretty ind v @ ?rest"] by (simp add: is_json_space_def)
  have q: "skip_ws (pretty_members ind (kv # ms) @ 10 # outer @ 125 # r) = 34 # quote_units k @ 34 # 58 # 32 # pretty ind v @ ?rest"
    using skip_spaces [OF nl, of "quote k @ 58 # 32 # pretty ind v @ ?rest"] by (simp add: kv quote_def is_json_space_def)
  have o: "skip_ws (10 # outer @ 125 # r) = 125 # r"
    using skip_spaces [OF assms(5), of "125 # r"] by (simp add: is_json_space_def)
  have u: "parse_units (quote_units k @ 34 # 58 # 32 # pretty ind v @ ?rest) = Some (k, 58 # 32 # pretty ind v @ ?rest)"
    by (simp add: parse_units_quote_units)
  show ?case
  proof (cases "ms = []")
    case True
    with p q u o m(1) show ?thesis by (simp add: is_json_space_def kv del: pretty_members.simps(2))
  next
    case False
    then have "parse_members m (pretty_members ind ms @ 10 # outer @ 125 # r) = Some (ms, r)"
      using Cons.prems(2) m(3) by (intro Cons.IH) simp_all
    with p q u False m(1) show ?thesis by (simp add: is_json_space_def kv del: pretty_members.simps(2))
  qed
qed simp

lemma ends_not_number: "ends_value r \<Longrightarrow> takeWhile is_number_char r = [] \<and> dropWhile is_number_char r = r"
  by (cases r) (auto simp: ends_value_def is_number_char_def is_digit_def)

lemma parse_number_then:
  assumes "\<forall>c\<in>set s. is_number_char c" "ends_value r" "parse_number s = Some (v, [])"
  shows "parse_number (s @ r) = Some (v, r)"
proof -
  have s: "takeWhile is_number_char s = s" "dropWhile is_number_char s = []" using assms(1) by (simp_all add: takeWhile_eq_all_conv)
  have r: "takeWhile is_number_char (s @ r) = s" "dropWhile is_number_char (s @ r) = r"
    using ends_not_number [OF assms(2)] assms(1) by (simp_all add: takeWhile_append2 dropWhile_append2)
  obtain neg t where "(case s of [] \<Rightarrow> (False, []) | c # u \<Rightarrow> if c = 45 then (True, u) else (False, c # u)) = (neg, t)" by (rule prod.exhaust)
  with assms(3) show ?thesis
    unfolding parse_number_def Let_def s r by (cases "json_number_ok t"; cases "unsigned_decimal t") auto
qed

lemma parse_number_ends:
  assumes "\<bar>i\<bar> < 2 ^ 53" "ends_value r"
  shows "parse_number (show_int i @ r) = Some (JNum (Num (of_int i)), r)"
proof (rule parse_number_then [OF _ assms(2)])
  show "\<forall>c\<in>set (show_int i). is_number_char c" using show_nat_digits by (auto simp: show_int_def is_number_char_def)
  show "parse_number (show_int i) = Some (JNum (Num (of_int i)), [])"
    using parse_number_show_int [OF assms(1), of "[]"] by (simp add: follows_def)
qed

lemma pretty_number:
  assumes "json_ok (JNum x)" "length (stringify (JNum x)) \<le> n" "ends_value r"
  shows "parse_value n (stringify (JNum x) @ r) = Some (JNum x, r)"
proof -
  obtain i where i: "x = Num (of_int i)" "\<bar>i\<bar> < 2 ^ 53" "stringify (JNum x) = show_int i" using stringify_num_ok [OF assms(1)] .
  from stringify_hd [OF assms(1)] obtain c t where ct: "show_int i = c # t" and c: "c \<notin> {9, 10, 13, 32, 44, 93, 125}" using i(3) by metis
  have "is_digit c \<or> c = 45" using ct show_nat_digits by (auto simp: show_int_def split: if_splits) (metis list.set_intros(1))
  moreover obtain m where "n = Suc m" using assms(2) i(3) ct by (cases n) auto
  moreover have "parse_number (c # t @ r) = Some (JNum x, r)" using parse_number_ends [OF i(2) assms(3)] i(1) ct by simp
  ultimately show ?thesis using c ct i(3) by (auto simp: is_json_space_def is_digit_def)
qed

lemma pretty_scalar:
  assumes "json_ok v" "\<And>vs. v \<noteq> JArr vs" "\<And>ms. v \<noteq> JObj ms"
  shows "pretty_round_trip v"
proof -
  have "parse_value n (stringify v @ r) = Some (v, r)" if "length (stringify v) \<le> n" "ends_value r" for n r
  proof -
    have "0 < n" using that(1) stringify_nonempty [OF assms(1)] by linarith
    then obtain m where m: "n = Suc m" by (cases n) auto
    show ?thesis
    proof (cases v)
      case (JNum x)
      then show ?thesis using pretty_number assms(1) that by blast
    qed (use assms m in \<open>simp_all add: quote_def js_def is_json_space_def parse_literal_def startsWith_def parse_units_quote_units\<close>)
  qed
  moreover have "pretty ind v = stringify v" for ind using assms by (cases v) auto
  ultimately show ?thesis by (simp add: pretty_round_trip_def)
qed

lemma parse_pretty: "json_ok v \<Longrightarrow> pretty_round_trip v"
proof (induction v)
  case (JArr vs)
  show ?case
    unfolding pretty_round_trip_def
  proof (intro allI impI)
    fix ind :: jsstring and n r
    assume ind: "list_all is_json_space ind" and n: "length (pretty ind (JArr vs)) \<le> n"
    then obtain m where m: "n = Suc m" by (cases n) (auto split: if_splits)
    show "parse_value n (pretty ind (JArr vs) @ r) = Some (JArr vs, r)"
    proof (cases "vs = []")
      case False
      let ?i = "ind @ [32, 32]"
      have i: "list_all is_json_space ?i" using ind by (simp add: is_json_space_def)
      obtain v ws where vs: "vs = v # ws" using False by (cases vs) auto
      have "json_ok v" using JArr.prems vs by simp
      then obtain c t where ct: "pretty ?i v = c # t" "c \<notin> {9, 10, 13, 32, 44, 93, 125}" by (rule pretty_hd)
      have nl: "list_all is_json_space (10 # ?i)" using i by (simp add: is_json_space_def)
      have h: "skip_ws (pretty_elements ?i vs @ s) = c # t @ (if ws = [] then [] else [44]) @ pretty_elements ?i ws @ s" for s
        using skip_spaces [OF nl, of "pretty ?i v @ (if ws = [] then [] else [44]) @ pretty_elements ?i ws @ s"] ct
        by (simp add: vs is_json_space_def)
      have "parse_elements m (pretty_elements ?i vs @ 10 # ind @ 93 # r) = Some (vs, r)"
        using JArr n m False i ind by (intro parse_pretty_elements) (auto simp: list_all_iff)
      with False m h ct(2) show ?thesis by (simp add: is_json_space_def)
    qed (simp add: m is_json_space_def)
  qed
next
  case (JObj ms)
  show ?case
    unfolding pretty_round_trip_def
  proof (intro allI impI)
    fix ind :: jsstring and n r
    assume ind: "list_all is_json_space ind" and n: "length (pretty ind (JObj ms)) \<le> n"
    then obtain m where m: "n = Suc m" by (cases n) (auto split: if_splits)
    show "parse_value n (pretty ind (JObj ms) @ r) = Some (JObj ms, r)"
    proof (cases "ms = []")
      case False
      let ?i = "ind @ [32, 32]"
      have i: "list_all is_json_space ?i" using ind by (simp add: is_json_space_def)
      obtain k v ws where ms: "ms = (k, v) # ws" using False by (cases ms) auto
      have nl: "list_all is_json_space (10 # ?i)" using i by (simp add: is_json_space_def)
      have h: "\<exists>t. skip_ws (pretty_members ?i ms @ s) = 34 # t" for s
        using skip_spaces [OF nl, of "quote k @ 58 # 32 # pretty ?i v @ (if ws = [] then [] else [44]) @ pretty_members ?i ws @ s"]
        by (simp add: ms quote_def is_json_space_def)
      then obtain t where t: "skip_ws (pretty_members ?i ms @ 10 # ind @ 125 # r) = 34 # t" by blast
      have "parse_members m (pretty_members ?i ms @ 10 # ind @ 125 # r) = Some (ms, r)"
        using JObj n m False i ind by (intro parse_pretty_members) (fastforce simp: list_all_iff)+
      with False m t JObj.prems show ?thesis by (simp add: is_json_space_def map_from_distinct)
    qed (simp add: m is_json_space_def)
  qed
qed (rule pretty_scalar; simp)+

text \<open>The text that is shown, and that the button copies, reads back as the payload.\<close>

lemma payload_text_read:
  assumes "json_ok payload"
  shows "json_parse (payload_text payload) = Inr payload"
proof -
  have "parse_value (Suc (length (pretty [] payload))) (pretty [] payload @ []) = Some (payload, [])"
    by (intro pretty_round_tripD [OF parse_pretty [OF assms]]) (simp_all add: ends_value_def)
  then show ?thesis by (simp add: json_parse_def payload_text_def)
qed

lemma join_Cons: "ss \<noteq> [] \<Longrightarrow> join sep ([] # ss) = sep # join sep ss" "join sep ((b # t) # ss) = b # join sep (t # ss)"
  by (cases ss; simp)+

lemma join_split: "join sep (split_at sep s) = s"
proof (induction s)
  case (Cons b s)
  have "split_at sep s \<noteq> []" by (cases s) (simp_all split: list.split)
  then obtain t ss where "split_at sep s = t # ss" by (cases "split_at sep s") auto
  with Cons show ?case by (simp add: join_Cons)
qed simp

end
