(* ===== verification/CorrelationViews.thy ===== *)
theory CorrelationViews
  imports IntelligenceWorkspace
begin

text \<open>
  The correlation workspace and the MITRE matrix of \<open>pages/IntelligencePage.tsx\<close>: which parts are shown, the state of the search
  field, of the result and of the matrix with their handlers, the inspector of a relationship or of a value, and the rows of the tables.
\<close>

section \<open>The search\<close>

datatype correlation_part = CorrelationReady | CorrelationWaiting | CorrelationFailed | CorrelationStale | CorrelationShown

definition CorrelationWorkspace :: "jsstring \<Rightarrow> query_state \<Rightarrow> correlation_part list" where
  "CorrelationWorkspace v r =
     (if v = [] then [CorrelationReady] else []) @
     (if v \<noteq> [] \<and> is_pending r then [CorrelationWaiting] else []) @
     (if v \<noteq> [] \<and> query_error r \<noteq> None \<and> \<not> has_data r then [CorrelationFailed] else []) @
     (if has_data r \<and> is_refetch_error r then [CorrelationStale] else []) @
     (if has_data r then [CorrelationShown] else [])"

text \<open>Choosing a suggestion writes it into the field and searches it.\<close>

definition choose_suggestion :: "search_params \<Rightarrow> jsstring \<Rightarrow> jsstring \<times> search_action" where
  "choose_suggestion ps suggestion = (suggestion, onSearch ps suggestion)"

section \<open>The result\<close>

record CorrelationRelatedDto =
  rel_value :: jsstring
  rel_valueType :: CorrelationValueType
  rel_sources :: "CorrelationSource list"

record correlation_data = CorrelationDto +
  co_related :: "CorrelationRelatedDto list"

record correlation_result =
  cx_selection :: "CorrelationSelection option"
  cx_expanded :: bool

definition open_result :: correlation_result where
  "open_result = \<lparr>cx_selection = None, cx_expanded = False\<rparr>"

definition selectCorrelation :: "CorrelationSelection \<Rightarrow> correlation_result \<Rightarrow> correlation_result" where
  "selectCorrelation s p = p\<lparr>cx_selection := Some s\<rparr>"

definition expandResult :: "correlation_result \<Rightarrow> correlation_result" where
  "expandResult p = p\<lparr>cx_expanded := True\<rparr>"

definition closeResult :: "correlation_result \<Rightarrow> correlation_result" where
  "closeResult p = p\<lparr>cx_expanded := False\<rparr>"

definition CORRELATION_INLINE_RELATIONSHIP_LIMIT :: int where
  "CORRELATION_INLINE_RELATIONSHIP_LIMIT = 10"

text \<open>The parameters of the label that says how many of the relationships the graph shows.\<close>

definition correlationScopeLabel :: "correlation_data \<Rightarrow> int \<Rightarrow> (int \<times> int) option" where
  "correlationScopeLabel c limit =
     (let total_count = int (length (co_relationships c)) in if limit < total_count then Some (limit, total_count) else None)"

datatype correlation_context =
    NothingSelected
  | RelationshipContext CorrelationRelationshipDto jsstring
  | ValueContext jsstring CorrelationValueType "CorrelationSource list" nat

definition relation_title :: "CorrelationRelation \<Rightarrow> jsstring" where
  "relation_title r = map (\<lambda>c. if c = 95 then 32 else c) (relation_name r)"

definition touching :: "correlation_data \<Rightarrow> jsstring \<Rightarrow> CorrelationRelationshipDto list" where
  "touching c i = filter (\<lambda>e. correlationNodeId (cr_sourceType e) (cr_sourceValue e) = i \<or> correlationNodeId (cr_targetType e) (cr_targetValue e) = i)
     (co_relationships c)"

definition CorrelationInspector :: "correlation_data \<Rightarrow> CorrelationSelection option \<Rightarrow> correlation_context" where
  "CorrelationInspector c selection =
     (case selectedCorrelationRelationship (CorrelationDto.truncate c) selection of
        Some e \<Rightarrow> RelationshipContext e (relation_title (cr_relation e))
      | None \<Rightarrow>
          (case selection of
             Some (CorrelationNode i) \<Rightarrow>
               (case List.find (\<lambda>n. correlationNodeId (rel_valueType n) (rel_value n) = i) (co_related c) of
                  Some n \<Rightarrow> ValueContext (rel_value n) (rel_valueType n) (rel_sources n) (length (touching c i))
                | None \<Rightarrow>
                    if correlationNodeId (co_inputType c) (co_inputValue c) = i
                    then ValueContext (co_inputValue c) (co_inputType c) [] (length (touching c i)) else NothingSelected)
           | _ \<Rightarrow> NothingSelected))"

definition CorrelationEvidenceTable :: "correlation_data \<Rightarrow> CorrelationSelection option \<Rightarrow> (CorrelationRelationshipDto \<times> bool) list" where
  "CorrelationEvidenceTable c selection =
     map (\<lambda>e. (e, selection = Some (CorrelationEdge (correlationEdgeId e)))) (co_relationships c)"

section \<open>The matrix\<close>

datatype mitre_type = TACTIC | TECHNIQUE

record MitreSelection =
  mi_type :: mitre_type
  mi_code :: jsstring
  mi_name :: jsstring
  mi_count :: int

datatype top_tab = RULES | SIGNALS

record mitre_view =
  mv_selection :: "MitreSelection option"
  mv_tab :: top_tab

definition open_mitre :: mitre_view where
  "open_mitre = \<lparr>mv_selection = None, mv_tab = RULES\<rparr>"

definition selectMitre :: "MitreSelection \<Rightarrow> mitre_view \<Rightarrow> mitre_view" where
  "selectMitre row p = p\<lparr>mv_selection := Some row\<rparr>"

definition setTopTab :: "top_tab \<Rightarrow> mitre_view \<Rightarrow> mitre_view" where
  "setTopTab tab p = p\<lparr>mv_tab := tab\<rparr>"

text \<open>The rows of a group, with whether each is pressed; a code, a name and a count come from the summary.\<close>

definition mitre_rows :: "mitre_type \<Rightarrow> (jsstring \<times> jsstring \<times> int) list \<Rightarrow> MitreSelection list" where
  "mitre_rows k rows = map (\<lambda>(code, name, n). \<lparr>mi_type = k, mi_code = code, mi_name = name, mi_count = n\<rparr>) (take 10 rows)"

definition MitreGroup :: "MitreSelection list \<Rightarrow> MitreSelection option \<Rightarrow> (MitreSelection \<times> bool) list" where
  "MitreGroup rows selection =
     map (\<lambda>row. (row, case selection of Some s \<Rightarrow> mi_type s = mi_type row \<and> mi_code s = mi_code row | None \<Rightarrow> False)) rows"

text \<open>The rows of the chosen tab.\<close>

definition top_rows ::
  "translator \<Rightarrow> (jsstring \<times> jsstring \<times> int) list \<Rightarrow> counted list \<Rightarrow> counted list \<Rightarrow> counted list \<Rightarrow> mitre_view \<Rightarrow> (js_error + jsstring \<times> int) list" where
  "top_rows t topRules domains ips processes p =
     (case mv_tab p of
        RULES \<Rightarrow> map (\<lambda>(code, name, n). map_sum id (\<lambda>s. (code @ MIDDLE_DOT @ s, n)) (detectionRuleName t name (Some code))) (take 10 topRules)
      | SIGNALS \<Rightarrow> map Inr (signalRows domains ips processes))"

section \<open>Facts\<close>

lemma one_correlation_part:
  assumes "documented_state r" "v = [] \<Longrightarrow> \<not> has_data r"
  shows "length (filter (\<lambda>p. p \<noteq> CorrelationStale) (CorrelationWorkspace v r)) = 1"
  using assms by (auto simp: CorrelationWorkspace_def documented_state_def)

text \<open>The label is shown exactly when the graph leaves out a relationship.\<close>

lemma scope_label_iff:
  assumes "1 \<le> limit"
  shows "correlationScopeLabel c limit \<noteq> None \<longleftrightarrow>
    length (correlationGraphRelationships (CorrelationDto.truncate c) limit) < length (co_relationships c)"
proof -
  let ?c = "CorrelationDto.truncate c"
  have "length (correlationGraphRelationships ?c limit) = min (length (co_relationships ?c)) (nat limit)"
    using assms sum_length_filter_compl [of "input_connected ?c" "co_relationships ?c"]
    by (simp only: correlationGraphRelationships_eq length_take length_append max_absorb2)
  moreover have "co_relationships ?c = co_relationships c" by (simp add: CorrelationDto.defs)
  ultimately show ?thesis using assms by (auto simp: correlationScopeLabel_def Let_def min_def)
qed

text \<open>A row of the table shows the relationship in the inspector, and is the only marked one when the relationships have ids of their own.\<close>

lemma selected_row:
  assumes "e \<in> set (co_relationships c)" "inj_on correlationEdgeId (set (co_relationships c))"
  shows "CorrelationInspector c (Some (CorrelationEdge (correlationEdgeId e))) = RelationshipContext e (relation_title (cr_relation e))"
    "(f, True) \<in> set (CorrelationEvidenceTable c (Some (CorrelationEdge (correlationEdgeId e)))) \<longleftrightarrow> f = e"
proof -
  obtain g where g: "List.find (\<lambda>f. correlationEdgeId f = correlationEdgeId e) (co_relationships c) = Some g"
    using assms(1) by (metis (mono_tags, lifting) find_None_iff not_Some_eq)
  then have "g \<in> set (co_relationships c)" "correlationEdgeId g = correlationEdgeId e" by (auto dest: find_SomeD)
  then have "g = e" using assms by (auto dest: inj_onD)
  with g show "CorrelationInspector c (Some (CorrelationEdge (correlationEdgeId e))) = RelationshipContext e (relation_title (cr_relation e))"
    by (simp add: CorrelationInspector_def selectedCorrelationRelationship_def CorrelationDto.defs)
  show "(f, True) \<in> set (CorrelationEvidenceTable c (Some (CorrelationEdge (correlationEdgeId e)))) \<longleftrightarrow> f = e"
    using assms by (auto simp: CorrelationEvidenceTable_def dest: inj_onD)
qed

lemma pressed_rows:
  assumes "distinct (map mi_code rows)" "s \<in> set rows" "list_all (\<lambda>row. mi_type row = k) rows"
  shows "map fst (filter snd (MitreGroup rows (mv_selection (selectMitre s p)))) = [s]"
  using assms
proof (induction rows)
  case (Cons row rows)
  have none: "filter snd (MitreGroup rs (Some s)) = []" if "\<forall>r\<in>set rs. mi_code r \<noteq> mi_code s" for rs
    using that by (auto simp: MitreGroup_def filter_empty_conv)
  have d: "mi_code row \<notin> mi_code ` set rows" using Cons.prems(1) by simp
  have apart: "mi_code r \<noteq> mi_code row" if "r \<in> set rows" for r using d imageI [OF that, of mi_code] by metis
  show ?case
  proof (cases "row = s")
    case True
    then have "\<forall>r\<in>set rows. mi_code r \<noteq> mi_code s" using apart by simp
    with none True show ?thesis by (simp add: MitreGroup_def selectMitre_def)
  next
    case False
    then have s: "s \<in> set rows" using Cons.prems(2) by simp
    have "mi_code s \<noteq> mi_code row" using apart [OF s] .
    moreover have "map fst (filter snd (MitreGroup rows (mv_selection (selectMitre s p)))) = [s]"
      using Cons.prems s by (intro Cons.IH) simp_all
    ultimately show ?thesis by (simp add: MitreGroup_def selectMitre_def)
  qed
qed simp

end
