(* ===== verification/WidgetProperties.thy ===== *)
theory WidgetProperties
  imports OverviewWidgets PayloadViewer CorrelationViews
begin

text \<open>
  Properties of the widgets of the overview and of the view of a payload: the lists behind the numbers, the text that is
  copied and the occurrences that are counted.
\<close>

section \<open>The lists behind the numbers\<close>




section \<open>The payload of an event\<close>






end
