(* ===== verification/Markup.thy ===== *)
theory Markup
  imports ReportCollection ConsoleControls
begin

text \<open>
  What the elements of \<open>components/primitives.tsx\<close> draw: buttons, fields, badges, tooltips, the popover, the
  dialog and the drawer, as trees of the document.  A list of trees is a \<open>ReactNode\<close>; the identifier that
  \<open>useId\<close> makes up is an argument, and so is an icon of \<open>lucide-react\<close>, by its name.  Handlers are no part of a
  tree: the popover, which has a state, is a small machine beside its drawing.

  The second half says when a drawing is consistent: every element that another one names as its label or its
  description is drawn.  The contract of an element that encloses others is a locale, and every such element
  of the file is an instance of it.
\<close>

section \<open>Attributes and children\<close>

type_synonym markup = "dom list"

type_synonym jsx_attributes = "(string \<times> jsstring option) list"

text \<open>
  The attributes of an element in the order they are written, \<open>{...props}\<close> included: a later value replaces
  an earlier one, and what is undefined in the end is not drawn.
\<close>

definition spread :: "jsx_attributes \<Rightarrow> (string \<times> jsstring) list" where
  "spread as = concat (map (\<lambda>(a, v). case v of Some s \<Rightarrow> [(a, s)] | None \<Rightarrow> []) (map_from as))"

definition flag_attribute :: "bool \<Rightarrow> jsstring option" where
  "flag_attribute b = (if b then Some (js ''true'') else None)"

definition disabled_attribute :: "bool \<Rightarrow> jsstring option" where
  "disabled_attribute b = (if b then Some [] else None)"

text \<open>\<open>{text ? <element>{text}</element> : null}\<close>: the empty text counts as none.\<close>

definition truthy_text :: "jsstring option \<Rightarrow> bool" where
  "truthy_text v \<longleftrightarrow> v \<noteq> None \<and> v \<noteq> Some []"

definition text_if :: "jsstring option \<Rightarrow> (jsstring \<Rightarrow> dom) \<Rightarrow> markup" where
  "text_if v f = (if truthy_text v then [f (the v)] else [])"

definition nodes_if :: "bool \<Rightarrow> markup \<Rightarrow> markup" where
  "nodes_if b ns = (if b then ns else [])"

section \<open>Buttons, fields and badges\<close>

definition Button :: "markup \<Rightarrow> jsstring \<Rightarrow> bool \<Rightarrow> bool \<Rightarrow> jsstring \<Rightarrow> jsx_attributes \<Rightarrow> dom" where
  "Button children className disabled loading variant props =
     Element ''BUTTON'' (trim (js ''button '' @ (if variant = js ''default'' then [] else variant) @ js '' '' @ className))
       (spread ([(''aria-busy'', flag_attribute loading), (''disabled'', disabled_attribute (disabled \<or> loading))] @ props)) children"

definition IconButton :: "markup \<Rightarrow> jsstring \<Rightarrow> jsx_attributes \<Rightarrow> dom" where
  "IconButton children className props = Element ''BUTTON'' (trim (js ''icon-button '' @ className)) (spread props) children"

definition Field :: "jsstring \<Rightarrow> jsstring option \<Rightarrow> jsstring option \<Rightarrow> markup \<Rightarrow> dom" where
  "Field label helper error children =
     Element ''LABEL'' (js ''field '' @ (if truthy_text error then js ''invalid'' else [])) []
       ([Element ''SPAN'' [] [] [TextNode label]] @ children @
        (if truthy_text error then [Element ''SMALL'' (js ''field-error'') [] [TextNode (the error)]]
         else text_if helper (\<lambda>h. Element ''SMALL'' [] [] [TextNode h])))"

text \<open>The text field and the select field differ in the control between the label and the detail.\<close>

definition field_id :: "jsstring \<Rightarrow> jsstring option \<Rightarrow> jsstring" where
  "field_id generatedId given = (case given of Some i \<Rightarrow> i | None \<Rightarrow> generatedId)"

definition field_detail :: "jsstring \<Rightarrow> jsstring option \<Rightarrow> jsstring option \<Rightarrow> markup" where
  "field_detail detailId helper error =
     (if truthy_text error then [Element ''SMALL'' (js ''field-error'') [(''id'', detailId)] [TextNode (the error)]]
      else text_if helper (\<lambda>h. Element ''SMALL'' [] [(''id'', detailId)] [TextNode h]))"

definition control_attributes :: "jsstring \<Rightarrow> jsstring option \<Rightarrow> jsstring option \<Rightarrow> jsx_attributes \<Rightarrow> jsx_attributes" where
  "control_attributes fieldId helper error props =
     [(''aria-describedby'', if truthy_text helper \<or> truthy_text error then Some (fieldId @ js ''-detail'') else None),
      (''aria-invalid'', flag_attribute (truthy_text error)), (''id'', Some fieldId)] @ props"

definition field_class :: "jsstring option \<Rightarrow> jsstring \<Rightarrow> jsstring" where
  "field_class error className = trim (js ''field '' @ (if truthy_text error then js ''invalid'' else []) @ js '' '' @ className)"

definition TextField ::
  "jsstring \<Rightarrow> jsstring \<Rightarrow> jsstring option \<Rightarrow> jsstring option \<Rightarrow> jsstring option \<Rightarrow> jsstring \<Rightarrow> jsx_attributes \<Rightarrow> dom" where
  "TextField generatedId label helper error given className props =
     (let fieldId = field_id generatedId given
      in Element ''DIV'' (field_class error className) []
           ([Element ''LABEL'' [] [(''for'', fieldId)] [TextNode label],
             Element ''INPUT'' [] (spread (control_attributes fieldId helper error props)) []] @
            field_detail (fieldId @ js ''-detail'') helper error))"

definition SelectField ::
  "jsstring \<Rightarrow> jsstring \<Rightarrow> jsstring option \<Rightarrow> jsstring option \<Rightarrow> jsstring option \<Rightarrow> jsstring \<Rightarrow> markup \<Rightarrow> jsx_attributes \<Rightarrow> dom" where
  "SelectField generatedId label helper error given className children props =
     (let fieldId = field_id generatedId given
      in Element ''DIV'' (field_class error className) []
           ([Element ''LABEL'' [] [(''for'', fieldId)] [TextNode label],
             Element ''SELECT'' [] (spread (control_attributes fieldId helper error props)) children] @
            field_detail (fieldId @ js ''-detail'') helper error))"

definition Badge :: "markup \<Rightarrow> jsstring \<Rightarrow> jsstring \<Rightarrow> dom" where
  "Badge children className tone = Element ''SPAN'' (trim (js ''badge badge-'' @ tone @ js '' '' @ className)) [] children"

text \<open>\<open>cloneElement\<close> gives the enclosed element another description: the one it had, and the tooltip.\<close>

definition described_by :: "jsstring option \<Rightarrow> jsstring \<Rightarrow> jsstring" where
  "described_by given tipId = join_text (js '' '') (filter (\<lambda>s. s \<noteq> []) [case given of Some s \<Rightarrow> s | None \<Rightarrow> [], tipId])"

fun with_description :: "jsstring \<Rightarrow> dom \<Rightarrow> dom" where
  "with_description tipId (Element t c as ns) =
     Element t c (map_set as ''aria-describedby'' (described_by (map_of as ''aria-describedby'') tipId)) ns"
| "with_description tipId (TextNode s) = TextNode s"

definition Tooltip :: "jsstring \<Rightarrow> jsstring \<Rightarrow> dom \<Rightarrow> dom" where
  "Tooltip tipId label child =
     Element ''SPAN'' (js ''tooltip'') []
       [with_description tipId child,
        Element ''SPAN'' (js ''tooltip-content'') [(''id'', tipId), (''role'', js ''tooltip'')] [TextNode label]]"

section \<open>The popover\<close>

text \<open>
  Its state, whether its two listeners are registered on the document, and whether it moved the focus to its
  button.  The effect depends on \<open>open\<close> alone and is run before the next event of the user is handled.
\<close>

record popover =
  po_open :: bool
  po_listening :: bool
  po_trigger_focused :: bool

datatype popover_event = PressTrigger | PointerDown bool | KeyDown jsstring  \<comment> \<open>whether the pointer is within the popover\<close>

definition mount_popover :: popover where
  "mount_popover = \<lparr>po_open = False, po_listening = False, po_trigger_focused = False\<rparr>"

definition closeOutside :: "bool \<Rightarrow> popover \<Rightarrow> popover" where
  "closeOutside inside p = (if inside then p else p\<lparr>po_open := False\<rparr>)"

definition closeOnEscape :: "jsstring \<Rightarrow> popover \<Rightarrow> popover" where
  "closeOnEscape key p = (if key \<noteq> js ''Escape'' then p else p\<lparr>po_open := False, po_trigger_focused := True\<rparr>)"

fun popover_handle :: "popover_event \<Rightarrow> popover \<Rightarrow> popover" where
  "popover_handle PressTrigger p = p\<lparr>po_open := \<not> po_open p\<rparr>"
| "popover_handle (PointerDown inside) p = (if po_listening p then closeOutside inside p else p)"
| "popover_handle (KeyDown key) p = (if po_listening p then closeOnEscape key p else p)"

text \<open>The effect: the clean-up removes both listeners, and an open popover registers them again.\<close>

definition popover_effect :: "popover \<Rightarrow> popover" where
  "popover_effect p = (let cleaned = p\<lparr>po_listening := False\<rparr> in if po_open p then cleaned\<lparr>po_listening := True\<rparr> else cleaned)"

definition popover_step :: "popover_event \<Rightarrow> popover \<Rightarrow> popover" where
  "popover_step e p =
     (let p' = popover_handle e (p\<lparr>po_trigger_focused := False\<rparr>) in if po_open p' = po_open p then p' else popover_effect p')"

definition run_popover :: "popover_event list \<Rightarrow> popover" where
  "run_popover es = foldl (\<lambda>p e. popover_step e p) mount_popover es"

definition Popover :: "jsstring \<Rightarrow> markup \<Rightarrow> markup \<Rightarrow> jsstring \<Rightarrow> popover \<Rightarrow> dom" where
  "Popover label trigger children className p =
     Element ''DIV'' (trim (js ''popover '' @ className)) []
       ([Element ''BUTTON'' (js ''popover-trigger icon-button'')
           [(''aria-expanded'', if po_open p then js ''true'' else js ''false''), (''aria-haspopup'', js ''dialog''), (''aria-label'', label),
            (''type'', js ''button'')] trigger] @
        nodes_if (po_open p)
          [Element ''SECTION'' (js ''popover-content'') [(''aria-label'', label), (''role'', js ''dialog'')] children])"

section \<open>Dialogs and drawers\<close>

definition close_button :: "jsstring \<Rightarrow> jsstring \<Rightarrow> dom \<Rightarrow> dom" where
  "close_button className closeLabel icon =
     Element ''BUTTON'' className [(''aria-label'', closeLabel), (''data-autofocus'', js ''true''), (''type'', js ''button'')] [icon]"

definition Dialog ::
  "jsstring \<Rightarrow> (string \<Rightarrow> dom) \<Rightarrow> bool \<Rightarrow> jsstring \<Rightarrow> jsstring option \<Rightarrow> markup \<Rightarrow> markup \<Rightarrow> jsstring \<Rightarrow> jsstring \<Rightarrow> markup" where
  "Dialog titleId icon dialogOpen title eyebrow children actions closeLabel className =
     nodes_if dialogOpen
       [Element ''DIV'' (js ''modal-layer'') [(''role'', js ''presentation'')]
          [Element ''SECTION'' (trim (js ''dialog-surface '' @ className))
             [(''aria-labelledby'', titleId), (''aria-modal'', js ''true''), (''role'', js ''dialog'')]
             ([close_button (js ''dialog-close icon-button'') closeLabel (icon ''X'')] @
              text_if eyebrow (\<lambda>s. Element ''SPAN'' (js ''eyebrow'') [] [TextNode s]) @
              [Element ''H2'' [] [(''id'', titleId)] [TextNode title], Element ''DIV'' (js ''dialog-body'') [] children] @
              nodes_if (actions \<noteq> []) [Element ''DIV'' (js ''dialog-actions'') [] actions])]]"

text \<open>A press of the pointer closes a dialog only on the layer itself, and a drawer only on its backdrop.\<close>

definition dialog_mouse_down :: "'e \<Rightarrow> 'e \<Rightarrow> bool" where
  "dialog_mouse_down currentTarget pressed \<longleftrightarrow> currentTarget = pressed"

definition Drawer ::
  "jsstring \<Rightarrow> (string \<Rightarrow> dom) \<Rightarrow> bool \<Rightarrow> jsstring \<Rightarrow> jsstring \<Rightarrow> markup \<Rightarrow> jsstring \<Rightarrow> jsstring option \<Rightarrow> markup" where
  "Drawer titleId icon drawerOpen label closeLabel children side title =
     nodes_if drawerOpen
       [Element ''DIV'' (js ''drawer-layer'') [(''role'', js ''presentation'')]
          [Element ''DIV'' (js ''drawer-backdrop'') [] [],
           Element ''SECTION'' (js ''drawer-panel drawer-'' @ side)
             ((if truthy_text title then [(''aria-labelledby'', titleId)] else [(''aria-label'', label)]) @
              [(''aria-modal'', js ''true''), (''role'', js ''dialog'')])
             ([close_button (js ''drawer-close icon-button'') closeLabel (icon ''X'')] @
              text_if title (\<lambda>s. Element ''H2'' (js ''drawer-title'') [(''id'', titleId)] [TextNode s]) @ children)]]"

section \<open>Names and references\<close>

text \<open>
  An element is named by \<open>id\<close>; \<open>aria-labelledby\<close>, \<open>aria-describedby\<close> and \<open>for\<close> refer to names.  Names have no
  white space, so that a value is split into the names in it.
\<close>

definition attribute_names :: "string list \<Rightarrow> (string \<times> jsstring) list \<Rightarrow> jsstring list" where
  "attribute_names attributes as =
     concat (map (\<lambda>a. case map_of as a of Some v \<Rightarrow> class_tokens [] v | None \<Rightarrow> []) attributes)"

fun names_in :: "string list \<Rightarrow> dom \<Rightarrow> jsstring list" where
  "names_in attributes (TextNode s) = []"
| "names_in attributes (Element t c as ns) = attribute_names attributes as @ concat (map (names_in attributes) ns)"

definition identifiers :: "markup \<Rightarrow> jsstring list" where
  "identifiers ns = concat (map (names_in [''id'']) ns)"

definition references :: "markup \<Rightarrow> jsstring list" where
  "references ns = concat (map (names_in [''aria-labelledby'', ''aria-describedby'', ''for'']) ns)"

definition dangling :: "markup \<Rightarrow> jsstring list" where
  "dangling ns = filter (\<lambda>r. r \<notin> set (identifiers ns)) (references ns)"

lemma names_simps [simp]:
  "identifiers [] = []" "identifiers (n # ns) = names_in [''id''] n @ identifiers ns" "identifiers (ns @ ms) = identifiers ns @ identifiers ms"
  "references [] = []"
  "references (n # ns) = names_in [''aria-labelledby'', ''aria-describedby'', ''for''] n @ references ns"
  "references (ns @ ms) = references ns @ references ms"
  "concat (map (names_in [''id'']) ns) = identifiers ns"
  "concat (map (names_in [''aria-labelledby'', ''aria-describedby'', ''for'']) ns) = references ns"
  by (simp_all add: identifiers_def references_def)

lemma set_dangling: "set (dangling ns) = set (references ns) - set (identifiers ns)"
  by (auto simp: dangling_def)

lemma dangling_append: "set (dangling (ns @ ms)) \<subseteq> set (dangling ns) \<union> set (dangling ms)"
  by (auto simp: set_dangling)

lemma dangling_concat: "set (dangling (concat nss)) \<subseteq> (\<Union>ns\<in>set nss. set (dangling ns))"
proof (induction nss)
  case (Cons ns nss)
  with dangling_append [of ns "concat nss"] show ?case by auto
qed (simp add: set_dangling)

text \<open>
  The contract of an element that encloses others: it leaves no reference open that the elements it encloses,
  and the elements it is handed beside them, do not leave open themselves.
\<close>

locale enclosing =
  fixes draw :: "markup \<Rightarrow> markup" and handed :: markup
  assumes no_new_dangling: "set (dangling (draw ns)) \<subseteq> set (dangling handed) \<union> set (dangling ns)"
begin

definition closed_in :: "markup \<Rightarrow> bool" where
  "closed_in ns \<longleftrightarrow> dangling handed = [] \<and> dangling ns = []"

lemma draw_closed: "closed_in ns \<Longrightarrow> dangling (draw ns) = []"
  using no_new_dangling [of ns] by (simp add: closed_in_def)

end

text \<open>One such element within another is one again.\<close>

locale nested_elements = outer: enclosing draw handed + inner: enclosing draw' handed'
  for draw handed draw' handed'
begin

lemma nested_dangling: "set (dangling (draw (draw' ns))) \<subseteq> set (dangling handed) \<union> set (dangling handed') \<union> set (dangling ns)"
  using outer.no_new_dangling [of "draw' ns"] inner.no_new_dangling [of ns] by blast

lemma nested_closed: "outer.closed_in [] \<Longrightarrow> inner.closed_in ns \<Longrightarrow> dangling (draw (draw' ns)) = []"
  using nested_dangling [of ns] by (simp add: outer.closed_in_def inner.closed_in_def)

end

lemmas drawing_defs = Button_def IconButton_def Field_def Badge_def Popover_def Dialog_def Drawer_def close_button_def nodes_if_def
  text_if_def truthy_text_def

interpretation dialog: enclosing
  "\<lambda>ns. Dialog titleId icon dialogOpen title eyebrow ns actions closeLabel className" "icon ''X'' # actions"
  for titleId icon dialogOpen title eyebrow actions closeLabel className
  by unfold_locales (auto simp: set_dangling drawing_defs attribute_names_def)

interpretation drawer: enclosing
  "\<lambda>ns. Drawer titleId icon drawerOpen label closeLabel ns side title" "[icon ''X'']"
  for titleId icon drawerOpen label closeLabel side title
  by unfold_locales (auto simp: set_dangling drawing_defs attribute_names_def)

interpretation popover_frame: enclosing "\<lambda>ns. [Popover label trigger ns className p]" trigger
  for label trigger className p
  by unfold_locales (auto simp: set_dangling drawing_defs attribute_names_def)

interpretation field: enclosing "\<lambda>ns. [Field label helper error ns]" "[]"
  for label helper error
  by unfold_locales (auto simp: set_dangling drawing_defs attribute_names_def)

interpretation badge: enclosing "\<lambda>ns. [Badge ns className tone]" "[]"
  for className tone
  by unfold_locales (auto simp: set_dangling drawing_defs attribute_names_def)

interpretation field_in_dialog: nested_elements
  "\<lambda>ns. Dialog titleId icon dialogOpen title eyebrow ns actions closeLabel className" "icon ''X'' # actions"
  "\<lambda>ns. [Field label helper error ns]" "[]"
  for titleId icon dialogOpen title eyebrow actions closeLabel className label helper error ..

section \<open>Facts\<close>

subsection \<open>Attributes\<close>

lemma map_get_map_from: "map_get (map_from as) k = map_of (rev as) k"
proof (induction as rule: rev_induct)
  case (snoc e as)
  have "map_from (as @ [e]) = map_set (map_from as) (fst e) (snd e)" by (simp add: map_from_def case_prod_beta)
  with snoc show ?case by (cases e) simp
qed (simp add: map_from_def)

lemma distinct_keys_map_from: "distinct (map fst (map_from as))"
proof (induction as rule: rev_induct)
  case (snoc e as)
  have "map_from (as @ [e]) = map_set (map_from as) (fst e) (snd e)" by (simp add: map_from_def case_prod_beta)
  with snoc show ?case using distinct_map_set [of "map_from as" "fst e" "snd e"] by simp
qed (simp add: map_from_def)

lemma map_of_defined:
  "distinct (map fst es) \<Longrightarrow>
   map_of (concat (map (\<lambda>(a, v). case v of Some s \<Rightarrow> [(a, s)] | None \<Rightarrow> []) es)) k = Option.bind (map_of es k) id"
proof (induction es)
  case (Cons e es)
  obtain a v where e: "e = (a, v)" by (cases e)
  have "map_of es a = None" using Cons.prems by (simp add: e map_of_eq_None_iff)
  with Cons show ?case by (cases v) (auto simp: e)
qed simp

text \<open>The last value that is written for an attribute is the one it has.\<close>

lemma spread_last: "map_of (spread as) a = Option.bind (map_of (rev as) a) id"
  using map_of_defined [OF distinct_keys_map_from, of as a] map_get_map_from [of as a] by (simp add: spread_def)

lemma spread_own: "a \<notin> fst ` set props \<Longrightarrow> map_of (spread (own @ props)) a = Option.bind (map_of (rev own) a) id"
  by (simp add: spread_last map_add_def map_of_eq_None_iff [THEN iffD2])

text \<open>A button that is loading cannot be pressed, whatever else it is given.\<close>

lemma loading_button_disabled:
  "''disabled'' \<notin> fst ` set props \<Longrightarrow>
   dom_attribute (Button children className disabled loading variant props) ''disabled'' = disabled_attribute (disabled \<or> loading)"
  by (simp add: dom_attribute_def Button_def spread_own [where own = "[x, y]" for x y, simplified] disabled_attribute_def)

subsection \<open>Fields\<close>

lemma control_references:
  assumes "fst ` set props \<inter> {''id'', ''aria-describedby'', ''aria-labelledby'', ''for''} = {}"
  shows "attribute_names [''id''] (spread (control_attributes fieldId helper error props)) = class_tokens [] fieldId"
    and "attribute_names [''aria-labelledby'', ''aria-describedby'', ''for''] (spread (control_attributes fieldId helper error props)) =
           (if truthy_text helper \<or> truthy_text error then class_tokens [] (fieldId @ js ''-detail'') else [])"
proof -
  have own: "map_of (spread (control_attributes fieldId helper error props)) a =
      Option.bind (map_of (rev (control_attributes fieldId helper error [])) a) id"
    if "a \<in> {''id'', ''aria-describedby'', ''aria-labelledby'', ''for''}" for a
  proof -
    have "control_attributes fieldId helper error props = control_attributes fieldId helper error [] @ props"
      by (simp add: control_attributes_def)
    moreover have "a \<notin> fst ` set props" using that assms by blast
    ultimately show ?thesis using spread_own [of a props "control_attributes fieldId helper error []"] by simp
  qed
  show "attribute_names [''id''] (spread (control_attributes fieldId helper error props)) = class_tokens [] fieldId"
    by (simp add: attribute_names_def own) (simp add: control_attributes_def)
  show "attribute_names [''aria-labelledby'', ''aria-describedby'', ''for''] (spread (control_attributes fieldId helper error props)) =
      (if truthy_text helper \<or> truthy_text error then class_tokens [] (fieldId @ js ''-detail'') else [])"
    by (simp add: attribute_names_def own) (simp add: control_attributes_def)
qed

lemma field_detail_names [simp]:
  "identifiers (field_detail detailId helper error) = (if truthy_text helper \<or> truthy_text error then class_tokens [] detailId else [])"
  "references (field_detail detailId helper error) = []"
  by (simp_all add: field_detail_def text_if_def attribute_names_def)

lemma text_field_dangling:
  assumes "fst ` set props \<inter> {''id'', ''aria-describedby'', ''aria-labelledby'', ''for''} = {}"
  shows "dangling [TextField generatedId label helper error given className props] = []"
  by (simp add: dangling_def TextField_def Let_def control_references [OF assms]) (simp add: attribute_names_def)

lemma select_field_dangling:
  assumes "fst ` set props \<inter> {''id'', ''aria-describedby'', ''aria-labelledby'', ''for''} = {}"
  shows "set (dangling [SelectField generatedId label helper error given className children props]) \<subseteq> set (dangling children)"
proof -
  have "set (identifiers children) \<subseteq> set (identifiers [SelectField generatedId label helper error given className children props])"
    by (simp add: SelectField_def Let_def) blast
  moreover have "set (references [SelectField generatedId label helper error given className children props]) \<subseteq>
      set (references children) \<union> set (identifiers [SelectField generatedId label helper error given className children props])"
    by (simp add: SelectField_def Let_def control_references [OF assms]) (simp add: attribute_names_def subset_iff)
  ultimately show ?thesis unfolding set_dangling by blast
qed

subsection \<open>Tooltips\<close>

lemma class_tokens_space: "class_tokens acc (s @ 32 # r) = class_tokens acc s @ class_tokens [] r"
  by (induction acc s rule: class_tokens.induct) (auto simp: is_ascii_space_def)

lemma described_by_names:
  "class_tokens [] (described_by given tipId) = (case given of Some s \<Rightarrow> class_tokens [] s | None \<Rightarrow> []) @ class_tokens [] tipId"
  by (cases given) (auto simp: described_by_def js_def class_tokens_space)

text \<open>The element within a tooltip keeps its description and gains the text of the tooltip, which is drawn.\<close>

lemma tooltip_described:
  "set (references [with_description tipId (Element t c as ns)]) =
   set (references [Element t c as ns]) \<union> set (class_tokens [] tipId)"
  by (auto simp: attribute_names_def described_by_names split: option.splits)

lemma tooltip_dangling: "set (dangling [Tooltip tipId label child]) \<subseteq> set (dangling [child])"
  by (cases child) (auto simp: set_dangling Tooltip_def attribute_names_def described_by_names split: option.splits)

subsection \<open>The popover\<close>

lemma popover_step_listens: "po_listening p = po_open p \<Longrightarrow> po_listening (popover_step e p) = po_open (popover_step e p)"
  by (cases e) (auto simp: popover_step_def popover_effect_def closeOutside_def closeOnEscape_def Let_def)

lemma run_popover_listens: "po_listening (run_popover es) = po_open (run_popover es)"
  by (induction es rule: rev_induct) (simp_all add: run_popover_def mount_popover_def popover_step_listens)

lemma run_popover_snoc: "run_popover (es @ [e]) = popover_step e (run_popover es)"
  by (simp add: run_popover_def)

text \<open>
  The listeners are there exactly while the popover is open; the button turns it, Escape and a press outside
  close it, Escape with the focus back on the button, and nothing else changes it.
\<close>

lemma popover_behaviour:
  "po_open (run_popover (es @ [PressTrigger])) = (\<not> po_open (run_popover es))"
  "po_open (run_popover (es @ [PointerDown inside])) = (inside \<and> po_open (run_popover es))"
  "po_open (run_popover (es @ [KeyDown key])) = (key \<noteq> js ''Escape'' \<and> po_open (run_popover es))"
  "po_trigger_focused (run_popover (es @ [KeyDown key])) = (key = js ''Escape'' \<and> po_open (run_popover es))"
  using run_popover_listens [of es]
  by (auto simp: run_popover_snoc popover_step_def popover_effect_def closeOutside_def closeOnEscape_def Let_def)

end
