(* ===== verification/ConsoleMarkup.thy ===== *)
theory ConsoleMarkup
  imports Markup OverviewWidgets DetailPages EvidenceViews
begin

text \<open>
  What the shared elements of \<open>components/ui.tsx\<close> draw: headers, panels, figures, the state of the platform, the
  filter bar, tables, the pagination, the feedback of a query, ledgers, lists of guidance and of risk factors,
  the inspector and the frame of a chart.  Beside the texts (\<open>t\<close>), the arguments are the lower case of a text, the format of
  a date, the icons and the identifiers of \<open>useId\<close>.  A \<open>Link\<close> is an anchor with its path as \<open>href\<close>.
\<close>

section \<open>Anchors and headings\<close>

definition Link :: "jsstring \<Rightarrow> jsstring \<Rightarrow> markup \<Rightarrow> dom" where
  "Link className target children = Element ''A'' className [(''href'', target)] children"

abbreviation plain :: "string \<Rightarrow> markup \<Rightarrow> dom" where
  "plain tag ns \<equiv> Element tag [] [] ns"

abbreviation classed :: "string \<Rightarrow> string \<Rightarrow> markup \<Rightarrow> dom" where
  "classed tag c ns \<equiv> Element tag (js c) [] ns"

definition PageHeader :: "jsstring option \<Rightarrow> jsstring \<Rightarrow> jsstring option \<Rightarrow> markup \<Rightarrow> dom" where
  "PageHeader eyebrow title description actions =
     classed ''HEADER'' ''page-header''
       ([plain ''DIV''
           (text_if eyebrow (\<lambda>s. plain ''SPAN'' [TextNode s]) @ [plain ''H1'' [TextNode title]] @
            text_if description (\<lambda>s. plain ''P'' [TextNode s]))] @
        nodes_if (actions \<noteq> []) [classed ''DIV'' ''page-actions'' actions])"

definition Panel :: "jsstring \<Rightarrow> jsstring \<Rightarrow> jsstring option \<Rightarrow> markup \<Rightarrow> markup \<Rightarrow> jsstring \<Rightarrow> dom" where
  "Panel titleId title subtitle meta children className =
     Element ''SECTION'' (js ''panel '' @ className) [(''aria-labelledby'', titleId)]
       [classed ''HEADER'' ''panel-heading''
          ([plain ''DIV'' ([Element ''H2'' [] [(''id'', titleId)] [TextNode title]] @ text_if subtitle (\<lambda>s. plain ''P'' [TextNode s]))] @
           nodes_if (meta \<noteq> []) [classed ''DIV'' ''panel-meta'' meta]),
        classed ''DIV'' ''panel-body'' children]"

definition KpiCard :: "(string \<Rightarrow> dom) \<Rightarrow> jsstring \<Rightarrow> jsstring \<Rightarrow> jsstring \<Rightarrow> dom \<Rightarrow> jsstring option \<Rightarrow> jsstring \<Rightarrow> dom" where
  "KpiCard icons label v detail icon target tone =
     (let content = [classed ''SPAN'' ''kpi-icon'' [icon], plain ''SPAN'' [TextNode label], plain ''STRONG'' [TextNode v],
            plain ''SMALL'' [TextNode detail]] @ nodes_if (truthy_text target) [icons ''ArrowRight'']
      in if truthy_text target then Link (js ''kpi-card '' @ tone) (the target) content
         else Element ''ARTICLE'' (js ''kpi-card '' @ tone) [] content)"

text \<open>\<open>value.toLowerCase().replaceAll(" ", "-")\<close>.\<close>

definition tone_name :: "(jsstring \<Rightarrow> jsstring) \<Rightarrow> jsstring \<Rightarrow> jsstring" where
  "tone_name lower v = map (\<lambda>c. if c = 32 then 45 else c) (lower v)"

definition StatusPill :: "(jsstring \<Rightarrow> jsstring) \<Rightarrow> jsstring \<Rightarrow> jsstring option \<Rightarrow> dom" where
  "StatusPill lower v label =
     Badge [Element ''I'' [] [(''aria-hidden'', js ''true'')] [], TextNode (case label of Some l \<Rightarrow> l | None \<Rightarrow> humanize lower v)]
       (js ''status-pill tone-'' @ tone_name lower v) (js ''neutral'')"

section \<open>The state of the platform\<close>

definition EdrDiagnosticAxis :: "(jsstring \<Rightarrow> jsstring) \<Rightarrow> jsstring \<Rightarrow> EdrStateAxisDto \<Rightarrow> dom" where
  "EdrDiagnosticAxis lower label axis =
     Element ''DIV'' (js ''edr-axis tone-'' @ lower (ax_status axis)) []
       [plain ''DIV'' [plain ''SPAN'' [TextNode label], plain ''STRONG'' [TextNode (id_text (ax_score axis))],
          plain ''SMALL'' [TextNode (humanize lower (ax_status axis))]],
        Element ''DIV'' (js ''edr-axis-track'')
          [(''aria-label'', label @ js '': '' @ id_text (ax_score axis) @ js '' / 100, '' @ humanize lower (ax_status axis)),
           (''aria-valuemax'', js ''100''), (''aria-valuemin'', js ''0''), (''aria-valuenow'', id_text (ax_score axis)), (''role'', js ''progressbar'')]
          [Element ''I'' [] [(''style'', js ''width:'' @ id_text (ax_score axis) @ js ''%'')] []]]"

text \<open>The texts of the reasons may throw (see \<open>edr_reason_text\<close>); then nothing is drawn.\<close>

fun all_texts :: "(js_error + jsstring) list \<Rightarrow> js_error + jsstring list" where
  "all_texts [] = Inr []"
| "all_texts (Inl e # rs) = Inl e"
| "all_texts (Inr s # rs) = map_sum id (\<lambda>ss. s # ss) (all_texts rs)"

definition edr_reason_list :: "text_for \<Rightarrow> jsstring list \<Rightarrow> dom" where
  "edr_reason_list t reasons =
     (if reasons \<noteq> [] then plain ''UL'' (map (\<lambda>r. plain ''LI'' [TextNode r]) reasons)
      else plain ''P'' [TextNode (t ''edrState.noReasons'' [])])"

definition edr_summary :: "text_for \<Rightarrow> (jsstring \<Rightarrow> jsstring) \<Rightarrow> (jsstring \<Rightarrow> jsstring) \<Rightarrow> jsstring \<Rightarrow> EdrStateDto \<Rightarrow> jsstring list \<Rightarrow> dom" where
  "edr_summary t lower formatDate titleId s reasons =
     Element ''SECTION'' (js ''edr-state-summary tone-'' @ lower (edr_status s)) [(''aria-labelledby'', titleId)]
       [plain ''HEADER''
          [plain ''DIV'' [Element ''H2'' (js ''eyebrow'') [(''id'', titleId)] [TextNode (t ''edrState.current'' [])],
             classed ''DIV'' ''edr-overall'' [plain ''STRONG'' [TextNode (id_text (edr_score s))], plain ''SPAN'' [TextNode (js ''/ 100'')]]],
           StatusPill lower (edr_status s) None],
        Element ''DIV'' (js ''edr-diagnostics'') [(''aria-label'', t ''edrState.diagnostics'' [])]
          [EdrDiagnosticAxis lower (t ''edrState.threatLevel'' []) (edr_threatLevel s),
           EdrDiagnosticAxis lower (t ''edrState.collectionHealth'' []) (edr_collectionHealth s)],
        classed ''DIV'' ''edr-reason-block''
          [plain ''H3'' [TextNode (t ''edrState.reasonCodes'' [])], edr_reason_list t reasons,
           plain ''FOOTER'' [TextNode (t ''edrState.calculated'' [(js ''time'', TextParam (formatDate (edr_calculatedAt s)))])]]]"

definition EdrStateSummary ::
  "text_for \<Rightarrow> (jsstring \<Rightarrow> jsstring) \<Rightarrow> (jsstring \<Rightarrow> jsstring) \<Rightarrow> jsstring \<Rightarrow> EdrStateDto \<Rightarrow> js_error + dom" where
  "EdrStateSummary t lower formatDate titleId s =
     map_sum id (edr_summary t lower formatDate titleId s)
       (all_texts (map (edr_reason_text (\<lambda>k ps. Inr (t k ps)) lower) (edr_reasonCodes s)))"

section \<open>Filters\<close>

record AppliedFilter =
  af_key :: jsstring
  af_label :: jsstring
  af_value :: jsstring

text \<open>The drawer of the advanced filters is opened by its button and closed by the drawer or by the button within.\<close>

datatype filter_event = OpenAdvanced | CloseAdvanced | Done

fun advanced_after :: "filter_event \<Rightarrow> bool \<Rightarrow> bool" where
  "advanced_after OpenAdvanced b = True"
| "advanced_after CloseAdvanced b = False"
| "advanced_after Done b = False"

definition applied_filter :: "text_for \<Rightarrow> (string \<Rightarrow> dom) \<Rightarrow> bool \<Rightarrow> AppliedFilter \<Rightarrow> dom" where
  "applied_filter t icon removable f =
     plain ''LI'' ([plain ''SPAN'' [TextNode (af_label f)], plain ''STRONG'' [TextNode (af_value f)]] @
       nodes_if removable [IconButton [icon ''X''] []
         [(''aria-label'', Some (t ''filter.remove'' [(js ''label'', TextParam (af_label f))])), (''type'', Some (js ''button''))]])"

definition type_button :: jsx_attributes where "type_button = [(''type'', Some (js ''button''))]"

definition FilterBar ::
  "text_for \<Rightarrow> (string \<Rightarrow> dom) \<Rightarrow> jsstring \<Rightarrow> markup \<Rightarrow> markup \<Rightarrow> AppliedFilter list \<Rightarrow> bool \<Rightarrow> bool \<Rightarrow> bool \<Rightarrow> dom" where
  "FilterBar t icon titleId primary advanced appliedFilters removable hasFilters advancedOpen =
     Element ''SECTION'' (js ''filter-bar'') [(''aria-label'', t ''filter.filters'' [])]
       ([classed ''DIV'' ''filter-bar-main''
           [classed ''DIV'' ''filter-fields'' primary,
            classed ''DIV'' ''filter-actions''
              (nodes_if (advanced \<noteq> [])
                 [Button [icon ''SlidersHorizontal'', TextNode (t ''filter.more'' [])] [] False False (js ''ghost'')
                    ((''aria-expanded'', Some (if advancedOpen then js ''true'' else js ''false'')) # type_button)] @
               [Button [TextNode (t ''filter.clear'' [])] [] (\<not> hasFilters) False (js ''ghost'') type_button])]] @
        nodes_if (appliedFilters \<noteq> [])
          [Element ''UL'' (js ''applied-filter-list'') [(''aria-label'', t ''filter.active'' [])] (map (applied_filter t icon removable) appliedFilters)] @
        (if advanced \<noteq> []
         then Drawer titleId icon advancedOpen (t ''filter.moreTitle'' []) (t ''filter.closeMore'' [])
                [classed ''DIV'' ''filter-drawer-fields'' advanced,
                 classed ''DIV'' ''filter-drawer-actions''
                   [Button [TextNode (t ''filter.done'' [])] [] False False (js ''primary'') type_button]]
                (js ''right'') (Some (t ''filter.moreTitle'' []))
         else []))"

definition GlobalFilterBar :: "text_for \<Rightarrow> (string \<Rightarrow> dom) \<Rightarrow> jsstring \<Rightarrow> markup \<Rightarrow> bool \<Rightarrow> dom" where
  "GlobalFilterBar t icon titleId children hasFilters = FilterBar t icon titleId children [] [] False hasFilters False"

section \<open>Tables and pages\<close>

definition DataTable :: "text_for \<Rightarrow> jsstring \<Rightarrow> jsstring option \<Rightarrow> markup \<Rightarrow> bool \<Rightarrow> jsstring \<Rightarrow> dom" where
  "DataTable t label caption children busy className =
     Element ''DIV'' (trim (js ''table-scroll '' @ className))
       (spread [(''aria-busy'', flag_attribute busy), (''aria-label'', Some (t ''table.aria'' [(js ''label'', TextParam label)])),
          (''role'', Some (js ''region'')), (''tabindex'', Some (js ''0''))])
       [plain ''TABLE'' (classed ''CAPTION'' ''sr-only'' [TextNode (case caption of Some c \<Rightarrow> c | None \<Rightarrow> label)] # children)]"

fun aria_sort :: "sort_state \<Rightarrow> jsstring" where
  "aria_sort Ascending = js ''ascending''"
| "aria_sort Descending = js ''descending''"
| "aria_sort Unsorted = js ''none''"

fun sort_arrow :: "sort_state \<Rightarrow> jsstring" where
  "sort_arrow Ascending = [8593]"
| "sort_arrow Descending = [8595]"
| "sort_arrow Unsorted = [8597]"

definition SortableHeader :: "text_for \<Rightarrow> jsstring \<Rightarrow> bool \<Rightarrow> jsstring \<Rightarrow> dom" where
  "SortableHeader t label active direction =
     (let state = SortableHeader_state active direction;
          next_direction = (if active \<and> direction = js ''desc'' then t ''filter.ascending'' [] else t ''filter.descending'' [])
      in Element ''TH'' [] [(''aria-sort'', aria_sort state), (''scope'', js ''col'')]
           [Element ''BUTTON'' (js ''sort-header'')
              [(''aria-label'', t ''filter.sortColumn'' [(js ''label'', TextParam label), (js ''direction'', TextParam next_direction)]),
               (''type'', js ''button'')]
              [plain ''SPAN'' [TextNode label], Element ''SPAN'' [] [(''aria-hidden'', js ''true'')] [TextNode (sort_arrow state)]]])"

definition size_option :: "int \<Rightarrow> dom" where
  "size_option n = Element ''OPTION'' [] [(''value'', id_text n)] [TextNode (id_text n)]"

definition Pagination :: "text_for \<Rightarrow> (string \<Rightarrow> dom) \<Rightarrow> jsstring \<Rightarrow> search_params \<Rightarrow> int \<Rightarrow> int \<Rightarrow> int \<Rightarrow> dom" where
  "Pagination t icon pathname params page rows pageSize =
     Element ''NAV'' (js ''pagination'') [(''aria-label'', t ''pagination.label'' [])]
       [(case previous_link page of
           None \<Rightarrow> Element ''SPAN'' (js ''disabled'') [(''aria-disabled'', js ''true'')] [icon ''ArrowLeft'', TextNode (t ''pagination.previous'' [])]
         | Some n \<Rightarrow> Link [] (pagination_url pathname params n) [icon ''ArrowLeft'', TextNode (t ''pagination.previous'' [])]),
        plain ''SPAN'' [TextNode (t ''pagination.summary'' [(js ''page'', NumberParam page),
          (js ''totalPages'', NumberParam (total_pages rows pageSize)), (js ''total'', NumberParam rows)])],
        classed ''LABEL'' ''page-size''
          [plain ''SPAN'' [TextNode (t ''pagination.pageSize'' [])],
           Element ''SELECT'' [] [(''aria-label'', t ''pagination.pageSize'' [])]
             (nodes_if (pageSize \<notin> {25, 50, 100}) [size_option pageSize] @ [size_option 25, size_option 50, size_option 100])],
        (case next_link page rows pageSize of
           None \<Rightarrow> Element ''SPAN'' (js ''disabled'') [(''aria-disabled'', js ''true'')] [TextNode (t ''pagination.next'' []), icon ''ArrowRight'']
         | Some n \<Rightarrow> Link [] (pagination_url pathname params n) [TextNode (t ''pagination.next'' []), icon ''ArrowRight''])]"

section \<open>Feedback\<close>

definition Skeleton_view :: "text_for \<Rightarrow> nat \<Rightarrow> dom" where
  "Skeleton_view t rows =
     Element ''DIV'' (js ''skeleton'') [(''aria-label'', t ''common.loading'' []), (''role'', js ''status'')]
       (classed ''SPAN'' ''skeleton-heading'' [] # replicate rows (classed ''SPAN'' ''skeleton-row'' []))"

definition EmptyState :: "(string \<Rightarrow> dom) \<Rightarrow> jsstring \<Rightarrow> jsstring \<Rightarrow> markup \<Rightarrow> bool \<Rightarrow> dom" where
  "EmptyState icon title message actions compactly =
     classed ''DIV'' (if compactly then ''state-card empty compact'' else ''state-card empty'')
       ([icon ''CircleAlert'', classed ''DIV'' ''state-copy'' [plain ''STRONG'' [TextNode title], plain ''P'' [TextNode message]]] @
        nodes_if (actions \<noteq> []) [classed ''DIV'' ''state-actions'' actions])"

definition error_detail :: "text_for \<Rightarrow> UserLocale \<Rightarrow> json \<Rightarrow> jsstring" where
  "error_detail t lang d =
     (let field = string_value (get_prop d ''field'')
      in (if lang = KO
          then (if truthy_text field then t ''error.detailField'' [(js ''field'', TextParam (the field))] else t ''error.detailUnknown'' [])
          else (case string_value (get_prop d ''message'') of Some m \<Rightarrow> m | None \<Rightarrow> [])) @
         (case get_prop d ''context'' of Some (JObj ms) \<Rightarrow> MIDDLE_DOT @ stringify (JObj ms) | _ \<Rightarrow> []))"

definition error_request_id :: "request_error \<Rightarrow> jsstring option" where
  "error_request_id e = (case e of ApiError d \<Rightarrow> err_requestId d | Aborted \<Rightarrow> None)"

definition error_card :: "text_for \<Rightarrow> UserLocale \<Rightarrow> (string \<Rightarrow> dom) \<Rightarrow> request_error \<Rightarrow> bool \<Rightarrow> bool \<Rightarrow> jsstring \<Rightarrow> dom" where
  "error_card t lang icon e canRetry archiveAction headline =
     Element ''DIV'' (js ''state-card '' @ js (error_class e)) [(''role'', js ''alert'')]
       ([icon ''AlertTriangle'', plain ''STRONG'' [TextNode headline],
         plain ''P'' [TextNode (case e of ApiError d \<Rightarrow> if err_retryable d then t ''error.retryableHelp'' [] else t ''error.actionHelp'' []
                               | Aborted \<Rightarrow> t ''error.actionHelp'' [])],
         (if truthy_text (error_request_id e)
          then plain ''CODE'' [TextNode (t ''common.requestId'' [(js ''requestId'', TextParam (the (error_request_id e)))])]
          else plain ''SPAN'' [TextNode (t ''common.requestIdUnavailable'' [])])] @
        (case e of ApiError d \<Rightarrow> nodes_if (err_details d \<noteq> [])
             [plain ''UL'' (map (\<lambda>x. plain ''LI'' [TextNode (error_detail t lang x)]) (err_details d))] | Aborted \<Rightarrow> []) @
        [classed ''DIV'' ''state-actions''
           (nodes_if canRetry [Element ''BUTTON'' (js ''button'') [(''type'', js ''button'')] [icon ''RefreshCw'', TextNode (t ''common.retry'' [])]] @
            nodes_if (offers_archive archiveAction e) [Link (js ''button'') (js ''/operations/archives'') [TextNode (t ''error.archiveAction'' [])]])])"

definition ErrorState_view :: "text_for \<Rightarrow> UserLocale \<Rightarrow> (string \<Rightarrow> dom) \<Rightarrow> request_error \<Rightarrow> bool \<Rightarrow> bool \<Rightarrow> js_error + dom" where
  "ErrorState_view t lang icon e canRetry archiveAction =
     map_sum id (error_card t lang icon e canRetry archiveAction) (error_message (\<lambda>k ps. Inr (t k ps)) lang e)"

definition InvalidFilterState_view :: "text_for \<Rightarrow> (string \<Rightarrow> dom) \<Rightarrow> jsstring option \<Rightarrow> dom" where
  "InvalidFilterState_view t icon message =
     Element ''DIV'' (js ''state-card invalid'') [(''role'', js ''alert'')]
       [icon ''CircleAlert'', plain ''STRONG'' [TextNode (t ''filter.invalidTitle'' [])],
        plain ''P'' [TextNode (case message of Some m \<Rightarrow> m | None \<Rightarrow> t ''filter.invalidDescription'' [])]]"

definition RefetchingIndicator_view :: "text_for \<Rightarrow> (string \<Rightarrow> dom) \<Rightarrow> dom" where
  "RefetchingIndicator_view t icon =
     Element ''DIV'' (js ''refetching-indicator'') [(''aria-live'', js ''polite''), (''role'', js ''status'')]
       [icon ''RefreshCw'', plain ''SPAN'' [TextNode (t ''common.refreshing'' [])]]"

definition PartialFailureWarning :: "text_for \<Rightarrow> (string \<Rightarrow> dom) \<Rightarrow> jsstring \<Rightarrow> dom" where
  "PartialFailureWarning t icon message =
     Element ''DIV'' (js ''partial-warning'') [(''role'', js ''status'')]
       [icon ''AlertTriangle'', plain ''DIV'' [plain ''STRONG'' [TextNode (t ''error.partialTitle'' [])], plain ''SPAN'' [TextNode message]]]"

definition StaleWarning_view :: "text_for \<Rightarrow> (string \<Rightarrow> dom) \<Rightarrow> request_error \<Rightarrow> dom" where
  "StaleWarning_view t icon e =
     Element ''DIV'' (js ''stale-warning'') [(''role'', js ''alert'')]
       [icon ''AlertTriangle'',
        plain ''SPAN'' [TextNode (t ''error.refreshStale'' [] @
          (if truthy_text (error_request_id e)
           then js '' '' @ t ''common.requestId'' [(js ''requestId'', TextParam (the (error_request_id e)))] @ js ''.'' else []))],
        Element ''BUTTON'' [] [(''type'', js ''button'')] [TextNode (t ''common.retry'' [])]]"

section \<open>Ledgers\<close>

type_synonym ledger_item = "jsstring \<times> markup"

definition fact_item :: "ledger_item \<Rightarrow> dom" where
  "fact_item i = plain ''DIV'' [plain ''DT'' [TextNode (fst i)], plain ''DD'' (snd i)]"

definition DefinitionGrid :: "ledger_item list \<Rightarrow> dom" where
  "DefinitionGrid facts = classed ''DL'' ''definition-grid'' (map fact_item facts)"

definition DetailLedger :: "markup \<Rightarrow> jsstring \<Rightarrow> dom" where
  "DetailLedger children className = Element ''DIV'' (trim (js ''detail-ledger '' @ className)) [] children"

definition DetailLedgerSection :: "jsstring \<Rightarrow> jsstring \<Rightarrow> jsstring option \<Rightarrow> ledger_item list option \<Rightarrow> markup \<Rightarrow> jsstring \<Rightarrow> dom" where
  "DetailLedgerSection titleId title subtitle facts children className =
     Element ''SECTION'' (trim (js ''detail-ledger-section '' @ className)) [(''aria-labelledby'', titleId)]
       [plain ''HEADER'' ([Element ''H2'' [] [(''id'', titleId)] [TextNode title]] @ text_if subtitle (\<lambda>s. plain ''P'' [TextNode s])),
        classed ''DIV'' ''detail-ledger-content''
          ((case facts of Some is \<Rightarrow> [classed ''DL'' ''detail-fact-list'' (map fact_item is)] | None \<Rightarrow> []) @ children)]"

section \<open>Guidance, risk factors and the source event\<close>

record ResponseGuidanceStepDto =
  gs_description :: jsstring
  gs_order :: int
  gs_requiresManualAction :: bool
  gs_title :: jsstring

text \<open>The titles may throw (see \<open>responseGuidanceTitle\<close> and \<open>detectionTitle\<close>), as in the list of incidents below.\<close>

definition sure :: "text_for \<Rightarrow> translator" where
  "sure t = (\<lambda>k ps. Inr (t k ps))"

definition guidance_step :: "text_for \<Rightarrow> ResponseGuidanceStepDto \<Rightarrow> jsstring \<Rightarrow> dom" where
  "guidance_step t step title =
     plain ''LI''
       [plain ''SPAN'' [TextNode (id_text (gs_order step))],
        plain ''DIV''
          [classed ''DIV'' ''guidance-title''
             (plain ''STRONG'' [TextNode title] #
              nodes_if (gs_requiresManualAction step) [Badge [TextNode (t ''alert.manualAction'' [])] [] (js ''warning'')]),
           plain ''P'' [TextNode (gs_description step)]]]"

definition ResponseGuidance :: "text_for \<Rightarrow> (string \<Rightarrow> dom) \<Rightarrow> ResponseGuidanceStepDto list \<Rightarrow> js_error + dom" where
  "ResponseGuidance t icon steps =
     (if steps = [] then Inr (EmptyState icon (t ''empty.noResponseGuidance'' []) (t ''empty.responseGuidanceDescription'' []) [] False)
      else map_sum id (\<lambda>titles. Element ''OL'' (js ''guidance-list'') [(''aria-label'', t ''alert.guidanceSteps'' [])] (map2 (guidance_step t) steps titles))
             (all_texts (map (\<lambda>s. responseGuidanceTitle (sure t) (gs_title s)) steps)))"

definition factor_source :: "UserLocale \<Rightarrow> (jsstring \<Rightarrow> jsstring) \<Rightarrow> jsstring \<Rightarrow> jsstring" where
  "factor_source lang lower sourceType =
     (if lang = KO then if sourceType = js ''ALERT'' then js ''Alert'' else js ''Incident'' else lower sourceType)"

definition factor_link :: "EndpointRiskFactorDto \<Rightarrow> jsstring" where
  "factor_link f = (if rf_sourceType f = js ''ALERT'' then js ''/alerts/'' else js ''/incidents/'') @ id_text (rf_sourceId f)"

definition risk_factor :: "text_for \<Rightarrow> UserLocale \<Rightarrow> (jsstring \<Rightarrow> jsstring) \<Rightarrow> EndpointRiskFactorDto \<Rightarrow> jsstring \<Rightarrow> jsstring \<Rightarrow> dom" where
  "risk_factor t lang lower f title description =
     plain ''LI''
       [classed ''SPAN'' ''factor-score'' [TextNode (js ''+'' @ id_text (rf_contribution f))],
        plain ''DIV''
          [plain ''STRONG'' [TextNode title], plain ''P'' [TextNode description],
           Link [] (factor_link f)
             [TextNode (t ''risk.openSource'' [(js ''sourceType'', TextParam (factor_source lang lower (rf_sourceType f)))])]]]"

definition RiskFactorList :: "text_for \<Rightarrow> UserLocale \<Rightarrow> (jsstring \<Rightarrow> jsstring) \<Rightarrow> (string \<Rightarrow> dom) \<Rightarrow> EndpointRiskDto \<Rightarrow> js_error + dom" where
  "RiskFactorList t lang lower icon risk =
     (let factors = risk_riskFactors risk
      in if factors = [] then Inr (EmptyState icon (t ''empty.noRiskFactors'' []) (t ''empty.riskFactorsDescription'' []) [] False)
         else (case all_texts (map (\<lambda>f. detectionTitle (sure t) (rf_title f) None) factors) of
                 Inl e \<Rightarrow> Inl e
               | Inr titles \<Rightarrow>
                   map_sum id
                     (\<lambda>descriptions. classed ''UL'' ''risk-factor-list''
                        (map (\<lambda>(f, title, d). risk_factor t lang lower f title d) (zip factors (zip titles descriptions))))
                     (all_texts (map (\<lambda>f. riskFactorDescription (sure t) (rf_description f)) factors))))"

fun first_given :: "jsstring option list \<Rightarrow> jsstring \<Rightarrow> jsstring" where
  "first_given [] d = d"
| "first_given (Some s # vs) d = s"
| "first_given (None # vs) d = first_given vs d"

definition SourceEvent :: "text_for \<Rightarrow> (string \<Rightarrow> dom) \<Rightarrow> (jsstring \<Rightarrow> jsstring) \<Rightarrow> EventDto option \<Rightarrow> js_error + dom" where
  "SourceEvent t icon formatDate sourceEvent =
     (case sourceEvent of
        None \<Rightarrow> Inr (EmptyState icon (t ''empty.sourceEventUnavailable'' []) (t ''empty.sourceEventDescription'' []) [] False)
      | Some e \<Rightarrow>
          map_sum id
            (\<lambda>target. Link (js ''source-event'') target
               [plain ''SPAN'' [TextNode (event_type_name (ev_eventType e))],
                plain ''STRONG'' [TextNode (first_given [ev_processName e, ev_remoteDomain e, ev_filePath e] (ev_eventId e))],
                plain ''SMALL'' [TextNode (formatDate (ev_occurredAt e))]])
            (event_link (ev_eventId e) (ev_endpointId e) (ev_occurredAt e)))"

section \<open>Inspectors and frames\<close>

definition Inspector :: "jsstring \<Rightarrow> jsstring \<Rightarrow> jsstring option \<Rightarrow> markup \<Rightarrow> markup \<Rightarrow> dom" where
  "Inspector titleId title description children actions =
     Element ''ASIDE'' (js ''inspector'') [(''aria-labelledby'', titleId)]
       [plain ''HEADER''
          (plain ''DIV''
             ([classed ''SPAN'' ''eyebrow'' [TextNode (js ''INSPECTOR'')], Element ''H2'' [] [(''id'', titleId)] [TextNode title]] @
              text_if description (\<lambda>s. plain ''P'' [TextNode s])) #
           nodes_if (actions \<noteq> []) [classed ''DIV'' ''inspector-actions'' actions]),
        classed ''DIV'' ''inspector-body'' children]"

definition MasterDetail :: "markup \<Rightarrow> markup \<Rightarrow> jsstring option \<Rightarrow> dom" where
  "MasterDetail master detail label =
     Element ''SECTION'' (js ''master-detail'') (if truthy_text label then [(''aria-label'', the label)] else [])
       [classed ''DIV'' ''master-list'' master, classed ''DIV'' ''master-inspector'' detail]"

definition useChartDataLabel :: "text_for \<Rightarrow> jsstring" where
  "useChartDataLabel t = t ''charts.viewData'' [(js ''label'', TextParam (js ''data''))]"

definition ChartFrame :: "text_for \<Rightarrow> jsstring \<Rightarrow> jsstring \<Rightarrow> jsstring \<Rightarrow> markup \<Rightarrow> markup \<Rightarrow> markup \<Rightarrow> dom" where
  "ChartFrame t titleId title description meta children fallback =
     Element ''SECTION'' (js ''chart-frame'') [(''aria-labelledby'', titleId)]
       [plain ''HEADER''
          (plain ''DIV'' [Element ''H2'' [] [(''id'', titleId)] [TextNode title], plain ''P'' [TextNode description]] #
           nodes_if (meta \<noteq> []) [classed ''DIV'' ''chart-frame-meta'' meta]),
        classed ''DIV'' ''chart-frame-visual'' children,
        classed ''DETAILS'' ''chart-frame-fallback'' (plain ''SUMMARY'' [TextNode (useChartDataLabel t)] # fallback)]"

section \<open>The tables behind the activity chart\<close>

definition header_cells :: "jsstring list \<Rightarrow> dom" where
  "header_cells headings = plain ''THEAD'' [plain ''TR'' (map (\<lambda>h. Element ''TH'' [] [(''scope'', js ''col'')] [TextNode h]) headings)]"

definition body_cells :: "jsstring list list \<Rightarrow> dom" where
  "body_cells rows = plain ''TBODY'' (map (\<lambda>cells. plain ''TR'' (map (\<lambda>c. plain ''TD'' [TextNode c]) cells)) rows)"

definition data_table :: "jsstring \<Rightarrow> jsstring list \<Rightarrow> jsstring list list \<Rightarrow> dom" where
  "data_table caption headings rows = plain ''TABLE'' [plain ''CAPTION'' [TextNode caption], header_cells headings, body_cells rows]"

definition ActivityDataTable :: "text_for \<Rightarrow> (jsstring \<Rightarrow> jsstring) \<Rightarrow> jsstring \<Rightarrow> TimeSeriesPointDto list \<Rightarrow> dom" where
  "ActivityDataTable t formatDate label rows =
     data_table label [t ''charts.bucket'' [], t ''charts.count'' []]
       (map (\<lambda>r. [formatDate (tsp_bucketStartAt r), id_text (tsp_count r)]) rows)"

definition DetectionActivityTable ::
  "date_parser \<Rightarrow> text_for \<Rightarrow> (jsstring \<Rightarrow> jsstring) \<Rightarrow> TimeSeriesPointDto list \<Rightarrow> TimeSeriesPointDto list \<Rightarrow> IncidentTimeSeriesPointDto list \<Rightarrow> dom" where
  "DetectionActivityTable dp t formatDate events alerts incidents =
     classed ''DIV'' ''detection-activity-tables''
       [ActivityDataTable t formatDate (t ''overview.events'' []) (sortByBucket dp tsp_bucketStartAt events),
        ActivityDataTable t formatDate (t ''overview.alerts'' []) (sortByBucket dp tsp_bucketStartAt alerts),
        data_table (t ''overview.incidents'' []) [t ''charts.bucket'' [], t ''charts.open'' [], t ''charts.closed'' []]
          (map (\<lambda>r. [formatDate (itp_bucketStartAt r), id_text (itp_openCount r), id_text (itp_closedCount r)])
            (sortByBucket dp itp_bucketStartAt incidents))]"

section \<open>References\<close>

text \<open>Every element that encloses others keeps the contract of Markup: what it labels, it draws.\<close>

lemmas ui_defs = PageHeader_def Panel_def DetailLedger_def DetailLedgerSection_def Inspector_def MasterDetail_def ChartFrame_def DataTable_def
  fact_item_def useChartDataLabel_def

interpretation panel: enclosing "\<lambda>ns. [Panel titleId title subtitle meta ns className]" meta
  for titleId title subtitle meta className
  by unfold_locales (auto simp: set_dangling drawing_defs ui_defs attribute_names_def)

interpretation page_header: enclosing "\<lambda>ns. [PageHeader eyebrow title description ns]" "[]"
  for eyebrow title description
  by unfold_locales (auto simp: set_dangling drawing_defs ui_defs attribute_names_def)

interpretation ledger: enclosing "\<lambda>ns. [DetailLedger ns className]" "[]"
  for className
  by unfold_locales (auto simp: set_dangling drawing_defs ui_defs attribute_names_def)

lemma set_names_concat [simp]:
  "set (identifiers (concat nss)) = (\<Union>ns\<in>set nss. set (identifiers ns))"
  "set (references (concat nss)) = (\<Union>ns\<in>set nss. set (references ns))"
  by (induction nss) simp_all

interpretation ledger_section: enclosing "\<lambda>ns. [DetailLedgerSection titleId title subtitle facts ns className]"
  "concat (map snd (case facts of Some is \<Rightarrow> is | None \<Rightarrow> []))"
  for titleId title subtitle facts className
  by unfold_locales (auto simp: set_dangling drawing_defs ui_defs attribute_names_def split: option.splits; force)

interpretation inspector: enclosing "\<lambda>ns. [Inspector titleId title description ns actions]" actions
  for titleId title description actions
  by unfold_locales (auto simp: set_dangling drawing_defs ui_defs attribute_names_def)

interpretation master_detail: enclosing "\<lambda>ns. [MasterDetail ns detail label]" detail
  for detail label
  by unfold_locales (auto simp: set_dangling drawing_defs ui_defs attribute_names_def)

interpretation chart_frame: enclosing "\<lambda>ns. [ChartFrame t titleId title description meta ns fallback]" "meta @ fallback"
  for t titleId title description meta fallback
  by unfold_locales (auto simp: set_dangling drawing_defs ui_defs attribute_names_def)

end
