(* ===== verification/MarkupReport.thy ===== *)
theory MarkupReport
  imports ConsoleMarkup ReportProperties
begin

text \<open>
  What the report reads of what the console draws.  The report (\<open>features/dashboardReport.tsx\<close>) has no data of its
  own: it queries the document by the classes and the tags that the elements of \<open>components/ui.tsx\<close> happen to use.
  The lemmas here follow such a query through the drawings of Markup and ConsoleMarkup.
\<close>

section \<open>Searching a drawing\<close>

text \<open>The elements of a tree that satisfy a condition of their own, with their ancestors, in the order of the document.\<close>

fun seek :: "(dom \<Rightarrow> bool) \<Rightarrow> node \<Rightarrow> dom \<Rightarrow> node list" where
  "seek P outer (TextNode s) = []"
| "seek P outer (Element t c as ns) =
     (if P (Element t c as ns) then [Element t c as ns # outer] else []) @ concat (map (seek P (Element t c as ns # outer)) ns)"

fun quiet :: "(dom \<Rightarrow> bool) \<Rightarrow> dom \<Rightarrow> bool" where
  "quiet P (TextNode s) = True"
| "quiet P (Element t c as ns) = (\<not> P (Element t c as ns) \<and> list_all (quiet P) ns)"

lemma seek_quiet: "quiet P e \<Longrightarrow> seek P outer e = []"
  by (induction P outer e rule: seek.induct) (auto simp: list_all_iff)

lemma seek_quiet_list: "list_all (quiet P) ns \<Longrightarrow> concat (map (seek P outer) ns) = []"
  by (auto simp: list_all_iff seek_quiet)

lemma filter_nodes_below:
  "filter (\<lambda>m. P (hd m)) (nodes_below outer (Element t c as ns)) = concat (map (seek P (Element t c as ns # outer)) ns)"
proof -
  have "filter (\<lambda>m. P (hd m)) (if is_element n then (n # o') # nodes_below o' n else []) = seek P o' n" for n o'
  proof (induction P o' n rule: seek.induct)
    case (2 P outer t c as ns)
    have "filter (\<lambda>m. P (hd m)) (nodes_below outer (Element t c as ns)) = concat (map (seek P (Element t c as ns # outer)) ns)"
      using 2 by (simp add: filter_concat comp_def cong: map_cong)
    then show ?case by simp
  qed simp
  then show ?thesis by (simp add: filter_concat comp_def)
qed

definition matches_any :: "compound list \<Rightarrow> dom \<Rightarrow> bool" where
  "matches_any cs e = list_ex (\<lambda>c. compound_selects 0 c [e]) cs"

lemma compound_selects_own: "c \<noteq> Scope \<Longrightarrow> compound_selects d c (e # as) = compound_selects 0 c [e]"
  by (cases c) simp_all

lemma compound_selects_Nil: "compound_selects d c [] = False" by simp

lemma querySelectorAll_seek:
  assumes "Scope \<notin> set cs"
  shows "querySelectorAll (Element t c as ns # outer) (map Simple cs) =
    concat (map (seek (matches_any cs) (Element t c as ns # outer)) ns)"
proof -
  have ne: "m \<noteq> []" if "m \<in> set (nodes_below outer e)" for m outer e
    using that by (induction outer e rule: nodes_below.induct) (auto split: if_splits)
  have "querySelectorAll (Element t c as ns # outer) (map Simple cs) =
      filter (\<lambda>m. matches_any cs (hd m)) (nodes_below outer (Element t c as ns))"
    unfolding querySelectorAll_def descendants_def list.case
  proof (rule filter_cong [OF refl])
    fix m assume "m \<in> set (nodes_below outer (Element t c as ns))"
    with ne obtain e as' where m: "m = e # as'" by (cases m) auto
    have "selects d (Simple c') m = compound_selects 0 c' [e]" if "c' \<in> set cs" for c' d
      using that assms compound_selects_own [of c' d e as'] by (auto simp: m)
    then show "list_ex (\<lambda>s. selects (length (Element t c as ns # outer)) s m) (map Simple cs) = matches_any cs (hd m)"
      unfolding matches_any_def m by (auto simp: list_ex_iff)
  qed
  then show ?thesis using filter_nodes_below by simp
qed


text \<open>Selectors by class and by tag, and classes that are written out.\<close>

lemma matches_any_simps [simp]:
  "matches_any [] e = False"
  "matches_any (of_class k # cs) e = (has_class e k \<or> matches_any cs e)"
  "matches_any (of_tag t # cs) e = (dom_tag e = t \<or> matches_any cs e)"
  by (simp_all add: matches_any_def of_class_def of_tag_def)

definition single_name :: "jsstring \<Rightarrow> bool" where
  "single_name c \<longleftrightarrow> c \<noteq> [] \<and> list_all (\<lambda>x. \<not> is_ascii_space x) c"

lemma class_tokens_acc: "list_all (\<lambda>x. \<not> is_ascii_space x) c \<Longrightarrow> class_tokens acc c = (if rev acc @ c = [] then [] else [rev acc @ c])"
  by (induction acc c rule: class_tokens.induct) auto

lemma class_tokens_single: "single_name c \<Longrightarrow> class_tokens [] c = [c]"
  by (simp add: single_name_def class_tokens_acc)

lemma dom_parts [simp]: "dom_tag (Element t c as ns) = t" "dom_class (Element t c as ns) = c" "dom_attribute (Element t c as ns) a = map_of as a"
  by (simp_all add: dom_tag_def dom_class_def dom_attribute_def)

lemma has_class_none [simp]: "\<not> has_class (Element t [] as ns) k"
  by (simp add: has_class_def)

text \<open>The condition on a class that is written out, in a form that does not touch the class itself.\<close>

definition word_class :: "string \<Rightarrow> bool" where
  "word_class c \<longleftrightarrow> single_name (js c)"

lemma word_class_eval: "word_class c \<longleftrightarrow> c \<noteq> [] \<and> list_all (\<lambda>x. \<not> is_ascii_space (of_char x)) c"
  by (simp add: word_class_def single_name_def js_def list_all_iff)

lemma has_class_single: "word_class c \<Longrightarrow> has_class (Element t (js c) as ns) k \<longleftrightarrow> k = c"
  by (auto simp: has_class_def class_tokens_single word_class_def)

lemma has_class_lead: "word_class c \<Longrightarrow> has_class (Element t (js c @ 32 # rest) as ns) k \<longleftrightarrow> k = c \<or> js k \<in> set (class_tokens [] rest)"
  by (auto simp: has_class_def class_tokens_space class_tokens_single word_class_def)

lemmas name_simps = word_class_eval is_ascii_space_def

text \<open>The text of an element, and texts that normalisation leaves alone.\<close>

lemma node_text_Cons: "node_text (Some (e # outer)) = normalized_text (textContent e)"
  by (simp add: node_text_def)

lemma normalized_solid: "list_all (\<lambda>c. \<not> is_white_space c) s \<Longrightarrow> normalized_text s = s"
proof -
  assume solid: "list_all (\<lambda>c. \<not> is_white_space c) s"
  then have "collapse_white_space s = s" by (induction s) auto
  moreover have "trim s = s" using solid by (intro trim_trimmed_id) (auto simp: trimmed_def list_all_iff)
  ultimately show ?thesis by (simp add: normalized_text_def)
qed

lemma show_int_solid: "list_all (\<lambda>c. \<not> is_white_space c) (show_int i)"
  using show_nat_digits by (auto simp: show_int_def list_all_iff is_digit_def is_white_space_def dest!: show_nat_digits)

lemma normalized_count: "\<bar>i\<bar> \<le> 2 ^ 53 \<Longrightarrow> normalized_text (id_text i) = id_text i"
  by (simp add: js_String_int normalized_solid show_int_solid)

section \<open>The numbers of the overview\<close>

definition OverviewBlock :: "jsstring \<Rightarrow> markup \<Rightarrow> dom" where
  "OverviewBlock blockId children = Element ''DIV'' (js ''overview-block'') [(''data-overview-block'', blockId)] children"

definition draw_kpi :: "text_for \<Rightarrow> (string \<Rightarrow> dom) \<Rightarrow> dom \<Rightarrow> kpi_card \<Rightarrow> dom" where
  "draw_kpi t icons icon k =
     KpiCard icons (t (kpi_label k) []) (id_text (kpi_value k)) (t (kpi_detail k) []) icon (Some (kpi_to k)) (js (kpi_tone k))"

text \<open>A block with a number; without data \<open>ResourceFeedback\<close> draws an error or a skeleton in its place.\<close>

definition kpi_block ::
  "text_for \<Rightarrow> (string \<Rightarrow> dom) \<Rightarrow> (OverviewWidgetType \<Rightarrow> dom) \<Rightarrow> (OverviewWidgetType \<Rightarrow> markup) \<Rightarrow> overview_data \<Rightarrow> widget_states \<Rightarrow>
   OverviewWidgetType \<Rightarrow> dom" where
  "kpi_block t icons icon fallback d s k =
     OverviewBlock (widget_type_name k)
       (case OverviewWidget (sure t) d s k of PanelContent (KpiView kpi) \<Rightarrow> [draw_kpi t icons (icon k) kpi] | _ \<Rightarrow> fallback k)"

definition KPI_ROW :: "OverviewWidgetType list" where
  "KPI_ROW = [KpiAlerts, KpiCriticalAlerts, KpiHighRiskEndpoints, KpiOpenIncidents]"

definition kpi_row ::
  "text_for \<Rightarrow> (string \<Rightarrow> dom) \<Rightarrow> (OverviewWidgetType \<Rightarrow> dom) \<Rightarrow> (OverviewWidgetType \<Rightarrow> markup) \<Rightarrow> overview_data \<Rightarrow> widget_states \<Rightarrow> dom" where
  "kpi_row t icons icon fallback d s =
     Element ''DIV'' (js ''overview-kpi-row'') [(''aria-label'', t ''overview.kpiAria'' [])]
       (map (kpi_block t icons icon fallback d s) KPI_ROW)"

text \<open>What the report should say of a number.\<close>

definition kpi_metric :: "text_for \<Rightarrow> OverviewWidgetType \<Rightarrow> kpi_card \<Rightarrow> DashboardReportMetric" where
  "kpi_metric t k kpi =
     \<lparr>rm_label = normalized_text (t (kpi_label kpi) []), rm_value = id_text (kpi_value kpi),
      rm_detail = nonempty (normalized_text (t (kpi_detail kpi) [])),
      rm_scope = (if k = KpiHighRiskEndpoints then CurrentSnapshot else SelectedPeriod)\<rparr>"

lemma child_elements_Cons: "child_elements (Element t c as ns # outer) = map (\<lambda>n. n # Element t c as ns # outer) (filter is_element ns)"
  by (simp add: child_elements_def dom_children_def)

lemma has_class_kpi_icon: "has_class (Element t (js ''kpi-icon'') as ns) k \<longleftrightarrow> k = ''kpi-icon''"
  by (rule has_class_single) (simp add: name_simps)

lemma scope_below_block:
  assumes "list_all (\<lambda>e. dom_attribute e ''data-overview-block'' = None) inner"
  shows "scopeForNode (inner @ OverviewBlock (widget_type_name k) ns # outer) =
     (if k \<in> {EdrState, KpiHighRiskEndpoints, HighestRiskEndpoints} then CurrentSnapshot else SelectedPeriod)"
proof -
  have "closest (inner @ OverviewBlock (widget_type_name k) ns # outer) [Simple (with_attribute ''data-overview-block'')] =
      Some (OverviewBlock (widget_type_name k) ns # outer)"
    using assms by (induction inner) (simp_all add: node_matches_def with_attribute_def OverviewBlock_def)
  then show ?thesis
    by (cases k) (simp_all add: scopeForNode_def OverviewBlock_def node_attribute_def CURRENT_SNAPSHOT_BLOCKS_def SELECTED_PERIOD_BLOCKS_def)
qed

lemmas scope_in_block = scope_below_block [of "[e]" for e, simplified append.simps list.pred_inject]

lemma kpi_card_node:
  assumes "\<bar>kpi_value kpi\<bar> \<le> 2 ^ 53" "normalized_text (t (kpi_label kpi) []) \<noteq> []"
    and k: "k \<in> set KPI_ROW"
  shows "metric_of (draw_kpi t icons icon kpi # OverviewBlock (widget_type_name k) ns # outer) = Some (kpi_metric t k kpi)"
proof -
  have scope: "scopeForNode (draw_kpi t icons icon kpi # OverviewBlock (widget_type_name k) ns # outer) =
      (if k = KpiHighRiskEndpoints then CurrentSnapshot else SelectedPeriod)"
    using k by (subst scope_in_block) (auto simp: draw_kpi_def KpiCard_def Link_def Let_def KPI_ROW_def)
  have "js_String (Num (of_int (kpi_value kpi))) \<noteq> []" using assms(1) by (simp add: js_String_int)
  then show ?thesis
    using assms(1,2) unfolding metric_of_def scope
    by (simp add: draw_kpi_def KpiCard_def Link_def Let_def directChildText_def child_elements_Cons has_class_kpi_icon node_text_Cons
        normalized_count kpi_metric_def)
qed

abbreviation is_kpi :: "dom \<Rightarrow> bool" where "is_kpi \<equiv> matches_any [of_class ''kpi-card'']"

lemma seek_kpi_card:
  assumes "quiet is_kpi icon" "quiet is_kpi (icons ''ArrowRight'')"
  shows "seek is_kpi outer (draw_kpi t icons icon kpi) = [draw_kpi t icons icon kpi # outer]"
proof -
  have here: "has_class (Element tag (js ''kpi-card'' @ 32 # rest) as ns) ''kpi-card''" for tag rest as ns
    by (simp add: has_class_lead name_simps)
  have lead: "js ''kpi-card '' = js ''kpi-card'' @ [32]" by (simp add: js_def)
  show ?thesis
    using assms by (simp add: draw_kpi_def KpiCard_def Link_def Let_def lead here nodes_if_def has_class_kpi_icon seek_quiet)
qed

definition kpi_entries :: "text_for \<Rightarrow> overview_data \<Rightarrow> widget_states \<Rightarrow> (OverviewWidgetType \<times> kpi_card) list" where
  "kpi_entries t d s =
     concat (map (\<lambda>k. case OverviewWidget (sure t) d s k of PanelContent (KpiView kpi) \<Rightarrow> [(k, kpi)] | _ \<Rightarrow> []) KPI_ROW)"

definition kpi_of :: "widget_view panel \<Rightarrow> kpi_card option" where
  "kpi_of v = (case v of PanelContent (KpiView kpi) \<Rightarrow> Some kpi | _ \<Rightarrow> None)"

lemma kpi_block_alt:
  "kpi_block t icons icon fallback d s k =
     OverviewBlock (widget_type_name k)
       (case kpi_of (OverviewWidget (sure t) d s k) of Some kpi \<Rightarrow> [draw_kpi t icons (icon k) kpi] | None \<Rightarrow> fallback k)"
  by (simp add: kpi_block_def kpi_of_def split: panel.split widget_view.split)

lemma kpi_entries_alt:
  "kpi_entries t d s = concat (map (\<lambda>k. case kpi_of (OverviewWidget (sure t) d s k) of Some kpi \<Rightarrow> [(k, kpi)] | None \<Rightarrow> []) KPI_ROW)"
  by (simp add: kpi_entries_def kpi_of_def split: panel.split widget_view.split cong: map_cong) (auto intro!: arg_cong [where f = concat] split: panel.split widget_view.split)

lemma overview_block_not_kpi [simp]: "\<not> has_class (OverviewBlock i ns) ''kpi-card''"
  by (simp add: OverviewBlock_def has_class_single name_simps)

lemma seek_kpi_block:
  assumes "quiet is_kpi (icon k)" "quiet is_kpi (icons ''ArrowRight'')" "list_all (quiet is_kpi) (fallback k)"
  shows "seek is_kpi outer (kpi_block t icons icon fallback d s k) =
    (case kpi_of (OverviewWidget (sure t) d s k) of
       Some kpi \<Rightarrow> [draw_kpi t icons (icon k) kpi # kpi_block t icons icon fallback d s k # outer] | None \<Rightarrow> [])"
proof -
  have step: "seek is_kpi outer (OverviewBlock i ns) = concat (map (seek is_kpi (OverviewBlock i ns # outer)) ns)" for i ns
    using overview_block_not_kpi [of i ns] by (simp add: OverviewBlock_def)
  show ?thesis
    unfolding kpi_block_alt step
    using assms by (auto simp: seek_kpi_card seek_quiet_list split: option.split)
qed

text \<open>The query finds the cards of the row, in order, and nothing else.\<close>

lemma kpi_query:
  assumes "\<And>k. quiet is_kpi (icon k)" "quiet is_kpi (icons ''ArrowRight'')" "\<And>k. list_all (quiet is_kpi) (fallback k)"
    and "list_all (quiet is_kpi) before" "list_all (quiet is_kpi) rest"
  shows "querySelectorAll [Element tag c as (before @ [kpi_row t icons icon fallback d s] @ rest)] [Simple (of_class ''kpi-card'')] =
    map (\<lambda>(k, kpi). [draw_kpi t icons (icon k) kpi, kpi_block t icons icon fallback d s k, kpi_row t icons icon fallback d s,
        Element tag c as (before @ [kpi_row t icons icon fallback d s] @ rest)]) (kpi_entries t d s)"
proof -
  let ?row = "kpi_row t icons icon fallback d s"
  let ?main = "Element tag c as (before @ [?row] @ rest)"
  have "querySelectorAll [?main] [Simple (of_class ''kpi-card'')] = concat (map (seek is_kpi [?main]) (before @ [?row] @ rest))"
    using querySelectorAll_seek [of "[of_class ''kpi-card'']" tag c as "before @ [?row] @ rest" "[]"] by (simp add: of_class_def)
  also have "\<dots> = seek is_kpi [?main] ?row"
    by (simp add: seek_quiet_list [OF assms(4)] seek_quiet_list [OF assms(5)] del: concat_eq_Nil_conv)
  also have "\<dots> = concat (map (seek is_kpi [?row, ?main]) (map (kpi_block t icons icon fallback d s) KPI_ROW))"
    by (simp add: kpi_row_def has_class_single name_simps)
  also have "\<dots> = map (\<lambda>(k, kpi). [draw_kpi t icons (icon k) kpi, kpi_block t icons icon fallback d s k, ?row, ?main]) (kpi_entries t d s)"
    by (simp add: seek_kpi_block assms(1,2,3) kpi_entries_alt map_concat comp_def) (auto intro!: arg_cong [where f = concat] split: option.split)
  finally show ?thesis .
qed

lemma kpi_entries_length: "length (kpi_entries t d s) \<le> 4"
  by (simp add: kpi_entries_alt KPI_ROW_def split: option.split)

lemma kpi_entries_member: "(k, kpi) \<in> set (kpi_entries t d s) \<Longrightarrow> k \<in> set KPI_ROW \<and> kpi_of (OverviewWidget (sure t) d s k) = Some kpi"
  by (auto simp: kpi_entries_alt split: option.splits)

section \<open>The facts of a ledger\<close>

definition main_content :: "markup \<Rightarrow> dom" where
  "main_content ns = Element ''MAIN'' (js ''main-content'') [(''id'', js ''main-content''), (''tabindex'', js ''-1'')] ns"

record ledger_section =
  ls_id :: jsstring
  ls_title :: jsstring
  ls_subtitle :: "jsstring option"
  ls_facts :: "ledger_item list option"
  ls_children :: markup
  ls_class :: jsstring

definition draw_section :: "ledger_section \<Rightarrow> dom" where
  "draw_section s = DetailLedgerSection (ls_id s) (ls_title s) (ls_subtitle s) (ls_facts s) (ls_children s) (ls_class s)"

abbreviation is_facts :: "dom \<Rightarrow> bool" where
  "is_facts \<equiv> matches_any [of_class ''definition-grid'', of_class ''detail-fact-list'']"

definition section_ok :: "ledger_section \<Rightarrow> bool" where
  "section_ok s \<longleftrightarrow> normalized_text (ls_title s) \<noteq> [] \<and> \<not> is_facts (draw_section s) \<and> list_all (quiet is_facts) (ls_children s) \<and>
     list_all (\<lambda>(l, v). list_all (quiet is_facts) v) (case ls_facts s of Some is \<Rightarrow> is | None \<Rightarrow> [])"

text \<open>What the report should say of a section.\<close>

definition item_texts :: "ledger_item list \<Rightarrow> (jsstring \<times> jsstring) list" where
  "item_texts facts =
     filter (\<lambda>(l, v). l \<noteq> [] \<and> v \<noteq> []) (map (\<lambda>(l, v). (normalized_text l, normalized_text (concat (map textContent v)))) facts)"

definition section_group :: "ledger_section \<Rightarrow> DashboardReportFactGroup" where
  "section_group s =
     \<lparr>fg_title = normalized_text (ls_title s), fg_items = item_texts (case ls_facts s of Some is \<Rightarrow> is | None \<Rightarrow> []), fg_scope = CurrentView\<rparr>"

subsection \<open>One section\<close>

lemma trim_lead:
  assumes "c \<noteq> []" "\<not> is_white_space (hd c)" "\<not> is_white_space (last c)"
  shows "trim (c @ 32 # rest) = c \<or> (\<exists>r. trim (c @ 32 # rest) = c @ 32 # r)"
proof -
  have front: "dropWhile is_white_space (c @ 32 # rest) = c @ 32 # rest" using assms by (cases c) auto
  have last: "dropWhile is_white_space (rev c) = rev c" using assms by (intro dropWhile_id_hd) (simp add: hd_rev)
  show ?thesis
  proof (cases "list_all is_white_space rest")
    case True
    then have "dropWhile is_white_space (rev rest @ 32 # rev c) = rev c"
      using last dropWhile_append2 [of "rev rest" is_white_space "32 # rev c"] by (simp add: list_all_iff)
    then show ?thesis by (simp add: trim_def front)
  next
    case False
    then obtain x where "x \<in> set (rev rest)" "\<not> is_white_space x" by (auto simp: list_all_iff)
    then have "dropWhile is_white_space (rev rest @ 32 # rev c) = dropWhile is_white_space (rev rest) @ 32 # rev c"
      by (rule dropWhile_append1)
    then show ?thesis by (simp add: trim_def front)
  qed
qed

lemma ledger_section_class: "has_class (draw_section s) ''detail-ledger-section''"
proof -
  have lead: "js ''detail-ledger-section '' @ ls_class s = js ''detail-ledger-section'' @ 32 # ls_class s" by (simp add: js_def)
  have "trim (js ''detail-ledger-section'' @ 32 # ls_class s) = js ''detail-ledger-section'' \<or>
      (\<exists>r. trim (js ''detail-ledger-section'' @ 32 # ls_class s) = js ''detail-ledger-section'' @ 32 # r)"
    by (rule trim_lead) (simp_all add: js_def is_white_space_def)
  then show ?thesis
    by (auto simp: draw_section_def DetailLedgerSection_def lead has_class_single has_class_lead name_simps)
qed

lemma query_first: "querySelectorAll n ss = m # ms \<Longrightarrow> query_text (Some n) ss = node_text (Some m)"
  by (simp add: query_text_def querySelector_def)

lemma tag_query:
  "querySelectorAll (Element t c as ns # outer) [Simple (of_tag tag)] =
   concat (map (seek (matches_any [of_tag tag]) (Element t c as ns # outer)) ns)"
  using querySelectorAll_seek [of "[of_tag tag]" t c as ns outer] by (simp add: of_tag_def)

lemma fact_item_texts:
  "child_text (fact_item (l, v) # outer) ''DT'' = normalized_text l"
  "child_text (fact_item (l, v) # outer) ''DD'' = normalized_text (concat (map textContent v))"
  by (simp_all add: child_text_def fact_item_def query_text_def querySelector_def tag_query node_text_Cons)

lemma heading_query:
  "query_text (Some (Element t c as (Element ''HEADER'' c' as' (Element ''H2'' c'' as'' [TextNode title] # more1) # more2) # outer))
     [Descendant (Child (Simple Scope) (of_tag ''HEADER'')) (of_tag ''H2'')] = normalized_text title"
proof -
  let ?h2 = "Element ''H2'' c'' as'' [TextNode title]"
  let ?header = "Element ''HEADER'' c' as' (?h2 # more1)"
  let ?sect = "Element t c as (?header # more2)"
  have "list_ex (\<lambda>k. selects (length (?sect # outer)) (Child (Simple Scope) (of_tag ''HEADER'')) (drop k (?h2 # ?header # ?sect # outer)))
      [1..<length (?h2 # ?header # ?sect # outer)]"
    unfolding list_ex_iff by (rule bexI [of _ 1]) (simp_all add: of_tag_def del: upt_Suc)
  then have "selects (length (?sect # outer)) (Descendant (Child (Simple Scope) (of_tag ''HEADER'')) (of_tag ''H2'')) (?h2 # ?header # ?sect # outer)"
    by (simp add: of_tag_def)
  moreover have "\<not> selects (length (?sect # outer)) (Descendant (Child (Simple Scope) (of_tag ''HEADER'')) (of_tag ''H2'')) (?header # ?sect # outer)"
    by (simp add: of_tag_def)
  ultimately obtain ms where "querySelectorAll (?sect # outer) [Descendant (Child (Simple Scope) (of_tag ''HEADER'')) (of_tag ''H2'')] =
      (?h2 # ?header # ?sect # outer) # ms"
    by (simp add: querySelectorAll_def descendants_def)
  then show ?thesis by (simp add: query_first node_text_Cons)
qed

lemma has_class_ledger_parts [simp]:
  "has_class (Element t (js ''detail-fact-list'') as ns) k \<longleftrightarrow> k = ''detail-fact-list''"
  "has_class (Element t (js ''detail-ledger-content'') as ns) k \<longleftrightarrow> k = ''detail-ledger-content''"
  "has_class (Element t (js ''main-content'') as ns) k \<longleftrightarrow> k = ''main-content''"
  by (simp_all add: has_class_single name_simps)

definition facts_of :: "ledger_section \<Rightarrow> markup" where
  "facts_of s = (case ls_facts s of Some is \<Rightarrow> [classed ''DL'' ''detail-fact-list'' (map fact_item is)] | None \<Rightarrow> [])"

definition section_content :: "ledger_section \<Rightarrow> dom" where
  "section_content s = classed ''DIV'' ''detail-ledger-content'' (facts_of s @ ls_children s)"

lemma draw_section_parts:
  obtains more1 where "draw_section s = Element ''SECTION'' (trim (js ''detail-ledger-section '' @ ls_class s)) [(''aria-labelledby'', ls_id s)]
    [Element ''HEADER'' [] [] (Element ''H2'' [] [(''id'', ls_id s)] [TextNode (ls_title s)] # more1), section_content s]"
  by (simp add: draw_section_def DetailLedgerSection_def section_content_def facts_of_def)

lemma quiet_fact_item: "list_all (quiet is_facts) (snd i) \<Longrightarrow> quiet is_facts (fact_item i)"
  by (simp add: fact_item_def)

lemma seek_section:
  assumes "section_ok s"
  shows "seek is_facts outer (draw_section s) = map (\<lambda>dl. [dl, section_content s, draw_section s] @ outer) (facts_of s)"
proof -
  let ?section = "draw_section s"
  have quiet_items: "concat (map (seek is_facts o' \<circ> fact_item) is) = []" if "ls_facts s = Some is" for "is" o'
  proof -
    have "list_all (quiet is_facts) (map fact_item is)"
      using assms that by (auto simp: section_ok_def list_all_iff quiet_fact_item split: prod.splits)
    then show ?thesis using seek_quiet_list [of is_facts "map fact_item is" o'] by (simp del: concat_eq_Nil_conv)
  qed
  have content: "seek is_facts (?section # outer) (section_content s) = map (\<lambda>dl. [dl, section_content s, ?section] @ outer) (facts_of s)"
    using assms quiet_items
    by (auto simp: section_content_def facts_of_def section_ok_def seek_quiet_list simp del: concat_eq_Nil_conv split: option.split)
  have "\<not> is_facts ?section" using assms by (simp add: section_ok_def)
  moreover have "seek is_facts o' (Element ''HEADER'' [] [] (Element ''H2'' [] as [TextNode x] # text_if v (\<lambda>s. plain ''P'' [TextNode s]))) = []" for o' as x v
    by (intro seek_quiet) (simp add: text_if_def)
  ultimately show ?thesis using content
    by (simp add: draw_section_def DetailLedgerSection_def section_content_def [symmetric] facts_of_def [symmetric] del: matches_any_simps)
qed

subsection \<open>The whole ledger\<close>

lemma section_heading:
  assumes "dl \<in> set (facts_of s)"
  shows "section_title (dl # section_content s # draw_section s # outer) = normalized_text (ls_title s)"
proof -
  obtain more1 where s: "draw_section s = Element ''SECTION'' (trim (js ''detail-ledger-section '' @ ls_class s)) [(''aria-labelledby'', ls_id s)]
      [Element ''HEADER'' [] [] (Element ''H2'' [] [(''id'', ls_id s)] [TextNode (ls_title s)] # more1), section_content s]"
    by (rule draw_section_parts)
  have "closest (dl # section_content s # draw_section s # outer) [Simple (of_class ''detail-ledger-section'')] = Some (draw_section s # outer)"
    using assms ledger_section_class [of s]
    by (auto simp: facts_of_def section_content_def node_matches_def of_class_def split: option.splits)
  then show ?thesis unfolding section_title_def by (simp add: s heading_query)
qed

lemma no_anchor_scope:
  assumes "list_all (\<lambda>e. dom_attribute e ''data-overview-block'' = None \<and> dom_tag e \<noteq> ''A'') n" "n \<noteq> []"
  shows "scopeForNode n = CurrentView"
proof -
  have "closest n [Simple (with_attribute ''data-overview-block'')] = None" "closest n [Simple (of_tag ''A'')] = None"
    using assms(1) by (induction n) (auto simp: node_matches_def with_attribute_def of_tag_def)
  moreover have "\<not> node_matches n [Simple (of_tag ''A'')]" using assms by (cases n) (auto simp: node_matches_def of_tag_def)
  ultimately show ?thesis
    by (simp add: scopeForNode_def scope_of_link_def TIME_QUERY_KEYS_def text_includes_def startsWith_def js_def)
qed

lemma section_fact_group:
  assumes "section_ok s" "dl \<in> set (facts_of s)"
    and "list_all (\<lambda>e. dom_attribute e ''data-overview-block'' = None \<and> dom_tag e \<noteq> ''A'') outer"
  shows "fact_group_of i (dl # section_content s # draw_section s # outer) = section_group s"
proof -
  obtain "is" where f: "ls_facts s = Some is" using assms(2) by (cases "ls_facts s") (auto simp: facts_of_def)
  then have dl: "dl = classed ''DL'' ''detail-fact-list'' (map fact_item is)" using assms(2) by (simp add: facts_of_def)
  have "filter is_element (map fact_item is) = map fact_item is" by (induction "is") (simp_all add: fact_item_def)
  then have items: "map (\<lambda>item. (child_text item ''DT'', child_text item ''DD'')) (child_elements (dl # outer')) =
      map (\<lambda>(l, v). (normalized_text l, normalized_text (concat (map textContent v)))) is" for outer'
    by (auto simp: dl child_elements_Cons fact_item_texts)
  have "scopeForNode (dl # section_content s # draw_section s # outer) = CurrentView"
    using assms(3) by (intro no_anchor_scope)
      (simp_all add: dl section_content_def draw_section_def DetailLedgerSection_def)
  moreover have "normalized_text (ls_title s) \<noteq> []" using assms(1) by (simp add: section_ok_def)
  ultimately show ?thesis
    by (simp add: fact_group_of_def section_heading [OF assms(2)] items section_group_def item_texts_def f)
qed

lemma ledger_query:
  assumes "list_all section_ok ss" "\<not> is_facts (DetailLedger [] className)"
    and "list_all (quiet is_facts) before" "list_all (quiet is_facts) rest"
  shows "\<exists>ledger. dom_attribute ledger ''data-overview-block'' = None \<and> dom_tag ledger \<noteq> ''A'' \<and>
    querySelectorAll [main_content (before @ [DetailLedger (map draw_section ss) className] @ rest)]
      [Simple (of_class ''definition-grid''), Simple (of_class ''detail-fact-list'')] =
    concat (map (\<lambda>s. map (\<lambda>dl. [dl, section_content s, draw_section s, ledger,
        main_content (before @ [DetailLedger (map draw_section ss) className] @ rest)]) (facts_of s)) ss)"
proof -
  let ?ledger = "DetailLedger (map draw_section ss) className"
  let ?main = "main_content (before @ [?ledger] @ rest)"
  have "querySelectorAll [?main] [Simple (of_class ''definition-grid''), Simple (of_class ''detail-fact-list'')] =
      concat (map (seek is_facts [?main]) (before @ [?ledger] @ rest))"
    using querySelectorAll_seek [of "[of_class ''definition-grid'', of_class ''detail-fact-list'']" _ _ _ "before @ [?ledger] @ rest" "[]"]
    by (simp add: of_class_def main_content_def)
  also have "\<dots> = seek is_facts [?main] ?ledger"
    by (simp add: seek_quiet_list [OF assms(3)] seek_quiet_list [OF assms(4)] del: concat_eq_Nil_conv)
  also have "\<dots> = concat (map (seek is_facts [?ledger, ?main]) (map draw_section ss))"
    using assms(2) by (simp add: DetailLedger_def has_class_def)
  also have "\<dots> = concat (map (\<lambda>s. map (\<lambda>dl. [dl, section_content s, draw_section s, ?ledger, ?main]) (facts_of s)) ss)"
    using assms(1) by (auto simp: seek_section list_all_iff intro!: arg_cong [where f = concat])
  finally show ?thesis by (intro exI [of _ ?ledger]) (simp add: DetailLedger_def)
qed

section \<open>The tables of the activity chart\<close>

definition clean_text :: "jsstring \<Rightarrow> jsstring" where
  "clean_text s = trim (rev (dropWhile is_sort_arrow (rev (normalized_text s))))"

lemma cleanCell_Cons: "cleanCell (e # outer) = clean_text (textContent e)"
  by (simp add: cleanCell_def clean_text_def node_text_Cons)

text \<open>The nodes below a table, level by level.\<close>

definition cell :: "jsstring \<Rightarrow> dom" where "cell c = plain ''TD'' [TextNode c]"
definition row_of :: "jsstring list \<Rightarrow> dom" where "row_of cs = plain ''TR'' (map cell cs)"
definition heading :: "jsstring \<Rightarrow> dom" where "heading h = Element ''TH'' [] [(''scope'', js ''col'')] [TextNode h]"
definition heading_row :: "jsstring list \<Rightarrow> dom" where "heading_row hs = plain ''TR'' (map heading hs)"

lemma data_table_parts:
  "header_cells hs = plain ''THEAD'' [heading_row hs]" "body_cells rows = plain ''TBODY'' (map row_of rows)"
  by (simp_all add: header_cells_def body_cells_def heading_row_def row_of_def cell_def heading_def)

lemma nodes_below_leaves:
  "nodes_below outer (cell c) = []" "nodes_below outer (heading c) = []"
  "nodes_below outer (row_of cs) = map (\<lambda>c. cell c # row_of cs # outer) cs"
  "nodes_below outer (heading_row hs) = map (\<lambda>h. heading h # heading_row hs # outer) hs"
proof -
  show leaf: "nodes_below outer (cell c) = []" "nodes_below outer (heading c) = []" for outer c by (simp_all add: cell_def heading_def)
  have el: "is_element (cell c)" "is_element (heading c)" for c by (simp_all add: cell_def heading_def)
  have "concat (map (\<lambda>n. if is_element n then (n # e # outer) # nodes_below (e # outer) n else []) (map cell cs)) = map (\<lambda>c. cell c # e # outer) cs" for e
    by (induction cs) (simp_all add: leaf el)
  then show "nodes_below outer (row_of cs) = map (\<lambda>c. cell c # row_of cs # outer) cs" by (simp add: row_of_def)
  have "concat (map (\<lambda>n. if is_element n then (n # e # outer) # nodes_below (e # outer) n else []) (map heading hs)) = map (\<lambda>c. heading c # e # outer) hs" for e
    by (induction hs) (simp_all add: leaf el)
  then show "nodes_below outer (heading_row hs) = map (\<lambda>h. heading h # heading_row hs # outer) hs" by (simp add: heading_row_def)
qed

lemma nodes_below_table:
  "nodes_below outer (data_table caption hs rows) =
     (let table = data_table caption hs rows; thead = header_cells hs; tbody = body_cells rows
      in [[plain ''CAPTION'' [TextNode caption], table] @ outer, [thead, table] @ outer, [heading_row hs, thead, table] @ outer] @
         map (\<lambda>h. [heading h, heading_row hs, thead, table] @ outer) hs @
         [[tbody, table] @ outer] @
         concat (map (\<lambda>r. ([row_of r, tbody, table] @ outer) # map (\<lambda>c. [cell c, row_of r, tbody, table] @ outer) r) rows))"
proof -
  have el: "is_element (row_of r)" "is_element (heading_row hs)" for r by (simp_all add: row_of_def heading_row_def)
  have thead: "nodes_below o' (header_cells hs) = (heading_row hs # header_cells hs # o') # map (\<lambda>h. heading h # heading_row hs # header_cells hs # o') hs" for o'
    by (simp add: data_table_parts nodes_below_leaves el)
  have "concat (map (\<lambda>n. if is_element n then (n # e # o') # nodes_below (e # o') n else []) (map row_of rs)) =
      concat (map (\<lambda>r. (row_of r # e # o') # map (\<lambda>c. cell c # row_of r # e # o') r) rs)" for e o' rs
    by (induction rs) (simp_all add: nodes_below_leaves el)
  then have tbody: "nodes_below o' (body_cells rows) =
      concat (map (\<lambda>r. (row_of r # body_cells rows # o') # map (\<lambda>c. cell c # row_of r # body_cells rows # o') r) rows)" for o'
    by (simp add: data_table_parts)
  have "is_element (header_cells hs)" "is_element (body_cells rows)" by (simp_all add: data_table_parts)
  then show ?thesis by (simp add: data_table_def thead tbody Let_def)
qed

lemma selects_within:
  "selects d (Descendant (Simple (of_tag a)) (of_tag b)) (e # n) \<longleftrightarrow> dom_tag e = b \<and> (\<exists>x\<in>set n. dom_tag x = a)"
proof -
  have "list_ex (\<lambda>k. selects d (Simple (of_tag a)) (drop k (e # n))) [1..<length (e # n)] \<longleftrightarrow> (\<exists>x\<in>set n. dom_tag x = a)"
  proof
    assume "list_ex (\<lambda>k. selects d (Simple (of_tag a)) (drop k (e # n))) [1..<length (e # n)]"
    then obtain k where k: "1 \<le> k" "k < length (e # n)" and s: "selects d (Simple (of_tag a)) (drop k (e # n))" unfolding list_ex_iff by auto
    then have "drop k (e # n) = n ! (k - 1) # drop k n" by (cases k) (simp_all add: Cons_nth_drop_Suc)
    with s k show "\<exists>x\<in>set n. dom_tag x = a" by (auto simp: of_tag_def intro!: bexI [of _ "n ! (k - 1)"])
  next
    assume "\<exists>x\<in>set n. dom_tag x = a"
    then obtain j where j: "j < length n" "dom_tag (n ! j) = a" by (auto simp: in_set_conv_nth)
    then have "drop (Suc j) (e # n) = n ! j # drop (Suc j) n" by (simp add: Cons_nth_drop_Suc)
    with j show "list_ex (\<lambda>k. selects d (Simple (of_tag a)) (drop k (e # n))) [1..<length (e # n)]"
      unfolding list_ex_iff by (intro bexI [of _ "Suc j"]) (simp_all add: of_tag_def del: upt_Suc)
  qed
  then show ?thesis by (simp add: of_tag_def)
qed

lemma table_part_tags [simp]:
  "dom_tag (cell c) = ''TD''" "dom_tag (heading h) = ''TH''" "dom_tag (row_of r) = ''TR''" "dom_tag (heading_row hs) = ''TR''"
  "dom_tag (header_cells hs) = ''THEAD''" "dom_tag (body_cells rows) = ''TBODY''" "dom_tag (data_table c hs rows) = ''TABLE''"
  "textContent (cell c) = c" "textContent (heading h) = h"
  by (simp_all add: cell_def heading_def row_of_def heading_row_def header_cells_def body_cells_def data_table_def)

lemma data_table_cons: "nodes_below outer (data_table c hs rows) = x \<Longrightarrow> descendants (data_table c hs rows # outer) = x"
  by (simp add: descendants_def)

lemma table_headers_drawn: "table_headers (data_table caption hs rows # outer) = map clean_text hs"
proof -
  let ?thead = "Descendant (Simple (of_tag ''THEAD'')) (of_tag ''TH'')"
  have "filter (\<lambda>m. selects d ?thead m) (map (\<lambda>h. heading h # heading_row hs # header_cells hs # o') gs) =
      map (\<lambda>h. heading h # heading_row hs # header_cells hs # o') gs" for d o' gs
    by (induction gs) (simp_all add: selects_within del: selects.simps)
  moreover have "filter (\<lambda>m. selects d ?thead m) (concat (map (\<lambda>r. (row_of r # o') # map (\<lambda>c. cell c # row_of r # o') r) rs)) = []" for d o' rs
    by (auto simp: filter_empty_conv selects_within simp del: selects.simps)
  ultimately have "querySelectorAll (data_table caption hs rows # outer) [?thead] =
      map (\<lambda>h. [heading h, heading_row hs, header_cells hs, data_table caption hs rows] @ outer) hs"
    by (simp add: querySelectorAll_def data_table_cons [OF nodes_below_table] Let_def selects_within del: selects.simps)
  then show ?thesis by (simp add: table_headers_def cleanCell_Cons)
qed

lemma table_rows_drawn:
  assumes "list_all (\<lambda>e. dom_tag e \<noteq> ''TBODY'') outer"
  shows "table_rows (data_table caption hs rows # outer) = map (map clean_text) rows"
proof -
  let ?tbody = "Descendant (Simple (of_tag ''TBODY'')) (of_tag ''TR'')"
  have rows: "filter (\<lambda>m. selects d ?tbody m) (concat (map (\<lambda>r. (row_of r # body_cells rows # o') # map (\<lambda>c. cell c # row_of r # body_cells rows # o') r) rs)) =
      map (\<lambda>r. row_of r # body_cells rows # o') rs" for d o' rs
  proof (induction rs)
    case (Cons r rs)
    have "filter (\<lambda>m. selects d ?tbody m) (map (\<lambda>c. cell c # row_of r # body_cells rows # o') r) = []"
      by (auto simp: filter_empty_conv selects_within simp del: selects.simps)
    with Cons show ?case by (simp add: selects_within del: selects.simps)
  qed simp
  moreover have "\<forall>x\<in>set outer. dom_tag x \<noteq> ''TBODY''" using assms by (simp add: list_all_iff)
  moreover have "filter (\<lambda>m. selects d ?tbody m) (map (\<lambda>h. heading h # o') gs) = []" for d o' gs
    by (auto simp: filter_empty_conv selects_within simp del: selects.simps)
  ultimately have "querySelectorAll (data_table caption hs rows # outer) [?tbody] =
      map (\<lambda>r. [row_of r, body_cells rows, data_table caption hs rows] @ outer) rows"
    by (simp add: querySelectorAll_def data_table_cons [OF nodes_below_table] Let_def selects_within del: selects.simps)
  moreover have "map cleanCell (row_cells (row_of r # o')) = map clean_text r" for r o'
  proof -
    have "filter is_element (map cell r) = map cell r" by (induction r) (simp_all add: cell_def)
    then have "child_elements (row_of r # o') = map (\<lambda>c. cell c # row_of r # o') r" by (simp add: row_of_def child_elements_Cons)
    moreover have "filter (\<lambda>c. dom_tag (hd c) = ''TD'' \<or> dom_tag (hd c) = ''TH'') (map (\<lambda>c. cell c # o'') r) = map (\<lambda>c. cell c # o'') r" for o''
      by (induction r) simp_all
    ultimately show ?thesis by (simp add: row_cells_def cleanCell_Cons)
  qed
  ultimately show ?thesis by (simp add: table_rows_def)
qed

lemma caption_drawn: "child_text (data_table caption hs rows # outer) ''CAPTION'' = normalized_text caption"
  by (simp add: child_text_def query_text_def querySelector_def data_table_def tag_query node_text_Cons)

lemma table_source_drawn:
  assumes "normalized_text caption \<noteq> []" "list_all (\<lambda>e. dom_tag e \<noteq> ''TBODY'') outer"
  shows "trend_source_of i (data_table caption hs rows # outer) =
    \<lparr>src_caption = normalized_text caption, src_headers = map clean_text hs, src_rows = map (map clean_text) rows\<rparr>"
  using assms by (simp add: trend_source_of_def caption_drawn table_headers_drawn table_rows_drawn)

text \<open>A count in a cell is read back as the count.\<close>

lemma number_characters_show_int: "number_characters (show_int i) = show_int i"
  using show_nat_digits by (auto simp: number_characters_def show_int_def filter_id_conv)

lemma clean_count: "\<bar>i\<bar> \<le> 2 ^ 53 \<Longrightarrow> clean_text (id_text i) = show_int i"
proof -
  assume i: "\<bar>i\<bar> \<le> 2 ^ 53"
  have digits: "c \<in> set (show_int i) \<Longrightarrow> is_digit c \<or> c = 45" for c using show_nat_digits by (auto simp: show_int_def split: if_splits)
  from digits [of "last (show_int i)"] have "\<not> is_sort_arrow (last (show_int i))" by (auto simp: is_sort_arrow_def is_digit_def)
  then have "dropWhile is_sort_arrow (rev (show_int i)) = rev (show_int i)" by (intro dropWhile_id_hd) (simp add: hd_rev)
  moreover have "trim (show_int i) = show_int i"
    using show_int_solid [of i] by (intro trim_trimmed_id) (auto simp: trimmed_def list_all_iff)
  ultimately show ?thesis using i by (simp add: clean_text_def js_String_int normalized_solid show_int_solid)
qed

lemma count_read_back:
  assumes "\<bar>i\<bar> < 2 ^ 53"
  shows "parseNullableCount (Some (clean_text (id_text i))) = Some (of_int i)"
proof -
  have "trim (show_int i) = show_int i"
    using show_int_solid [of i] by (intro trim_trimmed_id) (auto simp: trimmed_def list_all_iff)
  moreover have "show_int i \<noteq> EM_DASH"
    using show_nat_digits [of 8212] by (auto simp: show_int_def EM_DASH_def is_digit_def split: if_splits) (metis list.set_intros(1))+
  ultimately show ?thesis
    using assms js_Number_show_int [OF assms] by (simp add: clean_count parseNullableCount_def number_characters_show_int)
qed

subsection \<open>The block of the chart\<close>

definition activity_block ::
  "date_parser \<Rightarrow> text_for \<Rightarrow> (jsstring \<Rightarrow> jsstring) \<Rightarrow> jsstring \<Rightarrow> markup \<Rightarrow> TimeSeriesPointDto list \<Rightarrow> TimeSeriesPointDto list \<Rightarrow>
   IncidentTimeSeriesPointDto list \<Rightarrow> dom" where
  "activity_block dp t formatDate titleId children events alerts incidents =
     OverviewBlock (widget_type_name DetectionActivity)
       [ChartFrame t titleId (t ''overview.detectionActivity'' []) (t ''overview.detectionActivityDescription'' []) [] children
          [DetectionActivityTable dp t formatDate events alerts incidents]]"

text \<open>The tables as the report reads them.\<close>

definition point_rows :: "date_parser \<Rightarrow> (jsstring \<Rightarrow> jsstring) \<Rightarrow> TimeSeriesPointDto list \<Rightarrow> jsstring list list" where
  "point_rows dp formatDate rows = map (\<lambda>r. [formatDate (tsp_bucketStartAt r), id_text (tsp_count r)]) (sortByBucket dp tsp_bucketStartAt rows)"

definition incident_rows :: "date_parser \<Rightarrow> (jsstring \<Rightarrow> jsstring) \<Rightarrow> IncidentTimeSeriesPointDto list \<Rightarrow> jsstring list list" where
  "incident_rows dp formatDate rows =
     map (\<lambda>r. [formatDate (itp_bucketStartAt r), id_text (itp_openCount r), id_text (itp_closedCount r)]) (sortByBucket dp itp_bucketStartAt rows)"

definition activity_tables ::
  "date_parser \<Rightarrow> text_for \<Rightarrow> (jsstring \<Rightarrow> jsstring) \<Rightarrow> TimeSeriesPointDto list \<Rightarrow> TimeSeriesPointDto list \<Rightarrow> IncidentTimeSeriesPointDto list \<Rightarrow>
   (jsstring \<times> jsstring list \<times> jsstring list list) list" where
  "activity_tables dp t formatDate events alerts incidents =
     [(t ''overview.events'' [], [t ''charts.bucket'' [], t ''charts.count'' []], point_rows dp formatDate events),
      (t ''overview.alerts'' [], [t ''charts.bucket'' [], t ''charts.count'' []], point_rows dp formatDate alerts),
      (t ''overview.incidents'' [], [t ''charts.bucket'' [], t ''charts.open'' [], t ''charts.closed'' []], incident_rows dp formatDate incidents)]"

definition source_of :: "jsstring \<times> jsstring list \<times> jsstring list list \<Rightarrow> trend_source" where
  "source_of = (\<lambda>(caption, hs, rows). \<lparr>src_caption = normalized_text caption, src_headers = map clean_text hs, src_rows = map (map clean_text) rows\<rparr>)"

lemma DetectionActivityTable_alt:
  "DetectionActivityTable dp t formatDate events alerts incidents =
     classed ''DIV'' ''detection-activity-tables'' (map (\<lambda>(c, hs, rows). data_table c hs rows) (activity_tables dp t formatDate events alerts incidents))"
  by (simp add: DetectionActivityTable_def ActivityDataTable_def activity_tables_def point_rows_def incident_rows_def)

abbreviation is_activity :: "dom \<Rightarrow> bool" where "is_activity \<equiv> matches_any [of_class ''detection-activity-tables'']"

lemma has_class_activity_parts [simp]:
  "has_class (Element t (js ''detection-activity-tables'') as ns) k \<longleftrightarrow> k = ''detection-activity-tables''"
  "has_class (Element t (js ''chart-frame'') as ns) k \<longleftrightarrow> k = ''chart-frame''"
  "has_class (Element t (js ''chart-frame-visual'') as ns) k \<longleftrightarrow> k = ''chart-frame-visual''"
  "has_class (Element t (js ''chart-frame-fallback'') as ns) k \<longleftrightarrow> k = ''chart-frame-fallback''"
  "has_class (Element t (js ''overview-block'') as ns) k \<longleftrightarrow> k = ''overview-block''"
  by (simp_all add: has_class_single name_simps)

lemma quiet_table: "quiet is_activity (data_table c hs rows)"
proof -
  have "quiet is_activity (heading_row hs)" by (simp add: heading_row_def heading_def list_all_iff)
  moreover have "quiet is_activity (row_of r)" for r by (simp add: row_of_def cell_def list_all_iff)
  ultimately show ?thesis by (simp add: data_table_def data_table_parts list_all_iff)
qed

lemma seek_table: "seek (matches_any [of_tag ''TABLE'']) outer (data_table c hs rows) = [data_table c hs rows # outer]"
proof -
  have "quiet (matches_any [of_tag ''TABLE'']) (heading_row hs)" by (simp add: heading_row_def heading_def list_all_iff)
  moreover have "quiet (matches_any [of_tag ''TABLE'']) (row_of r)" for r by (simp add: row_of_def cell_def list_all_iff)
  ultimately have parts: "list_all (quiet (matches_any [of_tag ''TABLE''])) [plain ''CAPTION'' [TextNode c], header_cells hs, body_cells rows]"
    by (simp add: data_table_parts list_all_iff)
  show ?thesis unfolding data_table_def seek.simps by (simp only: seek_quiet_list [OF parts]) simp
qed

lemma tables_query:
  "querySelectorAll (Element t c as (map (\<lambda>(c, hs, rows). data_table c hs rows) ts) # outer) [Simple (of_tag ''TABLE'')] =
   map (\<lambda>(c', hs, rows). data_table c' hs rows # Element t c as (map (\<lambda>(c, hs, rows). data_table c hs rows) ts) # outer) ts"
proof -
  have "concat (map (seek (matches_any [of_tag ''TABLE'']) o') (map (\<lambda>(c, hs, rows). data_table c hs rows) us)) =
      map (\<lambda>(c, hs, rows). data_table c hs rows # o') us" for o' us
    by (induction us) (auto simp: seek_table simp del: matches_any_simps)
  then show ?thesis by (simp add: tag_query del: matches_any_simps)
qed

text \<open>The heading of the frame, which is the title of the trend.\<close>

lemma frame_heading_query:
  "query_text (Some (Element t c as (Element ''HEADER'' c' as' (Element ''DIV'' c1 as1 (Element ''H2'' c'' as'' [TextNode title] # more0) # more1) # more2) # outer))
     [Descendant (Child (Simple Scope) (of_tag ''HEADER'')) (of_tag ''H2'')] = normalized_text title"
proof -
  let ?h2 = "Element ''H2'' c'' as'' [TextNode title]"
  let ?div = "Element ''DIV'' c1 as1 (?h2 # more0)"
  let ?header = "Element ''HEADER'' c' as' (?div # more1)"
  let ?frame = "Element t c as (?header # more2)"
  let ?s = "Descendant (Child (Simple Scope) (of_tag ''HEADER'')) (of_tag ''H2'')"
  have "list_ex (\<lambda>k. selects (length (?frame # outer)) (Child (Simple Scope) (of_tag ''HEADER'')) (drop k (?h2 # ?div # ?header # ?frame # outer)))
      [1..<length (?h2 # ?div # ?header # ?frame # outer)]"
    unfolding list_ex_iff by (rule bexI [of _ 2]) (simp_all add: of_tag_def numeral_2_eq_2 del: upt_Suc)
  then have "selects (length (?frame # outer)) ?s (?h2 # ?div # ?header # ?frame # outer)" by (simp add: of_tag_def)
  moreover have "\<not> selects (length (?frame # outer)) ?s (?header # ?frame # outer)" "\<not> selects (length (?frame # outer)) ?s (?div # ?header # ?frame # outer)"
    by (simp_all add: of_tag_def)
  ultimately obtain ms where "querySelectorAll (?frame # outer) [?s] = (?h2 # ?div # ?header # ?frame # outer) # ms"
    by (simp add: querySelectorAll_def descendants_def)
  then show ?thesis by (simp add: query_first node_text_Cons)
qed

lemma enumerate_sources:
  assumes "list_all (\<lambda>(c, hs, rows). normalized_text c \<noteq> []) ts" "list_all (\<lambda>e. dom_tag e \<noteq> ''TBODY'') outer"
  shows "map (\<lambda>(i, n). trend_source_of i n) (enumerate k (map (\<lambda>(c, hs, rows). data_table c hs rows # outer) ts)) = map source_of ts"
  using assms by (induction ts arbitrary: k) (auto simp: source_of_def table_source_drawn)

text \<open>The report of a page with the block of the chart: one trend, with the title of the frame and the data of its tables.\<close>

lemma activity_trends:
  assumes quiet: "list_all (quiet is_activity) children" "list_all (quiet is_activity) before" "list_all (quiet is_activity) rest"
    and titles: "normalized_text (t ''overview.detectionActivity'' []) \<noteq> []"
      "list_all (\<lambda>(c, hs, rows). normalized_text c \<noteq> []) (activity_tables dp t formatDate events alerts incidents)"
  shows "collectTrends [main_content (before @ [activity_block dp t formatDate titleId children events alerts incidents] @ rest)] =
    filter (\<lambda>tr. tr_categories tr \<noteq> [] \<and> tr_series tr \<noteq> [])
      [let data = trend_data (map source_of (activity_tables dp t formatDate events alerts incidents))
       in \<lparr>DashboardReportTrend.tr_title = normalized_text (t ''overview.detectionActivity'' []), tr_categories = fst data, tr_series = snd data,
           tr_scope = SelectedPeriod\<rparr>]"
proof -
  define ts where "ts = activity_tables dp t formatDate events alerts incidents"
  define tables where "tables = classed ''DIV'' ''detection-activity-tables'' (map (\<lambda>(c, hs, rows). data_table c hs rows) ts)"
  define details where "details = classed ''DETAILS'' ''chart-frame-fallback'' [plain ''SUMMARY'' [TextNode (useChartDataLabel t)], tables]"
  define frame where "frame = ChartFrame t titleId (t ''overview.detectionActivity'' []) (t ''overview.detectionActivityDescription'' []) [] children [tables]"
  define block where "block = OverviewBlock (widget_type_name DetectionActivity) [frame]"
  define main where "main = main_content (before @ [block] @ rest)"
  have page: "main_content (before @ [activity_block dp t formatDate titleId children events alerts incidents] @ rest) = main"
    by (simp add: main_def block_def frame_def tables_def ts_def activity_block_def DetectionActivityTable_alt)
  have frame: "frame = Element ''SECTION'' (js ''chart-frame'') [(''aria-labelledby'', titleId)]
      [plain ''HEADER'' [plain ''DIV'' [Element ''H2'' [] [(''id'', titleId)] [TextNode (t ''overview.detectionActivity'' [])],
          plain ''P'' [TextNode (t ''overview.detectionActivityDescription'' [])]]],
       classed ''DIV'' ''chart-frame-visual'' children, details]"
    by (simp add: frame_def ChartFrame_def details_def nodes_if_def)
  have "list_all (quiet is_activity) (map (\<lambda>(c, hs, rows). data_table c hs rows) ts)"
    by (auto simp: list_all_iff quiet_table simp del: matches_any_simps)
  from seek_quiet_list [OF this] have tables: "seek is_activity o' tables = [tables # o']" for o'
    unfolding tables_def seek.simps by (simp del: concat_eq_Nil_conv seek.simps list.map(2))
  have details: "seek is_activity o' details = [tables # details # o']" for o' by (simp add: details_def tables)
  have in_frame: "seek is_activity o' frame = [tables # details # frame # o']" for o'
    unfolding frame by (simp add: details seek_quiet_list [OF quiet(1)] del: concat_eq_Nil_conv)
  have in_block: "seek is_activity o' block = [tables # details # frame # block # o']" for o'
    by (simp add: block_def OverviewBlock_def in_frame)
  have "querySelectorAll [main] [Simple (of_class ''detection-activity-tables'')] = concat (map (seek is_activity [main]) (before @ [block] @ rest))"
    using querySelectorAll_seek [of "[of_class ''detection-activity-tables'']" _ _ _ "before @ [block] @ rest" "[]"]
    by (simp add: of_class_def main_content_def main_def)
  then have query: "querySelectorAll [main] [Simple (of_class ''detection-activity-tables'')] = [[tables, details, frame, block, main]]"
    by (simp add: seek_quiet_list [OF quiet(2)] seek_quiet_list [OF quiet(3)] in_block del: concat_eq_Nil_conv)
  have own: "dom_attribute tables a = None" "dom_tag tables = ''DIV''" "dom_attribute details a = None" "dom_tag details = ''DETAILS''"
    "dom_attribute frame ''data-overview-block'' = None" "dom_tag frame = ''SECTION''" "dom_tag block = ''DIV''" "dom_tag main = ''MAIN''" for a
    by (simp_all add: tables_def details_def frame block_def OverviewBlock_def main_def main_content_def)
  have "\<not> has_class tables ''chart-frame''" "\<not> has_class details ''chart-frame''" "has_class frame ''chart-frame''"
    by (simp_all add: tables_def details_def frame)
  then have closest: "closest [tables, details, frame, block, main] [Simple (of_class ''chart-frame'')] = Some [frame, block, main]"
    by (simp add: node_matches_def of_class_def)
  have heading: "query_text (Some [frame, block, main]) [Descendant (Child (Simple Scope) (of_tag ''HEADER'')) (of_tag ''H2'')] =
      normalized_text (t ''overview.detectionActivity'' [])"
    unfolding frame by (rule frame_heading_query)
  have scope: "scopeForNode [tables, details, frame, block, main] = SelectedPeriod"
    unfolding block_def using scope_below_block [of "[tables, details, frame]" DetectionActivity "[frame]" "[main]"] by (simp add: own)
  have found: "querySelectorAll [tables, details, frame, block, main] [Simple (of_tag ''TABLE'')] =
      map (\<lambda>(c, hs, rows). data_table c hs rows # [tables, details, frame, block, main]) ts"
    unfolding tables_def by (rule tables_query)
  have sources: "map (\<lambda>(i, n). trend_source_of i n)
      (enumerate 0 (map (\<lambda>(c, hs, rows). data_table c hs rows # [tables, details, frame, block, main]) ts)) = map source_of ts"
    by (rule enumerate_sources) (use titles(2) in \<open>simp_all add: own ts_def\<close>)
  have first: "first_nonempty (s # ss) = s" if "s \<noteq> []" for s ss using that by simp
  have "trend_of 0 [tables, details, frame, block, main] = (let data = trend_data (map source_of ts)
      in \<lparr>DashboardReportTrend.tr_title = normalized_text (t ''overview.detectionActivity'' []), tr_categories = fst data, tr_series = snd data,
          tr_scope = SelectedPeriod\<rparr>)"
    by (simp only: trend_of_def Let_def closest heading scope found sources first [OF titles(1)])
  then show ?thesis unfolding page by (simp add: collectTrends_def query ts_def)
qed

subsection \<open>Categories and values\<close>

lemma set_add_categories: "set (foldl add_category cs rows) = set cs \<union> (first_cell ` set rows - {[]})"
  by (induction rows arbitrary: cs) (auto simp: add_category_def)

lemma trend_categories: "fst (trend_data srcs) = foldl add_category [] (concat (map src_rows srcs))"
proof -
  have "fst (foldl add_source acc srcs) = foldl add_category (fst acc) (concat (map src_rows srcs))" for acc
    by (induction srcs arbitrary: acc) (simp_all add: add_source_def Let_def case_prod_beta)
  from this [of "([], [])"] show ?thesis by (simp add: trend_data_def Let_def case_prod_beta)
qed

text \<open>The value of a category: of the last row whose time is written that way.\<close>

definition last_count :: "('r \<Rightarrow> jsstring) \<Rightarrow> ('r \<Rightarrow> int) \<Rightarrow> 'r list \<Rightarrow> jsstring \<Rightarrow> rat option" where
  "last_count when_shown counted rows c = map_option (\<lambda>r. of_int (counted r)) (List.find (\<lambda>r. when_shown r = c) (rev rows))"

lemma map_of_find: "map_of (map (\<lambda>r. (key r, v r)) rows) c = map_option v (List.find (\<lambda>r. key r = c) rows)"
  by (induction rows) auto

lemma column_values:
  assumes "list_all (\<lambda>r. clean_text (when_shown r) = when_shown r \<and> \<bar>counted r\<bar> < 2 ^ 53) rows"
    and cells: "\<And>r. r \<in> set rows \<Longrightarrow> 0 < length (cs r) \<and> cs r ! 0 = when_shown r \<and> j < length (cs r) \<and> cs r ! j = id_text (counted r)"
  shows "category_value (value_map (map (map clean_text) (map cs rows)) j) = last_count when_shown counted rows"
proof
  fix c
  have eq: "map (\<lambda>row. (first_cell row, parseNullableCount (cell_at row j))) (map (map clean_text) (map cs rows)) =
      map (\<lambda>r. (when_shown r, Some (of_int (counted r)))) rows"
    using assms cells by (auto simp: list_all_iff first_cell_def cell_at_def count_read_back)
  have "map_get (value_map (map (map clean_text) (map cs rows)) j) c = map_of (map (\<lambda>r. (when_shown r, Some (of_int (counted r)))) (rev rows)) c"
    unfolding value_map_def eq map_get_map_from by (simp add: rev_map)
  then show "category_value (value_map (map (map clean_text) (map cs rows)) j) c = last_count when_shown counted rows c"
    by (simp add: category_value_def last_count_def map_of_find split: option.split)
qed

definition activity_ok ::
  "(jsstring \<Rightarrow> jsstring) \<Rightarrow> TimeSeriesPointDto list \<Rightarrow> TimeSeriesPointDto list \<Rightarrow> IncidentTimeSeriesPointDto list \<Rightarrow> bool" where
  "activity_ok formatDate events alerts incidents \<longleftrightarrow>
     list_all (\<lambda>s. clean_text (formatDate s) = formatDate s \<and> formatDate s \<noteq> [])
       (map tsp_bucketStartAt events @ map tsp_bucketStartAt alerts @ map itp_bucketStartAt incidents) \<and>
     list_all (\<lambda>n. \<bar>n\<bar> < 2 ^ 53) (map tsp_count events @ map tsp_count alerts @ map itp_openCount incidents @ map itp_closedCount incidents)"

lemma set_sortByBucket [simp]: "set (sortByBucket dp f rows) = set rows"
  by (simp add: sortByBucket_def)

lemma activity_series:
  assumes "activity_ok formatDate events alerts incidents"
  shows "map ts_values (snd (trend_data (map source_of (activity_tables dp t formatDate events alerts incidents)))) =
    map (\<lambda>f. map f (fst (trend_data (map source_of (activity_tables dp t formatDate events alerts incidents)))))
      [last_count (\<lambda>r. formatDate (tsp_bucketStartAt r)) tsp_count (sortByBucket dp tsp_bucketStartAt events),
       last_count (\<lambda>r. formatDate (tsp_bucketStartAt r)) tsp_count (sortByBucket dp tsp_bucketStartAt alerts),
       last_count (\<lambda>r. formatDate (itp_bucketStartAt r)) itp_openCount (sortByBucket dp itp_bucketStartAt incidents),
       last_count (\<lambda>r. formatDate (itp_bucketStartAt r)) itp_closedCount (sortByBucket dp itp_bucketStartAt incidents)]"
proof -
  have points: "category_value (value_map (map (map clean_text) (point_rows dp formatDate rows)) 1) =
      last_count (\<lambda>r. formatDate (tsp_bucketStartAt r)) tsp_count (sortByBucket dp tsp_bucketStartAt rows)"
    if "set rows \<subseteq> set events \<union> set alerts" for rows
    unfolding point_rows_def using assms that by (intro column_values) (auto simp: activity_ok_def list_all_iff)
  have incidents: "category_value (value_map (map (map clean_text) (incident_rows dp formatDate incidents)) 1) =
      last_count (\<lambda>r. formatDate (itp_bucketStartAt r)) itp_openCount (sortByBucket dp itp_bucketStartAt incidents)"
    "category_value (value_map (map (map clean_text) (incident_rows dp formatDate incidents)) 2) =
      last_count (\<lambda>r. formatDate (itp_bucketStartAt r)) itp_closedCount (sortByBucket dp itp_bucketStartAt incidents)"
    unfolding incident_rows_def using assms by (intro column_values; auto simp: activity_ok_def list_all_iff)+
  show ?thesis
    using conjunct2 [OF trend_series_aligned [of "map source_of (activity_tables dp t formatDate events alerts incidents)"]]
    by (simp add: activity_tables_def source_of_def column_indices_def points [unfolded One_nat_def] incidents [unfolded One_nat_def] upt_rec numeral_2_eq_2 [symmetric])
qed

lemma activity_categories:
  assumes "activity_ok formatDate events alerts incidents"
  shows "set (fst (trend_data (map source_of (activity_tables dp t formatDate events alerts incidents)))) =
    formatDate ` (tsp_bucketStartAt ` set events \<union> tsp_bucketStartAt ` set alerts \<union> itp_bucketStartAt ` set incidents)"
proof -
  have first: "first_cell (x # xs) = x" for x xs by (simp add: first_cell_def cell_at_def)
  have "first_cell ` set (concat (map src_rows (map source_of (activity_tables dp t formatDate events alerts incidents)))) =
      (\<lambda>s. clean_text (formatDate s)) ` (tsp_bucketStartAt ` set events \<union> tsp_bucketStartAt ` set alerts \<union> itp_bucketStartAt ` set incidents)"
    by (simp add: activity_tables_def source_of_def point_rows_def incident_rows_def image_Un image_image first Un_assoc)
  also have "\<dots> = formatDate ` (tsp_bucketStartAt ` set events \<union> tsp_bucketStartAt ` set alerts \<union> itp_bucketStartAt ` set incidents)"
    using assms by (intro image_cong) (auto simp: activity_ok_def list_all_iff)
  finally have cells: "first_cell ` set (concat (map src_rows (map source_of (activity_tables dp t formatDate events alerts incidents)))) =
      formatDate ` (tsp_bucketStartAt ` set events \<union> tsp_bucketStartAt ` set alerts \<union> itp_bucketStartAt ` set incidents)" .
  have "\<forall>s\<in>tsp_bucketStartAt ` set events \<union> tsp_bucketStartAt ` set alerts \<union> itp_bucketStartAt ` set incidents. formatDate s \<noteq> []"
    using assms by (simp add: activity_ok_def list_all_iff Un_assoc)
  then have "[] \<notin> formatDate ` (tsp_bucketStartAt ` set events \<union> tsp_bucketStartAt ` set alerts \<union> itp_bucketStartAt ` set incidents)"
    by (metis imageE)
  then show ?thesis unfolding trend_categories set_add_categories cells by simp
qed

section \<open>Lists of records\<close>

text \<open>
  A record is labelled by its first link or by a \<open>strong\<close> in the place the queues of the overview have it.  The
  lists of risk factors and of guidance put them elsewhere: a factor is called by the text of its link alone, its title and its
  contribution are not printed; a step is called by all of its texts run together and cut off.
\<close>

definition RECORD_NAME :: "selector list" where
  "RECORD_NAME = [Simple (of_tag ''A''), Child (Simple (of_class ''queue-primary'')) (of_tag ''STRONG''), Child (Simple Scope) (of_tag ''STRONG'')]"

definition RECORD_DETAILS :: "selector list" where
  "RECORD_DETAILS = [Simple (of_tag ''SMALL''), Simple (of_class ''status-pill''), Simple (of_class ''incident-state''),
     Simple (of_class ''incident-alert-count''), Simple (of_tag ''TIME''), METRIC_BOX]"

lemma record_of_plain:
  assumes "querySelectorAll item RECORD_DETAILS = []"
  shows "record_of item =
    (if query_text (Some item) RECORD_NAME \<noteq> [] then query_text (Some item) RECORD_NAME else take 120 (node_text (Some item)), [])"
  using assms by (simp add: record_of_def RECORD_NAME_def RECORD_DETAILS_def Let_def first_occurrences_def)

lemmas record_selectors = RECORD_NAME_def RECORD_DETAILS_def METRIC_BOX_def of_tag_def of_class_def

lemma has_class_factor_score [simp]: "has_class (Element t (js ''factor-score'') as ns) k \<longleftrightarrow> k = ''factor-score''"
  and has_class_guidance_title [simp]: "has_class (Element t (js ''guidance-title'') as ns) k \<longleftrightarrow> k = ''guidance-title''"
  by (simp_all add: has_class_single name_simps)

lemma risk_factor_record:
  assumes "normalized_text (t ''risk.openSource'' [(js ''sourceType'', TextParam (factor_source lang lower (rf_sourceType f)))]) \<noteq> []"
  shows "record_of (risk_factor t lang lower f title description # outer) =
    (normalized_text (t ''risk.openSource'' [(js ''sourceType'', TextParam (factor_source lang lower (rf_sourceType f)))]), [])"
proof -
  let ?item = "risk_factor t lang lower f title description # outer"
  have details: "querySelectorAll ?item RECORD_DETAILS = []"
    by (simp add: querySelectorAll_def descendants_def risk_factor_def Link_def record_selectors)
  have "query_text (Some ?item) RECORD_NAME = normalized_text (t ''risk.openSource'' [(js ''sourceType'', TextParam (factor_source lang lower (rf_sourceType f)))])"
    by (simp add: query_text_def querySelector_def querySelectorAll_def descendants_def risk_factor_def Link_def record_selectors node_text_Cons)
  with assms show ?thesis by (simp add: record_of_plain [OF details])
qed

text \<open>Hence the report cannot tell two factors of the same kind of source apart.\<close>

lemma risk_factors_alike:
  assumes "rf_sourceType f = rf_sourceType g"
    and "normalized_text (t ''risk.openSource'' [(js ''sourceType'', TextParam (factor_source lang lower (rf_sourceType f)))]) \<noteq> []"
  shows "record_of (risk_factor t lang lower f title description # outer) = record_of (risk_factor t lang lower g title' description' # outer)"
  using assms risk_factor_record by simp

lemma guidance_record:
  "record_of (guidance_step t step title # outer) =
     (take 120 (normalized_text (id_text (gs_order step) @ title @
        (if gs_requiresManualAction step then t ''alert.manualAction'' [] else []) @ gs_description step)), [])"
proof -
  have badge: "trim (js ''badge badge-'' @ js ''warning'' @ js '' '') = js ''badge badge-warning''"
    by (simp add: js_def trim_def is_white_space_def)
  have classes: "has_class (Element t (js ''badge badge-warning'') as ns) k \<longleftrightarrow> k = ''badge'' \<or> k = ''badge-warning''" for t as ns k
  proof -
    have "js ''badge badge-warning'' = js ''badge'' @ 32 # js ''badge-warning''" by (simp add: js_def)
    moreover have "single_name (js ''badge-warning'')" by (simp add: single_name_def js_def is_ascii_space_def)
    ultimately show ?thesis by (simp add: has_class_lead name_simps class_tokens_single)
  qed
  let ?item = "guidance_step t step title # outer"
  have details: "querySelectorAll ?item RECORD_DETAILS = []"
    by (simp add: querySelectorAll_def descendants_def guidance_step_def Badge_def nodes_if_def record_selectors badge classes)
  have "querySelectorAll ?item RECORD_NAME = []"
    by (simp add: querySelectorAll_def descendants_def guidance_step_def Badge_def nodes_if_def record_selectors badge classes)
  then have "query_text (Some ?item) RECORD_NAME = []"
    by (simp add: query_text_def querySelector_def node_text_def normalized_text_def trim_def)
  moreover have "textContent (guidance_step t step title) =
      id_text (gs_order step) @ title @ (if gs_requiresManualAction step then t ''alert.manualAction'' [] else []) @ gs_description step"
    by (simp add: guidance_step_def Badge_def nodes_if_def)
  ultimately show ?thesis by (simp add: record_of_plain [OF details] node_text_Cons)
qed

end
