(* ===== verification/WorkspaceMarkup.thy ===== *)
theory WorkspaceMarkup
  imports MarkupReport DashboardBuilder
begin

text \<open>
  What the workspace of the dashboards draws (\<open>features/overviewLayout/OverviewDashboardWorkspace.tsx\<close>): the grid with its
  widgets, the builder with its palette, the home of the management and the two dialogs; the overview itself with its
  ribbon and its blocks (\<open>features/overview/OverviewDashboard.tsx\<close>); and the media query that says whether dashboards can be
  edited.  The grid library is an argument: it is handed its configuration and the elements to place.  What a widget draws in its
  frame is an argument as well, by its type.
\<close>

section \<open>Whether dashboards can be edited\<close>

text \<open>
  The window: what the media query says, if there are media queries, the inner width, and the listeners, those of
  the query under \<open>change\<close> and those of the window under \<open>resize\<close>.
\<close>

record edit_window =
  ew_matches :: "bool option"
  ew_innerWidth :: int
  ew_listeners :: "(string \<times> nat) list"

definition desktopDashboardEditingSnapshot :: "edit_window \<Rightarrow> bool" where
  "desktopDashboardEditingSnapshot w = (case ew_matches w of Some m \<Rightarrow> m | None \<Rightarrow> 1280 \<le> ew_innerWidth w)"

definition listened_event :: "edit_window \<Rightarrow> string" where
  "listened_event w = (if ew_matches w = None then ''resize'' else ''change'')"

definition subscribeDesktopDashboardEditing :: "nat \<Rightarrow> edit_window \<Rightarrow> edit_window" where
  "subscribeDesktopDashboardEditing onChange w =
     w\<lparr>ew_listeners := (if (listened_event w, onChange) \<in> set (ew_listeners w) then ew_listeners w
        else ew_listeners w @ [(listened_event w, onChange)])\<rparr>"

definition unsubscribe :: "nat \<Rightarrow> edit_window \<Rightarrow> edit_window" where
  "unsubscribe onChange w = w\<lparr>ew_listeners := filter (\<lambda>l. l \<noteq> (listened_event w, onChange)) (ew_listeners w)\<rparr>"

text \<open>The window is given another width: the query says \<open>change\<close> when its answer changes, the window says \<open>resize\<close>.\<close>

definition resize_window :: "int \<Rightarrow> edit_window \<Rightarrow> edit_window \<times> nat list" where
  "resize_window width w =
     (let w' = w\<lparr>ew_innerWidth := width, ew_matches := map_option (\<lambda>m. 1280 \<le> width) (ew_matches w)\<rparr>
      in (w', map snd (filter (\<lambda>l. fst l = ''resize'' \<or> fst l = ''change'' \<and> ew_matches w' \<noteq> ew_matches w) (ew_listeners w))))"

section \<open>The overview\<close>

definition signal_article :: "text_for \<Rightarrow> (string \<Rightarrow> dom) \<Rightarrow> (string \<times> string) \<times> TranslationKey \<times> jsstring \<Rightarrow> dom" where
  "signal_article t icon = (\<lambda>((symbol, tone), label, v).
     classed ''ARTICLE'' (''signal-'' @ tone) [icon symbol, plain ''SPAN'' [TextNode (t label [])], plain ''STRONG'' [TextNode v]])"

definition SignalRibbon :: "text_for \<Rightarrow> (string \<Rightarrow> dom) \<Rightarrow> overview_data \<Rightarrow> markup" where
  "SignalRibbon t icon d =
     (if OverviewSignalRibbon d = [] then []
      else [Element ''SECTION'' (js ''overview-signal-ribbon'') [(''aria-label'', t ''overview.signalRibbon'' [])]
        [plain ''HEADER'' [Element ''SPAN'' [] [(''aria-hidden'', js ''true'')] [],
           Element ''STRONG'' [] [(''title'', t ''overview.signalRibbon'' [])] [TextNode (t ''overview.signalRibbon'' [])],
           plain ''SMALL'' [TextNode (t ''overview.backendSnapshot'' [])]],
         plain ''DIV'' (map (signal_article t icon)
           (zip [(''Activity'', ''events''), (''Siren'', ''alerts''), (''MonitorDot'', ''endpoints''), (''ShieldAlert'', ''incidents'')]
             (OverviewSignalRibbon d)))]])"

definition OVERVIEW_BLOCK_IDS :: "jsstring list" where
  "OVERVIEW_BLOCK_IDS = map widget_type_name OVERVIEW_WIDGET_TYPES @ [js ''fleet-distribution'']"

definition widget_block :: "(OverviewWidgetType \<Rightarrow> markup) \<Rightarrow> OverviewWidgetType \<Rightarrow> dom" where
  "widget_block body k = OverviewBlock (widget_type_name k) (body k)"

definition OverviewDashboard :: "text_for \<Rightarrow> (string \<Rightarrow> dom) \<Rightarrow> (OverviewWidgetType \<Rightarrow> markup) \<Rightarrow> markup \<Rightarrow> overview_data \<Rightarrow> dom" where
  "OverviewDashboard t icon body fleet d =
     Element ''SECTION'' (js ''overview-dashboard'') [(''aria-label'', t ''overview.dashboardAria'' [])]
       (SignalRibbon t icon d @
        [classed ''DIV'' ''overview-posture-row'' [widget_block body EdrState],
         Element ''DIV'' (js ''overview-kpi-row'') [(''aria-label'', t ''overview.kpiAria'' [])] (map (widget_block body) KPI_ROW),
         classed ''DIV'' ''overview-analysis-row''
           (map (widget_block body) [DetectionActivity, AlertSeverity] @ [OverviewBlock (js ''fleet-distribution'') fleet]),
         classed ''DIV'' ''overview-queue-row'' (map (widget_block body) [HighestRiskEndpoints, IncidentQueue])])"

section \<open>The grid\<close>

text \<open>What is drawn with: texts, icons, the content of a widget, the grid library, and whether its container is measured.\<close>

record grid_config =
  gc_layouts :: "LayoutItem list"
  gc_columns :: int
  gc_maxRows :: int
  gc_drag :: bool
  gc_resize :: bool
  gc_drop :: bool
  gc_defaultItem :: "rat \<times> rat"
  gc_onDragOver :: "(rat \<times> rat) option"

record grid_drawing =
  gd_text :: text_for
  gd_icon :: "string \<Rightarrow> dom"
  gd_body :: "OverviewWidgetType \<Rightarrow> markup"
  gd_library :: "grid_config \<Rightarrow> markup \<Rightarrow> markup"
  gd_mounted :: bool

definition widget_title :: "text_for \<Rightarrow> OverviewWidgetType \<Rightarrow> jsstring" where
  "widget_title t k = t (map char_of (titleKey (definitionOf k))) []"

definition widget_geometry :: "text_for \<Rightarrow> CustomDashboardWidget \<Rightarrow> jsstring" where
  "widget_geometry t v =
     t ''dashboard.widgetGeometry''
       [(js ''widget'', TextParam (widget_title t (wtype v))), (js ''column'', TextParam (js_String (Num (gx v + 1)))),
        (js ''row'', TextParam (js_String (Num (gy v + 1)))), (js ''width'', TextParam (js_String (Num (gw v)))),
        (js ''height'', TextParam (js_String (Num (gh v))))]"

definition KEY_SHORTCUTS :: jsstring where
  "KEY_SHORTCUTS = js ''ArrowLeft ArrowRight ArrowUp ArrowDown Shift+ArrowLeft Shift+ArrowRight Shift+ArrowUp Shift+ArrowDown''"

definition drag_handle :: "text_for \<Rightarrow> (string \<Rightarrow> dom) \<Rightarrow> bool \<Rightarrow> jsstring \<Rightarrow> CustomDashboardWidget \<Rightarrow> dom" where
  "drag_handle t icon editable keyboardInstructionsId v =
     (let title = widget_title t (wtype v); handle = t ''dashboard.dragHandle'' [(js ''widget'', TextParam title)]
      in Element ''BUTTON'' (js ''custom-widget-drag-handle'')
           (spread [(''aria-describedby'', if editable then Some keyboardInstructionsId else None),
              (''aria-keyshortcuts'', if editable then Some KEY_SHORTCUTS else None),
              (''aria-label'', Some (handle @ js ''. '' @ widget_geometry t v)), (''disabled'', disabled_attribute (\<not> editable)),
              (''title'', Some handle), (''type'', Some (js ''button''))])
           [icon ''GripVertical'', plain ''SPAN'' [TextNode title]])"

definition remove_button :: "text_for \<Rightarrow> (string \<Rightarrow> dom) \<Rightarrow> CustomDashboardWidget \<Rightarrow> dom" where
  "remove_button t icon v =
     (let label = t ''dashboard.removeWidget'' [(js ''widget'', TextParam (widget_title t (wtype v)))]
      in Element ''BUTTON'' (js ''custom-widget-remove'') [(''aria-label'', label), (''title'', label), (''type'', js ''button'')] [icon ''X''])"

definition custom_widget :: "grid_drawing \<Rightarrow> bool \<Rightarrow> bool \<Rightarrow> jsstring \<Rightarrow> CustomDashboardWidget \<Rightarrow> dom" where
  "custom_widget g editable removable keyboardInstructionsId v =
     Element ''ARTICLE'' (js ''custom-dashboard-widget'') [(''data-widget-type'', widget_type_name (wtype v))]
       [classed ''HEADER'' ''custom-dashboard-widget-header''
          (drag_handle (gd_text g) (gd_icon g) editable keyboardInstructionsId v #
           nodes_if (editable \<and> removable) [remove_button (gd_text g) (gd_icon g) v]),
        classed ''DIV'' ''custom-dashboard-widget-body'' (gd_body g (wtype v))]"

definition default_size :: "OverviewWidgetType \<Rightarrow> rat \<times> rat" where
  "default_size k = (defaultW (definitionOf k), defaultH (definitionOf k))"

definition grid_config_of :: "bool \<Rightarrow> OverviewWidgetType option \<Rightarrow> bool \<Rightarrow> CustomDashboardWidget list \<Rightarrow> grid_config" where
  "grid_config_of editable dragged droppable vs =
     \<lparr>gc_layouts = map toLayoutItem vs, gc_columns = OVERVIEW_GRID_COLUMNS, gc_maxRows = OVERVIEW_GRID_MAX_ROWS, gc_drag = editable,
      gc_resize = editable, gc_drop = (editable \<and> dragged \<noteq> None \<and> droppable),
      gc_defaultItem = (case dragged of Some k \<Rightarrow> default_size k | None \<Rightarrow> (3, 2)), gc_onDragOver = map_option default_size dragged\<rparr>"

text \<open>The handlers of a drop and of a removal are given together: by the builder, and not by a view.\<close>

definition DashboardGrid ::
  "grid_drawing \<Rightarrow> jsstring \<Rightarrow> bool \<Rightarrow> OverviewWidgetType option \<Rightarrow> bool \<Rightarrow> bool \<Rightarrow> bool \<Rightarrow> CustomDashboardWidget list \<Rightarrow> dom" where
  "DashboardGrid g keyboardInstructionsId desktopLayout dragged editable handlers showEmptyState vs =
     (let t = gd_text g; children = map (custom_widget g editable handlers keyboardInstructionsId) vs;
          instructions = Element ''SPAN'' (js ''sr-only'') [(''id'', keyboardInstructionsId)] [TextNode (t ''dashboard.keyboardInstructions'' [])]
      in if \<not> desktopLayout then Element ''DIV'' (js ''custom-dashboard-static-grid'') [(''data-dashboard-editing'', js ''disabled'')] (instructions # children)
         else Element ''DIV'' (js ''custom-dashboard-grid-container'' @ (if showEmptyState \<and> vs = [] then js '' is-empty'' else []))
           [(''data-dashboard-editing'', if editable then js ''enabled'' else js ''disabled'')]
           ([instructions] @ (if gd_mounted g then gd_library g (grid_config_of editable dragged handlers vs) children else []) @
            nodes_if (showEmptyState \<and> vs = [])
              [classed ''DIV'' ''dashboard-builder-empty'' [gd_icon g ''LayoutDashboard'', plain ''H3'' [TextNode (t ''dashboard.emptyTitle'' [])],
                 plain ''P'' [TextNode (t ''dashboard.emptyDescription'' [])]]]))"

definition CustomDashboardView :: "grid_drawing \<Rightarrow> jsstring \<Rightarrow> overview_data \<Rightarrow> bool \<Rightarrow> CustomOverviewDashboard \<Rightarrow> dom" where
  "CustomDashboardView g keyboardInstructionsId d desktopLayout dashboard =
     Element ''SECTION'' (js ''custom-dashboard-view'') [(''aria-label'', gd_text g ''dashboard.customAria'' [(js ''name'', TextParam (dash_name dashboard))])]
       (SignalRibbon (gd_text g) (gd_icon g) d @ [DashboardGrid g keyboardInstructionsId desktopLayout None False False False (widgets dashboard)])"

section \<open>The builder\<close>

text \<open>The icons of the palette.\<close>

fun WIDGET_CATALOG_ICONS :: "OverviewWidgetType \<Rightarrow> string" where
  "WIDGET_CATALOG_ICONS EdrState = ''ShieldCheck''"
| "WIDGET_CATALOG_ICONS KpiAlerts = ''BellRing''"
| "WIDGET_CATALOG_ICONS KpiCriticalAlerts = ''Siren''"
| "WIDGET_CATALOG_ICONS KpiHighRiskEndpoints = ''MonitorDot''"
| "WIDGET_CATALOG_ICONS KpiOpenIncidents = ''CircleAlert''"
| "WIDGET_CATALOG_ICONS DetectionActivity = ''Activity''"
| "WIDGET_CATALOG_ICONS AlertSeverity = ''ChartPie''"
| "WIDGET_CATALOG_ICONS HighestRiskEndpoints = ''ListOrdered''"
| "WIDGET_CATALOG_ICONS IncidentQueue = ''ListFilter''"

definition bool_text :: "bool \<Rightarrow> jsstring" where
  "bool_text b = (if b then js ''true'' else js ''false'')"

definition palette_item :: "text_for \<Rightarrow> (string \<Rightarrow> dom) \<Rightarrow> bool \<Rightarrow> OverviewWidgetDefinition \<Rightarrow> dom" where
  "palette_item t icon editingAvailable d =
     (let title = t (map char_of (titleKey d)) []
      in plain ''LI'' [Element ''BUTTON'' []
           (spread [(''aria-label'', Some (t ''dashboard.addWidget'' [(js ''widget'', TextParam title)])),
              (''data-widget-type'', Some (widget_type_name (def_type d))), (''disabled'', disabled_attribute (\<not> editingAvailable)),
              (''draggable'', Some (bool_text editingAvailable)), (''type'', Some (js ''button''))])
           [Element ''SPAN'' (js ''dashboard-widget-palette-icon'') [(''aria-hidden'', js ''true'')] [icon (WIDGET_CATALOG_ICONS (def_type d))],
            classed ''SPAN'' ''dashboard-widget-palette-copy'' [plain ''STRONG'' [TextNode title],
              plain ''SMALL'' [TextNode (js_String (Num (defaultW d)) @ [32, 215, 32] @ js_String (Num (defaultH d)))]]]])"

definition palette :: "text_for \<Rightarrow> (string \<Rightarrow> dom) \<Rightarrow> bool \<Rightarrow> BuilderState \<Rightarrow> dom" where
  "palette t icon editingAvailable b =
     Element ''ASIDE'' (js ''dashboard-widget-palette'') [(''aria-label'', t ''dashboard.palette'' [])]
       [plain ''H3'' [TextNode (t ''dashboard.palette'' [])], plain ''P'' [TextNode (t ''dashboard.paletteDescription'' [])],
        plain ''UL'' (map (palette_item t icon editingAvailable) (availableDefinitions b) @
          nodes_if (availableDefinitions b = [])
            [Element ''LI'' (js ''dashboard-widget-palette-complete'') [(''role'', js ''status'')]
               [icon ''CircleCheck'', plain ''SPAN'' [TextNode (t ''dashboard.paletteComplete'' [])]]])]"

definition builder_title :: "text_for \<Rightarrow> BuilderState \<Rightarrow> jsstring" where
  "builder_title t b = (if truthy_text (b_dashboardId b) then t ''dashboard.editTitle'' [] else t ''dashboard.newTitle'' [])"

definition builder_valid :: "BuilderState \<Rightarrow> bool" where
  "builder_valid b \<longleftrightarrow> trim (b_name b) \<noteq> [] \<and> b_widgets b \<noteq> []"

definition save_button :: "text_for \<Rightarrow> bool \<Rightarrow> BuilderState \<Rightarrow> dom" where
  "save_button t editingAvailable b =
     Button [TextNode (t ''dashboard.save'' [])] [] (\<not> editingAvailable \<or> \<not> builder_valid b) False (js ''primary'') type_button"

definition placement_text :: "text_for \<Rightarrow> PlacementIssue \<Rightarrow> jsstring" where
  "placement_text t issue = (case issue of Duplicate \<Rightarrow> t ''dashboard.widgetAlreadyAdded'' [] | Space \<Rightarrow> t ''dashboard.widgetPlacementUnavailable'' [])"

text \<open>The identifiers that \<open>useId\<close> makes up within the workspace.\<close>

record workspace_ids =
  id_name :: jsstring
  id_grid :: jsstring
  id_settings :: jsstring
  id_selector :: jsstring
  id_delete :: jsstring

definition builder_header :: "text_for \<Rightarrow> jsstring \<Rightarrow> bool \<Rightarrow> BuilderState \<Rightarrow> dom" where
  "builder_header t nameId editingAvailable b =
     classed ''HEADER'' ''dashboard-builder-header''
       [plain ''DIV'' [classed ''SPAN'' ''eyebrow'' [TextNode (js ''CUSTOM OVERVIEW'')], plain ''H2'' [TextNode (builder_title t b)],
          plain ''P'' [TextNode (t ''dashboard.builderDescription'' [])]],
        classed ''DIV'' ''dashboard-builder-actions''
          [TextField nameId (t ''dashboard.nameLabel'' []) (Some (t ''dashboard.saveRequirements'' [])) None None (js ''dashboard-builder-name'')
             [(''disabled'', disabled_attribute (\<not> editingAvailable)), (''maxlength'', Some (js ''80'')),
              (''placeholder'', Some (t ''dashboard.namePlaceholder'' [])), (''value'', Some (b_name b))],
           classed ''DIV'' ''dashboard-builder-buttons''
             [Button [TextNode (t ''dashboard.cancel'' [])] [] False False (js ''ghost'') type_button, save_button t editingAvailable b]]]"

definition draw_builder :: "grid_drawing \<Rightarrow> workspace_ids \<Rightarrow> overview_data \<Rightarrow> bool \<Rightarrow> builder_view \<Rightarrow> dom" where
  "draw_builder g ids d editingAvailable bv =
     (let t = gd_text g; b = edited bv
      in Element ''SECTION'' (js ''dashboard-builder'') [(''aria-label'', builder_title t b)]
           [builder_header t (id_name ids) editingAvailable b,
            classed ''DIV'' ''dashboard-builder-body''
              [palette t (gd_icon g) editingAvailable b,
               classed ''DIV'' ''dashboard-builder-canvas''
                 (SignalRibbon t (gd_icon g) d @
                  (case placementIssue bv of
                     None \<Rightarrow> []
                   | Some issue \<Rightarrow> [Element ''P'' (js ''dashboard-placement-unavailable'') [(''role'', js ''status'')] [TextNode (placement_text t issue)]]) @
                  [DashboardGrid g (id_grid ids) editingAvailable (draggedType bv) editingAvailable True True (b_widgets b)])]])"

section \<open>The home of the management\<close>

definition catalog_button :: "bool \<Rightarrow> jsstring \<Rightarrow> jsstring \<Rightarrow> nat \<Rightarrow> dom" where
  "catalog_button active name detail n =
     Element ''BUTTON'' (if active then js ''active'' else []) [(''aria-pressed'', bool_text active), (''type'', js ''button'')]
       [plain ''SPAN'' [plain ''STRONG'' [TextNode name], plain ''SMALL'' [TextNode detail]], plain ''SMALL'' [TextNode (id_text (int n))]]"

definition catalog :: "text_for \<Rightarrow> StoredOverviewLayoutState \<Rightarrow> dom" where
  "catalog t s =
     classed ''ASIDE'' ''dashboard-management-catalog''
       ([plain ''HEADER'' [plain ''SPAN'' [TextNode (t ''dashboard.selectorLabel'' [])], plain ''STRONG'' [TextNode (t ''dashboard.layoutCatalog'' [])]],
         catalog_button (activeDashboardId s = DEFAULT_DASHBOARD_ID) (t ''dashboard.defaultName'' []) (t ''dashboard.defaultFixed'' []) (length OVERVIEW_BLOCK_IDS)] @
        map (\<lambda>c. catalog_button (activeDashboardId s = dash_id c) (dash_name c) (t ''dashboard.browserLocal'' []) (length (widgets c))) (state_dashboards s))"

definition summary_fact :: "jsstring \<Rightarrow> jsstring \<Rightarrow> dom" where
  "summary_fact label v = plain ''DIV'' [plain ''DT'' [TextNode label], plain ''DD'' [TextNode v]]"

definition DashboardManagementHome :: "grid_drawing \<Rightarrow> workspace_ids \<Rightarrow> overview_data \<Rightarrow> bool \<Rightarrow> bool \<Rightarrow> StoredOverviewLayoutState \<Rightarrow> dom" where
  "DashboardManagementHome g ids d editingAvailable hideActions s =
     (let t = gd_text g; active = activeDashboard s; custom = (active \<noteq> None);
          name = (case active of Some c \<Rightarrow> dash_name c | None \<Rightarrow> t ''dashboard.defaultName'' []);
          widgetCount = (case active of Some c \<Rightarrow> length (widgets c) | None \<Rightarrow> (length OVERVIEW_BLOCK_IDS))
      in Element ''SECTION'' (js ''dashboard-management-home'') [(''aria-label'', t ''dashboard.managerAria'' [])]
           ([catalog t s,
             classed ''DIV'' ''dashboard-management-summary''
               ([plain ''HEADER''
                   (plain ''DIV'' [classed ''SPAN'' ''eyebrow'' [TextNode (t (if custom then ''dashboard.workbenchContext'' else ''dashboard.overviewContext'') [])],
                      plain ''H3'' [TextNode name]] #
                    nodes_if (\<not> hideActions)
                      [classed ''DIV'' ''dashboard-management-actions''
                         (Button [gd_icon g ''Plus'', TextNode (t ''dashboard.new'' [])] [] (\<not> editingAvailable) False (js ''default'') type_button #
                          nodes_if custom [Button [gd_icon g ''Pencil'', TextNode (t ''dashboard.edit'' [])] [] (\<not> editingAvailable) False (js ''ghost'') type_button])]),
                 plain ''P'' [TextNode (t (if custom then ''dashboard.builderDescription'' else ''dashboard.readOnlyHint'') [])],
                 plain ''DL''
                   [summary_fact (t ''dashboard.layoutState'' []) (t (if custom then ''dashboard.savedLayout'' else ''dashboard.defaultFixed'') []),
                    summary_fact (t ''dashboard.widgetCount'' []) (id_text (int widgetCount)),
                    summary_fact (t ''dashboard.storage'' []) (t (if custom then ''dashboard.browserLocal'' else ''dashboard.productDefault'') [])],
                 classed ''DIV'' ''dashboard-management-next''
                   [plain ''DIV'' [plain ''STRONG'' [TextNode (t (if custom then ''dashboard.editTitle'' else ''dashboard.defaultName'') [])],
                      plain ''SPAN'' [TextNode (t (if custom then ''dashboard.managementHint'' else ''dashboard.defaultRouteHint'') [])]],
                    if custom then Button [TextNode (t ''dashboard.openDraft'' [])] [] (\<not> editingAvailable \<or> hideActions) False (js ''primary'') type_button
                    else Link (js ''button primary'') (js ''/'') [TextNode (t ''dashboard.openOverview'' [])]]] @
                nodes_if (\<not> editingAvailable \<and> \<not> hideActions)
                  [classed ''P'' ''dashboard-edit-unavailable'' [TextNode (t ''dashboard.editUnavailable'' [])]])] @
            (case active of
               None \<Rightarrow> []
             | Some c \<Rightarrow> [classed ''DIV'' ''dashboard-management-preview'' [CustomDashboardView g (id_grid ids) d editingAvailable c]])))"

section \<open>The workspace\<close>

definition dashboard_option :: "jsstring \<Rightarrow> jsstring \<Rightarrow> dom" where
  "dashboard_option i name = Element ''OPTION'' [] [(''value'', i)] [TextNode name]"

text \<open>The dialog of the settings.  The value of its select is no attribute.\<close>

definition settings_content :: "text_for \<Rightarrow> (string \<Rightarrow> dom) \<Rightarrow> jsstring \<Rightarrow> bool \<Rightarrow> workspace \<Rightarrow> markup" where
  "settings_content t icon selectorId editingAvailable ws =
     (let s = layout (provider ws); locked = (builder ws \<noteq> None)
      in [classed ''DIV'' ''dashboard-settings-content''
           ([plain ''P'' [TextNode (t ''dashboard.settingsDescription'' [])],
             SelectField selectorId (t ''dashboard.selectorLabel'' []) None None None (js ''dashboard-selector'')
               (dashboard_option DEFAULT_DASHBOARD_ID (t ''dashboard.defaultName'' []) #
                map (\<lambda>c. dashboard_option (dash_id c) (dash_name c)) (state_dashboards s))
               [(''disabled'', disabled_attribute locked)],
             plain ''SMALL'' [TextNode (t ''dashboard.savedCount'' [(js ''count'', NumberParam (int (length (state_dashboards s))))])],
             classed ''DIV'' ''dashboard-settings-actions''
               (Button [icon ''Plus'', TextNode (t ''dashboard.new'' [])] [] (\<not> editingAvailable \<or> locked) False (js ''default'') type_button #
                nodes_if (activeDashboard s \<noteq> None)
                  [Button [icon ''Pencil'', TextNode (t ''dashboard.edit'' [])] [] (\<not> editingAvailable \<or> locked) False (js ''ghost'') type_button,
                   Button [icon ''Trash2'', TextNode (t ''dashboard.delete'' [])] [] (\<not> editingAvailable \<or> locked) False (js ''ghost'') type_button])] @
            nodes_if (\<not> editingAvailable) [classed ''P'' ''dashboard-edit-unavailable'' [TextNode (t ''dashboard.editUnavailable'' [])]])])"

definition delete_actions :: "text_for \<Rightarrow> bool \<Rightarrow> markup" where
  "delete_actions t editingAvailable =
     [Button [TextNode (t ''dashboard.cancel'' [])] [] False False (js ''ghost'') type_button,
      Button [TextNode (t ''dashboard.confirmDelete'' [])] [] (\<not> editingAvailable) False (js ''danger'') type_button]"

definition workspace_dialogs :: "grid_drawing \<Rightarrow> workspace_ids \<Rightarrow> bool \<Rightarrow> bool \<Rightarrow> workspace \<Rightarrow> markup" where
  "workspace_dialogs g ids editingAvailable settingsOpen ws =
     (let t = gd_text g
      in Dialog (id_settings ids) (gd_icon g) settingsOpen (t ''dashboard.settingsTitle'' []) (Some (js ''LAYOUT SETTINGS''))
           (settings_content t (gd_icon g) (id_selector ids) editingAvailable ws) [] (t ''dashboard.closeSettings'' []) [] @
         Dialog (id_delete ids) (gd_icon g) (deleteTarget ws \<noteq> None) (t ''dashboard.deleteTitle'' []) (Some (js ''CUSTOM DASHBOARD''))
           [plain ''P'' [TextNode (t ''dashboard.deleteDescription''
              [(js ''name'', TextParam (case deleteTarget ws of Some c \<Rightarrow> dash_name c | None \<Rightarrow> []))])]]
           (delete_actions t editingAvailable) (t ''dashboard.closeDelete'' []) [])"

definition workspace_content :: "grid_drawing \<Rightarrow> workspace_ids \<Rightarrow> markup \<Rightarrow> overview_data \<Rightarrow> bool \<Rightarrow> bool \<Rightarrow> bool \<Rightarrow> workspace \<Rightarrow> markup" where
  "workspace_content g ids fleet d managementMode editingAvailable settingsOpen ws =
     (let t = gd_text g; s = layout (provider ws); active = activeDashboard s
      in case (managementMode, builder ws, active) of
           (True, Some bv, _) \<Rightarrow> [draw_builder g ids d editingAvailable bv]
         | (True, None, _) \<Rightarrow>
             [classed ''HEADER'' ''dashboard-layout-identity''
                [classed ''SPAN'' ''eyebrow'' [TextNode (t ''dashboard.activeLayout'' [])],
                 plain ''H2'' [TextNode (case active of Some c \<Rightarrow> dash_name c | None \<Rightarrow> t ''dashboard.defaultName'' [])],
                 plain ''P'' [TextNode (t ''dashboard.managementHint'' [])]],
              DashboardManagementHome g ids d editingAvailable settingsOpen s]
         | (False, _, Some c) \<Rightarrow>
             [classed ''HEADER'' ''dashboard-applied-layout''
                [plain ''DIV'' [classed ''SPAN'' ''eyebrow'' [TextNode (t ''dashboard.activeLayout'' [])], plain ''STRONG'' [TextNode (dash_name c)],
                   plain ''P'' [TextNode (t ''dashboard.activeCustomDescription'' [])]],
                 Button [TextNode (t ''dashboard.restoreDefault'' [])] [] False False (js ''ghost'') type_button],
              CustomDashboardView g (id_grid ids) d editingAvailable c]
         | (False, _, None) \<Rightarrow> [OverviewDashboard t (gd_icon g) (gd_body g) fleet d])"

definition OverviewDashboardWorkspace ::
  "grid_drawing \<Rightarrow> workspace_ids \<Rightarrow> markup \<Rightarrow> overview_data \<Rightarrow> bool \<Rightarrow> bool \<Rightarrow> bool \<Rightarrow> workspace \<Rightarrow> dom" where
  "OverviewDashboardWorkspace g ids fleet d managementMode editingAvailable settingsOpen ws =
     Element ''DIV'' (js ''overview-dashboard-workspace '' @ (if managementMode then js ''dashboard-workbench'' else js ''dashboard-overview-view'')) []
       (workspace_content g ids fleet d managementMode editingAvailable settingsOpen ws @
        (if managementMode then workspace_dialogs g ids editingAvailable settingsOpen ws else []))"

section \<open>Facts\<close>

subsection \<open>Editing\<close>

text \<open>No change of whether dashboards can be edited goes unnoticed, and a subscription leaves nothing behind.\<close>

lemma resize_notifies:
  assumes "ew_matches w = None \<or> ew_matches w = Some (1280 \<le> ew_innerWidth w)"
    and "desktopDashboardEditingSnapshot (fst (resize_window width (subscribeDesktopDashboardEditing n w))) \<noteq> desktopDashboardEditingSnapshot w"
  shows "n \<in> set (snd (resize_window width (subscribeDesktopDashboardEditing n w)))"
proof (cases "ew_matches w")
  case None
  then show ?thesis by (auto simp: resize_window_def subscribeDesktopDashboardEditing_def listened_event_def Let_def image_iff)
next
  case (Some m)
  with assms have "(1280 \<le> width) \<noteq> m"
    by (simp add: desktopDashboardEditingSnapshot_def resize_window_def subscribeDesktopDashboardEditing_def Let_def)
  with Some show ?thesis by (auto simp: resize_window_def subscribeDesktopDashboardEditing_def listened_event_def Let_def image_iff)
qed

lemma unsubscribe_subscribe:
  "n \<notin> snd ` set (ew_listeners w) \<Longrightarrow> unsubscribe n (subscribeDesktopDashboardEditing n w) = w"
  by (force simp: unsubscribe_def subscribeDesktopDashboardEditing_def listened_event_def intro!: edit_window.equality filter_True)

subsection \<open>Names\<close>

text \<open>
  What the code relies on of the grid library: it draws the elements it is handed, and what it draws around them has no
  name, no reference and no mark of its own.
\<close>

definition MARKS :: "string list" where
  "MARKS = [''id'', ''aria-labelledby'', ''aria-describedby'', ''for'', ''data-widget-type'', ''data-overview-block'']"

definition draws_children :: "(grid_config \<Rightarrow> markup \<Rightarrow> markup) \<Rightarrow> bool" where
  "draws_children library \<longleftrightarrow>
     (\<forall>cfg ns names. set names \<subseteq> set MARKS \<longrightarrow> concat (map (names_in names) (library cfg ns)) = concat (map (names_in names) ns))"

definition widget_marks :: "markup \<Rightarrow> jsstring list" where
  "widget_marks ns = concat (map (names_in [''data-widget-type'']) ns)"

lemma widget_marks_simps [simp]:
  "widget_marks [] = []" "widget_marks (n # ns) = names_in [''data-widget-type''] n @ widget_marks ns"
  "widget_marks (ns @ ms) = widget_marks ns @ widget_marks ms" "concat (map (names_in [''data-widget-type'']) ns) = widget_marks ns"
  by (simp_all add: widget_marks_def)

lemma library_names:
  assumes "draws_children library"
  shows "widget_marks (library cfg ns) = widget_marks ns" "identifiers (library cfg ns) = identifiers ns" "references (library cfg ns) = references ns"
proof -
  have all: "concat (map (names_in names) (library cfg ns)) = concat (map (names_in names) ns)" if "set names \<subseteq> set MARKS" for names
    using assms that unfolding draws_children_def by blast
  show "widget_marks (library cfg ns) = widget_marks ns" using all [of "[''data-widget-type'']"] by (simp add: MARKS_def)
  show "identifiers (library cfg ns) = identifiers ns" using all [of "[''id'']"] by (simp add: MARKS_def)
  show "references (library cfg ns) = references ns" using all [of "[''aria-labelledby'', ''aria-describedby'', ''for'']"] by (simp add: MARKS_def)
qed

text \<open>The name of a type is one name.\<close>

lemma type_name_single: "class_tokens [] (widget_type_name k) = [widget_type_name k]"
proof (rule class_tokens_single)
  have "word_class ''edr-state''" "word_class ''kpi-alerts''" "word_class ''kpi-critical-alerts''" "word_class ''kpi-high-risk-endpoints''"
    "word_class ''kpi-open-incidents''" "word_class ''detection-activity''" "word_class ''alert-severity''" "word_class ''highest-risk-endpoints''"
    "word_class ''incident-queue''"
    by (simp_all add: name_simps)
  then show "single_name (widget_type_name k)" by (cases k) (simp_all add: word_class_def)
qed

subsection \<open>What is drawn has no open reference\<close>

definition closed :: "markup \<Rightarrow> bool" where "closed ns \<longleftrightarrow> dangling ns = []"

lemma closed_Nil: "closed []" by (simp add: closed_def dangling_def)

lemma closed_Cons: "closed [n] \<Longrightarrow> closed (m # ns) \<Longrightarrow> closed (n # m # ns)"
  using dangling_append [of "[n]" "m # ns"] by (simp add: closed_def)

lemma closed_append: "closed ns \<Longrightarrow> closed ms \<Longrightarrow> closed (ns @ ms)"
  using dangling_append [of ns ms] by (simp add: closed_def)

lemma closed_lead: "closed [n] \<Longrightarrow> closed ns \<Longrightarrow> closed (n # ns)"
  using closed_append [of "[n]" ns] by simp

lemma closed_words: "closed [TextNode s]" by (simp add: closed_def dangling_def)

lemma closed_element: "attribute_names [''aria-labelledby'', ''aria-describedby'', ''for''] as = [] \<Longrightarrow> closed ns \<Longrightarrow> closed [Element tag c as ns]"
  by (auto simp: closed_def dangling_def filter_empty_conv)

lemma closed_nodes_if: "(b \<Longrightarrow> closed ns) \<Longrightarrow> closed (nodes_if b ns)" by (simp add: nodes_if_def closed_Nil)

lemma closed_map: "(\<And>x. x \<in> set xs \<Longrightarrow> closed [f x]) \<Longrightarrow> closed (map f xs)"
proof (induction xs)
  case (Cons x xs) then show ?case by (simp add: closed_lead)
qed (simp add: closed_Nil)

lemma closed_lead_if: "closed [n] \<Longrightarrow> (b \<Longrightarrow> closed ns) \<Longrightarrow> closed (n # nodes_if b ns)"
  by (rule closed_lead) (simp_all add: closed_nodes_if)

lemma closed_lead_map: "closed [n] \<Longrightarrow> (\<And>x. x \<in> set xs \<Longrightarrow> closed [f x]) \<Longrightarrow> closed (n # map f xs)"
  by (rule closed_lead) (simp_all add: closed_map)

lemma closed_button: "closed ns \<Longrightarrow> closed [Button ns className disabled loading variant type_button]"
  unfolding Button_def by (rule closed_element) (simp_all add: attribute_names_def spread_last type_button_def)

lemmas closed_intros = closed_Nil closed_Cons closed_append closed_words closed_element closed_nodes_if closed_map closed_button

subsection \<open>Drawings of the workspace\<close>

text \<open>What the workspace is given to draw with: the icons have no names, and a widget draws no reference it does not answer.\<close>

definition nameless :: "dom \<Rightarrow> bool" where
  "nameless n \<longleftrightarrow> (\<forall>names. set names \<subseteq> set MARKS \<longrightarrow> names_in names n = [])"

definition drawing_ok :: "grid_drawing \<Rightarrow> bool" where
  "drawing_ok g \<longleftrightarrow> draws_children (gd_library g) \<and> (\<forall>n. nameless (gd_icon g n)) \<and> (\<forall>k. widget_marks (gd_body g k) = [] \<and> closed (gd_body g k))"

lemma nameless_names:
  assumes "nameless n"
  shows "names_in [''data-widget-type''] n = []" "names_in [''id''] n = []" "names_in [''aria-labelledby'', ''aria-describedby'', ''for''] n = []"
    "closed [n]"
proof -
  have "names_in names n = []" if "set names \<subseteq> set MARKS" for names using assms that by (simp add: nameless_def)
  from this [of "[''data-widget-type'']"] this [of "[''id'']"] this [of "[''aria-labelledby'', ''aria-describedby'', ''for'']"]
  show "names_in [''data-widget-type''] n = []" "names_in [''id''] n = []" "names_in [''aria-labelledby'', ''aria-describedby'', ''for''] n = []"
    by (simp_all add: MARKS_def)
  then show "closed [n]" by (simp add: closed_def dangling_def)
qed

lemma icon_names [simp]:
  assumes "drawing_ok g"
  shows "names_in [''data-widget-type''] (gd_icon g n) = []" "names_in [''id''] (gd_icon g n) = []"
    "names_in [''aria-labelledby'', ''aria-describedby'', ''for''] (gd_icon g n) = []" "closed [gd_icon g n]"
  using assms nameless_names by (simp_all add: drawing_ok_def)

lemma body_names [simp]: "drawing_ok g \<Longrightarrow> widget_marks (gd_body g k) = []" "drawing_ok g \<Longrightarrow> closed (gd_body g k)"
  by (simp_all add: drawing_ok_def)

lemma drawing_library: "drawing_ok g \<Longrightarrow> draws_children (gd_library g)" unfolding drawing_ok_def by blast

lemmas name_evaluation = attribute_names_def spread_last

lemma drag_handle_names:
  assumes "drawing_ok g"
  shows "names_in [''data-widget-type''] (drag_handle t (gd_icon g) editable i v) = []" "names_in [''id''] (drag_handle t (gd_icon g) editable i v) = []"
    "names_in [''aria-labelledby'', ''aria-describedby'', ''for''] (drag_handle t (gd_icon g) editable i v) = (if editable then class_tokens [] i else [])"
  using assms by (simp_all add: drag_handle_def name_evaluation Let_def)

lemma remove_button_names:
  assumes "drawing_ok g"
  shows "names_in [''data-widget-type''] (remove_button t (gd_icon g) v) = []" "names_in [''id''] (remove_button t (gd_icon g) v) = []"
    "names_in [''aria-labelledby'', ''aria-describedby'', ''for''] (remove_button t (gd_icon g) v) = []"
  using assms by (simp_all add: remove_button_def name_evaluation Let_def)

lemma custom_widget_marks: "drawing_ok g \<Longrightarrow> widget_marks (map (custom_widget g editable removable i) vs) = map (\<lambda>v. widget_type_name (wtype v)) vs"
  by (induction vs) (simp_all add: custom_widget_def nodes_if_def drag_handle_names remove_button_names name_evaluation type_name_single)

lemma custom_widget_dangling:
  assumes "drawing_ok g"
  shows "set (dangling (map (custom_widget g editable removable i) vs)) \<subseteq> set (class_tokens [] i)"
proof (induction vs)
  case (Cons v vs)
  have "set (references (gd_body g (wtype v))) \<subseteq> set (identifiers (gd_body g (wtype v)))"
    using body_names(2) [OF assms, of "wtype v"] by (simp add: closed_def dangling_def filter_empty_conv subset_iff)
  moreover have "set (references [custom_widget g editable removable i v]) \<subseteq> set (class_tokens [] i) \<union> set (references (gd_body g (wtype v)))"
    "set (identifiers [custom_widget g editable removable i v]) = set (identifiers (gd_body g (wtype v)))"
    using assms by (simp_all add: custom_widget_def nodes_if_def drag_handle_names remove_button_names name_evaluation) auto
  ultimately have "set (dangling [custom_widget g editable removable i v]) \<subseteq> set (class_tokens [] i)" unfolding set_dangling by blast
  with Cons dangling_append [of "[custom_widget g editable removable i v]" "map (custom_widget g editable removable i) vs"] show ?case by simp blast
qed (simp add: dangling_def)

text \<open>The description of the handles is drawn with every grid.\<close>

lemma instructed:
  assumes "set (dangling ns) \<subseteq> set (class_tokens [] i)"
  shows "closed (Element ''SPAN'' c [(''id'', i)] [TextNode s] # ns)"
  using assms unfolding closed_def dangling_def by (auto simp: filter_empty_conv name_evaluation)

lemma grid_closed:
  assumes "drawing_ok g"
  shows "closed [DashboardGrid g i desktopLayout dragged editable handlers showEmptyState vs]"
proof -
  define cs where "cs = map (custom_widget g editable handlers i) vs"
  define placed where "placed = gd_library g (grid_config_of editable dragged handlers vs) cs"
  have own: "set (dangling cs) \<subseteq> set (class_tokens [] i)" unfolding cs_def by (rule custom_widget_dangling [OF assms])
  have "dangling placed = dangling cs"
    unfolding placed_def dangling_def by (simp only: library_names [OF drawing_library [OF assms]])
  with own have library: "set (dangling (if gd_mounted g then placed else [])) \<subseteq> set (class_tokens [] i)"
    using closed_Nil by (simp add: closed_def)
  have none: "closed (nodes_if (showEmptyState \<and> vs = []) [classed ''DIV'' ''dashboard-builder-empty''
      [gd_icon g ''LayoutDashboard'', plain ''H3'' [TextNode a], plain ''P'' [TextNode b]]])" for a b
    using assms by (intro closed_intros) (simp_all add: name_evaluation)
  have "closed (Element ''SPAN'' c [(''id'', i)] [TextNode s] # (if gd_mounted g then placed else []) @ ns)" if "closed ns" for c s ns
    by (rule instructed) (use that library dangling_append [of "if gd_mounted g then placed else []" ns] in \<open>auto simp: closed_def\<close>)
  with none instructed [OF own] show ?thesis
    unfolding DashboardGrid_def Let_def cs_def [symmetric] placed_def [symmetric]
    by (auto intro!: closed_element simp: name_evaluation)
qed

lemma grid_marks:
  assumes "drawing_ok g" "gd_mounted g \<or> \<not> desktopLayout"
  shows "widget_marks [DashboardGrid g i desktopLayout dragged editable handlers showEmptyState vs] = map (\<lambda>v. widget_type_name (wtype v)) vs"
proof -
  define cs where "cs = map (custom_widget g editable handlers i) vs"
  have "widget_marks cs = map (\<lambda>v. widget_type_name (wtype v)) vs" unfolding cs_def by (rule custom_widget_marks [OF assms(1)])
  with assms show ?thesis
    unfolding DashboardGrid_def Let_def cs_def [symmetric]
    by (auto simp: library_names [OF drawing_library] nodes_if_def name_evaluation)
qed

lemma ribbon_names:
  assumes "drawing_ok g"
  shows "closed (SignalRibbon t (gd_icon g) d)" "widget_marks (SignalRibbon t (gd_icon g) d) = []"
proof -
  have "closed [signal_article t (gd_icon g) a]" for a
    unfolding signal_article_def case_prod_beta using assms by (intro closed_intros) (simp_all add: name_evaluation)
  then show "closed (SignalRibbon t (gd_icon g) d)"
    unfolding SignalRibbon_def by (cases "OverviewSignalRibbon d = []") (auto simp: name_evaluation intro!: closed_intros)
  have "names_in [''data-widget-type''] (signal_article t (gd_icon g) a) = []" for a
    unfolding signal_article_def case_prod_beta using assms by (simp add: name_evaluation)
  then show "widget_marks (SignalRibbon t (gd_icon g) d) = []"
    unfolding SignalRibbon_def by (cases "OverviewSignalRibbon d = []") (simp_all add: name_evaluation del: zip_Cons1 list.map)
qed

subsection \<open>The builder\<close>

lemma palette_item_names:
  assumes "drawing_ok g"
  shows "names_in [''data-widget-type''] (palette_item t (gd_icon g) editingAvailable e) = [widget_type_name (def_type e)]"
    "closed [palette_item t (gd_icon g) editingAvailable e]"
proof -
  show "names_in [''data-widget-type''] (palette_item t (gd_icon g) editingAvailable e) = [widget_type_name (def_type e)]"
    using assms by (simp add: palette_item_def Let_def name_evaluation type_name_single)
  show "closed [palette_item t (gd_icon g) editingAvailable e]"
    unfolding palette_item_def Let_def using assms by (intro closed_intros) (simp_all add: name_evaluation)
qed

lemma palette_names:
  assumes "drawing_ok g"
  shows "widget_marks [palette t (gd_icon g) editingAvailable b] = map (\<lambda>e. widget_type_name (def_type e)) (availableDefinitions b)"
    "closed [palette t (gd_icon g) editingAvailable b]"
proof -
  have "concat (map (names_in [''data-widget-type''] \<circ> palette_item t (gd_icon g) editingAvailable) es) = map (\<lambda>e. widget_type_name (def_type e)) es" for es
    using palette_item_names(1) [OF assms] by (induction es) simp_all
  moreover have "widget_marks (nodes_if c [Element ''LI'' k [(''role'', r)] [gd_icon g ''CircleCheck'', plain ''SPAN'' [TextNode u]]]) = []" for c k r u
    using assms by (simp add: nodes_if_def name_evaluation)
  ultimately show "widget_marks [palette t (gd_icon g) editingAvailable b] = map (\<lambda>e. widget_type_name (def_type e)) (availableDefinitions b)"
    unfolding palette_def by (simp add: name_evaluation)
  show "closed [palette t (gd_icon g) editingAvailable b]"
    unfolding palette_def using assms palette_item_names(2) [OF assms] by (intro closed_intros) (simp_all add: name_evaluation)
qed

lemma builder_header_names:
  "widget_marks [builder_header t nameId editingAvailable b] = []" "closed [builder_header t nameId editingAvailable b]"
proof -
  have field: "closed [TextField nameId label helper None None c [(''disabled'', v1), (''maxlength'', v2), (''placeholder'', v3), (''value'', v4)]]"
    for label helper c v1 v2 v3 v4
    unfolding closed_def by (rule text_field_dangling) simp
  show "widget_marks [builder_header t nameId editingAvailable b] = []"
    by (simp add: builder_header_def save_button_def TextField_def Button_def field_detail_def text_if_def control_attributes_def type_button_def Let_def
        name_evaluation)
  show "closed [builder_header t nameId editingAvailable b]"
    unfolding builder_header_def save_button_def by (intro closed_intros field) (simp_all add: name_evaluation)
qed

lemma draw_builder_closed:
  assumes "drawing_ok g"
  shows "closed [draw_builder g ids d editingAvailable bv]"
proof -
  have "closed (case placementIssue bv of None \<Rightarrow> [] | Some issue \<Rightarrow>
      [Element ''P'' (js ''dashboard-placement-unavailable'') [(''role'', js ''status'')] [TextNode (placement_text t issue)]])" for t
    by (cases "placementIssue bv") (simp_all add: closed_Nil closed_element closed_words name_evaluation)
  then show ?thesis
    unfolding draw_builder_def Let_def
    using assms builder_header_names(2) palette_names(2) [OF assms] ribbon_names(1) [OF assms] grid_closed [OF assms]
    by (intro closed_element closed_Cons closed_append) (simp_all add: name_evaluation)
qed

text \<open>The builder offers in its palette, and shows in its grid, every type of widget, each of them in one of the two places.\<close>

lemma draw_builder_marks:
  assumes "drawing_ok g" "gd_mounted g \<or> \<not> editingAvailable"
  shows "widget_marks [draw_builder g ids d editingAvailable bv] =
    map (\<lambda>e. widget_type_name (def_type e)) (availableDefinitions (edited bv)) @ map (\<lambda>v. widget_type_name (wtype v)) (b_widgets (edited bv))"
proof -
  have "widget_marks (case placementIssue bv of None \<Rightarrow> [] | Some issue \<Rightarrow>
      [Element ''P'' (js ''dashboard-placement-unavailable'') [(''role'', js ''status'')] [TextNode (placement_text t issue)]]) = []" for t
    by (cases "placementIssue bv") (simp_all add: name_evaluation)
  with builder_header_names(1) [of "gd_text g" "id_name ids" editingAvailable "edited bv"] palette_names(1) [OF assms(1), of "gd_text g" editingAvailable "edited bv"]
    ribbon_names(2) [OF assms(1), of "gd_text g" d] grid_marks [OF assms, of "id_grid ids" "draggedType bv" editingAvailable True True "b_widgets (edited bv)"]
  show ?thesis unfolding draw_builder_def Let_def by (simp add: name_evaluation)
qed

lemma all_types_once: "map def_type OVERVIEW_WIDGET_DEFINITIONS = OVERVIEW_WIDGET_TYPES" "set OVERVIEW_WIDGET_TYPES = UNIV" "distinct OVERVIEW_WIDGET_TYPES"
proof -
  show "map def_type OVERVIEW_WIDGET_DEFINITIONS = OVERVIEW_WIDGET_TYPES"
    by (simp add: OVERVIEW_WIDGET_DEFINITIONS_def OVERVIEW_WIDGET_TYPES_def widget_definition_row_def)
  show "set OVERVIEW_WIDGET_TYPES = UNIV"
  proof (intro UNIV_eq_I [symmetric])
    show "k \<in> set OVERVIEW_WIDGET_TYPES" for k by (cases k) (simp_all add: OVERVIEW_WIDGET_TYPES_def)
  qed
  show "distinct OVERVIEW_WIDGET_TYPES" by (simp add: OVERVIEW_WIDGET_TYPES_def)
qed

lemma offered_or_placed:
  assumes "distinct (map wtype (b_widgets b))"
  shows "mset (map def_type (availableDefinitions b) @ map wtype (b_widgets b)) = mset OVERVIEW_WIDGET_TYPES"
proof -
  have "map def_type (availableDefinitions b) = filter (\<lambda>k. k \<notin> wtype ` set (b_widgets b)) (map def_type OVERVIEW_WIDGET_DEFINITIONS)"
    by (simp add: availableDefinitions_def filter_map comp_def)
  then have "distinct (map def_type (availableDefinitions b) @ map wtype (b_widgets b))"
    "set (map def_type (availableDefinitions b) @ map wtype (b_widgets b)) = UNIV"
    using assms all_types_once by auto
  then show ?thesis using all_types_once set_eq_iff_mset_eq_distinct by metis
qed

text \<open>The button is enabled exactly when saving saves and closes the builder.\<close>

lemma save_button_saves:
  assumes "builder ws = Some bv"
  shows "dom_attribute (save_button t editingAvailable (edited bv)) ''disabled'' = None \<longleftrightarrow> builder (onSave userId editingAvailable fresh now ws) = None"
  using assms
  by (auto simp: save_button_def loading_button_disabled type_button_def disabled_attribute_def builder_valid_def onSave_def Let_def)

subsection \<open>The workspace\<close>

lemma view_closed:
  assumes "drawing_ok g"
  shows "closed [CustomDashboardView g i d desktopLayout c]"
  unfolding CustomDashboardView_def using ribbon_names(1) [OF assms] grid_closed [OF assms]
  by (intro closed_element closed_append) (simp_all add: name_evaluation)

lemma overview_closed:
  assumes "drawing_ok g" "closed fleet"
  shows "closed [OverviewDashboard t (gd_icon g) (gd_body g) fleet d]"
proof -
  have "closed [widget_block (gd_body g) k]" for k
    unfolding widget_block_def OverviewBlock_def using assms by (intro closed_element) (simp_all add: name_evaluation)
  with assms ribbon_names(1) [OF assms(1)] show ?thesis
    unfolding OverviewDashboard_def OverviewBlock_def by (intro closed_intros) (simp_all add: name_evaluation)
qed

lemma catalog_closed: "closed [catalog t s]"
proof -
  have "closed [catalog_button active name detail n]" for active name detail n
    unfolding catalog_button_def by (intro closed_intros) (simp_all add: name_evaluation)
  then show ?thesis unfolding catalog_def by (intro closed_intros) (simp_all add: name_evaluation)
qed

lemma home_closed:
  assumes "drawing_ok g"
  shows "closed [DashboardManagementHome g ids d editingAvailable hideActions s]"
proof -
  have link: "closed [if c then Button [TextNode a] [] b False v type_button else Link k u [TextNode w]]" for c a b v k u w
    by (cases c) (auto simp: Link_def closed_button closed_words name_evaluation intro!: closed_element)
  have fact: "closed [summary_fact l v]" for l v
    unfolding summary_fact_def by (intro closed_intros) (simp_all add: name_evaluation)
  have preview: "closed (case a of None \<Rightarrow> [] | Some c \<Rightarrow> [classed ''DIV'' ''dashboard-management-preview'' [CustomDashboardView g i d editingAvailable c]])" for a i
    using view_closed [OF assms] by (cases a) (auto simp: closed_Nil name_evaluation intro!: closed_element)
  show ?thesis
    unfolding DashboardManagementHome_def Let_def
    using assms by (intro closed_element closed_Cons closed_lead_if closed_append closed_words closed_nodes_if closed_button closed_Nil catalog_closed link fact preview)
      (simp_all add: name_evaluation)
qed

lemma settings_closed:
  assumes "drawing_ok g"
  shows "closed (settings_content t (gd_icon g) i editingAvailable ws)"
proof -
  have select: "closed [SelectField i label None None None k ns [(''disabled'', v)]]" if "closed ns" for label k ns v
    using select_field_dangling [of "[(''disabled'', v)]" i label None None None k ns] that by (simp add: closed_def)
  have "closed [dashboard_option a b]" for a b
    unfolding dashboard_option_def by (intro closed_element closed_words) (simp_all add: name_evaluation)
  then have entries: "closed (dashboard_option a b # map (\<lambda>c. dashboard_option (dash_id c) (dash_name c)) (state_dashboards s))" for a b s
    by (intro closed_lead_map)
  show ?thesis
    unfolding settings_content_def Let_def
    using assms by (intro closed_element closed_Cons closed_lead_if closed_append closed_words closed_nodes_if closed_button closed_Nil select entries)
      (simp_all add: name_evaluation)
qed

lemma dialogs_closed:
  assumes "drawing_ok g"
  shows "closed (workspace_dialogs g ids editingAvailable settingsOpen ws)"
proof -
  have actions: "closed (delete_actions t editingAvailable)" for t unfolding delete_actions_def by (intro closed_intros)
  have dialog: "closed (Dialog i (gd_icon g) b title eyebrow ns as label c)" if "closed ns" "closed as" for i b title eyebrow ns as label c
  proof -
    have "closed (gd_icon g ''X'' # as)" using that(2) assms by (simp add: closed_lead)
    with that(1) show ?thesis using dialog.draw_closed [of "gd_icon g" as ns] by (simp add: dialog.closed_in_def closed_def)
  qed
  show ?thesis
    unfolding workspace_dialogs_def Let_def
    by (intro closed_append dialog settings_closed assms actions closed_Nil closed_element closed_words) (simp_all add: name_evaluation)
qed

text \<open>Whatever the workspace shows, every description and label it refers to is drawn.\<close>

lemma workspace_closed:
  assumes "drawing_ok g" "closed fleet"
  shows "closed [OverviewDashboardWorkspace g ids fleet d managementMode editingAvailable settingsOpen ws]"
proof -
  note parts = draw_builder_closed [OF assms(1)] home_closed [OF assms(1)] view_closed [OF assms(1)] overview_closed [OF assms]
  have "closed (workspace_content g ids fleet d managementMode editingAvailable settingsOpen ws)"
  proof (cases managementMode)
    case True
    then show ?thesis
      by (cases "builder ws") (auto simp: workspace_content_def Let_def name_evaluation intro!: parts closed_intros)
  next
    case False
    then show ?thesis
      by (cases "activeDashboard (layout (provider ws))") (auto simp: workspace_content_def Let_def name_evaluation intro!: parts closed_intros)
  qed
  then show ?thesis
    unfolding OverviewDashboardWorkspace_def using dialogs_closed [OF assms(1)]
    by (intro closed_element closed_append) (simp_all add: closed_Nil name_evaluation)
qed

text \<open>The blocks of the overview are those that the report and the catalogue count, each of them once.\<close>

lemma overview_blocks:
  assumes "\<forall>n. names_in [''data-overview-block''] (icon n) = []" "\<forall>k. concat (map (names_in [''data-overview-block'']) (body k)) = []"
    "concat (map (names_in [''data-overview-block'']) fleet) = []"
  shows "mset (names_in [''data-overview-block''] (OverviewDashboard t icon body fleet d)) = mset OVERVIEW_BLOCK_IDS"
proof -
  have block: "names_in [''data-overview-block''] (widget_block body k) = [widget_type_name k]" for k
    using assms(2) by (simp add: widget_block_def OverviewBlock_def name_evaluation type_name_single)
  have "class_tokens [] (js ''fleet-distribution'') = [js ''fleet-distribution'']"
    by (rule class_tokens_single [OF word_class_def [THEN iffD1]]) (simp add: name_simps)
  then have fleet: "names_in [''data-overview-block''] (OverviewBlock (js ''fleet-distribution'') fleet) = [js ''fleet-distribution'']"
    using assms(3) by (simp add: OverviewBlock_def name_evaluation)
  have "names_in [''data-overview-block''] (signal_article t icon a) = []" for a
    unfolding signal_article_def case_prod_beta using assms(1) by (simp add: name_evaluation)
  then have "concat (map (names_in [''data-overview-block'']) (SignalRibbon t icon d)) = []"
    unfolding SignalRibbon_def by (cases "OverviewSignalRibbon d = []") (simp_all add: name_evaluation del: zip_Cons1 list.map)
  then show ?thesis
    unfolding OverviewDashboard_def using block fleet by (simp add: name_evaluation KPI_ROW_def OVERVIEW_BLOCK_IDS_def OVERVIEW_WIDGET_TYPES_def)
qed

text \<open>
  A custom dashboard has no such blocks: what its widgets show without a link of their own is taken for the current
  view by the report, also where the same widget of the overview is taken for the selected period.
\<close>

lemma custom_widget_scope:
  assumes "list_all (\<lambda>e. dom_attribute e ''data-overview-block'' = None \<and> dom_tag e \<noteq> ''A'') (inner @ outer)"
  shows "scopeForNode (inner @ custom_widget g editable removable i v # outer) = CurrentView"
  using assms by (intro no_anchor_scope) (simp_all add: custom_widget_def)

end
