(* ===== verification/OverviewMarkup.thy ===== *)
theory OverviewMarkup
  imports MarkupReport
begin

text \<open>
  The widgets of the overview as they are drawn: the ring of severities (\<open>features/overview/AlertSeverityDonut.tsx\<close>), the
  distribution of the fleet (\<open>features/overview/FleetDistributionPanel.tsx\<close>), and the two queues
  (\<open>features/overview/InvestigationQueues.tsx\<close>); and what the report reads of an entry of each of them and of the state of the platform.
  Arguments are the lower case of a text, the format of a percentage and of a date, and the drawing of an arc.
\<close>

section \<open>Names\<close>

text \<open>\<open>toLowerCase\<close> of the names of the contract.\<close>

fun severity_word :: "Severity \<Rightarrow> string" where
  "severity_word LOW = ''low''"
| "severity_word MEDIUM = ''medium''"
| "severity_word HIGH = ''high''"
| "severity_word CRITICAL = ''critical''"

definition severity_class :: "Severity \<Rightarrow> jsstring" where
  "severity_class s = js (severity_word s)"

fun sensor_class :: "SensorHealth \<Rightarrow> jsstring" where
  "sensor_class HEALTHY = js ''healthy''"
| "sensor_class DEGRADED = js ''degraded''"
| "sensor_class UNAVAILABLE = js ''unavailable''"

fun incident_status_name :: "IncidentStatus \<Rightarrow> jsstring" where
  "incident_status_name INCIDENT_OPEN = js ''OPEN''"
| "incident_status_name INCIDENT_CLOSED = js ''CLOSED''"

text \<open>The \<open>humanize\<close> of the distribution: it turns what follows a space, not what starts a word, into upper case.\<close>

fun capitalize_starts :: "(jsstring \<Rightarrow> jsstring) \<Rightarrow> bool \<Rightarrow> jsstring \<Rightarrow> jsstring" where
  "capitalize_starts upper start [] = []"
| "capitalize_starts upper start (c # s) =
     (if start \<and> \<not> is_white_space c then upper [c] else [c]) @ capitalize_starts upper (is_white_space c) s"

definition fleet_humanize :: "(jsstring \<Rightarrow> jsstring) \<Rightarrow> (jsstring \<Rightarrow> jsstring) \<Rightarrow> jsstring \<Rightarrow> jsstring" where
  "fleet_humanize lower upper v = capitalize_starts upper True (map (\<lambda>c. if c = 95 then 32 else c) (lower v))"

section \<open>The ring of severities\<close>

text \<open>A percentage as text: the double nearest to it.\<close>

definition percent_text :: "rat \<Rightarrow> jsstring" where
  "percent_text r = js_String (to_double r)"

definition donut_arc :: "Severity \<times> rat \<times> rat \<times> rat \<Rightarrow> dom" where
  "donut_arc = (\<lambda>(severity, dash, gap, offset).
     Element ''circle'' (js ''severity-donut-segment tone-'' @ severity_class severity)
       [(''cx'', js ''60''), (''cy'', js ''60''), (''pathLength'', js ''100''), (''r'', js ''46''),
        (''stroke-dasharray'', percent_text dash @ js '' '' @ percent_text gap), (''stroke-dashoffset'', percent_text offset)] [])"

definition donut_legend_item :: "(jsstring \<Rightarrow> jsstring) \<Rightarrow> (rat \<Rightarrow> jsstring) \<Rightarrow> donut_segment \<Rightarrow> dom" where
  "donut_legend_item lower format s =
     Element ''LI'' (js ''tone-'' @ severity_class (dn_severity s)) []
       [plain ''SPAN'' [Element ''I'' [] [(''aria-hidden'', js ''true'')] [], TextNode (humanize lower (severity_name (dn_severity s)))],
        plain ''STRONG'' [TextNode (id_text (dn_count s))], plain ''SMALL'' [TextNode (format (dn_percentage s) @ js ''%'')]]"

definition donut_legend :: "(jsstring \<Rightarrow> jsstring) \<Rightarrow> (rat \<Rightarrow> jsstring) \<Rightarrow> donut_segment list \<Rightarrow> dom" where
  "donut_legend lower format segments = classed ''UL'' ''severity-donut-legend'' (map (donut_legend_item lower format) segments)"

definition draw_donut :: "(jsstring \<Rightarrow> jsstring) \<Rightarrow> (rat \<Rightarrow> jsstring) \<Rightarrow> jsstring \<Rightarrow> SeverityCountDto list \<Rightarrow> int \<Rightarrow> dom" where
  "draw_donut lower format label rows whole =
     (let segments = AlertSeverityDonut rows whole
      in Element ''FIGURE'' (js ''severity-donut'') [(''aria-label'', label)]
           [classed ''DIV'' ''severity-donut-visual''
              [Element ''svg'' [] [(''aria-hidden'', js ''true''), (''viewBox'', js ''0 0 120 120'')]
                 (Element ''circle'' (js ''severity-donut-track'') [(''cx'', js ''60''), (''cy'', js ''60''), (''pathLength'', js ''100''), (''r'', js ''46'')] [] #
                  map donut_arc (donut_arcs segments)),
               classed ''DIV'' ''severity-donut-total'' [plain ''STRONG'' [TextNode (id_text whole)], plain ''SPAN'' [TextNode label]]],
            plain ''FIGCAPTION'' [donut_legend lower format segments]])"

section \<open>The distribution of the fleet\<close>

definition share_of :: "int \<Rightarrow> int \<Rightarrow> jsstring" where
  "share_of n whole =
     js ''width:'' @ (case to_double (of_int n / of_int whole) of Num q \<Rightarrow> percent_text (q * 100) | v \<Rightarrow> js_String v) @ js ''%''"

definition risk_item :: "text_for \<Rightarrow> int \<Rightarrow> RiskLevel \<times> int \<Rightarrow> dom" where
  "risk_item t riskTotal = (\<lambda>(level, n).
     Element ''LI'' (js ''tone-'' @ severity_class level) []
       [plain ''SPAN'' [TextNode (t (RISK_LABEL_KEYS level) [])],
        Element ''DIV'' (js ''fleet-risk-track'')
          [(''aria-label'', t (RISK_LABEL_KEYS level) [] @ js '': '' @ id_text n @ js '' / '' @ id_text riskTotal), (''aria-valuemax'', id_text riskTotal),
           (''aria-valuemin'', js ''0''), (''aria-valuenow'', id_text n), (''role'', js ''progressbar'')]
          [Element ''I'' [] [(''style'', share_of n riskTotal)] []],
        plain ''STRONG'' [TextNode (id_text n)]])"

definition sensor_item :: "text_for \<Rightarrow> SensorHealth \<times> int \<Rightarrow> dom" where
  "sensor_item t = (\<lambda>(status, n).
     Element ''LI'' (js ''tone-'' @ sensor_class status) [] [plain ''SPAN'' [TextNode (t (SENSOR_LABEL_KEYS status) [])], plain ''STRONG'' [TextNode (id_text n)]])"

definition sensor_summary_text :: "text_for \<Rightarrow> jsstring \<Rightarrow> (SensorHealth \<times> int) list \<Rightarrow> int \<Rightarrow> jsstring" where
  "sensor_summary_text t sensor rows whole =
     t ''overview.sensorStatusSummary''
       [(js ''degraded'', NumberParam (sensorSummary rows DEGRADED)), (js ''healthy'', NumberParam (sensorSummary rows HEALTHY)),
        (js ''sensor'', TextParam sensor), (js ''total'', NumberParam whole), (js ''unavailable'', NumberParam (sensorSummary rows UNAVAILABLE))]"

definition sensor_stack :: "(SensorHealth \<times> int) list \<Rightarrow> int \<Rightarrow> markup" where
  "sensor_stack rows whole =
     map (\<lambda>(status, n). Element ''I'' (js ''tone-'' @ sensor_class status) [(''style'', share_of n whole)] []) (filter (\<lambda>row. 0 < snd row) rows)"

definition sensor_statuses :: "text_for \<Rightarrow> (jsstring \<Rightarrow> jsstring) \<Rightarrow> sensor_group \<Rightarrow> dom" where
  "sensor_statuses t readable grp =
     Element ''UL'' (js ''sensor-breakdown-statuses'') [(''aria-label'', sensor_summary_text t (readable (sg_sensor grp)) (sg_rows grp) (sg_total grp))]
       (map (sensor_item t) (sg_rows grp))"

definition sensor_group_item :: "text_for \<Rightarrow> (jsstring \<Rightarrow> jsstring) \<Rightarrow> sensor_group \<Rightarrow> dom" where
  "sensor_group_item t readable grp =
     plain ''LI''
       [classed ''DIV'' ''sensor-breakdown-heading''
          [Element ''STRONG'' [] [(''title'', readable (sg_sensor grp))] [TextNode (readable (sg_sensor grp))], sensor_statuses t readable grp],
        Element ''DIV'' (js ''sensor-health-stack compact'') [(''aria-hidden'', js ''true'')] (sensor_stack (sg_rows grp) (sg_total grp))]"

definition fleet_section :: "jsstring \<Rightarrow> jsstring \<Rightarrow> jsstring \<Rightarrow> markup \<Rightarrow> dom" where
  "fleet_section headingId title reported content =
     Element ''SECTION'' (js ''fleet-distribution-section'') [(''aria-labelledby'', headingId)]
       (plain ''HEADER'' [Element ''H3'' [] [(''id'', headingId)] [TextNode title], plain ''SPAN'' [TextNode reported]] # content)"

definition risk_content :: "text_for \<Rightarrow> RiskLevelCountDto list \<Rightarrow> markup" where
  "risk_content t byLevel =
     (let rows = riskRows byLevel; riskTotal = row_total rows
      in if riskTotal \<noteq> 0
         then [Element ''UL'' (js ''fleet-risk-list'') [(''aria-label'', t ''overview.endpointRisk'' [])] (map (risk_item t riskTotal) rows)]
         else [classed ''P'' ''fleet-empty'' [TextNode (t ''overview.noEndpointRiskSnapshot'' [])]])"

definition sensor_content :: "text_for \<Rightarrow> (jsstring \<Rightarrow> jsstring) \<Rightarrow> SensorHealthCountDto list \<Rightarrow> markup" where
  "sensor_content t readable health =
     (let rows = sensorRows health; sensorTotal = row_total rows
      in if sensorTotal \<noteq> 0
         then [Element ''DIV'' (js ''sensor-health-stack'')
                 [(''aria-label'', sensor_summary_text t (t ''overview.allSensors'' []) rows sensorTotal), (''role'', js ''img'')] (sensor_stack rows sensorTotal),
               Element ''UL'' (js ''sensor-health-legend'') [(''aria-label'', t ''overview.sensorHealth'' [])] (map (sensor_item t) rows),
               classed ''DIV'' ''sensor-breakdown''
                 [plain ''H4'' [TextNode (t ''overview.sensorByType'' [])], plain ''UL'' (map (sensor_group_item t readable) (sensorBreakdown health))]]
         else [classed ''P'' ''fleet-empty'' [TextNode (t ''overview.noSensorHealthSnapshots'' [])]])"

definition FleetDistributionPanel ::
  "text_for \<Rightarrow> (jsstring \<Rightarrow> jsstring) \<Rightarrow> jsstring \<Rightarrow> int \<Rightarrow> RiskLevelCountDto list \<Rightarrow> SensorHealthCountDto list \<Rightarrow> dom" where
  "FleetDistributionPanel t readable titleId totalCount byLevel health =
     Panel titleId (t ''overview.fleetDistribution'' []) (Some (t ''overview.fleetDistributionSubtitle'' []))
       [classed ''SPAN'' ''fleet-total'' [TextNode (t ''overview.reportedEndpoints'' [(js ''count'', NumberParam totalCount)])]]
       [classed ''DIV'' ''fleet-distribution''
          [fleet_section (js ''fleet-risk-heading'') (t ''overview.endpointRisk'' [])
             (t ''overview.reportedRiskSnapshots'' [(js ''count'', NumberParam (row_total (riskRows byLevel)))]) (risk_content t byLevel),
           fleet_section (js ''fleet-sensor-heading'') (t ''overview.sensorHealth'' [])
             (t ''overview.reportedSensorChecks'' [(js ''count'', NumberParam (row_total (sensorRows health)))]) (sensor_content t readable health)]]
       (js ''fleet-distribution-panel'')"

section \<open>The queues\<close>

definition metric_box :: "jsstring \<Rightarrow> jsstring \<Rightarrow> int \<Rightarrow> markup \<Rightarrow> dom" where
  "metric_box className label n extra = Element ''DIV'' className [] ([plain ''SPAN'' [TextNode label], plain ''STRONG'' [TextNode (id_text n)]] @ extra)"

definition ranking_item :: "text_for \<Rightarrow> (jsstring \<Rightarrow> jsstring) \<Rightarrow> nat \<times> EndpointDto \<Rightarrow> dom" where
  "ranking_item t lower = (\<lambda>(index, e).
     plain ''LI''
       [Element ''SPAN'' (js ''queue-rank'') [(''aria-hidden'', js ''true'')] [TextNode (pad 2 (index + 1))],
        classed ''DIV'' ''queue-primary''
          [Element ''A'' [] [(''title'', ep_hostname e), (''href'', js ''/endpoints/'' @ id_text (ep_endpointId e))] [TextNode (ep_hostname e)],
           Element ''SMALL'' [] [(''title'', ep_agentId e)] [TextNode (js ''ID '' @ id_text (ep_endpointId e) @ MIDDLE_DOT @ ep_agentId e)]],
        classed ''DIV'' ''risk-ranking-metrics''
          [metric_box (js ''risk-ledger-score tone-'' @ severity_class (risk_level (ep_risk e))) (t ''overview.riskScore'' []) (risk_score (ep_risk e))
             [plain ''SMALL'' [TextNode (humanize lower (severity_name (risk_level (ep_risk e))))]],
           metric_box [] (t ''navigation.alerts'' []) (risk_activeAlertCount (ep_risk e)) [],
           metric_box [] (t ''overview.openIncidents'' []) (risk_openIncidentCount (ep_risk e)) []]])"

definition draw_ranking :: "text_for \<Rightarrow> (jsstring \<Rightarrow> jsstring) \<Rightarrow> (string \<Rightarrow> dom) \<Rightarrow> EndpointDto list \<Rightarrow> dom" where
  "draw_ranking t lower icon endpoints =
     (if endpoints = [] then EmptyState icon (t ''overview.noEndpoints'' []) (t ''overview.noEndpointRiskSnapshot'' []) [] False
      else Element ''OL'' (js ''investigation-list risk-endpoint-ranking'') [(''aria-label'', t ''overview.highestRiskEndpoints'' [])]
        (map (ranking_item t lower) (enumerate 0 endpoints)))"

text \<open>An incident of the queue with its title, which may throw; \<open>formatDate\<close> prints a time in full, \<open>formatQueue\<close> as the queue does.\<close>

definition queue_item ::
  "text_for \<Rightarrow> (jsstring \<Rightarrow> jsstring) \<Rightarrow> (jsstring \<Rightarrow> jsstring) \<Rightarrow> (jsstring \<Rightarrow> jsstring) \<Rightarrow> IncidentDto \<Rightarrow> jsstring \<Rightarrow> dom" where
  "queue_item t lower formatDate formatQueue i title =
     plain ''LI''
       [classed ''DIV'' ''queue-primary''
          [Element ''A'' [] [(''title'', title), (''href'', js ''/incidents/'' @ id_text (inc_incidentId i))] [TextNode title],
           plain ''SMALL'' [TextNode (js ''ID '' @ id_text (inc_incidentId i))]],
        classed ''DIV'' ''incident-queue-meta''
          [StatusPill lower (severity_name (inc_severity i)) None,
           classed ''SPAN'' ''incident-state'' [TextNode (humanize lower (incident_status_name (inc_status i)))],
           classed ''SPAN'' ''incident-alert-count''
             [classed ''SPAN'' ''sr-only'' [TextNode (t ''navigation.alerts'' [] @ js '': '')], TextNode (id_text (inc_alertCount i))],
           Element ''TIME'' [] [(''datetime'', inc_lastDetectedAt i), (''title'', formatDate (inc_lastDetectedAt i))] [TextNode (formatQueue (inc_lastDetectedAt i))]]]"

definition draw_queue ::
  "text_for \<Rightarrow> (jsstring \<Rightarrow> jsstring) \<Rightarrow> (jsstring \<Rightarrow> jsstring) \<Rightarrow> (jsstring \<Rightarrow> jsstring) \<Rightarrow> (string \<Rightarrow> dom) \<Rightarrow> IncidentDto list \<Rightarrow> js_error + dom" where
  "draw_queue t lower formatDate formatQueue icon incidents =
     (if incidents = [] then Inr (EmptyState icon (t ''overview.noOpenIncidents'' []) (t ''overview.noOpenIncidentsDescription'' []) [] False)
      else map_sum id
        (\<lambda>titles. Element ''OL'' (js ''investigation-list incident-queue-list'') [(''aria-label'', t ''overview.incidentQueueWidget'' [])]
           (map2 (queue_item t lower formatDate formatQueue) incidents titles))
        (all_texts (map (\<lambda>i. detectionTitle (sure t) (inc_title i) None) incidents)))"

section \<open>What the report reads of an entry\<close>

text \<open>The tone of a class name that names one.\<close>

lemma tone_of_class:
  assumes "list_all is_tone_character c" "c \<noteq> []"
  shows "toneFromClass (js ''tone-'' @ c) = c"
proof -
  have "takeWhile is_tone_character c = c" using assms(1) by (simp add: takeWhile_eq_all_conv list_all_iff)
  then show ?thesis using assms(2) by (simp add: toneFromClass_def js_def startsWith_def Let_def del: takeWhile_eq_all_conv)
qed

lemma severity_tone: "toneFromClass (js ''tone-'' @ severity_class s) = severity_class s"
  by (rule tone_of_class; cases s) (simp_all add: severity_class_def js_def is_tone_character_def)

lemma sensor_tone: "toneFromClass (js ''tone-'' @ sensor_class s) = sensor_class s"
  by (rule tone_of_class; cases s) (simp_all add: js_def is_tone_character_def)

lemma count_parsed: "\<bar>i\<bar> < 2 ^ 53 \<Longrightarrow> parseCount (id_text i) = Num (of_int i)"
  using js_Number_show_int [of i] by (simp add: parseCount_def js_String_int number_characters_show_int)

lemma count_text_nonempty: "\<bar>i\<bar> < 2 ^ 53 \<Longrightarrow> id_text i \<noteq> []"
  using show_int_nonempty by (simp add: js_String_int)

text \<open>An entry of a legend: a label, a number and perhaps a share.\<close>

definition legend_row :: "jsstring \<Rightarrow> int \<Rightarrow> jsstring \<Rightarrow> jsstring \<Rightarrow> DashboardReportBreakdownRow" where
  "legend_row label n detail tone =
     \<lparr>br_label = normalized_text label, br_value = id_text n, br_count = Num (of_int n), br_detail = nonempty (normalized_text detail), br_tone = tone\<rparr>"

lemma breakdown_row_of:
  assumes "child_text item ''SPAN'' = normalized_text label" "child_text item ''STRONG'' = normalized_text (id_text n)" "child_text item ''SMALL'' = normalized_text detail"
    and "toneFromClass (dom_class (hd item)) = tone" "\<bar>n\<bar> < 2 ^ 53" "normalized_text label \<noteq> []"
  shows "breakdown_row k item = legend_row label n detail tone"
  using assms count_text_nonempty [OF assms(5)]
  by (simp add: breakdown_row_def legend_row_def Let_def normalized_count count_parsed)

lemma donut_row:
  assumes "\<bar>dn_count s\<bar> < 2 ^ 53" "normalized_text (humanize lower (severity_name (dn_severity s))) \<noteq> []"
  shows "breakdown_row k (donut_legend_item lower format s # outer) =
    legend_row (humanize lower (severity_name (dn_severity s))) (dn_count s) (format (dn_percentage s) @ js ''%'') (severity_class (dn_severity s))"
  by (rule breakdown_row_of [OF _ _ _ _ assms])
    (simp_all add: child_text_def query_text_def querySelector_def querySelectorAll_def descendants_def donut_legend_item_def of_tag_def node_text_Cons severity_tone)

lemma risk_row:
  assumes "\<bar>n\<bar> < 2 ^ 53" "normalized_text (t (RISK_LABEL_KEYS level) []) \<noteq> []"
  shows "breakdown_row k (risk_item t whole (level, n) # outer) = legend_row (t (RISK_LABEL_KEYS level) []) n [] (severity_class level)"
  by (rule breakdown_row_of [OF _ _ _ _ assms])
    (simp_all add: child_text_def query_text_def querySelector_def querySelectorAll_def descendants_def risk_item_def of_tag_def node_text_Cons severity_tone
      node_text_def normalized_text_def trim_def)

lemma sensor_row:
  assumes "\<bar>n\<bar> < 2 ^ 53" "normalized_text (t (SENSOR_LABEL_KEYS status) []) \<noteq> []"
  shows "breakdown_row k (sensor_item t (status, n) # outer) = legend_row (t (SENSOR_LABEL_KEYS status) []) n [] (sensor_class status)"
  by (rule breakdown_row_of [OF _ _ _ _ assms])
    (simp_all add: child_text_def query_text_def querySelector_def querySelectorAll_def descendants_def sensor_item_def of_tag_def node_text_Cons sensor_tone
      node_text_def normalized_text_def trim_def)

text \<open>
  A record of a queue: what it is called by, and the other texts of the entry, each of them once.
\<close>

definition record_texts :: "jsstring \<Rightarrow> jsstring list \<Rightarrow> jsstring \<times> jsstring list" where
  "record_texts label details = (label, take 6 (first_occurrences (\<lambda>v. v \<noteq> [] \<and> v \<noteq> label) details))"

definition joined_texts :: "jsstring list \<Rightarrow> jsstring" where
  "joined_texts ws = join_text (js '' '') (filter (\<lambda>s. s \<noteq> []) (map normalized_text ws))"

lemma queue_part_classes [simp]:
  "has_class (Element tag (js ''queue-rank'') as ns) k \<longleftrightarrow> k = ''queue-rank''"
  "has_class (Element tag (js ''queue-primary'') as ns) k \<longleftrightarrow> k = ''queue-primary''"
  "has_class (Element tag (js ''risk-ranking-metrics'') as ns) k \<longleftrightarrow> k = ''risk-ranking-metrics''"
  "has_class (Element tag (js ''incident-queue-meta'') as ns) k \<longleftrightarrow> k = ''incident-queue-meta''"
  "has_class (Element tag (js ''incident-state'') as ns) k \<longleftrightarrow> k = ''incident-state''"
  "has_class (Element tag (js ''incident-alert-count'') as ns) k \<longleftrightarrow> k = ''incident-alert-count''"
  "has_class (Element tag (js ''sr-only'') as ns) k \<longleftrightarrow> k = ''sr-only''"
  by (simp_all add: has_class_single name_simps)

lemma tone_name_single: "single_name (js (''tone-'' @ severity_word s))"
  by (cases s) (simp_all add: single_name_def js_def is_ascii_space_def)

lemmas tone_tokens = class_tokens_single [OF tone_name_single, simplified append.simps]

lemma score_class:
  "has_class (Element tag (js ''risk-ledger-score tone-'' @ severity_class s) as ns) k \<longleftrightarrow> k = ''risk-ledger-score'' \<or> k = ''tone-'' @ severity_word s"
proof -
  have "js ''risk-ledger-score tone-'' @ severity_class s = js ''risk-ledger-score'' @ 32 # js (''tone-'' @ severity_word s)"
    by (simp add: severity_class_def js_def)
  then show ?thesis by (simp add: has_class_lead name_simps class_tokens_single tone_tokens js_eq_iff)
qed

lemma box_text:
  assumes "\<bar>n\<bar> < 2 ^ 53"
  shows "joinedChildText (metric_box c label n [] # outer) = joined_texts [label, id_text n]"
    and "joinedChildText (metric_box c label n [plain ''SMALL'' [TextNode d]] # outer) = joined_texts [label, id_text n, d]"
proof -
  have "normalized_text (id_text n) \<noteq> []" using assms count_text_nonempty [OF assms] by (simp add: normalized_count)
  then show "joinedChildText (metric_box c label n [] # outer) = joined_texts [label, id_text n]"
    "joinedChildText (metric_box c label n [plain ''SMALL'' [TextNode d]] # outer) = joined_texts [label, id_text n, d]"
    by (auto simp: joinedChildText_def metric_box_def child_elements_Cons joined_texts_def node_text_Cons)
qed

lemma ranking_record:
  assumes "normalized_text (ep_hostname e) \<noteq> []" "\<bar>risk_score (ep_risk e)\<bar> < 2 ^ 53" "\<bar>risk_activeAlertCount (ep_risk e)\<bar> < 2 ^ 53"
    "\<bar>risk_openIncidentCount (ep_risk e)\<bar> < 2 ^ 53" "closest outer [Simple (of_class ''risk-ranking-metrics'')] = None"
  shows "record_of (ranking_item t lower (k, e) # outer) =
    record_texts (normalized_text (ep_hostname e))
      [normalized_text (js ''ID '' @ id_text (ep_endpointId e) @ MIDDLE_DOT @ ep_agentId e),
       joined_texts [t ''overview.riskScore'' [], id_text (risk_score (ep_risk e)), humanize lower (severity_name (risk_level (ep_risk e)))],
       joined_texts [t ''navigation.alerts'' [], id_text (risk_activeAlertCount (ep_risk e))],
       joined_texts [t ''overview.openIncidents'' [], id_text (risk_openIncidentCount (ep_risk e))]]"
proof -
  define item where "item = ranking_item t lower (k, e)"
  define name where "name = Element ''SMALL'' [] [(''title'', ep_agentId e)] [TextNode (js ''ID '' @ id_text (ep_endpointId e) @ MIDDLE_DOT @ ep_agentId e)]"
  define link where "link = Element ''A'' [] [(''title'', ep_hostname e), (''href'', js ''/endpoints/'' @ id_text (ep_endpointId e))] [TextNode (ep_hostname e)]"
  define prim where "prim = classed ''DIV'' ''queue-primary'' [link, name]"
  define level where "level = plain ''SMALL'' [TextNode (humanize lower (severity_name (risk_level (ep_risk e))))]"
  define b1 where "b1 = metric_box (js ''risk-ledger-score tone-'' @ severity_class (risk_level (ep_risk e))) (t ''overview.riskScore'' []) (risk_score (ep_risk e)) [level]"
  define b2 where "b2 = metric_box [] (t ''navigation.alerts'' []) (risk_activeAlertCount (ep_risk e)) []"
  define b3 where "b3 = metric_box [] (t ''overview.openIncidents'' []) (risk_openIncidentCount (ep_risk e)) []"
  define boxes where "boxes = classed ''DIV'' ''risk-ranking-metrics'' [b1, b2, b3]"
  have found: "querySelectorAll (item # outer) RECORD_DETAILS =
      [[name, prim, item] @ outer, [b1, boxes, item] @ outer, [level, b1, boxes, item] @ outer, [b2, boxes, item] @ outer, [b3, boxes, item] @ outer]"
    unfolding item_def name_def link_def prim_def level_def b1_def b2_def b3_def boxes_def
    by (simp add: querySelectorAll_def descendants_def ranking_item_def metric_box_def score_class record_selectors)
  have named: "query_text (Some (item # outer)) RECORD_NAME = normalized_text (ep_hostname e)"
    unfolding item_def
    by (simp add: query_text_def querySelector_def querySelectorAll_def descendants_def ranking_item_def metric_box_def score_class record_selectors node_text_Cons)
  let ?small = "\<lambda>d. node_matches d [Simple (of_tag ''SMALL'')] \<and> closest d [Simple (of_class ''risk-ranking-metrics'')] \<noteq> None"
  have tags: "dom_tag b1 = ''DIV''" "dom_tag b2 = ''DIV''" "dom_tag b3 = ''DIV''" "dom_tag level = ''SMALL''" "dom_tag name = ''SMALL''" "dom_tag prim = ''DIV''"
    by (simp_all add: b1_def b2_def b3_def level_def name_def prim_def metric_box_def)
  have box: "node_matches ([b, boxes, item] @ outer) [METRIC_BOX]" if "dom_tag b = ''DIV''" for b
    using that by (simp add: node_matches_def METRIC_BOX_def of_tag_def of_class_def boxes_def)
  have plain_name: "\<not> node_matches ([name, prim, item] @ outer) [METRIC_BOX]" by (simp add: node_matches_def METRIC_BOX_def of_tag_def tags)
  have kept: "\<not> ?small ([name, prim, item] @ outer)"
    using assms(5) by (simp add: node_matches_def of_class_def name_def prim_def item_def ranking_item_def)
  have kept_box: "\<not> ?small ([b, boxes, item] @ outer)" if "dom_tag b = ''DIV''" for b using that by (simp add: node_matches_def of_tag_def)
  have dropped: "?small ([level, b1, boxes, item] @ outer)"
    by (simp add: node_matches_def of_class_def of_tag_def tags boxes_def)
  have texts: "node_text (Some ([name, prim, item] @ outer)) = normalized_text (js ''ID '' @ id_text (ep_endpointId e) @ MIDDLE_DOT @ ep_agentId e)"
    by (simp add: node_text_Cons name_def)
  have boxes: "joinedChildText ([b1, boxes, item] @ outer) =
      joined_texts [t ''overview.riskScore'' [], id_text (risk_score (ep_risk e)), humanize lower (severity_name (risk_level (ep_risk e)))]"
    "joinedChildText ([b2, boxes, item] @ outer) = joined_texts [t ''navigation.alerts'' [], id_text (risk_activeAlertCount (ep_risk e))]"
    "joinedChildText ([b3, boxes, item] @ outer) = joined_texts [t ''overview.openIncidents'' [], id_text (risk_openIncidentCount (ep_risk e))]"
    using assms(2-4) by (simp_all add: b1_def b2_def b3_def level_def box_text)
  have "filter (\<lambda>d. \<not> ?small d) (querySelectorAll (item # outer) RECORD_DETAILS) =
      [[name, prim, item] @ outer, [b1, boxes, item] @ outer, [b2, boxes, item] @ outer, [b3, boxes, item] @ outer]"
    unfolding found using kept kept_box tags dropped by (simp only: filter.simps simp_thms if_True if_False)
  then show ?thesis
    unfolding record_of_def RECORD_NAME_def [symmetric] RECORD_DETAILS_def [symmetric] item_def [symmetric] named Let_def
    using assms(1) box tags plain_name texts boxes by (simp add: record_texts_def del: append.simps)
qed

definition pill_classes :: "Severity \<Rightarrow> jsstring" where
  "pill_classes s = js ''badge'' @ 32 # js ''badge-neutral'' @ 32 # js ''status-pill'' @ 32 # js (''tone-'' @ severity_word s)"

lemma severity_pill:
  assumes "lower (severity_name s) = severity_class s"
  shows "StatusPill lower (severity_name s) None =
    Element ''SPAN'' (pill_classes s) [] [Element ''I'' [] [(''aria-hidden'', js ''true'')] [], TextNode (humanize lower (severity_name s))]"
proof -
  have "trim (js ''badge badge-'' @ js ''neutral'' @ js '' '' @ js ''status-pill tone-'' @ tone_name lower (severity_name s)) = pill_classes s"
    unfolding tone_name_def assms by (cases s) (simp_all add: pill_classes_def severity_class_def js_def trim_def is_white_space_def)
  then show ?thesis by (simp add: StatusPill_def Badge_def)
qed

lemma pill_class:
  "has_class (Element tag (pill_classes s) as ns) k \<longleftrightarrow> k = ''badge'' \<or> k = ''badge-neutral'' \<or> k = ''status-pill'' \<or> k = ''tone-'' @ severity_word s"
proof -
  have "single_name (js ''badge-neutral'')" "single_name (js ''status-pill'')" by (simp_all add: single_name_def js_def is_ascii_space_def)
  then show ?thesis unfolding pill_classes_def by (simp add: has_class_lead name_simps class_tokens_single class_tokens_space tone_tokens js_eq_iff)
qed

lemma queue_record:
  assumes "normalized_text title \<noteq> []" "lower (severity_name (inc_severity i)) = severity_class (inc_severity i)"
    "closest outer [Simple (of_class ''risk-ranking-metrics'')] = None"
  shows "record_of (queue_item t lower formatDate formatQueue i title # outer) =
    record_texts (normalized_text title)
      (map normalized_text [js ''ID '' @ id_text (inc_incidentId i), humanize lower (severity_name (inc_severity i)),
         humanize lower (incident_status_name (inc_status i)), t ''navigation.alerts'' [] @ js '': '' @ id_text (inc_alertCount i),
         formatQueue (inc_lastDetectedAt i)])"
proof -
  define item where "item = queue_item t lower formatDate formatQueue i title"
  note pill = severity_pill [of lower "inc_severity i", OF assms(2)]
  define name where "name = plain ''SMALL'' [TextNode (js ''ID '' @ id_text (inc_incidentId i))]"
  define link where "link = Element ''A'' [] [(''title'', title), (''href'', js ''/incidents/'' @ id_text (inc_incidentId i))] [TextNode title]"
  define prim where "prim = classed ''DIV'' ''queue-primary'' [link, name]"
  define severity where "severity = StatusPill lower (severity_name (inc_severity i)) None"
  define status where "status = classed ''SPAN'' ''incident-state'' [TextNode (humanize lower (incident_status_name (inc_status i)))]"
  define alerts where "alerts = classed ''SPAN'' ''incident-alert-count''
    [classed ''SPAN'' ''sr-only'' [TextNode (t ''navigation.alerts'' [] @ js '': '')], TextNode (id_text (inc_alertCount i))]"
  define seen where "seen = Element ''TIME'' [] [(''datetime'', inc_lastDetectedAt i), (''title'', formatDate (inc_lastDetectedAt i))] [TextNode (formatQueue (inc_lastDetectedAt i))]"
  define meta where "meta = classed ''DIV'' ''incident-queue-meta'' [severity, status, alerts, seen]"
  note parts = item_def name_def link_def prim_def severity_def pill status_def alerts_def seen_def meta_def
  have found: "querySelectorAll (item # outer) RECORD_DETAILS = map (\<lambda>n. n @ outer)
      [[name, prim, item], [severity, meta, item], [status, meta, item], [alerts, meta, item], [seen, meta, item]]"
    unfolding parts queue_item_def
    by (simp add: querySelectorAll_def descendants_def pill_class record_selectors)
  have named: "query_text (Some (item # outer)) RECORD_NAME = normalized_text title"
    unfolding parts queue_item_def
    by (simp add: query_text_def querySelector_def querySelectorAll_def descendants_def pill_class record_selectors node_text_Cons)
  have boxes: "\<not> node_matches ([n, m, item] @ outer) [METRIC_BOX]" if "dom_tag n \<noteq> ''DIV''" for n m
    using that by (simp add: node_matches_def METRIC_BOX_def of_tag_def)
  have tags: "dom_tag severity \<noteq> ''DIV''" "dom_tag status \<noteq> ''DIV''" "dom_tag alerts \<noteq> ''DIV''" "dom_tag seen \<noteq> ''DIV''" "dom_tag name \<noteq> ''DIV''"
    "dom_tag severity \<noteq> ''SMALL''" "dom_tag status \<noteq> ''SMALL''" "dom_tag alerts \<noteq> ''SMALL''" "dom_tag seen \<noteq> ''SMALL''"
    unfolding parts by simp_all
  have outside: "closest ([name, prim, item] @ outer) [Simple (of_class ''risk-ranking-metrics'')] = None"
    using assms(3) unfolding parts queue_item_def by (simp add: node_matches_def of_class_def)
  have "\<not> node_matches ([n, m, item] @ outer) [Simple (of_tag ''SMALL'')]" if "dom_tag n \<noteq> ''SMALL''" for n m
    using that by (simp add: node_matches_def of_tag_def)
  then have kept: "filter (\<lambda>d. \<not> (node_matches d [Simple (of_tag ''SMALL'')] \<and> closest d [Simple (of_class ''risk-ranking-metrics'')] \<noteq> None))
      (querySelectorAll (item # outer) RECORD_DETAILS) = querySelectorAll (item # outer) RECORD_DETAILS"
    unfolding found using tags outside by (simp del: append.simps)
  have texts: "map (\<lambda>n. node_text (Some (n @ outer))) [[name, prim, item], [severity, meta, item], [status, meta, item], [alerts, meta, item], [seen, meta, item]] =
      map normalized_text [js ''ID '' @ id_text (inc_incidentId i), humanize lower (severity_name (inc_severity i)),
         humanize lower (incident_status_name (inc_status i)), t ''navigation.alerts'' [] @ js '': '' @ id_text (inc_alertCount i),
         formatQueue (inc_lastDetectedAt i)]"
    unfolding parts by (simp add: node_text_Cons)
  show ?thesis
    unfolding record_of_def RECORD_NAME_def [symmetric] RECORD_DETAILS_def [symmetric] item_def [symmetric] named Let_def kept
    using assms(1) boxes tags texts unfolding found by (simp add: record_texts_def del: append.simps)
qed

section \<open>What the report reads of a block\<close>

text \<open>A block with a panel, as the overview draws its ring and its queues.\<close>

definition panel_block :: "OverviewWidgetType \<Rightarrow> jsstring \<Rightarrow> jsstring \<Rightarrow> jsstring \<Rightarrow> dom \<Rightarrow> dom" where
  "panel_block k titleId title subtitle content = OverviewBlock (widget_type_name k) [Panel titleId title (Some subtitle) [] [content] []]"

lemma panel_classes [simp]:
  "has_class (Element tag (js ''panel '') as ns) k \<longleftrightarrow> k = ''panel''"
  "has_class (Element tag (js ''panel-heading'') as ns) k \<longleftrightarrow> k = ''panel-heading''"
  "has_class (Element tag (js ''panel-body'') as ns) k \<longleftrightarrow> k = ''panel-body''"
proof -
  have "js ''panel '' = js ''panel'' @ [32]" by (simp add: js_def)
  then show "has_class (Element tag (js ''panel '') as ns) k \<longleftrightarrow> k = ''panel''" by (simp add: has_class_lead name_simps)
qed (simp_all add: has_class_single name_simps)

lemma panel_parts:
  "Panel titleId title (Some subtitle) [] [content] [] =
     Element ''SECTION'' (js ''panel '') [(''aria-labelledby'', titleId)]
       [classed ''HEADER'' ''panel-heading'' [plain ''DIV'' (Element ''H2'' [] [(''id'', titleId)] [TextNode title] # text_if (Some subtitle) (\<lambda>s. plain ''P'' [TextNode s]))],
        classed ''DIV'' ''panel-body'' [content]]"
  by (simp add: Panel_def nodes_if_def)

lemma class_not_scope [simp]: "Scope \<noteq> of_class c" by (simp add: of_class_def)

lemma panel_block_query:
  assumes free: "Scope \<notin> set cs" "\<And>tag as ns. \<not> matches_any cs (Element tag (js ''panel '') as ns)"
      "\<And>tag as ns. \<not> matches_any cs (Element tag (js ''panel-heading'') as ns)" "\<And>tag as ns. \<not> matches_any cs (Element tag (js ''panel-body'') as ns)"
      "\<And>tag as ns. \<not> matches_any cs (Element tag (js ''overview-block'') as ns)" "\<And>tag as ns. \<not> matches_any cs (Element tag [] as ns)"
    and quiet: "list_all (quiet (matches_any cs)) before" "list_all (quiet (matches_any cs)) rest"
    and found: "\<And>outer. seek (matches_any cs) outer content = [path @ outer]"
    and main: "main = main_content (before @ [panel_block k titleId title subtitle content] @ rest)"
  shows "querySelectorAll [main] (map Simple cs) =
    [path @ [classed ''DIV'' ''panel-body'' [content], Panel titleId title (Some subtitle) [] [content] [], panel_block k titleId title subtitle content, main]]"
proof -
  have "seek (matches_any cs) outer (panel_block k titleId title subtitle content) =
      [path @ [classed ''DIV'' ''panel-body'' [content], Panel titleId title (Some subtitle) [] [content] [], panel_block k titleId title subtitle content] @ outer]" for outer
    unfolding panel_block_def OverviewBlock_def panel_parts
    by (simp add: free found text_if_def)
  moreover have "querySelectorAll [main] (map Simple cs) = concat (map (seek (matches_any cs) [main]) (before @ [panel_block k titleId title subtitle content] @ rest))"
    unfolding main main_content_def by (rule querySelectorAll_seek [OF free(1)])
  ultimately show ?thesis
    using seek_quiet_list [OF quiet(1)] seek_quiet_list [OF quiet(2)] by (simp del: concat_eq_Nil_conv)
qed

lemma panel_title_drawn:
  assumes "list_all (\<lambda>e. \<not> has_class e ''panel'') path"
  shows "panel_title (path @ [classed ''DIV'' ''panel-body'' [content], Panel titleId title (Some subtitle) [] [content] []] @ outer) = normalized_text title"
proof -
  let ?panel = "Panel titleId title (Some subtitle) [] [content] []"
  let ?head = "classed ''HEADER'' ''panel-heading'' [plain ''DIV'' (Element ''H2'' [] [(''id'', titleId)] [TextNode title] # text_if (Some subtitle) (\<lambda>s. plain ''P'' [TextNode s]))]"
  let ?h2 = "Element ''H2'' [] [(''id'', titleId)] [TextNode title]"
  have at: "closest (path @ [classed ''DIV'' ''panel-body'' [content], ?panel] @ outer) [Simple (of_class ''panel'')] = Some (?panel # outer)"
    using assms by (induction path) (simp_all add: node_matches_def of_class_def panel_parts)
  have "selects d (Descendant (Simple (of_class ''panel-heading'')) (of_tag ''H2'')) (?h2 # x # ?head # o')" for d x o'
    unfolding selects.simps list_ex_iff by (intro conjI bexI [of _ 2]) (simp_all add: of_tag_def of_class_def numeral_2_eq_2 del: upt_Suc)
  moreover have "\<not> selects d (Descendant (Simple (of_class ''panel-heading'')) (of_tag ''H2'')) (e # o')" if "dom_tag e \<noteq> ''H2''" for d e o'
    using that by (simp add: of_tag_def)
  ultimately obtain ms where "querySelectorAll (?panel # outer) [Descendant (Simple (of_class ''panel-heading'')) (of_tag ''H2'')] =
      (?h2 # plain ''DIV'' (?h2 # text_if (Some subtitle) (\<lambda>s. plain ''P'' [TextNode s])) # ?head # ?panel # outer) # ms"
    unfolding querySelectorAll_def descendants_def list.case panel_parts by (simp del: selects.simps)
  then show ?thesis unfolding panel_title_def at by (simp add: query_first node_text_Cons)
qed

subsection \<open>The ranking\<close>

abbreviation is_records :: "dom \<Rightarrow> bool" where
  "is_records \<equiv> matches_any [of_class ''risk-endpoint-ranking'', of_class ''incident-queue-list'', of_class ''guidance-list'', of_class ''risk-factor-list'']"

definition endpoint_ok :: "EndpointDto \<Rightarrow> bool" where
  "endpoint_ok e \<longleftrightarrow> normalized_text (ep_hostname e) \<noteq> [] \<and> \<bar>risk_score (ep_risk e)\<bar> < 2 ^ 53 \<and> \<bar>risk_activeAlertCount (ep_risk e)\<bar> < 2 ^ 53 \<and>
     \<bar>risk_openIncidentCount (ep_risk e)\<bar> < 2 ^ 53"

text \<open>What the report should say of an endpoint of the ranking.\<close>

definition endpoint_record :: "text_for \<Rightarrow> (jsstring \<Rightarrow> jsstring) \<Rightarrow> EndpointDto \<Rightarrow> jsstring \<times> jsstring list" where
  "endpoint_record t lower e =
     record_texts (normalized_text (ep_hostname e))
       [normalized_text (js ''ID '' @ id_text (ep_endpointId e) @ MIDDLE_DOT @ ep_agentId e),
        joined_texts [t ''overview.riskScore'' [], id_text (risk_score (ep_risk e)), humanize lower (severity_name (risk_level (ep_risk e)))],
        joined_texts [t ''navigation.alerts'' [], id_text (risk_activeAlertCount (ep_risk e))],
        joined_texts [t ''overview.openIncidents'' [], id_text (risk_openIncidentCount (ep_risk e))]]"

lemma ranking_class: "has_class (Element tag (js ''investigation-list risk-endpoint-ranking'') as ns) k \<longleftrightarrow> k = ''investigation-list'' \<or> k = ''risk-endpoint-ranking''"
proof -
  have "js ''investigation-list risk-endpoint-ranking'' = js ''investigation-list'' @ 32 # js ''risk-endpoint-ranking''" by (simp add: js_def)
  moreover have "single_name (js ''risk-endpoint-ranking'')" by (simp add: single_name_def js_def is_ascii_space_def)
  ultimately show ?thesis by (simp add: has_class_lead name_simps class_tokens_single js_eq_iff)
qed

lemma quiet_ranking_item: "quiet is_records (ranking_item t lower (k, e))"
  by (simp add: ranking_item_def metric_box_def score_class)

lemma ranking_elements: "filter is_element (map (ranking_item t lower) xs) = map (ranking_item t lower) xs"
  by (induction xs) (simp_all add: ranking_item_def case_prod_beta)

text \<open>The ranking of the overview is in the report with every endpoint, in its order, as a current snapshot.\<close>

lemma ranking_group:
  assumes "es \<noteq> []" "list_all endpoint_ok es" "normalized_text title \<noteq> []"
    and quiet: "list_all (quiet is_records) before" "list_all (quiet is_records) rest"
  shows "collectRecordGroups [main_content (before @ [panel_block HighestRiskEndpoints titleId title subtitle (draw_ranking t lower icon es)] @ rest)] =
    [\<lparr>rg_title = normalized_text title, rg_records = map (endpoint_record t lower) es, rg_scope = CurrentSnapshot\<rparr>]"
proof -
  define ol where "ol = draw_ranking t lower icon es"
  define block where "block = panel_block HighestRiskEndpoints titleId title subtitle ol"
  define main where "main = main_content (before @ [block] @ rest)"
  define body where "body = classed ''DIV'' ''panel-body'' [ol]"
  define panel where "panel = Panel titleId title (Some subtitle) [] [ol] []"
  define outer where "outer = [body, panel, block, main]"
  have ol: "ol = Element ''OL'' (js ''investigation-list risk-endpoint-ranking'') [(''aria-label'', t ''overview.highestRiskEndpoints'' [])]
      (map (ranking_item t lower) (enumerate 0 es))"
    using assms(1) by (simp add: ol_def draw_ranking_def)
  have "list_all (quiet is_records) (map (ranking_item t lower) (enumerate 0 es))"
    using quiet_ranking_item by (auto simp: list_all_iff simp del: matches_any_simps)
  from seek_quiet_list [OF this] have found: "seek is_records o' ol = [[ol] @ o']" for o'
    unfolding ol seek.simps by (simp add: ranking_class del: concat_eq_Nil_conv seek.simps list.map(2))
  have query: "querySelectorAll [main] (map Simple [of_class ''risk-endpoint-ranking'', of_class ''incident-queue-list'', of_class ''guidance-list'', of_class ''risk-factor-list'']) =
      [[ol] @ outer]"
    unfolding outer_def body_def panel_def block_def
    by (rule panel_block_query [OF _ _ _ _ _ _ quiet found]) (simp_all add: main_def block_def has_class_single name_simps)
  have title: "panel_title ([ol] @ outer) = normalized_text title"
    using panel_title_drawn [of "[ol]" ol titleId title subtitle "[block, main]"] by (simp add: outer_def body_def panel_def ol ranking_class)
  have scope: "scopeForNode ([ol] @ outer) = CurrentSnapshot"
    using scope_below_block [of "[ol, body, panel]" HighestRiskEndpoints "[panel]" "[main]"]
    by (simp add: outer_def block_def panel_block_def panel_def body_def ol panel_parts)
  have outside: "closest (ol # outer) [Simple (of_class ''risk-ranking-metrics'')] = None"
    by (simp add: outer_def body_def panel_def block_def main_def panel_block_def OverviewBlock_def main_content_def ol panel_parts node_matches_def of_class_def
        ranking_class has_class_single name_simps)
  have "record_of (ranking_item t lower (k, e) # ol # outer) = endpoint_record t lower e" if "endpoint_ok e" for k e
    unfolding endpoint_record_def by (rule ranking_record) (use that outside in \<open>simp_all add: endpoint_ok_def\<close>)
  moreover have "fst (endpoint_record t lower e) \<noteq> []" if "endpoint_ok e" for e using that by (simp add: endpoint_record_def record_texts_def endpoint_ok_def)
  ultimately have "filter (\<lambda>r. fst r \<noteq> []) (map (\<lambda>n. record_of (n # ol # outer)) (map (ranking_item t lower) (enumerate k us))) = map (endpoint_record t lower) us"
    if "list_all endpoint_ok us" for us k
    using that by (induction us arbitrary: k) simp_all
  moreover have "child_elements (ol # outer) = map (\<lambda>n. n # ol # outer) (map (ranking_item t lower) (enumerate 0 es))"
    unfolding ol child_elements_Cons ranking_elements ..
  ultimately have records: "filter (\<lambda>r. fst r \<noteq> []) (map record_of (child_elements (ol # outer))) = map (endpoint_record t lower) es"
    using assms(2) by (simp add: comp_def)
  have "record_group_of 0 ([ol] @ outer) = \<lparr>rg_title = normalized_text title, rg_records = map (endpoint_record t lower) es, rg_scope = CurrentSnapshot\<rparr>"
    using assms(3) records scope title by (simp add: record_group_of_def Let_def)
  with assms(1) query show ?thesis
    unfolding collectRecordGroups_def ol_def [symmetric] block_def [symmetric] main_def [symmetric] by simp
qed

subsection \<open>The ring\<close>

abbreviation is_legend :: "dom \<Rightarrow> bool" where
  "is_legend \<equiv> matches_any [of_class ''severity-donut-legend'', of_class ''fleet-risk-list'', of_class ''sensor-health-legend'', of_class ''sensor-breakdown-statuses'']"

lemma no_descendant:
  assumes "quiet (\<lambda>e. dom_tag e = tag) (Element t c as ns)"
  shows "querySelectorAll (Element t c as ns # outer) [Descendant s (of_tag tag)] = []"
proof -
  have "filter (\<lambda>m. dom_tag (hd m) = tag) (nodes_below outer (Element t c as ns)) = []"
    using filter_nodes_below [of "\<lambda>e. dom_tag e = tag" outer t c as ns] assms seek_quiet_list [of "\<lambda>e. dom_tag e = tag" ns]
    by (simp del: concat_eq_Nil_conv nodes_below.simps)
  then have "dom_tag (hd m) \<noteq> tag" if "m \<in> set (nodes_below outer (Element t c as ns))" for m using that by (auto simp: filter_empty_conv)
  moreover have "\<not> selects d (Descendant s (of_tag tag)) m" if "dom_tag (hd m) \<noteq> tag" for d m using that by (cases m) (simp_all add: of_tag_def)
  ultimately show ?thesis unfolding querySelectorAll_def descendants_def by (simp add: filter_empty_conv del: selects.simps)
qed

lemma tone_class: "has_class (Element tag (js ''tone-'' @ severity_class s) as ns) k \<longleftrightarrow> k = ''tone-'' @ severity_word s"
proof -
  have "js ''tone-'' @ severity_class s = js (''tone-'' @ severity_word s)" by (simp add: severity_class_def js_def)
  moreover have "word_class (''tone-'' @ severity_word s)" unfolding word_class_def by (rule tone_name_single)
  ultimately show ?thesis by (simp only: has_class_single)
qed

lemma arc_class: "has_class (Element tag (js ''severity-donut-segment tone-'' @ severity_class s) as ns) k \<longleftrightarrow> k = ''severity-donut-segment'' \<or> k = ''tone-'' @ severity_word s"
proof -
  have "js ''severity-donut-segment tone-'' @ severity_class s = js ''severity-donut-segment'' @ 32 # js (''tone-'' @ severity_word s)"
    by (simp add: severity_class_def js_def)
  then show ?thesis by (simp add: has_class_lead name_simps class_tokens_single tone_tokens js_eq_iff)
qed

lemma donut_classes [simp]:
  "has_class (Element tag (js ''severity-donut'') as ns) k \<longleftrightarrow> k = ''severity-donut''"
  "has_class (Element tag (js ''severity-donut-visual'') as ns) k \<longleftrightarrow> k = ''severity-donut-visual''"
  "has_class (Element tag (js ''severity-donut-track'') as ns) k \<longleftrightarrow> k = ''severity-donut-track''"
  "has_class (Element tag (js ''severity-donut-total'') as ns) k \<longleftrightarrow> k = ''severity-donut-total''"
  "has_class (Element tag (js ''severity-donut-legend'') as ns) k \<longleftrightarrow> k = ''severity-donut-legend''"
  by (simp_all add: has_class_single name_simps)

lemma quiet_legend_item: "quiet is_legend (donut_legend_item lower format s)" "quiet is_legend (donut_arc a)"
  by (simp_all add: donut_legend_item_def donut_arc_def tone_class arc_class case_prod_beta)

lemma donut_no_heading: "quiet (\<lambda>e. dom_tag e = ''H3'') (draw_donut lower format label rows whole)"
  by (simp add: draw_donut_def donut_legend_def donut_legend_item_def donut_arc_def Let_def list_all_iff case_prod_beta)

lemma legend_elements: "filter is_element (map (donut_legend_item lower format) xs) = map (donut_legend_item lower format) xs"
  by (induction xs) (simp_all add: donut_legend_item_def)

definition segment_row :: "(jsstring \<Rightarrow> jsstring) \<Rightarrow> (rat \<Rightarrow> jsstring) \<Rightarrow> donut_segment \<Rightarrow> DashboardReportBreakdownRow" where
  "segment_row lower format s =
     legend_row (humanize lower (severity_name (dn_severity s))) (dn_count s) (format (dn_percentage s) @ js ''%'') (severity_class (dn_severity s))"

text \<open>The ring of the overview is in the report with the four severities, their counts and shares, for the selected period.\<close>

lemma severity_breakdown:
  assumes "\<forall>s. normalized_text (humanize lower (severity_name s)) \<noteq> []" "list_all (\<lambda>s. \<bar>dn_count s\<bar> < 2 ^ 53) (AlertSeverityDonut rows whole)"
    and titles: "normalized_text title \<noteq> []" "label \<noteq> []" "label \<noteq> normalized_text title"
    and quiet: "list_all (quiet is_legend) before" "list_all (quiet is_legend) rest"
  shows "collectBreakdowns [main_content (before @ [panel_block AlertSeverity titleId title subtitle (draw_donut lower format label rows whole)] @ rest)] =
    [\<lparr>bd_title = normalized_text title @ MIDDLE_DOT @ label, bd_rows = map (segment_row lower format) (AlertSeverityDonut rows whole), bd_scope = SelectedPeriod\<rparr>]"
proof -
  define segments where "segments = AlertSeverityDonut rows whole"
  define figure where "figure = draw_donut lower format label rows whole"
  define legend where "legend = donut_legend lower format segments"
  define caption where "caption = plain ''FIGCAPTION'' [legend]"
  define visual where "visual = classed ''DIV'' ''severity-donut-visual''
    [Element ''svg'' [] [(''aria-hidden'', js ''true''), (''viewBox'', js ''0 0 120 120'')]
       (Element ''circle'' (js ''severity-donut-track'') [(''cx'', js ''60''), (''cy'', js ''60''), (''pathLength'', js ''100''), (''r'', js ''46'')] [] #
        map donut_arc (donut_arcs segments)),
     classed ''DIV'' ''severity-donut-total'' [plain ''STRONG'' [TextNode (id_text whole)], plain ''SPAN'' [TextNode label]]]"
  define block where "block = panel_block AlertSeverity titleId title subtitle figure"
  define main where "main = main_content (before @ [block] @ rest)"
  define body where "body = classed ''DIV'' ''panel-body'' [figure]"
  define panel where "panel = Panel titleId title (Some subtitle) [] [figure] []"
  define outer where "outer = [body, panel, block, main]"
  have figure: "figure = Element ''FIGURE'' (js ''severity-donut'') [(''aria-label'', label)] [visual, caption]"
    by (simp add: figure_def draw_donut_def visual_def caption_def legend_def segments_def Let_def)
  have "list_all (quiet is_legend) (map donut_arc (donut_arcs segments))" using quiet_legend_item(2) by (auto simp: list_all_iff simp del: matches_any_simps)
  then have quiet_visual: "quiet is_legend visual" by (simp add: visual_def)
  have "list_all (quiet is_legend) (map (donut_legend_item lower format) segments)" using quiet_legend_item(1) by (auto simp: list_all_iff simp del: matches_any_simps)
  from seek_quiet_list [OF this] have "seek is_legend o' legend = [legend # o']" for o'
    unfolding legend_def donut_legend_def seek.simps by (simp del: concat_eq_Nil_conv seek.simps list.map(2))
  then have found: "seek is_legend o' figure = [[legend, caption, figure] @ o']" for o'
    unfolding figure by (simp add: seek_quiet [OF quiet_visual] caption_def)
  have query: "querySelectorAll [main] (map Simple [of_class ''severity-donut-legend'', of_class ''fleet-risk-list'', of_class ''sensor-health-legend'',
      of_class ''sensor-breakdown-statuses'']) = [[legend, caption, figure] @ outer]"
    unfolding outer_def body_def panel_def block_def
    by (rule panel_block_query [OF _ _ _ _ _ _ quiet found]) (simp_all add: main_def block_def has_class_single name_simps)
  have parts: "\<not> has_class e ''panel''" "dom_tag e \<noteq> ''SECTION''" "dom_attribute e ''data-overview-block'' = None"
    if "e \<in> {legend, caption, figure}" for e
    using that by (auto simp: legend_def donut_legend_def caption_def figure)
  have body_parts: "dom_tag body \<noteq> ''SECTION''" "dom_attribute body ''data-overview-block'' = None" "dom_tag panel = ''SECTION''"
    "dom_attribute panel ''data-overview-block'' = None"
    by (simp_all add: body_def panel_def panel_parts)
  have titled: "panel_title ([legend, caption, figure] @ outer) = normalized_text title"
    using panel_title_drawn [of "[legend, caption, figure]" figure titleId title subtitle "[block, main]"] parts by (simp add: outer_def body_def panel_def)
  have scope: "scopeForNode ([legend, caption, figure] @ outer) = SelectedPeriod"
    using scope_below_block [of "[legend, caption, figure, body, panel]" AlertSeverity "[panel]" "[main]"] parts body_parts
    by (simp add: outer_def block_def panel_block_def panel_def)
  have at_section: "closest ([legend, caption, figure] @ outer) [Simple (of_tag ''SECTION'')] = Some [panel, block, main]"
    using parts body_parts by (simp add: outer_def node_matches_def of_tag_def)
  have "quiet (\<lambda>e. dom_tag e = ''H3'') panel"
    using donut_no_heading [of lower format label rows whole] by (simp add: panel_def panel_parts figure_def text_if_def)
  then have no_section: "query_text (Some [panel, block, main]) [Descendant (Simple (of_tag ''HEADER'')) (of_tag ''H3'')] = []"
    using no_descendant [of "''H3''" "''SECTION''" "js ''panel ''" _ _ "[block, main]" "Simple (of_tag ''HEADER'')"]
    by (simp add: panel_def panel_parts query_text_def querySelector_def node_text_def normalized_text_def trim_def del: quiet.simps)
  have at_figure: "closest ([legend, caption, figure] @ outer) [Simple (of_tag ''FIGURE'')] = Some (figure # outer)"
    by (simp add: node_matches_def of_tag_def legend_def donut_legend_def caption_def figure)
  have row: "breakdown_row 0 (donut_legend_item lower format s # o') = segment_row lower format s" if "s \<in> set segments" for s o'
    unfolding segment_row_def by (rule donut_row) (use that assms(1,2) in \<open>auto simp: segments_def list_all_iff\<close>)
  have "child_elements ([legend, caption, figure] @ outer) = map (\<lambda>n. n # [legend, caption, figure] @ outer) (map (donut_legend_item lower format) segments)"
    unfolding append.simps by (simp add: legend_def donut_legend_def child_elements_Cons legend_elements)
  then have rows: "map (breakdown_row 0) (child_elements ([legend, caption, figure] @ outer)) = map (segment_row lower format) segments"
    using row by (simp del: append.simps)
  have "first_occurrences (\<lambda>s. s \<noteq> []) [normalized_text title, [], [], label] = [normalized_text title, label]"
    using titles by (simp add: first_occurrences_def upt_rec)
  moreover have "\<not> has_class legend ''sensor-breakdown-statuses''" by (simp add: legend_def donut_legend_def)
  ultimately have "breakdown_of 0 ([legend, caption, figure] @ outer) =
      \<lparr>bd_title = normalized_text title @ MIDDLE_DOT @ label, bd_rows = map (segment_row lower format) segments, bd_scope = SelectedPeriod\<rparr>"
    unfolding breakdown_of_def Let_def at_section no_section at_figure titled scope rows
    using titles by (simp add: node_attribute_def figure)
  moreover have "segments \<noteq> []" by (simp add: segments_def AlertSeverityDonut_def SEVERITY_ORDER_def Let_def)
  ultimately show ?thesis
    using query unfolding collectBreakdowns_def BREAKDOWN_LISTS_def figure_def [symmetric] block_def [symmetric] main_def [symmetric] segments_def [symmetric] by simp
qed

end
