(* ===== verification/ShellMarkup.thy ===== *)
theory ShellMarkup
  imports WorkspaceMarkup ConsoleShell OverviewMarkup
begin

text \<open>
  The frame of the console as it is drawn (\<open>components/AppShell.tsx\<close>, \<open>components/ServiceMark.tsx\<close>): the navigation, on the
  side and in the drawer of a small screen, the bar with its title, search, theme, language and account, the page itself, and
  the report with its dialog.  The router decides which link is active and which page is drawn; the drawing of the report is
  an argument, applied to what the frame keeps of it.
\<close>

section \<open>Parts\<close>

definition ServiceMark :: dom where
  "ServiceMark =
     Element ''SPAN'' (js ''service-mark'') [(''aria-hidden'', js ''true'')]
       [Element ''svg'' [] [(''viewBox'', js ''0 0 48 36'')]
          [Element ''path'' (js ''service-mark-ring'') [(''d'', js ''M 34 7 A 13 13 0 1 1 18 6'')] [],
           Element ''path'' (js ''service-mark-aperture'') [(''d'', js ''M 18 6 L 24 12'')] [],
           Element ''circle'' (js ''service-mark-focus'') [(''cx'', js ''24''), (''cy'', js ''18''), (''r'', js ''3'')] []]]"

text \<open>The icons of the navigation, by the address of an item.\<close>

definition NAVIGATION_ICONS :: "(jsstring \<times> string) list" where
  "NAVIGATION_ICONS =
     [(js ''/'', ''MonitorDot''), (js ''/alerts'', ''BellRing''), (js ''/incidents'', ''ShieldCheck''), (js ''/endpoints'', ''Server''),
      (js ''/events'', ''Activity''), (js ''/intelligence'', ''Radar''), (js ''/operations'', ''Database''), (js ''/operations/archives'', ''Archive'')]"

definition navigation_icon :: "navigation_item \<Rightarrow> string" where
  "navigation_icon item = (case map_of NAVIGATION_ICONS (ni_to item) of Some name \<Rightarrow> name | None \<Rightarrow> [])"

text \<open>
  What the frame draws with: the texts, the icons, the user, the path, the theme, the identifiers that \<open>useId\<close>
  made up, the state of the account menu, and what the router and the report draw.
\<close>

record shell_view =
  sv_text :: text_for
  sv_icon :: "string \<Rightarrow> dom"
  sv_user :: "(jsstring \<times> jsstring \<times> jsstring) option"  \<comment> \<open>role, name and login\<close>
  sv_pathname :: jsstring
  sv_theme :: Theme
  sv_id :: "string \<Rightarrow> jsstring"
  sv_account :: popover
  sv_active :: "jsstring \<Rightarrow> bool \<Rightarrow> bool"
  sv_loading :: bool
  sv_document :: "DashboardReportSnapshot \<Rightarrow> markup"
  sv_preview :: "DashboardReportSnapshot \<Rightarrow> markup"

section \<open>Navigation\<close>

text \<open>\<open>NavLink\<close> of the router: the link of the current page says so.\<close>

definition nav_item :: "shell_view \<Rightarrow> bool \<Rightarrow> jsstring \<Rightarrow> navigation_item \<Rightarrow> dom" where
  "nav_item v narrow timeScope item =
     (let label = sv_text v (ni_labelKey item) []; target = navigationDestination (ni_to item) timeScope; active = sv_active v target (ni_end item)
      in Element ''A'' (trim (js ''nav-item '' @ (if ni_child item then js ''nav-child '' else []) @ (if active then js ''active'' else [])))
           (spread [(''aria-label'', Some label), (''aria-current'', if active then Some (js ''page'') else None),
                    (''title'', if narrow then Some label else None), (''href'', Some target)])
           [sv_icon v (navigation_icon item), plain ''SPAN'' [TextNode label]])"

definition nav_group :: "shell_view \<Rightarrow> bool \<Rightarrow> jsstring \<Rightarrow> TranslationKey \<times> navigation_item list \<Rightarrow> dom" where
  "nav_group v narrow timeScope = (\<lambda>(labelKey, links).
     classed ''SECTION'' ''nav-group''
       (nodes_if (labelKey \<noteq> ''navigation.groupOverview'') [plain ''H2'' [TextNode (sv_text v labelKey [])]] @ map (nav_item v narrow timeScope) links))"

definition compact_toggle :: "shell_view \<Rightarrow> bool \<Rightarrow> dom" where
  "compact_toggle v narrow =
     (let label = sv_text v (if narrow then ''navigation.expand'' else ''navigation.compact'') []
      in Tooltip (sv_id v ''compact-tip'') label
           (Element ''BUTTON'' (js ''nav-compact'') [(''aria-label'', label), (''type'', js ''button'')]
              [sv_icon v (if narrow then ''PanelLeftOpen'' else ''PanelLeftClose''), plain ''SPAN'' [TextNode label]]))"

definition PrimaryNavigation :: "shell_view \<Rightarrow> bool \<Rightarrow> bool \<Rightarrow> jsstring \<Rightarrow> dom" where
  "PrimaryNavigation v narrow mobile timeScope =
     Element ''DIV'' (js ''navigation-content'') (if mobile then [(''id'', js ''mobile-primary-navigation'')] else [])
       ([Element ''DIV'' (js ''brand-mark'') [(''aria-label'', SERVICE_NAME)]
           [ServiceMark, plain ''DIV'' [Element ''STRONG'' [] [(''title'', SERVICE_NAME)] [TextNode SERVICE_NAME]]],
         Element ''NAV'' [] [(''aria-label'', sv_text v ''navigation.primary'' [])] (map (nav_group v narrow timeScope) NAVIGATION_GROUPS)] @
        nodes_if (\<not> mobile) [compact_toggle v narrow])"

text \<open>The path to the page: every entry but the last is a link if it has an address.\<close>

definition breadcrumb_item :: "nat \<Rightarrow> nat \<times> BreadcrumbItem \<Rightarrow> dom" where
  "breadcrumb_item number = (\<lambda>(index, item).
     plain ''LI''
       [if truthy_text (bc_to item) \<and> index < number - 1 then Element ''A'' [] [(''href'', the (bc_to item))] [TextNode (bc_label item)]
        else Element ''SPAN'' [] (if index = number - 1 then [(''aria-current'', js ''page'')] else []) [TextNode (bc_label item)]])"

definition Breadcrumbs :: "jsstring \<Rightarrow> BreadcrumbItem list \<Rightarrow> dom" where
  "Breadcrumbs label bs =
     Element ''NAV'' (js ''breadcrumbs'') [(''aria-label'', label)]
       [plain ''OL'' (plain ''LI'' [Element ''A'' [] [(''href'', js ''/'')] [TextNode SERVICE_NAME]] # map (breadcrumb_item (length bs)) (enumerate 0 bs))]"

section \<open>The bar\<close>

definition menu_button :: "shell_view \<Rightarrow> bool \<Rightarrow> dom" where
  "menu_button v mobileOpen =
     Element ''BUTTON'' (js ''mobile-nav-menu icon-button'')
       [(''aria-controls'', js ''mobile-primary-navigation''), (''aria-expanded'', bool_text mobileOpen),
        (''aria-label'', sv_text v ''navigation.toggle'' []), (''type'', js ''button'')] [sv_icon v ''Menu'']"

definition top_title :: "shell_view \<Rightarrow> dom" where
  "top_title v =
     (let t = (\<lambda>k. sv_text v k []); overviewRoute = (sv_pathname v = js ''/'')
      in Element ''DIV'' (js ''top-title'' @ (if overviewRoute then js '' service-title'' else [])) []
           (if overviewRoute then [Element ''STRONG'' [] [(''title'', SERVICE_NAME)] [TextNode SERVICE_NAME]]
            else [Breadcrumbs (t ''navigation.breadcrumb'') (buildBreadcrumbs t (sv_pathname v)), plain ''STRONG'' [TextNode (page_title_text t (sv_pathname v))]]))"

definition search_form :: "shell_view \<Rightarrow> jsstring \<Rightarrow> dom" where
  "search_form v search =
     Element ''FORM'' (js ''global-search'') [(''role'', js ''search'')]
       [sv_icon v ''Search'',
        Element ''INPUT'' [] [(''aria-label'', sv_text v ''search.aria'' []), (''placeholder'', sv_text v ''search.placeholder'' []), (''value'', search)] []]"

definition theme_toggle :: "shell_view \<Rightarrow> dom" where
  "theme_toggle v =
     (let label = sv_text v (if sv_theme v = DARK then ''theme.switchToLight'' else ''theme.switchToDark'') []
      in Tooltip (sv_id v ''theme-tip'') label
           (Element ''BUTTON'' (js ''icon-button theme-toggle'') [(''aria-label'', label), (''title'', label), (''type'', js ''button'')]
              [sv_icon v (if sv_theme v = DARK then ''Sun'' else ''Moon'')]))"

definition locale_option :: "shell_view \<Rightarrow> string \<Rightarrow> TranslationKey \<Rightarrow> dom" where
  "locale_option v code key = Element ''OPTION'' [] [(''value'', js code)] [TextNode (sv_text v key [])]"

definition locale_control :: "shell_view \<Rightarrow> bool \<Rightarrow> bool \<Rightarrow> dom" where
  "locale_control v saving failed =
     classed ''DIV'' ''locale-control''
       (SelectField (sv_id v ''locale'') (sv_text v ''language.label'' []) None None None (js ''locale-selector'')
          [locale_option v ''EN'' ''language.english'', locale_option v ''KO'' ''language.korean''] [(''disabled'', disabled_attribute saving)] #
        nodes_if failed [Element ''SPAN'' (js ''locale-error'') [(''role'', js ''alert'')] [TextNode (sv_text v ''language.saveError'' [])]])"

definition user_text :: "shell_view \<Rightarrow> (jsstring \<times> jsstring \<times> jsstring \<Rightarrow> jsstring) \<Rightarrow> markup" where
  "user_text v part = (case sv_user v of Some u \<Rightarrow> [TextNode (part u)] | None \<Rightarrow> [])"

definition account_menu :: "shell_view \<Rightarrow> dom" where
  "account_menu v =
     Popover (sv_text v ''navigation.accountMenu'' []) [sv_icon v ''CircleUserRound'']
       [classed ''DIV'' ''account-summary''
          [Badge (user_text v fst) [] (js ''info''), plain ''STRONG'' (user_text v (fst \<circ> snd)), plain ''SMALL'' (user_text v (snd \<circ> snd))],
        classed ''DIV'' ''account-actions''
          [Button [sv_icon v ''Printer'', TextNode (sv_text v ''report.openAria'' [])] [] False False (js ''ghost'') type_button,
           Button [sv_icon v ''LogOut'', TextNode (sv_text v ''navigation.logout'' [])] [] False False (js ''ghost'') type_button]]
       [] (sv_account v)"

definition top_bar :: "shell_view \<Rightarrow> app_shell \<Rightarrow> dom" where
  "top_bar v s =
     classed ''HEADER'' ''top-bar''
       [menu_button v (as_mobileOpen s), top_title v, search_form v (as_search s),
        classed ''DIV'' ''session-summary'' [theme_toggle v, locale_control v (as_localeSaving s) (as_localeError s), account_menu v]]"

section \<open>The frame\<close>

definition route_content :: "shell_view \<Rightarrow> markup \<Rightarrow> markup" where
  "route_content v outlet =
     (if sv_loading v
      then [Element ''DIV'' (js ''route-loading'') [(''aria-label'', sv_text v ''common.loading'' []), (''role'', js ''status'')]
              [plain ''SPAN'' [], TextNode (sv_text v ''common.loading'' [])]]
      else outlet)"

definition printed_report :: "shell_view \<Rightarrow> app_shell \<Rightarrow> markup" where
  "printed_report v s =
     (case as_report s of None \<Rightarrow> []
      | Some r \<Rightarrow> [Element ''DIV'' (js ''dashboard-report-print-shell'') [(''aria-hidden'', js ''true'')] (sv_document v r)])"

definition report_dialog :: "shell_view \<Rightarrow> app_shell \<Rightarrow> markup" where
  "report_dialog v s =
     (let t = sv_text v; page = (case as_report s of Some r \<Rightarrow> rc_pageTitle r | None \<Rightarrow> page_title_text (\<lambda>k. t k []) (sv_pathname v))
      in Dialog (sv_id v ''report'') (sv_icon v) (as_reportOpen s) (t ''report.snapshot'' [(js ''page'', TextParam page)]) None
           (case as_report s of Some r \<Rightarrow> sv_preview v r | None \<Rightarrow> [])
           [Button [TextNode (t ''report.cancel'' [])] [] False False (js ''ghost'') type_button,
            Button [sv_icon v ''Printer'', TextNode (t ''report.printSave'' [])] [] False False (js ''default'') type_button]
           (t ''report.close'' []) (js ''report-dialog''))"

definition AppShell :: "shell_view \<Rightarrow> app_shell \<Rightarrow> markup \<Rightarrow> dom" where
  "AppShell v s outlet =
     Element ''DIV'' (if as_compact s then js ''app-shell compact'' else js ''app-shell'') []
       ([Element ''A'' (js ''skip-link'') [(''href'', js ''#main-content'')] [TextNode (sv_text v ''navigation.skipToContent'' [])],
         classed ''ASIDE'' ''nav-rail desktop-navigation'' [PrimaryNavigation v (as_compact s) False (as_navigationTime s)]] @
        Drawer (sv_id v ''drawer'') (sv_icon v) (as_mobileOpen s) (sv_text v ''navigation.primary'' []) (sv_text v ''navigation.close'' [])
          [PrimaryNavigation v False True (as_navigationTime s)] (js ''left'') None @
        [classed ''SECTION'' ''console-shell''
           ([top_bar v s, main_content (route_content v outlet)] @ printed_report v s @ report_dialog v s)])"

section \<open>Facts\<close>

text \<open>What the frame is handed: icons without names, a report whose drawing leaves no reference open.\<close>

definition shell_view_ok :: "shell_view \<Rightarrow> bool" where
  "shell_view_ok v \<longleftrightarrow> (\<forall>n. nameless (sv_icon v n)) \<and> (\<forall>r. closed (sv_document v r) \<and> closed (sv_preview v r))"

lemma shell_icon_closed: "shell_view_ok v \<Longrightarrow> closed [sv_icon v n]"
  by (simp add: shell_view_ok_def nameless_names(4))

lemma closed_dangling: "closed ns \<longleftrightarrow> set (dangling ns) = {}" by (simp add: closed_def)

lemma closed_tooltip: "closed [child] \<Longrightarrow> closed [Tooltip i label child]"
  using tooltip_dangling [of i label child] by (simp add: closed_dangling)

lemma closed_drawer:
  assumes "closed [icon ''X'']" "closed ns"
  shows "closed (Drawer i icon b label closeLabel ns side title)"
proof -
  have "set (dangling (Drawer i icon b label closeLabel ns side title)) \<subseteq> set (dangling [icon ''X'']) \<union> set (dangling ns)"
    by (rule drawer.no_new_dangling)
  with assms show ?thesis by (simp add: closed_dangling)
qed

lemma closed_dialog:
  assumes "closed (icon ''X'' # actions)" "closed ns"
  shows "closed (Dialog i icon b title eyebrow ns actions closeLabel className)"
proof -
  have "set (dangling (Dialog i icon b title eyebrow ns actions closeLabel className)) \<subseteq> set (dangling (icon ''X'' # actions)) \<union> set (dangling ns)"
    by (rule dialog.no_new_dangling)
  with assms show ?thesis by (simp add: closed_dangling)
qed

subsection \<open>References\<close>

lemma navigation_closed:
  assumes "shell_view_ok v"
  shows "closed [PrimaryNavigation v narrow mobile timeScope]"
proof -
  note icons = shell_icon_closed [OF assms]
  have item: "closed [nav_item v narrow timeScope i]" for i
    unfolding nav_item_def Let_def by (intro closed_element closed_Cons closed_words icons) (simp_all add: name_evaluation)
  have "closed [nav_group v narrow timeScope g]" for g
    unfolding nav_group_def case_prod_beta by (intro closed_element closed_append closed_nodes_if closed_words closed_map item) (simp_all add: name_evaluation)
  moreover have "closed [compact_toggle v narrow]"
    unfolding compact_toggle_def Let_def by (intro closed_tooltip closed_element closed_Cons closed_words icons) (simp_all add: name_evaluation)
  moreover have "closed [ServiceMark]" by (simp add: ServiceMark_def closed_def dangling_def attribute_names_def)
  ultimately show ?thesis
    unfolding PrimaryNavigation_def by (intro closed_element closed_append closed_Cons closed_nodes_if closed_words closed_map) (simp_all add: name_evaluation)
qed

lemma bar_closed:
  assumes "shell_view_ok v"
  shows "closed [top_bar v s]"
proof -
  note icons = shell_icon_closed [OF assms]
  have "closed [breadcrumb_item n b]" for n b
    by (simp add: breadcrumb_item_def case_prod_beta closed_def dangling_def attribute_names_def)
  then have "closed [Breadcrumbs label bs]" for label bs
    unfolding Breadcrumbs_def by (intro closed_element closed_lead_map closed_words) (simp_all add: name_evaluation)
  then have title: "closed [top_title v]"
    unfolding top_title_def Let_def by (auto intro!: closed_element closed_Cons closed_words simp: name_evaluation)
  have theme: "closed [theme_toggle v]"
    unfolding theme_toggle_def Let_def by (intro closed_tooltip closed_element icons) (simp_all add: name_evaluation)
  have "closed [locale_option v code key]" for code key by (simp add: locale_option_def closed_element closed_words name_evaluation)
  then have "closed [locale_option v a b, locale_option v c d]" for a b c d by (intro closed_Cons)
  then have selector: "closed [SelectField i label None None None className [locale_option v a b, locale_option v c d] [(''disabled'', x)]]" for i label className a b c d x
    using select_field_dangling [of "[(''disabled'', x)]" i label None None None className "[locale_option v a b, locale_option v c d]"] by (simp add: closed_dangling)
  have language: "closed [locale_control v a b]" for a b
    unfolding locale_control_def
    by (intro closed_element closed_lead_if closed_words selector) (simp_all add: name_evaluation)
  have "closed (user_text v f)" for f by (simp add: user_text_def closed_Nil closed_words split: option.split)
  then have account: "closed [account_menu v]"
    unfolding account_menu_def Popover_def Badge_def
    by (intro closed_element closed_append closed_Cons closed_nodes_if closed_words closed_button icons) (simp_all add: name_evaluation)
  show ?thesis
    unfolding top_bar_def menu_button_def search_form_def
    by (intro closed_element closed_Cons closed_Nil icons title theme language account) (simp_all add: name_evaluation)
qed

text \<open>A closed page stays closed in the frame: the frame refers to nothing that it does not draw.\<close>

lemma shell_closed:
  assumes "shell_view_ok v" "closed outlet"
  shows "closed [AppShell v s outlet]"
proof -
  note icons = shell_icon_closed [OF assms(1)] and nav = navigation_closed [OF assms(1)]
  have drawer: "closed (Drawer i (sv_icon v) b label closeLabel ns side None)" if "closed ns" for i b label closeLabel ns side
    by (rule closed_drawer [OF icons that])
  have "closed (sv_icon v ''X'' # [Button [TextNode a] [] False False x type_button, Button [sv_icon v y, TextNode b] [] False False z type_button])" for a b x y z
    by (intro closed_Cons closed_button closed_words icons)
  moreover have "closed (case as_report s of Some r \<Rightarrow> sv_preview v r | None \<Rightarrow> [])"
    using assms(1) by (simp add: shell_view_ok_def closed_Nil split: option.split)
  ultimately have report: "closed (report_dialog v s)"
    unfolding report_dialog_def Let_def by (intro closed_dialog)
  have printed: "closed (printed_report v s)"
    using assms(1) by (simp add: printed_report_def shell_view_ok_def closed_Nil closed_element name_evaluation split: option.split)
  have "closed (route_content v outlet)"
    using assms(2) by (simp add: route_content_def closed_def dangling_def attribute_names_def)
  then have "closed [main_content (route_content v outlet)]" unfolding main_content_def by (intro closed_element) (simp_all add: name_evaluation)
  with bar_closed [OF assms(1)] report printed drawer nav show ?thesis
    unfolding AppShell_def by (intro closed_element closed_append closed_Cons closed_words) (simp_all add: name_evaluation)
qed

subsection \<open>Links\<close>

text \<open>The addresses of the links in a drawing.\<close>

fun hrefs :: "dom \<Rightarrow> jsstring list" where
  "hrefs (TextNode s) = []"
| "hrefs (Element tag c as ns) = (case map_of as ''href'' of Some a \<Rightarrow> [a] | None \<Rightarrow> []) @ concat (map hrefs ns)"

text \<open>The navigation links every page of the console once, in the order of its groups, each in the period that is shown.\<close>

lemma navigation_links:
  assumes "\<forall>n. hrefs (sv_icon v n) = []"
  shows "hrefs (PrimaryNavigation v narrow mobile timeScope) = map (\<lambda>i. navigationDestination (ni_to i) timeScope) NAVIGATION_ITEMS"
proof -
  have "hrefs (nav_item v narrow timeScope i) = [navigationDestination (ni_to i) timeScope]" for i
    using assms by (simp add: nav_item_def Let_def spread_last)
  then have "concat (map hrefs (map (nav_item v narrow timeScope) is')) = map (\<lambda>i. navigationDestination (ni_to i) timeScope) is'" for is'
    by (induction is') simp_all
  then have "hrefs (nav_group v narrow timeScope g) = map (\<lambda>i. navigationDestination (ni_to i) timeScope) (snd g)" for g
    by (simp add: nav_group_def case_prod_beta nodes_if_def)
  then have "concat (map hrefs (map (nav_group v narrow timeScope) gs)) = map (\<lambda>i. navigationDestination (ni_to i) timeScope) (concat (map snd gs))" for gs
    by (induction gs) simp_all
  moreover have "hrefs ServiceMark = []" by (simp add: ServiceMark_def)
  moreover have "hrefs (compact_toggle v narrow) = []"
    using assms by (simp add: compact_toggle_def Let_def Tooltip_def)
  ultimately show ?thesis by (simp add: PrimaryNavigation_def NAVIGATION_ITEMS_def nodes_if_def del: map_map)
qed

text \<open>The path above a page links what \<open>breadcrumb_links\<close> says, after the overview.\<close>

lemma breadcrumbs_drawn:
  "hrefs (Breadcrumbs label bs) = js ''/'' # concat (map (\<lambda>(l, to). case to of Some a \<Rightarrow> [a] | None \<Rightarrow> []) (breadcrumb_links bs))"
proof -
  have "hrefs (breadcrumb_item n (i, b)) = (if i < n - 1 \<and> truthy (bc_to b) then [the (bc_to b)] else [])" for n i b
    by (cases "bc_to b") (auto simp: breadcrumb_item_def truthy_text_def truthy_def)
  then have "concat (map hrefs (map (breadcrumb_item n) (enumerate k us))) =
      concat (map (\<lambda>(l, to). case to of Some a \<Rightarrow> [a] | None \<Rightarrow> [])
        (map (\<lambda>(i, b). (bc_label b, if i < n - 1 \<and> truthy (bc_to b) then bc_to b else None)) (enumerate k us)))" for n k us
    by (induction us arbitrary: k) (auto simp: truthy_def split: option.split)
  then show ?thesis by (simp add: Breadcrumbs_def breadcrumb_links_def del: map_map)
qed

subsection \<open>The page in the frame\<close>

text \<open>The frame draws one \<open>main\<close> element, the page: what the report reads and where the skip link leads.\<close>

abbreviation no_main :: "dom \<Rightarrow> bool" where
  "no_main \<equiv> quiet (\<lambda>e. dom_tag e = ''MAIN'')"

lemma navigation_no_main:
  assumes "\<forall>n. no_main (sv_icon v n)"
  shows "no_main (PrimaryNavigation v narrow mobile timeScope)"
proof -
  have "no_main (nav_item v narrow timeScope i)" for i using assms by (simp add: nav_item_def Let_def)
  then have "no_main (nav_group v narrow timeScope g)" for g by (auto simp: nav_group_def case_prod_beta nodes_if_def list_all_iff)
  moreover have "no_main (compact_toggle v narrow)" using assms by (simp add: compact_toggle_def Let_def Tooltip_def)
  ultimately show ?thesis by (simp add: PrimaryNavigation_def ServiceMark_def nodes_if_def list_all_iff)
qed

lemma bar_no_main:
  assumes "\<forall>n. no_main (sv_icon v n)"
  shows "no_main (top_bar v s)"
proof -
  have "no_main (breadcrumb_item n b)" for n b by (simp add: breadcrumb_item_def case_prod_beta)
  then have "no_main (Breadcrumbs label bs)" for label bs by (simp add: Breadcrumbs_def list_all_iff)
  then have "no_main (top_title v)" by (simp add: top_title_def Let_def)
  moreover have "no_main (theme_toggle v)" using assms by (simp add: theme_toggle_def Let_def Tooltip_def)
  moreover have "no_main (locale_control v a b)" for a b
    by (simp add: locale_control_def locale_option_def SelectField_def field_detail_def text_if_def truthy_text_def nodes_if_def Let_def)
  moreover have "no_main (account_menu v)"
    using assms by (simp add: account_menu_def Popover_def Badge_def Button_def nodes_if_def user_text_def split: option.split)
  ultimately show ?thesis using assms by (simp add: top_bar_def menu_button_def search_form_def)
qed

lemma shell_main:
  assumes "\<forall>n. no_main (sv_icon v n)" "\<forall>r. list_all no_main (sv_document v r) \<and> list_all no_main (sv_preview v r)" "list_all no_main outlet"
  shows "\<exists>frame. seek (\<lambda>e. dom_tag e = ''MAIN'') [] (AppShell v s outlet) = [[main_content (route_content v outlet), frame, AppShell v s outlet]]"
proof -
  define page where "page = main_content (route_content v outlet)"
  have nav: "no_main (PrimaryNavigation v a b c)" for a b c using navigation_no_main [OF assms(1)] .
  have bar: "no_main (top_bar v s)" using bar_no_main [OF assms(1)] .
  have drawer: "list_all no_main (Drawer i (sv_icon v) b label closeLabel [PrimaryNavigation v a d c] side None)" for i b label closeLabel a c d side
    using assms(1) nav by (simp add: Drawer_def nodes_if_def close_button_def text_if_def truthy_text_def)
  have printed: "list_all no_main (printed_report v s)" using assms(2) by (simp add: printed_report_def split: option.split)
  have dialog: "list_all no_main (report_dialog v s)"
    using assms(1,2) by (simp add: report_dialog_def Dialog_def Button_def close_button_def nodes_if_def text_if_def truthy_text_def Let_def split: option.split)
  have "list_all no_main (route_content v outlet)" using assms(3) by (simp add: route_content_def)
  then have page: "seek (\<lambda>e. dom_tag e = ''MAIN'') o' page = [page # o']" for o'
    unfolding page_def main_content_def seek.simps using seek_quiet_list by (simp del: concat_eq_Nil_conv)
  show ?thesis
    unfolding page_def [symmetric] AppShell_def
    by (simp add: seek_quiet [OF nav] seek_quiet [OF bar] seek_quiet_list [OF drawer] seek_quiet_list [OF printed] seek_quiet_list [OF dialog] page
        page_def [symmetric] del: concat_eq_Nil_conv)
qed

end
