(* ===== verification/DetectionPanel.thy ===== *)
theory DetectionPanel
  imports ConsoleMarkup
begin

text \<open>
  The panel of the detection activity (\<open>features/overview/DetectionActivityPanel.tsx\<close>): the options it gives to the
  chart, the life cycle of the chart in three effects, what is drawn around it and the text of a tip.  The
  chart library is not part of the repository: a chart is a handle, and what the panel does with it (\<open>init\<close>, \<open>setOption\<close>,
  \<open>dispose\<close>) is recorded.  Arguments are the style sheet (the value of a custom property), the format of a date and
  the time zone.
\<close>

section \<open>The options of the chart\<close>

text \<open>\<open>Number.parseFloat\<close>: the number that the longest start of the text denotes.\<close>

definition parseFloat :: "jsstring \<Rightarrow> jsnum" where
  "parseFloat s =
     (let t = dropWhile is_white_space s
      in case List.find (\<lambda>p. p \<noteq> [] \<and> decimal_literal p \<noteq> NaN) (map (\<lambda>n. take n t) (rev [0..<Suc (length t)])) of
           Some p \<Rightarrow> decimal_literal p | None \<Rightarrow> NaN)"

type_synonym style_sheet = "string \<Rightarrow> jsstring"

definition color :: "style_sheet \<Rightarrow> string \<Rightarrow> string \<Rightarrow> jsstring" where
  "color styles name fallback = (let v = trim (styles name) in if v \<noteq> [] then v else js fallback)"

definition chartMetaSize :: "style_sheet \<Rightarrow> jsnum" where
  "chartMetaSize styles = (case parseFloat (color styles ''--type-meta'' ''11px'') of NaN \<Rightarrow> Num 11 | Num r \<Rightarrow> if r = 0 then Num 11 else Num r | n \<Rightarrow> n)"

text \<open>\<open>Math.max(44, chartMetaSize * 4)\<close>.\<close>

definition grid_left :: "jsnum \<Rightarrow> jsnum" where
  "grid_left n = (case n of NaN \<Rightarrow> NaN | PosInf \<Rightarrow> PosInf | NegInf \<Rightarrow> Num 44 | Num r \<Rightarrow> Num (max 44 (r * 4)))"

text \<open>The options as far as they depend on the data, the style sheet or the state; the constants among them are left out.\<close>

record chart_grid =
  cg_left :: jsnum
  cg_right :: nat
  cg_top :: string
  cg_height :: string

record chart_axis =
  xa_gridIndex :: nat
  xa_min :: "int option"
  xa_max :: "int option"
  xa_show_label :: bool

record chart_series =
  cs_name :: "jsstring option"
  cs_axis :: nat
  cs_data :: "(int \<times> int option) list"
  cs_showSymbol :: bool
  cs_line :: "jsstring option"
  cs_fill :: "jsstring option \<times> jsstring option"

record chart_option =
  co_animation :: bool
  co_fontFamily :: jsstring
  co_fontSize :: jsnum
  co_tooltip_colors :: "jsstring list"
  co_axis_colors :: "jsstring list"
  co_grid :: "chart_grid list"
  co_xAxis :: "chart_axis list"
  co_yAxis :: "(nat \<times> nat) list"
  co_series :: "chart_series list"

definition at_index :: "'a list \<Rightarrow> nat \<Rightarrow> 'a option" where
  "at_index xs i = (if i < length xs then Some (xs ! i) else None)"

definition series_colors :: "style_sheet \<Rightarrow> jsstring list" where
  "series_colors styles =
     [color styles ''--chart-events'' ''#2563e9'', color styles ''--chart-alerts'' ''#7c83fd'', color styles ''--chart-incidents'' ''#16a249'']"

definition series_fills :: "style_sheet \<Rightarrow> jsstring list" where
  "series_fills styles =
     [color styles ''--chart-events-fill'' ''rgba(37, 99, 233, .18)'', color styles ''--chart-alerts-fill'' ''rgba(124, 131, 253, .12)'',
      color styles ''--chart-incidents-fill'' ''rgba(22, 162, 73, .1)'']"

definition transparentFills :: "jsstring list" where
  "transparentFills = [js ''rgba(37, 99, 233, 0)'', js ''rgba(124, 131, 253, 0)'', js ''rgba(22, 162, 73, 0)'']"

definition chart_series_of :: "style_sheet \<Rightarrow> jsstring list \<Rightarrow> nat \<times> DetectionSeriesModel \<Rightarrow> chart_series" where
  "chart_series_of styles labels = (\<lambda>(i, s).
     \<lparr>cs_name = at_index labels i, cs_axis = i, cs_data = ds_points s, cs_showSymbol = (length (ds_points s) < 18),
      cs_line = at_index (series_colors styles) i, cs_fill = (at_index (series_fills styles) i, at_index transparentFills i)\<rparr>)"

definition chart_option_of :: "bool \<Rightarrow> style_sheet \<Rightarrow> int \<Rightarrow> jsstring list \<Rightarrow> DetectionActivityModel \<Rightarrow> chart_option" where
  "chart_option_of animate styles clientHeight labels model =
     (let left = grid_left (chartMetaSize styles); indices = [0..<length (da_series model)]
      in \<lparr>co_animation = animate, co_fontFamily = color styles ''--font-ui'' ''\"Inter Variable\", \"Pretendard Variable\", sans-serif'',
          co_fontSize = chartMetaSize styles,
          co_tooltip_colors = [color styles ''--surface-raised'' ''#1b1b20'', color styles ''--border-default'' ''#5d5e67'',
            color styles ''--text-primary'' ''#f5f5f6''],
          co_axis_colors = [color styles ''--chart-axis'' ''#8d8f98'', color styles ''--chart-grid'' ''#24252a''],
          co_grid = map (\<lambda>y. \<lparr>cg_left = left, cg_right = 16, cg_top = y, cg_height = ''22%''\<rparr>) [''4%'', ''35%'', ''66%''],
          co_xAxis = map (\<lambda>i. \<lparr>xa_gridIndex = i, xa_min = map_option fst (da_domain model), xa_max = map_option snd (da_domain model),
            xa_show_label = (i = 2)\<rparr>) indices,
          co_yAxis = map (\<lambda>i. (i, if clientHeight < 220 then 2 else 4)) indices,
          co_series = map (chart_series_of styles labels) (enumerate 0 (da_series model))\<rparr>)"

section \<open>The life cycle of the chart\<close>

text \<open>
  What a rendering of the panel depends on.  \<open>labels\<close> and \<open>model\<close> are memoised: the revisions say which object it is, and the
  effects compare objects.
\<close>

record panel_input =
  in_labels :: "jsstring list"
  in_labels_revision :: nat
  in_model :: DetectionActivityModel
  in_model_revision :: nat
  in_theme :: Theme

text \<open>
  The document around the panel: whether \<open>ResizeObserver\<close> exists, whether motion is to be reduced, the style sheet of a
  theme and the height of the container.
\<close>

record panel_document =
  pd_observes :: bool
  pd_reduced_motion :: bool
  pd_styles :: "Theme \<Rightarrow> style_sheet"
  pd_clientHeight :: int

text \<open>
  The references and the state of the panel, the charts that were made and not disposed of, the listeners on the
  window and the observers with the chart each of them resizes, the option each chart was given last, the options given so far,
  and the dependencies of the effects at their last run.
\<close>

record chart_panel =
  cp_rendered :: bool
  cp_chart :: "nat option"
  cp_selected :: "int option"
  cp_made :: nat
  cp_live :: "nat list"
  cp_listeners :: "(string \<times> nat) list"
  cp_observers :: "nat list"
  cp_options :: "(nat, chart_option) jsmap"
  cp_animations :: "bool list"
  cp_input :: "panel_input option"

definition mount_panel :: chart_panel where
  "mount_panel = \<lparr>cp_rendered = False, cp_chart = None, cp_selected = None, cp_made = 0, cp_live = [], cp_listeners = [], cp_observers = [],
     cp_options = [], cp_animations = [], cp_input = None\<rparr>"

definition hasDomain :: "panel_input \<Rightarrow> bool" where
  "hasDomain i \<longleftrightarrow> da_domain (in_model i) \<noteq> None"

text \<open>The container is in the document exactly when there is a domain; otherwise the panel says that there is no activity.\<close>

definition keep_selection_effect :: "panel_input \<Rightarrow> chart_panel \<Rightarrow> chart_panel" where
  "keep_selection_effect i p = p\<lparr>cp_selected := keep_selected (in_model i) (cp_selected p)\<rparr>"

definition make_chart :: "panel_document \<Rightarrow> panel_input \<Rightarrow> chart_panel \<Rightarrow> chart_panel" where
  "make_chart doc i p =
     (if \<not> hasDomain i then p
      else let chart = cp_made p
           in p\<lparr>cp_made := chart + 1, cp_live := cp_live p @ [chart], cp_chart := Some chart,
                cp_observers := cp_observers p @ (if pd_observes doc then [chart] else []),
                cp_listeners := cp_listeners p @ [(''resize'', chart), (''beforeprint'', chart), (''afterprint'', chart)]\<rparr>)"

text \<open>The clean-up closes over the chart its effect made, if it made one.\<close>

definition dispose_chart :: "chart_panel \<Rightarrow> chart_panel" where
  "dispose_chart p =
     (case cp_chart p of
        None \<Rightarrow> p
      | Some chart \<Rightarrow>
          p\<lparr>cp_observers := filter (\<lambda>c. c \<noteq> chart) (cp_observers p),
            cp_listeners := filter (\<lambda>l. snd l \<noteq> chart) (cp_listeners p),
            cp_live := filter (\<lambda>c. c \<noteq> chart) (cp_live p), cp_chart := None\<rparr>)"

definition option_effect :: "panel_document \<Rightarrow> panel_input \<Rightarrow> chart_panel \<Rightarrow> chart_panel" where
  "option_effect doc i p =
     (case cp_chart p of
        None \<Rightarrow> p
      | Some chart \<Rightarrow>
          if \<not> hasDomain i then p
          else let animate = (\<not> cp_rendered p \<and> \<not> pd_reduced_motion doc)
               in p\<lparr>cp_options := map_set (cp_options p) chart
                      (chart_option_of animate (pd_styles doc (in_theme i)) (pd_clientHeight doc) (in_labels i) (in_model i)),
                    cp_animations := cp_animations p @ [animate], cp_rendered := True\<rparr>)"

definition domain_changed :: "panel_input option \<Rightarrow> panel_input \<Rightarrow> bool" where
  "domain_changed old i \<longleftrightarrow> (case old of None \<Rightarrow> True | Some j \<Rightarrow> hasDomain j \<noteq> hasDomain i)"

definition option_changed :: "panel_input option \<Rightarrow> panel_input \<Rightarrow> bool" where
  "option_changed old i \<longleftrightarrow>
     (case old of None \<Rightarrow> True
      | Some j \<Rightarrow> in_labels_revision j \<noteq> in_labels_revision i \<or> in_model_revision j \<noteq> in_model_revision i \<or> in_theme j \<noteq> in_theme i)"

text \<open>
  A rendering that reaches the document: first the clean-ups of the effects that are to run again, then the effects,
  in their order.
\<close>

definition commit_panel :: "panel_document \<Rightarrow> panel_input \<Rightarrow> chart_panel \<Rightarrow> chart_panel" where
  "commit_panel doc i p =
     (let changed = domain_changed (cp_input p) i;
          p1 = (if changed then dispose_chart p else p);
          p2 = keep_selection_effect i p1;
          p3 = (if changed then make_chart doc i p2 else p2);
          p4 = (if option_changed (cp_input p) i then option_effect doc i p3 else p3)
      in p4\<lparr>cp_input := Some i\<rparr>)"

definition unmount_panel :: "chart_panel \<Rightarrow> chart_panel" where
  "unmount_panel p = (dispose_chart p)\<lparr>cp_input := None\<rparr>"

section \<open>What is drawn around the chart\<close>

definition day_text :: "(jsstring \<Rightarrow> jsstring) \<Rightarrow> int \<Rightarrow> jsstring" where
  "day_text format ms = format (iso_string ms)"

definition count_or :: "jsstring \<Rightarrow> int option \<Rightarrow> jsstring" where
  "count_or none v = (case v of Some n \<Rightarrow> id_text n | None \<Rightarrow> none)"

definition selectionSummary :: "(jsstring \<Rightarrow> jsstring) \<Rightarrow> jsstring \<Rightarrow> jsstring list \<Rightarrow> DetectionActivityModel \<Rightarrow> int \<Rightarrow> jsstring" where
  "selectionSummary format none labels model timestamp =
     day_text format timestamp @ js '': '' @
     join_text (js '', '') (map (\<lambda>(i, s). (case at_index labels i of Some l \<Rightarrow> l | None \<Rightarrow> js ''undefined'') @ js '' '' @
         count_or none (Option.bind (valueAt s timestamp) id)) (enumerate 0 (da_series model)))"

definition current_value :: "jsstring \<Rightarrow> int option list \<Rightarrow> nat \<times> jsstring \<Rightarrow> dom" where
  "current_value none latest = (\<lambda>(i, label).
     Element ''LI'' (js ''series-'' @ (case at_index [js ''events'', js ''alerts'', js ''incidents''] i of Some k \<Rightarrow> k | None \<Rightarrow> js ''undefined'')) []
       [plain ''SPAN'' [Element ''I'' [] [(''aria-hidden'', js ''true'')] [], TextNode label],
        plain ''STRONG'' [TextNode (count_or none (Option.bind (at_index latest i) id))]])"

definition bucket_option :: "(jsstring \<Rightarrow> jsstring) \<Rightarrow> int \<Rightarrow> dom" where
  "bucket_option format timestamp = Element ''OPTION'' [] [(''value'', id_text timestamp)] [TextNode (day_text format timestamp)]"

definition count_param :: "jsstring \<Rightarrow> int option list \<Rightarrow> nat \<Rightarrow> translation_param" where
  "count_param none latest i = (case Option.bind (at_index latest i) id of Some n \<Rightarrow> NumberParam n | None \<Rightarrow> TextParam none)"

definition activity_panel ::
  "text_for \<Rightarrow> (jsstring \<Rightarrow> jsstring) \<Rightarrow> jsstring \<Rightarrow> jsstring list \<Rightarrow> DetectionActivityModel \<Rightarrow> int \<times> int \<Rightarrow> int option \<Rightarrow> dom" where
  "activity_panel t format timezone labels model bounds selected =
     (let none = t ''common.none'' []; latest = latest_values model
      in classed ''DIV'' ''detection-activity-echarts''
           ([classed ''P'' ''sr-only'' [TextNode (t ''charts.detectionSummary'' [(js ''events'', count_param none latest 0),
               (js ''alerts'', count_param none latest 1), (js ''incidents'', count_param none latest 2)])],
             Element ''UL'' (js ''activity-current-values'') [(''aria-label'', t ''charts.currentValues'' [])]
               (map (current_value none latest) (enumerate 0 labels)),
             classed ''P'' ''activity-time-context'' [TextNode (t ''charts.timeContext'' [(js ''from'', TextParam (day_text format (fst bounds))),
               (js ''to'', TextParam (day_text format (snd bounds))), (js ''timezone'', TextParam timezone)])],
             Element ''DIV'' (js ''detection-echarts-canvas'') [(''aria-hidden'', js ''true'')] [],
             classed ''LABEL'' ''activity-bucket-inspector''
               [plain ''SPAN'' [TextNode (t ''charts.bucketSelection'' [])],
                Element ''SELECT'' [] [(''aria-label'', t ''charts.bucketSelection'' [])]
                  (Element ''OPTION'' [] [(''value'', [])] [TextNode (t ''charts.selectBucket'' [])] # map (bucket_option format) (da_timestamps model))]] @
            (case selected of
               None \<Rightarrow> []
             | Some timestamp \<Rightarrow> [Element ''P'' (js ''chart-selected-value'') [(''aria-live'', js ''polite'')]
                 [TextNode (selectionSummary format none labels model timestamp)]])))"

definition DetectionActivityPanel ::
  "text_for \<Rightarrow> (string \<Rightarrow> dom) \<Rightarrow> (jsstring \<Rightarrow> jsstring) \<Rightarrow> jsstring \<Rightarrow> jsstring option \<Rightarrow> DetectionActivityModel \<Rightarrow> int option \<Rightarrow> dom" where
  "DetectionActivityPanel t icon format timezone recoveryTo model selected =
     (case da_domain model of
        None \<Rightarrow> EmptyState icon (t ''charts.noDetectionActivity'' []) (t ''charts.noSeriesDescription'' [])
          (text_if recoveryTo (\<lambda>target. Link (js ''button'') target [TextNode (t ''filter.latest7Days'' [])])) True
      | Some bounds \<Rightarrow>
          activity_panel t format timezone [t ''overview.events'' [], t ''overview.alerts'' [], t ''overview.openIncidents'' []] model bounds selected)"

section \<open>The text of a tip\<close>

text \<open>\<open>String(value)\<close> and \<open>Number(value)\<close> of the values the chart hands over; \<open>None\<close> is \<open>undefined\<close>.\<close>

fun String_value :: "json \<Rightarrow> jsstring" where
  "String_value JNull = js ''null''"
| "String_value (JBool b) = (if b then js ''true'' else js ''false'')"
| "String_value (JNum n) = js_String n"
| "String_value (JStr s) = s"
| "String_value (JArr vs) = join_text (js '','') (map (\<lambda>v. if v = JNull then [] else String_value v) vs)"
| "String_value (JObj ms) = js ''[object Object]''"

definition Number_value :: "json option \<Rightarrow> jsnum" where
  "Number_value v =
     (case v of
        None \<Rightarrow> NaN | Some JNull \<Rightarrow> Num 0 | Some (JBool b) \<Rightarrow> Num (if b then 1 else 0) | Some (JNum n) \<Rightarrow> n
      | Some w \<Rightarrow> js_Number (String_value w))"

definition isTooltipParam :: "json \<Rightarrow> bool" where
  "isTooltipParam v \<longleftrightarrow> has_prop v ''value'' \<and> has_prop v ''seriesIndex'' \<and> has_prop v ''seriesName''"

definition tooltip_rows :: "json \<Rightarrow> json list" where
  "tooltip_rows raw = filter isTooltipParam (case raw of JArr vs \<Rightarrow> vs | _ \<Rightarrow> [raw])"

definition row_label :: "jsstring list \<Rightarrow> json \<Rightarrow> jsstring" where
  "row_label labels row =
     (let named = (case get_prop row ''seriesName'' of Some v \<Rightarrow> String_value v | None \<Rightarrow> js ''undefined'')
      in case get_prop row ''seriesIndex'' of
           Some (JNum (Num r)) \<Rightarrow>
             if 0 \<le> r \<and> of_int \<lfloor>r\<rfloor> = r \<and> nat \<lfloor>r\<rfloor> < length labels then labels ! nat \<lfloor>r\<rfloor> else named
         | _ \<Rightarrow> named)"

definition row_value :: "json \<Rightarrow> jsstring" where
  "row_value row =
     (case get_prop row ''value'' of
        Some (JArr vs) \<Rightarrow> (case at_index vs 1 of Some v \<Rightarrow> String_value v | None \<Rightarrow> js ''undefined'')
      | Some v \<Rightarrow> String_value v
      | None \<Rightarrow> js ''undefined'')"

definition tip_time :: "(jsstring \<Rightarrow> jsstring) \<Rightarrow> json \<Rightarrow> js_error + jsstring" where
  "tip_time format row =
     (case (case get_prop row ''value'' of Some (JArr vs) \<Rightarrow> Number_value (at_index vs 0) | _ \<Rightarrow> NaN) of
        Num r \<Rightarrow> map_sum id format (toISOString (time_clip (if r < 0 then \<lceil>r\<rceil> else \<lfloor>r\<rfloor>)))
      | _ \<Rightarrow> Inr [])"

definition formatTooltip :: "(jsstring \<Rightarrow> jsstring) \<Rightarrow> jsstring list \<Rightarrow> json \<Rightarrow> js_error + jsstring" where
  "formatTooltip format labels raw =
     (case tooltip_rows raw of
        [] \<Rightarrow> Inr []
      | first # rest \<Rightarrow>
          map_sum id
            (\<lambda>time. join_text (js ''<br>'')
               ((js ''<strong>'' @ time @ js ''</strong>'') # map (\<lambda>row. row_label labels row @ js '': '' @ row_value row) (first # rest)))
            (tip_time format first))"

section \<open>Choosing a bucket\<close>

text \<open>The values of the options are the empty text and the time stamps, which are integers.\<close>

definition onChange_bucket :: "DetectionActivityModel \<Rightarrow> jsstring \<Rightarrow> int option \<times> (nat \<times> nat) option" where
  "onChange_bucket model v =
     (case js_Number v of Num r \<Rightarrow> if v \<noteq> [] then selectTimestamp model \<lfloor>r\<rfloor> else (None, None) | _ \<Rightarrow> (None, None))"

definition choose_bucket :: "jsstring \<Rightarrow> chart_panel \<Rightarrow> chart_panel" where
  "choose_bucket v p = (case cp_input p of None \<Rightarrow> p | Some i \<Rightarrow> p\<lparr>cp_selected := fst (onChange_bucket (in_model i) v)\<rparr>)"

text \<open>
  The states that renderings and choices reach.  An object that is the same as before has the same content, the time
  stamps are times of the language (\<open>Date.parse\<close> gives no others), and the choice is one of the options that are drawn.
\<close>

definition same_objects :: "panel_input option \<Rightarrow> panel_input \<Rightarrow> bool" where
  "same_objects old i \<longleftrightarrow>
     (case old of None \<Rightarrow> True
      | Some j \<Rightarrow> (in_labels_revision j = in_labels_revision i \<longrightarrow> in_labels j = in_labels i) \<and>
          (in_model_revision j = in_model_revision i \<longrightarrow> in_model j = in_model i))"

definition times_ok :: "DetectionActivityModel \<Rightarrow> bool" where
  "times_ok model \<longleftrightarrow> list_all (\<lambda>t. \<bar>t\<bar> \<le> 8640000000000000) (da_timestamps model)"

definition bucket_values :: "DetectionActivityModel \<Rightarrow> jsstring list" where
  "bucket_values model = [] # map id_text (da_timestamps model)"

inductive panel_step :: "panel_document \<Rightarrow> chart_panel \<Rightarrow> chart_panel \<Rightarrow> bool" for doc where
  render: "same_objects (cp_input p) i \<Longrightarrow> times_ok (in_model i) \<Longrightarrow> panel_step doc p (commit_panel doc i p)"
| choose: "cp_input p = Some i \<Longrightarrow> v \<in> set (bucket_values (in_model i)) \<Longrightarrow> panel_step doc p (choose_bucket v p)"

inductive reachable_panel :: "panel_document \<Rightarrow> chart_panel \<Rightarrow> bool" for doc where
  mounted: "reachable_panel doc mount_panel"
| step: "reachable_panel doc p \<Longrightarrow> panel_step doc p p' \<Longrightarrow> reachable_panel doc p'"

inductive_simps panel_step_iff: "panel_step doc p p'"

section \<open>Facts\<close>

definition chart_listeners :: "nat \<Rightarrow> (string \<times> nat) list" where
  "chart_listeners n = [(''resize'', n), (''beforeprint'', n), (''afterprint'', n)]"

definition no_chart :: "chart_panel \<Rightarrow> bool" where
  "no_chart p \<longleftrightarrow> cp_chart p = None \<and> cp_live p = [] \<and> cp_listeners p = [] \<and> cp_observers p = []"

definition one_chart :: "panel_document \<Rightarrow> nat \<Rightarrow> chart_panel \<Rightarrow> bool" where
  "one_chart doc n p \<longleftrightarrow> cp_chart p = Some n \<and> cp_live p = [n] \<and> cp_listeners p = chart_listeners n \<and>
     cp_observers p = (if pd_observes doc then [n] else [])"

definition current_option :: "panel_document \<Rightarrow> panel_input \<Rightarrow> bool \<Rightarrow> chart_option" where
  "current_option doc i a = chart_option_of a (pd_styles doc (in_theme i)) (pd_clientHeight doc) (in_labels i) (in_model i)"

definition chart_inv :: "panel_document \<Rightarrow> panel_input \<Rightarrow> chart_panel \<Rightarrow> bool" where
  "chart_inv doc i p \<longleftrightarrow>
     (if hasDomain i then \<exists>n a. one_chart doc n p \<and> map_get (cp_options p) n = Some (current_option doc i a) else no_chart p)"

definition animation_inv :: "panel_document \<Rightarrow> chart_panel \<Rightarrow> bool" where
  "animation_inv doc p \<longleftrightarrow> cp_rendered p = (cp_animations p \<noteq> []) \<and> list_all Not (tl (cp_animations p)) \<and>
     (pd_reduced_motion doc \<longrightarrow> list_all Not (cp_animations p))"

definition panel_inv :: "panel_document \<Rightarrow> chart_panel \<Rightarrow> bool" where
  "panel_inv doc p \<longleftrightarrow>
     (case cp_input p of
        None \<Rightarrow> no_chart p \<and> cp_selected p = None
      | Some i \<Rightarrow> chart_inv doc i p \<and> times_ok (in_model i) \<and>
          (case cp_selected p of None \<Rightarrow> True | Some t \<Rightarrow> t \<in> set (da_timestamps (in_model i)))) \<and>
     animation_inv doc p"

subsection \<open>The effects\<close>

lemma dispose_all: "(\<exists>n. one_chart doc n p) \<or> no_chart p \<Longrightarrow> no_chart (dispose_chart p)"
  by (auto simp: one_chart_def no_chart_def dispose_chart_def chart_listeners_def split: if_splits)

lemma dispose_keeps [simp]:
  "cp_selected (dispose_chart p) = cp_selected p" "cp_options (dispose_chart p) = cp_options p" "cp_rendered (dispose_chart p) = cp_rendered p"
  "cp_animations (dispose_chart p) = cp_animations p" "cp_input (dispose_chart p) = cp_input p"
  by (simp_all add: dispose_chart_def split: option.split)

lemma keep_selection_keeps [simp]:
  "one_chart doc n (keep_selection_effect i p) = one_chart doc n p" "no_chart (keep_selection_effect i p) = no_chart p"
  "cp_chart (keep_selection_effect i p) = cp_chart p"
  "cp_options (keep_selection_effect i p) = cp_options p" "cp_rendered (keep_selection_effect i p) = cp_rendered p"
  "cp_animations (keep_selection_effect i p) = cp_animations p" "cp_input (keep_selection_effect i p) = cp_input p"
  by (simp_all add: keep_selection_effect_def one_chart_def no_chart_def)

lemma make_chart_one: "no_chart p \<Longrightarrow> hasDomain i \<Longrightarrow> one_chart doc (cp_made p) (make_chart doc i p)"
  by (simp add: make_chart_def no_chart_def one_chart_def chart_listeners_def Let_def)

lemma make_chart_none: "\<not> hasDomain i \<Longrightarrow> make_chart doc i p = p"
  by (simp add: make_chart_def)

lemma make_chart_keeps [simp]:
  "cp_selected (make_chart doc i p) = cp_selected p" "cp_options (make_chart doc i p) = cp_options p" "cp_rendered (make_chart doc i p) = cp_rendered p"
  "cp_animations (make_chart doc i p) = cp_animations p" "cp_input (make_chart doc i p) = cp_input p"
  by (simp_all add: make_chart_def Let_def)

lemma option_effect_keeps [simp]:
  "one_chart doc n (option_effect doc' i p) = one_chart doc n p" "no_chart (option_effect doc' i p) = no_chart p"
  "cp_selected (option_effect doc' i p) = cp_selected p" "cp_input (option_effect doc' i p) = cp_input p"
  by (simp_all add: option_effect_def Let_def one_chart_def no_chart_def split: option.split)

lemma option_effect_sets:
  "one_chart doc n p \<Longrightarrow> hasDomain i \<Longrightarrow> \<exists>a. map_get (cp_options (option_effect doc i p)) n = Some (current_option doc i a)"
  by (auto simp: option_effect_def one_chart_def current_option_def Let_def)

lemma option_effect_animation: "animation_inv doc p \<Longrightarrow> animation_inv doc (option_effect doc i p)"
  by (cases "cp_animations p") (auto simp: animation_inv_def option_effect_def Let_def split: option.split)

lemma keep_selected_member: "keep_selected m s = Some t \<Longrightarrow> t \<in> set (da_timestamps m)"
  by (auto simp: keep_selected_def split: option.splits if_splits)

subsection \<open>Steps\<close>

lemma with_input [simp]: "one_chart doc n (p\<lparr>cp_input := x\<rparr>) = one_chart doc n p" "no_chart (p\<lparr>cp_input := x\<rparr>) = no_chart p"
  by (simp_all add: one_chart_def no_chart_def)

lemma commit_chart_inv:
  assumes inv: "panel_inv doc p" and same: "same_objects (cp_input p) i"
  shows "chart_inv doc i (commit_panel doc i p)"
proof (cases "domain_changed (cp_input p) i")
  case True
  have "no_chart (dispose_chart p)"
    using inv by (intro dispose_all [of doc]) (auto simp: panel_inv_def chart_inv_def split: option.splits if_splits)
  moreover have "option_changed (cp_input p) i"
    using True same by (auto simp: domain_changed_def option_changed_def same_objects_def hasDomain_def split: option.splits)
  ultimately show ?thesis
    using True make_chart_one [of "keep_selection_effect i (dispose_chart p)" i doc]
      option_effect_sets [of doc "cp_made (keep_selection_effect i (dispose_chart p))" "make_chart doc i (keep_selection_effect i (dispose_chart p))" i]
    by (auto simp: commit_panel_def Let_def chart_inv_def make_chart_none)
next
  case False
  then obtain j where j: "cp_input p = Some j" "hasDomain j = hasDomain i" by (auto simp: domain_changed_def split: option.splits)
  have old: "chart_inv doc j p" using inv j by (simp add: panel_inv_def)
  show ?thesis
  proof (cases "option_changed (cp_input p) i")
    case True
    with False old j option_effect_sets [of doc _ "keep_selection_effect i p" i] show ?thesis
      by (auto simp: commit_panel_def Let_def chart_inv_def split: if_splits)
  next
    case unchanged: False
    then have "in_labels j = in_labels i" "in_model j = in_model i" "in_theme j = in_theme i"
      using same j by (auto simp: option_changed_def same_objects_def)
    then have "current_option doc j = current_option doc i" by (intro ext) (simp add: current_option_def)
    with False unchanged old j show ?thesis
      by (auto simp: commit_panel_def Let_def chart_inv_def split: if_splits)
  qed
qed

lemma commit_rest:
  "cp_input (commit_panel doc i p) = Some i"
  "cp_selected (commit_panel doc i p) = keep_selected (in_model i) (cp_selected p)"
  "animation_inv doc p \<Longrightarrow> animation_inv doc (commit_panel doc i p)"
proof -
  show "cp_input (commit_panel doc i p) = Some i" by (simp add: commit_panel_def Let_def)
  show "cp_selected (commit_panel doc i p) = keep_selected (in_model i) (cp_selected p)"
    by (simp add: commit_panel_def Let_def keep_selection_effect_def)
  assume a: "animation_inv doc p"
  have keep: "animation_inv doc (q\<lparr>cp_input := x\<rparr>) = animation_inv doc q" for q x by (simp add: animation_inv_def)
  have "animation_inv doc q" if "cp_rendered q = cp_rendered p" "cp_animations q = cp_animations p" for q
    using a that by (simp add: animation_inv_def)
  then show "animation_inv doc (commit_panel doc i p)"
    by (simp add: commit_panel_def Let_def keep option_effect_animation)
qed

lemma bucket_round_trip:
  assumes "times_ok model" "t \<in> set (da_timestamps model)"
  shows "fst (onChange_bucket model (id_text t)) = Some t"
proof -
  have "\<bar>t\<bar> < 2 ^ 53" using assms by (auto simp: times_ok_def list_all_iff)
  then show ?thesis
    using js_Number_show_int [of t] by (simp add: onChange_bucket_def js_String_int selectTimestamp_def)
qed

lemma bucket_empty: "onChange_bucket model [] = (None, None)"
  by (simp add: onChange_bucket_def split: jsnum.split)

lemma panel_step_inv: "panel_step doc p p' \<Longrightarrow> panel_inv doc p \<Longrightarrow> panel_inv doc p'"
proof (induction rule: panel_step.induct)
  case (render p i)
  have "case keep_selected (in_model i) (cp_selected p) of None \<Rightarrow> True | Some t \<Rightarrow> t \<in> set (da_timestamps (in_model i))"
    by (auto split: option.split dest: keep_selected_member)
  moreover have "animation_inv doc p" using render.prems by (simp add: panel_inv_def)
  ultimately show ?case
    using commit_chart_inv [OF render.prems render.hyps(1)] render.hyps(2) unfolding panel_inv_def [of doc "commit_panel doc i p"]
    by (simp add: commit_rest)
next
  case (choose p i v)
  have keep: "chart_inv doc i (p\<lparr>cp_selected := x\<rparr>) = chart_inv doc i p" "animation_inv doc (p\<lparr>cp_selected := x\<rparr>) = animation_inv doc p" for x
    by (simp_all add: chart_inv_def one_chart_def no_chart_def animation_inv_def)
  have ok: "times_ok (in_model i)" using choose by (simp add: panel_inv_def)
  have "case fst (onChange_bucket (in_model i) v) of None \<Rightarrow> True | Some t \<Rightarrow> t \<in> set (da_timestamps (in_model i))"
    using choose.hyps(2) bucket_round_trip [OF ok] by (auto simp: bucket_values_def bucket_empty)
  then show ?case using choose by (simp add: panel_inv_def choose_bucket_def keep)
qed

lemma mount_panel_inv: "panel_inv doc mount_panel"
  by (simp add: panel_inv_def mount_panel_def no_chart_def animation_inv_def)

lemma reachable_panel_inv: "reachable_panel doc p \<Longrightarrow> panel_inv doc p"
  by (induction rule: reachable_panel.induct) (blast intro: mount_panel_inv panel_step_inv)+

lemma unmount_no_chart: "reachable_panel doc p \<Longrightarrow> no_chart (unmount_panel p)"
proof -
  assume "reachable_panel doc p"
  then have "panel_inv doc p" by (rule reachable_panel_inv)
  then have "no_chart (dispose_chart p)"
    by (intro dispose_all [of doc]) (auto simp: panel_inv_def chart_inv_def split: option.splits if_splits)
  then show ?thesis by (simp add: unmount_panel_def no_chart_def)
qed

subsection \<open>Tips\<close>

text \<open>What the chart hands over for a bucket: an object for every series.\<close>

definition tip_param :: "int \<Rightarrow> nat \<times> jsstring \<times> int option \<Rightarrow> json" where
  "tip_param timestamp = (\<lambda>(i, label, v).
     JObj [(js ''seriesIndex'', JNum (Num (of_nat i))), (js ''seriesName'', JStr label),
       (js ''value'', JArr [JNum (Num (of_int timestamp)), case v of Some n \<Rightarrow> JNum (Num (of_int n)) | None \<Rightarrow> JNull])])"

lemma tip_param_parts:
  "isTooltipParam (tip_param ts (i, label, v))"
  "row_value (tip_param ts (i, label, v)) = count_or (js ''null'') v"
  "i < length labels \<Longrightarrow> row_label labels (tip_param ts (i, label, v)) = labels ! i"
  "\<bar>ts\<bar> \<le> 8640000000000000 \<Longrightarrow> tip_time format (tip_param ts (i, label, v)) = Inr (day_text format ts)"
  by (auto simp: tip_param_def isTooltipParam_def has_prop_def get_prop_def row_value_def at_index_def count_or_def row_label_def tip_time_def
      Number_value_def time_clip_def toISOString_def day_text_def split: option.split)

lemma formatTooltip_rows:
  "tooltip_rows raw = rows \<Longrightarrow> rows \<noteq> [] \<Longrightarrow> tip_time format (hd rows) = Inr time \<Longrightarrow>
   formatTooltip format labels raw = Inr (join_text (js ''<br>'') ((js ''<strong>'' @ time @ js ''</strong>'') #
     map (\<lambda>row. row_label labels row @ js '': '' @ row_value row) rows))"
  by (cases rows) (simp_all add: formatTooltip_def)

text \<open>The tip of a bucket: its time and, line by line, the labels with their counts.\<close>

lemma tip_of_bucket:
  assumes "\<bar>ts\<bar> \<le> 8640000000000000" "length vs = length labels" "labels \<noteq> []"
  shows "formatTooltip format labels (JArr (map (tip_param ts) (enumerate 0 (zip labels vs)))) =
    Inr (join_text (js ''<br>'') ((js ''<strong>'' @ day_text format ts @ js ''</strong>'') #
      map (\<lambda>(l, v). l @ js '': '' @ count_or (js ''null'') v) (zip labels vs)))"
proof -
  define es where "es = enumerate 0 (zip labels vs)"
  have entry: "i < length labels \<and> labels ! i = l" if "(i, l, v) \<in> set es" for i l v
    using that assms(2) by (auto simp: es_def in_set_enumerate_eq)
  have "filter isTooltipParam (map (tip_param ts) us) = map (tip_param ts) us" for us
    by (induction us) (auto simp: tip_param_parts)
  then have rows: "tooltip_rows (JArr (map (tip_param ts) es)) = map (tip_param ts) es" by (simp add: tooltip_rows_def)
  have lines: "map (\<lambda>row. row_label labels row @ js '': '' @ row_value row) (map (tip_param ts) es) =
      map (\<lambda>(l, v). l @ js '': '' @ count_or (js ''null'') v) (map snd es)"
    using entry by (auto simp: tip_param_parts)
  have "es \<noteq> []" using assms(2,3) by (auto simp: es_def enumerate_eq_zip)
  moreover have "tip_time format (tip_param ts e) = Inr (day_text format ts)" for e
    using assms(1) by (cases e) (auto intro: tip_param_parts(4))
  ultimately have "formatTooltip format labels (JArr (map (tip_param ts) es)) =
      Inr (join_text (js ''<br>'') ((js ''<strong>'' @ day_text format ts @ js ''</strong>'') # map (\<lambda>row. row_label labels row @ js '': '' @ row_value row) (map (tip_param ts) es)))"
    by (intro formatTooltip_rows [OF rows]) (simp_all add: hd_map)
  then show ?thesis unfolding lines by (simp add: es_def)
qed

end
