(* ===== verification/MarkupProperties.thy ===== *)
theory MarkupProperties
  imports ShellMarkup DetectionPanel LayoutProperties
begin

text \<open>
  The properties of what the console draws: what its elements refer to is drawn, and the report reads from the
  page what the page shows of the data.
\<close>

section \<open>References\<close>

text \<open>
  What is put together from the elements of the console.  An element of a page itself may carry any attribute but a
  reference; a field is given no attribute that it sets itself.
\<close>

definition reference_free :: "(string \<times> 'v) list \<Rightarrow> bool" where
  "reference_free as \<longleftrightarrow> fst ` set as \<inter> {''aria-labelledby'', ''aria-describedby'', ''for''} = {}"

definition field_props :: "jsx_attributes \<Rightarrow> bool" where
  "field_props props \<longleftrightarrow> fst ` set props \<inter> {''id'', ''aria-describedby'', ''aria-labelledby'', ''for''} = {}"

inductive console_markup :: "markup \<Rightarrow> bool" where
  nothing: "console_markup []"
| words: "console_markup [TextNode s]"
| beside: "console_markup ns \<Longrightarrow> console_markup ms \<Longrightarrow> console_markup (ns @ ms)"
| element: "reference_free as \<Longrightarrow> console_markup ns \<Longrightarrow> console_markup [Element tag c as ns]"
| button: "reference_free (spread ([(''aria-busy'', flag_attribute loading), (''disabled'', disabled_attribute (disabled \<or> loading))] @ props)) \<Longrightarrow>
    console_markup ns \<Longrightarrow> console_markup [Button ns className disabled loading variant props]"
| field: "console_markup ns \<Longrightarrow> console_markup [Field label helper error ns]"
| text_field: "field_props props \<Longrightarrow> console_markup [TextField generatedId label helper error given className props]"
| select_field: "field_props props \<Longrightarrow> console_markup ns \<Longrightarrow>
    console_markup [SelectField generatedId label helper error given className ns props]"
| tooltip: "console_markup [child] \<Longrightarrow> console_markup [Tooltip tipId label child]"
| popover: "console_markup trigger \<Longrightarrow> console_markup ns \<Longrightarrow> console_markup [Popover label trigger ns className p]"
| dialog: "console_markup (icon ''X'' # actions) \<Longrightarrow> console_markup ns \<Longrightarrow>
    console_markup (Dialog titleId icon dialogOpen title eyebrow ns actions closeLabel className)"
| drawer: "console_markup [icon ''X''] \<Longrightarrow> console_markup ns \<Longrightarrow>
    console_markup (Drawer titleId icon drawerOpen label closeLabel ns side title)"
| panel: "console_markup meta \<Longrightarrow> console_markup ns \<Longrightarrow> console_markup [Panel titleId title subtitle meta ns className]"
| ledger_section: "console_markup (concat (map snd (case facts of Some is \<Rightarrow> is | None \<Rightarrow> []))) \<Longrightarrow> console_markup ns \<Longrightarrow>
    console_markup [DetailLedgerSection titleId title subtitle facts ns className]"
| inspector: "console_markup actions \<Longrightarrow> console_markup ns \<Longrightarrow> console_markup [Inspector titleId title description ns actions]"
| chart_frame: "console_markup (meta @ fallback) \<Longrightarrow> console_markup ns \<Longrightarrow>
    console_markup [ChartFrame t titleId title description meta ns fallback]"
| frame: "shell_view_ok v \<Longrightarrow> console_markup ns \<Longrightarrow> console_markup [AppShell v s ns]"

lemma element_dangling: "reference_free as \<Longrightarrow> set (dangling [Element tag c as ns]) \<subseteq> set (dangling ns)"
proof -
  assume free: "reference_free as"
  then have "a \<in> {''aria-labelledby'', ''aria-describedby'', ''for''} \<Longrightarrow> map_of as a = None" for a
    unfolding reference_free_def map_of_eq_None_iff by blast
  then have "attribute_names [''aria-labelledby'', ''aria-describedby'', ''for''] as = []" by (simp add: attribute_names_def)
  then show ?thesis by (auto simp: set_dangling)
qed

lemma none_dangling: "set (dangling ns) \<subseteq> set (dangling ms) \<Longrightarrow> dangling ms = [] \<Longrightarrow> dangling ns = []" by simp

text \<open>
  C32. Whatever is put together from the elements of the console and shown in its frame, every element that another one names as its
  label or its description is drawn: no such reference is left open, in an open dialog as in a closed one, with the drawer of the
  navigation, the account menu or the report open or not.
\<close>

theorem console_references_drawn:
  assumes "console_markup ns"
  shows "dangling ns = []"
  using assms
proof induction
  case (beside ns ms) then show ?case using dangling_append [of ns ms] by simp
next
  case (element as ns tag c) then show ?case using none_dangling [OF element_dangling] by simp
next
  case (button loading disabled props ns className variant)
  show ?case unfolding Button_def by (rule none_dangling [OF element_dangling [OF button.hyps(1)] button.IH])
next
  case (text_field props) then show ?case using text_field_dangling by (simp add: field_props_def)
next
  case (select_field props ns)
  show ?case by (rule none_dangling [OF select_field_dangling [OF select_field.hyps(1) [unfolded field_props_def]] select_field.IH])
next
  case (tooltip child) show ?case by (rule none_dangling [OF tooltip_dangling tooltip.IH])
next
  case (field ns) then show ?case using field.draw_closed by (simp add: field.closed_in_def dangling_def)
next
  case (popover trigger ns) then show ?case using popover_frame.draw_closed by (simp add: popover_frame.closed_in_def)
next
  case (dialog icon actions ns) then show ?case using dialog.draw_closed by (simp add: dialog.closed_in_def)
next
  case (drawer icon ns) then show ?case using drawer.draw_closed by (simp add: drawer.closed_in_def)
next
  case (panel meta ns) then show ?case using panel.draw_closed by (simp add: panel.closed_in_def)
next
  case (ledger_section facts ns) then show ?case using ledger_section.draw_closed by (simp add: ledger_section.closed_in_def)
next
  case (inspector actions ns) then show ?case using inspector.draw_closed by (simp add: inspector.closed_in_def)
next
  case (chart_frame meta fallback ns) then show ?case using chart_frame.draw_closed by (simp add: chart_frame.closed_in_def)
next
  case (frame v ns s) then show ?case using shell_closed [of v ns s] by (simp add: closed_def)
qed (simp_all add: dangling_def)

theorem console_references_drawn_witness:
  "dangling (Dialog (js ''r1'') (\<lambda>n. TextNode []) True (js ''Rename'') None
     [TextField (js ''r2'') (js ''Name'') (Some (js ''Required'')) None None [] [(''maxlength'', Some (js ''64''))]] [] (js ''Close'') []) = []"
proof (rule console_references_drawn)
  show "console_markup (Dialog (js ''r1'') (\<lambda>n. TextNode []) True (js ''Rename'') None
      [TextField (js ''r2'') (js ''Name'') (Some (js ''Required'')) None None [] [(''maxlength'', Some (js ''64''))]] [] (js ''Close'') [])"
    by (intro console_markup.dialog console_markup.text_field console_markup.words) (simp add: field_props_def)
qed

section \<open>The report of a page\<close>

text \<open>
  C28. The numbers of the overview are in the report as they are shown: for every card of the row, in its order, the
  report has its label, its number and its detail, and it calls the number of endpoints at risk a current snapshot
  and the others numbers of the selected period; a card without data is left out.
\<close>

theorem report_numbers_as_shown:
  assumes "\<forall>k. quiet is_kpi (icon k)" "quiet is_kpi (icons ''ArrowRight'')" "\<forall>k. list_all (quiet is_kpi) (fallback k)"
    and "list_all (quiet is_kpi) before" "list_all (quiet is_kpi) rest"
    and "list_all (\<lambda>(k, kpi). \<bar>kpi_value kpi\<bar> \<le> 2 ^ 53 \<and> normalized_text (t (kpi_label kpi) []) \<noteq> []) (kpi_entries t d s)"
  shows "collectMetrics [main_content (before @ [kpi_row t icons icon fallback d s] @ rest)] =
    map (\<lambda>(k, kpi). kpi_metric t k kpi) (kpi_entries t d s)"
proof -
  let ?main = "main_content (before @ [kpi_row t icons icon fallback d s] @ rest)"
  let ?node = "\<lambda>(k, kpi). [draw_kpi t icons (icon k) kpi, kpi_block t icons icon fallback d s k, kpi_row t icons icon fallback d s, ?main]"
  have nodes: "querySelectorAll [?main] [Simple (of_class ''kpi-card'')] = map ?node (kpi_entries t d s)"
    unfolding main_content_def using assms by (intro kpi_query) auto
  have "metric_of (?node (k, kpi)) = Some (kpi_metric t k kpi)" if e: "(k, kpi) \<in> set (kpi_entries t d s)" for k kpi
  proof -
    from e assms(6) have "\<bar>kpi_value kpi\<bar> \<le> 2 ^ 53" "normalized_text (t (kpi_label kpi) []) \<noteq> []" by (auto simp: list_all_iff)
    then show ?thesis unfolding prod.case kpi_block_alt by (rule kpi_card_node) (use kpi_entries_member [OF e] in simp)
  qed
  then have "map metric_of (map ?node (kpi_entries t d s)) = map (\<lambda>(k, kpi). Some (kpi_metric t k kpi)) (kpi_entries t d s)"
    unfolding map_map by (intro map_cong) auto
  then have metrics: "map metric_of (querySelectorAll [?main] [Simple (of_class ''kpi-card'')]) = map Some (map (\<lambda>(k, kpi). kpi_metric t k kpi) (kpi_entries t d s))"
    unfolding nodes by (simp add: case_prod_beta)
  have "filter (\<lambda>m. m \<noteq> None) (map Some xs) = map Some xs" for xs :: "DashboardReportMetric list" by (induction xs) auto
  then show ?thesis
    unfolding collectMetrics_def metrics using kpi_entries_length [of t d s] by (simp add: comp_def)
qed

definition sample_overview :: overview_data where
  "sample_overview = \<lparr>od_dashboard = None, od_endpoints = Some \<lparr>et_online = 4, et_all = 5, et_highRisk = 2\<rparr>, od_topEndpoints = [],
     od_incidentQueue = [], od_selectedEndpointId = None, od_timeRange = \<lparr>tr_preset = None, tr_from = None, tr_to = None\<rparr>\<rparr>"

definition sample_states :: widget_states where
  "sample_states = (let p = \<lparr>ps_pending = True, ps_error = None, ps_stale = False\<rparr>
     in \<lparr>ws_ranking = p, ws_queue = p, ws_dashboard = p, ws_endpoints = p\<rparr>)"

theorem report_numbers_as_shown_witness:
  "collectMetrics [main_content ([] @ [kpi_row (\<lambda>k ps. js k) (\<lambda>n. TextNode []) (\<lambda>k. TextNode []) (\<lambda>k. []) sample_overview sample_states] @ [])] =
     map (\<lambda>(k, kpi). kpi_metric (\<lambda>k ps. js k) k kpi) (kpi_entries (\<lambda>k ps. js k) sample_overview sample_states)"
proof -
  have "list_all (\<lambda>c. \<not> is_white_space c) (js ''overview.highRiskEndpoints'')" by (simp add: js_def is_white_space_def)
  then have "normalized_text (js ''overview.highRiskEndpoints'') \<noteq> []" by (simp add: normalized_solid)
  then have "list_all (\<lambda>(k, kpi). \<bar>kpi_value kpi\<bar> \<le> 2 ^ 53 \<and> normalized_text (js (kpi_label kpi)) \<noteq> []) (kpi_entries (\<lambda>k ps. js k) sample_overview sample_states)"
    by (simp add: kpi_entries_def KPI_ROW_def sample_overview_def sample_states_def ResourceFeedback_def Let_def)
  then show ?thesis by (intro report_numbers_as_shown) simp_all
qed

text \<open>
  C29. The facts of a ledger are in the report as they are shown: a group for every section that has some, under the
  title of the section and in its order, with the label and the text of every fact that has both.
\<close>

theorem report_facts_as_shown:
  assumes "list_all section_ok ss" "\<not> is_facts (DetailLedger [] className)"
    and "list_all (quiet is_facts) before" "list_all (quiet is_facts) rest"
  shows "collectFactGroups [main_content (before @ [DetailLedger (map draw_section ss) className] @ rest)] =
    filter (\<lambda>g. fg_items g \<noteq> []) (map section_group ss)"
proof -
  define main where "main = main_content (before @ [DetailLedger (map draw_section ss) className] @ rest)"
  obtain ledger where ledger: "dom_attribute ledger ''data-overview-block'' = None" "dom_tag ledger \<noteq> ''A''"
    and query: "querySelectorAll [main] [Simple (of_class ''definition-grid''), Simple (of_class ''detail-fact-list'')] =
      concat (map (\<lambda>s. map (\<lambda>dl. [dl, section_content s, draw_section s, ledger, main]) (facts_of s)) ss)"
    using ledger_query [OF assms] unfolding main_def by blast
  have outer: "list_all (\<lambda>e. dom_attribute e ''data-overview-block'' = None \<and> dom_tag e \<noteq> ''A'') [ledger, main]"
    using ledger by (simp add: main_def main_content_def)
  have "filter (\<lambda>g. fg_items g \<noteq> []) (map (\<lambda>(i, g). fact_group_of i g)
      (enumerate k (concat (map (\<lambda>s. map (\<lambda>dl. [dl, section_content s, draw_section s, ledger, main]) (facts_of s)) us)))) =
      filter (\<lambda>g. fg_items g \<noteq> []) (map section_group us)" if "list_all section_ok us" for us k
    using that
  proof (induction us arbitrary: k)
    case (Cons s us)
    have "fact_group_of i [dl, section_content s, draw_section s, ledger, main] = section_group s" if "dl \<in> set (facts_of s)" for dl i
      using section_fact_group [OF _ that outer] Cons.prems by simp
    then have here: "map (\<lambda>(i, g). fact_group_of i g) (enumerate k (map (\<lambda>dl. [dl, section_content s, draw_section s, ledger, main]) (facts_of s))) =
        map (\<lambda>dl. section_group s) (facts_of s)"
      by (auto simp: facts_of_def split: option.split)
    have "fg_items (section_group s) = []" if "ls_facts s = None" using that by (simp add: section_group_def item_texts_def)
    then have "filter (\<lambda>g. fg_items g \<noteq> []) (map (\<lambda>dl. section_group s) (facts_of s)) = filter (\<lambda>g. fg_items g \<noteq> []) [section_group s]"
      by (cases "ls_facts s") (simp_all add: facts_of_def)
    with Cons.IH [of "k + length (facts_of s)"] Cons.prems show ?case
      by (simp add: enumerate_append_eq here)
  qed simp
  from this [OF assms(1), of 0] show ?thesis unfolding collectFactGroups_def main_def [symmetric] query .
qed

definition sample_section :: ledger_section where
  "sample_section = \<lparr>ls_id = js ''r1'', ls_title = js ''Profile'', ls_subtitle = None, ls_facts = Some [(js ''Agent'', [plain ''CODE'' [TextNode (js ''a1'')]])],
     ls_children = [], ls_class = []\<rparr>"

theorem report_facts_as_shown_witness:
  "collectFactGroups [main_content ([] @ [DetailLedger (map draw_section [sample_section]) []] @ [])] =
     filter (\<lambda>g. fg_items g \<noteq> []) (map section_group [sample_section])"
proof -
  have trims: "trim (js ''detail-ledger-section '') = js ''detail-ledger-section''" "trim (js ''detail-ledger '') = js ''detail-ledger''"
    by (simp_all add: js_def trim_def is_white_space_def)
  have "list_all (\<lambda>c. \<not> is_white_space c) (js ''Profile'')" by (simp add: js_def is_white_space_def)
  then have "normalized_text (js ''Profile'') \<noteq> []" by (simp add: normalized_solid)
  then have "section_ok sample_section"
    by (simp add: section_ok_def sample_section_def draw_section_def DetailLedgerSection_def trims has_class_single name_simps)
  moreover have "\<not> is_facts (DetailLedger [] [])" by (simp add: DetailLedger_def trims has_class_single name_simps)
  ultimately show ?thesis by (intro report_facts_as_shown) simp_all
qed

text \<open>
  C30. The chart of the overview is in the report as its tables show it: one trend under the title of the frame, of
  the selected period, with every time that is shown as a category, once, and as its four series the counts of
  events, alerts, open and closed incidents; a category without a row has no value, and of two rows whose times are
  written alike the later one is printed.
\<close>

theorem report_trend_as_shown:
  assumes "list_all (quiet is_activity) children" "list_all (quiet is_activity) before" "list_all (quiet is_activity) rest"
    and "list_all (\<lambda>k. normalized_text (t k []) \<noteq> []) [''overview.detectionActivity'', ''overview.events'', ''overview.alerts'', ''overview.incidents'']"
    and "activity_ok formatDate events alerts incidents" "events \<noteq> [] \<or> alerts \<noteq> [] \<or> incidents \<noteq> []"
  shows "\<exists>tr. collectTrends [main_content (before @ [activity_block dp t formatDate titleId children events alerts incidents] @ rest)] = [tr] \<and>
    DashboardReportTrend.tr_title tr = normalized_text (t ''overview.detectionActivity'' []) \<and> tr_scope tr = SelectedPeriod \<and>
    distinct (tr_categories tr) \<and>
    set (tr_categories tr) = formatDate ` (tsp_bucketStartAt ` set events \<union> tsp_bucketStartAt ` set alerts \<union> itp_bucketStartAt ` set incidents) \<and>
    map ts_values (tr_series tr) = map (\<lambda>f. map f (tr_categories tr))
      [last_count (\<lambda>r. formatDate (tsp_bucketStartAt r)) tsp_count (sortByBucket dp tsp_bucketStartAt events),
       last_count (\<lambda>r. formatDate (tsp_bucketStartAt r)) tsp_count (sortByBucket dp tsp_bucketStartAt alerts),
       last_count (\<lambda>r. formatDate (itp_bucketStartAt r)) itp_openCount (sortByBucket dp itp_bucketStartAt incidents),
       last_count (\<lambda>r. formatDate (itp_bucketStartAt r)) itp_closedCount (sortByBucket dp itp_bucketStartAt incidents)]"
proof -
  define ts where "ts = activity_tables dp t formatDate events alerts incidents"
  define data where "data = trend_data (map source_of ts)"
  define tr where "tr = \<lparr>DashboardReportTrend.tr_title = normalized_text (t ''overview.detectionActivity'' []), tr_categories = fst data, tr_series = snd data,
    tr_scope = SelectedPeriod\<rparr>"
  have categories: "set (fst data) = formatDate ` (tsp_bucketStartAt ` set events \<union> tsp_bucketStartAt ` set alerts \<union> itp_bucketStartAt ` set incidents)"
    unfolding data_def ts_def by (rule activity_categories [OF assms(5)])
  note series = activity_series [OF assms(5), of dp t, folded ts_def, folded data_def]
  have "fst data \<noteq> []"
  proof
    assume "fst data = []"
    with categories assms(6) show False by simp
  qed
  moreover have "snd data \<noteq> []" using series by auto
  moreover have "list_all (\<lambda>(c, hs, rows). normalized_text c \<noteq> []) ts" using assms(4) by (simp add: ts_def activity_tables_def)
  ultimately have "collectTrends [main_content (before @ [activity_block dp t formatDate titleId children events alerts incidents] @ rest)] = [tr]"
    using activity_trends [OF assms(1,2,3), of t dp formatDate events alerts incidents titleId] assms(4)
    by (simp add: ts_def [symmetric] data_def [symmetric] tr_def Let_def)
  moreover have "distinct (fst data)" using trend_series_aligned [of "map source_of ts"] by (simp add: data_def)
  ultimately show ?thesis using categories series by (intro exI [of _ tr]) (simp add: tr_def)
qed

theorem report_trend_as_shown_witness:
  "\<exists>tr. collectTrends [main_content ([] @ [activity_block (\<lambda>s. None) (\<lambda>k ps. js k) (\<lambda>s. s) (js ''r1'') []
        [\<lparr>tsp_bucketStartAt = js ''10:00'', tsp_count = 3\<rparr>] [] []] @ [])] = [tr] \<and> map ts_values (tr_series tr) \<noteq> []"
proof -
  have solid: "list_all (\<lambda>c. \<not> is_white_space c) (js ''overview.detectionActivity'')" "list_all (\<lambda>c. \<not> is_white_space c) (js ''overview.events'')"
    "list_all (\<lambda>c. \<not> is_white_space c) (js ''overview.alerts'')" "list_all (\<lambda>c. \<not> is_white_space c) (js ''overview.incidents'')"
    "list_all (\<lambda>c. \<not> is_white_space c) (js ''10:00'')"
    by (simp_all add: js_def is_white_space_def)
  have "clean_text (js ''10:00'') = js ''10:00''"
    unfolding clean_text_def normalized_solid [OF solid(5)] by (simp add: js_def trim_def is_sort_arrow_def is_white_space_def)
  then have "activity_ok (\<lambda>s. s) [\<lparr>tsp_bucketStartAt = js ''10:00'', tsp_count = 3\<rparr>] [] []" by (simp add: activity_ok_def)
  then show ?thesis
    using report_trend_as_shown [of "[]" "[]" "[]" "\<lambda>k ps. js k" "\<lambda>s. s" "[\<lparr>tsp_bucketStartAt = js ''10:00'', tsp_count = 3\<rparr>]" "[]" "[]"
        "\<lambda>s. None" "js ''r1''"] solid
    by (fastforce simp: normalized_solid)
qed

section \<open>The builder of a dashboard\<close>





section \<open>The panel of the chart\<close>

text \<open>
  The panel draws nothing that the report takes for a table of the chart, so that it may stand in the frame whose
  tables are read.
\<close>

lemma activity_panel_quiet: "quiet is_activity (activity_panel t format timezone labels model bounds selected)"
proof -
  have series: "quiet is_activity (current_value none latest (i, label))" for none latest i label
  proof -
    have "js ''series-'' @ (case at_index [js ''events'', js ''alerts'', js ''incidents''] i of Some k \<Rightarrow> k | None \<Rightarrow> js ''undefined'') \<in>
        {js ''series-events'', js ''series-alerts'', js ''series-incidents'', js ''series-undefined''}"
      by (simp add: at_index_def js_append [symmetric] less_Suc_eq numeral_3_eq_3 nth_Cons' split: option.split)
    moreover have "\<not> has_class (Element tag c as ns) ''detection-activity-tables''"
      if "c \<in> {js ''series-events'', js ''series-alerts'', js ''series-incidents'', js ''series-undefined''}" for tag c as ns
      using that by (auto simp: has_class_single name_simps)
    ultimately show ?thesis by (simp add: current_value_def)
  qed
  have bucket: "quiet is_activity (bucket_option format ts)" for ts by (simp add: bucket_option_def)
  have "list_all (quiet is_activity) (map (current_value none latest) es)" for none latest es
    using series by (auto simp: list_all_iff simp del: matches_any_simps)
  moreover have "list_all (quiet is_activity) (map (bucket_option format) ts)" for ts
    using bucket by (auto simp: list_all_iff simp del: matches_any_simps)
  ultimately show ?thesis
    by (auto simp: activity_panel_def Let_def has_class_single name_simps split: option.split)
qed

text \<open>
  C27. The chart follows its panel: whenever a rendering is done there is exactly one chart while there is activity to
  draw, it has the options of the labels, the data and the theme that are shown, and it alone is resized by the
  window and by the printing; without activity there is none, at most the first option that is given animates and none
  when motion is to be reduced; and when the panel goes, the chart, its listeners and its observer go.
\<close>

theorem chart_follows_panel:
  assumes "reachable_panel doc p"
  shows "(case cp_input p of
       None \<Rightarrow> cp_live p = [] \<and> cp_listeners p = []
     | Some i \<Rightarrow>
         if hasDomain i
         then \<exists>n a. cp_chart p = Some n \<and> cp_live p = [n] \<and> cp_listeners p = [(''resize'', n), (''beforeprint'', n), (''afterprint'', n)] \<and>
           map_get (cp_options p) n =
             Some (chart_option_of a (pd_styles doc (in_theme i)) (pd_clientHeight doc) (in_labels i) (in_model i))
         else cp_chart p = None \<and> cp_live p = [] \<and> cp_listeners p = []) \<and>
    list_all Not (tl (cp_animations p)) \<and> (pd_reduced_motion doc \<longrightarrow> list_all Not (cp_animations p)) \<and>
    cp_live (unmount_panel p) = [] \<and> cp_listeners (unmount_panel p) = [] \<and> cp_observers (unmount_panel p) = []"
proof -
  have inv: "panel_inv doc p" by (rule reachable_panel_inv [OF assms])
  have gone: "no_chart (unmount_panel p)" by (rule unmount_no_chart [OF assms])
  from inv have "animation_inv doc p" by (simp add: panel_inv_def)
  then have animations: "list_all Not (tl (cp_animations p)) \<and> (pd_reduced_motion doc \<longrightarrow> list_all Not (cp_animations p))"
    by (simp add: animation_inv_def)
  have "case cp_input p of
       None \<Rightarrow> cp_live p = [] \<and> cp_listeners p = []
     | Some i \<Rightarrow>
         if hasDomain i
         then \<exists>n a. cp_chart p = Some n \<and> cp_live p = [n] \<and> cp_listeners p = [(''resize'', n), (''beforeprint'', n), (''afterprint'', n)] \<and>
           map_get (cp_options p) n =
             Some (chart_option_of a (pd_styles doc (in_theme i)) (pd_clientHeight doc) (in_labels i) (in_model i))
         else cp_chart p = None \<and> cp_live p = [] \<and> cp_listeners p = []"
    using inv by (auto simp: panel_inv_def chart_inv_def one_chart_def no_chart_def chart_listeners_def current_option_def split: option.splits if_splits)
  with animations gone show ?thesis by (simp add: no_chart_def)
qed

definition sample_document :: panel_document where
  "sample_document = \<lparr>pd_observes = True, pd_reduced_motion = False, pd_styles = (\<lambda>theme name. []), pd_clientHeight = 300\<rparr>"

definition sample_input :: panel_input where
  "sample_input = \<lparr>in_labels = [js ''Events''], in_labels_revision = 0,
     in_model = \<lparr>da_domain = Some (0, 3600000), da_timestamps = [0, 3600000],
       da_series = [\<lparr>ds_key = EVENTS_SERIES, ds_points = [(0, Some 2), (3600000, None)]\<rparr>]\<rparr>, in_model_revision = 0, in_theme = DARK\<rparr>"

theorem chart_follows_panel_witness:
  "cp_live (unmount_panel (commit_panel sample_document sample_input mount_panel)) = [] \<and>
   cp_live (commit_panel sample_document sample_input mount_panel) = [0]"
proof -
  have "reachable_panel sample_document (commit_panel sample_document sample_input mount_panel)"
    by (rule reachable_panel.step [OF reachable_panel.mounted panel_step.render])
      (simp_all add: same_objects_def mount_panel_def times_ok_def sample_input_def)
  from chart_follows_panel [OF this]
  have "cp_live (unmount_panel (commit_panel sample_document sample_input mount_panel)) = []" by simp
  moreover have "cp_live (commit_panel sample_document sample_input mount_panel) = [0]"
    by (simp add: commit_panel_def mount_panel_def domain_changed_def option_changed_def dispose_chart_def keep_selection_effect_def make_chart_def
        option_effect_def hasDomain_def sample_input_def Let_def)
  ultimately show ?thesis by simp
qed

end
