(* ===== verification/InvestigationGraph.thy ===== *)
theory InvestigationGraph
  imports GraphLayout IncidentWorkbench
begin

text \<open>
  The graph of an incident (\<open>components/IncidentGraph.tsx\<close>) with its nodes and edges, and the stage around it
  (\<open>components/IncidentInvestigation.tsx\<close>): a click selects what was clicked, and what is selected is marked.
\<close>

section \<open>Nodes and edges\<close>

fun node_type_class :: "InvestigationNodeType \<Rightarrow> jsstring" where
  "node_type_class INCIDENT_NODE = js ''incident''"
| "node_type_class ALERT_NODE = js ''alert''"
| "node_type_class EVENT_NODE = js ''event''"
| "node_type_class PROCESS_NODE = js ''process''"
| "node_type_class DESTINATION_NODE = js ''destination''"

definition investigation_node :: "positions \<Rightarrow> InvestigationSelection option \<Rightarrow> InvestigationNodeDto \<Rightarrow> graph_node" where
  "investigation_node positions selection node =
     \<lparr>gn_id = inode_nodeId node, gn_position = position_or_origin positions (inode_nodeId node),
      gn_type = node_type_name (inode_nodeType node), gn_text = inode_label node,
      gn_ariaLabel = node_type_name (inode_nodeType node) @ js '': '' @ inode_label node,
      gn_className = js ''investigation-node node-'' @ node_type_class (inode_nodeType node),
      gn_selected = (selection = Some (SelectedNode (inode_nodeId node)))\<rparr>"

text \<open>The contract has one kind of evidence.\<close>

definition edge_evidence :: "InvestigationEdgeDto \<Rightarrow> jsstring" where
  "edge_evidence edge = js ''OBSERVED''"

record investigation_edge =
  ie_id :: jsstring
  ie_source :: jsstring
  ie_target :: jsstring
  ie_label :: jsstring
  ie_ariaLabel :: jsstring
  ie_selected :: bool

definition investigation_edge_of :: "text_for \<Rightarrow> InvestigationSelection option \<Rightarrow> InvestigationEdgeDto \<Rightarrow> investigation_edge" where
  "investigation_edge_of t selection edge =
     (let relation = t (relationLabel (iedge_relation edge)) []
      in \<lparr>ie_id = iedge_edgeId edge, ie_source = iedge_sourceNodeId edge, ie_target = iedge_targetNodeId edge, ie_label = relation,
          ie_ariaLabel = relation @ js '', '' @ edge_evidence edge, ie_selected = (selection = Some (SelectedEdge (iedge_edgeId edge)))\<rparr>)"

definition IncidentGraph ::
  "text_for \<Rightarrow> dagre_layout \<Rightarrow> IncidentInvestigationDto \<Rightarrow> InvestigationSelection option \<Rightarrow> graph_node list \<times> investigation_edge list" where
  "IncidentGraph t dagre investigation selection =
     (map (investigation_node (layoutInvestigationNodes dagre investigation) selection) (inv_nodes investigation),
      map (investigation_edge_of t selection) (inv_edges investigation))"

definition onNodeClick :: "graph_node \<Rightarrow> InvestigationSelection" where "onNodeClick node = SelectedNode (gn_id node)"

definition onEdgeClick :: "investigation_edge \<Rightarrow> InvestigationSelection" where "onEdgeClick edge = SelectedEdge (ie_id edge)"

section \<open>The stage\<close>

record investigation_stage =
  st_counts :: "(InvestigationNodeType \<times> nat) list"
  st_edgeCount :: int
  st_graph :: "(graph_node list \<times> investigation_edge list) option"
  st_fallback :: "TranslationKey option"
  st_context :: selected_context

definition InvestigationStage ::
  "text_for \<Rightarrow> dagre_layout \<Rightarrow> bool \<Rightarrow> IncidentInvestigationDto \<Rightarrow> InvestigationSelection option \<Rightarrow> investigation_stage" where
  "InvestigationStage t dagre graphEnabled investigation selection =
     \<lparr>st_counts = node_counts (inv_nodes investigation), st_edgeCount = inv_edgeCount investigation,
      st_graph = (if showGraph graphEnabled investigation then Some (IncidentGraph t dagre investigation selection) else None),
      st_fallback = (if showGraph graphEnabled investigation then None else Some (fallback_title graphEnabled investigation)),
      st_context = SelectedContext investigation selection\<rparr>"

section \<open>Facts\<close>

text \<open>What is clicked is selected, marked, alone in the graph when names are not used twice, and described beside it.\<close>

lemma node_click_marks:
  assumes "distinct (map inode_nodeId (inv_nodes d))" "k < length (inv_nodes d)"
  shows "map gn_selected (fst (IncidentGraph t dagre d (Some (onNodeClick (fst (IncidentGraph t dagre d s) ! k))))) =
      map (\<lambda>j. j = k) [0..<length (inv_nodes d)]"
    and "list_all (\<lambda>e. \<not> ie_selected e) (snd (IncidentGraph t dagre d (Some (onNodeClick (fst (IncidentGraph t dagre d s) ! k)))))"
    and "SelectedContext d (Some (onNodeClick (fst (IncidentGraph t dagre d s) ! k))) = NodeContext (inv_nodes d ! k)"
proof -
  have clicked: "onNodeClick (fst (IncidentGraph t dagre d s) ! k) = SelectedNode (inode_nodeId (inv_nodes d ! k))"
    using assms(2) by (simp add: IncidentGraph_def onNodeClick_def investigation_node_def)
  have same: "inode_nodeId (inv_nodes d ! j) = inode_nodeId (inv_nodes d ! k) \<longleftrightarrow> j = k" if "j < length (inv_nodes d)" for j
    using assms that by (auto simp: distinct_conv_nth)
  show "map gn_selected (fst (IncidentGraph t dagre d (Some (onNodeClick (fst (IncidentGraph t dagre d s) ! k))))) =
      map (\<lambda>j. j = k) [0..<length (inv_nodes d)]"
    unfolding clicked by (rule nth_equalityI) (auto simp: IncidentGraph_def investigation_node_def same eq_commute [of "inode_nodeId (inv_nodes d ! k)"])
  show "list_all (\<lambda>e. \<not> ie_selected e) (snd (IncidentGraph t dagre d (Some (onNodeClick (fst (IncidentGraph t dagre d s) ! k)))))"
    unfolding clicked by (simp add: IncidentGraph_def investigation_edge_of_def list_all_iff Let_def)
  have "List.find (\<lambda>n. inode_nodeId n = inode_nodeId (inv_nodes d ! k)) (inv_nodes d) = Some (inv_nodes d ! k)"
    using assms(2) same by (auto simp: find_Some_iff intro!: exI [of _ k])
  then show "SelectedContext d (Some (onNodeClick (fst (IncidentGraph t dagre d s) ! k))) = NodeContext (inv_nodes d ! k)"
    unfolding clicked by (simp add: SelectedContext_def selectedNode_def)
qed

lemma edge_click_marks:
  assumes "distinct (map iedge_edgeId (inv_edges d))" "k < length (inv_edges d)"
  shows "map ie_selected (snd (IncidentGraph t dagre d (Some (onEdgeClick (snd (IncidentGraph t dagre d s) ! k))))) =
      map (\<lambda>j. j = k) [0..<length (inv_edges d)]"
    and "list_all (\<lambda>n. \<not> gn_selected n) (fst (IncidentGraph t dagre d (Some (onEdgeClick (snd (IncidentGraph t dagre d s) ! k)))))"
proof -
  have clicked: "onEdgeClick (snd (IncidentGraph t dagre d s) ! k) = SelectedEdge (iedge_edgeId (inv_edges d ! k))"
    using assms(2) by (simp add: IncidentGraph_def onEdgeClick_def investigation_edge_of_def Let_def)
  have same: "iedge_edgeId (inv_edges d ! j) = iedge_edgeId (inv_edges d ! k) \<longleftrightarrow> j = k" if "j < length (inv_edges d)" for j
    using assms that by (auto simp: distinct_conv_nth)
  show "map ie_selected (snd (IncidentGraph t dagre d (Some (onEdgeClick (snd (IncidentGraph t dagre d s) ! k))))) =
      map (\<lambda>j. j = k) [0..<length (inv_edges d)]"
    unfolding clicked by (rule nth_equalityI) (auto simp: IncidentGraph_def investigation_edge_of_def Let_def same eq_commute [of "iedge_edgeId (inv_edges d ! k)"])
  show "list_all (\<lambda>n. \<not> gn_selected n) (fst (IncidentGraph t dagre d (Some (onEdgeClick (snd (IncidentGraph t dagre d s) ! k)))))"
    unfolding clicked by (simp add: IncidentGraph_def investigation_node_def list_all_iff)
qed

text \<open>The stage shows the graph or says why not, and the counts of the legend add up to the nodes.\<close>

lemma stage_complete:
  "(st_graph (InvestigationStage t dagre enabled d s) = None) = (st_fallback (InvestigationStage t dagre enabled d s) \<noteq> None)"
  "sum_list (map snd (st_counts (InvestigationStage t dagre enabled d s))) = length (inv_nodes d)"
proof -
  show "(st_graph (InvestigationStage t dagre enabled d s) = None) = (st_fallback (InvestigationStage t dagre enabled d s) \<noteq> None)"
    by (simp add: InvestigationStage_def)
  have "sum_list (map snd (node_counts ns)) = length ns" for ns
  proof (induction ns)
    case (Cons n ns)
    then show ?case by (cases "inode_nodeType n") (simp_all add: node_counts_def NODE_TYPES_def)
  qed (simp add: node_counts_def NODE_TYPES_def)
  then show "sum_list (map snd (st_counts (InvestigationStage t dagre enabled d s))) = length (inv_nodes d)"
    by (simp add: InvestigationStage_def)
qed

end
