(* ===== verification/Spec2Isabelle.thy ===== *)
theory Spec2Isabelle
  imports LayoutRefinement SessionProperties EvidenceProperties ReportProperties ConsoleProperties PageProperties WidgetProperties MarkupProperties InvestigationGraph
begin

text \<open>
  A verification library for the web console of the OWLBY EDR platform (\<open>src/frontend/src\<close>, TypeScript).
  The console signs a user in, asks the HTTP API for events, alerts, incidents, topologies and pipeline
  states, shows them in queues, graphs and charts, and lets every user arrange own dashboards, which it
  keeps in the browser's storage.

  \<^bold>\<open>Parts and theories.\<close>  Each theory models the files it names in the order of the code, with the
  names of the code where the logic allows them, and ends with the facts about them.

  \<^item> \<open>Prelude\<close>: strings as lists of UTF-16 code units, insertion-ordered maps and sets, the stable sort
    with a comparison function (locales \<open>insertion_map\<close>, \<open>comparator\<close>, \<open>signed_comparator\<close>), the errors
    a call may throw.  \<open>JsNumber\<close>, \<open>Json\<close>, \<open>JsDate\<close>: the numbers of the language with their infinities and
    not-a-number, \<open>JSON.parse\<close> and \<open>JSON.stringify\<close>, dates and time stamps.  \<open>BrowserStorage\<close>: the storage
    of a tab, which may be blocked or full (locale \<open>string_storage\<close>).  \<open>UrlSearchParams\<close>: the parameters of
    an address with their encoding (locale \<open>parameter_list\<close>).
  \<^item> \<open>OverviewLayoutModel\<close>, \<open>OverviewLayoutStorage\<close>, \<open>OverviewLayoutContext\<close>, \<open>DashboardBuilder\<close>
    (\<open>features/overviewLayout\<close>): the catalogue of widgets, the bitmap of the grid (locale
    \<open>grid_occupancy\<close>) and the search for a free place; normalisation of what is stored; the provider
    with its four operations (locale \<open>layout_operation\<close>); the builder and the workspace with every
    handler as a step relation.
  \<^item> \<open>Contracts\<close> (\<open>api/generated/schema.ts\<close>, \<open>contracts.ts\<close>, \<open>query/policy.ts\<close>): the transfer types.
    \<open>NavigationUrl\<close> (\<open>lib/url.ts\<close>, \<open>lib/params.ts\<close>, \<open>lib/endpointIds.ts\<close>, \<open>components/filters.tsx\<close>,
    \<open>features/listInteractions.ts\<close>): parameters of the pages.  \<open>ApiClient\<close> (\<open>api/client.ts\<close>,
    \<open>api/endpoints.ts\<close>): requests, envelopes, errors and the catalogue of the API.  \<open>AuthSession\<close>
    (\<open>auth/AuthContext.tsx\<close>): the session with its effects, timers and late answers as events in any order.
  \<^item> \<open>ProcessTree\<close> (\<open>features/processTree.ts\<close>), \<open>Investigation\<close> (\<open>features/incidentInvestigation.ts\<close>,
    \<open>features/alertTriage.ts\<close>, \<open>features/eventPresentation.ts\<close>), \<open>Intelligence\<close>
    (\<open>features/intelligenceOperations.ts\<close>), \<open>ChartModel\<close> (\<open>features/overview/overviewChartModel.ts\<close>),
    \<open>GraphLayout\<close> (\<open>components/TopologyGraph.tsx\<close>, \<open>components/CorrelationGraph.tsx\<close>,
    \<open>components/IncidentGraph.tsx\<close>): the evidence the console shows.
  \<^item> \<open>TranslationTables\<close>, \<open>Localization\<close> (\<open>i18n\<close>, \<open>lib/format.ts\<close>, \<open>theme/ThemeProvider.tsx\<close>): both
    tables of texts, templates, texts of detections, formatting and the theme.
  \<^item> \<open>DomTree\<close>, \<open>ReportCollection\<close>, \<open>ReportDocument\<close> (\<open>features/dashboardReport.tsx\<close>,
    \<open>config/branding.ts\<close>): the page as a tree of elements with the selectors the report uses, the snapshot
    collected from it, and the sheets, summaries and charts printed from the snapshot.
  \<^item> \<open>ConsoleControls\<close> (\<open>features/overview/EndpointScopePicker.tsx\<close>, \<open>components/EndpointSwitcher.tsx\<close>,
    \<open>components/primitives.tsx\<close>, \<open>components/ui.tsx\<close>): the pickers of an endpoint under keys, clicks and late
    answers (locale \<open>option_cursor\<close>), the focus of dialogs, the links between pages of a list.
    \<open>ConsoleShell\<close> (\<open>components/AppShell.tsx\<close>): navigation, search, language, breadcrumbs and report of the frame.
    \<open>EvidenceViews\<close> (\<open>components/ProcessTree.tsx\<close>, \<open>components/charts.tsx\<close>,
    \<open>features/overview/DetectionActivityPanel.tsx\<close>): the process tree and the charts as they are drawn.
    \<open>Distribution\<close> (\<open>features/overview/AlertSeverityDonut.tsx\<close>,
    \<open>features/overview/FleetDistributionPanel.tsx\<close>): shares and totals of the overview.
  \<^item> The pages (\<open>pages\<close>), each with its requests, its handlers and what it shows of its queries.  \<open>ListPages\<close>: the lists
    of events, alerts, incidents and endpoints, which share one contract (locale \<open>list_page\<close>: the filters of a page,
    what it accepts and what it sends).  \<open>OperationsPages\<close>: the feedback of a query, the archives, the operations.
    \<open>DetailPages\<close>: the triage of an alert, an incident with its timeline, an event, an endpoint, the sign in, and what a
    saved change does to the cached lists.  \<open>IntelligenceWorkspace\<close>: the topology workspace as a step relation, its
    inspector and the search of correlations.  \<open>IncidentWorkbench\<close> (\<open>components/IncidentInvestigation.tsx\<close>): the inspector
    and the table of an investigation.  \<open>OverviewPages\<close> (\<open>pages/OverviewPage.tsx\<close>, \<open>App.tsx\<close>): the overview and the routes.
    \<open>OverviewWidgets\<close> (\<open>features/overview/OverviewDashboard.tsx\<close>, \<open>features/overview/InvestigationQueues.tsx\<close>): the widgets with their
    links.  \<open>CorrelationViews\<close>: the correlation workspace and the MITRE matrix of the intelligence page.  \<open>PayloadViewer\<close>
    (\<open>components/RawPayloadViewer.tsx\<close>): the text of a payload and the search in it.
  \<^item> What is drawn, as trees of the document.  \<open>Markup\<close> (\<open>components/primitives.tsx\<close>): buttons, fields, tooltips, the popover with its
    listeners, dialogs and drawers; the contract of an element that encloses others (locale \<open>enclosing\<close>: it leaves no reference to a
    label or a description open) has an instance for each of them.  \<open>ConsoleMarkup\<close> (\<open>components/ui.tsx\<close>, \<open>components/charts.tsx\<close>): panels, cards, tables,
    ledgers, feedback and the other elements the pages are made of.  \<open>MarkupReport\<close>: how the selectors of the report find these
    elements in a page.  \<open>DetectionPanel\<close> (\<open>features/overview/DetectionActivityPanel.tsx\<close>): the chart of the overview with its options, its effects as a
    step relation, its drawing and its tips.  \<open>InvestigationGraph\<close> (\<open>components/IncidentGraph.tsx\<close>): the graph of an incident and its clicks.
    \<open>WorkspaceMarkup\<close> (\<open>features/overviewLayout/OverviewDashboardWorkspace.tsx\<close>, \<open>features/overview/OverviewDashboard.tsx\<close>): the grid, the builder with its
    palette, the management and the dialogs, the overview with its blocks, and the media query that enables editing.
    \<open>OverviewMarkup\<close> (\<open>features/overview/AlertSeverityDonut.tsx\<close>, \<open>FleetDistributionPanel.tsx\<close>, \<open>InvestigationQueues.tsx\<close>): the ring of
    severities, the fleet and the two queues, and that the report reads the ring and the ranking as they are shown.  \<open>ShellMarkup\<close> (\<open>components/AppShell.tsx\<close>,
    \<open>components/ServiceMark.tsx\<close>): the frame around a page with its navigation, its bar and the report; it leaves no reference open, has one \<open>main\<close>
    element and links every page once.

  \<^bold>\<open>Properties.\<close>  \<open>LayoutProperties\<close>: whatever the storage holds and whatever the user does, dashboards
  are well formed, survive a reload and find the nearest free place.  \<open>LayoutRefinement\<close>: the provider refines an
  abstract book of dashboards under every sequence of operations and reloads.  \<open>SessionProperties\<close>: storage, memory
  and client agree on the session, late answers do nothing, a request has exactly one outcome, addresses
  read back.  \<open>EvidenceProperties\<close>: trees, groups and views lose nothing, labels do not collide, canvases
  are high enough.  \<open>ReportProperties\<close>: the report shows everything the page shows, once, within its sheets.
  \<open>ConsoleProperties\<close>: pickers choose what is listed, dialogs restore the page, both process
  trees agree, charts stay in their frames, distributions add up.  \<open>PageProperties\<close>: a list sends what its address shows, its controls
  keep the address acceptable, links between pages open, triage clears a queue, restores stay in their scope, and a
  page is always in one of the states of its query.  \<open>WidgetProperties\<close>: the numbers of the overview link to the lists of what they
  count, and the payload of an event is searched and copied exactly.  \<open>MarkupProperties\<close>: what is drawn refers only to what is drawn, the report
  reads numbers, facts and trends as the page shows them, the builder offers what is missing and saves when it says so, and the chart follows its panel and leaves nothing behind.  This theory: every text exists in both languages and the theme is kept.

  \<^bold>\<open>Arguments.\<close>  Code outside the repository is an argument of the definitions that use it: \<open>fetch\<close>, the
  parser of dates, \<open>localeCompare\<close>, \<open>toLowerCase\<close>, \<open>toUpperCase\<close>, \<open>Intl.DateTimeFormat\<close>, \<open>tldts\<close>, \<open>dagre\<close>, \<open>getBezierPath\<close>,
  the icons, the identifiers of \<open>useId\<close>, the computed style sheet and the format of a date.
  The query client of the pages is one too: the states of a query it documents are the hypothesis \<open>documented_state\<close>,
  and \<open>documented_invalidate\<close> is what it documents of invalidated queries.
  Coordinates and numbers are rationals: the arithmetic of the modelled code stays on small integers, halves
  and tenths, and rounding of doubles is not modelled.  There is no fuel: recursive definitions have their
  termination proofs.

  \<^bold>\<open>Not modelled.\<close>  Styles, and the markup of the pages around the elements that are modelled, which carries no
  state of its own; constants of the options handed to the chart and graph libraries; the Python service, the
  agents and the deployment, which are other programs behind the API.
\<close>

section \<open>Language and theme\<close>





text \<open>
  However the theme was loaded, set and toggled, the class, the colour scheme and the meta elements
  of the document show the theme of the state; toggling twice shows the first one again; and if the storage
  can be written, the next page load shows the chosen theme.
\<close>

lemma theme_shown_and_kept:
  assumes "reachable_theme p" "storage_writable (tp_storage p)"
  shows "theme_inv p \<and> tp_theme (toggleTheme (toggleTheme p)) = tp_theme p \<and>
    (\<forall>theme d. tp_theme (mount_theme (tp_storage (setTheme theme p)) d) = theme)"
  using reachable_theme_inv [OF assms(1)] setTheme_stored [OF assms(2)]
  by (cases "tp_theme p") (simp_all add: toggleTheme_def setTheme_def mount_theme_def Let_def)

end
